(* ===== verification/Prelude.thy ===== *)
theory Prelude
  imports Main "HOL-Library.Multiset" "HOL-Library.Char_ord" "HOL-Library.List_Lexorder"
begin

text \<open>
  Shared vocabulary of the development: results of fallible Go functions, first-error
  loops, tables of a relational store as row lists, and the generic lemmas on them.

  A Go function returning \<open>(T, error)\<close> is a function into \<open>'e + 'a\<close>; one returning
  only \<open>error\<close> is a function into \<open>'e option\<close> (\<open>None\<close> is nil). Go strings are byte
  sequences, so \<open>string\<close> is read as a list of bytes and \<open>length\<close> is \<open>len\<close>.
\<close>

named_theorems result_simps "unfolding rules for results of fallible functions"
named_theorems table_simps "rules for the row-list tables of the store"

type_synonym ('e, 'a) result = "'e + 'a"

section \<open>Results\<close>

definition bindR :: "'e + 'a \<Rightarrow> ('a \<Rightarrow> 'e + 'b) \<Rightarrow> 'e + 'b" where
  "bindR r f = (case r of Inl e \<Rightarrow> Inl e | Inr x \<Rightarrow> f x)"

lemma bindR_Inl [simp, result_simps]: "bindR (Inl e) f = Inl e"
  by (simp add: bindR_def)

lemma bindR_Inr [simp, result_simps]: "bindR (Inr x) f = f x"
  by (simp add: bindR_def)

lemma bindR_eq_Inr [result_simps]: "bindR r f = Inr y \<longleftrightarrow> (\<exists>x. r = Inr x \<and> f x = Inr y)"
  by (cases r) (auto simp: bindR_def)

lemma bindR_cong [fundef_cong]:
  "r = r' \<Longrightarrow> (\<And>x. r' = Inr x \<Longrightarrow> f x = g x) \<Longrightarrow> bindR r f = bindR r' g"
  by (cases r') (auto simp: bindR_def)

text \<open>
  \<open>failIf c e r\<close> is the guard \<open>if c { return e }\<close> before the rest \<open>r\<close>;
  \<open>failE e r\<close> is \<open>if err := e; err != nil { return err }\<close> before \<open>r\<close>.
\<close>

definition failIf :: "bool \<Rightarrow> 'e \<Rightarrow> 'e + 'a \<Rightarrow> 'e + 'a" where
  "failIf c e r = (if c then Inl e else r)"

definition failE :: "'e option \<Rightarrow> 'e + 'a \<Rightarrow> 'e + 'a" where
  "failE e r = (case e of None \<Rightarrow> r | Some x \<Rightarrow> Inl x)"

lemma failIf_eq_Inr [result_simps]: "failIf c e r = Inr y \<longleftrightarrow> \<not> c \<and> r = Inr y"
  by (simp add: failIf_def)

lemma failE_eq_Inr [result_simps]: "failE e r = Inr y \<longleftrightarrow> e = None \<and> r = Inr y"
  by (cases e) (auto simp: failE_def)

lemma failIf_simps [simp]: "failIf True e r = Inl e" "failIf False e r = r"
  by (simp_all add: failIf_def)

lemma failE_simps [simp]: "failE (Some x) r = Inl x" "failE None r = r"
  by (simp_all add: failE_def)

text \<open>Sequencing of checks that return only an error.\<close>

definition seqE :: "'e option \<Rightarrow> 'e option \<Rightarrow> 'e option" where
  "seqE a b = (case a of None \<Rightarrow> b | Some e \<Rightarrow> Some e)"

definition guardE :: "bool \<Rightarrow> 'e \<Rightarrow> 'e option" where
  "guardE c e = (if c then Some e else None)"

fun first_err :: "('a \<Rightarrow> 'e option) \<Rightarrow> 'a list \<Rightarrow> 'e option" where
  "first_err f [] = None"
| "first_err f (x # xs) = (case f x of Some e \<Rightarrow> Some e | None \<Rightarrow> first_err f xs)"

lemma seqE_None [simp, result_simps]: "seqE a b = None \<longleftrightarrow> a = None \<and> b = None"
  by (cases a) (auto simp: seqE_def)

lemma guardE_None [simp, result_simps]: "guardE c e = None \<longleftrightarrow> \<not> c"
  by (simp add: guardE_def)

lemma first_err_None [simp, result_simps]: "first_err f xs = None \<longleftrightarrow> (\<forall>x\<in>set xs. f x = None)"
  by (induction xs) (auto split: option.splits)

lemma first_err_Some: "first_err f xs = Some e \<Longrightarrow> \<exists>x\<in>set xs. f x = Some e"
  by (induction xs) (auto split: option.splits)

section \<open>Loops that remember what they have seen\<close>

text \<open>
  The code base removes duplicates with a \<open>seen\<close> map: keep an element when its key is
  new. \<open>dedup_on\<close> is that loop; \<open>seen\<close> is the list of keys met so far.
\<close>

fun dedup_on :: "('a \<Rightarrow> 'k) \<Rightarrow> 'k list \<Rightarrow> 'a list \<Rightarrow> 'a list" where
  "dedup_on k seen [] = []"
| "dedup_on k seen (x # xs) =
     (if k x \<in> set seen then dedup_on k seen xs
      else x # dedup_on k (k x # seen) xs)"

lemma set_dedup_on_subset: "set (dedup_on k seen xs) \<subseteq> set xs"
  by (induction xs arbitrary: seen) auto

lemma dedup_on_keys:
  "k ` set (dedup_on k seen xs) = k ` set xs - set seen"
  by (induction xs arbitrary: seen) auto

lemma distinct_dedup_on: "distinct (map k (dedup_on k seen xs))"
proof (induction xs arbitrary: seen)
  case Nil
  then show ?case by simp
next
  case (Cons x xs)
  have "k x \<notin> k ` set (dedup_on k (k x # seen) xs)"
    by (simp add: dedup_on_keys)
  with Cons.IH show ?case by simp
qed

lemma length_dedup_on: "length (dedup_on k seen xs) \<le> length xs"
  by (induction xs arbitrary: seen) (auto intro: le_SucI)

lemma sorted_dedup_on:
  "sorted_wrt P xs \<Longrightarrow> sorted_wrt P (dedup_on k seen xs)"
proof (induction xs arbitrary: seen)
  case Nil
  then show ?case by simp
next
  case (Cons x xs)
  have "\<forall>y\<in>set (dedup_on k (k x # seen) xs). P x y"
    using Cons.prems set_dedup_on_subset [of k "k x # seen" xs] by auto
  with Cons show ?case by simp
qed

section \<open>Tables\<close>

text \<open>
  A table is the list of its rows in rowid order. \<open>update_where\<close> is \<open>UPDATE ... SET ...
  WHERE\<close>, \<open>delete_where\<close> is \<open>DELETE ... WHERE\<close>, and \<open>count_where\<close> the number of
  rows a statement affects (\<open>RowsAffected\<close>).
\<close>

definition update_where :: "('r \<Rightarrow> bool) \<Rightarrow> ('r \<Rightarrow> 'r) \<Rightarrow> 'r list \<Rightarrow> 'r list" where
  "update_where p f t = map (\<lambda>r. if p r then f r else r) t"

definition delete_where :: "('r \<Rightarrow> bool) \<Rightarrow> 'r list \<Rightarrow> 'r list" where
  "delete_where p t = filter (\<lambda>r. \<not> p r) t"

definition count_where :: "('r \<Rightarrow> bool) \<Rightarrow> 'r list \<Rightarrow> nat" where
  "count_where p t = length (filter p t)"

lemma set_update_where [table_simps]:
  "set (update_where p f t) = (\<lambda>r. if p r then f r else r) ` set t"
  by (simp add: update_where_def)

lemma set_delete_where [table_simps]: "set (delete_where p t) = {r \<in> set t. \<not> p r}"
  by (auto simp: delete_where_def)

lemma map_update_where:
  "(\<And>r. p r \<Longrightarrow> k (f r) = k r) \<Longrightarrow> map k (update_where p f t) = map k t"
  by (auto simp: update_where_def)

lemma update_where_id: "(\<And>r. r \<in> set t \<Longrightarrow> \<not> p r) \<Longrightarrow> update_where p f t = t"
  by (induction t) (auto simp: update_where_def)

lemma distinct_delete_where:
  "distinct (map k t) \<Longrightarrow> distinct (map k (delete_where p t))"
  by (simp add: delete_where_def distinct_map_filter)

lemma count_where_0 [table_simps]: "count_where p t = 0 \<longleftrightarrow> (\<forall>r\<in>set t. \<not> p r)"
  by (auto simp: count_where_def filter_empty_conv)

lemma count_where_Nil [simp]: "count_where p [] = 0"
  by (simp add: count_where_def)

lemma count_where_Cons [simp]:
  "count_where p (r # t) = (if p r then Suc (count_where p t) else count_where p t)"
  by (simp add: count_where_def)

lemma count_where_append [simp]:
  "count_where p (t @ u) = count_where p t + count_where p u"
  by (simp add: count_where_def)

lemma count_where_update:
  "count_where q (update_where p f t) =
     count_where (\<lambda>r. if p r then q (f r) else q r) t"
  by (induction t) (auto simp: update_where_def)

lemma list_ex_update_where:
  "(\<And>r. p r \<Longrightarrow> q (f r) = q r) \<Longrightarrow> list_ex q (update_where p f t) = list_ex q t"
  by (induction t) (auto simp: update_where_def)

lemma count_where_cong:
  "(\<And>r. r \<in> set t \<Longrightarrow> p r = q r) \<Longrightarrow> count_where p t = count_where q t"
  by (induction t) auto

lemma count_where_mono:
  "(\<And>r. r \<in> set t \<Longrightarrow> p r \<Longrightarrow> q r) \<Longrightarrow> count_where p t \<le> count_where q t"
  by (induction t) (auto intro: le_SucI)

lemma count_where_delete: "count_where q (delete_where p t) = count_where (\<lambda>r. q r \<and> \<not> p r) t"
  by (induction t) (auto simp: delete_where_def)

text \<open>
  \<open>upsert k m r\<close> is \<open>INSERT ... ON CONFLICT(k) DO UPDATE\<close>: \<open>m old r\<close> is the row that replaces a
  conflicting row \<open>old\<close>. \<open>insert_ignore k r\<close> is \<open>INSERT OR IGNORE\<close> with the unique key \<open>k\<close>.
\<close>

definition upsert :: "('r \<Rightarrow> 'k) \<Rightarrow> ('r \<Rightarrow> 'r \<Rightarrow> 'r) \<Rightarrow> 'r \<Rightarrow> 'r list \<Rightarrow> 'r list" where
  "upsert k m r t =
     (if list_ex (\<lambda>x. k x = k r) t then update_where (\<lambda>x. k x = k r) (\<lambda>x. m x r) t else t @ [r])"

definition insert_ignore :: "('r \<Rightarrow> 'k) \<Rightarrow> 'r \<Rightarrow> 'r list \<Rightarrow> 'r list" where
  "insert_ignore k r t = (if list_ex (\<lambda>x. k x = k r) t then t else t @ [r])"

lemma set_insert_ignore [table_simps]:
  "(\<And>x. k x = k r \<Longrightarrow> x = r) \<Longrightarrow> set (insert_ignore k r t) = insert r (set t)"
  by (auto simp: insert_ignore_def list_ex_iff)

lemma distinct_insert_ignore:
  "distinct (map k t) \<Longrightarrow> distinct (map k (insert_ignore k r t))"
  by (auto simp: insert_ignore_def list_ex_iff)

lemma map_upsert:
  assumes "\<And>x. k x = k r \<Longrightarrow> k (m x r) = k r"
  shows "map k (upsert k m r t) = (if k r \<in> k ` set t then map k t else map k t @ [k r])"
proof (cases "list_ex (\<lambda>x. k x = k r) t")
  case True
  then have "k r \<in> k ` set t" by (auto simp: list_ex_iff image_iff) metis
  moreover have "map k (update_where (\<lambda>x. k x = k r) (\<lambda>x. m x r) t) = map k t"
    by (rule map_update_where) (simp add: assms)
  ultimately show ?thesis using True by (simp add: upsert_def)
next
  case False
  then have "k r \<notin> k ` set t" by (auto simp: list_ex_iff image_iff)
  with False show ?thesis by (simp add: upsert_def)
qed

lemma distinct_upsert:
  assumes "\<And>x. k x = k r \<Longrightarrow> k (m x r) = k r" "distinct (map k t)"
  shows "distinct (map k (upsert k m r t))"
  using assms(2) by (simp add: map_upsert [of k r m, OF assms(1)])

lemma keys_upsert:
  assumes "\<And>x. k x = k r \<Longrightarrow> k (m x r) = k r"
  shows "k ` set (upsert k m r t) = insert (k r) (k ` set t)"
  using arg_cong [OF map_upsert [of k r m t, OF assms], of set] by auto

lemma set_upsert_other:
  "k x \<noteq> k r \<Longrightarrow> (\<And>y. k y = k r \<Longrightarrow> k (m y r) = k r) \<Longrightarrow> x \<in> set (upsert k m r t) \<longleftrightarrow> x \<in> set t"
  by (auto simp: upsert_def set_update_where)

text \<open>The row a query with a unique key selects.\<close>

lemma find_unique:
  assumes "distinct (map k t)" and "r \<in> set t"
  shows "find (\<lambda>x. k x = k r) t = Some r"
  using assms by (induction t) (auto simp: image_iff)

lemma find_SomeD: "find p t = Some r \<Longrightarrow> r \<in> set t \<and> p r"
  by (induction t) (auto split: if_splits)

end
