(* ===== verification/GoStrings.thy ===== *)
theory GoStrings
  imports Prelude
begin

text \<open>
  The parts of Go's \<open>strings\<close>, \<open>unicode/utf8\<close> and \<open>strconv\<close> packages that the
  modelled code calls, on byte strings. White space is Unicode's \<open>White_Space\<close>, so a
  leading space rune has one, two or three bytes. Case mapping is exact on ASCII strings;
  on any other string it is the table-driven mapping of the Unicode standard, which is
  passed as the parameter \<open>U\<close>.
\<close>

definition byte :: "char \<Rightarrow> nat" where
  "byte c = of_char c"

section \<open>White space\<close>

fun space_prefix :: "string \<Rightarrow> nat" where
  "space_prefix [] = 0"
| "space_prefix (c # s) =
     (if byte c \<in> {9, 10, 11, 12, 13, 32} then 1
      else case s of
        [] \<Rightarrow> 0
      | d # s' \<Rightarrow>
         (if byte c = 0xC2 \<and> byte d \<in> {0x85, 0xA0} then 2
          else case s' of
            [] \<Rightarrow> 0
          | e # _ \<Rightarrow>
             (if byte c = 0xE1 \<and> byte d = 0x9A \<and> byte e = 0x80 \<or>
                 byte c = 0xE2 \<and> byte d = 0x80 \<and>
                   (0x80 \<le> byte e \<and> byte e \<le> 0x8A \<or> byte e \<in> {0xA8, 0xA9, 0xAF}) \<or>
                 byte c = 0xE2 \<and> byte d = 0x81 \<and> byte e = 0x9F \<or>
                 byte c = 0xE3 \<and> byte d = 0x80 \<and> byte e = 0x80
              then 3 else 0)))"

lemma space_prefix_le: "space_prefix s \<le> length s"
  by (cases s rule: space_prefix.cases) (auto split: list.splits)

function trim_left :: "string \<Rightarrow> string" where
  "trim_left s = (if space_prefix s = 0 then s else trim_left (drop (space_prefix s) s))"
  by pat_completeness auto
termination
proof (relation "measure length", goal_cases)
  case 1
  show ?case by simp
next
  case (2 s)
  then show ?case using space_prefix_le [of s] by simp
qed

declare trim_left.simps [simp del]

definition space_suffix :: "string \<Rightarrow> nat" where
  "space_suffix s =
     (let n = length s in
      if 1 \<le> n \<and> space_prefix (drop (n - 1) s) = 1 then 1
      else if 2 \<le> n \<and> space_prefix (drop (n - 2) s) = 2 then 2
      else if 3 \<le> n \<and> space_prefix (drop (n - 3) s) = 3 then 3
      else 0)"

lemma space_suffix_le: "space_suffix s \<le> length s"
  by (simp add: space_suffix_def Let_def)

function trim_right :: "string \<Rightarrow> string" where
  "trim_right s =
     (if space_suffix s = 0 then s else trim_right (take (length s - space_suffix s) s))"
  by pat_completeness auto
termination
proof (relation "measure length", goal_cases)
  case 1
  show ?case by simp
next
  case (2 s)
  then show ?case using space_suffix_le [of s] by simp
qed

declare trim_right.simps [simp del]

definition TrimSpace :: "string \<Rightarrow> string" where
  "TrimSpace s = trim_right (trim_left s)"

text \<open>\<open>strings.Fields\<close>: maximal runs of non-space bytes; \<open>cur\<close> is the run being read.\<close>

function fields_loop :: "string \<Rightarrow> string \<Rightarrow> string list" where
  "fields_loop cur s =
     (if s = [] then (if cur = [] then [] else [cur])
      else if space_prefix s = 0 then fields_loop (cur @ [hd s]) (tl s)
      else (if cur = [] then [] else [cur]) @ fields_loop [] (drop (space_prefix s) s))"
  by pat_completeness auto
termination
proof (relation "measure (\<lambda>(cur, s). length s)", goal_cases)
  case 1
  show ?case by simp
next
  case (2 cur s)
  then show ?case by (cases s) auto
next
  case (3 cur s)
  then show ?case using space_prefix_le [of s] by simp
qed

declare fields_loop.simps [simp del]

definition Fields :: "string \<Rightarrow> string list" where
  "Fields s = fields_loop [] s"

lemma fields_loop_nonempty: "w \<in> set (fields_loop cur s) \<Longrightarrow> w \<noteq> []"
proof (induction cur s rule: fields_loop.induct)
  case (1 cur s)
  show ?case
    using "1.prems" "1.IH"
    by (subst (asm) fields_loop.simps) (auto split: if_splits)
qed

lemma trim_left_suffix: "\<exists>p. s = p @ trim_left s"
proof (induction s rule: trim_left.induct)
  case (1 s)
  show ?case
  proof (cases "space_prefix s = 0")
    case True
    then show ?thesis by (simp add: trim_left.simps [of s])
  next
    case False
    with 1 obtain p where "drop (space_prefix s) s = p @ trim_left (drop (space_prefix s) s)"
      by blast
    then have "s = (take (space_prefix s) s @ p) @ trim_left s"
      using False by (metis append.assoc append_take_drop_id trim_left.simps)
    then show ?thesis by blast
  qed
qed

lemma trim_right_prefix: "\<exists>q. s = trim_right s @ q"
proof (induction s rule: trim_right.induct)
  case (1 s)
  show ?case
  proof (cases "space_suffix s = 0")
    case True
    then show ?thesis by (simp add: trim_right.simps [of s])
  next
    case False
    let ?t = "take (length s - space_suffix s) s"
    from 1 False obtain q where "?t = trim_right ?t @ q" by blast
    then have "s = trim_right s @ (q @ drop (length s - space_suffix s) s)"
      using False by (metis append.assoc append_take_drop_id trim_right.simps)
    then show ?thesis by blast
  qed
qed

lemma length_TrimSpace: "length (TrimSpace s) \<le> length s"
  unfolding TrimSpace_def
  using trim_left_suffix [of s] trim_right_prefix [of "trim_left s"]
  by (metis length_append le_add1 le_add2 le_trans)

lemma TrimSpace_Nil [simp]: "TrimSpace [] = []"
  using length_TrimSpace [of "[]"] by simp

section \<open>Case mapping\<close>

definition is_ascii :: "char \<Rightarrow> bool" where
  "is_ascii c \<longleftrightarrow> byte c < 128"

definition lower_byte :: "char \<Rightarrow> char" where
  "lower_byte c = (if 65 \<le> byte c \<and> byte c \<le> 90 then char_of (byte c + 32) else c)"

definition upper_byte :: "char \<Rightarrow> char" where
  "upper_byte c = (if 97 \<le> byte c \<and> byte c \<le> 122 then char_of (byte c - 32) else c)"

definition ToLower :: "(string \<Rightarrow> string) \<Rightarrow> string \<Rightarrow> string" where
  "ToLower U s = (if list_all is_ascii s then map lower_byte s else U s)"

definition ToUpper :: "(string \<Rightarrow> string) \<Rightarrow> string \<Rightarrow> string" where
  "ToUpper U s = (if list_all is_ascii s then map upper_byte s else U s)"

lemma byte_lower_byte:
  "byte (lower_byte c) = (if 65 \<le> byte c \<and> byte c \<le> 90 then byte c + 32 else byte c)"
  by (simp add: lower_byte_def byte_def)

lemma lower_byte_idem [simp]: "lower_byte (lower_byte c) = lower_byte c"
  using byte_lower_byte [of c] by (auto simp: lower_byte_def [of "lower_byte c"])

lemma is_ascii_lower_byte: "is_ascii c \<Longrightarrow> is_ascii (lower_byte c)"
  by (simp add: is_ascii_def byte_lower_byte)

lemma ToLower_ascii_idem:
  "list_all is_ascii s \<Longrightarrow> ToLower U (ToLower V s) = ToLower V s"
  by (auto simp: ToLower_def list_all_iff is_ascii_lower_byte)

section \<open>Searching and splitting\<close>

definition HasPrefix :: "string \<Rightarrow> string \<Rightarrow> bool" where
  "HasPrefix s p \<longleftrightarrow> take (length p) s = p"

definition HasSuffix :: "string \<Rightarrow> string \<Rightarrow> bool" where
  "HasSuffix s p \<longleftrightarrow> length p \<le> length s \<and> drop (length s - length p) s = p"

fun Contains :: "string \<Rightarrow> string \<Rightarrow> bool" where
  "Contains [] p = (p = [])"
| "Contains (c # s) p = (HasPrefix (c # s) p \<or> Contains s p)"

definition TrimPrefix :: "string \<Rightarrow> string \<Rightarrow> string" where
  "TrimPrefix s p = (if HasPrefix s p then drop (length p) s else s)"

text \<open>\<open>strings.Split\<close> and \<open>strings.Cut\<close> with a one-byte separator.\<close>

fun Split :: "string \<Rightarrow> char \<Rightarrow> string list" where
  "Split [] c = [[]]"
| "Split (a # s) c =
     (if a = c then [] # Split s c
      else case Split s c of w # ws \<Rightarrow> (a # w) # ws | [] \<Rightarrow> [[a]])"

definition Cut :: "string \<Rightarrow> char \<Rightarrow> string \<times> string \<times> bool" where
  "Cut s c =
     (if c \<in> set s
      then (takeWhile (\<lambda>a. a \<noteq> c) s, tl (dropWhile (\<lambda>a. a \<noteq> c) s), True)
      else (s, [], False))"

fun Join :: "string list \<Rightarrow> string \<Rightarrow> string" where
  "Join [] sep = []"
| "Join [w] sep = w"
| "Join (w # v # ws) sep = w @ sep @ Join (v # ws) sep"

lemma Split_nonempty [simp]: "Split s c \<noteq> []"
  by (induction s) (auto split: list.splits)

lemma Join_eq_Nil: "Join us sep = [] \<Longrightarrow> us = [] \<or> hd us = []"
  by (induction us sep rule: Join.induct) auto

lemma Join_Split: "Join (Split s c) [c] = s"
proof (induction s)
  case Nil
  then show ?case by simp
next
  case (Cons a s)
  obtain w ws where ws: "Split s c = w # ws"
    using Split_nonempty by (cases "Split s c") auto
  with Cons show ?case
    by (cases ws) auto
qed

lemma Split_no_sep: "c \<notin> set w \<Longrightarrow> Split w c = [w]"
  by (induction w) auto

lemma Split_append: "c \<notin> set w \<Longrightarrow> Split (w @ c # s) c = w # Split s c"
  by (induction w) auto

lemma Cut_append: "c \<notin> set w \<Longrightarrow> Cut (w @ c # s) c = (w, s, True)"
proof -
  assume "c \<notin> set w"
  then have "takeWhile (\<lambda>a. a \<noteq> c) (w @ c # s) = w" "dropWhile (\<lambda>a. a \<noteq> c) (w @ c # s) = c # s"
    by (induction w) auto
  then show ?thesis by (simp add: Cut_def)
qed

lemma Cut_no_sep: "c \<notin> set w \<Longrightarrow> Cut w c = (w, [], False)"
  by (simp add: Cut_def)

lemma Cut_cases:
  obtains "c \<notin> set s" "Cut s c = (s, [], False)"
  | a b where "s = a @ c # b" "c \<notin> set a" "Cut s c = (a, b, True)"
proof (cases "c \<in> set s")
  case True
  then obtain a b where "s = a @ c # b" "c \<notin> set a" by (metis split_list_first)
  then show ?thesis using Cut_append that(2) by metis
next
  case False
  then show ?thesis using Cut_no_sep that(1) by metis
qed

lemma Split_Join:
  "ws \<noteq> [] \<Longrightarrow> (\<And>w. w \<in> set ws \<Longrightarrow> c \<notin> set w) \<Longrightarrow> Split (Join ws [c]) c = ws"
  by (induction ws "[c]" rule: Join.induct) (auto simp: Split_no_sep Split_append)

lemma Join_inj:
  assumes "ws \<noteq> []" "vs \<noteq> []"
    and "\<And>w. w \<in> set ws \<Longrightarrow> c \<notin> set w" "\<And>w. w \<in> set vs \<Longrightarrow> c \<notin> set w"
    and "Join ws [c] = Join vs [c]"
  shows "ws = vs"
  using assms Split_Join by metis

section \<open>UTF-8\<close>

text \<open>
  \<open>decode_size s\<close> is what \<open>utf8.DecodeRuneInString\<close> reports for the first rune of a
  non-empty \<open>s\<close>: its width and whether it is well formed (an ill-formed byte has width 1).
\<close>

definition cont :: "nat \<Rightarrow> bool" where
  "cont b \<longleftrightarrow> 0x80 \<le> b \<and> b \<le> 0xBF"

definition decode_size :: "string \<Rightarrow> nat \<times> bool" where
  "decode_size s =
     (let b = (\<lambda>i. if i < length s then byte (s ! i) else 0) in
      if b 0 < 0x80 then (1, True)
      else if 0xC2 \<le> b 0 \<and> b 0 \<le> 0xDF \<and> cont (b 1) then (2, True)
      else if (b 0 = 0xE0 \<and> 0xA0 \<le> b 1 \<and> b 1 \<le> 0xBF \<or>
               (0xE1 \<le> b 0 \<and> b 0 \<le> 0xEC \<or> b 0 = 0xEE \<or> b 0 = 0xEF) \<and> cont (b 1) \<or>
               b 0 = 0xED \<and> 0x80 \<le> b 1 \<and> b 1 \<le> 0x9F) \<and> cont (b 2) then (3, True)
      else if (b 0 = 0xF0 \<and> 0x90 \<le> b 1 \<and> b 1 \<le> 0xBF \<or>
               0xF1 \<le> b 0 \<and> b 0 \<le> 0xF3 \<and> cont (b 1) \<or>
               b 0 = 0xF4 \<and> 0x80 \<le> b 1 \<and> b 1 \<le> 0x8F) \<and> cont (b 2) \<and> cont (b 3) then (4, True)
      else (1, False))"

lemma decode_size_pos: "1 \<le> fst (decode_size s)"
  by (simp add: decode_size_def Let_def)

function rune_sizes :: "string \<Rightarrow> (nat \<times> bool) list" where
  "rune_sizes s =
     (if s = [] then []
      else decode_size s # rune_sizes (drop (fst (decode_size s)) s))"
  by pat_completeness auto
termination
proof (relation "measure length", goal_cases)
  case 1
  show ?case by simp
next
  case (2 s)
  then show ?case using decode_size_pos [of s] by simp
qed

declare rune_sizes.simps [simp del]

definition RuneCount :: "string \<Rightarrow> nat" where
  "RuneCount s = length (rune_sizes s)"

definition ValidString :: "string \<Rightarrow> bool" where
  "ValidString s = list_all snd (rune_sizes s)"

lemma rune_sizes_Nil [simp]: "rune_sizes [] = []"
  by (simp add: rune_sizes.simps)

lemma ValidString_Nil [simp]: "ValidString []"
  by (simp add: ValidString_def)

lemma RuneCount_le_length: "RuneCount s \<le> length s"
  unfolding RuneCount_def
proof (induction s rule: rune_sizes.induct)
  case (1 s)
  show ?case
  proof (cases "s = []")
    case True
    then show ?thesis by simp
  next
    case False
    with 1 have "length (rune_sizes (drop (fst (decode_size s)) s)) \<le> length s - fst (decode_size s)"
      by simp
    with False decode_size_pos [of s] show ?thesis
      by (subst rune_sizes.simps) (simp, cases s, auto)
  qed
qed

text \<open>Cutting bytes off the end until the rest is well formed.\<close>

function chop_invalid :: "string \<Rightarrow> string" where
  "chop_invalid s = (if ValidString s then s else chop_invalid (butlast s))"
  by pat_completeness auto
termination
proof (relation "measure length", goal_cases)
  case 1
  show ?case by simp
next
  case (2 s)
  then show ?case by (cases s) auto
qed

declare chop_invalid.simps [simp del]

lemma ValidString_chop_invalid: "ValidString (chop_invalid s)"
proof (induction s rule: chop_invalid.induct)
  case (1 s)
  then show ?case by (cases "ValidString s") (auto simp: chop_invalid.simps [of s])
qed

lemma chop_invalid_prefix: "\<exists>q. s = chop_invalid s @ q"
proof (induction s rule: chop_invalid.induct)
  case (1 s)
  show ?case
  proof (cases "ValidString s")
    case True
    then show ?thesis by (simp add: chop_invalid.simps [of s])
  next
    case False
    then have "s \<noteq> []" by auto
    from 1 False obtain q where "butlast s = chop_invalid (butlast s) @ q" by blast
    then have "s = chop_invalid s @ (q @ [last s])"
      using False \<open>s \<noteq> []\<close> by (metis append.assoc append_butlast_last_id chop_invalid.simps)
    then show ?thesis by blast
  qed
qed

lemma chop_invalid_longest:
  "ValidString p \<Longrightarrow> s = p @ q \<Longrightarrow> length p \<le> length (chop_invalid s)"
proof (induction s arbitrary: q rule: chop_invalid.induct)
  case (1 s)
  show ?case
  proof (cases "ValidString s")
    case True
    then show ?thesis using "1.prems" by (subst chop_invalid.simps) simp
  next
    case False
    with "1.prems" have "q \<noteq> []" by auto
    then have "butlast s = p @ butlast q"
      using "1.prems" by (simp add: butlast_append)
    with False "1.IH" "1.prems" have "length p \<le> length (chop_invalid (butlast s))" by blast
    also have "chop_invalid (butlast s) = chop_invalid s"
      using False by (subst (2) chop_invalid.simps) simp
    finally show ?thesis .
  qed
qed

text \<open>
  \<open>truncateUTF8\<close>, which the packages \<open>analysis\<close> and \<open>correlation\<close> and (as
  \<open>truncateBody\<close>) \<open>storage\<close> each define: at most \<open>limit\<close> bytes, never half a rune.
\<close>

definition truncateUTF8 :: "string \<Rightarrow> nat \<Rightarrow> string" where
  "truncateUTF8 value limit =
     (if length value \<le> limit then value else chop_invalid (take limit value))"

lemma truncateUTF8_length: "length (truncateUTF8 v n) \<le> n"
  using chop_invalid_prefix [of "take n v"]
  by (auto simp: truncateUTF8_def) (metis length_append length_take le_add1 min.bounded_iff)

lemma truncateUTF8_prefix: "\<exists>q. v = truncateUTF8 v n @ q"
  using chop_invalid_prefix [of "take n v"]
  by (auto simp: truncateUTF8_def) (metis append.assoc append_take_drop_id)

lemma truncateUTF8_valid: "n < length v \<Longrightarrow> ValidString (truncateUTF8 v n)"
  by (simp add: truncateUTF8_def ValidString_chop_invalid)

section \<open>Decimal numbers\<close>

definition digit :: "nat \<Rightarrow> char" where
  "digit d = char_of (48 + d)"

fun nat_str :: "nat \<Rightarrow> string" where
  "nat_str n = (if n < 10 then [digit n] else nat_str (n div 10) @ [digit (n mod 10)])"

declare nat_str.simps [simp del]

definition Itoa :: "int \<Rightarrow> string" where
  "Itoa i = (if i < 0 then CHR ''-'' # nat_str (nat (- i)) else nat_str (nat i))"

definition is_digit :: "char \<Rightarrow> bool" where
  "is_digit c \<longleftrightarrow> 48 \<le> byte c \<and> byte c \<le> 57"

definition digits_value :: "string \<Rightarrow> int" where
  "digits_value ds = foldl (\<lambda>v c. 10 * v + (int (byte c) - 48)) 0 ds"

text \<open>\<open>strconv.Atoi\<close>: optional sign, at least one digit, and the value fits 64 bits.\<close>

definition Atoi :: "string \<Rightarrow> int option" where
  "Atoi s =
     (let (neg, ds) = (case s of
            [] \<Rightarrow> (False, [])
          | c # r \<Rightarrow> if c = CHR ''-'' then (True, r) else if c = CHR ''+'' then (False, r)
                    else (False, s));
          v = (if neg then - digits_value ds else digits_value ds)
      in if ds \<noteq> [] \<and> list_all is_digit ds \<and> - (2 ^ 63) \<le> v \<and> v < 2 ^ 63
         then Some v else None)"

end
