(* ===== verification/ListQuery.thy ===== *)
theory ListQuery
  imports GoStrings
begin

text \<open>
  \<open>internal/query/query.go\<close>: validation of the table query parameters and of the opaque
  page cursor. \<open>url.Values\<close> is its \<open>Get\<close> function (the empty string when absent). The
  wire form of a cursor (JSON, then unpadded URL-safe base64) is a \<open>codec\<close> of library
  functions, passed as a parameter.
\<close>

record options =
  o_View :: string
  o_Query :: string
  o_Repository :: string
  o_Review :: string
  o_Quality :: string
  o_ReviewLoad :: string
  o_AnalysisStatus :: string
  o_WaitingOn :: "string list"
  o_WaitingMode :: string
  o_Sort :: string
  o_Order :: string
  o_Limit :: int
  o_Offset :: int

record cursor =
  c_Version :: int
  c_View :: string
  c_Query :: string
  c_Repository :: string
  c_Review :: string
  c_Quality :: string
  c_ReviewLoad :: string
  c_AnalysisStatus :: string
  c_WaitingOn :: string
  c_WaitingMode :: string
  c_Sort :: string
  c_Order :: string
  c_Limit :: int
  c_Offset :: int

record codec =
  json_marshal :: "cursor \<Rightarrow> string option"
  json_decode :: "string \<Rightarrow> cursor option"
  b64_encode :: "string \<Rightarrow> string"
  b64_decode :: "string \<Rightarrow> string option"

datatype query_error =
    QueryTooLong | UnsupportedView string | OrderWithoutSort | OrderRequired
  | SortOrderLengths | TooManySorts | UnsupportedSort string | DuplicateSort string | BadOrder
  | UnsupportedReview string | UnsupportedQuality string | UnsupportedReviewLoad string
  | UnsupportedAnalysisStatus string | UnsupportedParty string | DuplicateParty string
  | BadWaitingMode | WaitingModeWithoutWaiting | BadLimit
  | CursorTooLarge | CursorEncoding | CursorInvalid | CursorUnsupported | CursorMismatch
  | CursorOffset | CursorMarshal

definition allowedSorts :: "string list" where
  "allowedSorts = [''updated'', ''number'', ''repository'', ''title'', ''author'', ''churn'',
                   ''review'', ''quality'', ''review_load'']"

definition allowedReviews :: "string list" where
  "allowedReviews = [''none'', ''review_requested'', ''changes_requested'', ''approved'',
                     ''draft'', ''reviewed'']"

definition allowedQualities :: "string list" where
  "allowedQualities = [''no_concerns'', ''review_suggested'', ''strong_concerns'']"

definition allowedReviewLoads :: "string list" where
  "allowedReviewLoads = [''low'', ''medium'', ''high'']"

definition allowedAnalysisStatuses :: "string list" where
  "allowedAnalysisStatuses =
     [''available'', ''pending'', ''stale'', ''partial'', ''failed'', ''invalid'']"

definition allowedWaitingParties :: "string list" where
  "allowedWaitingParties = [''triager'', ''maintainer'', ''author'', ''external_dependency'']"

section \<open>The checks of \<open>Parse\<close>\<close>

text \<open>The loop over the sort columns, with the columns seen so far.\<close>

fun check_sorts :: "string list \<Rightarrow> string list \<Rightarrow> string list \<Rightarrow> query_error option" where
  "check_sorts seen (s # ss) (ord # os) =
     (if s \<notin> set allowedSorts then Some (UnsupportedSort s)
      else if s \<in> set seen then Some (DuplicateSort s)
      else if ord \<noteq> ''asc'' \<and> ord \<noteq> ''desc'' then Some BadOrder
      else check_sorts (s # seen) ss os)"
| "check_sorts seen _ _ = None"

definition parse_sort :: "string \<Rightarrow> string \<Rightarrow> query_error + (string \<times> string)" where
  "parse_sort sort0 order0 =
     (let sort1 = (if sort0 = [] then ''updated'' else sort0) in
      if sort1 = ''none'' then failIf (order0 \<noteq> []) OrderWithoutSort (Inr ([], order0))
      else
        let sorts = Split sort1 (CHR '','');
            order1 = (if order0 = [] then ''desc'' else order0);
            orders = Split order1 (CHR '','')
        in failIf (order0 = [] \<and> sorts \<noteq> [''updated'']) OrderRequired
          (failIf (length sorts \<noteq> length orders) SortOrderLengths
          (failIf (length sorts > length allowedSorts) TooManySorts
          (failE (check_sorts [] sorts orders)
          (Inr (sort1, order1))))))"

fun check_parties :: "string list \<Rightarrow> string list \<Rightarrow> query_error option" where
  "check_parties seen [] = None"
| "check_parties seen (p # ps) =
     (if p \<notin> set allowedWaitingParties then Some (UnsupportedParty p)
      else if p \<in> set seen then Some (DuplicateParty p)
      else check_parties (p # seen) ps)"

definition parse_waiting :: "string \<Rightarrow> query_error + string list" where
  "parse_waiting raw =
     (if raw = [] then Inr []
      else let parties = Split raw (CHR '','')
           in failE (check_parties [] parties) (Inr (sort parties)))"

definition parse_limit :: "string \<Rightarrow> query_error + int" where
  "parse_limit raw =
     (if raw = [] then Inr 50
      else case Atoi raw of
             None \<Rightarrow> Inl BadLimit
           | Some n \<Rightarrow> if n < 1 \<or> n > 100 then Inl BadLimit else Inr n)"

definition cursorFromOptions :: "options \<Rightarrow> int \<Rightarrow> cursor" where
  "cursorFromOptions o1 off = \<lparr>
     c_Version = 1, c_View = o_View o1, c_Query = o_Query o1, c_Repository = o_Repository o1,
     c_Review = o_Review o1, c_Quality = o_Quality o1, c_ReviewLoad = o_ReviewLoad o1,
     c_AnalysisStatus = o_AnalysisStatus o1, c_WaitingOn = Join (o_WaitingOn o1) '','',
     c_WaitingMode = o_WaitingMode o1, c_Sort = o_Sort o1, c_Order = o_Order o1,
     c_Limit = o_Limit o1, c_Offset = off \<rparr>"

definition decodeCursor :: "codec \<Rightarrow> string \<Rightarrow> query_error + cursor" where
  "decodeCursor K raw =
     (if length raw > 2048 then Inl CursorTooLarge
      else case b64_decode K raw of
        None \<Rightarrow> Inl CursorEncoding
      | Some body \<Rightarrow>
         (case json_decode K body of
            None \<Rightarrow> Inl CursorInvalid
          | Some c \<Rightarrow>
              if c_Version c \<noteq> 1 \<or> c_Offset c < 0 \<or> c_Offset c > 10000000
              then Inl CursorUnsupported else Inr c))"

definition NextCursor :: "codec \<Rightarrow> options \<Rightarrow> int \<Rightarrow> query_error + string" where
  "NextCursor K o1 off =
     (if off < 0 then Inl CursorOffset
      else case json_marshal K (cursorFromOptions o1 off) of
             None \<Rightarrow> Inl CursorMarshal
           | Some body \<Rightarrow> Inr (b64_encode K body))"

text \<open>\<open>Parse\<close> without its last block: everything the cursor is then compared with.\<close>

definition parse_filters :: "(string \<Rightarrow> string) \<Rightarrow> query_error + options" where
  "parse_filters v =
     (let query = TrimSpace (v ''q''); view = v ''view''; review = v ''review'';
          qual = v ''quality''; load = v ''review_load''; status = v ''analysis_status'';
          rawmode = v ''waiting_mode''
      in failIf (length query > 200) QueryTooLong
        (failIf (view \<notin> {[], ''mine'', ''hidden''}) (UnsupportedView view)
        (bindR (parse_sort (v ''sort'') (v ''order'')) (\<lambda>so.
         failIf (review \<noteq> [] \<and> review \<notin> set allowedReviews) (UnsupportedReview review)
        (failIf (qual \<noteq> [] \<and> qual \<notin> set allowedQualities) (UnsupportedQuality qual)
        (failIf (load \<noteq> [] \<and> load \<notin> set allowedReviewLoads) (UnsupportedReviewLoad load)
        (failIf (status \<noteq> [] \<and> status \<notin> set allowedAnalysisStatuses)
           (UnsupportedAnalysisStatus status)
        (bindR (parse_waiting (v ''waiting'')) (\<lambda>waiting.
         let mode = (if waiting \<noteq> [] \<and> rawmode = [] then ''any'' else rawmode) in
         failIf (mode \<notin> {[], ''any'', ''all''}) BadWaitingMode
        (failIf (waiting = [] \<and> rawmode \<noteq> []) WaitingModeWithoutWaiting
        (bindR (parse_limit (v ''limit'')) (\<lambda>lim.
         Inr \<lparr> o_View = view, o_Query = query, o_Repository = v ''repo'',
               o_Review = review, o_Quality = qual, o_ReviewLoad = load,
               o_AnalysisStatus = status, o_WaitingOn = waiting, o_WaitingMode = mode,
               o_Sort = fst so, o_Order = snd so, o_Limit = lim, o_Offset = 0 \<rparr>))))))))))))"

definition Parse :: "codec \<Rightarrow> (string \<Rightarrow> string) \<Rightarrow> query_error + options" where
  "Parse K v =
     bindR (parse_filters v) (\<lambda>o1.
       if v ''cursor'' = [] then Inr o1
       else bindR (decodeCursor K (v ''cursor'')) (\<lambda>c.
         failIf (c \<noteq> cursorFromOptions o1 (c_Offset c)) CursorMismatch
         (Inr (o1\<lparr>o_Offset := c_Offset c\<rparr>))))"

section \<open>What validated options satisfy\<close>

definition sorts_ok :: "string \<Rightarrow> string \<Rightarrow> bool" where
  "sorts_ok s ord \<longleftrightarrow>
     s = [] \<and> ord = [] \<or>
     (let ss = Split s (CHR '',''); os = Split ord (CHR '','') in
      length ss = length os \<and> distinct ss \<and> set ss \<subseteq> set allowedSorts \<and>
      set os \<subseteq> {''asc'', ''desc''})"

definition options_ok :: "options \<Rightarrow> bool" where
  "options_ok x \<longleftrightarrow>
     length (o_Query x) \<le> 200 \<and> o_View x \<in> {[], ''mine'', ''hidden''} \<and>
     sorts_ok (o_Sort x) (o_Order x) \<and>
     o_Review x \<in> insert [] (set allowedReviews) \<and>
     o_Quality x \<in> insert [] (set allowedQualities) \<and>
     o_ReviewLoad x \<in> insert [] (set allowedReviewLoads) \<and>
     o_AnalysisStatus x \<in> insert [] (set allowedAnalysisStatuses) \<and>
     sorted (o_WaitingOn x) \<and> distinct (o_WaitingOn x) \<and>
     set (o_WaitingOn x) \<subseteq> set allowedWaitingParties \<and>
     (o_WaitingOn x = [] \<longrightarrow> o_WaitingMode x = []) \<and>
     (o_WaitingOn x \<noteq> [] \<longrightarrow> o_WaitingMode x \<in> {''any'', ''all''}) \<and>
     1 \<le> o_Limit x \<and> o_Limit x \<le> 100 \<and> 0 \<le> o_Offset x \<and> o_Offset x \<le> 10000000"

lemma check_sorts_None:
  "check_sorts seen ss os = None \<Longrightarrow> length ss = length os \<Longrightarrow>
     distinct ss \<and> set ss \<inter> set seen = {} \<and> set ss \<subseteq> set allowedSorts \<and>
     set os \<subseteq> {''asc'', ''desc''}"
  by (induction seen ss os rule: check_sorts.induct) (auto split: if_splits)

lemma check_parties_None:
  "check_parties seen ps = None \<Longrightarrow>
     distinct ps \<and> set ps \<inter> set seen = {} \<and> set ps \<subseteq> set allowedWaitingParties"
  by (induction seen ps rule: check_parties.induct) (auto split: if_splits)

lemma parse_sort_ok:
  assumes "parse_sort s ord = Inr (s', ord')"
  shows "sorts_ok s' ord'"
proof (cases "(if s = [] then ''updated'' else s) = ''none''")
  case True
  with assms have "s' = []" "ord' = []" by (auto simp: parse_sort_def result_simps)
  then show ?thesis by (simp add: sorts_ok_def)
next
  case False
  with assms have "check_sorts [] (Split s' (CHR '','')) (Split ord' (CHR '','')) = None"
    "length (Split s' (CHR '','')) = length (Split ord' (CHR '',''))"
    by (auto simp only: parse_sort_def result_simps Let_def if_False sum.inject prod.inject)
  from check_sorts_None [OF this] this show ?thesis by (simp add: sorts_ok_def Let_def)
qed

lemma parse_waiting_ok:
  assumes "parse_waiting raw = Inr ws"
  shows "sorted ws \<and> distinct ws \<and> set ws \<subseteq> set allowedWaitingParties"
proof (cases "raw = []")
  case True
  with assms show ?thesis by (simp add: parse_waiting_def)
next
  case False
  with assms have "check_parties [] (Split raw (CHR '','')) = None"
    and ws: "ws = sort (Split raw (CHR '',''))"
    by (auto simp: parse_waiting_def result_simps Let_def)
  from check_parties_None [OF this(1)] show ?thesis by (simp add: ws)
qed

lemma parse_limit_ok: "parse_limit raw = Inr n \<Longrightarrow> 1 \<le> n \<and> n \<le> 100"
  by (auto simp: parse_limit_def split: if_splits option.splits)

lemma parse_filters_ok:
  assumes "parse_filters v = Inr x"
  shows "options_ok x \<and> o_Offset x = 0"
proof -
  obtain so ws lim mode where
    so: "parse_sort (v ''sort'') (v ''order'') = Inr so"
    and ws: "parse_waiting (v ''waiting'') = Inr ws"
    and lim: "parse_limit (v ''limit'') = Inr lim"
    and mode: "mode = (if ws \<noteq> [] \<and> v ''waiting_mode'' = [] then ''any'' else v ''waiting_mode'')"
      "mode \<in> {[], ''any'', ''all''}" "ws = [] \<longrightarrow> v ''waiting_mode'' = []"
    and x: "x = \<lparr> o_View = v ''view'', o_Query = TrimSpace (v ''q''), o_Repository = v ''repo'',
      o_Review = v ''review'', o_Quality = v ''quality'', o_ReviewLoad = v ''review_load'',
      o_AnalysisStatus = v ''analysis_status'', o_WaitingOn = ws, o_WaitingMode = mode,
      o_Sort = fst so, o_Order = snd so, o_Limit = lim, o_Offset = 0 \<rparr>"
    and f: "length (TrimSpace (v ''q'')) \<le> 200" "v ''view'' \<in> {[], ''mine'', ''hidden''}"
      "v ''review'' \<in> insert [] (set allowedReviews)"
      "v ''quality'' \<in> insert [] (set allowedQualities)"
      "v ''review_load'' \<in> insert [] (set allowedReviewLoads)"
      "v ''analysis_status'' \<in> insert [] (set allowedAnalysisStatuses)"
    using assms
    by (simp only: parse_filters_def Let_def result_simps sum.inject not_less
        insert_iff de_Morgan_conj not_not) blast
  have "ws \<noteq> [] \<longrightarrow> mode \<noteq> []" using mode(1) by simp
  moreover have "ws = [] \<longrightarrow> mode = []" using mode(1,3) by simp
  moreover have "sorts_ok (fst so) (snd so)" using so parse_sort_ok by (cases so) simp
  ultimately show ?thesis
    using parse_waiting_ok [OF ws] parse_limit_ok [OF lim] f mode(2)
    unfolding options_ok_def x by simp blast
qed

lemma decodeCursor_ok:
  "decodeCursor K raw = Inr c \<Longrightarrow> c_Version c = 1 \<and> 0 \<le> c_Offset c \<and> c_Offset c \<le> 10000000"
  by (auto simp: decodeCursor_def split: if_splits option.splits)

lemma Parse_eq_Inr:
  "Parse K v = Inr x \<longleftrightarrow>
     (\<exists>y. parse_filters v = Inr y \<and>
       (if v ''cursor'' = [] then x = y
        else \<exists>off. decodeCursor K (v ''cursor'') = Inr (cursorFromOptions y off) \<and>
               x = y\<lparr>o_Offset := off\<rparr>))" (is "?L = ?R")
proof
  assume ?L
  then show ?R
    by (cases "v ''cursor'' = []") (auto simp: Parse_def result_simps)
next
  have off: "c_Offset (cursorFromOptions y i) = i" for y i by (simp add: cursorFromOptions_def)
  assume ?R
  then show ?L
    by (cases "v ''cursor'' = []") (auto simp: Parse_def off)
qed

lemma Parse_offset:
  assumes "Parse K v = Inr x"
  shows "\<exists>y i. parse_filters v = Inr y \<and> x = y\<lparr>o_Offset := i\<rparr>"
proof -
  from assms obtain y where "parse_filters v = Inr y" "x = y \<or> (\<exists>i. x = y\<lparr>o_Offset := i\<rparr>)"
    unfolding Parse_eq_Inr by (cases "v ''cursor'' = []") auto
  moreover have "y = y\<lparr>o_Offset := o_Offset y\<rparr>" by simp
  ultimately show ?thesis by blast
qed

lemma cursorFromOptions_Offset [simp]:
  "c_Offset (cursorFromOptions y i) = i"
  "cursorFromOptions (y\<lparr>o_Offset := j\<rparr>) i = cursorFromOptions y i"
  by (simp_all add: cursorFromOptions_def)

text \<open>The waiting parties never contain a comma, so their joined form determines them.\<close>

lemma parties_no_comma: "w \<in> set allowedWaitingParties \<Longrightarrow> CHR '','' \<notin> set w \<and> w \<noteq> []"
  by (auto simp: allowedWaitingParties_def)

lemma Join_parties_inj:
  assumes "set ws \<subseteq> set allowedWaitingParties" "set vs \<subseteq> set allowedWaitingParties"
    and "Join ws '','' = Join vs '',''"
  shows "ws = vs"
proof -
  have nil: "Join us '','' = [] \<Longrightarrow> us = []" if "set us \<subseteq> set allowedWaitingParties" for us
    using that Join_eq_Nil [of us "'',''"] parties_no_comma list.set_sel(1) by blast
  consider "ws = []" | "vs = []" | "ws \<noteq> []" "vs \<noteq> []" by blast
  then show ?thesis
  proof cases
    case 1
    with assms(3) have "Join vs '','' = []" by simp
    with 1 nil [OF assms(2)] show ?thesis by simp
  next
    case 2
    with assms(3) have "Join ws '','' = []" by simp
    with 2 nil [OF assms(1)] show ?thesis by simp
  next
    case 3
    have "\<And>w. w \<in> set ws \<Longrightarrow> CHR '','' \<notin> set w" "\<And>w. w \<in> set vs \<Longrightarrow> CHR '','' \<notin> set w"
      using assms(1,2) parties_no_comma by blast+
    from Join_inj [OF 3 this assms(3)] show ?thesis .
  qed
qed

lemma options_ok_offset:
  "options_ok y \<Longrightarrow> 0 \<le> i \<Longrightarrow> i \<le> 10000000 \<Longrightarrow> options_ok (y\<lparr>o_Offset := i\<rparr>)"
  unfolding options_ok_def by simp

section \<open>Properties\<close>

text \<open>
  Every query that \<open>Parse\<close> accepts satisfies the documented bounds: known and
  distinct sort columns with one order each (or no sorting at all), known filter values, a
  sorted duplicate-free list of waiting parties with a mode exactly when the list is not
  empty, a limit from 1 to 100 and an offset from 0 to 10,000,000.
\<close>

theorem Parse_options_ok: "Parse K v = Inr x \<Longrightarrow> options_ok x"
proof -
  assume "Parse K v = Inr x"
  then obtain y where y: "parse_filters v = Inr y"
    and x: "if v ''cursor'' = [] then x = y
        else \<exists>off. decodeCursor K (v ''cursor'') = Inr (cursorFromOptions y off) \<and>
               x = y\<lparr>o_Offset := off\<rparr>"
    unfolding Parse_eq_Inr by blast
  from parse_filters_ok [OF y] have ok: "options_ok y" by simp
  show "options_ok x"
  proof (cases "v ''cursor'' = []")
    case True
    with x ok show ?thesis by simp
  next
    case False
    with x obtain off where "decodeCursor K (v ''cursor'') = Inr (cursorFromOptions y off)"
      and "x = y\<lparr>o_Offset := off\<rparr>" by auto
    with decodeCursor_ok options_ok_offset [OF ok] show ?thesis
      by (metis cursorFromOptions_Offset(1))
  qed
qed

text \<open>The parameters of a plain request for the first page, used by the witnesses.\<close>

definition sample_values :: "string \<Rightarrow> string" where
  "sample_values = (\<lambda>_. [])(''waiting'' := ''maintainer,author'', ''sort'' := ''churn,number'',
     ''order'' := ''desc,asc'', ''limit'' := ''20'')"

definition sample_options :: options where
  "sample_options = \<lparr> o_View = [], o_Query = [], o_Repository = [], o_Review = [], o_Quality = [],
     o_ReviewLoad = [], o_AnalysisStatus = [], o_WaitingOn = [''author'', ''maintainer''],
     o_WaitingMode = ''any'', o_Sort = ''churn,number'', o_Order = ''desc,asc'', o_Limit = 20,
     o_Offset = 0 \<rparr>"

text \<open>A codec that knows one cursor only: enough for a closed witness.\<close>

definition sample_codec :: codec where
  "sample_codec = \<lparr> json_marshal = (\<lambda>c. Some ''{}''),
     json_decode = (\<lambda>b. Some (cursorFromOptions sample_options 40)),
     b64_encode = (\<lambda>b. b), b64_decode = Some \<rparr>"

lemma sample_sort: "parse_sort ''churn,number'' ''desc,asc'' = Inr (''churn,number'', ''desc,asc'')"
  by (simp add: parse_sort_def allowedSorts_def)

lemma sample_waiting: "parse_waiting ''maintainer,author'' = Inr [''author'', ''maintainer'']"
  by (simp add: parse_waiting_def allowedWaitingParties_def less_list_code less_char_def)

lemma sample_limit: "parse_limit ''20'' = Inr 20"
  by (simp add: parse_limit_def Atoi_def is_digit_def byte_def digits_value_def)

lemma sample_parse: "parse_filters (sample_values(''cursor'' := c)) = Inr sample_options"
  by (simp add: parse_filters_def sample_values_def sample_sort sample_waiting sample_limit
      sample_options_def)

lemma sample_cursor: "sample_values(''cursor'' := []) = sample_values" "sample_values ''cursor'' = []"
  by (simp_all add: sample_values_def fun_eq_iff)

theorem Parse_options_ok_witness:
  "Parse sample_codec sample_values = Inr sample_options \<and> options_ok sample_options"
proof -
  have P: "Parse sample_codec sample_values = Inr sample_options"
    unfolding Parse_eq_Inr using sample_parse [of "[]"] by (simp add: sample_cursor)
  from P Parse_options_ok [OF P] show ?thesis by simp
qed

text \<open>A cursor for an offset of accepted options is accepted with the same parameters.\<close>

lemma cursor_accepted:
  assumes "Parse K v = Inr x" "json_marshal K (cursorFromOptions x off) = Some b"
    and "b64_decode K (b64_encode K b) = Some b" "json_decode K b = Some (cursorFromOptions x off)"
    and "0 \<le> off" "off \<le> 10000000" "length (b64_encode K b) \<le> 2048" "b64_encode K b \<noteq> []"
  shows "Parse K (v(''cursor'' := b64_encode K b)) = Inr (x\<lparr>o_Offset := off\<rparr>)"
proof -
  from assms(1) obtain y i where y: "parse_filters v = Inr y" and x: "x = y\<lparr>o_Offset := i\<rparr>"
    using Parse_offset by blast
  have "decodeCursor K (b64_encode K b) = Inr (cursorFromOptions y off)"
    using assms(3-7) by (simp add: decodeCursor_def x) (simp add: cursorFromOptions_def)
  moreover have "parse_filters (v(''cursor'' := b64_encode K b)) = Inr y"
    using y unfolding parse_filters_def by simp
  ultimately show ?thesis using assms(8) unfolding Parse_eq_Inr by (auto simp: x)
qed



text \<open>
  C2. A cursor is bound to its query: if a cursor made from validated options \<open>x\<close> is
  accepted together with other parameters, these parameters select exactly the query \<open>x\<close>
  (view, filters, waiting parties, sorting and limit), at the cursor's offset.
\<close>

theorem cursor_binds_query:
  assumes x: "options_ok x"
    and cursor: "decodeCursor K (w ''cursor'') = Inr (cursorFromOptions x off)"
      "w ''cursor'' \<noteq> []"
    and parsed: "Parse K w = Inr z"
  shows "z = x\<lparr>o_Offset := off\<rparr>"
proof -
  from parsed cursor(2) obtain y i where y: "parse_filters w = Inr y"
    and i: "decodeCursor K (w ''cursor'') = Inr (cursorFromOptions y i)"
    and z: "z = y\<lparr>o_Offset := i\<rparr>"
    unfolding Parse_eq_Inr by (simp only: if_False) blast
  from i cursor(1) have eq: "cursorFromOptions x off = cursorFromOptions y i" by simp
  then have off: "i = off" by (metis cursorFromOptions_Offset(1))
  from parse_filters_ok [OF y] have "options_ok y" by simp
  with x have "o_WaitingOn x = o_WaitingOn y"
    using eq by (intro Join_parties_inj) (simp_all only: options_ok_def, simp add: cursorFromOptions_def)
  with eq show ?thesis
    by (intro options.equality) (simp_all add: z off cursorFromOptions_def)
qed

theorem cursor_binds_query_witness:
  "\<exists>K z. Parse K (sample_values(''cursor'' := ''x'')) = Inr z \<and> z = sample_options\<lparr>o_Offset := 40\<rparr>"
proof -
  let ?w = "sample_values(''cursor'' := ''x'')"
  have ok: "options_ok sample_options" using parse_filters_ok [OF sample_parse [of "[]"]] by simp
  have dec: "decodeCursor sample_codec (?w ''cursor'') = Inr (cursorFromOptions sample_options 40)"
    by (simp add: decodeCursor_def sample_codec_def) (simp add: cursorFromOptions_def)
  from dec sample_parse have P: "Parse sample_codec ?w = Inr (sample_options\<lparr>o_Offset := 40\<rparr>)"
    unfolding Parse_eq_Inr by (simp, blast)
  have "sample_options\<lparr>o_Offset := 40\<rparr> = sample_options\<lparr>o_Offset := 40\<rparr>"
    by (rule cursor_binds_query [OF ok dec _ P]) simp
  with P show ?thesis by blast
qed

end
