(* ===== verification/GoTime.thy ===== *)
theory GoTime
  imports GoStrings
begin

text \<open>
  Instants and their stored form. A \<open>time.Time\<close> in UTC is the number of nanoseconds since
  0001-01-01T00:00:00Z, Go's zero time. The store keeps times as text:
  \<open>internal/storage/store.go\<close> \<open>formatTime\<close> writes RFC 3339 with the fraction's trailing
  zeros removed, and SQL compares these texts byte by byte. The section on the order of
  texts says when that comparison agrees with the order of the instants.
\<close>

type_synonym time = int

definition second :: int where
  "second = 1000000000"

definition minute :: int where
  "minute = 60 * second"

definition hour :: int where
  "hour = 3600 * second"

definition day :: int where
  "day = 24 * hour"

lemmas duration_defs = second_def minute_def hour_def day_def

definition IsZero :: "time \<Rightarrow> bool" where
  "IsZero t \<longleftrightarrow> t = 0"

section \<open>The calendar\<close>

text \<open>Days from 0001-01-01 to January 1 of year \<open>y\<close>, in the proleptic Gregorian calendar.\<close>

definition days_before_year :: "int \<Rightarrow> int" where
  "days_before_year y = 365 * (y - 1) + (y - 1) div 4 - (y - 1) div 100 + (y - 1) div 400"

definition leap :: "int \<Rightarrow> bool" where
  "leap y \<longleftrightarrow> y mod 4 = 0 \<and> (y mod 100 \<noteq> 0 \<or> y mod 400 = 0)"

lemma div_pred: "0 < n \<Longrightarrow> y div n = (y - 1) div n + (if n dvd y then 1 else 0)" for y n :: int
proof (cases "n dvd y")
  assume n: "0 < n"
  case True
  then obtain q where "y = n * q" by blast
  moreover have "(n * q - 1) div n = q - 1"
    using n by (intro div_pos_geq [THEN trans] int_div_pos_eq [of _ _ _ "n - 1"]) (simp_all add: algebra_simps)
  ultimately show ?thesis using n True by simp
next
  assume n: "0 < n"
  case False
  then have "0 < y mod n" using n by (metis dvd_eq_mod_eq_0 pos_mod_sign less_le)
  then have "(y - 1) div n = y div n"
    using n pos_mod_bound [OF n, of y]
    by (intro int_div_pos_eq [of _ _ _ "y mod n - 1"]) (simp_all add: algebra_simps)
  with False show ?thesis by simp
qed

lemma days_before_year_step: "days_before_year (y + 1) \<ge> days_before_year y + 365"
proof -
  have "(100 :: int) dvd y \<Longrightarrow> 4 dvd y" by (rule dvd_trans [of _ 100]) simp_all
  then show ?thesis
    using div_pred [of 4 y] div_pred [of 100 y] div_pred [of 400 y]
    unfolding days_before_year_def by (auto split: if_splits)
qed

lemma days_before_year_mono: "y \<le> z \<Longrightarrow> days_before_year y + 365 * (z - y) \<le> days_before_year z"
proof (induction z rule: int_ge_induct)
  case base
  then show ?case by simp
next
  case (step z)
  then show ?case using days_before_year_step [of z] by (simp add: algebra_simps)
qed

text \<open>The year of a day: search upwards from a lower estimate.\<close>

function year_from :: "int \<Rightarrow> int \<Rightarrow> int" where
  "year_from y d = (if days_before_year (y + 1) \<le> d then year_from (y + 1) d else y)"
  by pat_completeness auto
termination
proof (relation "measure (\<lambda>(y, d). nat (d + 1 - days_before_year y))", goal_cases)
  case 1
  show ?case by simp
next
  case (2 y d)
  then show ?case using days_before_year_step [of y] by simp
qed

declare year_from.simps [simp del]

definition year_of :: "int \<Rightarrow> int" where
  "year_of d = year_from (if d \<ge> 0 then d div 366 + 1 else d div 365 + 1) d"

lemma year_from_bounds:
  "days_before_year y \<le> d \<Longrightarrow>
     days_before_year (year_from y d) \<le> d \<and> d < days_before_year (year_from y d + 1)"
proof (induction y d rule: year_from.induct)
  case (1 y d)
  then show ?case by (cases "days_before_year (y + 1) \<le> d") (simp_all add: year_from.simps [of y])
qed

lemma year_of_bounds: "days_before_year (year_of d) \<le> d \<and> d < days_before_year (year_of d + 1)"
proof -
  have "days_before_year (if d \<ge> 0 then d div 366 + 1 else d div 365 + 1) \<le> d"
    unfolding days_before_year_def by (cases "d \<ge> 0"; simp; presburger)
  then show ?thesis unfolding year_of_def by (rule year_from_bounds)
qed

lemma year_of_mono: "c \<le> d \<Longrightarrow> year_of c \<le> year_of d"
proof (rule ccontr)
  assume "c \<le> d" "\<not> year_of c \<le> year_of d"
  then have "days_before_year (year_of d + 1) \<le> days_before_year (year_of c)"
    using days_before_year_mono [of "year_of d + 1" "year_of c"] by simp
  with year_of_bounds [of c] year_of_bounds [of d] \<open>c \<le> d\<close> show False by linarith
qed

fun month_from :: "int list \<Rightarrow> int \<Rightarrow> int \<Rightarrow> int \<times> int" where
  "month_from [] m d = (m, d)"
| "month_from (n # ns) m d = (if d < n then (m, d) else month_from ns (m + 1) (d - n))"

definition month_lengths :: "int \<Rightarrow> int list" where
  "month_lengths y = [31, if leap y then 29 else 28, 31, 30, 31, 30, 31, 31, 30, 31, 30]"

text \<open>Month (from 1) and day of the month (from 1) of the \<open>d\<close>-th day (from 0) of year \<open>y\<close>.\<close>

definition month_day :: "int \<Rightarrow> int \<Rightarrow> int \<times> int" where
  "month_day y d = (let (m, k) = month_from (month_lengths y) 1 d in (m, k + 1))"

lemma month_from_ge: "m \<le> fst (month_from ns m d)"
  by (induction ns m d rule: month_from.induct) auto

lemma month_from_mono:
  "c < d \<Longrightarrow> (case month_from ns m c of (m1, k1) \<Rightarrow> case month_from ns m d of (m2, k2) \<Rightarrow>
     m1 < m2 \<or> m1 = m2 \<and> k1 < k2)"
proof (induction ns arbitrary: m c d)
  case Nil
  then show ?case by simp
next
  case (Cons n ns)
  have "m < fst (month_from ns (m + 1) (d - n))"
    using month_from_ge [of "m + 1" ns "d - n"] by simp
  then show ?case
    using Cons.prems Cons.IH [of "c - n" "d - n" "m + 1"]
    by (auto simp: case_prod_beta)
qed

section \<open>Stored times\<close>

definition pad :: "nat \<Rightarrow> nat \<Rightarrow> string" where
  "pad k n = replicate (k - length (nat_str n)) (CHR ''0'') @ nat_str n"

definition pad_int :: "nat \<Rightarrow> int \<Rightarrow> string" where
  "pad_int k i = (if i < 0 then CHR ''-'' # pad k (nat (- i)) else pad k (nat i))"

definition trim_zeros :: "string \<Rightarrow> string" where
  "trim_zeros s = rev (dropWhile (\<lambda>c. c = CHR ''0'') (rev s))"

text \<open>Date and time to the second; \<open>n\<close> counts seconds.\<close>

definition format_seconds :: "int \<Rightarrow> string" where
  "format_seconds n =
     (let d = n div 86400; s = n mod 86400; y = year_of d;
          md = month_day y (d - days_before_year y)
      in pad_int 4 y @ ''-'' @ pad 2 (nat (fst md)) @ ''-'' @ pad 2 (nat (snd md)) @ ''T'' @
         pad 2 (nat (s div 3600)) @ '':'' @ pad 2 (nat (s mod 3600 div 60)) @ '':'' @
         pad 2 (nat (s mod 60)))"

definition format_fraction :: "int \<Rightarrow> string" where
  "format_fraction f = (if f = 0 then [] else CHR ''.'' # trim_zeros (pad 9 (nat f)))"

definition formatTime :: "time \<Rightarrow> string" where
  "formatTime t = format_seconds (t div second) @ format_fraction (t mod second) @ ''Z''"

section \<open>The order of stored times\<close>

text \<open>Fixed-width decimal digits, whose lexicographic order is the numeric order.\<close>

fun digs :: "nat \<Rightarrow> nat \<Rightarrow> string" where
  "digs 0 n = []"
| "digs (Suc k) n = digit (n div 10 ^ k) # digs k (n mod 10 ^ k)"

lemma length_digs [simp]: "length (digs k n) = k"
  by (induction k arbitrary: n) auto

lemma digit_less: "a < b \<Longrightarrow> b < 10 \<Longrightarrow> digit a < digit b"
  by (simp add: digit_def less_char_def)

lemma digs_append: "length u = length v \<Longrightarrow> (u @ x < v @ y) = (u < v \<or> u = v \<and> x < (y :: string))"
  by (induction u v rule: list_induct2) auto

lemma digs_mono: "a < b \<Longrightarrow> b < 10 ^ k \<Longrightarrow> digs k a < digs k b"
proof (induction k arbitrary: a b)
  case 0
  then show ?case by simp
next
  case (Suc k)
  have le: "a div 10 ^ k \<le> b div 10 ^ k" using Suc.prems by (simp add: div_le_mono)
  have top: "b div 10 ^ k < 10" using Suc.prems by (simp add: less_mult_imp_div_less)
  show ?case
  proof (cases "a div 10 ^ k = b div 10 ^ k")
    case True
    then have "a mod 10 ^ k < b mod 10 ^ k"
      using Suc.prems by (metis add_less_cancel_left div_mult_mod_eq)
    with True Suc.IH show ?thesis by simp
  next
    case False
    with le have "a div 10 ^ k < b div 10 ^ k" by simp
    from digit_less [OF this top] show ?thesis by simp
  qed
qed

lemma digs_snoc:
  "n < 10 ^ Suc k \<Longrightarrow> digs (Suc k) n = digs k (n div 10) @ [digit (n mod 10)]"
proof (induction k arbitrary: n)
  case 0
  then show ?case by simp
next
  case (Suc k)
  let ?m = "n mod 10 ^ Suc k"
  have "digs (Suc (Suc k)) n = digit (n div 10 ^ Suc k) # digs (Suc k) ?m" by simp
  also have "digs (Suc k) ?m = digs k (?m div 10) @ [digit (?m mod 10)]"
    by (rule Suc.IH) simp
  also have "?m div 10 = n div 10 mod 10 ^ k"
    by (simp add: mod_mult2_eq)
  also have "?m mod 10 = n mod 10"
    by (simp add: mod_mod_cancel)
  also have "n div 10 ^ Suc k = n div 10 div 10 ^ k" by (simp add: div_mult2_eq)
  finally show ?case by simp
qed

lemma digit_0 [simp]: "digit 0 = CHR ''0''"
  by (simp add: digit_def char_of_def bit_0)

lemma digs_0: "digs k 0 = replicate k (CHR ''0'')"
  by (induction k) simp_all

lemma pad_digs: "n < 10 ^ k \<Longrightarrow> 0 < k \<Longrightarrow> pad k n = digs k n"
proof (induction k arbitrary: n)
  case 0
  then show ?case by simp
next
  case (Suc k)
  show ?case
  proof (cases "n < 10")
    case True
    then have "pad (Suc k) n = digs k (n div 10) @ [digit (n mod 10)]"
      by (simp add: pad_def nat_str.simps [of n] digs_0)
    with Suc.prems show ?thesis by (simp only: digs_snoc)
  next
    case False
    with Suc.prems have k: "0 < k" by (cases k) auto
    have n: "n div 10 < 10 ^ k" using Suc.prems by (simp add: less_mult_imp_div_less)
    from False have "pad (Suc k) n = pad k (n div 10) @ [digit (n mod 10)]"
      by (simp add: pad_def nat_str.simps [of n])
    with Suc.IH [OF n k] Suc.prems show ?thesis by (simp only: digs_snoc)
  qed
qed

lemma pad_step:
  assumes "a < 10 ^ k" "b < 10 ^ k" "0 < k" "a < b \<or> a = b \<and> x < y"
  shows "pad k a @ x < pad k b @ (y :: string)"
  using assms by (auto simp: pad_digs digs_append digs_mono)

text \<open>Stored seconds have a fixed width from year 0 to 9999, and their order is chronological.\<close>

definition max_seconds :: int where
  "max_seconds = 86400 * days_before_year 10000"

lemma year_of_range: "0 \<le> d \<Longrightarrow> d < days_before_year 10000 \<Longrightarrow> 1 \<le> year_of d \<and> year_of d < 10000"
proof -
  assume d: "0 \<le> d" "d < days_before_year 10000"
  have "\<not> year_of d + 1 \<le> 1"
  proof
    assume "year_of d + 1 \<le> 1"
    then have "days_before_year (year_of d + 1) \<le> days_before_year 1"
      using days_before_year_mono [of "year_of d + 1" 1] by simp
    then show False using year_of_bounds [of d] d by (simp add: days_before_year_def)
  qed
  moreover have False if "10000 \<le> year_of d"
    using days_before_year_mono [OF that] year_of_bounds [of d] d that by simp
  ultimately have "1 \<le> year_of d" "year_of d < 10000" by force+
  then show ?thesis by simp
qed

lemma month_from_range:
  "0 \<le> d \<Longrightarrow> d \<le> 365 \<Longrightarrow> (case month_day y d of (m, k) \<Rightarrow> 1 \<le> m \<and> m \<le> 12 \<and> 1 \<le> k \<and> k \<le> 99)"
  by (simp add: month_day_def month_lengths_def)

lemma month_day_mono:
  "c < d \<Longrightarrow> fst (month_day y c) < fst (month_day y d) \<or>
     fst (month_day y c) = fst (month_day y d) \<and> snd (month_day y c) < snd (month_day y d)"
  using month_from_mono [of c d "month_lengths y" 1] by (auto simp: month_day_def case_prod_beta Let_def)

lemma doy_range: "0 \<le> d - days_before_year (year_of d) \<and> d - days_before_year (year_of d) \<le> 365"
proof -
  have "days_before_year (y + 1) \<le> days_before_year y + 366" for y
    using div_pred [of 4 y] div_pred [of 100 y] div_pred [of 400 y]
    dvd_trans [of "100 :: int" 400 y]
    unfolding days_before_year_def by (auto split: if_splits)
  from this [of "year_of d"] year_of_bounds [of d] show ?thesis by linarith
qed

text \<open>The order of the calendar fields of two different second counts.\<close>

lemma format_seconds_eq:
  "format_seconds n =
     (let d = n div 86400; s = n mod 86400; y = year_of d;
          md = month_day y (d - days_before_year y)
      in pad_int 4 y @ CHR ''-'' # pad 2 (nat (fst md)) @ CHR ''-'' # pad 2 (nat (snd md)) @
         CHR ''T'' # pad 2 (nat (s div 3600)) @ CHR '':'' # pad 2 (nat (s mod 3600 div 60)) @
         CHR '':'' # pad 2 (nat (s mod 60)))"
  by (simp add: format_seconds_def Let_def)

lemma div_mod_less:
  fixes a b n :: int
  assumes "a < b" "0 < n"
  shows "a div n < b div n \<or> a div n = b div n \<and> a mod n < b mod n"
proof (cases "a div n = b div n")
  case True
  with assms show ?thesis by (metis add_less_cancel_left mult_div_mod_eq)
next
  case False
  moreover have "a div n \<le> b div n" using assms by (simp add: zdiv_mono1)
  ultimately show ?thesis by simp
qed

lemma pad_less:
  assumes "0 \<le> a" "a < b" "b < 10 ^ k" "0 < k"
  shows "pad k (nat a) @ x < pad k (nat b) @ (y :: string)"
proof -
  have b: "nat b < 10 ^ k" using assms by (simp add: nat_less_iff)
  moreover have ab: "nat a < nat b" using assms by simp
  ultimately show ?thesis using assms(4) by (intro pad_step) (auto simp del: nat_less_eq_zless)
qed

lemma pad_eq_less: "x < y \<Longrightarrow> pad k a @ x < pad k a @ (y :: string)"
  by (simp add: digs_append)

lemma div_mult_le_int: "0 < k \<Longrightarrow> s div k * k \<le> (s :: int)"
proof -
  assume "0 < k"
  then have "0 \<le> s mod k" by (rule pos_mod_sign)
  then show "s div k * k \<le> s" by (simp add: minus_mod_eq_div_mult [symmetric])
qed

lemma int_div_below:
  fixes s :: int
  assumes "s < n * k" "0 < k"
  shows "s div k < n"
proof (rule ccontr)
  assume "\<not> s div k < n"
  then have "n * k \<le> s div k * k" using assms(2) by simp
  also have "\<dots> \<le> s" using assms(2) by (simp add: div_mult_le_int)
  finally show False using assms(1) by simp
qed

lemma clock_bounds:
  fixes s :: int
  assumes "0 \<le> s" "s < 86400"
  shows "0 \<le> s div 3600" "s div 3600 < 24" "0 \<le> s mod 3600 div 60" "s mod 3600 div 60 < 60"
    "0 \<le> s mod 60" "s mod 60 < 60"
proof -
  show "0 \<le> s div 3600" using assms(1) by (simp add: pos_imp_zdiv_nonneg_iff)
  show "s div 3600 < 24" using assms(2) by (intro int_div_below) simp_all
  have m: "0 \<le> s mod 3600" "s mod 3600 < 3600" by simp_all
  show "0 \<le> s mod 3600 div 60" using m(1) by (simp only: pos_imp_zdiv_nonneg_iff)
  show "s mod 3600 div 60 < 60" using m(2) by (intro int_div_below) simp_all
  show "0 \<le> s mod 60" "s mod 60 < 60" by simp_all
qed

lemma clock_less:
  fixes s t :: int
  assumes "0 \<le> s" "s < t" "t < 86400"
  shows "pad 2 (nat (s div 3600)) @ CHR '':'' # pad 2 (nat (s mod 3600 div 60)) @ CHR '':'' #
         pad 2 (nat (s mod 60)) @ x
       < pad 2 (nat (t div 3600)) @ CHR '':'' # pad 2 (nat (t mod 3600 div 60)) @ CHR '':'' #
         pad 2 (nat (t mod 60)) @ y"
proof -
  have mm: "s mod 3600 mod 60 = s mod 60" "t mod 3600 mod 60 = t mod 60"
    by (simp_all add: mod_mod_cancel)
  have t: "0 \<le> t" and s: "s < 86400" using assms by simp_all
  note bs = clock_bounds [OF assms(1) s] and bt = clock_bounds [OF t assms(3)]
  show ?thesis
  proof (cases "s div 3600 = t div 3600")
    case False
    with div_mod_less [OF assms(2), of 3600] have "s div 3600 < t div 3600" by simp
    then show ?thesis using bs(1) bt(2) by (intro pad_less) simp_all
  next
    case h: True
    with div_mod_less [OF assms(2), of 3600] have lt: "s mod 3600 < t mod 3600" by simp
    show ?thesis
    proof (cases "s mod 3600 div 60 = t mod 3600 div 60")
      case False
      with div_mod_less [OF lt, of 60] have "s mod 3600 div 60 < t mod 3600 div 60" by simp
      then have "pad 2 (nat (s mod 3600 div 60)) @ CHR '':'' # pad 2 (nat (s mod 60)) @ x
          < pad 2 (nat (t mod 3600 div 60)) @ CHR '':'' # pad 2 (nat (t mod 60)) @ y"
        using bs(3) bt(4) by (intro pad_less) simp_all
      then show ?thesis unfolding h by (intro pad_eq_less) simp
    next
      case m: True
      with div_mod_less [OF lt, of 60] mm have "s mod 60 < t mod 60" by simp
      then have "pad 2 (nat (s mod 60)) @ x < pad 2 (nat (t mod 60)) @ y"
        using bs(5) bt(6) by (intro pad_less) simp_all
      then show ?thesis unfolding h m by (simp add: digs_append)
    qed
  qed
qed

lemma date_less:
  fixes c d :: int
  assumes "0 \<le> c" "c < d" "d < days_before_year 10000"
  defines "mc \<equiv> month_day (year_of c) (c - days_before_year (year_of c))"
    and "md \<equiv> month_day (year_of d) (d - days_before_year (year_of d))"
  shows "pad_int 4 (year_of c) @ CHR ''-'' # pad 2 (nat (fst mc)) @ CHR ''-'' #
         pad 2 (nat (snd mc)) @ x
       < pad_int 4 (year_of d) @ CHR ''-'' # pad 2 (nat (fst md)) @ CHR ''-'' #
         pad 2 (nat (snd md)) @ y"
proof -
  have yc: "1 \<le> year_of c" and yd: "year_of d < 10000"
    using year_of_range [of c] year_of_range [of d] assms(1-3) by linarith+
  have rc: "1 \<le> fst mc" "1 \<le> snd mc" and rd: "fst md \<le> 12" "snd md \<le> 99"
    using month_from_range [of "c - days_before_year (year_of c)" "year_of c"] doy_range [of c]
      month_from_range [of "d - days_before_year (year_of d)" "year_of d"] doy_range [of d]
    by (simp_all add: mc_def md_def case_prod_beta)
  show ?thesis
  proof (cases "year_of c = year_of d")
    case False
    with year_of_mono [of c d] assms(2) have "year_of c < year_of d" by simp
    with yc yd show ?thesis unfolding pad_int_def by (simp del: append_assoc) (rule pad_less; simp)
  next
    case y: True
    from month_day_mono [of "c - days_before_year (year_of c)"
        "d - days_before_year (year_of d)" "year_of c"] assms(2) y
    have "fst mc < fst md \<or> fst mc = fst md \<and> snd mc < snd md" by (simp add: mc_def md_def)
    then have "pad 2 (nat (fst mc)) @ CHR ''-'' # pad 2 (nat (snd mc)) @ x
        < pad 2 (nat (fst md)) @ CHR ''-'' # pad 2 (nat (snd md)) @ y"
    proof
      assume "fst mc < fst md"
      with rc rd show ?thesis by (intro pad_less) simp_all
    next
      assume e: "fst mc = fst md \<and> snd mc < snd md"
      with rc rd have "pad 2 (nat (snd mc)) @ x < pad 2 (nat (snd md)) @ y"
        by (intro pad_less) simp_all
      with e show ?thesis by (simp add: digs_append)
    qed
    with y show ?thesis by (simp add: digs_append)
  qed
qed

text \<open>Two different second counts are ordered as their texts, whatever follows them.\<close>

lemma format_seconds_less:
  assumes "0 \<le> m" "m < n" "n < max_seconds"
  shows "format_seconds m @ x < format_seconds n @ y"
proof (cases "m div 86400 = n div 86400")
  case True
  have "m mod 86400 < n mod 86400" using div_mod_less [OF assms(2), of 86400] True by simp
  then have "pad 2 (nat (m mod 86400 div 3600)) @ CHR '':'' #
      pad 2 (nat (m mod 86400 mod 3600 div 60)) @ CHR '':'' # pad 2 (nat (m mod 86400 mod 60)) @ x
    < pad 2 (nat (n mod 86400 div 3600)) @ CHR '':'' #
      pad 2 (nat (n mod 86400 mod 3600 div 60)) @ CHR '':'' # pad 2 (nat (n mod 86400 mod 60)) @ y"
    by (intro clock_less) simp_all
  then show ?thesis unfolding format_seconds_eq Let_def True
    by (simp only: append_assoc append_Cons digs_append simp_thms Cons_less_Cons less_irrefl)
next
  case False
  have d: "m div 86400 < n div 86400" using div_mod_less [OF assms(2), of 86400] False by simp
  have m: "0 \<le> m div 86400" using assms(1) by (simp add: pos_imp_zdiv_nonneg_iff)
  have n: "n div 86400 < days_before_year 10000"
    using assms(3) by (intro int_div_below) (simp_all add: max_seconds_def)
  from date_less [OF m d n] show ?thesis unfolding format_seconds_eq Let_def
    by (simp only: append_assoc append_Cons)
qed

text \<open>
  Stored instants of different seconds compare as their texts. Within one second they need
  not: RFC3339Nano drops trailing zeros of the fraction, so a whole second sorts after every
  later instant of the same second.
\<close>

definition storable :: "time \<Rightarrow> bool" where
  "storable t \<longleftrightarrow> 0 \<le> t div second \<and> t div second < max_seconds"

lemma formatTime_less:
  "storable s \<Longrightarrow> storable t \<Longrightarrow> s div second < t div second \<Longrightarrow> formatTime s < formatTime t"
  unfolding formatTime_def storable_def by (rule format_seconds_less) simp_all

lemma formatTime_leD:
  assumes "storable s" "storable t" "formatTime s \<le> formatTime t"
  shows "s div second \<le> t div second"
proof (rule ccontr)
  assume "\<not> ?thesis"
  with formatTime_less [OF assms(2,1)] have "formatTime t < formatTime s" by simp
  with assms(3) show False by simp
qed

lemma formatTime_eqD:
  "storable s \<Longrightarrow> storable t \<Longrightarrow> formatTime s = formatTime t \<Longrightarrow> s div second = t div second"
  using formatTime_leD [of s t] formatTime_leD [of t s] by simp

lemma formatTime_le_second:
  assumes "storable s" "storable t" "formatTime s \<le> formatTime t"
  shows "s < t + second"
proof -
  have "s div second * second \<le> t div second * second"
    using formatTime_leD [OF assms] by (simp add: second_def)
  moreover have "s = s div second * second + s mod second" "t = t div second * second + t mod second"
    by simp_all
  moreover have "s mod second < second" "0 \<le> t mod second" by (simp_all add: second_def)
  ultimately show ?thesis by linarith
qed

end
