(* ===== verification/Failures.thy ===== *)
theory Failures
  imports GoStrings
begin

text \<open>
  Errors of the GitHub client and their classification: the error types of
  \<open>internal/githubapp/client.go\<close> and \<open>router.go\<close>, and the bounded failure metadata of
  \<open>failure.go\<close>. Durations are nanoseconds. An error value is a tree of at most one
  wrapped error per level, so \<open>errors.As\<close> and \<open>errors.Is\<close> search its unwrap chain.
\<close>

datatype operation =
    OperationDiscovery | OperationHydration | OperationProgress
  | OperationContributionEvidence | OperationPullRequestDiff

datatype profile_type = ProfileGitHubApp | ProfileFineGrainedPAT | ProfileOther string

datatype route_outcome = RouteOutcomeSelected | RouteOutcomeAdvanced | RouteOutcomeFailed

datatype failure_category =
    FailureRouteMissing | FailureRouteAmbiguous | FailureInstallationMissing
  | FailureInstallationSuspended | FailureRepositoryNotGranted | FailurePermissionMissing
  | FailureCredentialInvalid | FailurePublicCapabilityMissing | FailurePrimaryRateLimited
  | FailureSecondaryRateLimited | FailureGitHubUnavailable | FailureOperationTimeout
  | FailureOperationCanceled | FailureStorage | FailureUnknown

fun operation_text :: "operation \<Rightarrow> string" where
  "operation_text OperationDiscovery = ''discovery''"
| "operation_text OperationHydration = ''hydration''"
| "operation_text OperationProgress = ''progress''"
| "operation_text OperationContributionEvidence = ''contribution_evidence''"
| "operation_text OperationPullRequestDiff = ''pull_request_diff''"

fun profile_type_text :: "profile_type \<Rightarrow> string" where
  "profile_type_text ProfileGitHubApp = ''github_app''"
| "profile_type_text ProfileFineGrainedPAT = ''fine_grained_pat''"
| "profile_type_text (ProfileOther s) = s"

fun outcome_text :: "route_outcome \<Rightarrow> string" where
  "outcome_text RouteOutcomeSelected = ''selected''"
| "outcome_text RouteOutcomeAdvanced = ''advanced''"
| "outcome_text RouteOutcomeFailed = ''failed''"

fun category_text :: "failure_category \<Rightarrow> string" where
  "category_text FailureRouteMissing = ''route_missing''"
| "category_text FailureRouteAmbiguous = ''route_ambiguous''"
| "category_text FailureInstallationMissing = ''installation_missing''"
| "category_text FailureInstallationSuspended = ''installation_suspended''"
| "category_text FailureRepositoryNotGranted = ''repository_not_granted''"
| "category_text FailurePermissionMissing = ''permission_missing''"
| "category_text FailureCredentialInvalid = ''credential_invalid''"
| "category_text FailurePublicCapabilityMissing = ''public_capability_missing''"
| "category_text FailurePrimaryRateLimited = ''primary_rate_limited''"
| "category_text FailureSecondaryRateLimited = ''secondary_rate_limited''"
| "category_text FailureGitHubUnavailable = ''github_unavailable''"
| "category_text FailureOperationTimeout = ''operation_timeout''"
| "category_text FailureOperationCanceled = ''operation_canceled''"
| "category_text FailureStorage = ''storage''"
| "category_text FailureUnknown = ''unknown''"

section \<open>Error values\<close>

record rate_limit_error =
  rl_Reason :: string
  rl_Retries :: int
  rl_BudgetExceeded :: bool
  rl_Method :: string
  rl_Endpoint :: string
  rl_RequestID :: string
  rl_RetryAfter :: int
  rl_RateLimitResetUnix :: int
  rl_StatusCode :: int

record api_error =
  api_StatusCode :: int
  api_Method :: string
  api_Endpoint :: string
  api_RequestID :: string
  api_RetryAfter :: int
  api_RateLimitResetUnix :: int

record transport_error =
  tr_Method :: string
  tr_Endpoint :: string
  tr_TimedOut :: bool

text \<open>
  \<open>RouteFail category err refresh\<close> is \<open>*RouteFailure\<close>, \<open>Incomplete\<close> the client's
  \<open>*incompleteError\<close>, \<open>Wrapped\<close> an error made by \<open>fmt.Errorf\<close> with \<open>%w\<close>.
\<close>

datatype failure =
    RateLimit rate_limit_error
  | Api api_error
  | Transport transport_error
  | RouteFail failure_category "failure option" bool
  | Incomplete failure
  | Wrapped string failure
  | DeadlineExceeded
  | Canceled
  | Plain string

fun Unwrap :: "failure \<Rightarrow> failure option" where
  "Unwrap (RouteFail c e r) = e"
| "Unwrap (Incomplete e) = Some e"
| "Unwrap (Wrapped s e) = Some e"
| "Unwrap _ = None"

fun chain :: "failure \<Rightarrow> failure list" where
  "chain (RouteFail c e r) = RouteFail c e r # (case e of None \<Rightarrow> [] | Some x \<Rightarrow> chain x)"
| "chain (Incomplete e) = Incomplete e # chain e"
| "chain (Wrapped s e) = Wrapped s e # chain e"
| "chain e = [e]"

lemma chain_Unwrap: "chain e = e # (case Unwrap e of None \<Rightarrow> [] | Some x \<Rightarrow> chain x)"
  by (cases e) auto

fun first_some :: "('a \<Rightarrow> 'b option) \<Rightarrow> 'a list \<Rightarrow> 'b option" where
  "first_some f [] = None"
| "first_some f (x # xs) = (case f x of Some y \<Rightarrow> Some y | None \<Rightarrow> first_some f xs)"

definition as_rate_limit :: "failure \<Rightarrow> rate_limit_error option" where
  "as_rate_limit e = first_some (\<lambda>x. case x of RateLimit r \<Rightarrow> Some r | _ \<Rightarrow> None) (chain e)"

definition as_api_error :: "failure \<Rightarrow> api_error option" where
  "as_api_error e = first_some (\<lambda>x. case x of Api r \<Rightarrow> Some r | _ \<Rightarrow> None) (chain e)"

definition as_transport :: "failure \<Rightarrow> transport_error option" where
  "as_transport e = first_some (\<lambda>x. case x of Transport r \<Rightarrow> Some r | _ \<Rightarrow> None) (chain e)"

definition as_route_failure :: "failure \<Rightarrow> (failure_category \<times> bool) option" where
  "as_route_failure e =
     first_some (\<lambda>x. case x of RouteFail c _ r \<Rightarrow> Some (c, r) | _ \<Rightarrow> None) (chain e)"

definition NewRouteFailure :: "failure_category \<Rightarrow> failure option \<Rightarrow> failure" where
  "NewRouteFailure c err = RouteFail c err False"

definition newRefreshableRouteFailure :: "failure_category \<Rightarrow> failure option \<Rightarrow> failure" where
  "newRefreshableRouteFailure c err = RouteFail c err True"

definition IsIncomplete :: "failure \<Rightarrow> bool" where
  "IsIncomplete e = list_ex (\<lambda>x. case x of Incomplete _ \<Rightarrow> True | _ \<Rightarrow> False) (chain e)"

definition isCredentialFailure :: "failure \<Rightarrow> bool" where
  "isCredentialFailure e =
     (case as_route_failure e of
        None \<Rightarrow> False
      | Some (c, refresh) \<Rightarrow> c = FailureCredentialInvalid \<and> refresh)"

section \<open>Classification\<close>

fun canAdvance :: "failure_category \<Rightarrow> bool" where
  "canAdvance c =
     (c \<in> {FailureRouteMissing, FailureRouteAmbiguous, FailureInstallationMissing,
           FailureInstallationSuspended, FailureRepositoryNotGranted, FailurePermissionMissing,
           FailureCredentialInvalid, FailurePublicCapabilityMissing})"

definition classifyNonAdvanceFailure :: "failure \<Rightarrow> failure_category \<times> string \<times> string" where
  "classifyNonAdvanceFailure err =
     (let primary = (FailurePrimaryRateLimited,
            ''GitHub primary rate limit prevented collection.'',
            ''Wait for the rate-limit reset or adjust collection scheduling.'');
          secondary = (FailureSecondaryRateLimited,
            ''GitHub secondary rate limit prevented collection.'',
            ''Reduce request concurrency and retry after GitHub's limit clears.'');
          rest =
            (case as_api_error err of
               Some a \<Rightarrow> if 500 \<le> api_StatusCode a \<and> api_StatusCode a \<le> 599
                 then Some (FailureGitHubUnavailable,
                        ''GitHub was unavailable during collection.'',
                        ''Retry after GitHub service availability recovers.'')
                 else None
             | None \<Rightarrow> None);
          unavailable = (FailureGitHubUnavailable,
            ''GitHub could not be reached during collection.'',
            ''Check outbound connectivity and retry the collection.'');
          unknown = (FailureUnknown,
            ''GitHub collection failed for an unclassified reason.'',
            ''Review bounded server logs and retry the collection.'');
          other = (case rest of Some r \<Rightarrow> r | None \<Rightarrow>
                     if as_transport err \<noteq> None then unavailable else unknown)
      in case as_rate_limit err of
           Some r \<Rightarrow> if rl_Reason r = ''primary'' then primary
                     else if rl_Reason r = ''secondary'' then secondary else other
         | None \<Rightarrow> other)"

fun routeFailureDetail :: "failure_category \<Rightarrow> string" where
  "routeFailureDetail FailureRouteMissing = ''No configured route matched the repository owner.''"
| "routeFailureDetail FailureRouteAmbiguous = ''More than one route matched the repository owner.''"
| "routeFailureDetail FailureInstallationMissing =
     ''The configured installation could not be found.''"
| "routeFailureDetail FailureInstallationSuspended = ''The configured installation is suspended.''"
| "routeFailureDetail FailureRepositoryNotGranted =
     ''The profile is not granted access to the repository.''"
| "routeFailureDetail FailurePermissionMissing =
     ''The profile lacks a required GitHub permission.''"
| "routeFailureDetail FailureCredentialInvalid =
     ''The configured GitHub credential is invalid.''"
| "routeFailureDetail FailurePublicCapabilityMissing =
     ''The public route cannot provide required repository data.''"
| "routeFailureDetail _ = ''GitHub collection failed for an unclassified reason.''"

fun routeFailureRemediation :: "failure_category \<Rightarrow> string" where
  "routeFailureRemediation c =
     (if c \<in> {FailureRouteMissing, FailureRouteAmbiguous}
      then ''Correct the repository owner routing configuration.''
      else if c \<in> {FailureInstallationMissing, FailureInstallationSuspended}
      then ''Install or reactivate the GitHub App for this owner.''
      else if c = FailureRepositoryNotGranted
      then ''Grant the configured installation access to this repository.''
      else if c = FailurePermissionMissing
      then ''Grant the required GitHub App or token permissions.''
      else if c = FailureCredentialInvalid
      then ''Replace or correct the configured credential.''
      else if c = FailurePublicCapabilityMissing
      then ''Configure an authenticated profile with the required access.''
      else ''Review bounded server logs and retry the collection.'')"

record failure_metadata =
  fm_Category :: failure_category
  fm_Detail :: string
  fm_Remediation :: string
  fm_Phase :: string
  fm_Method :: string
  fm_Endpoint :: string
  fm_RequestID :: string
  fm_HTTPStatus :: int
  fm_TimedOut :: bool
  fm_RetryAfter :: int
  fm_RateLimitResetUnix :: int

definition metadata0 :: "failure_category \<Rightarrow> string \<Rightarrow> string \<Rightarrow> string \<Rightarrow> failure_metadata" where
  "metadata0 c d r p = \<lparr> fm_Category = c, fm_Detail = d, fm_Remediation = r, fm_Phase = p,
     fm_Method = [], fm_Endpoint = [], fm_RequestID = [], fm_HTTPStatus = 0, fm_TimedOut = False,
     fm_RetryAfter = 0, fm_RateLimitResetUnix = 0 \<rparr>"

definition collectionPhase :: "string \<Rightarrow> string" where
  "collectionPhase e =
     (if HasPrefix e ''/app'' \<or> HasPrefix e ''/installations'' then ''authentication''
      else if e = ''/search/issues'' then ''search''
      else if e = ''/graphql'' then ''graphql''
      else if HasPrefix e ''/users/'' then ''contributor_identity''
      else if Contains e ''/issues/'' \<and> HasSuffix e ''/timeline'' then ''progress''
      else if Contains e ''/pulls/'' \<and> HasSuffix e ''/files'' then ''pull_request_files''
      else if Contains e ''/pulls/'' \<and> (HasSuffix e ''/comments'' \<or> HasSuffix e ''/reviews'')
      then ''reviews''
      else if Contains e ''/pulls/'' \<and> HasSuffix e ''/commits'' then ''commits''
      else if HasSuffix e ''/pulls'' \<or> Contains e ''/pulls/'' then ''pull_requests''
      else if Contains e ''/contents/'' \<or> Contains e ''/git/'' then ''repository_content''
      else if HasPrefix e ''/repos/'' then ''repository''
      else ''github_request'')"

definition BoundedFailureMetadata :: "failure \<Rightarrow> failure_metadata" where
  "BoundedFailureMetadata err =
     (let (category, detail, remediation) = classifyNonAdvanceFailure err in
      if DeadlineExceeded \<in> set (chain err)
      then metadata0 FailureOperationTimeout
             ''The repository collection exceeded its operation deadline.''
             ''Retry the collection or increase the bounded refresh timeout.'' ''collection''
      else if Canceled \<in> set (chain err)
      then metadata0 FailureOperationCanceled
             ''The repository collection was canceled.''
             ''Retry the collection when the service is available.'' ''collection''
      else case as_rate_limit err of
        Some r \<Rightarrow> (metadata0 category detail remediation (collectionPhase (rl_Endpoint r)))
          \<lparr>fm_Method := rl_Method r, fm_Endpoint := rl_Endpoint r, fm_RequestID := rl_RequestID r,
           fm_HTTPStatus := rl_StatusCode r, fm_RetryAfter := rl_RetryAfter r,
           fm_RateLimitResetUnix := rl_RateLimitResetUnix r\<rparr>
      | None \<Rightarrow> (case as_api_error err of
        Some a \<Rightarrow>
          (if api_StatusCode a = 429
           then metadata0 FailureSecondaryRateLimited
                  ''GitHub secondary rate limit prevented collection.''
                  ''Reduce request concurrency and retry after GitHub's limit clears.''
                  (collectionPhase (api_Endpoint a))
           else metadata0 category detail remediation (collectionPhase (api_Endpoint a)))
          \<lparr>fm_Method := api_Method a, fm_Endpoint := api_Endpoint a,
           fm_RequestID := api_RequestID a, fm_HTTPStatus := api_StatusCode a,
           fm_RetryAfter := api_RetryAfter a, fm_RateLimitResetUnix := api_RateLimitResetUnix a\<rparr>
      | None \<Rightarrow> (case as_transport err of
        Some t \<Rightarrow> (metadata0 category detail remediation (collectionPhase (tr_Endpoint t)))
          \<lparr>fm_Method := tr_Method t, fm_Endpoint := tr_Endpoint t, fm_TimedOut := tr_TimedOut t\<rparr>
      | None \<Rightarrow> (case as_route_failure err of
        Some (c, _) \<Rightarrow> metadata0 c (routeFailureDetail c) (routeFailureRemediation c) ''routing''
      | None \<Rightarrow> metadata0 category detail remediation ''collection''))))"

section \<open>Bounds of the diagnostics\<close>

text \<open>
  Texts that the store accepts: at most 240 bytes and no line breaks or NUL
  (\<open>validRouteAttempt\<close> in \<open>internal/storage/store.go\<close>).
\<close>

definition plain_text :: "string \<Rightarrow> bool" where
  "plain_text s \<longleftrightarrow> list_all (\<lambda>c. byte c \<notin> {0, 10, 13}) s"

definition bounded_text :: "string \<Rightarrow> bool" where
  "bounded_text s \<longleftrightarrow> length s \<le> 240 \<and> plain_text s"

lemma bounded_detail: "bounded_text (routeFailureDetail c)"
  by (cases c) (simp_all add: bounded_text_def plain_text_def byte_def)

lemma bounded_remediation: "bounded_text (routeFailureRemediation c)"
  by (cases c) (simp_all add: bounded_text_def plain_text_def byte_def)

declare routeFailureDetail.simps [simp del] routeFailureRemediation.simps [simp del]
  canAdvance.simps [simp del]

definition stored_categories :: "failure_category list" where
  "stored_categories =
     [FailureRouteMissing, FailureRouteAmbiguous, FailureInstallationMissing,
      FailureInstallationSuspended, FailureRepositoryNotGranted, FailurePermissionMissing,
      FailureCredentialInvalid, FailurePublicCapabilityMissing, FailurePrimaryRateLimited,
      FailureSecondaryRateLimited, FailureGitHubUnavailable, FailureUnknown]"

lemma canAdvance_stored: "canAdvance c \<Longrightarrow> c \<in> set stored_categories"
  by (auto simp: stored_categories_def canAdvance.simps)

lemma classify_cases:
  "classifyNonAdvanceFailure err \<in>
     {(FailurePrimaryRateLimited, ''GitHub primary rate limit prevented collection.'',
       ''Wait for the rate-limit reset or adjust collection scheduling.''),
      (FailureSecondaryRateLimited, ''GitHub secondary rate limit prevented collection.'',
       ''Reduce request concurrency and retry after GitHub's limit clears.''),
      (FailureGitHubUnavailable, ''GitHub was unavailable during collection.'',
       ''Retry after GitHub service availability recovers.''),
      (FailureGitHubUnavailable, ''GitHub could not be reached during collection.'',
       ''Check outbound connectivity and retry the collection.''),
      (FailureUnknown, ''GitHub collection failed for an unclassified reason.'',
       ''Review bounded server logs and retry the collection.'')}"
  unfolding classifyNonAdvanceFailure_def Let_def by (simp split: option.split)

lemma classify_bounded:
  assumes "classifyNonAdvanceFailure err = (c, d, r)"
  shows "c \<in> set stored_categories \<and> \<not> canAdvance c \<and> bounded_text d \<and> bounded_text r"
  using classify_cases [of err] unfolding assms
  by (elim insertE)
    (simp_all add: stored_categories_def bounded_text_def plain_text_def byte_def
      canAdvance.simps)

end
