(* ===== verification/Router.thy ===== *)
theory Router
  imports Failures
begin

text \<open>
  \<open>internal/githubapp/router.go\<close>: dispatch of a repository to the ordered credential
  profiles of its owner. A concrete client is a value \<open>'c\<close> of which the router only reads
  its profile type; what a client collects is a parameter, as is \<open>ctx.Err()\<close> after each
  attempt. Go maps are association lists in the order the range loop happens to visit them.
\<close>

record 'c client =
  cl_profileType :: profile_type
  cl_impl :: 'c

record 'c profile =
  p_Name :: string
  p_Type :: profile_type
  p_Client :: "'c client option"

record attempt =
  a_Operation :: operation
  a_Profile :: string
  a_Priority :: nat
  a_ProfileType :: profile_type
  a_Outcome :: route_outcome
  a_Failure :: "failure_category option"
  a_Detail :: string
  a_Remediation :: string
  a_Selected :: bool

datatype router_error =
    InvalidOwner string | DuplicateOwner string | NoProfiles string | InvalidProfile string
  | UnknownProfileType string | ProfileTypeMismatch string | RepeatedProfile string

type_synonym 'c routes = "(string \<times> 'c profile list) list"

section \<open>Construction\<close>

fun check_profiles :: "string \<Rightarrow> string list \<Rightarrow> 'c profile list \<Rightarrow> router_error option" where
  "check_profiles owner names [] = None"
| "check_profiles owner names (p # ps) =
     (case p_Client p of
        None \<Rightarrow> Some (InvalidProfile owner)
      | Some c \<Rightarrow>
         if p_Name p = [] then Some (InvalidProfile owner)
         else if p_Type p \<noteq> ProfileGitHubApp \<and> p_Type p \<noteq> ProfileFineGrainedPAT
         then Some (UnknownProfileType (p_Name p))
         else if cl_profileType c \<noteq> p_Type p then Some (ProfileTypeMismatch (p_Name p))
         else if p_Name p \<in> set names then Some (RepeatedProfile owner)
         else check_profiles owner (p_Name p # names) ps)"

definition canonicalOwner :: "(string \<Rightarrow> string) \<Rightarrow> string \<Rightarrow> string" where
  "canonicalOwner U owner = ToLower U (TrimSpace owner)"

fun router_loop ::
  "(string \<Rightarrow> string) \<Rightarrow> 'c routes \<Rightarrow> 'c routes \<Rightarrow> router_error + 'c routes" where
  "router_loop U copied [] = Inr copied"
| "router_loop U copied ((owner, profiles) # rs) =
     (let canonical = canonicalOwner U owner in
      failIf (canonical = [] \<or> CHR ''/'' \<in> set canonical) (InvalidOwner owner)
     (failIf (map_of copied canonical \<noteq> None) (DuplicateOwner owner)
     (failIf (profiles = []) (NoProfiles owner)
     (failE (check_profiles owner [] profiles)
     (router_loop U (copied @ [(canonical, profiles)]) rs)))))"

definition NewRouter :: "(string \<Rightarrow> string) \<Rightarrow> 'c routes \<Rightarrow> router_error + 'c routes" where
  "NewRouter U rs = router_loop U [] rs"

text \<open>The profiles of all owners in owner order, each name once.\<close>

definition Profiles :: "'c routes \<Rightarrow> 'c profile list" where
  "Profiles rs =
     dedup_on p_Name [] (concat (map (\<lambda>owner. the (map_of rs owner)) (sort (map fst rs))))"

definition owner_profiles :: "(string \<Rightarrow> string) \<Rightarrow> 'c routes \<Rightarrow> string \<Rightarrow> 'c profile list" where
  "owner_profiles U rs owner =
     (case map_of rs (ToLower U owner) of None \<Rightarrow> [] | Some ps \<Rightarrow> ps)"

section \<open>Dispatch\<close>

definition splitRepository :: "string \<Rightarrow> failure + (string \<times> string)" where
  "splitRepository repository =
     (let (owner, name, valid) = Cut repository (CHR ''/'') in
      if \<not> valid \<or> owner = [] \<or> name = [] \<or> CHR ''/'' \<in> set name
      then Inl (Plain ''repository must use owner/name'') else Inr (owner, name))"

definition attempt_selected :: "operation \<Rightarrow> nat \<Rightarrow> 'c profile \<Rightarrow> attempt" where
  "attempt_selected opn i p = \<lparr> a_Operation = opn, a_Profile = p_Name p, a_Priority = i,
     a_ProfileType = p_Type p, a_Outcome = RouteOutcomeSelected, a_Failure = None,
     a_Detail = [], a_Remediation = [], a_Selected = True \<rparr>"

definition attempt_failed ::
  "operation \<Rightarrow> nat \<Rightarrow> 'c profile \<Rightarrow> route_outcome \<Rightarrow> failure_category \<times> string \<times> string \<Rightarrow> attempt" where
  "attempt_failed opn i p outcome f = \<lparr> a_Operation = opn, a_Profile = p_Name p, a_Priority = i,
     a_ProfileType = p_Type p, a_Outcome = outcome, a_Failure = Some (fst f),
     a_Detail = fst (snd f), a_Remediation = snd (snd f), a_Selected = False \<rparr>"

definition advanceable :: "failure \<Rightarrow> failure_category option" where
  "advanceable err =
     (case as_route_failure err of
        None \<Rightarrow> None
      | Some (c, _) \<Rightarrow> if canAdvance c then Some c else None)"

text \<open>
  The loop over the profiles that \<open>routeRepositoryPhase\<close>, \<open>CollectRepositoryContribution\<close> and
  \<open>CollectPullRequestDiff\<close> share: \<open>n\<close> profiles in all, the next one at \<open>index\<close>. \<open>None\<close> is
  the \<open>panic("unreachable")\<close> after the loop.
\<close>

fun route_loop ::
  "operation \<Rightarrow> (nat \<Rightarrow> failure option) \<Rightarrow> ('c client option \<Rightarrow> failure + 'a) \<Rightarrow> nat \<Rightarrow> nat \<Rightarrow>
   attempt list \<Rightarrow> 'c profile list \<Rightarrow> ((failure + 'a) \<times> attempt list) option" where
  "route_loop opn ctxErr collect n index attempts [] = None"
| "route_loop opn ctxErr collect n index attempts (p # ps) =
     (case collect (p_Client p) of
        Inr result \<Rightarrow> Some (Inr result, attempts @ [attempt_selected opn index p])
      | Inl err \<Rightarrow>
         (case ctxErr index of
            Some e \<Rightarrow> Some (Inl e, attempts)
          | None \<Rightarrow>
             (case advanceable err of
                None \<Rightarrow> Some (Inl err, attempts @
                  [attempt_failed opn index p RouteOutcomeFailed (classifyNonAdvanceFailure err)])
              | Some c \<Rightarrow>
                 let outcome = (if index + 1 < n then RouteOutcomeAdvanced
                                else RouteOutcomeFailed);
                     attempts' = attempts @ [attempt_failed opn index p outcome
                       (c, routeFailureDetail c, routeFailureRemediation c)]
                 in if index + 1 = n then Some (Inl err, attempts')
                    else route_loop opn ctxErr collect n (index + 1) attempts' ps)))"

definition no_route :: "string \<Rightarrow> failure" where
  "no_route owner = NewRouteFailure FailureRouteMissing
     (Some (Plain (''no GitHub route for owner '' @ owner)))"

definition route_owner ::
  "(string \<Rightarrow> string) \<Rightarrow> 'c routes \<Rightarrow> operation \<Rightarrow> (nat \<Rightarrow> failure option) \<Rightarrow>
   ('c client option \<Rightarrow> failure + 'a) \<Rightarrow> string \<Rightarrow> ((failure + 'a) \<times> attempt list) option" where
  "route_owner U rs opn ctxErr collect owner =
     (let profiles = owner_profiles U rs owner in
      if profiles = [] then Some (Inl (no_route owner), [])
      else route_loop opn ctxErr collect (length profiles) 0 [] profiles)"

definition routeRepositoryPhase ::
  "(string \<Rightarrow> string) \<Rightarrow> 'c routes \<Rightarrow> string \<Rightarrow> operation \<Rightarrow> (nat \<Rightarrow> failure option) \<Rightarrow>
   ('c client option \<Rightarrow> failure + 'a) \<Rightarrow> ((failure + 'a) \<times> attempt list) option" where
  "routeRepositoryPhase U rs repository opn ctxErr collect =
     (case splitRepository repository of
        Inl err \<Rightarrow> Some (Inl err, [])
      | Inr (owner, _) \<Rightarrow> route_owner U rs opn ctxErr collect owner)"

text \<open>The refresh phases, with and without their routing metadata.\<close>

definition DiscoverResult ::
  "(string \<Rightarrow> string) \<Rightarrow> 'c routes \<Rightarrow> string \<Rightarrow> (nat \<Rightarrow> failure option) \<Rightarrow>
   ('c client option \<Rightarrow> failure + 'a) \<Rightarrow> ((failure + 'a) \<times> attempt list) option" where
  "DiscoverResult U rs repository ctxErr collect =
     routeRepositoryPhase U rs repository OperationDiscovery ctxErr collect"

definition Discover ::
  "(string \<Rightarrow> string) \<Rightarrow> 'c routes \<Rightarrow> string \<Rightarrow> (nat \<Rightarrow> failure option) \<Rightarrow>
   ('c client option \<Rightarrow> failure + 'a) \<Rightarrow> (failure + 'a) option" where
  "Discover U rs repository ctxErr collect =
     map_option fst (DiscoverResult U rs repository ctxErr collect)"

definition HydratePullRequestsResult ::
  "(string \<Rightarrow> string) \<Rightarrow> 'c routes \<Rightarrow> string \<Rightarrow> (nat \<Rightarrow> failure option) \<Rightarrow>
   ('c client option \<Rightarrow> failure + 'a) \<Rightarrow> ((failure + 'a) \<times> attempt list) option" where
  "HydratePullRequestsResult U rs repository ctxErr collect =
     routeRepositoryPhase U rs repository OperationHydration ctxErr collect"

definition HydratePullRequests ::
  "(string \<Rightarrow> string) \<Rightarrow> 'c routes \<Rightarrow> string \<Rightarrow> (nat \<Rightarrow> failure option) \<Rightarrow>
   ('c client option \<Rightarrow> failure + 'a) \<Rightarrow> (failure + 'a) option" where
  "HydratePullRequests U rs repository ctxErr collect =
     map_option fst (HydratePullRequestsResult U rs repository ctxErr collect)"

definition CollectProgressResult ::
  "(string \<Rightarrow> string) \<Rightarrow> 'c routes \<Rightarrow> string \<Rightarrow> (nat \<Rightarrow> failure option) \<Rightarrow>
   ('c client option \<Rightarrow> failure + 'a) \<Rightarrow> ((failure + 'a) \<times> attempt list) option" where
  "CollectProgressResult U rs repository ctxErr collect =
     routeRepositoryPhase U rs repository OperationProgress ctxErr collect"

definition CollectProgress ::
  "(string \<Rightarrow> string) \<Rightarrow> 'c routes \<Rightarrow> string \<Rightarrow> (nat \<Rightarrow> failure option) \<Rightarrow>
   ('c client option \<Rightarrow> failure + 'a) \<Rightarrow> (failure + 'a) option" where
  "CollectProgress U rs repository ctxErr collect =
     map_option fst (CollectProgressResult U rs repository ctxErr collect)"

definition CollectRepositoryContribution ::
  "(string \<Rightarrow> string) \<Rightarrow> 'c routes \<Rightarrow> string \<Rightarrow> (nat \<Rightarrow> failure option) \<Rightarrow>
   ('c client option \<Rightarrow> failure + 'a) \<Rightarrow> ((failure + 'a) \<times> attempt list) option" where
  "CollectRepositoryContribution U rs repository ctxErr collect =
     (let parts = Split repository (CHR ''/'') in
      if length parts \<noteq> 2 \<or> parts ! 0 = [] \<or> parts ! 1 = []
      then Some (Inl (Plain ''repository must use owner/name''), [])
      else route_owner U rs OperationContributionEvidence ctxErr collect (parts ! 0))"

definition CollectPullRequestDiff ::
  "(string \<Rightarrow> string) \<Rightarrow> 'c routes \<Rightarrow> string \<Rightarrow> (nat \<Rightarrow> failure option) \<Rightarrow>
   ('c client option \<Rightarrow> failure + 'a) \<Rightarrow> ((failure + 'a) \<times> attempt list) option" where
  "CollectPullRequestDiff U rs repository ctxErr collect =
     (let (owner, _, valid) = Cut repository (CHR ''/'') in
      if \<not> valid \<or> owner = [] then Some (Inl (Plain ''repository must use owner/name''), [])
      else route_owner U rs OperationPullRequestDiff ctxErr collect owner)"

text \<open>Setup checks of every configured route; \<open>check\<close> is the client's own probe.\<close>

record setup_result =
  sr_Owner :: string
  sr_Repository :: string
  sr_Profile :: string
  sr_Type :: "profile_type option"
  sr_Valid :: bool
  sr_Err :: "failure option"

definition setup_one ::
  "(string \<Rightarrow> string) \<Rightarrow> 'c routes \<Rightarrow> ('c profile \<Rightarrow> string \<Rightarrow> string \<Rightarrow> failure option) \<Rightarrow> string \<Rightarrow>
   setup_result list" where
  "setup_one U rs check repository =
     (let (owner, _, valid) = Cut repository (CHR ''/''); profiles = owner_profiles U rs owner in
      if \<not> valid \<or> owner = [] \<or> profiles = []
      then [\<lparr> sr_Owner = owner, sr_Repository = repository, sr_Profile = [], sr_Type = None,
              sr_Valid = False, sr_Err = Some (NewRouteFailure FailureRouteMissing
                (Some (Plain (''no GitHub route for '' @ repository)))) \<rparr>]
      else map (\<lambda>p. \<lparr> sr_Owner = owner, sr_Repository = repository, sr_Profile = p_Name p,
              sr_Type = Some (p_Type p), sr_Valid = (check p owner repository = None),
              sr_Err = check p owner repository \<rparr>) profiles)"

definition SetupCheck ::
  "(string \<Rightarrow> string) \<Rightarrow> 'c routes \<Rightarrow> ('c profile \<Rightarrow> string \<Rightarrow> string \<Rightarrow> failure option) \<Rightarrow>
   string list \<Rightarrow> setup_result list" where
  "SetupCheck U rs check repositories = concat (map (setup_one U rs check) repositories)"

section \<open>Invariants of a router\<close>

definition profile_ok :: "'c profile \<Rightarrow> bool" where
  "profile_ok p \<longleftrightarrow>
     p_Name p \<noteq> [] \<and> p_Type p \<in> {ProfileGitHubApp, ProfileFineGrainedPAT} \<and>
     (case p_Client p of None \<Rightarrow> False | Some c \<Rightarrow> cl_profileType c = p_Type p)"

definition routes_ok :: "(string \<Rightarrow> string) \<Rightarrow> 'c routes \<Rightarrow> bool" where
  "routes_ok U rs \<longleftrightarrow>
     distinct (map fst rs) \<and>
     (\<forall>(owner, ps)\<in>set rs. owner \<noteq> [] \<and> CHR ''/'' \<notin> set owner \<and> ps \<noteq> [] \<and>
        list_all profile_ok ps \<and> distinct (map p_Name ps))"

lemma check_profiles_ok:
  "check_profiles owner names ps = None \<Longrightarrow>
     list_all profile_ok ps \<and> distinct (map p_Name ps) \<and> p_Name ` set ps \<inter> set names = {}"
  by (induction owner names ps rule: check_profiles.induct)
    (auto simp: profile_ok_def split: option.splits if_splits)

lemma router_loop_ok:
  "router_loop U copied rs = Inr out \<Longrightarrow> routes_ok U copied \<Longrightarrow>
     routes_ok U out \<and> out = copied @ map (\<lambda>(owner, ps). (canonicalOwner U owner, ps)) rs"
proof (induction U copied rs rule: router_loop.induct)
  case (1 U copied)
  then show ?case by simp
next
  case (2 U copied owner profiles rs)
  let ?c = "canonicalOwner U owner"
  from "2.prems"(1) have new: "?c \<noteq> []" "CHR ''/'' \<notin> set ?c" "map_of copied ?c = None"
      "profiles \<noteq> []" "check_profiles owner [] profiles = None"
    and loop: "router_loop U (copied @ [(?c, profiles)]) rs = Inr out"
    by (simp_all add: Let_def result_simps)
  have "routes_ok U (copied @ [(?c, profiles)])"
    using "2.prems"(2) new check_profiles_ok [OF new(5)]
    by (auto simp: routes_ok_def map_of_eq_None_iff)
  with "2.IH" [OF refl] new loop
  have out: "routes_ok U out"
      "out = (copied @ [(?c, profiles)]) @ map (\<lambda>(owner, ps). (canonicalOwner U owner, ps)) rs"
    by blast+
  show ?case
  proof
    show "routes_ok U out" by (rule out(1))
    show "out = copied @ map (\<lambda>(owner, ps). (canonicalOwner U owner, ps)) ((owner, profiles) # rs)"
      by (simp only: out(2) append_assoc append_Cons append_Nil list.map prod.case)
  qed
qed

lemma owner_profiles_ok:
  assumes "routes_ok U rs" "owner_profiles U rs owner = ps" "ps \<noteq> []"
  shows "list_all profile_ok ps \<and> distinct (map p_Name ps)"
  using assms by (auto simp: owner_profiles_def routes_ok_def split: option.splits dest!: map_of_SomeD)

section \<open>What the loop records\<close>

text \<open>
  The shape of an attempt list: attempts number the profiles from 0, every one but the last
  advanced because of an advanceable failure, and the last one is the only that can be
  selected.
\<close>

definition attempt_of :: "operation \<Rightarrow> nat \<Rightarrow> 'c profile \<Rightarrow> attempt \<Rightarrow> bool" where
  "attempt_of opn i p a \<longleftrightarrow>
     a_Operation a = opn \<and> a_Profile a = p_Name p \<and> a_Priority a = i \<and> a_ProfileType a = p_Type p \<and>
     a_Selected a = (a_Outcome a = RouteOutcomeSelected) \<and>
     (case a_Failure a of
        None \<Rightarrow> a_Selected a
      | Some c \<Rightarrow> \<not> a_Selected a \<and> c \<in> set stored_categories \<and>
          (a_Outcome a = RouteOutcomeAdvanced \<longrightarrow> canAdvance c)) \<and>
     bounded_text (a_Detail a) \<and> bounded_text (a_Remediation a)"

lemma attempt_of_selected: "attempt_of opn i p (attempt_selected opn i p)"
  by (simp add: attempt_of_def attempt_selected_def bounded_text_def plain_text_def)

lemma attempt_of_failed: "attempt_of opn i p
    (attempt_failed opn i p RouteOutcomeFailed (classifyNonAdvanceFailure err))"
  by (cases "classifyNonAdvanceFailure err")
    (simp add: attempt_of_def attempt_failed_def classify_bounded)

lemma attempt_of_advance:
  "canAdvance c \<Longrightarrow> outcome \<in> {RouteOutcomeAdvanced, RouteOutcomeFailed} \<Longrightarrow> attempt_of opn i p
    (attempt_failed opn i p outcome (c, routeFailureDetail c, routeFailureRemediation c))"
  using canAdvance_stored [of c]
  by (auto simp: attempt_of_def attempt_failed_def bounded_detail bounded_remediation)

definition trace_ok :: "operation \<Rightarrow> 'c profile list \<Rightarrow> attempt list \<Rightarrow> bool" where
  "trace_ok opn ps as \<longleftrightarrow>
     length as \<le> length ps \<and> (\<forall>i < length as. attempt_of opn i (ps ! i) (as ! i))"

lemma trace_ok_snoc:
  "trace_ok opn ps as \<Longrightarrow> length as < length ps \<Longrightarrow> attempt_of opn (length as) (ps ! length as) a \<Longrightarrow>
     trace_ok opn ps (as @ [a])"
  by (auto simp: trace_ok_def nth_append less_Suc_eq)

lemma advanceable_SomeD: "advanceable err = Some c \<Longrightarrow> canAdvance c"
  by (auto simp: advanceable_def split: option.splits if_splits prod.splits)

definition all_advanced :: "attempt list \<Rightarrow> bool" where
  "all_advanced as \<longleftrightarrow> (\<forall>a\<in>set as. a_Outcome a = RouteOutcomeAdvanced)"

text \<open>
  The decisive profile: the first whose collection succeeds, or fails in a way that does not
  permit advancing, or that is the last one.
\<close>

fun decisive :: "('c client option \<Rightarrow> failure + 'a) \<Rightarrow> 'c profile list \<Rightarrow> nat" where
  "decisive collect [] = 0"
| "decisive collect [p] = 0"
| "decisive collect (p # q # ps) =
     (case collect (p_Client p) of
        Inl err \<Rightarrow> if advanceable err = None then 0 else Suc (decisive collect (q # ps))
      | Inr _ \<Rightarrow> 0)"

lemma decisive_less: "ps \<noteq> [] \<Longrightarrow> decisive collect ps < length ps"
  by (induction collect ps rule: decisive.induct) (auto split: sum.splits)

lemma route_loop_spec:
  assumes "ps = drop index all" "n = length all" "length attempts = index" "index < n"
    and "trace_ok opn all attempts" "all_advanced attempts"
  shows "\<exists>r as. route_loop opn ctxErr collect n index attempts ps = Some (r, as) \<and>
           trace_ok opn all as \<and> all_advanced (butlast as) \<and>
           (case r of Inr _ \<Rightarrow> as \<noteq> [] \<and> a_Selected (last as) | Inl _ \<Rightarrow> \<not> list_ex a_Selected as)"
  using assms
proof (induction ps arbitrary: index attempts)
  case Nil
  then show ?case by simp
next
  case (Cons p ps)
  have p: "p = all ! index" and tl: "ps = drop (Suc index) all" and lt: "index < length all"
    using Cons.prems by (metis nth_via_drop, metis drop_Suc tl_drop list.sel(3), simp)
  have sel: "\<not> list_ex a_Selected attempts"
    using Cons.prems(3,5,6) unfolding trace_ok_def all_advanced_def attempt_of_def list_ex_iff
    by (metis in_set_conv_nth route_outcome.distinct(1))
  show ?case
  proof (cases "collect (p_Client p)")
    case (Inr result)
    have "trace_ok opn all (attempts @ [attempt_selected opn index p])"
      using Cons.prems p lt by (intro trace_ok_snoc) (simp_all add: attempt_of_selected)
    with Inr Cons.prems(6) show ?thesis by (simp add: attempt_selected_def)
  next
    case (Inl err)
    show ?thesis
    proof (cases "ctxErr index")
      case (Some e)
      have "all_advanced (butlast attempts)"
        using Cons.prems(6) by (auto simp: all_advanced_def dest: in_set_butlastD)
      with Inl Some Cons.prems(5) sel show ?thesis by simp
    next
      case None
      show ?thesis
      proof (cases "advanceable err")
        case stop: None
        have "trace_ok opn all (attempts @ [attempt_failed opn index p RouteOutcomeFailed
            (classifyNonAdvanceFailure err)])"
          using Cons.prems p lt by (intro trace_ok_snoc) (simp_all add: attempt_of_failed)
        with Inl None stop Cons.prems(6) sel show ?thesis by (simp add: attempt_failed_def)
      next
        case (Some c)
        let ?o = "if index + 1 < n then RouteOutcomeAdvanced else RouteOutcomeFailed"
        let ?a = "attempt_failed opn index p ?o (c, routeFailureDetail c, routeFailureRemediation c)"
        have tr: "trace_ok opn all (attempts @ [?a])"
          using Cons.prems p lt advanceable_SomeD [OF Some]
          by (intro trace_ok_snoc) (simp_all add: attempt_of_advance)
        show ?thesis
        proof (cases "index + 1 = n")
          case True
          with Inl None Some tr Cons.prems(6) sel show ?thesis
            by (simp add: attempt_failed_def Let_def)
        next
          case False
          with lt Cons.prems(2) have n: "Suc index < n" by simp
          have adv: "all_advanced (attempts @ [?a])"
            using Cons.prems(6) n by (auto simp: all_advanced_def attempt_failed_def)
          have len: "length (attempts @ [?a]) = Suc index" using Cons.prems(3) by simp
          from Cons.IH [OF tl Cons.prems(2) len n tr adv] Inl None Some False
          show ?thesis by (simp add: Let_def)
        qed
      qed
    qed
  qed
qed


text \<open>Without a context error the loop stops at the decisive profile, with its outcome.\<close>

lemma route_loop_decisive:
  assumes "ps \<noteq> []" "n = index + length ps" "\<And>i. ctxErr i = None"
  shows "\<exists>as. route_loop opn ctxErr collect n index attempts ps =
           Some (collect (p_Client (ps ! decisive collect ps)), as) \<and>
           length as = length attempts + decisive collect ps + 1"
  using assms
proof (induction collect ps arbitrary: index attempts rule: decisive.induct)
  case (1 collect)
  then show ?case by simp
next
  case (2 collect p)
  then show ?case by (auto split: sum.splits option.splits simp: Let_def)
next
  case (3 collect p q ps)
  show ?case
  proof (cases "collect (p_Client p)")
    case (Inr x)
    then show ?thesis by simp
  next
    case (Inl err)
    show ?thesis
    proof (cases "advanceable err")
      case None
      with Inl 3(4) show ?thesis by simp
    next
      case (Some c)
      let ?a = "attempt_failed opn index p RouteOutcomeAdvanced
        (c, routeFailureDetail c, routeFailureRemediation c)"
      have "\<exists>as. route_loop opn ctxErr collect n (Suc index) (attempts @ [?a]) (q # ps) =
             Some (collect (p_Client ((q # ps) ! decisive collect (q # ps))), as) \<and>
             length as = length (attempts @ [?a]) + decisive collect (q # ps) + 1"
        by (rule 3(1) [OF Inl]) (use Some 3(3,4) in simp_all)
      moreover have "route_loop opn ctxErr collect n index attempts (p # q # ps) =
          route_loop opn ctxErr collect n (Suc index) (attempts @ [?a]) (q # ps)"
        using Inl Some 3(3,4) by (subst route_loop.simps) (simp del: route_loop.simps add: Let_def)
      ultimately show ?thesis using Inl Some by (simp del: route_loop.simps)
    qed
  qed
qed

lemma route_loop_from_start:
  assumes "ps \<noteq> []"
  shows "\<exists>r as. route_loop opn ctxErr collect (length ps) 0 [] ps = Some (r, as) \<and>
           trace_ok opn ps as \<and> all_advanced (butlast as) \<and>
           (case r of Inr _ \<Rightarrow> as \<noteq> [] \<and> a_Selected (last as) | Inl _ \<Rightarrow> \<not> list_ex a_Selected as)"
  using assms by (intro route_loop_spec) (simp_all add: trace_ok_def all_advanced_def)


lemma splitRepository_Inr:
  "splitRepository repository = Inr (owner, name) \<Longrightarrow> Cut repository (CHR ''/'') = (owner, name, True)"
  by (auto simp: splitRepository_def split: prod.splits if_splits)

lemma routed_exists:
  "\<exists>r as. routeRepositoryPhase U rs repository opn ctxErr collect = Some (r, as) \<and>
     trace_ok opn (owner_profiles U rs (fst (Cut repository (CHR ''/'')))) as \<and>
     all_advanced (butlast as) \<and>
     (case r of Inr _ \<Rightarrow> as \<noteq> [] \<and> a_Selected (last as) | Inl _ \<Rightarrow> \<not> list_ex a_Selected as)"
proof (cases "splitRepository repository")
  case (Inl err)
  then show ?thesis by (simp add: routeRepositoryPhase_def trace_ok_def all_advanced_def)
next
  case (Inr on)
  then obtain owner name where on: "on = (owner, name)" by (cases on)
  with Inr have cut: "fst (Cut repository (CHR ''/'')) = owner"
    using splitRepository_Inr [of repository owner name] by simp
  show ?thesis
  proof (cases "owner_profiles U rs owner = []")
    case True
    with Inr on show ?thesis
      by (simp add: routeRepositoryPhase_def route_owner_def trace_ok_def all_advanced_def)
  next
    case False
    then have "routeRepositoryPhase U rs repository opn ctxErr collect =
        route_loop opn ctxErr collect (length (owner_profiles U rs owner)) 0 []
          (owner_profiles U rs owner)"
      using Inr on by (simp add: routeRepositoryPhase_def route_owner_def Let_def del: route_loop.simps)
    with cut show ?thesis using route_loop_from_start [OF False, of opn ctxErr collect] by (simp only:)
  qed
qed

lemma routed_trace:
  assumes "routeRepositoryPhase U rs repository opn ctxErr collect = Some (r, as)"
  shows "trace_ok opn (owner_profiles U rs (fst (Cut repository (CHR ''/'')))) as \<and>
     all_advanced (butlast as) \<and>
     (case r of Inr _ \<Rightarrow> as \<noteq> [] \<and> a_Selected (last as) | Inl _ \<Rightarrow> \<not> list_ex a_Selected as)"
  using routed_exists [of U rs repository opn ctxErr collect] assms by simp

lemma routed_decisive:
  assumes repository: "splitRepository repository = Inr (owner, name)"
    and profiles: "owner_profiles U rs owner = ps" "ps \<noteq> []"
    and running: "\<And>i. ctxErr i = None"
  shows "\<exists>as. routeRepositoryPhase U rs repository opn ctxErr collect =
           Some (collect (p_Client (ps ! decisive collect ps)), as) \<and>
           map a_Profile as = map p_Name (take (decisive collect ps + 1) ps)"
proof -
  from route_loop_decisive [OF profiles(2), of "length ps" 0 ctxErr opn collect "[]"] running
  obtain as where as: "route_loop opn ctxErr collect (length ps) 0 [] ps =
      Some (collect (p_Client (ps ! decisive collect ps)), as)" "length as = decisive collect ps + 1"
    by (auto simp del: route_loop.simps)
  from route_loop_from_start [OF profiles(2), of opn ctxErr collect] as(1)
  have "trace_ok opn ps as" by (auto simp del: route_loop.simps)
  then have "map a_Profile as = map p_Name (take (length as) ps)"
    by (intro nth_equalityI) (auto simp: trace_ok_def attempt_of_def)
  with as repository profiles show ?thesis
    by (auto simp: routeRepositoryPhase_def route_owner_def simp del: route_loop.simps)
qed

section \<open>A sample router\<close>

definition sample_profile :: "string \<Rightarrow> nat \<Rightarrow> nat profile" where
  "sample_profile name i = \<lparr> p_Name = name, p_Type = ProfileGitHubApp,
     p_Client = Some \<lparr> cl_profileType = ProfileGitHubApp, cl_impl = i \<rparr> \<rparr>"

definition sample_routes :: "nat routes" where
  "sample_routes = [(''Acme '', [sample_profile ''first'' 0, sample_profile ''second'' 7])]"

lemma sample_canonical: "canonicalOwner id ''Acme '' = ''acme''"
  by code_simp

lemma sample_NewRouter:
  "NewRouter id sample_routes =
     Inr [(''acme'', [sample_profile ''first'' 0, sample_profile ''second'' 7])]"
  by (simp add: NewRouter_def sample_routes_def sample_profile_def sample_canonical)

definition sample_collect :: "nat client option \<Rightarrow> failure + nat" where
  "sample_collect c = (case c of
     Some k \<Rightarrow> if cl_impl k = 0 then Inl (RouteFail FailurePermissionMissing None False)
               else Inr (cl_impl k)
   | None \<Rightarrow> Inl Canceled)"

lemma sample_split: "splitRepository ''ACME/x'' = Inr (''ACME'', ''x'')"
  by code_simp

lemma sample_owner_profiles:
  "owner_profiles id [(''acme'', [sample_profile ''first'' 0, sample_profile ''second'' 7])] ''ACME'' =
     [sample_profile ''first'' 0, sample_profile ''second'' 7]"
proof -
  have "ToLower id ''ACME'' = ''acme''" by code_simp
  then show ?thesis by (simp add: owner_profiles_def)
qed

lemma sample_decisive:
  "decisive sample_collect [sample_profile ''first'' 0, sample_profile ''second'' 7] = 1"
  by (simp add: sample_collect_def sample_profile_def advanceable_def as_route_failure_def
      canAdvance.simps)

lemma sample_routes_ok:
  "routes_ok id [(''acme'', [sample_profile ''first'' 0, sample_profile ''second'' 7])]"
  by (simp add: routes_ok_def profile_ok_def sample_profile_def)

lemma sample_routed:
  "\<exists>as. routeRepositoryPhase id [(''acme'', [sample_profile ''first'' 0, sample_profile ''second'' 7])]
      ''ACME/x'' OperationHydration (\<lambda>_. None) sample_collect = Some (Inr 7, as) \<and> length as = 2"
proof -
  have r: "sample_collect (p_Client (sample_profile ''second'' 7)) = Inr 7"
    by (simp add: sample_collect_def sample_profile_def)
  from routed_decisive [OF sample_split sample_owner_profiles, of "\<lambda>_. None" OperationHydration
      sample_collect]
  obtain as where "routeRepositoryPhase id
      [(''acme'', [sample_profile ''first'' 0, sample_profile ''second'' 7])]
      ''ACME/x'' OperationHydration (\<lambda>_. None) sample_collect = Some (Inr 7, as)"
    "map a_Profile as = map p_Name [sample_profile ''first'' 0, sample_profile ''second'' 7]"
    by (auto simp: sample_decisive r simp del: route_loop.simps decisive.simps)
  then show ?thesis using map_eq_imp_length_eq by fastforce
qed

section \<open>Properties\<close>

text \<open>
  A constructed router has exactly the given owners in canonical form, each once, and every
  owner has a non-empty list of valid profiles with distinct names, each of the type of its
  client. So no two spellings of one owner can compete for a repository.
\<close>

theorem NewRouter_ok:
  assumes "NewRouter U rs = Inr out"
  shows "routes_ok U out \<and> out = map (\<lambda>(owner, ps). (canonicalOwner U owner, ps)) rs"
proof -
  have "routes_ok U []" by (simp add: routes_ok_def)
  from router_loop_ok [OF assms [unfolded NewRouter_def] this, unfolded append_Nil]
  show ?thesis .
qed

lemma NewRouter_ok_witness:
  "routes_ok id [(''acme'', [sample_profile ''first'' 0, sample_profile ''second'' 7])]"
  using NewRouter_ok [OF sample_NewRouter] by (rule conjunct1)

text \<open>
  C3. Routing always returns (its \<open>panic\<close> is unreachable), and what it records is a faithful
  trace: attempt \<open>i\<close> names the owner's \<open>i\<close>-th profile with priority \<open>i\<close> and bounded
  diagnostics, every attempt but the last advanced because of a failure that permits advancing,
  and an attempt is selected exactly when the operation succeeded, in which case it is the last.
\<close>

theorem routeRepositoryPhase_trace:
  "\<exists>r as. routeRepositoryPhase U rs repository opn ctxErr collect = Some (r, as) \<and>
     trace_ok opn (owner_profiles U rs (fst (Cut repository (CHR ''/'')))) as \<and>
     all_advanced (butlast as) \<and>
     (case r of Inr _ \<Rightarrow> as \<noteq> [] \<and> a_Selected (last as) | Inl _ \<Rightarrow> \<not> list_ex a_Selected as)"
  by (rule routed_exists)

text \<open>
  C4. The outcome of an uncancelled operation is the outcome of the decisive profile: the first
  one, in configured order, that succeeds or fails in a way that does not permit advancing
  (else the last). No later profile is tried: credentials of a lower priority are used only
  after every earlier one was refused for a routing reason.
\<close>

theorem routing_decisive:
  assumes repository: "splitRepository repository = Inr (owner, name)"
    and profiles: "owner_profiles U rs owner = ps" "ps \<noteq> []"
    and running: "\<And>i. ctxErr i = None"
  shows "\<exists>as. routeRepositoryPhase U rs repository opn ctxErr collect =
           Some (collect (p_Client (ps ! decisive collect ps)), as) \<and>
           map a_Profile as = map p_Name (take (decisive collect ps + 1) ps)"
  by (rule routed_decisive [OF assms])

lemma routing_decisive_witness:
  "\<exists>as. routeRepositoryPhase id [(''acme'', [sample_profile ''first'' 0, sample_profile ''second'' 7])]
      ''ACME/x'' OperationHydration (\<lambda>_. None) sample_collect = Some (Inr 7, as) \<and>
    map a_Profile as = [''first'', ''second'']"
proof -
  have r: "sample_collect (p_Client (sample_profile ''second'' 7)) = Inr 7"
    by (simp add: sample_collect_def sample_profile_def)
  have n: "p_Name (sample_profile s i) = s" for s i by (simp add: sample_profile_def)
  show ?thesis
    using routing_decisive [OF sample_split sample_owner_profiles, of "\<lambda>_. None" OperationHydration
        sample_collect] by (simp add: sample_decisive r n del: route_loop.simps decisive.simps)
qed

text \<open>
  Contribution evidence is routed exactly like a refresh phase: the separate code path of
  \<open>CollectRepositoryContribution\<close> accepts the same repository names and makes the same
  attempts with the same result as \<open>routeRepositoryPhase\<close>.
\<close>

theorem CollectRepositoryContribution_eq:
  "CollectRepositoryContribution U rs repository ctxErr collect =
     routeRepositoryPhase U rs repository OperationContributionEvidence ctxErr collect"
proof (cases repository rule: Cut_cases [of "CHR ''/''"])
  case 1
  then show ?thesis
    by (simp add: CollectRepositoryContribution_def routeRepositoryPhase_def splitRepository_def
        Split_no_sep)
next
  case (2 o1 n1)
  then have sp: "Split repository (CHR ''/'') = o1 # Split n1 (CHR ''/'')" by (simp add: Split_append)
  show ?thesis
  proof (cases n1 rule: Cut_cases [of "CHR ''/''"])
    case 1
    with 2 sp show ?thesis
      by (simp add: CollectRepositoryContribution_def routeRepositoryPhase_def splitRepository_def
          Split_no_sep)
  next
    case n: (2 a b)
    then have "length (Split n1 (CHR ''/'')) \<noteq> 1"
      using Split_nonempty [of b "CHR ''/''"] by (simp add: Split_append)
    with n 2 sp show ?thesis
      by (simp add: CollectRepositoryContribution_def routeRepositoryPhase_def splitRepository_def)
  qed
qed

end
