(* ===== verification/Routes.thy ===== *)
theory Routes
  imports Router GoTime
begin

text \<open>
  Route diagnostics of the store (\<open>internal/storage/store.go\<close>): the tables
  \<open>github_route_operations\<close> and \<open>github_route_attempts\<close>, how an attempt set replaces the
  previous one, the administrator's listing and the public warnings of a collection. The keys
  of \<open>repository_refreshes\<close>, which the first table references, are the list \<open>rt_refreshes\<close>
  with the state and last success of each repository.
\<close>

record route_attempt =
  ra_Profile :: string
  ra_Priority :: nat
  ra_ProfileType :: string
  ra_Outcome :: string
  ra_FailureCategory :: string
  ra_Detail :: string
  ra_Remediation :: string
  ra_Selected :: bool

record operation_row =
  ro_repository :: string
  ro_operation :: string
  ro_pending :: bool
  ro_last_attempt_at :: "string option"

record attempt_row =
  rw_repository :: string
  rw_operation :: string
  rw_attempted_at :: string
  rw_attempt :: route_attempt

record refresh_row =
  rr_repository :: string
  rr_state :: string
  rr_last_attempt_at :: "string option"
  rr_last_success_at :: "string option"
  rr_error :: string

record route_db =
  rt_refreshes :: "refresh_row list"
  rt_operations :: "operation_row list"
  rt_attempts :: "attempt_row list"

datatype route_db_error =
    InvalidRouteOperation string | ErrRepositoryNotConfigured | InvalidRouteAttempt nat
  | TimeParse string

definition route_operations :: "string list" where
  "route_operations = [''discovery'', ''hydration'', ''progress'', ''contribution_evidence'',
                       ''pull_request_diff'']"

definition validRouteOperation :: "string \<Rightarrow> bool" where
  "validRouteOperation opn \<longleftrightarrow> opn \<in> set route_operations"

definition validRouteFailure :: "string \<Rightarrow> bool" where
  "validRouteFailure category \<longleftrightarrow> category \<in> insert [] (category_text ` set stored_categories)"

definition validRouteAttempt :: "route_attempt \<Rightarrow> bool" where
  "validRouteAttempt a \<longleftrightarrow>
     \<not> (ra_Profile a = [] \<or> length (ra_Profile a) > 100 \<or>
        ra_ProfileType a \<notin> {''github_app'', ''fine_grained_pat''} \<or>
        ra_Outcome a \<notin> {''selected'', ''advanced'', ''failed''} \<or>
        \<not> validRouteFailure (ra_FailureCategory a) \<or> length (ra_Detail a) > 240 \<or>
        length (ra_Remediation a) > 240) \<and>
     plain_text (ra_Profile a @ ra_Detail a @ ra_Remediation a)"

text \<open>\<open>internal/refresh/scheduler.go\<close> \<open>storageRouteAttempts\<close>: the stored form of attempts.\<close>

definition storageRouteAttempts :: "attempt list \<Rightarrow> route_attempt list" where
  "storageRouteAttempts as = map (\<lambda>a. \<lparr> ra_Profile = a_Profile a, ra_Priority = a_Priority a,
     ra_ProfileType = profile_type_text (a_ProfileType a),
     ra_Outcome = outcome_text (a_Outcome a),
     ra_FailureCategory = (case a_Failure a of None \<Rightarrow> [] | Some c \<Rightarrow> category_text c),
     ra_Detail = a_Detail a, ra_Remediation = a_Remediation a,
     ra_Selected = a_Selected a \<rparr>) as"

section \<open>Replacing the attempts of an operation\<close>

text \<open>\<open>INSERT ... ON CONFLICT(repository, operation) DO UPDATE\<close>.\<close>

definition upsert_operation ::
  "string \<Rightarrow> string \<Rightarrow> (operation_row \<Rightarrow> operation_row) \<Rightarrow> operation_row \<Rightarrow> operation_row list \<Rightarrow>
   operation_row list" where
  "upsert_operation repository opn f new t =
     (let p = (\<lambda>r. ro_repository r = repository \<and> ro_operation r = opn) in
      if list_ex p t then update_where p f t else t @ [new])"

definition configured :: "route_db \<Rightarrow> string \<Rightarrow> bool" where
  "configured db repository \<longleftrightarrow> list_ex (\<lambda>r. rr_repository r = repository) (rt_refreshes db)"

fun check_attempts :: "nat \<Rightarrow> route_attempt list \<Rightarrow> route_db_error option" where
  "check_attempts index [] = None"
| "check_attempts index (a # as) =
     (if ra_Priority a \<noteq> index \<or> \<not> validRouteAttempt a then Some (InvalidRouteAttempt index)
      else check_attempts (index + 1) as)"

definition ReplaceRouteAttempts ::
  "route_db \<Rightarrow> string \<Rightarrow> string \<Rightarrow> route_attempt list \<Rightarrow> time \<Rightarrow> route_db_error + route_db" where
  "ReplaceRouteAttempts db repository opn attempts attemptedAt =
     failIf (\<not> validRouteOperation opn) (InvalidRouteOperation opn)
    (failIf (\<not> configured db repository) ErrRepositoryNotConfigured
    (failE (check_attempts 0 attempts)
    (Inr (db\<lparr>
       rt_operations := upsert_operation repository opn
         (\<lambda>r. r\<lparr>ro_pending := False, ro_last_attempt_at := Some (formatTime attemptedAt)\<rparr>)
         \<lparr> ro_repository = repository, ro_operation = opn, ro_pending = False,
           ro_last_attempt_at = Some (formatTime attemptedAt) \<rparr> (rt_operations db),
       rt_attempts :=
         delete_where (\<lambda>r. rw_repository r = repository \<and> rw_operation r = opn) (rt_attempts db) @
         map (\<lambda>a. \<lparr> rw_repository = repository, rw_operation = opn,
                    rw_attempted_at = formatTime attemptedAt, rw_attempt = a \<rparr>) attempts\<rparr>))))"

definition mark_pending :: "string \<Rightarrow> route_db \<Rightarrow> string \<Rightarrow> route_db" where
  "mark_pending repository db opn =
     (if configured db repository
      then db\<lparr>rt_operations := upsert_operation repository opn (\<lambda>r. r\<lparr>ro_pending := True\<rparr>)
        \<lparr> ro_repository = repository, ro_operation = opn, ro_pending = True,
          ro_last_attempt_at = None \<rparr> (rt_operations db)\<rparr>
      else db)"

definition MarkRouteOperationsPending :: "route_db \<Rightarrow> string list \<Rightarrow> route_db" where
  "MarkRouteOperationsPending db repositories =
     foldl (\<lambda>db repository. foldl (mark_pending repository) db route_operations) db repositories"

section \<open>Reading them back\<close>

definition attempts_of :: "route_db \<Rightarrow> string \<Rightarrow> string \<Rightarrow> attempt_row list" where
  "attempts_of db repository opn =
     sort_key (\<lambda>r. ra_Priority (rw_attempt r))
       (filter (\<lambda>r. rw_repository r = repository \<and> rw_operation r = opn) (rt_attempts db))"

record route_entry =
  re_Repository :: string
  re_Operation :: string
  re_Pending :: bool
  re_SelectedProfile :: string
  re_LastAttempt :: "time option"
  re_Attempts :: "(route_attempt \<times> time) list"

fun parse_opt :: "(string \<Rightarrow> time option) \<Rightarrow> string option \<Rightarrow> route_db_error + time option" where
  "parse_opt parse None = Inr None"
| "parse_opt parse (Some s) = (case parse s of None \<Rightarrow> Inl (TimeParse s) | Some t \<Rightarrow> Inr (Some t))"

fun add_attempts ::
  "(string \<Rightarrow> time option) \<Rightarrow> route_entry \<Rightarrow> attempt_row list \<Rightarrow> route_db_error + route_entry" where
  "add_attempts parse e [] = Inr e"
| "add_attempts parse e (r # rs) =
     (case parse (rw_attempted_at r) of
        None \<Rightarrow> Inl (TimeParse (rw_attempted_at r))
      | Some t \<Rightarrow>
         let a = rw_attempt r in
         add_attempts parse (e\<lparr>re_Attempts := re_Attempts e @ [(a, t)],
           re_SelectedProfile := (if ra_Selected a then ra_Profile a else re_SelectedProfile e)\<rparr>) rs)"

definition route_entry_of ::
  "(string \<Rightarrow> time option) \<Rightarrow> route_db \<Rightarrow> operation_row \<Rightarrow> route_db_error + route_entry" where
  "route_entry_of parse db o1 =
     bindR (parse_opt parse (ro_last_attempt_at o1)) (\<lambda>at.
       add_attempts parse \<lparr> re_Repository = ro_repository o1, re_Operation = ro_operation o1,
         re_Pending = ro_pending o1, re_SelectedProfile = [], re_LastAttempt = at,
         re_Attempts = [] \<rparr> (attempts_of db (ro_repository o1) (ro_operation o1)))"

fun collectR :: "('a \<Rightarrow> 'e + 'b) \<Rightarrow> 'a list \<Rightarrow> 'e + 'b list" where
  "collectR f [] = Inr []"
| "collectR f (x # xs) = bindR (f x) (\<lambda>y. bindR (collectR f xs) (\<lambda>ys. Inr (y # ys)))"

definition ListRouteAttempts ::
  "(string \<Rightarrow> time option) \<Rightarrow> route_db \<Rightarrow> route_db_error + route_entry list" where
  "ListRouteAttempts parse db =
     collectR (route_entry_of parse db)
       (sort_key ro_repository (sort_key ro_operation (rt_operations db)))"

text \<open>
  The public warning of an operation: \<open>MAX(priority)\<close> over the selected attempts (-1 when
  there is none) and the number of attempts decide its status.
\<close>

definition selected_priority :: "attempt_row list \<Rightarrow> int" where
  "selected_priority rows =
     foldr (\<lambda>r m. if ra_Selected (rw_attempt r) then max m (int (ra_Priority (rw_attempt r))) else m)
       rows (-1)"

definition warning_status :: "bool \<Rightarrow> int \<Rightarrow> nat \<Rightarrow> string" where
  "warning_status pending selected attempts =
     (if pending then ''pending'' else if selected > 0 then ''fallback''
      else if attempts > 0 \<and> selected < 0 then ''failed'' else [])"

definition operation_status :: "route_db \<Rightarrow> operation_row \<Rightarrow> string" where
  "operation_status db o1 =
     (let rows = attempts_of db (ro_repository o1) (ro_operation o1)
      in warning_status (ro_pending o1) (selected_priority rows) (length rows))"

record route_warning =
  wa_Repository :: string
  wa_Operation :: string
  wa_Status :: string
  wa_Freshness :: string
  wa_LastAttempt :: "time option"
  wa_LastSuccessfulRefresh :: "time option"

definition warning_of ::
  "(string \<Rightarrow> time option) \<Rightarrow> route_db \<Rightarrow> operation_row \<times> refresh_row \<Rightarrow>
   route_db_error + route_warning list" where
  "warning_of parse db x =
     (let (o1, rr) = x; status = operation_status db o1 in
      if status = [] then Inr []
      else bindR (parse_opt parse (ro_last_attempt_at o1)) (\<lambda>at.
           bindR (parse_opt parse (rr_last_success_at rr)) (\<lambda>ok.
           Inr [\<lparr> wa_Repository = ro_repository o1, wa_Operation = ro_operation o1,
                  wa_Status = status, wa_Freshness = rr_state rr, wa_LastAttempt = at,
                  wa_LastSuccessfulRefresh = ok \<rparr>])))"

definition loadCollectionRouteWarnings ::
  "(string \<Rightarrow> time option) \<Rightarrow> route_db \<Rightarrow> string list \<Rightarrow> route_db_error + route_warning list" where
  "loadCollectionRouteWarnings parse db repositories =
     bindR (collectR (warning_of parse db)
       [(o1, rr). o1 \<leftarrow> sort_key ro_repository (sort_key ro_operation (rt_operations db)),
                  ro_repository o1 \<in> set repositories,
                  rr \<leftarrow> rt_refreshes db, rr_repository rr = ro_repository o1])
       (\<lambda>ws. Inr (concat ws))"


section \<open>Lemmas\<close>

definition key_is :: "string \<Rightarrow> string \<Rightarrow> operation_row \<Rightarrow> bool" where
  "key_is repository opn r \<longleftrightarrow> ro_repository r = repository \<and> ro_operation r = opn"

text \<open>The primary key of \<open>github_route_operations\<close>.\<close>

definition route_db_ok :: "route_db \<Rightarrow> bool" where
  "route_db_ok db \<longleftrightarrow>
     distinct (map (\<lambda>r. (ro_repository r, ro_operation r)) (rt_operations db)) \<and>
     (\<forall>r\<in>set (rt_operations db). configured db (ro_repository r) \<and>
        validRouteOperation (ro_operation r))"

lemma sort_key_id: "sorted (map f xs) \<Longrightarrow> sort_key f xs = xs"
  by (induction xs) (auto simp: insort_is_Cons)

lemma check_attempts_None:
  "check_attempts n as = None \<longleftrightarrow>
     (\<forall>i < length as. ra_Priority (as ! i) = n + i \<and> validRouteAttempt (as ! i))"
proof (induction n as rule: check_attempts.induct)
  case (1 n)
  then show ?case by simp
next
  case (2 n a as)
  then show ?case by (auto simp: less_Suc_eq_0_disj)
qed

lemma check_attempts_sorted: "check_attempts n as = None \<Longrightarrow> sorted (map ra_Priority as)"
  by (auto simp: check_attempts_None sorted_iff_nth_mono)

lemma ReplaceRouteAttempts_Inr:
  "ReplaceRouteAttempts db repository opn as at = Inr db' \<Longrightarrow>
     validRouteOperation opn \<and> configured db repository \<and> check_attempts 0 as = None"
  by (simp add: ReplaceRouteAttempts_def result_simps)

lemma attempts_of_Replace:
  assumes "ReplaceRouteAttempts db repository opn as at = Inr db'"
  shows "attempts_of db' repository opn =
      map (\<lambda>a. \<lparr> rw_repository = repository, rw_operation = opn, rw_attempted_at = formatTime at,
                  rw_attempt = a \<rparr>) as"
    and "(r, o1) \<noteq> (repository, opn) \<Longrightarrow> attempts_of db' r o1 = attempts_of db r o1"
proof -
  let ?new = "map (\<lambda>a. \<lparr> rw_repository = repository, rw_operation = opn,
      rw_attempted_at = formatTime at, rw_attempt = a \<rparr>) as"
  let ?old = "filter (\<lambda>r. \<not> (rw_repository r = repository \<and> rw_operation r = opn)) (rt_attempts db)"
  from assms have db': "rt_attempts db' = ?old @ ?new"
    by (auto simp: ReplaceRouteAttempts_def result_simps delete_where_def)
  have "sorted (map ra_Priority as)"
    using ReplaceRouteAttempts_Inr [OF assms] check_attempts_sorted by blast
  then have "sort_key (\<lambda>r. ra_Priority (rw_attempt r)) ?new = ?new"
    by (intro sort_key_id) (simp add: comp_def)
  moreover have "filter (\<lambda>r. rw_repository r = repository \<and> rw_operation r = opn) ?old = []"
    by (auto simp: filter_empty_conv)
  ultimately show "attempts_of db' repository opn = ?new"
    unfolding attempts_of_def db' by (simp add: comp_def)
  assume "(r, o1) \<noteq> (repository, opn)"
  then have "filter (\<lambda>x. rw_repository x = r \<and> rw_operation x = o1) ?new = []"
    and "filter (\<lambda>x. rw_repository x = r \<and> rw_operation x = o1) ?old =
         filter (\<lambda>x. rw_repository x = r \<and> rw_operation x = o1) (rt_attempts db)"
    by (auto simp: filter_empty_conv intro!: filter_cong)
  then show "attempts_of db' r o1 = attempts_of db r o1"
    unfolding attempts_of_def db' filter_append by (simp only: append_Nil2)
qed

lemma upsert_operation_row:
  assumes "\<And>r. ro_repository (f r) = ro_repository r \<and> ro_operation (f r) = ro_operation r"
    and "key_is repository opn new"
  shows "\<exists>r\<in>set (upsert_operation repository opn f new t). key_is repository opn r \<and>
           (r = new \<or> (\<exists>r0\<in>set t. r = f r0))"
  using assms
  by (auto simp: upsert_operation_def key_is_def update_where_def list_ex_iff Bex_def image_iff)

lemma upsert_operation_keys:
  assumes "\<And>r. ro_repository (f r) = ro_repository r \<and> ro_operation (f r) = ro_operation r"
    and "ro_repository new = repository" "ro_operation new = opn"
  shows "distinct (map (\<lambda>r. (ro_repository r, ro_operation r)) t) \<Longrightarrow>
      distinct (map (\<lambda>r. (ro_repository r, ro_operation r)) (upsert_operation repository opn f new t))"
    and "r \<in> set (upsert_operation repository opn f new t) \<Longrightarrow>
      ro_repository r = repository \<and> ro_operation r = opn \<or>
      (\<exists>q\<in>set t. ro_repository q = ro_repository r \<and> ro_operation q = ro_operation r)"
proof -
  let ?p = "\<lambda>r. ro_repository r = repository \<and> ro_operation r = opn"
  have m: "map (\<lambda>r. (ro_repository r, ro_operation r)) (update_where ?p f t) =
      map (\<lambda>r. (ro_repository r, ro_operation r)) t"
    by (rule map_update_where) (simp add: assms(1))
  show "distinct (map (\<lambda>r. (ro_repository r, ro_operation r)) t) \<Longrightarrow>
      distinct (map (\<lambda>r. (ro_repository r, ro_operation r)) (upsert_operation repository opn f new t))"
    using assms(2,3) m by (auto simp: upsert_operation_def Let_def list_ex_iff)
  show "r \<in> set (upsert_operation repository opn f new t) \<Longrightarrow>
      ro_repository r = repository \<and> ro_operation r = opn \<or>
      (\<exists>q\<in>set t. ro_repository q = ro_repository r \<and> ro_operation q = ro_operation r)"
    using assms by (auto simp: upsert_operation_def Let_def update_where_def split: if_splits)
qed

text \<open>The listing of a freshly replaced attempt set.\<close>

lemma add_attempts_map:
  assumes "parse s = Some t"
  shows "add_attempts parse e (map (\<lambda>a. \<lparr> rw_repository = r, rw_operation = o1,
             rw_attempted_at = s, rw_attempt = a \<rparr>) as) =
         Inr (e\<lparr>re_Attempts := re_Attempts e @ map (\<lambda>a. (a, t)) as,
                re_SelectedProfile := foldl (\<lambda>p a. if ra_Selected a then ra_Profile a else p)
                  (re_SelectedProfile e) as\<rparr>)"
  using assms by (induction as arbitrary: e) (auto simp: Let_def)

lemma upsert_operation_all:
  "r \<in> set (upsert_operation repository opn f new t) \<Longrightarrow> key_is repository opn r \<Longrightarrow>
     (\<And>r. ro_repository (f r) = ro_repository r \<and> ro_operation (f r) = ro_operation r) \<Longrightarrow>
     r = new \<or> (\<exists>r0. r = f r0)"
  by (auto simp: upsert_operation_def Let_def update_where_def key_is_def list_ex_iff split: if_splits)

lemma Replace_operations:
  assumes "ReplaceRouteAttempts db repository opn as at = Inr db'"
  shows "\<exists>row\<in>set (rt_operations db'). key_is repository opn row"
    and "row \<in> set (rt_operations db') \<Longrightarrow> key_is repository opn row \<Longrightarrow>
      \<not> ro_pending row \<and> ro_last_attempt_at row = Some (formatTime at)"
proof -
  let ?f = "\<lambda>r. r\<lparr>ro_pending := False, ro_last_attempt_at := Some (formatTime at)\<rparr>"
  let ?new = "\<lparr> ro_repository = repository, ro_operation = opn, ro_pending = False,
                ro_last_attempt_at = Some (formatTime at) \<rparr>"
  from assms have db': "rt_operations db' = upsert_operation repository opn ?f ?new (rt_operations db)"
    by (auto simp: ReplaceRouteAttempts_def result_simps)
  have f: "ro_repository (?f r) = ro_repository r \<and> ro_operation (?f r) = ro_operation r" for r
    by simp
  show "\<exists>row\<in>set (rt_operations db'). key_is repository opn row"
    using upsert_operation_row [of ?f repository opn ?new "rt_operations db", OF f]
    unfolding db' by (auto simp: key_is_def)
  assume "row \<in> set (rt_operations db')" "key_is repository opn row"
  from upsert_operation_all [OF this(1) [unfolded db'] this(2) f]
  show "\<not> ro_pending row \<and> ro_last_attempt_at row = Some (formatTime at)" by auto
qed

text \<open>The store accepts what the router records.\<close>

definition profile_names_ok :: "'c profile list \<Rightarrow> bool" where
  "profile_names_ok ps \<longleftrightarrow> (\<forall>p\<in>set ps. length (p_Name p) \<le> 100 \<and> plain_text (p_Name p))"

lemma plain_text_append [simp]: "plain_text (s @ t) \<longleftrightarrow> plain_text s \<and> plain_text t"
  by (simp add: plain_text_def)

lemma attempt_of_valid:
  assumes "attempt_of opn i p a" "profile_ok p" "length (p_Name p) \<le> 100" "plain_text (p_Name p)"
  shows "validRouteAttempt (storageRouteAttempts [a] ! 0)"
proof -
  have "profile_type_text (p_Type p) \<in> {''github_app'', ''fine_grained_pat''}"
    using assms(2) by (auto simp: profile_ok_def)
  moreover have "outcome_text (a_Outcome a) \<in> {''selected'', ''advanced'', ''failed''}"
    by (cases "a_Outcome a") simp_all
  moreover have "validRouteFailure (case a_Failure a of None \<Rightarrow> [] | Some c \<Rightarrow> category_text c)"
    using assms(1) by (auto simp: attempt_of_def validRouteFailure_def split: option.splits)
  moreover have "p_Name p \<noteq> []" using assms(2) by (simp add: profile_ok_def)
  ultimately show ?thesis
    using assms by (simp add: validRouteAttempt_def storageRouteAttempts_def attempt_of_def
        bounded_text_def)
qed

lemma trace_stored:
  assumes "trace_ok opn ps as" "list_all profile_ok ps" "profile_names_ok ps"
  shows "check_attempts 0 (storageRouteAttempts as) = None"
  unfolding check_attempts_None
proof (intro allI impI)
  fix i
  assume "i < length (storageRouteAttempts as)"
  then have i: "i < length as" by (simp add: storageRouteAttempts_def)
  with assms(1) have a: "attempt_of opn i (ps ! i) (as ! i)" "i < length ps"
    by (auto simp: trace_ok_def)
  then have "profile_ok (ps ! i)" "length (p_Name (ps ! i)) \<le> 100" "plain_text (p_Name (ps ! i))"
    using assms(2,3) by (auto simp: list_all_length profile_names_ok_def)
  from attempt_of_valid [OF a(1) this] a(1) i
  show "ra_Priority (storageRouteAttempts as ! i) = 0 + i \<and>
      validRouteAttempt (storageRouteAttempts as ! i)"
    by (simp add: storageRouteAttempts_def attempt_of_def)
qed

lemma selected_priority_snoc:
  assumes "\<forall>r\<in>set rs. \<not> ra_Selected (rw_attempt r)"
  shows "selected_priority (rs @ [r]) =
    (if ra_Selected (rw_attempt r) then int (ra_Priority (rw_attempt r)) else -1)"
  using assms unfolding selected_priority_def by (induction rs) auto

lemma selected_priority_none:
  "\<forall>r\<in>set rs. \<not> ra_Selected (rw_attempt r) \<Longrightarrow> selected_priority rs = -1"
  unfolding selected_priority_def by (induction rs) auto

lemma operation_text_valid: "validRouteOperation (operation_text opn)"
  by (cases opn) (simp_all add: validRouteOperation_def route_operations_def)

definition expected_status :: "bool \<Rightarrow> nat \<Rightarrow> string" where
  "expected_status succeeded attempts =
     (if attempts = 0 then [] else if \<not> succeeded then ''failed''
      else if attempts = 1 then [] else ''fallback'')"

lemma trace_status:
  assumes trace: "trace_ok opn ps as" and adv: "all_advanced (butlast as)"
    and sel: "case r of Inr _ \<Rightarrow> as \<noteq> [] \<and> a_Selected (last as) | Inl _ \<Rightarrow> \<not> list_ex a_Selected as"
  shows "warning_status False (selected_priority (map (\<lambda>a. \<lparr> rw_repository = repository,
           rw_operation = o1, rw_attempted_at = s, rw_attempt = a \<rparr>) (storageRouteAttempts as)))
           (length (storageRouteAttempts as)) = expected_status (\<not> isl r) (length as)"
proof (cases as rule: rev_cases)
  case Nil
  with sel show ?thesis
    by (cases r) (simp_all add: storageRouteAttempts_def expected_status_def warning_status_def
        selected_priority_def)
next
  case (snoc bs a)
  have attempt: "attempt_of opn i (ps ! i) (as ! i)" if "i < length as" for i
    using trace that by (simp add: trace_ok_def)
  have bs: "\<forall>b\<in>set bs. \<not> a_Selected b"
  proof
    fix b assume b: "b \<in> set bs"
    with adv snoc have "a_Outcome b = RouteOutcomeAdvanced" by (simp add: all_advanced_def)
    moreover obtain i where "i < length as" "as ! i = b"
      using b snoc by (metis in_set_conv_nth Un_iff set_append)
    ultimately show "\<not> a_Selected b" using attempt [of i] by (simp add: attempt_of_def)
  qed
  have prio: "a_Priority a = length bs"
    using attempt [of "length bs"] snoc by (simp add: attempt_of_def)
  from sel snoc have "a_Selected a = (\<not> isl r)" by (cases r) simp_all
  with bs prio snoc show ?thesis
    by (simp add: storageRouteAttempts_def selected_priority_snoc expected_status_def
        warning_status_def)
qed

section \<open>Properties\<close>

text \<open>
  Whatever a routed operation records is accepted by the store, and the public route
  warning derived from it tells what happened: no warning when the first profile served the
  operation, \<open>fallback\<close> when a later one did, \<open>failed\<close> when every attempt failed.
\<close>

theorem routed_attempts_stored:
  assumes routes: "routes_ok U rs" "\<forall>(owner, ps)\<in>set rs. profile_names_ok ps"
    and routed: "routeRepositoryPhase U rs repository opn ctxErr collect = Some (r, as)"
    and configured: "configured db repository"
  shows "\<exists>db' row. ReplaceRouteAttempts db repository (operation_text opn) (storageRouteAttempts as) at
             = Inr db' \<and>
           row \<in> set (rt_operations db') \<and> key_is repository (operation_text opn) row \<and>
           operation_status db' row = expected_status (\<not> isl r) (length as)"
proof -
  let ?ps = "owner_profiles U rs (fst (Cut repository (CHR ''/'')))" and ?op = "operation_text opn"
  have tr: "trace_ok opn ?ps as" "all_advanced (butlast as)"
    "case r of Inr _ \<Rightarrow> as \<noteq> [] \<and> a_Selected (last as) | Inl _ \<Rightarrow> \<not> list_ex a_Selected as"
    using routed_trace [OF routed] by simp_all
  have names: "list_all profile_ok ?ps \<and> profile_names_ok ?ps"
    using owner_profiles_ok [OF routes(1) refl] routes(2)
    by (cases "?ps = []")
      (auto simp: profile_names_ok_def owner_profiles_def split: option.splits dest!: map_of_SomeD)
  then have "check_attempts 0 (storageRouteAttempts as) = None"
    using trace_stored [OF tr(1)] by simp
  then obtain db' where db': "ReplaceRouteAttempts db repository ?op (storageRouteAttempts as) at
      = Inr db'"
    using configured operation_text_valid [of opn] by (simp add: ReplaceRouteAttempts_def)
  from Replace_operations [OF db'] obtain row where row: "row \<in> set (rt_operations db')"
      "key_is repository ?op row" "\<not> ro_pending row" by blast
  have "operation_status db' row = expected_status (\<not> isl r) (length as)"
    using row(2,3) trace_status [OF tr] attempts_of_Replace(1) [OF db']
    by (simp add: operation_status_def key_is_def)
  with db' row show ?thesis by blast
qed

text \<open>The collection of the witness fails over from the first to the second profile.\<close>

definition sample_db :: route_db where
  "sample_db = \<lparr> rt_refreshes = [\<lparr> rr_repository = ''ACME/x'', rr_state = ''fresh'',
     rr_last_attempt_at = None, rr_last_success_at = None, rr_error = [] \<rparr>],
     rt_operations = [], rt_attempts = [] \<rparr>"

lemma routed_attempts_stored_witness:
  "\<exists>as db' row. ReplaceRouteAttempts sample_db ''ACME/x'' ''hydration'' (storageRouteAttempts as) 0
       = Inr db' \<and> row \<in> set (rt_operations db') \<and> operation_status db' row = ''fallback''"
proof -
  let ?rs = "[(''acme'', [sample_profile ''first'' 0, sample_profile ''second'' 7])]"
  have names: "\<forall>(owner, ps)\<in>set ?rs. profile_names_ok ps"
    by (simp add: profile_names_ok_def sample_profile_def plain_text_def byte_def)
  have cfg: "configured sample_db ''ACME/x''" by (simp add: configured_def sample_db_def)
  obtain as where as: "routeRepositoryPhase id ?rs ''ACME/x'' OperationHydration (\<lambda>_. None)
      sample_collect = Some (Inr 7, as)" "length as = 2"
    using sample_routed by blast
  show ?thesis
    using routed_attempts_stored [OF sample_routes_ok names as(1) cfg, of 0] as(2)
    by (fastforce simp: expected_status_def)
qed

text \<open>
  Replacing an operation's attempts is what its name says: the administrator's listing then
  shows exactly the new attempts in order, with the profile that was selected, no longer
  pending; the attempts of every other operation are untouched.
\<close>

theorem ReplaceRouteAttempts_listed:
  assumes replaced: "ReplaceRouteAttempts db repository opn as at = Inr db'"
    and parsed: "parse (formatTime at) = Some at"
  shows "(\<exists>row\<in>set (rt_operations db'). route_entry_of parse db' row =
            Inr \<lparr> re_Repository = repository, re_Operation = opn, re_Pending = False,
                  re_SelectedProfile = foldl (\<lambda>p a. if ra_Selected a then ra_Profile a else p) [] as,
                  re_LastAttempt = Some at, re_Attempts = map (\<lambda>a. (a, at)) as \<rparr>) \<and>
         (\<forall>r o1. (r, o1) = (repository, opn) \<or> attempts_of db' r o1 = attempts_of db r o1)"
proof
  from Replace_operations [OF replaced] obtain row where row: "row \<in> set (rt_operations db')"
      "key_is repository opn row" "\<not> ro_pending row" "ro_last_attempt_at row = Some (formatTime at)"
    by blast
  have "route_entry_of parse db' row =
      Inr \<lparr> re_Repository = repository, re_Operation = opn, re_Pending = False,
            re_SelectedProfile = foldl (\<lambda>p a. if ra_Selected a then ra_Profile a else p) [] as,
            re_LastAttempt = Some at, re_Attempts = map (\<lambda>a. (a, at)) as \<rparr>"
    using row parsed attempts_of_Replace(1) [OF replaced]
    by (simp add: route_entry_of_def key_is_def add_attempts_map)
  with row(1) show "\<exists>row\<in>set (rt_operations db'). route_entry_of parse db' row =
      Inr \<lparr> re_Repository = repository, re_Operation = opn, re_Pending = False,
            re_SelectedProfile = foldl (\<lambda>p a. if ra_Selected a then ra_Profile a else p) [] as,
            re_LastAttempt = Some at, re_Attempts = map (\<lambda>a. (a, at)) as \<rparr>" by blast
  show "\<forall>r o1. (r, o1) = (repository, opn) \<or> attempts_of db' r o1 = attempts_of db r o1"
    using attempts_of_Replace(2) [OF replaced] by blast
qed

definition sample_attempts :: "route_attempt list" where
  "sample_attempts =
     [\<lparr> ra_Profile = ''first'', ra_Priority = 0, ra_ProfileType = ''github_app'',
        ra_Outcome = ''advanced'', ra_FailureCategory = ''permission_missing'', ra_Detail = [],
        ra_Remediation = [], ra_Selected = False \<rparr>,
      \<lparr> ra_Profile = ''second'', ra_Priority = 1, ra_ProfileType = ''github_app'',
        ra_Outcome = ''selected'', ra_FailureCategory = [], ra_Detail = [],
        ra_Remediation = [], ra_Selected = True \<rparr>]"

lemma sample_attempts_ok: "check_attempts 0 sample_attempts = None"
  by (simp add: sample_attempts_def validRouteAttempt_def validRouteFailure_def
      stored_categories_def plain_text_def byte_def)

lemma ReplaceRouteAttempts_listed_witness:
  "\<exists>db' row. ReplaceRouteAttempts sample_db ''ACME/x'' ''progress'' sample_attempts 0 = Inr db' \<and>
     row \<in> set (rt_operations db') \<and>
     (case route_entry_of (\<lambda>_. Some 0) db' row of
        Inr e \<Rightarrow> re_SelectedProfile e = ''second'' \<and> length (re_Attempts e) = 2 | Inl _ \<Rightarrow> False)"
proof -
  have "configured sample_db ''ACME/x''" "validRouteOperation ''progress''"
    by (simp_all add: configured_def sample_db_def validRouteOperation_def route_operations_def)
  then obtain db' where db': "ReplaceRouteAttempts sample_db ''ACME/x'' ''progress'' sample_attempts 0
      = Inr db'"
    using sample_attempts_ok by (simp add: ReplaceRouteAttempts_def)
  from ReplaceRouteAttempts_listed [OF db', of "\<lambda>_. Some 0"] obtain row where
    row: "row \<in> set (rt_operations db')" and e: "route_entry_of (\<lambda>_. Some 0) db' row =
      Inr \<lparr> re_Repository = ''ACME/x'', re_Operation = ''progress'', re_Pending = False,
            re_SelectedProfile =
              foldl (\<lambda>p a. if ra_Selected a then ra_Profile a else p) [] sample_attempts,
            re_LastAttempt = Some 0, re_Attempts = map (\<lambda>a. (a, 0)) sample_attempts \<rparr>" by auto
  have "foldl (\<lambda>p a. if ra_Selected a then ra_Profile a else p) [] sample_attempts = ''second''"
      "length sample_attempts = 2"
    by (simp_all add: sample_attempts_def)
  with e have "case route_entry_of (\<lambda>_. Some 0) db' row of
      Inr e \<Rightarrow> re_SelectedProfile e = ''second'' \<and> length (re_Attempts e) = 2 | Inl _ \<Rightarrow> False"
    by simp
  with db' row show ?thesis by blast
qed

end
