(* ===== verification/Config.thy ===== *)
theory Config
  imports GoStrings
begin

text \<open>
  \<open>internal/config/config.go\<close>: the configuration document and its validation, with
  \<open>internal/periodic/parse.go\<close>. Pointers are options. A Go map is an association list in the
  order in which a range loop happens to visit it (\<open>maps_ok\<close> says that its keys are distinct).
  The URL parser, the cron parser, the YAML decoder and the Unicode case tables are library code
  and come as parameters, in the record \<open>env\<close>.
\<close>

record url =
  url_Scheme :: string
  url_Host :: string
  url_User :: bool
  url_RawQuery :: string
  url_Fragment :: string
  url_Path :: string

record 's env =
  e_lower :: "string \<Rightarrow> string"
  e_url :: "string \<Rightarrow> url option"
  e_cron :: "string \<Rightarrow> 's option"

section \<open>The document\<close>

record secret_reference =
  s_Environment :: string
  s_File :: string

record auth_profile =
  ap_Type :: string
  ap_AppID :: "int option"
  ap_InstallationID :: "int option"
  ap_PrivateKey :: "secret_reference option"
  ap_Token :: "secret_reference option"

record authentication =
  au_Profiles :: "(string \<times> auth_profile) list"
  au_Owners :: "(string \<times> string list) list"

record user_auth =
  ua_ClientID :: string
  ua_ClientSecret :: secret_reference

record github =
  gh_Schedule :: string
  gh_Authentication :: "authentication option"
  gh_UserAuth :: "user_auth option"

record model_provider =
  mp_Type :: string
  mp_BaseURL :: string
  mp_Model :: string
  mp_APIKey :: secret_reference

record repository_discovery =
  d_Mode :: string
  d_Query :: string

record description_diff_mismatch =
  dd_MinReferences :: "int option"
  dd_StrongMismatchMinReferences :: "int option"

record broad_additions_only =
  ba_MinFiles :: "int option"
  ba_MinAdditions :: "int option"
  ba_MaxDeletions :: "int option"

record quality_config =
  q_DescriptionDiffMismatch :: "description_diff_mismatch option"
  q_BroadAdditionsOnly :: "broad_additions_only option"

record unusual_activity =
  un_AccountAgeDays :: "int option"
  un_WindowDays :: "int option"
  un_MinRepositories :: "int option"
  un_MinOrganizations :: "int option"

record contribution_config =
  cn_Schedule :: string
  cn_EstablishedMergedPRs :: "int option"
  cn_UnusualActivity :: "unusual_activity option"

record authorization =
  az_Organizations :: "string list"
  az_Teams :: "string list"
  az_Users :: "int list"

record collection =
  cl_ID :: string
  cl_Name :: string
  cl_Description :: string
  cl_Repositories :: "string list"
  cl_Discovery :: "(string \<times> repository_discovery) list"
  cl_Quality :: "quality_config option"
  cl_Contribution :: "contribution_config option"
  cl_ModelProvider :: string
  cl_ModelFallbackProvider :: string
  cl_FeatureCorrelation :: "string option"
  cl_Authorization :: "authorization option"

record config =
  ExternalBaseURL :: string
  GitHub :: "github option"
  ModelProviders :: "(string \<times> model_provider) list"
  DeploymentAdmins :: "int list"
  Operations :: "secret_reference option"
  Collections :: "collection list"

text \<open>The errors of each part of the document.\<close>

datatype profile_error =
    BadProfileName string | ProfileNameCase string | AppIDNotPositive string |
    InstallationIDNotPositive string | AppWithToken string | PATWithApp string |
    BadProfileKind string

datatype owner_error =
    BadOwner string | OwnerNameCase string | OwnerWithoutProfiles string |
    DuplicateProfile string | UnknownProfile string | ProfileShared string | ProfileUnused
    string | OwnerNotCovered string | OwnerCasing string

datatype provider_error =
    BadProviderName string | BadProviderType string | BadProviderURL string |
    BadProviderModel string | BadProviderKey string

datatype repository_error =
    BadRepository nat string | DuplicateRepository nat string | RepositoryCasing nat
    string | DiscoveryUnlisted nat string | QueryForAllOpen nat string | NoSearchQuery nat
    string | SearchQueryTooLong nat string | BadDiscoveryMode nat string

datatype collection_error =
    BadCollectionID string | DuplicateCollection string | NoName nat | NameTooLong nat |
    DescriptionTooLong nat | NoRepositories nat | UnknownProvider string |
    FallbackWithoutProvider nat | FallbackSame nat | UnknownFallback string |
    CorrelationWithoutProvider nat

datatype access_error =
    BadAdmin int | DuplicateAdmin int | AdminsWithoutLogin | AuthorizationWithoutLogin nat
    | EmptyAuthorization nat | BadOrganization string | DuplicateOrganization string |
    BadTeam string | DuplicateTeam string | BadUser int | DuplicateUser int

datatype config_error =
    NoCollections | NoAuthentication | NoAuthProfiles | NoAuthOwners | SecretSource string
    | BadSchedule string | NoClientID | BadExternalURL | BadQuality string |
    BadContribution string | InProfile profile_error | InOwner owner_error | InProvider
    provider_error | InRepository repository_error | InCollection collection_error |
    InAccess access_error

section \<open>Identifier patterns\<close>

definition lower_alpha :: "char \<Rightarrow> bool" where
  "lower_alpha c \<longleftrightarrow> 97 \<le> byte c \<and> byte c \<le> 122"

definition alnum :: "char \<Rightarrow> bool" where
  "alnum c \<longleftrightarrow> lower_alpha c \<or> 65 \<le> byte c \<and> byte c \<le> 90 \<or> is_digit c"

definition slug_char :: "char \<Rightarrow> bool" where
  "slug_char c \<longleftrightarrow> lower_alpha c \<or> is_digit c \<or> c = CHR ''-''"

definition collectionIDRE :: "string \<Rightarrow> bool" where
  "collectionIDRE s = (case s of [] \<Rightarrow> False
     | c # cs \<Rightarrow> lower_alpha c \<and> list_all slug_char cs \<and> length cs \<le> 62)"

definition organizationRE :: "string \<Rightarrow> bool" where
  "organizationRE s = (case s of [] \<Rightarrow> False
     | c # cs \<Rightarrow> alnum c \<and> list_all (\<lambda>c. alnum c \<or> c = CHR ''-'') cs \<and> length cs \<le> 38)"

definition repositoryRE :: "string \<Rightarrow> bool" where
  "repositoryRE s =
     (let (owner, name, found) = Cut s (CHR ''/'') in
      found \<and> organizationRE owner \<and> 1 \<le> length name \<and> length name \<le> 100 \<and>
      list_all (\<lambda>c. alnum c \<or> c \<in> {CHR ''_'', CHR ''.'', CHR ''-''}) name)"

definition teamRE :: "string \<Rightarrow> bool" where
  "teamRE s =
     (let (org, team, found) = Cut s (CHR ''/'') in
      found \<and> organizationRE org \<and>
      (case team of [] \<Rightarrow> False
       | c # cs \<Rightarrow> (lower_alpha c \<or> is_digit c) \<and> list_all slug_char cs \<and> length cs \<le> 99))"

section \<open>Validation\<close>

text \<open>\<open>periodic.Parse\<close>.\<close>

definition ParseSchedule :: "'s env \<Rightarrow> string \<Rightarrow> 's option" where
  "ParseSchedule E expression =
     (if TrimSpace expression \<noteq> expression \<or> expression = [] \<or> length (Fields expression) \<noteq> 5
      then None else e_cron E expression)"

definition validateSchedule :: "'s env \<Rightarrow> string \<Rightarrow> string \<Rightarrow> config_error option" where
  "validateSchedule E name expression =
     guardE (ParseSchedule E expression = None) (BadSchedule name)"

definition validateSecretReference :: "string \<Rightarrow> secret_reference \<Rightarrow> config_error option" where
  "validateSecretReference name r =
     guardE ((TrimSpace (s_Environment r) \<noteq> []) = (TrimSpace (s_File r) \<noteq> [])) (SecretSource name)"

definition positive_opt :: "int option \<Rightarrow> bool" where
  "positive_opt v = (case v of None \<Rightarrow> True | Some n \<Rightarrow> 1 \<le> n)"

definition validateQuality :: "quality_config option \<Rightarrow> config_error option" where
  "validateQuality quality = (case quality of None \<Rightarrow> None | Some q \<Rightarrow>
     seqE
      (case q_DescriptionDiffMismatch q of None \<Rightarrow> None | Some m \<Rightarrow>
         seqE (guardE (\<not> positive_opt (dd_MinReferences m)) (BadQuality ''min_references''))
        (seqE (guardE (\<not> positive_opt (dd_StrongMismatchMinReferences m))
                (BadQuality ''strong_mismatch_min_references''))
              (case (dd_MinReferences m, dd_StrongMismatchMinReferences m) of
                 (Some a, Some b) \<Rightarrow> guardE (b < a) (BadQuality ''strong below min_references'')
               | _ \<Rightarrow> None)))
      (case q_BroadAdditionsOnly q of None \<Rightarrow> None | Some b \<Rightarrow>
         seqE (guardE (\<not> positive_opt (ba_MinFiles b)) (BadQuality ''min_files''))
        (seqE (guardE (\<not> positive_opt (ba_MinAdditions b)) (BadQuality ''min_additions''))
              (guardE (case ba_MaxDeletions b of None \<Rightarrow> False | Some n \<Rightarrow> n < 0)
                (BadQuality ''max_deletions'')))))"

definition validateContribution :: "'s env \<Rightarrow> contribution_config option \<Rightarrow> config_error option" where
  "validateContribution E contribution = (case contribution of None \<Rightarrow> None | Some c \<Rightarrow>
     seqE (validateSchedule E ''contribution.schedule'' (cn_Schedule c))
    (seqE (guardE (\<not> positive_opt (cn_EstablishedMergedPRs c))
             (BadContribution ''established_merged_prs''))
     (case cn_UnusualActivity c of None \<Rightarrow> None | Some u \<Rightarrow>
        first_err (\<lambda>(name, v). guardE (\<not> positive_opt v) (BadContribution name))
          [(''account_age_days'', un_AccountAgeDays u), (''window_days'', un_WindowDays u),
           (''min_repositories'', un_MinRepositories u),
           (''min_organizations'', un_MinOrganizations u)])))"

text \<open>Loops that reject a value whose key was seen before.\<close>

fun check_unique ::
  "('a \<Rightarrow> 'k) \<Rightarrow> ('a \<Rightarrow> bool) \<Rightarrow> ('a \<Rightarrow> 'e) \<Rightarrow> ('a \<Rightarrow> 'e) \<Rightarrow> 'k list \<Rightarrow> 'a list \<Rightarrow> 'e option" where
  "check_unique key ok bad dup seen [] = None"
| "check_unique key ok bad dup seen (x # xs) =
     (if \<not> ok x then Some (bad x) else if key x \<in> set seen then Some (dup x)
      else check_unique key ok bad dup (key x # seen) xs)"

definition validateAuthorization :: "'s env \<Rightarrow> nat \<Rightarrow> authorization \<Rightarrow> config_error option" where
  "validateAuthorization E index a =
     seqE (guardE (az_Organizations a = [] \<and> az_Teams a = [] \<and> az_Users a = [])
            (InAccess (EmptyAuthorization index)))
    (seqE (check_unique (ToLower (e_lower E)) organizationRE (InAccess \<circ> BadOrganization)
            (InAccess \<circ> DuplicateOrganization) [] (az_Organizations a))
    (seqE (check_unique (ToLower (e_lower E)) teamRE (InAccess \<circ> BadTeam)
            (InAccess \<circ> DuplicateTeam) [] (az_Teams a))
          (check_unique id (\<lambda>i. 0 < i) (InAccess \<circ> BadUser) (InAccess \<circ> DuplicateUser) []
            (az_Users a))))"

definition check_profile :: "string \<Rightarrow> auth_profile \<Rightarrow> config_error option" where
  "check_profile name p =
     (if ap_Type p = ''github_app'' then
        seqE (guardE (case ap_AppID p of None \<Rightarrow> True | Some n \<Rightarrow> n \<le> 0) (InProfile (AppIDNotPositive name)))
       (seqE (guardE (case ap_InstallationID p of None \<Rightarrow> True | Some n \<Rightarrow> n \<le> 0)
               (InProfile (InstallationIDNotPositive name)))
       (seqE (case ap_PrivateKey p of None \<Rightarrow> Some (SecretSource name)
              | Some r \<Rightarrow> validateSecretReference name r)
             (guardE (ap_Token p \<noteq> None) (InProfile (AppWithToken name)))))
      else if ap_Type p = ''fine_grained_pat'' then
        seqE (case ap_Token p of None \<Rightarrow> Some (SecretSource name)
              | Some r \<Rightarrow> validateSecretReference name r)
             (guardE (ap_AppID p \<noteq> None \<or> ap_InstallationID p \<noteq> None \<or> ap_PrivateKey p \<noteq> None)
               (InProfile (PATWithApp name)))
      else Some (InProfile (BadProfileKind name)))"

text \<open>The loop over the profiles; \<open>canonical\<close> maps the lower-case names seen to the names.\<close>

fun check_auth_profiles ::
  "'s env \<Rightarrow> (string \<times> string) list \<Rightarrow> (string \<times> auth_profile) list \<Rightarrow>
   config_error + (string \<times> string) list" where
  "check_auth_profiles E canonical [] = Inr canonical"
| "check_auth_profiles E canonical ((name, p) # ps) =
     (let key = ToLower (e_lower E) name in
      failIf (\<not> collectionIDRE key) (InProfile (BadProfileName name))
     (failIf (map_of canonical key \<noteq> None) (InProfile (ProfileNameCase name))
     (failE (check_profile name p)
     (check_auth_profiles E ((key, name) # canonical) ps))))"

text \<open>The loop over one owner's profile names; \<open>used\<close> maps profile keys to their owner.\<close>

fun check_assignment ::
  "'s env \<Rightarrow> (string \<times> string) list \<Rightarrow> string \<Rightarrow> string list \<Rightarrow> (string \<times> string) list \<Rightarrow>
   string list \<Rightarrow> config_error + (string \<times> string) list" where
  "check_assignment E canonical owner seen used [] = Inr used"
| "check_assignment E canonical owner seen used (n # ns) =
     (let key = ToLower (e_lower E) n in
      failIf (key \<in> set seen) (InOwner (DuplicateProfile n))
     (failIf (map_of canonical key \<noteq> Some n) (InOwner (UnknownProfile n))
     (failIf (map_of used key \<noteq> None) (InOwner (ProfileShared n))
     (check_assignment E canonical owner (key # seen) ((key, owner) # used) ns))))"

fun check_auth_owners ::
  "'s env \<Rightarrow> (string \<times> string) list \<Rightarrow> string list \<Rightarrow> (string \<times> string) list \<Rightarrow>
   (string \<times> string list) list \<Rightarrow> config_error + (string \<times> string) list" where
  "check_auth_owners E canonical seen used [] = Inr used"
| "check_auth_owners E canonical seen used ((owner, names) # os) =
     (let key = ToLower (e_lower E) owner in
      failIf (\<not> organizationRE owner) (InOwner (BadOwner owner))
     (failIf (key \<in> set seen) (InOwner (OwnerNameCase owner))
     (failIf (names = []) (InOwner (OwnerWithoutProfiles owner))
     (bindR (check_assignment E canonical owner [] used names) (\<lambda>used'.
      check_auth_owners E canonical (key # seen) used' os)))))"

definition validateGitHubAuthentication :: "'s env \<Rightarrow> authentication \<Rightarrow> config_error option" where
  "validateGitHubAuthentication E a =
     (if au_Profiles a = [] then Some NoAuthProfiles
      else if au_Owners a = [] then Some NoAuthOwners
      else case check_auth_profiles E [] (au_Profiles a) of
        Inl e \<Rightarrow> Some e
      | Inr canonical \<Rightarrow>
         (case check_auth_owners E canonical [] [] (au_Owners a) of
            Inl e \<Rightarrow> Some e
          | Inr used \<Rightarrow>
              first_err (\<lambda>(key, name). guardE (map_of used key = None) (InOwner (ProfileUnused name))) canonical))"

definition validateGitHubOwnerCoverage ::
  "'s env \<Rightarrow> authentication \<Rightarrow> string list \<Rightarrow> config_error option" where
  "validateGitHubOwnerCoverage E a repositories =
     (let owners = map (\<lambda>(owner, _). (ToLower (e_lower E) owner, owner)) (rev (au_Owners a)) in
      first_err (\<lambda>repository.
        let owner = fst (Cut repository (CHR ''/'')) in
        case map_of owners (ToLower (e_lower E) owner) of
          None \<Rightarrow> Some (InOwner (OwnerNotCovered owner))
        | Some configured \<Rightarrow> guardE (configured \<noteq> owner) (InOwner (OwnerCasing configured))) repositories)"

definition check_provider :: "'s env \<Rightarrow> string \<times> model_provider \<Rightarrow> config_error option" where
  "check_provider E x =
     (let (name, p) = x in
      seqE (guardE (\<not> collectionIDRE name) (InProvider (BadProviderName name)))
     (seqE (guardE (mp_Type p \<noteq> ''openai'' \<and> mp_Type p \<noteq> ''ollama'') (InProvider (BadProviderType name)))
     (seqE (guardE (case e_url E (mp_BaseURL p) of None \<Rightarrow> True
              | Some u \<Rightarrow> url_Host u = [] \<or> (url_Scheme u \<noteq> ''http'' \<and> url_Scheme u \<noteq> ''https''))
             (InProvider (BadProviderURL name)))
     (seqE (guardE (TrimSpace (mp_Model p) = [] \<or> length (mp_Model p) > 200) (InProvider (BadProviderModel name)))
           (guardE (TrimSpace (s_Environment (mp_APIKey p)) \<noteq> [] \<and>
                    TrimSpace (s_File (mp_APIKey p)) \<noteq> []) (InProvider (BadProviderKey name)))))))"

definition check_user_auth :: "'s env \<Rightarrow> string \<Rightarrow> user_auth \<Rightarrow> config_error option" where
  "check_user_auth E base ua =
     seqE (guardE (TrimSpace (ua_ClientID ua) = []) NoClientID)
    (seqE (validateSecretReference ''github.user_auth.client_secret'' (ua_ClientSecret ua))
          (guardE (case e_url E base of None \<Rightarrow> True
             | Some u \<Rightarrow> url_Scheme u \<noteq> ''https'' \<or> url_Host u = [] \<or> url_User u \<or>
                 url_RawQuery u \<noteq> [] \<or> url_Fragment u \<noteq> [] \<or>
                 (url_Path u \<noteq> [] \<and> url_Path u \<noteq> ''/'')) BadExternalURL))"

definition check_github :: "'s env \<Rightarrow> config \<Rightarrow> github \<Rightarrow> config_error option" where
  "check_github E c g =
     seqE (case gh_Authentication g of None \<Rightarrow> None
           | Some a \<Rightarrow> seqE (validateGitHubAuthentication E a)
               (validateSchedule E ''github.schedule'' (gh_Schedule g)))
          (case gh_UserAuth g of None \<Rightarrow> None
           | Some ua \<Rightarrow> check_user_auth E (ExternalBaseURL c) ua)"

text \<open>
  The loop over a collection's repositories: \<open>listed\<close> are the lower-case identities of this
  collection, \<open>canonical\<close> the spelling of each identity seen in the whole document.
\<close>

fun check_repositories ::
  "'s env \<Rightarrow> nat \<Rightarrow> string list \<Rightarrow> (string \<times> string) list \<Rightarrow> string list \<Rightarrow>
   config_error + (string list \<times> (string \<times> string) list)" where
  "check_repositories E index listed canonical [] = Inr (listed, canonical)"
| "check_repositories E index listed canonical (r # rs) =
     (let identity = ToLower (e_lower E) r in
      failIf (\<not> repositoryRE r) (InRepository (BadRepository index r))
     (failIf (identity \<in> set listed) (InRepository (DuplicateRepository index r))
     (failIf (case map_of canonical identity of None \<Rightarrow> False | Some c \<Rightarrow> c \<noteq> r)
        (InRepository (RepositoryCasing index r))
     (check_repositories E index (identity # listed)
        (if map_of canonical identity = None then (identity, r) # canonical else canonical) rs))))"

definition check_discovery ::
  "'s env \<Rightarrow> nat \<Rightarrow> string list \<Rightarrow> string \<times> repository_discovery \<Rightarrow> config_error option" where
  "check_discovery E index listed x =
     (let (repository, d) = x in
      seqE (guardE (ToLower (e_lower E) repository \<notin> set listed)
              (InRepository (DiscoveryUnlisted index repository)))
      (if d_Mode d = ''all_open''
       then guardE (TrimSpace (d_Query d) \<noteq> []) (InRepository (QueryForAllOpen index repository))
       else if d_Mode d = ''search''
       then seqE (guardE (TrimSpace (d_Query d) = []) (InRepository (NoSearchQuery index repository)))
                 (guardE (length (d_Query d) > 256)
                    (InRepository (SearchQueryTooLong index repository)))
       else Some (InRepository (BadDiscoveryMode index repository))))"

definition check_providers_of :: "config \<Rightarrow> nat \<Rightarrow> collection \<Rightarrow> config_error option" where
  "check_providers_of c index cl =
     seqE (guardE (cl_ModelProvider cl \<noteq> [] \<and> map_of (ModelProviders c) (cl_ModelProvider cl) = None)
            (InCollection (UnknownProvider (cl_ModelProvider cl))))
     (if cl_ModelFallbackProvider cl = [] then None
      else seqE (guardE (cl_ModelProvider cl = []) (InCollection (FallbackWithoutProvider index)))
          (seqE (guardE (cl_ModelFallbackProvider cl = cl_ModelProvider cl) (InCollection (FallbackSame index)))
                (guardE (map_of (ModelProviders c) (cl_ModelFallbackProvider cl) = None)
                  (InCollection (UnknownFallback (cl_ModelFallbackProvider cl))))))"

definition has_login :: "config \<Rightarrow> bool" where
  "has_login c = (case GitHub c of None \<Rightarrow> False | Some g \<Rightarrow> gh_UserAuth g \<noteq> None)"

definition check_collection ::
  "'s env \<Rightarrow> config \<Rightarrow> nat \<Rightarrow> string list \<Rightarrow> (string \<times> string) list \<Rightarrow> collection \<Rightarrow>
   config_error + (string \<times> string) list" where
  "check_collection E c index ids canonical cl =
     failIf (\<not> collectionIDRE (cl_ID cl)) (InCollection (BadCollectionID (cl_ID cl)))
    (failIf (cl_ID cl \<in> set ids) (InCollection (DuplicateCollection (cl_ID cl)))
    (failIf (TrimSpace (cl_Name cl) = []) (InCollection (NoName index))
    (failIf (length (cl_Name cl) > 100) (InCollection (NameTooLong index))
    (failIf (length (cl_Description cl) > 500) (InCollection (DescriptionTooLong index))
    (failIf (cl_Repositories cl = []) (InCollection (NoRepositories index))
    (bindR (check_repositories E index [] canonical (cl_Repositories cl)) (\<lambda>(listed, canonical').
     failE (first_err (check_discovery E index listed) (cl_Discovery cl))
    (failE (validateQuality (cl_Quality cl))
    (failE (validateContribution E (cl_Contribution cl))
    (failE (check_providers_of c index cl)
    (failE (case cl_FeatureCorrelation cl of None \<Rightarrow> None
            | Some schedule \<Rightarrow> seqE (guardE (cl_ModelProvider cl = []) (InCollection (CorrelationWithoutProvider index)))
                (validateSchedule E ''feature_correlation.schedule'' schedule))
    (failE (case cl_Authorization cl of None \<Rightarrow> None
            | Some a \<Rightarrow> seqE (guardE (\<not> has_login c) (InAccess (AuthorizationWithoutLogin index)))
                (validateAuthorization E index a))
    (Inr canonical')))))))))))))"

fun check_collections ::
  "'s env \<Rightarrow> config \<Rightarrow> nat \<Rightarrow> string list \<Rightarrow> (string \<times> string) list \<Rightarrow> collection list \<Rightarrow>
   config_error + (string \<times> string) list" where
  "check_collections E c index ids canonical [] = Inr canonical"
| "check_collections E c index ids canonical (cl # cls) =
     bindR (check_collection E c index ids canonical cl) (\<lambda>canonical'.
       check_collections E c (index + 1) (cl_ID cl # ids) canonical' cls)"

definition github_authentication :: "config \<Rightarrow> authentication option" where
  "github_authentication c = (case GitHub c of None \<Rightarrow> None | Some g \<Rightarrow> gh_Authentication g)"

definition Validate :: "'s env \<Rightarrow> config \<Rightarrow> config_error option" where
  "Validate E c =
     (if Collections c = [] then Some NoCollections
      else case github_authentication c of
        None \<Rightarrow> Some NoAuthentication
      | Some a \<Rightarrow>
         seqE (case GitHub c of None \<Rightarrow> None | Some g \<Rightarrow> check_github E c g)
        (seqE (check_unique id (\<lambda>i. 0 < i) (InAccess \<circ> BadAdmin)
                 (InAccess \<circ> DuplicateAdmin) [] (DeploymentAdmins c))
        (seqE (guardE (DeploymentAdmins c \<noteq> [] \<and> \<not> has_login c) (InAccess AdminsWithoutLogin))
        (seqE (case Operations c of None \<Rightarrow> None
               | Some r \<Rightarrow> validateSecretReference ''operations.reload_secret'' r)
        (seqE (first_err (check_provider E) (ModelProviders c))
        (case check_collections E c 0 [] [] (Collections c) of
           Inl e \<Rightarrow> Some e
         | Inr canonical \<Rightarrow> validateGitHubOwnerCoverage E a (map snd canonical)))))))"

end
