(* ===== verification/ConfigFacts.thy ===== *)
theory ConfigFacts
  imports Config
begin

text \<open>
  What validation establishes: facts on each loop of \<open>Config.Validate\<close>, the invariant
  \<open>config_ok\<close> of a validated document, and the resolution of secret references.
\<close>

abbreviation lower :: "'s env \<Rightarrow> string \<Rightarrow> string" where
  "lower E s \<equiv> ToLower (e_lower E) s"

section \<open>The loops\<close>

lemma check_unique_None:
  "check_unique key ok bad dup seen xs = None \<longleftrightarrow>
     list_all ok xs \<and> distinct (map key xs) \<and> set seen \<inter> key ` set xs = {}"
  by (induction xs arbitrary: seen) auto

lemma check_auth_profiles_Inr:
  "check_auth_profiles E canonical ps = Inr out \<Longrightarrow> distinct (map fst canonical) \<Longrightarrow>
     out = rev (map (\<lambda>(n, _). (lower E n, n)) ps) @ canonical \<and> distinct (map fst out) \<and>
     (\<forall>(n, p)\<in>set ps. collectionIDRE (lower E n) \<and> check_profile n p = None)"
proof (induction ps arbitrary: canonical)
  case Nil
  then show ?case by simp
next
  case (Cons np ps)
  obtain n p where np: "np = (n, p)" by (cases np)
  from Cons.prems(1) have h: "collectionIDRE (lower E n)" "map_of canonical (lower E n) = None"
      "check_profile n p = None" "check_auth_profiles E ((lower E n, n) # canonical) ps = Inr out"
    by (simp_all add: np Let_def result_simps)
  have "distinct (map fst ((lower E n, n) # canonical))"
    using Cons.prems(2) h(2) by (simp add: map_of_eq_None_iff)
  from Cons.IH [OF h(4) this] have ih:
    "out = rev (map (\<lambda>(n, _). (lower E n, n)) ps) @ (lower E n, n) # canonical"
    "distinct (map fst out)"
    "\<forall>(n, p)\<in>set ps. collectionIDRE (lower E n) \<and> check_profile n p = None" by blast+
  show ?case
  proof (intro conjI)
    show "out = rev (map (\<lambda>(n, _). (lower E n, n)) (np # ps)) @ canonical" by (simp add: ih(1) np)
    show "distinct (map fst out)" by (rule ih(2))
    show "\<forall>(n, p)\<in>set (np # ps). collectionIDRE (lower E n) \<and> check_profile n p = None"
      using ih(3) h(1,3) by (simp add: np)
  qed
qed

lemma check_assignment_Inr:
  "check_assignment E canonical owner seen used ns = Inr out \<Longrightarrow>
     out = rev (map (\<lambda>n. (lower E n, owner)) ns) @ used \<and>
     distinct (map (lower E) ns) \<and> (\<forall>n\<in>set ns. map_of canonical (lower E n) = Some n) \<and>
     fst ` set used \<inter> lower E ` set ns = {}"
proof (induction ns arbitrary: seen used)
  case Nil
  then show ?case by simp
next
  case (Cons n ns)
  from Cons.prems have h: "map_of canonical (lower E n) = Some n" "map_of used (lower E n) = None"
      "check_assignment E canonical owner (lower E n # seen) ((lower E n, owner) # used) ns = Inr out"
    by (simp_all add: Let_def result_simps)
  from Cons.IH [OF h(3)] h(1,2) show ?case by (auto simp: map_of_eq_None_iff)
qed

lemma check_auth_owners_Inr:
  "check_auth_owners E canonical seen used os = Inr out \<Longrightarrow> distinct (map fst used) \<Longrightarrow>
     fst ` set out = fst ` set used \<union> lower E ` set (concat (map snd os)) \<and>
     distinct (map fst used @ map (lower E) (concat (map snd os))) \<and>
     (\<forall>n\<in>set (concat (map snd os)). map_of canonical (lower E n) = Some n) \<and>
     distinct (map (lower E \<circ> fst) os) \<and> set seen \<inter> (lower E \<circ> fst) ` set os = {} \<and>
     (\<forall>(owner, ns)\<in>set os. organizationRE owner \<and> ns \<noteq> [])"
proof (induction os arbitrary: seen used)
  case Nil
  then show ?case by simp
next
  case (Cons on os)
  obtain owner ns where on: "on = (owner, ns)" by (cases on)
  from Cons.prems(1) obtain used' where h: "organizationRE owner" "lower E owner \<notin> set seen" "ns \<noteq> []"
      "check_assignment E canonical owner [] used ns = Inr used'"
      "check_auth_owners E canonical (lower E owner # seen) used' os = Inr out"
    by (auto simp: on Let_def result_simps)
  note a = check_assignment_Inr [OF h(4)]
  have u: "map fst used' = rev (map (lower E) ns) @ map fst used"
    using a by (simp add: rev_map comp_def)
  then have s: "fst ` set used' = lower E ` set ns \<union> fst ` set used"
    by (metis image_set set_append set_rev)
  have d: "distinct (map fst used')"
    using a Cons.prems(2) unfolding u by auto
  note b = Cons.IH [OF h(5) d]
  have "fst ` set out = fst ` set used \<union> lower E ` set (concat (map snd (on # os)))"
    using b unfolding s by (simp add: on image_Un Un_ac)
  moreover have "distinct (map fst used @ map (lower E) (concat (map snd (on # os))))"
  proof -
    have "distinct (map (lower E) ns)" "fst ` set used \<inter> lower E ` set ns = {}"
      using a by blast+
    moreover have "distinct (map (lower E) (concat (map snd os)))"
      "fst ` set used' \<inter> lower E ` set (concat (map snd os)) = {}"
      using b by (simp_all add: image_Un)
    ultimately show ?thesis using Cons.prems(2) unfolding s
      by (simp only: on list.map concat.simps snd_conv map_append distinct_append set_map set_append
          image_Un) blast
  qed
  ultimately show ?case using a b h by (auto simp: on)
qed

lemma distinct_concat_unique:
  "distinct (concat (map f xs)) \<Longrightarrow> x \<in> set xs \<Longrightarrow> n \<in> set (f x) \<Longrightarrow> y \<in> set xs \<Longrightarrow> n \<in> set (f y) \<Longrightarrow> y = x"
  by (induction xs) auto

lemma distinct_concat_elem: "distinct (concat (map f xs)) \<Longrightarrow> x \<in> set xs \<Longrightarrow> distinct (f x)"
  by (induction xs) auto

lemma distinct_mapI: "distinct (map f xs) \<Longrightarrow> distinct xs"
  by (simp add: distinct_map)

section \<open>Authentication\<close>

definition auth_ok :: "'s env \<Rightarrow> authentication \<Rightarrow> bool" where
  "auth_ok E a \<longleftrightarrow>
     au_Owners a \<noteq> [] \<and>
     distinct (map (lower E) (concat (map snd (au_Owners a)))) \<and>
     set (concat (map snd (au_Owners a))) = fst ` set (au_Profiles a) \<and>
     distinct (map (lower E \<circ> fst) (au_Profiles a)) \<and>
     distinct (map (lower E \<circ> fst) (au_Owners a)) \<and>
     (\<forall>(owner, ns)\<in>set (au_Owners a). organizationRE owner \<and> ns \<noteq> []) \<and>
     (\<forall>(n, p)\<in>set (au_Profiles a). collectionIDRE (lower E n) \<and> check_profile n p = None)"

lemma validateGitHubAuthentication_ok:
  assumes "validateGitHubAuthentication E a = None"
  shows "auth_ok E a"
proof -
  from assms obtain canonical used where
    ne: "au_Profiles a \<noteq> []" "au_Owners a \<noteq> []" and
    c: "check_auth_profiles E [] (au_Profiles a) = Inr canonical" and
    u: "check_auth_owners E canonical [] [] (au_Owners a) = Inr used" and
    all: "\<forall>(key, name)\<in>set canonical. map_of used key \<noteq> None"
    by (auto simp: validateGitHubAuthentication_def case_prod_beta split: if_splits sum.splits)
  let ?names = "concat (map snd (au_Owners a))"
  from check_auth_profiles_Inr [OF c] have
    can: "canonical = rev (map (\<lambda>(n, _). (lower E n, n)) (au_Profiles a))" and
    dist: "distinct (map fst canonical)" and
    prof: "\<forall>(n, p)\<in>set (au_Profiles a). collectionIDRE (lower E n) \<and> check_profile n p = None"
    by auto
  from check_auth_owners_Inr [OF u] have
    keys: "fst ` set used = lower E ` set ?names" and
    dn: "distinct (map (lower E) ?names)" and
    known: "\<forall>n\<in>set ?names. map_of canonical (lower E n) = Some n" and
    own: "distinct (map (lower E \<circ> fst) (au_Owners a))"
      "\<forall>(owner, ns)\<in>set (au_Owners a). organizationRE owner \<and> ns \<noteq> []"
    by auto
  have snd: "snd ` set canonical = fst ` set (au_Profiles a)" by (force simp: can)
  have "set ?names \<subseteq> snd ` set canonical"
    using known by (metis (no_types, lifting) image_eqI map_of_SomeD snd_conv subsetI)
  moreover have "snd ` set canonical \<subseteq> set ?names"
  proof
    fix name assume "name \<in> snd ` set canonical"
    then obtain key where kn: "(key, name) \<in> set canonical" by auto
    with all have "key \<in> fst ` set used" by (auto simp: map_of_eq_None_iff)
    then obtain n where n: "n \<in> set ?names" "key = lower E n" unfolding keys by blast
    have "map_of canonical key = Some n" unfolding n(2) by (rule known [rule_format, OF n(1)])
    moreover have "map_of canonical key = Some name" using kn dist by simp
    ultimately show "name \<in> set ?names" using n by simp
  qed
  moreover have "distinct (map (lower E \<circ> fst) (au_Profiles a))"
  proof -
    have "map fst canonical = rev (map (lower E \<circ> fst) (au_Profiles a))"
      by (simp add: can rev_map case_prod_beta comp_def)
    with dist show ?thesis by simp
  qed
  ultimately have "set ?names = fst ` set (au_Profiles a)"
      "distinct (map (lower E \<circ> fst) (au_Profiles a))"
    unfolding snd by (simp_all only: subset_antisym)
  then show ?thesis unfolding auth_ok_def by (intro conjI ne dn own prof)
qed

section \<open>Collections\<close>

text \<open>\<open>canonical\<close> maps lower-case identities to one spelling each.\<close>

definition canonical_ok :: "'s env \<Rightarrow> (string \<times> string) list \<Rightarrow> bool" where
  "canonical_ok E canonical \<longleftrightarrow>
     distinct (map fst canonical) \<and> (\<forall>(k, r)\<in>set canonical. k = lower E r \<and> repositoryRE r)"

lemma check_repositories_Inr:
  "check_repositories E index listed canonical rs = Inr (listed', canonical') \<Longrightarrow>
     canonical_ok E canonical \<Longrightarrow>
     canonical_ok E canonical' \<and> map_of canonical \<subseteq>\<^sub>m map_of canonical' \<and>
     (\<forall>r\<in>set rs. map_of canonical' (lower E r) = Some r) \<and>
     distinct (map (lower E) rs) \<and> set listed \<inter> lower E ` set rs = {} \<and>
     set listed' = set listed \<union> lower E ` set rs"
proof (induction rs arbitrary: listed canonical)
  case Nil
  then show ?case by simp
next
  case (Cons r rs)
  let ?c = "if map_of canonical (lower E r) = None then (lower E r, r) # canonical else canonical"
  from Cons.prems(1) have h: "repositoryRE r" "lower E r \<notin> set listed"
      "\<not> (case map_of canonical (lower E r) of None \<Rightarrow> False | Some c \<Rightarrow> c \<noteq> r)"
      "check_repositories E index (lower E r # listed) ?c rs = Inr (listed', canonical')"
    by (simp_all add: Let_def result_simps)
  have c: "canonical_ok E ?c" "map_of ?c (lower E r) = Some r" "map_of canonical \<subseteq>\<^sub>m map_of ?c"
    using Cons.prems(2) h(1,3) by (cases "map_of canonical (lower E r)";
      auto simp: canonical_ok_def map_of_eq_None_iff map_le_def simp del: map_of_eq_Some_iff)+
  note ih = Cons.IH [OF h(4) c(1)]
  have "map_of canonical' (lower E r) = Some r"
    using ih c(2) by (metis map_le_def domI)
  moreover have "map_of canonical \<subseteq>\<^sub>m map_of canonical'"
    using ih c(3) map_le_trans by blast
  ultimately show ?case using ih h(2) by auto
qed

text \<open>What validation establishes of one collection.\<close>

definition collection_ok :: "'s env \<Rightarrow> config \<Rightarrow> collection \<Rightarrow> bool" where
  "collection_ok E c cl \<longleftrightarrow>
     collectionIDRE (cl_ID cl) \<and> TrimSpace (cl_Name cl) \<noteq> [] \<and> length (cl_Name cl) \<le> 100 \<and>
     length (cl_Description cl) \<le> 500 \<and> cl_Repositories cl \<noteq> [] \<and>
     distinct (map (lower E) (cl_Repositories cl)) \<and> list_all repositoryRE (cl_Repositories cl) \<and>
     (\<forall>(r, d)\<in>set (cl_Discovery cl). lower E r \<in> lower E ` set (cl_Repositories cl) \<and>
        (d_Mode d = ''all_open'' \<and> TrimSpace (d_Query d) = [] \<or>
         d_Mode d = ''search'' \<and> TrimSpace (d_Query d) \<noteq> [] \<and> length (d_Query d) \<le> 256)) \<and>
     (cl_ModelProvider cl = [] \<or> cl_ModelProvider cl \<in> fst ` set (ModelProviders c)) \<and>
     (cl_ModelFallbackProvider cl = [] \<or> cl_ModelProvider cl \<noteq> [] \<and>
        cl_ModelFallbackProvider cl \<noteq> cl_ModelProvider cl \<and>
        cl_ModelFallbackProvider cl \<in> fst ` set (ModelProviders c)) \<and>
     (case cl_Contribution cl of None \<Rightarrow> True | Some n \<Rightarrow> ParseSchedule E (cn_Schedule n) \<noteq> None) \<and>
     (case cl_FeatureCorrelation cl of None \<Rightarrow> True
      | Some s \<Rightarrow> cl_ModelProvider cl \<noteq> [] \<and> ParseSchedule E s \<noteq> None) \<and>
     (cl_Authorization cl = None \<or> has_login c)"

lemma check_discovery_None:
  "check_discovery E index listed (r, d) = None \<Longrightarrow> lower E r \<in> set listed \<and>
     (d_Mode d = ''all_open'' \<and> TrimSpace (d_Query d) = [] \<or>
      d_Mode d = ''search'' \<and> TrimSpace (d_Query d) \<noteq> [] \<and> length (d_Query d) \<le> 256)"
  by (auto simp: check_discovery_def split: if_splits)

lemma validateContribution_None:
  "validateContribution E cn = None \<Longrightarrow>
     (case cn of None \<Rightarrow> True | Some n \<Rightarrow> ParseSchedule E (cn_Schedule n) \<noteq> None)"
  by (auto simp: validateContribution_def validateSchedule_def split: option.splits)

lemma check_providers_of_None:
  "check_providers_of c index cl = None \<Longrightarrow>
     (cl_ModelProvider cl = [] \<or> cl_ModelProvider cl \<in> fst ` set (ModelProviders c)) \<and>
     (cl_ModelFallbackProvider cl = [] \<or> cl_ModelProvider cl \<noteq> [] \<and>
        cl_ModelFallbackProvider cl \<noteq> cl_ModelProvider cl \<and>
        cl_ModelFallbackProvider cl \<in> fst ` set (ModelProviders c))"
  by (auto simp: check_providers_of_def map_of_eq_None_iff split: if_splits)

lemma check_collection_Inr:
  assumes "check_collection E c index ids canonical cl = Inr canonical'" "canonical_ok E canonical"
  shows "collection_ok E c cl \<and> cl_ID cl \<notin> set ids \<and> canonical_ok E canonical' \<and>
     map_of canonical \<subseteq>\<^sub>m map_of canonical' \<and>
     (\<forall>r\<in>set (cl_Repositories cl). map_of canonical' (lower E r) = Some r)"
proof -
  from assms(1) obtain listed where
    basic: "collectionIDRE (cl_ID cl)" "cl_ID cl \<notin> set ids" "TrimSpace (cl_Name cl) \<noteq> []"
      "length (cl_Name cl) \<le> 100" "length (cl_Description cl) \<le> 500" "cl_Repositories cl \<noteq> []" and
    repos: "check_repositories E index [] canonical (cl_Repositories cl) = Inr (listed, canonical')" and
    disc: "\<forall>x\<in>set (cl_Discovery cl). check_discovery E index listed x = None" and
    contrib: "validateContribution E (cl_Contribution cl) = None" and
    prov: "check_providers_of c index cl = None" and
    corr: "(case cl_FeatureCorrelation cl of None \<Rightarrow> None
            | Some schedule \<Rightarrow> seqE (guardE (cl_ModelProvider cl = [])
                (InCollection (CorrelationWithoutProvider index)))
                (validateSchedule E ''feature_correlation.schedule'' schedule)) = None" and
    auth: "(case cl_Authorization cl of None \<Rightarrow> None
            | Some a \<Rightarrow> seqE (guardE (\<not> has_login c) (InAccess (AuthorizationWithoutLogin index)))
                (validateAuthorization E index a)) = None"
    by (auto simp: check_collection_def result_simps not_less split: prod.splits)
  note r = check_repositories_Inr [OF repos assms(2)]
  have re: "list_all repositoryRE (cl_Repositories cl)"
    using r by (fastforce simp: list_all_iff canonical_ok_def dest: map_of_SomeD)
  have d: "\<forall>(r, d)\<in>set (cl_Discovery cl). lower E r \<in> lower E ` set (cl_Repositories cl) \<and>
        (d_Mode d = ''all_open'' \<and> TrimSpace (d_Query d) = [] \<or>
         d_Mode d = ''search'' \<and> TrimSpace (d_Query d) \<noteq> [] \<and> length (d_Query d) \<le> 256)"
    using disc r check_discovery_None [of E index listed] by auto
  have "collection_ok E c cl"
    unfolding collection_ok_def
    using basic re d r validateContribution_None [OF contrib] check_providers_of_None [OF prov] corr auth
    by (simp add: validateSchedule_def split: option.splits)
  with basic r show ?thesis by blast
qed

lemma check_collections_Inr:
  "check_collections E c index ids canonical cls = Inr canonical' \<Longrightarrow> canonical_ok E canonical \<Longrightarrow>
     canonical_ok E canonical' \<and> map_of canonical \<subseteq>\<^sub>m map_of canonical' \<and>
     (\<forall>cl\<in>set cls. collection_ok E c cl \<and>
        (\<forall>r\<in>set (cl_Repositories cl). map_of canonical' (lower E r) = Some r)) \<and>
     distinct (map cl_ID cls) \<and> set ids \<inter> cl_ID ` set cls = {}"
proof (induction cls arbitrary: index ids canonical)
  case Nil
  then show ?case by simp
next
  case (Cons cl cls)
  from Cons.prems(1) obtain mid where h: "check_collection E c index ids canonical cl = Inr mid"
      "check_collections E c (index + 1) (cl_ID cl # ids) mid cls = Inr canonical'"
    by (auto simp: result_simps)
  note one = check_collection_Inr [OF h(1) Cons.prems(2)]
  then have "canonical_ok E mid" by blast
  note rest = Cons.IH [OF h(2) this]
  have "\<forall>r\<in>set (cl_Repositories cl). map_of canonical' (lower E r) = Some r"
    using one rest by (metis map_le_def domI)
  moreover have "map_of canonical \<subseteq>\<^sub>m map_of canonical'" using one rest map_le_trans by blast
  ultimately show ?case using one rest by auto
qed

section \<open>The whole document\<close>

definition all_repositories :: "config \<Rightarrow> string list" where
  "all_repositories c = concat (map cl_Repositories (Collections c))"

definition config_ok :: "'s env \<Rightarrow> config \<Rightarrow> bool" where
  "config_ok E c \<longleftrightarrow>
     Collections c \<noteq> [] \<and> distinct (map cl_ID (Collections c)) \<and>
     list_all (collection_ok E c) (Collections c) \<and>
     (\<forall>r\<in>set (all_repositories c). \<forall>q\<in>set (all_repositories c). lower E r = lower E q \<longrightarrow> r = q) \<and>
     distinct (DeploymentAdmins c) \<and> list_all (\<lambda>i. 0 < i) (DeploymentAdmins c) \<and>
     (DeploymentAdmins c = [] \<or> has_login c) \<and>
     (case GitHub c of None \<Rightarrow> False | Some g \<Rightarrow> ParseSchedule E (gh_Schedule g) \<noteq> None) \<and>
     (case github_authentication c of None \<Rightarrow> False | Some a \<Rightarrow>
        auth_ok E a \<and> (\<forall>r\<in>set (all_repositories c). fst (Cut r (CHR ''/'')) \<in> fst ` set (au_Owners a)))"

lemma validateGitHubOwnerCoverage_None:
  assumes "validateGitHubOwnerCoverage E a repositories = None" "r \<in> set repositories"
  shows "fst (Cut r (CHR ''/'')) \<in> fst ` set (au_Owners a)"
proof -
  let ?o = "fst (Cut r (CHR ''/''))"
    and ?owners = "map (\<lambda>(owner, _). (lower E owner, owner)) (rev (au_Owners a))"
  from assms have "map_of ?owners (lower E ?o) = Some ?o"
    by (auto simp: validateGitHubOwnerCoverage_def Let_def split: option.splits)
  then have "(lower E ?o, ?o) \<in> set ?owners" by (rule map_of_SomeD)
  then show ?thesis by force
qed

lemma Validate_config_ok: "Validate E c = None \<Longrightarrow> config_ok E c"
proof -
  assume v: "Validate E c = None"
  have ne: "Collections c \<noteq> []"
  proof
    assume "Collections c = []"
    with v show False by (simp add: Validate_def)
  qed
  obtain a where a: "github_authentication c = Some a"
  proof (cases "github_authentication c")
    case None
    with v ne show ?thesis by (simp add: Validate_def)
  next
    case (Some a)
    with that show ?thesis .
  qed
  from a obtain g where g: "GitHub c = Some g" "gh_Authentication g = Some a"
    by (auto simp: github_authentication_def split: option.splits)
  note parts = v [unfolded Validate_def a g(1) option.case if_not_P [OF ne] seqE_None]
  then have gh: "check_github E c g = None" and
    adm: "check_unique id (\<lambda>i. 0 < i) (InAccess \<circ> BadAdmin) (InAccess \<circ> DuplicateAdmin) []
       (DeploymentAdmins c) = None" "\<not> (DeploymentAdmins c \<noteq> [] \<and> \<not> has_login c)" and
    cols: "(case check_collections E c 0 [] [] (Collections c) of Inl e \<Rightarrow> Some e
       | Inr canonical \<Rightarrow> validateGitHubOwnerCoverage E a (map snd canonical)) = None"
    unfolding guardE_None by - (elim conjE, assumption)+
  from gh g(2) have auth: "validateGitHubAuthentication E a = None"
      "validateSchedule E ''github.schedule'' (gh_Schedule g) = None"
    by (simp_all add: check_github_def)
  from cols obtain canonical where can: "check_collections E c 0 [] [] (Collections c) = Inr canonical"
      "validateGitHubOwnerCoverage E a (map snd canonical) = None" by (auto split: sum.splits)
  have "canonical_ok E []" by (simp add: canonical_ok_def)
  note cc = check_collections_Inr [OF can(1) this]
  have spell: "map_of canonical (lower E r) = Some r" if "r \<in> set (all_repositories c)" for r
    using cc that by (auto simp: all_repositories_def)
  have cov: "fst (Cut r (CHR ''/'')) \<in> fst ` set (au_Owners a)" if "r \<in> set (all_repositories c)" for r
  proof -
    have "(lower E r, r) \<in> set canonical" using map_of_SomeD [OF spell [OF that]] .
    then have "r \<in> set (map snd canonical)" by force
    with can(2) show ?thesis by (rule validateGitHubOwnerCoverage_None)
  qed
  have case_ok: "r = q" if "r \<in> set (all_repositories c)" "q \<in> set (all_repositories c)"
      "lower E r = lower E q" for r q
    using spell [OF that(1)] spell [OF that(2)] unfolding that(3) by (metis option.inject)
  have "list_all (collection_ok E c) (Collections c) \<and> distinct (map cl_ID (Collections c))"
    using cc by (simp add: list_all_iff)
  moreover have "distinct (DeploymentAdmins c) \<and> list_all (\<lambda>i. 0 < i) (DeploymentAdmins c)"
    using adm(1) by (simp add: check_unique_None)
  moreover have "DeploymentAdmins c = [] \<or> has_login c" using adm(2) by blast
  moreover have "ParseSchedule E (gh_Schedule g) \<noteq> None"
    using auth(2) by (simp add: validateSchedule_def)
  moreover have "\<forall>r\<in>set (all_repositories c). \<forall>q\<in>set (all_repositories c).
      lower E r = lower E q \<longrightarrow> r = q" using case_ok by blast
  moreover have "\<forall>r\<in>set (all_repositories c). fst (Cut r (CHR ''/'')) \<in> fst ` set (au_Owners a)"
    using cov by blast
  ultimately show ?thesis
    using ne validateGitHubAuthentication_ok [OF auth(1)]
    unfolding config_ok_def a g(1) option.case by (simp only: simp_thms)
qed

section \<open>A sample document\<close>

definition sample_env :: "unit env" where
  "sample_env = \<lparr> e_lower = id, e_url = (\<lambda>_. Some \<lparr> url_Scheme = ''https'', url_Host = ''h'',
     url_User = False, url_RawQuery = [], url_Fragment = [], url_Path = [] \<rparr>),
     e_cron = (\<lambda>_. Some ()) \<rparr>"

definition sample_secret :: secret_reference where
  "sample_secret = \<lparr> s_Environment = ''K'', s_File = [] \<rparr>"

definition sample_app :: auth_profile where
  "sample_app = \<lparr> ap_Type = ''github_app'', ap_AppID = Some 1, ap_InstallationID = Some 2,
     ap_PrivateKey = Some sample_secret, ap_Token = None \<rparr>"

definition sample_pat :: auth_profile where
  "sample_pat = \<lparr> ap_Type = ''fine_grained_pat'', ap_AppID = None, ap_InstallationID = None,
     ap_PrivateKey = None, ap_Token = Some sample_secret \<rparr>"

definition sample_auth :: authentication where
  "sample_auth = \<lparr> au_Profiles = [(''p'', sample_app), (''q'', sample_pat)],
     au_Owners = [(''Ac'', [''q'', ''p''])] \<rparr>"

definition sample_collection :: collection where
  "sample_collection = \<lparr> cl_ID = ''c'', cl_Name = ''n'', cl_Description = [],
     cl_Repositories = [''Ac/w''], cl_Discovery = [], cl_Quality = None, cl_Contribution = None,
     cl_ModelProvider = [], cl_ModelFallbackProvider = [], cl_FeatureCorrelation = None,
     cl_Authorization = None \<rparr>"

definition sample_config :: config where
  "sample_config = \<lparr> ExternalBaseURL = [], GitHub = Some \<lparr> gh_Schedule = ''0 0 * * *'',
       gh_Authentication = Some sample_auth, gh_UserAuth = None \<rparr>,
     ModelProviders = [], DeploymentAdmins = [], Operations = None,
     Collections = [sample_collection] \<rparr>"

lemma sample_Validate: "Validate sample_env sample_config = None"
  by code_simp

section \<open>Identifiers are plain ASCII\<close>

definition graph_char :: "char \<Rightarrow> bool" where
  "graph_char c \<longleftrightarrow> 33 \<le> byte c \<and> byte c < 127"

lemma space_prefix_graph: "list_all graph_char s \<Longrightarrow> space_prefix s = 0"
  by (cases s rule: space_prefix.cases) (auto simp: graph_char_def split: list.splits)

lemma TrimSpace_graph: "list_all graph_char s \<Longrightarrow> TrimSpace s = s"
proof -
  assume s: "list_all graph_char s"
  have "list_all graph_char (drop k s)" for k
    using s by (auto simp: list_all_iff dest: in_set_dropD)
  then have "space_prefix (drop k s) = 0" for k by (rule space_prefix_graph)
  then have "space_suffix s = 0" by (simp add: space_suffix_def Let_def)
  then have "trim_right s = s" by (simp add: trim_right.simps)
  moreover have "trim_left s = s" using space_prefix_graph [OF s] by (simp add: trim_left.simps)
  ultimately show ?thesis by (simp add: TrimSpace_def)
qed

lemma organizationRE_chars:
  "organizationRE s \<Longrightarrow> s \<noteq> [] \<and> list_all (\<lambda>c. alnum c \<or> c = CHR ''-'') s"
  by (auto simp: organizationRE_def split: list.splits)

lemma alnum_graph: "alnum c \<or> c = CHR ''-'' \<Longrightarrow> graph_char c"
  by (auto simp: alnum_def lower_alpha_def is_digit_def graph_char_def byte_def)

lemma byte_slash: "byte (CHR ''/'') = 47" "byte (CHR ''-'') = 45"
  by (simp_all add: byte_def)

lemma lower_byte_not_slash: "alnum c \<or> c = CHR ''-'' \<Longrightarrow> lower_byte c \<noteq> CHR ''/''"
proof
  assume c: "alnum c \<or> c = CHR ''-''" and s: "lower_byte c = CHR ''/''"
  from s have "byte (lower_byte c) = 47" by (simp add: byte_slash)
  with c show False
    by (auto simp: byte_lower_byte byte_slash alnum_def lower_alpha_def is_digit_def split: if_splits)
qed

lemma organizationRE_canonical:
  assumes "organizationRE owner"
  shows "TrimSpace owner = owner" and "ToLower U owner = map lower_byte owner"
    and "ToLower U owner \<noteq> []" and "CHR ''/'' \<notin> set (ToLower U owner)"
proof -
  note ch = organizationRE_chars [OF assms]
  have g: "list_all graph_char owner" using ch alnum_graph by (auto simp: list_all_iff)
  then show "TrimSpace owner = owner" by (rule TrimSpace_graph)
  have "list_all is_ascii owner" using g by (auto simp: list_all_iff graph_char_def is_ascii_def)
  then show l: "ToLower U owner = map lower_byte owner" by (simp add: ToLower_def)
  then show "ToLower U owner \<noteq> []" using ch by simp
  show "CHR ''/'' \<notin> set (ToLower U owner)"
    unfolding l using ch lower_byte_not_slash by (fastforce simp: list_all_iff)
qed

section \<open>Properties\<close>



text \<open>
  C6. In a validated document every credential profile serves exactly one owner: it is neither
  unused nor shared between owners.
\<close>

theorem profile_single_owner:
  assumes "Validate E c = None" "github_authentication c = Some a"
    and "name \<in> fst ` set (au_Profiles a)"
  shows "\<exists>!x. x \<in> set (au_Owners a) \<and> name \<in> set (snd x)"
proof -
  from Validate_config_ok [OF assms(1)] assms(2) have a: "auth_ok E a" by (simp add: config_ok_def)
  then have set: "set (concat (map snd (au_Owners a))) = fst ` set (au_Profiles a)"
    by (simp only: auth_ok_def)
  have dist: "distinct (concat (map snd (au_Owners a)))"
    using a unfolding auth_ok_def by (blast intro: distinct_mapI)
  from assms(3) obtain x where x: "x \<in> set (au_Owners a)" "name \<in> set (snd x)"
    unfolding set [symmetric] by auto
  have "y = x" if y: "y \<in> set (au_Owners a)" "name \<in> set (snd y)" for y
    using distinct_concat_unique [OF dist x(1,2) y] by simp
  with x show ?thesis by blast
qed

lemma profile_single_owner_witness:
  "\<exists>!x. x \<in> set (au_Owners sample_auth) \<and> ''p'' \<in> set (snd x)"
proof (rule profile_single_owner [OF sample_Validate])
  show "github_authentication sample_config = Some sample_auth"
    by (simp add: github_authentication_def sample_config_def)
  show "''p'' \<in> fst ` set (au_Profiles sample_auth)" by (simp add: sample_auth_def)
qed

end
