(* ===== verification/Setup.thy ===== *)
theory Setup
  imports ConfigFacts Router
begin

text \<open>
  From a validated configuration to the GitHub router: \<open>cmd/maintainer-cockpit/setup_check.go\<close>
  (\<open>newGitHubClients\<close>, \<open>discoveryPlans\<close>, \<open>contributionRepositories\<close>), \<open>refresh.go\<close>
  (\<open>configuredRepositories\<close>), \<open>serve.go\<close> (routing identities of a reload),
  \<open>config.go\<close> (\<open>ResolveSecret\<close>) and the constructors of \<open>internal/githubapp/client.go\<close>.
  Environment variables, files and the private key parser are parameters.
\<close>

section \<open>Secrets\<close>

datatype secret_error =
  EmptyVariable string | UnreadableFile string | FileTooLarge string | EmptyFile string | NoSource

text \<open>
  \<open>lookup\<close> is \<open>os.LookupEnv\<close>, \<open>readFile\<close> the content of a readable file. At most one byte more
  than 1 MiB is read of it.
\<close>

definition ResolveSecret ::
  "(string \<Rightarrow> string option) \<Rightarrow> (string \<Rightarrow> string option) \<Rightarrow> secret_reference \<Rightarrow> secret_error + string" where
  "ResolveSecret lookup readFile r =
     (if s_Environment r \<noteq> [] then
        (case lookup (s_Environment r) of
           None \<Rightarrow> Inl (EmptyVariable (s_Environment r))
         | Some v \<Rightarrow> if v = [] then Inl (EmptyVariable (s_Environment r)) else Inr v)
      else if s_File r \<noteq> [] then
        (case readFile (s_File r) of
           None \<Rightarrow> Inl (UnreadableFile (s_File r))
         | Some content \<Rightarrow>
            let body = take (2 ^ 20 + 1) content in
            if length body > 2 ^ 20 then Inl (FileTooLarge (s_File r))
            else if body = [] then Inl (EmptyFile (s_File r)) else Inr body)
      else Inl NoSource)"

section \<open>Clients\<close>

record discovery_target =
  dt_CollectionID :: string
  dt_Mode :: string
  dt_Query :: string

text \<open>The part of \<open>Options\<close> and \<open>Client\<close> that the configuration decides; \<open>'k\<close> is a private key.\<close>

record options_common =
  op_DiscoveryPlans :: "(string \<times> discovery_target list) list"
  op_RequireMembersRead :: bool
  op_ContributionWindowDays :: int

record 'k github_client =
  gc_appID :: int
  gc_installationID :: int
  gc_privateKey :: "'k option"
  gc_staticToken :: string
  gc_discoveryPlans :: "(string \<times> discovery_target list) list"
  gc_requireMembersRead :: bool
  gc_contributionWindowDays :: int
  gc_rateLimitBudget :: int
  gc_rateLimitMaxRetries :: int

datatype client_error = IDsNotPositive | BadPrivateKey | BadBaseURL | EmptyToken

text \<open>\<open>newClient\<close> with the default base URL, budget (10 minutes) and retries (3).\<close>

definition newClient :: "'s env \<Rightarrow> options_common \<Rightarrow> client_error + 'k github_client" where
  "newClient E opt =
     (case e_url E ''https://api.github.com'' of
        None \<Rightarrow> Inl BadBaseURL
      | Some u \<Rightarrow>
         failIf (url_Scheme u = [] \<or> url_Host u = []) BadBaseURL
         (Inr \<lparr> gc_appID = 0, gc_installationID = 0, gc_privateKey = None, gc_staticToken = [],
                gc_discoveryPlans = op_DiscoveryPlans opt,
                gc_requireMembersRead = op_RequireMembersRead opt,
                gc_contributionWindowDays =
                  (if op_ContributionWindowDays opt < 1 then 14 else op_ContributionWindowDays opt),
                gc_rateLimitBudget = 600000000000, gc_rateLimitMaxRetries = 3 \<rparr>))"

definition New ::
  "'s env \<Rightarrow> (string \<Rightarrow> 'k option) \<Rightarrow> options_common \<Rightarrow> int \<Rightarrow> int \<Rightarrow> string \<Rightarrow>
   client_error + 'k github_client client" where
  "New E parseKey opt appID installationID pem =
     failIf (appID \<le> 0 \<or> installationID \<le> 0) IDsNotPositive
     (case parseKey pem of
        None \<Rightarrow> Inl BadPrivateKey
      | Some key \<Rightarrow> bindR (newClient E opt) (\<lambda>c.
          Inr \<lparr> cl_profileType = ProfileGitHubApp,
                cl_impl = c\<lparr>gc_appID := appID, gc_installationID := installationID,
                            gc_privateKey := Some key\<rparr> \<rparr>))"

definition NewPAT :: "'s env \<Rightarrow> options_common \<Rightarrow> string \<Rightarrow> client_error + 'k github_client client" where
  "NewPAT E opt token =
     failIf (TrimSpace token = []) EmptyToken
     (bindR (newClient E opt) (\<lambda>c.
        Inr \<lparr> cl_profileType = ProfileFineGrainedPAT, cl_impl = c\<lparr>gc_staticToken := token\<rparr> \<rparr>))"

section \<open>What the document decides\<close>

definition requiresMembersRead :: "config \<Rightarrow> bool" where
  "requiresMembersRead c =
     list_ex (\<lambda>cl. case cl_Authorization cl of None \<Rightarrow> False
       | Some a \<Rightarrow> az_Organizations a \<noteq> [] \<or> az_Teams a \<noteq> []) (Collections c)"

definition EqualFold :: "(string \<Rightarrow> string \<Rightarrow> bool) \<Rightarrow> string \<Rightarrow> string \<Rightarrow> bool" where
  "EqualFold fd s t =
     (if list_all is_ascii s \<and> list_all is_ascii t then map lower_byte s = map lower_byte t
      else fd s t)"

definition discovery_for ::
  "(string \<Rightarrow> string \<Rightarrow> bool) \<Rightarrow> collection \<Rightarrow> string \<Rightarrow> repository_discovery" where
  "discovery_for fd cl repository =
     (case find (\<lambda>(identity, _). EqualFold fd identity repository) (cl_Discovery cl) of
        None \<Rightarrow> \<lparr> d_Mode = ''all_open'', d_Query = [] \<rparr>
      | Some (_, d) \<Rightarrow> d)"

text \<open>\<open>plans[repository] = append(plans[repository], target)\<close> on an association list.\<close>

definition append_at :: "'k \<Rightarrow> 'v \<Rightarrow> ('k \<times> 'v list) list \<Rightarrow> ('k \<times> 'v list) list" where
  "append_at k v m =
     (if map_of m k = None then m @ [(k, [v])]
      else map (\<lambda>(k', vs). if k' = k then (k', vs @ [v]) else (k', vs)) m)"

definition discoveryPlans ::
  "(string \<Rightarrow> string \<Rightarrow> bool) \<Rightarrow> config \<Rightarrow> (string \<times> discovery_target list) list" where
  "discoveryPlans fd c =
     foldl (\<lambda>plans (cl, repository).
        let d = discovery_for fd cl repository in
        append_at repository \<lparr> dt_CollectionID = cl_ID cl, dt_Mode = d_Mode d, dt_Query = d_Query d \<rparr>
          plans)
       [] (concat (map (\<lambda>cl. map (\<lambda>r. (cl, r)) (cl_Repositories cl)) (Collections c)))"

definition contributionWindowDays :: "config \<Rightarrow> int" where
  "contributionWindowDays c =
     foldl (\<lambda>window cl.
        case cl_Contribution cl of None \<Rightarrow> window | Some n \<Rightarrow>
        (case cn_UnusualActivity n of None \<Rightarrow> window | Some u \<Rightarrow>
        (case un_WindowDays u of None \<Rightarrow> window | Some d \<Rightarrow> if d > window then d else window)))
       14 (Collections c)"

definition configuredRepositories :: "config \<Rightarrow> string list" where
  "configuredRepositories c = dedup_on id [] (concat (map cl_Repositories (Collections c)))"

definition add_missing :: "string \<Rightarrow> string list \<Rightarrow> (string \<times> string list) list \<Rightarrow>
    (string \<times> string list) list" where
  "add_missing source rs m =
     foldl (\<lambda>m r. if r \<in> set (case map_of m source of None \<Rightarrow> [] | Some vs \<Rightarrow> vs) then m
                  else append_at source r m) m rs"

definition contributionRepositories :: "config \<Rightarrow> (string \<times> string list) list" where
  "contributionRepositories c =
     map (\<lambda>(source, rs). (source, sort rs))
       (foldl (\<lambda>m (source, rs). add_missing source rs m) []
         (concat (map (\<lambda>cl. map (\<lambda>source. (source, cl_Repositories cl)) (cl_Repositories cl))
           (Collections c))))"

section \<open>The router\<close>

datatype setup_error =
  NoGitHubAuthentication | ProfileSecret string secret_error | ProfileClient string client_error
  | UnsupportedProfile string | RouterInvalid router_error

definition zero_profile :: "'c profile" where
  "zero_profile = \<lparr> p_Name = [], p_Type = ProfileOther [], p_Client = None \<rparr>"

text \<open>One named profile. A validated profile has the fields its type needs.\<close>

definition configure_profile ::
  "'s env \<Rightarrow> (string \<Rightarrow> string option) \<Rightarrow> (string \<Rightarrow> string option) \<Rightarrow> (string \<Rightarrow> 'k option) \<Rightarrow>
   options_common \<Rightarrow> string \<times> auth_profile \<Rightarrow> setup_error + (string \<times> 'k github_client profile)" where
  "configure_profile E lookup readFile parseKey opt x =
     (let (name, p) = x in
      if ap_Type p = ''github_app'' then
        (case ResolveSecret lookup readFile (the (ap_PrivateKey p)) of
           Inl e \<Rightarrow> Inl (ProfileSecret name e)
         | Inr secret \<Rightarrow>
            (case New E parseKey opt (the (ap_AppID p)) (the (ap_InstallationID p)) secret of
               Inl e \<Rightarrow> Inl (ProfileClient name e)
             | Inr client \<Rightarrow> Inr (name, \<lparr> p_Name = name, p_Type = ProfileGitHubApp,
                                         p_Client = Some client \<rparr>)))
      else if ap_Type p = ''fine_grained_pat'' then
        (case ResolveSecret lookup readFile (the (ap_Token p)) of
           Inl e \<Rightarrow> Inl (ProfileSecret name e)
         | Inr secret \<Rightarrow>
            (case NewPAT E opt secret of
               Inl e \<Rightarrow> Inl (ProfileClient name e)
             | Inr client \<Rightarrow> Inr (name, \<lparr> p_Name = name, p_Type = ProfileFineGrainedPAT,
                                         p_Client = Some client \<rparr>)))
      else Inl (UnsupportedProfile name))"

fun configure_profiles ::
  "('a \<Rightarrow> setup_error + 'b) \<Rightarrow> 'a list \<Rightarrow> setup_error + 'b list" where
  "configure_profiles f [] = Inr []"
| "configure_profiles f (x # xs) =
     bindR (f x) (\<lambda>y. bindR (configure_profiles f xs) (\<lambda>ys. Inr (y # ys)))"

definition client_routes ::
  "(string \<times> 'c profile) list \<Rightarrow> (string \<times> string list) list \<Rightarrow> 'c routes" where
  "client_routes clients owners =
     map (\<lambda>(owner, names). (owner, map (\<lambda>n. case map_of clients n of None \<Rightarrow> zero_profile
                                                | Some p \<Rightarrow> p) names))
       (filter (\<lambda>(_, names). names \<noteq> []) owners)"

definition common_options :: "(string \<Rightarrow> string \<Rightarrow> bool) \<Rightarrow> config \<Rightarrow> options_common" where
  "common_options fd c = \<lparr> op_DiscoveryPlans = discoveryPlans fd c,
     op_RequireMembersRead = requiresMembersRead c,
     op_ContributionWindowDays = contributionWindowDays c \<rparr>"

definition newGitHubClients ::
  "'s env \<Rightarrow> (string \<Rightarrow> string \<Rightarrow> bool) \<Rightarrow> (string \<Rightarrow> string option) \<Rightarrow> (string \<Rightarrow> string option) \<Rightarrow>
   (string \<Rightarrow> 'k option) \<Rightarrow> config \<Rightarrow> setup_error + 'k github_client routes" where
  "newGitHubClients E fd lookup readFile parseKey c =
     (case github_authentication c of
        None \<Rightarrow> Inl NoGitHubAuthentication
      | Some a \<Rightarrow>
         bindR (configure_profiles (configure_profile E lookup readFile parseKey (common_options fd c))
                  (sort_key fst (au_Profiles a))) (\<lambda>clients.
           case NewRouter (e_lower E) (client_routes clients (au_Owners a)) of
             Inl e \<Rightarrow> Inl (RouterInvalid e)
           | Inr router \<Rightarrow> Inr router))"

section \<open>Routing changes of a reload\<close>

record profile_identity =
  pi_Name :: string
  pi_Type :: string
  pi_AppID :: int
  pi_InstallationID :: int
  pi_Secret :: secret_reference

definition identity_of :: "authentication \<Rightarrow> string \<Rightarrow> profile_identity" where
  "identity_of a name =
     (let no = \<lparr> s_Environment = [], s_File = [] \<rparr> in
      case map_of (au_Profiles a) name of
        None \<Rightarrow> \<lparr> pi_Name = name, pi_Type = [], pi_AppID = 0, pi_InstallationID = 0, pi_Secret = no \<rparr>
      | Some p \<Rightarrow> \<lparr> pi_Name = name, pi_Type = ap_Type p,
          pi_AppID = (case ap_AppID p of None \<Rightarrow> 0 | Some i \<Rightarrow> i),
          pi_InstallationID = (case ap_InstallationID p of None \<Rightarrow> 0 | Some i \<Rightarrow> i),
          pi_Secret = (case ap_PrivateKey p of Some r \<Rightarrow> r | None \<Rightarrow>
                       (case ap_Token p of Some r \<Rightarrow> r | None \<Rightarrow> no)) \<rparr>)"

definition githubAuthenticationIdentity ::
  "'s env \<Rightarrow> config \<Rightarrow> string \<Rightarrow> profile_identity list" where
  "githubAuthenticationIdentity E c key =
     (case github_authentication c of
        None \<Rightarrow> []
      | Some a \<Rightarrow> concat (map (\<lambda>(owner, names). if lower E owner = key then map (identity_of a) names
                                                 else []) (au_Owners a)))"

definition repositoriesWithChangedGitHubRouting :: "'s env \<Rightarrow> config \<Rightarrow> config \<Rightarrow> string list" where
  "repositoriesWithChangedGitHubRouting E previous next_config =
     sort (filter (\<lambda>repository.
       let (owner, _, valid) = Cut repository (CHR ''/'') in
       valid \<and> githubAuthenticationIdentity E previous (lower E owner) \<noteq>
               githubAuthenticationIdentity E next_config (lower E owner))
       (configuredRepositories next_config))"

text \<open>The verdict of \<open>setup-check\<close>: \<open>Some True\<close> stands for a failing primary route,
  \<open>Some False\<close> for no valid route at all.\<close>

definition setup_verdict ::
  "'s env \<Rightarrow> config \<Rightarrow> setup_result list \<Rightarrow> bool option" where
  "setup_verdict E c results =
     (let index = (\<lambda>owner profile. case github_authentication c of None \<Rightarrow> 0 | Some a \<Rightarrow>
            (case find (\<lambda>(o1, names). lower E o1 = lower E owner \<and> profile \<in> set names) (au_Owners a) of
               None \<Rightarrow> 0
             | Some (_, names) \<Rightarrow> length (takeWhile (\<lambda>n. n \<noteq> profile) names)))
      in if list_ex (\<lambda>r. \<not> sr_Valid r \<and> index (sr_Owner r) (sr_Profile r) = 0) results
         then Some True
         else if \<not> list_ex sr_Valid results then Some False else None)"

section \<open>The router of a validated document\<close>

lemma configure_profiles_Inr:
  "configure_profiles f xs = Inr ys \<Longrightarrow> list_all2 (\<lambda>x y. f x = Inr y) xs ys"
  by (induction xs arbitrary: ys) (auto simp: result_simps)

lemma list_all2_map_fst:
  "list_all2 R xs ys \<Longrightarrow> (\<And>x y. R x y \<Longrightarrow> fst y = fst x) \<Longrightarrow> map fst ys = map fst xs"
  by (induction rule: list_all2_induct) auto

lemma newClient_type:
  "New E parseKey opt i j pem = Inr k \<Longrightarrow> cl_profileType k = ProfileGitHubApp"
  "NewPAT E opt token = Inr k \<Longrightarrow> cl_profileType k = ProfileFineGrainedPAT"
  by (auto simp: New_def NewPAT_def result_simps split: option.splits)

lemma configure_profile_Inr:
  assumes "configure_profile E lookup readFile parseKey opt (name, p) = Inr (n, q)"
  shows "n = name \<and> p_Name q = name \<and> (name \<noteq> [] \<longrightarrow> profile_ok q)"
  using assms
  by (auto simp: configure_profile_def profile_ok_def newClient_type split: if_splits sum.splits)

lemma check_profiles_None:
  "list_all profile_ok ps \<Longrightarrow> distinct (map p_Name ps) \<Longrightarrow> p_Name ` set ps \<inter> set names = {} \<Longrightarrow>
     check_profiles owner names ps = None"
  by (induction ps arbitrary: names) (auto simp: profile_ok_def split: option.splits)

lemma router_loop_Inr:
  assumes "\<forall>(owner, ps)\<in>set rs. canonicalOwner U owner \<noteq> [] \<and>
      CHR ''/'' \<notin> set (canonicalOwner U owner) \<and> ps \<noteq> [] \<and> check_profiles owner [] ps = None"
    and "distinct (map fst copied @ map (canonicalOwner U \<circ> fst) rs)"
  shows "router_loop U copied rs = Inr (copied @ map (\<lambda>(owner, ps). (canonicalOwner U owner, ps)) rs)"
  using assms
proof (induction rs arbitrary: copied)
  case Nil
  then show ?case by simp
next
  case (Cons r rs)
  obtain owner ps where r: "r = (owner, ps)" by (cases r)
  have "map_of copied (canonicalOwner U owner) = None"
    using Cons.prems(2) by (auto simp: r map_of_eq_None_iff)
  moreover have "router_loop U (copied @ [(canonicalOwner U owner, ps)]) rs =
      Inr ((copied @ [(canonicalOwner U owner, ps)]) @
        map (\<lambda>(owner, ps). (canonicalOwner U owner, ps)) rs)"
    by (rule Cons.IH) (use Cons.prems in \<open>auto simp: r\<close>)
  ultimately show ?case using Cons.prems(1) by (simp add: r)
qed

text \<open>The clients of a validated document, by name.\<close>

lemma clients_of:
  assumes ok: "auth_ok E a"
    and clients: "configure_profiles (configure_profile E lookup readFile parseKey opt)
      (sort_key fst (au_Profiles a)) = Inr clients"
    and n: "n \<in> fst ` set (au_Profiles a)"
  shows "\<exists>q. map_of clients n = Some q \<and> p_Name q = n \<and> profile_ok q"
proof -
  let ?ps = "sort_key fst (au_Profiles a)"
  note l2 = configure_profiles_Inr [OF clients]
  have keys: "map fst clients = map fst ?ps"
  proof (rule list_all2_map_fst [OF l2])
    fix x y
    assume "configure_profile E lookup readFile parseKey opt x = Inr y"
    then show "fst y = fst x" by (cases x, cases y) (auto dest: configure_profile_Inr)
  qed
  have "n \<in> fst ` set clients" using n keys by (metis set_map set_sort)
  then obtain q where q: "map_of clients n = Some q"
    by (metis map_of_eq_None_iff not_None_eq)
  then have "(n, q) \<in> set clients" by (rule map_of_SomeD)
  then obtain i where i: "i < length clients" "clients ! i = (n, q)" by (metis in_set_conv_nth)
  obtain m p where mp: "?ps ! i = (m, p)" by (cases "?ps ! i")
  have "configure_profile E lookup readFile parseKey opt (m, p) = Inr (n, q)"
    using list_all2_nthD2 [OF l2 i(1)] i(2) mp by simp
  note c = configure_profile_Inr [OF this]
  have "(m, p) \<in> set (au_Profiles a)"
    using i(1) mp list_all2_lengthD [OF l2] by (metis nth_mem set_sort)
  then have "collectionIDRE (lower E m)" using ok unfolding auth_ok_def by blast
  then have "m \<noteq> []" by (auto simp: collectionIDRE_def ToLower_def)
  with c q show ?thesis by blast
qed

lemma routes_of_clients:
  assumes ok: "auth_ok E a"
    and clients: "\<And>n. n \<in> fst ` set (au_Profiles a) \<Longrightarrow>
      \<exists>q. map_of clients n = Some q \<and> p_Name q = n \<and> profile_ok q"
  shows "NewRouter (e_lower E) (client_routes clients (au_Owners a)) =
      Inr (map (\<lambda>(owner, names). (lower E owner, map (\<lambda>n. the (map_of clients n)) names)) (au_Owners a))"
proof -
  let ?rs = "map (\<lambda>(owner, names). (owner, map (\<lambda>n. the (map_of clients n)) names)) (au_Owners a)"
  have set: "set (concat (map snd (au_Owners a))) = fst ` set (au_Profiles a)"
    and dl: "distinct (map (lower E) (concat (map snd (au_Owners a))))"
    and dist_owner: "distinct (map (lower E \<circ> fst) (au_Owners a))"
    and own: "\<And>owner names. (owner, names) \<in> set (au_Owners a) \<Longrightarrow> organizationRE owner \<and> names \<noteq> []"
    using ok unfolding auth_ok_def by blast+
  have dist: "distinct (concat (map snd (au_Owners a)))" by (rule distinct_mapI [OF dl])
  have known: "\<exists>q. map_of clients n = Some q \<and> p_Name q = n \<and> profile_ok q"
    if "(owner, names) \<in> set (au_Owners a)" "n \<in> set names" for owner names n
  proof (rule clients)
    have "n \<in> set (concat (map snd (au_Owners a)))" using that by force
    then show "n \<in> fst ` set (au_Profiles a)" unfolding set .
  qed
  have flt: "filter (\<lambda>(_, names). names \<noteq> []) (au_Owners a) = au_Owners a"
    using own by (auto simp: filter_id_conv)
  have "client_routes clients (au_Owners a) =
      map (\<lambda>(owner, names). (owner, map (\<lambda>n. case map_of clients n of None \<Rightarrow> zero_profile
        | Some p \<Rightarrow> p) names)) (au_Owners a)"
    unfolding client_routes_def flt ..
  also have "\<dots> = ?rs"
  proof (rule map_cong [OF refl])
    fix x assume x: "x \<in> set (au_Owners a)"
    obtain owner names where on: "x = (owner, names)" by (cases x)
    have "map (\<lambda>n. case map_of clients n of None \<Rightarrow> zero_profile | Some p \<Rightarrow> p) names =
        map (\<lambda>n. the (map_of clients n)) names"
      using known [OF x [unfolded on]] by (intro map_cong refl) (metis option.sel option.simps(5))
    then show "(case x of (owner, names) \<Rightarrow> (owner, map (\<lambda>n. case map_of clients n of
        None \<Rightarrow> zero_profile | Some p \<Rightarrow> p) names)) =
      (case x of (owner, names) \<Rightarrow> (owner, map (\<lambda>n. the (map_of clients n)) names))"
      by (simp only: on prod.case)
  qed
  finally have routes: "client_routes clients (au_Owners a) = ?rs" .
  have canon: "canonicalOwner (e_lower E) owner = lower E owner \<and> lower E owner \<noteq> [] \<and>
      CHR ''/'' \<notin> set (lower E owner)" if "(owner, names) \<in> set (au_Owners a)" for owner names
    using organizationRE_canonical(1) [of owner] organizationRE_canonical(3,4) [of owner "e_lower E"]
      own [OF that] by (simp add: canonicalOwner_def)
  have check: "check_profiles owner [] (map (\<lambda>n. the (map_of clients n)) names) = None"
    if x: "(owner, names) \<in> set (au_Owners a)" for owner names
  proof (rule check_profiles_None)
    have "p_Name (the (map_of clients n)) = n" if "n \<in> set names" for n
      using known [OF x that] by auto
    then have nm: "map p_Name (map (\<lambda>n. the (map_of clients n)) names) = names"
      by (simp add: map_idI comp_def)
    have "distinct names" using distinct_concat_elem [OF dist x] by simp
    then show "distinct (map p_Name (map (\<lambda>n. the (map_of clients n)) names))" unfolding nm .
    show "list_all profile_ok (map (\<lambda>n. the (map_of clients n)) names)"
      unfolding list_all_iff set_map
    proof
      fix q assume "q \<in> (\<lambda>n. the (map_of clients n)) ` set names"
      then obtain n where "n \<in> set names" "q = the (map_of clients n)" by blast
      with known [OF x] show "profile_ok q" by force
    qed
  qed simp
  have keys: "map (canonicalOwner (e_lower E) \<circ> fst) ?rs = map (lower E \<circ> fst) (au_Owners a)"
    using canon by auto
  have "router_loop (e_lower E) [] ?rs =
      Inr ([] @ map (\<lambda>(owner, ps). (canonicalOwner (e_lower E) owner, ps)) ?rs)"
  proof (rule router_loop_Inr)
    show "distinct (map fst ([] :: 'b routes) @ map (canonicalOwner (e_lower E) \<circ> fst) ?rs)"
      unfolding keys using dist_owner by simp
    show "\<forall>(owner, ps)\<in>set ?rs. canonicalOwner (e_lower E) owner \<noteq> [] \<and>
        CHR ''/'' \<notin> set (canonicalOwner (e_lower E) owner) \<and> ps \<noteq> [] \<and> check_profiles owner [] ps = None"
    proof clarify
      fix owner ps assume "(owner, ps) \<in> set ?rs"
      then obtain names where n: "(owner, names) \<in> set (au_Owners a)"
          "ps = map (\<lambda>n. the (map_of clients n)) names" by auto
      show "canonicalOwner (e_lower E) owner \<noteq> [] \<and>
        CHR ''/'' \<notin> set (canonicalOwner (e_lower E) owner) \<and> ps \<noteq> [] \<and> check_profiles owner [] ps = None"
        using canon [OF n(1)] check [OF n(1)] own [OF n(1)] unfolding n(2) by simp
    qed
  qed
  moreover have "map (\<lambda>(owner, ps). (canonicalOwner (e_lower E) owner, ps)) ?rs =
      map (\<lambda>(owner, names). (lower E owner, map (\<lambda>n. the (map_of clients n)) names)) (au_Owners a)"
    using canon by auto
  ultimately show ?thesis unfolding NewRouter_def routes by simp
qed

lemma newGitHubClients_cases:
  assumes "auth_ok E a" "github_authentication c = Some a"
  shows "(\<exists>e. newGitHubClients E fd lookup readFile parseKey c = Inl e \<and>
            configure_profiles (configure_profile E lookup readFile parseKey (common_options fd c))
              (sort_key fst (au_Profiles a)) = Inl e) \<or>
         (\<exists>clients. newGitHubClients E fd lookup readFile parseKey c = Inr
            (map (\<lambda>(owner, names). (lower E owner, map (\<lambda>n. the (map_of clients n)) names)) (au_Owners a)) \<and>
            (\<forall>n\<in>fst ` set (au_Profiles a). \<exists>q. map_of clients n = Some q \<and> p_Name q = n \<and> profile_ok q))"
proof (cases "configure_profiles (configure_profile E lookup readFile parseKey (common_options fd c))
    (sort_key fst (au_Profiles a))")
  case (Inl e)
  with assms(2) show ?thesis by (simp add: newGitHubClients_def)
next
  case (Inr clients)
  note known = clients_of [OF assms(1) Inr]
  have "newGitHubClients E fd lookup readFile parseKey c = Inr
      (map (\<lambda>(owner, names). (lower E owner, map (\<lambda>n. the (map_of clients n)) names)) (au_Owners a))"
    using assms(2) Inr routes_of_clients [OF assms(1) known] by (simp add: newGitHubClients_def)
  with known show ?thesis by blast
qed

lemma configure_profiles_Inl:
  "configure_profiles f xs = Inl e \<Longrightarrow> \<exists>x\<in>set xs. f x = Inl e"
  by (induction xs) (auto simp: bindR_def split: sum.splits)

lemma configure_profiles_total:
  "(\<And>x. x \<in> set xs \<Longrightarrow> \<exists>y. f x = Inr y) \<Longrightarrow> \<exists>ys. configure_profiles f xs = Inr ys"
proof (induction xs)
  case Nil
  then show ?case by simp
next
  case (Cons x xs)
  from Cons.prems [of x] obtain y where "f x = Inr y" by auto
  moreover obtain ys where "configure_profiles f xs = Inr ys" using Cons by auto
  ultimately show ?case by simp
qed

lemma configured_validated:
  assumes "Validate E c = None" "github_authentication c = Some a" "r \<in> set (configuredRepositories c)"
  shows "auth_ok E a" and "repositoryRE r" and "\<exists>names. (fst (Cut r (CHR ''/'')), names) \<in> set (au_Owners a)"
proof -
  have "set (configuredRepositories c) \<subseteq> set (all_repositories c)"
    unfolding configuredRepositories_def all_repositories_def by (rule set_dedup_on_subset)
  then have r: "r \<in> set (all_repositories c)" using assms(3) by (rule subsetD)
  from Validate_config_ok [OF assms(1)] assms(2)
  have ok: "auth_ok E a" "\<forall>r\<in>set (all_repositories c). fst (Cut r (CHR ''/'')) \<in> fst ` set (au_Owners a)"
    "list_all (collection_ok E c) (Collections c)"
    unfolding config_ok_def assms(2) option.case by blast+
  show "auth_ok E a" by (rule ok(1))
  have "fst (Cut r (CHR ''/'')) \<in> fst ` set (au_Owners a)" using ok(2) r by (rule bspec)
  then show "\<exists>names. (fst (Cut r (CHR ''/'')), names) \<in> set (au_Owners a)" by fastforce
  from r obtain cl where cl: "cl \<in> set (Collections c)" "r \<in> set (cl_Repositories cl)"
    by (auto simp: all_repositories_def)
  with ok(3) have "collection_ok E c cl" by (simp add: list_all_iff)
  then have "list_all repositoryRE (cl_Repositories cl)" by (simp only: collection_ok_def)
  with cl(2) show "repositoryRE r" by (simp add: list_all_iff)
qed

lemma newGitHubClients_owner:
  assumes "auth_ok E a" "github_authentication c = Some a" "(owner, names) \<in> set (au_Owners a)"
    and "newGitHubClients E fd lookup readFile parseKey c = Inr router"
  shows "names \<noteq> [] \<and> map p_Name (owner_profiles (e_lower E) router owner) = names"
proof -
  from newGitHubClients_cases [OF assms(1,2), where fd = fd and lookup = lookup and readFile = readFile and parseKey = parseKey] assms(4)
  obtain clients where r: "router = map (\<lambda>(owner, names).
      (lower E owner, map (\<lambda>n. the (map_of clients n)) names)) (au_Owners a)"
    and known: "\<forall>n\<in>fst ` set (au_Profiles a). \<exists>q. map_of clients n = Some q \<and> p_Name q = n \<and> profile_ok q"
    by auto
  have set: "set (concat (map snd (au_Owners a))) = fst ` set (au_Profiles a)"
    and dist: "distinct (map (lower E \<circ> fst) (au_Owners a))" and ne: "names \<noteq> []"
    using assms(1,3) unfolding auth_ok_def by blast+
  have keys: "distinct (map fst router)"
    unfolding r using dist by (simp add: case_prod_beta comp_def)
  have "(lower E owner, map (\<lambda>n. the (map_of clients n)) names) \<in> set router"
    unfolding r using assms(3) by force
  then have "map_of router (lower E owner) = Some (map (\<lambda>n. the (map_of clients n)) names)"
    using keys by simp
  moreover have "p_Name (the (map_of clients n)) = n" if "n \<in> set names" for n
  proof -
    have "n \<in> set (concat (map snd (au_Owners a)))" using that assms(3) by force
    with known show ?thesis unfolding set by force
  qed
  ultimately show ?thesis using ne by (simp add: owner_profiles_def map_idI comp_def)
qed

lemma repositoryRE_split:
  assumes "repositoryRE r"
  shows "\<exists>name. splitRepository r = Inr (fst (Cut r (CHR ''/'')), name)"
proof -
  obtain owner name where cut: "Cut r (CHR ''/'') = (owner, name, True)"
    using assms by (cases "Cut r (CHR ''/'')") (auto simp: repositoryRE_def)
  with assms have o1: "owner \<noteq> []" and n: "name \<noteq> []"
      "list_all (\<lambda>c. alnum c \<or> c \<in> {CHR ''_'', CHR ''.'', CHR ''-''}) name"
    using organizationRE_chars [of owner] by (auto simp: repositoryRE_def)
  have "\<not> alnum (CHR ''/'')" by (simp add: alnum_def lower_alpha_def is_digit_def byte_def)
  with n(2) have "CHR ''/'' \<notin> set name" by (auto simp: list_all_iff)
  with cut o1 n(1) show ?thesis by (simp add: splitRepository_def)
qed

section \<open>Properties\<close>

text \<open>
  Every repository of a validated configuration is routed: its owner has, in the router
  built from the configuration, exactly the credential profiles that the configuration lists for
  that owner, in the same order, and at least one. \<open>route_missing\<close> cannot happen.
\<close>

theorem configured_repository_routed:
  assumes valid: "Validate E c = None" "github_authentication c = Some a"
    and built: "newGitHubClients E fd lookup readFile parseKey c = Inr router"
    and repository: "r \<in> set (configuredRepositories c)"
  shows "\<exists>owner name names. splitRepository r = Inr (owner, name) \<and> (owner, names) \<in> set (au_Owners a) \<and>
           names \<noteq> [] \<and> map p_Name (owner_profiles (e_lower E) router owner) = names"
proof -
  note v = configured_validated [OF valid repository]
  from v(3) obtain names where names: "(fst (Cut r (CHR ''/'')), names) \<in> set (au_Owners a)" by blast
  from repositoryRE_split [OF v(2)] newGitHubClients_owner [OF v(1) valid(2) names built] names
  show ?thesis by blast
qed

lemma sample_configure:
  "\<exists>y. configure_profile sample_env (\<lambda>_. Some ''t'') (\<lambda>_. None) (\<lambda>_. Some (0 :: nat)) opt (''p'', sample_app)
     = Inr y"
  "\<exists>y. configure_profile sample_env (\<lambda>_. Some ''t'') (\<lambda>_. None) (\<lambda>_. Some (0 :: nat)) opt (''q'', sample_pat)
     = Inr y"
proof -
  have "TrimSpace ''t'' = ''t''" by code_simp
  then show "\<exists>y. configure_profile sample_env (\<lambda>_. Some ''t'') (\<lambda>_. None) (\<lambda>_. Some (0 :: nat)) opt
      (''p'', sample_app) = Inr y"
    "\<exists>y. configure_profile sample_env (\<lambda>_. Some ''t'') (\<lambda>_. None) (\<lambda>_. Some (0 :: nat)) opt
      (''q'', sample_pat) = Inr y"
    by (simp_all add: configure_profile_def sample_app_def sample_pat_def sample_secret_def
        sample_env_def ResolveSecret_def New_def NewPAT_def newClient_def)
qed

lemma sample_authentication: "github_authentication sample_config = Some sample_auth"
  by (simp add: github_authentication_def sample_config_def)

lemma sample_newGitHubClients:
  "\<exists>router. newGitHubClients sample_env fd (\<lambda>_. Some ''t'') (\<lambda>_. None) (\<lambda>_. Some (0 :: nat)) sample_config
     = Inr router"
proof -
  let ?f = "configure_profile sample_env (\<lambda>_. Some ''t'') (\<lambda>_. None) (\<lambda>_. Some (0 :: nat))
      (common_options fd sample_config)"
  have "\<exists>ys. configure_profiles ?f (sort_key fst (au_Profiles sample_auth)) = Inr ys"
  proof (rule configure_profiles_total)
    fix x assume "x \<in> set (sort_key fst (au_Profiles sample_auth))"
    then have "x = (''p'', sample_app) \<or> x = (''q'', sample_pat)" by (simp add: sample_auth_def)
    then show "\<exists>y. ?f x = Inr y" using sample_configure by blast
  qed
  moreover have "auth_ok sample_env sample_auth"
    using Validate_config_ok [OF sample_Validate] sample_authentication by (simp add: config_ok_def)
  ultimately show ?thesis
    using newGitHubClients_cases [OF _ sample_authentication, of sample_env fd "\<lambda>_. Some ''t''"
        "\<lambda>_. None" "\<lambda>_. Some (0 :: nat)"] by auto
qed

lemma configured_repository_routed_witness:
  "\<exists>router. newGitHubClients sample_env (=) (\<lambda>_. Some ''t'') (\<lambda>_. None) (\<lambda>_. Some (0 :: nat))
     sample_config = Inr router \<and> map p_Name (owner_profiles id router ''Ac'') = [''q'', ''p'']"
proof -
  obtain router where r: "newGitHubClients sample_env (=) (\<lambda>_. Some ''t'') (\<lambda>_. None)
      (\<lambda>_. Some (0 :: nat)) sample_config = Inr router" using sample_newGitHubClients by blast
  have "''Ac/w'' \<in> set (configuredRepositories sample_config)"
    by (simp add: configuredRepositories_def sample_config_def sample_collection_def)
  from configured_repository_routed [OF sample_Validate sample_authentication r this]
  obtain owner name names where o0: "splitRepository ''Ac/w'' = Inr (owner, name) \<and>
      (owner, names) \<in> set (au_Owners sample_auth) \<and> names \<noteq> [] \<and>
      map p_Name (owner_profiles (e_lower sample_env) router owner) = names"
    by (elim exE)
  note o1 = o0 [THEN conjunct2, THEN conjunct1] o0 [THEN conjunct2, THEN conjunct2, THEN conjunct2]
  from o1(1) have "owner = ''Ac''" "names = [''q'', ''p'']" by (simp_all add: sample_auth_def)
  with o1(2) have "map p_Name (owner_profiles id router ''Ac'') = [''q'', ''p'']"
    by (simp only: sample_env_def env.select_convs)
  then show ?thesis by (intro exI [of _ router] conjI r)
qed

text \<open>
  Building the router from a validated configuration can only fail on a profile's secret or
  client: the authentication section is present, every profile type is known, and
  \<open>NewRouter\<close> accepts the routes.
\<close>

theorem newGitHubClients_error:
  assumes "Validate E c = None" "newGitHubClients E fd lookup readFile parseKey c = Inl e"
  shows "(\<exists>n x. e = ProfileSecret n x) \<or> (\<exists>n x. e = ProfileClient n x)"
proof -
  from Validate_config_ok [OF assms(1)] obtain a where
    a: "github_authentication c = Some a" "auth_ok E a"
    by (auto simp: config_ok_def split: option.splits)
  from newGitHubClients_cases [OF a(2,1), where fd = fd and lookup = lookup and readFile = readFile and parseKey = parseKey] assms(2)
  have "configure_profiles (configure_profile E lookup readFile parseKey (common_options fd c))
      (sort_key fst (au_Profiles a)) = Inl e" by auto
  from configure_profiles_Inl [OF this] obtain n p where p: "(n, p) \<in> set (au_Profiles a)"
      "configure_profile E lookup readFile parseKey (common_options fd c) (n, p) = Inl e"
    by auto
  from p(1) a(2) have "check_profile n p = None" unfolding auth_ok_def by blast
  then have "ap_Type p = ''github_app'' \<or> ap_Type p = ''fine_grained_pat''"
    unfolding check_profile_def by (auto split: if_splits)
  with p(2) show ?thesis
    by (auto simp: configure_profile_def split: if_splits sum.splits)
qed

lemma newGitHubClients_error_witness:
  "\<exists>e. newGitHubClients sample_env (=) (\<lambda>_. None) (\<lambda>_. None) (\<lambda>_. Some (0 :: nat)) sample_config = Inl e \<and>
     ((\<exists>n x. e = ProfileSecret n x) \<or> (\<exists>n x. e = ProfileClient n x))"
proof -
  let ?f = "configure_profile sample_env (\<lambda>_. None) (\<lambda>_. None) (\<lambda>_. Some (0 :: nat))
      (common_options (=) sample_config)"
  have no: "\<exists>e. ?f x = Inl e" if "x \<in> {(''p'', sample_app), (''q'', sample_pat)}" for x
    using that by (auto simp: configure_profile_def sample_app_def sample_pat_def
        sample_secret_def ResolveSecret_def)
  obtain x xs where x: "sort_key fst (au_Profiles sample_auth) = x # xs"
    by (cases "sort_key fst (au_Profiles sample_auth)")
      (simp_all add: sample_auth_def flip: length_0_conv)
  then have "x \<in> set (au_Profiles sample_auth)" by (metis list.set_intros(1) set_sort)
  then have "x \<in> {(''p'', sample_app), (''q'', sample_pat)}" by (simp add: sample_auth_def)
  from no [OF this] obtain e where "?f x = Inl e" by blast
  then have "configure_profiles ?f (sort_key fst (au_Profiles sample_auth)) = Inl e" by (simp add: x)
  then have "newGitHubClients sample_env (=) (\<lambda>_. None) (\<lambda>_. None) (\<lambda>_. Some (0 :: nat)) sample_config = Inl e"
    using sample_authentication by (simp add: newGitHubClients_def)
  with newGitHubClients_error [OF sample_Validate this] show ?thesis by blast
qed

text \<open>
  Validation and resolution disagree on which source of a secret counts: with a blank
  environment variable name and a readFile, validation accepts the readFile as the only source, but
  resolution looks up the blank variable and fails without opening the readFile.
\<close>

theorem blank_variable_shadows_file:
  "validateSecretReference name \<lparr> s_Environment = '' '', s_File = ''f'' \<rparr> = None \<and>
   ResolveSecret (\<lambda>_. None) readFile \<lparr> s_Environment = '' '', s_File = ''f'' \<rparr> = Inl (EmptyVariable '' '')"
proof -
  have "TrimSpace '' '' = []" "TrimSpace ''f'' = ''f''" by code_simp+
  then show ?thesis by (simp add: validateSecretReference_def ResolveSecret_def)
qed

end
