(* ===== verification/Coordinator.thy ===== *)
theory Coordinator
  imports ConfigFacts GoTime
begin

text \<open>
  Cron-driven dispatch: \<open>internal/periodic/coordinator.go\<close>, the schedule table of
  \<open>internal/storage/periodic.go\<close>, and the entries that \<open>cmd/maintainer-cockpit/serve.go\<close> makes
  from a configuration. A dispatch function acts on a world \<open>'w\<close> and may fail; the coordinator
  uses the store only through the interface \<open>schedule_state\<close>, a locale interpreted below on
  the table. A cron schedule is its \<open>Next\<close> function, which answers the zero time when there is no
  later match. The mutex is not modelled: every operation holds it or works on a copy.
\<close>

datatype periodic_error =
  StateRequired | EntryIncomplete | EntrySchedule string | StateFailed string
  | BootstrapFailed string string | DispatchFailed string string

record 'w entry =
  en_Operation :: string
  en_Target :: string
  en_Expression :: string
  en_Dispatch :: "('w \<Rightarrow> time \<Rightarrow> string option \<times> 'w) option"

record 'w scheduledEntry =
  se_entry :: "'w entry"
  se_schedule :: "time \<Rightarrow> time"
  se_next :: time

record 'w coordinator =
  co_entries :: "'w scheduledEntry list"
  co_initialized :: bool

text \<open>The \<open>State\<close> interface: two operations that may fail and change the world.\<close>

record 'w state_ops =
  so_InitializeSchedule :: "'w \<Rightarrow> string \<Rightarrow> string \<Rightarrow> time \<Rightarrow> (string + bool) \<times> 'w"
  so_RecordScheduleDispatch :: "'w \<Rightarrow> string \<Rightarrow> string \<Rightarrow> time \<Rightarrow> string option \<times> 'w"

section \<open>Operations\<close>

fun add_entries ::
  "(time \<Rightarrow> time) env \<Rightarrow> 'w entry list \<Rightarrow> periodic_error + 'w scheduledEntry list" where
  "add_entries E [] = Inr []"
| "add_entries E (e # es) =
     failIf (en_Operation e = [] \<or> en_Dispatch e = None) EntryIncomplete
     (case ParseSchedule E (en_Expression e) of
        None \<Rightarrow> Inl (EntrySchedule (en_Operation e))
      | Some s \<Rightarrow> bindR (add_entries E es) (\<lambda>rest.
          Inr (\<lparr> se_entry = e, se_schedule = s, se_next = 0 \<rparr> # rest)))"

definition NewCoordinator ::
  "(time \<Rightarrow> time) env \<Rightarrow> 'w entry list \<Rightarrow> 'w state_ops option \<Rightarrow> periodic_error + 'w coordinator" where
  "NewCoordinator E entries state =
     failIf (state = None) StateRequired
     (bindR (add_entries E entries) (\<lambda>es. Inr \<lparr> co_entries = es, co_initialized = False \<rparr>))"

definition run_dispatch :: "'w scheduledEntry \<Rightarrow> 'w \<Rightarrow> time \<Rightarrow> string option \<times> 'w" where
  "run_dispatch e w now =
     (case en_Dispatch (se_entry e) of None \<Rightarrow> (None, w) | Some f \<Rightarrow> f w now)"

definition se_Operation :: "'w scheduledEntry \<Rightarrow> string" where
  "se_Operation e = en_Operation (se_entry e)"

definition se_Target :: "'w scheduledEntry \<Rightarrow> string" where
  "se_Target e = en_Target (se_entry e)"

fun init_loop ::
  "'w state_ops \<Rightarrow> time \<Rightarrow> 'w scheduledEntry list \<Rightarrow> 'w \<Rightarrow> periodic_error option \<times> 'w" where
  "init_loop S now [] w = (None, w)"
| "init_loop S now (e # es) w =
     (case so_InitializeSchedule S w (se_Operation e) (se_Target e) now of
        (Inl err, w1) \<Rightarrow> (Some (StateFailed err), w1)
      | (Inr first, w1) \<Rightarrow>
         if first then
           (case run_dispatch e w1 now of
              (Some err, w2) \<Rightarrow> (Some (BootstrapFailed (se_Operation e) err), w2)
            | (None, w2) \<Rightarrow> init_loop S now es w2)
         else init_loop S now es w1)"

definition Initialize ::
  "'w state_ops \<Rightarrow> 'w coordinator \<Rightarrow> 'w \<Rightarrow> time \<Rightarrow> periodic_error option \<times> 'w coordinator \<times> 'w" where
  "Initialize S co w now =
     (let es = map (\<lambda>e. e\<lparr>se_next := se_schedule e now\<rparr>) (co_entries co);
          (err, w') = init_loop S now es w
      in (err, \<lparr> co_entries = es, co_initialized = True \<rparr>, w'))"

definition is_due :: "time \<Rightarrow> 'w scheduledEntry \<Rightarrow> bool" where
  "is_due now e \<longleftrightarrow> \<not> (IsZero (se_next e) \<or> se_next e > now)"

fun due_loop ::
  "'w state_ops \<Rightarrow> time \<Rightarrow> 'w scheduledEntry list \<Rightarrow> 'w \<Rightarrow> periodic_error option \<times> 'w" where
  "due_loop S now [] w = (None, w)"
| "due_loop S now (e # es) w =
     (case so_RecordScheduleDispatch S w (se_Operation e) (se_Target e) now of
        (Some err, w1) \<Rightarrow> (Some (StateFailed err), w1)
      | (None, w1) \<Rightarrow>
         (case run_dispatch e w1 now of
            (Some err, w2) \<Rightarrow> (Some (DispatchFailed (se_Operation e) err), w2)
          | (None, w2) \<Rightarrow> due_loop S now es w2))"

definition RunDue ::
  "'w state_ops \<Rightarrow> 'w coordinator \<Rightarrow> 'w \<Rightarrow> time \<Rightarrow> periodic_error option \<times> 'w coordinator \<times> 'w" where
  "RunDue S co w now =
     (let due = filter (is_due now) (co_entries co);
          es = map (\<lambda>e. if is_due now e then e\<lparr>se_next := se_schedule e now\<rparr> else e) (co_entries co);
          (err, w') = due_loop S now due w
      in (err, co\<lparr>co_entries := es\<rparr>, w'))"

text \<open>\<open>next\<close>: the instant the run loop waits for. The zero time makes it wait forever.\<close>

fun next_loop :: "time \<Rightarrow> time list \<Rightarrow> time" where
  "next_loop nxt [] = nxt"
| "next_loop nxt (t # ts) = next_loop (if IsZero nxt \<or> t < nxt then t else nxt) ts"

definition next_run :: "'w coordinator \<Rightarrow> time" where
  "next_run co = next_loop 0 (map se_next (co_entries co))"

record status =
  st_Operation :: string
  st_Collection :: string
  st_Expression :: string
  st_Enabled :: bool
  st_NextRun :: time

definition Status :: "'w coordinator \<Rightarrow> status list" where
  "Status co = map (\<lambda>e. \<lparr> st_Operation = se_Operation e, st_Collection = se_Target e,
     st_Expression = en_Expression (se_entry e), st_Enabled = True, st_NextRun = se_next e \<rparr>)
     (co_entries co)"

section \<open>The interface to the store\<close>

text \<open>
  What the coordinator relies on: a target is \<open>known\<close> after it was initialised or recorded, and
  initialising reports whether it was new and changes nothing when it was known.
\<close>

locale schedule_state =
  fixes ops :: "'w state_ops" and known :: "'w \<Rightarrow> string \<Rightarrow> string \<Rightarrow> bool"
  assumes init_first: "so_InitializeSchedule ops w o1 t now = (Inr b, w') \<Longrightarrow> b = (\<not> known w o1 t)"
    and init_known: "so_InitializeSchedule ops w o1 t now = (Inr b, w') \<Longrightarrow>
      known w' o2 u = (known w o2 u \<or> (o2, u) = (o1, t))"
    and init_same: "known w o1 t \<Longrightarrow> so_InitializeSchedule ops w o1 t now = (Inr False, w)"
    and record_known: "so_RecordScheduleDispatch ops w o1 t now = (None, w') \<Longrightarrow>
      known w' o2 u = (known w o2 u \<or> (o2, u) = (o1, t))"
begin

text \<open>Dispatching does not forget schedule targets.\<close>

definition keeps_known :: "'w scheduledEntry \<Rightarrow> bool" where
  "keeps_known e \<longleftrightarrow> (\<forall>w now r w' o1 t. run_dispatch e w now = (r, w') \<longrightarrow> known w o1 t \<longrightarrow> known w' o1 t)"

lemma init_loop_known:
  "init_loop ops now es w = (None, w') \<Longrightarrow> \<forall>e\<in>set es. keeps_known e \<Longrightarrow>
     (\<forall>o1 t. known w o1 t \<longrightarrow> known w' o1 t) \<and> (\<forall>e\<in>set es. known w' (se_Operation e) (se_Target e))"
proof (induction es arbitrary: w)
  case Nil
  then show ?case by simp
next
  case (Cons e es)
  let ?o = "se_Operation e" and ?t = "se_Target e"
  from Cons.prems(1) obtain first w1 where i: "so_InitializeSchedule ops w ?o ?t now = (Inr first, w1)"
    by (auto split: prod.splits sum.splits)
  have w1: "known w1 ?o ?t" "\<And>o1 t. known w o1 t \<Longrightarrow> known w1 o1 t"
    using init_known [OF i] by simp_all
  show ?case
  proof (cases first)
    case True
    with Cons.prems(1) i obtain w2 where d: "run_dispatch e w1 now = (None, w2)"
        "init_loop ops now es w2 = (None, w')"
      by (auto split: prod.splits option.splits)
    have "keeps_known e" using Cons.prems(2) by simp
    with d(1) have w2: "\<And>o1 t. known w1 o1 t \<Longrightarrow> known w2 o1 t" unfolding keeps_known_def by blast
    from Cons.IH [OF d(2)] Cons.prems(2) w1 w2 show ?thesis by auto
  next
    case False
    with Cons.prems(1) i have "init_loop ops now es w1 = (None, w')" by simp
    from Cons.IH [OF this] Cons.prems(2) w1 show ?thesis by auto
  qed
qed

lemma init_loop_all_known:
  "\<forall>e\<in>set es. known w (se_Operation e) (se_Target e) \<Longrightarrow> init_loop ops now es w = (None, w)"
  by (induction es) (auto simp: init_same)

text \<open>After a successful start, every later start with the same targets bootstraps nothing.\<close>

lemma restart_silent:
  assumes start: "Initialize ops co w now = (None, co', w')"
    and keeps: "\<forall>e\<in>set (co_entries co'). keeps_known e"
    and again: "map (\<lambda>e. (se_Operation e, se_Target e)) (co_entries co2) =
      map (\<lambda>e. (se_Operation e, se_Target e)) (co_entries co')"
    and later: "\<And>o1 t. known w' o1 t \<Longrightarrow> known w2 o1 t"
  shows "fst (Initialize ops co2 w2 now2) = None \<and> snd (snd (Initialize ops co2 w2 now2)) = w2"
proof -
  let ?es = "map (\<lambda>e. e\<lparr>se_next := se_schedule e now\<rparr>) (co_entries co)"
  from start have es: "co_entries co' = ?es" and loop: "init_loop ops now ?es w = (None, w')"
    by (auto simp: Initialize_def Let_def split: prod.splits)
  have "\<forall>e\<in>set (co_entries co'). known w' (se_Operation e) (se_Target e)"
    using init_loop_known [OF loop] keeps unfolding es by blast
  then have "\<forall>p\<in>set (map (\<lambda>e. (se_Operation e, se_Target e)) (co_entries co')). known w' (fst p) (snd p)"
    by simp
  then have "\<forall>e\<in>set (co_entries co2). known w2 (se_Operation e) (se_Target e)"
    unfolding again [symmetric] using later by simp
  then have "init_loop ops now2 (map (\<lambda>e. e\<lparr>se_next := se_schedule e now2\<rparr>) (co_entries co2)) w2
      = (None, w2)"
    by (intro init_loop_all_known) (simp add: se_Operation_def se_Target_def)
  then show ?thesis by (simp add: Initialize_def)
qed

end

section \<open>The schedule table\<close>

record schedule_row =
  sd_operation :: string
  sd_target :: string
  sd_last_dispatched_at :: string

record 'r schedule_world =
  sw_schedules :: "schedule_row list"
  sw_rest :: 'r

definition sd_key :: "string \<Rightarrow> string \<Rightarrow> schedule_row \<Rightarrow> bool" where
  "sd_key opn target r \<longleftrightarrow> sd_operation r = opn \<and> sd_target r = target"

definition schedule_row_at :: "string \<Rightarrow> string \<Rightarrow> time \<Rightarrow> schedule_row" where
  "schedule_row_at opn target now =
     \<lparr> sd_operation = opn, sd_target = target, sd_last_dispatched_at = formatTime now \<rparr>"

text \<open>\<open>INSERT OR IGNORE\<close>, reporting whether a row was inserted.\<close>

definition InitializeSchedule ::
  "'r schedule_world \<Rightarrow> string \<Rightarrow> string \<Rightarrow> time \<Rightarrow> (string + bool) \<times> 'r schedule_world" where
  "InitializeSchedule w opn target now =
     (if list_ex (sd_key opn target) (sw_schedules w) then (Inr False, w)
      else (Inr True, w\<lparr>sw_schedules := sw_schedules w @ [schedule_row_at opn target now]\<rparr>))"

definition RecordScheduleDispatch ::
  "'r schedule_world \<Rightarrow> string \<Rightarrow> string \<Rightarrow> time \<Rightarrow> string option \<times> 'r schedule_world" where
  "RecordScheduleDispatch w opn target now =
     (None, w\<lparr>sw_schedules :=
        (if list_ex (sd_key opn target) (sw_schedules w)
         then update_where (sd_key opn target) (\<lambda>r. r\<lparr>sd_last_dispatched_at := formatTime now\<rparr>)
                (sw_schedules w)
         else sw_schedules w @ [schedule_row_at opn target now])\<rparr>)"

definition DeleteScheduleState :: "'r schedule_world \<Rightarrow> string \<Rightarrow> string \<Rightarrow> 'r schedule_world" where
  "DeleteScheduleState w opn target =
     w\<lparr>sw_schedules := delete_where (sd_key opn target) (sw_schedules w)\<rparr>"

definition schedule_store :: "'r schedule_world state_ops" where
  "schedule_store = \<lparr> so_InitializeSchedule = InitializeSchedule,
     so_RecordScheduleDispatch = RecordScheduleDispatch \<rparr>"

definition schedule_known :: "'r schedule_world \<Rightarrow> string \<Rightarrow> string \<Rightarrow> bool" where
  "schedule_known w opn target = list_ex (sd_key opn target) (sw_schedules w)"

interpretation schedules: schedule_state schedule_store schedule_known
proof
  fix w :: "'r schedule_world" and o1 t now b w' o2 u
  show "so_InitializeSchedule schedule_store w o1 t now = (Inr b, w') \<Longrightarrow> b = (\<not> schedule_known w o1 t)"
    by (auto simp: schedule_store_def InitializeSchedule_def schedule_known_def split: if_splits)
  show "so_InitializeSchedule schedule_store w o1 t now = (Inr b, w') \<Longrightarrow>
      schedule_known w' o2 u = (schedule_known w o2 u \<or> (o2, u) = (o1, t))"
    by (auto simp: schedule_store_def InitializeSchedule_def schedule_known_def schedule_row_at_def
        sd_key_def split: if_splits)
  show "schedule_known w o1 t \<Longrightarrow> so_InitializeSchedule schedule_store w o1 t now = (Inr False, w)"
    by (simp add: schedule_store_def InitializeSchedule_def schedule_known_def)
  show "so_RecordScheduleDispatch schedule_store w o1 t now = (None, w') \<Longrightarrow>
      schedule_known w' o2 u = (schedule_known w o2 u \<or> (o2, u) = (o1, t))"
    by (auto simp: schedule_store_def RecordScheduleDispatch_def schedule_known_def schedule_row_at_def
        sd_key_def list_ex_update_where split: if_splits)
qed

section \<open>Entries of a configuration\<close>

text \<open>\<open>serve.go\<close>; the store's enqueue functions are the parameters.\<close>

definition collection_entries ::
  "(string \<Rightarrow> 'w \<Rightarrow> time \<Rightarrow> string option \<times> 'w) \<Rightarrow> (string \<Rightarrow> 'w \<Rightarrow> time \<Rightarrow> string option \<times> 'w) \<Rightarrow>
   collection \<Rightarrow> 'w entry list" where
  "collection_entries evidence correlate cl =
     (case cl_Contribution cl of None \<Rightarrow> []
      | Some n \<Rightarrow> [\<lparr> en_Operation = ''github_contribution'', en_Target = cl_ID cl,
          en_Expression = cn_Schedule n, en_Dispatch = Some (evidence (cl_ID cl)) \<rparr>]) @
     (case cl_FeatureCorrelation cl of None \<Rightarrow> []
      | Some schedule \<Rightarrow> [\<lparr> en_Operation = ''feature_correlation'', en_Target = cl_ID cl,
          en_Expression = schedule, en_Dispatch = Some (correlate (cl_ID cl)) \<rparr>])"

definition periodicEntries ::
  "('w \<Rightarrow> time \<Rightarrow> string option \<times> 'w) \<Rightarrow> (string \<Rightarrow> 'w \<Rightarrow> time \<Rightarrow> string option \<times> 'w) \<Rightarrow>
   (string \<Rightarrow> 'w \<Rightarrow> time \<Rightarrow> string option \<times> 'w) \<Rightarrow> config \<Rightarrow> 'w entry list" where
  "periodicEntries refreshes evidence correlate c =
     (case GitHub c of None \<Rightarrow> []
      | Some g \<Rightarrow> if gh_Authentication g = None then []
          else [\<lparr> en_Operation = ''github_refresh'', en_Target = [],
                  en_Expression = gh_Schedule g, en_Dispatch = Some refreshes \<rparr>]) @
     concat (map (collection_entries evidence correlate) (Collections c))"

text \<open>The schedule rows that a reload forgets; the evidence queue is cancelled separately.\<close>

definition reconcile_collection ::
  "config \<Rightarrow> 'r schedule_world \<Rightarrow> collection \<Rightarrow> 'r schedule_world" where
  "reconcile_collection next_config w cl =
     (let w1 = (if cl_Contribution cl \<noteq> None \<and> \<not> list_ex (\<lambda>n. cl_ID n = cl_ID cl \<and>
                    cl_Contribution n \<noteq> None) (Collections next_config)
                then DeleteScheduleState w ''github_contribution'' (cl_ID cl) else w)
      in if cl_FeatureCorrelation cl \<noteq> None \<and> \<not> list_ex (\<lambda>n. cl_ID n = cl_ID cl \<and>
              cl_FeatureCorrelation n \<noteq> None) (Collections next_config)
         then DeleteScheduleState w1 ''feature_correlation'' (cl_ID cl) else w1)"

definition reconcileDisabledSchedules ::
  "'r schedule_world \<Rightarrow> config \<Rightarrow> config \<Rightarrow> 'r schedule_world" where
  "reconcileDisabledSchedules w previous next_config =
     foldl (reconcile_collection next_config) w (Collections previous)"

section \<open>Lemmas\<close>

lemma add_entries_Inr:
  "(\<And>e. e \<in> set es \<Longrightarrow> en_Operation e \<noteq> [] \<and> en_Dispatch e \<noteq> None \<and>
      ParseSchedule E (en_Expression e) \<noteq> None) \<Longrightarrow>
   \<exists>out. add_entries E es = Inr out \<and> map se_entry out = es \<and>
     (\<forall>x\<in>set out. se_next x = 0 \<and> ParseSchedule E (en_Expression (se_entry x)) = Some (se_schedule x))"
proof (induction es)
  case Nil
  then show ?case by simp
next
  case (Cons e es)
  from Cons.prems [of e] obtain s f where s: "ParseSchedule E (en_Expression e) = Some s"
    and f: "en_Dispatch e = Some f" by auto
  from Cons obtain out where "add_entries E es = Inr out" "map se_entry out = es"
      "\<forall>x\<in>set out. se_next x = 0 \<and> ParseSchedule E (en_Expression (se_entry x)) = Some (se_schedule x)"
    by (metis list.set_intros(2))
  with Cons.prems [of e] s f show ?case by simp
qed

text \<open>A cron schedule answers a later instant or the zero time.\<close>

definition advances :: "(time \<Rightarrow> time) \<Rightarrow> bool" where
  "advances s \<longleftrightarrow> (\<forall>t. s t = 0 \<or> t < s t)"

lemma advanced_not_due:
  assumes "advances (se_schedule e)"
  shows "\<not> is_due now (if is_due now e then e\<lparr>se_next := se_schedule e now\<rparr> else e)"
  using assms by (auto simp: is_due_def IsZero_def advances_def not_less)

lemma next_loop_zero:
  "next_loop n ts = 0 \<longleftrightarrow> (if ts = [] then n = 0 else last ts = 0)"
  if "0 \<le> n" "\<forall>t\<in>set ts. 0 \<le> t"
  using that
proof (induction ts arbitrary: n)
  case Nil
  then show ?case by simp
next
  case (Cons t ts)
  have "0 \<le> (if IsZero n \<or> t < n then t else n)" using Cons.prems by simp
  from Cons.IH [OF this] Cons.prems show ?case by (auto simp: IsZero_def)
qed

lemma next_loop_le:
  "\<forall>t\<in>set ts. 0 < t \<Longrightarrow> 0 \<le> n \<Longrightarrow> (\<forall>t\<in>set ts. next_loop n ts \<le> t) \<and> (0 < n \<longrightarrow> next_loop n ts \<le> n) \<and>
     (next_loop n ts = n \<or> next_loop n ts \<in> set ts)"
proof (induction ts arbitrary: n)
  case Nil
  then show ?case by simp
next
  case (Cons t ts)
  let ?m = "if IsZero n \<or> t < n then t else n"
  have m: "0 < ?m" "?m \<le> t" "0 < n \<longrightarrow> ?m \<le> n" using Cons.prems by (auto simp: IsZero_def)
  from Cons.IH [of ?m] Cons.prems m(1) have ih: "\<forall>u\<in>set ts. next_loop ?m ts \<le> u"
      "next_loop ?m ts \<le> ?m" "next_loop ?m ts = ?m \<or> next_loop ?m ts \<in> set ts" by auto
  have "next_loop ?m ts = n \<or> next_loop ?m ts \<in> set (t # ts)" using ih(3) by auto
  moreover have "next_loop ?m ts \<le> t" "0 < n \<longrightarrow> next_loop ?m ts \<le> n" using ih(2) m by linarith+
  ultimately show ?case using ih(1) by simp
qed

section \<open>Properties\<close>

text \<open>
  C7. Coalescing: when \<open>RunDue\<close> has returned, none of the entries is due any more at that
  instant, however many matches had elapsed; running it again dispatches nothing and changes
  nothing. It relies on cron schedules answering a later instant (or none).
\<close>

theorem RunDue_coalesces:
  assumes run: "RunDue S co w now = (err, co', w')"
    and schedules: "\<forall>e\<in>set (co_entries co). advances (se_schedule e)"
  shows "RunDue S co' w2 now = (None, co', w2)"
proof -
  let ?f = "\<lambda>e. if is_due now e then e\<lparr>se_next := se_schedule e now\<rparr> else e"
  from run have es: "co_entries co' = map ?f (co_entries co)"
    by (auto simp: RunDue_def Let_def split: prod.splits)
  have none: "\<not> is_due now e" if "e \<in> set (co_entries co')" for e
  proof -
    from that obtain e0 where "e0 \<in> set (co_entries co)" "e = ?f e0" unfolding es by auto
    with schedules advanced_not_due [of e0 now] show ?thesis by blast
  qed
  then have "filter (is_due now) (co_entries co') = []" by (simp add: filter_empty_conv)
  moreover have "map ?f (co_entries co') = co_entries co'" using none by (simp add: map_idI)
  ultimately show ?thesis by (simp add: RunDue_def)
qed

definition hourly :: "time \<Rightarrow> time" where
  "hourly t = (t div hour + 1) * hour"

lemma advances_hourly: "advances hourly"
proof -
  have "t < hourly t" for t
  proof -
    have "t mod hour < hour" by (simp add: hour_def second_def)
    then show ?thesis unfolding hourly_def
      by (simp add: distrib_right) (metis add_less_cancel_left div_mult_mod_eq)
  qed
  then show ?thesis by (simp add: advances_def)
qed

definition sample_entry :: "nat schedule_world scheduledEntry" where
  "sample_entry = \<lparr> se_entry = \<lparr> en_Operation = ''github_refresh'', en_Target = [],
     en_Expression = ''0 * * * *'',
     en_Dispatch = Some (\<lambda>w now. (None, w\<lparr>sw_rest := sw_rest w + 1\<rparr>)) \<rparr>,
     se_schedule = hourly, se_next = hour \<rparr>"

definition sample_coordinator :: "nat schedule_world coordinator" where
  "sample_coordinator = \<lparr> co_entries = [sample_entry], co_initialized = True \<rparr>"

definition sample_world :: "nat schedule_world" where
  "sample_world = \<lparr> sw_schedules = [], sw_rest = 0 \<rparr>"

lemma RunDue_coalesces_witness:
  "\<exists>co' w'. RunDue schedule_store sample_coordinator sample_world (5 * hour) = (None, co', w') \<and>
     sw_rest w' = 1 \<and> RunDue schedule_store co' w' (5 * hour) = (None, co', w')"
proof -
  obtain co' w' where run: "RunDue schedule_store sample_coordinator sample_world (5 * hour) = (None, co', w')"
    and one: "sw_rest w' = 1"
    by (simp add: RunDue_def sample_coordinator_def sample_entry_def is_due_def IsZero_def
        schedule_store_def RecordScheduleDispatch_def run_dispatch_def sample_world_def hour_def
        second_def se_Operation_def se_Target_def)
  have "\<forall>e\<in>set (co_entries sample_coordinator). advances (se_schedule e)"
    by (simp add: sample_coordinator_def sample_entry_def advances_hourly)
  from RunDue_coalesces [OF run this, of w'] run one show ?thesis by blast
qed

text \<open>
  Bootstrap happens once: after a start that succeeded, a restart with the same schedule
  targets dispatches nothing, whatever happened to the database in between short of deleting
  schedule rows. It is the locale's restart lemma on the store's schedule table.
\<close>

theorem bootstrap_once:
  fixes w' w2 :: "'r schedule_world"
  assumes start: "Initialize schedule_store co w now = (None, co', w')"
    and keeps: "\<forall>e\<in>set (co_entries co'). schedules.keeps_known e"
    and again: "map (\<lambda>e. (se_Operation e, se_Target e)) (co_entries co2) =
      map (\<lambda>e. (se_Operation e, se_Target e)) (co_entries co')"
    and later: "\<And>opn target. schedule_known w' opn target \<Longrightarrow> schedule_known w2 opn target"
  shows "fst (Initialize schedule_store co2 w2 now2) = None \<and>
         snd (snd (Initialize schedule_store co2 w2 now2)) = w2"
  by (rule schedules.restart_silent [OF start keeps again]) (rule later)

lemma sample_keeps: "schedules.keeps_known (sample_entry\<lparr>se_next := t\<rparr>)"
  by (auto simp: schedules.keeps_known_def run_dispatch_def sample_entry_def schedule_known_def)

lemma bootstrap_once_witness:
  "\<exists>co' w'. Initialize schedule_store sample_coordinator sample_world 0 = (None, co', w') \<and>
     sw_rest w' = 1 \<and> snd (snd (Initialize schedule_store sample_coordinator w' hour)) = w'"
proof -
  obtain co' w' where start: "Initialize schedule_store sample_coordinator sample_world 0 = (None, co', w')"
    and one: "sw_rest w' = 1" and es: "co_entries co' = [sample_entry\<lparr>se_next := hourly 0\<rparr>]"
    by (simp add: Initialize_def sample_coordinator_def schedule_store_def InitializeSchedule_def
        run_dispatch_def sample_world_def se_Operation_def se_Target_def sample_entry_def)
  have keeps: "\<forall>e\<in>set (co_entries co'). schedules.keeps_known e"
    by (simp add: es sample_keeps)
  have again: "map (\<lambda>e. (se_Operation e, se_Target e)) (co_entries sample_coordinator) =
      map (\<lambda>e. (se_Operation e, se_Target e)) (co_entries co')"
    by (simp add: es sample_coordinator_def se_Operation_def se_Target_def)
  from bootstrap_once [OF start keeps again, of w' hour] start one show ?thesis by blast
qed

text \<open>
  The instant the run loop waits for is zero, which makes it wait forever, exactly when there
  is no entry or the last entry has no future match; otherwise it is one of the entries' times.
  So one schedule that never matches (February 30th), listed last, silences all the others.
\<close>

theorem next_run_zero:
  assumes "\<forall>e\<in>set (co_entries co). 0 \<le> se_next e"
  shows "next_run co = 0 \<longleftrightarrow> co_entries co = [] \<or> se_next (last (co_entries co)) = 0"
  using next_loop_zero [of 0 "map se_next (co_entries co)"] assms
  by (auto simp: next_run_def last_map)

lemma next_run_zero_witness:
  "next_run \<lparr> co_entries = [sample_entry, sample_entry\<lparr>se_next := 0\<rparr>], co_initialized = True \<rparr> = 0 \<and>
   se_next sample_entry \<noteq> 0"
proof
  let ?co = "\<lparr> co_entries = [sample_entry, sample_entry\<lparr>se_next := 0\<rparr>], co_initialized = True \<rparr>"
  have "\<forall>e\<in>set (co_entries ?co). 0 \<le> se_next e"
    by (simp add: sample_entry_def hour_def second_def)
  from next_run_zero [OF this] show "next_run ?co = 0" by simp
  show "se_next sample_entry \<noteq> 0" by (simp add: sample_entry_def hour_def second_def)
qed

text \<open>
  The scheduler starts for every validated configuration: \<open>New\<close> accepts the entries that
  \<open>serve\<close> makes from it, one per entry and in the same order.
\<close>

theorem periodicEntries_accepted:
  assumes "Validate E c = None"
  shows "\<exists>co. NewCoordinator E (periodicEntries refreshes evidence correlate c) (Some S) = Inr co \<and>
           map se_entry (co_entries co) = periodicEntries refreshes evidence correlate c"
proof -
  from Validate_config_ok [OF assms] have cols: "list_all (collection_ok E c) (Collections c)"
    and gh: "case GitHub c of None \<Rightarrow> False | Some g \<Rightarrow> ParseSchedule E (gh_Schedule g) \<noteq> None"
    unfolding config_ok_def by blast+
  have "\<exists>out. add_entries E (periodicEntries refreshes evidence correlate c) = Inr out \<and>
      map se_entry out = periodicEntries refreshes evidence correlate c \<and>
      (\<forall>x\<in>set out. se_next x = 0 \<and> ParseSchedule E (en_Expression (se_entry x)) = Some (se_schedule x))"
  proof (rule add_entries_Inr)
    fix e assume "e \<in> set (periodicEntries refreshes evidence correlate c)"
    then have "(\<exists>g. GitHub c = Some g \<and> e = \<lparr> en_Operation = ''github_refresh'', en_Target = [],
          en_Expression = gh_Schedule g, en_Dispatch = Some refreshes \<rparr>) \<or>
        (\<exists>cl\<in>set (Collections c). e \<in> set (collection_entries evidence correlate cl))"
      by (cases "GitHub c") (auto simp: periodicEntries_def split: if_splits)
    then consider g where "GitHub c = Some g" "en_Operation e = ''github_refresh''"
        "en_Dispatch e = Some refreshes" "en_Expression e = gh_Schedule g"
      | cl where "cl \<in> set (Collections c)" "e \<in> set (collection_entries evidence correlate cl)"
      by fastforce
    then show "en_Operation e \<noteq> [] \<and> en_Dispatch e \<noteq> None \<and> ParseSchedule E (en_Expression e) \<noteq> None"
    proof cases
      case 1
      with gh show ?thesis by simp
    next
      case 2
      with cols have "collection_ok E c cl" by (simp add: list_all_iff)
      then have "case cl_Contribution cl of None \<Rightarrow> True | Some n \<Rightarrow> ParseSchedule E (cn_Schedule n) \<noteq> None"
        "case cl_FeatureCorrelation cl of None \<Rightarrow> True
         | Some s \<Rightarrow> cl_ModelProvider cl \<noteq> [] \<and> ParseSchedule E s \<noteq> None"
        unfolding collection_ok_def by blast+
      with 2(2) show ?thesis by (auto simp: collection_entries_def split: option.splits)
    qed
  qed
  then show ?thesis by (auto simp: NewCoordinator_def)
qed

definition sample_hourly_env :: "(time \<Rightarrow> time) env" where
  "sample_hourly_env = \<lparr> e_lower = id, e_url = (\<lambda>_. Some \<lparr> url_Scheme = ''https'', url_Host = ''h'',
     url_User = False, url_RawQuery = [], url_Fragment = [], url_Path = [] \<rparr>),
     e_cron = (\<lambda>_. Some hourly) \<rparr>"

lemma sample_hourly_Validate: "Validate sample_hourly_env sample_config = None"
  by code_simp

lemma periodicEntries_accepted_witness:
  "\<exists>co. NewCoordinator sample_hourly_env (periodicEntries (\<lambda>w now. (None, w)) (\<lambda>_ w now. (None, w))
     (\<lambda>_ w now. (None, w)) sample_config) (Some (schedule_store :: nat schedule_world state_ops)) = Inr co \<and>
     length (co_entries co) = 1"
proof -
  let ?es = "periodicEntries (\<lambda>w now. (None, w)) (\<lambda>_ w now. (None, w)) (\<lambda>_ w now. (None, w)) sample_config
    :: nat schedule_world entry list"
  obtain co where co: "NewCoordinator sample_hourly_env ?es (Some schedule_store) = Inr co"
      "map se_entry (co_entries co) = ?es"
    using periodicEntries_accepted [OF sample_hourly_Validate] by blast
  have "length ?es = 1"
    by (simp add: periodicEntries_def sample_config_def collection_entries_def sample_collection_def)
  then have "length (co_entries co) = 1" using co(2) by (metis length_map)
  with co(1) show ?thesis by blast
qed

text \<open>
  A bootstrap that fails is lost: the target is recorded as known before its dispatch runs,
  so when the dispatch fails, the next start neither repeats nor reports it.
\<close>

theorem failed_bootstrap_lost:
  assumes new: "\<not> schedule_known w (se_Operation e) (se_Target e)"
    and fails: "\<And>v. run_dispatch e v now = (Some err, v)"
    and start: "Initialize schedule_store \<lparr> co_entries = [e], co_initialized = False \<rparr> w now = (r, co', w')"
  shows "r = Some (BootstrapFailed (se_Operation e) err) \<and>
         fst (Initialize schedule_store \<lparr> co_entries = [e], co_initialized = False \<rparr> w' now2) = None"
proof -
  let ?e = "e\<lparr>se_next := se_schedule e now\<rparr>"
  have id: "se_Operation (e\<lparr>se_next := t\<rparr>) = se_Operation e" "se_Target (e\<lparr>se_next := t\<rparr>) = se_Target e"
      "run_dispatch (e\<lparr>se_next := t\<rparr>) = run_dispatch e" for t
    by (simp_all add: se_Operation_def se_Target_def run_dispatch_def fun_eq_iff)
  let ?w1 = "w\<lparr>sw_schedules := sw_schedules w @
      [schedule_row_at (se_Operation e) (se_Target e) now]\<rparr>"
  have ins: "InitializeSchedule w (se_Operation e) (se_Target e) now = (Inr True, ?w1)"
    using new by (simp add: InitializeSchedule_def schedule_known_def)
  then have r: "r = Some (BootstrapFailed (se_Operation e) err)" "w' = ?w1"
    using start fails by (auto simp: Initialize_def id schedule_store_def)
  have "schedule_known ?w1 (se_Operation e) (se_Target e)"
    by (simp add: schedule_known_def schedule_row_at_def sd_key_def)
  then have "init_loop schedule_store now2 [e\<lparr>se_next := se_schedule e now2\<rparr>] ?w1 = (None, ?w1)"
    by (intro schedules.init_loop_all_known) (simp add: id)
  with r show ?thesis by (simp add: Initialize_def)
qed

definition failing_entry :: "nat schedule_world scheduledEntry" where
  "failing_entry = sample_entry\<lparr>se_entry := (se_entry sample_entry)\<lparr>en_Dispatch :=
     Some (\<lambda>w now. (Some ''locked'', w))\<rparr>\<rparr>"

lemma failed_bootstrap_lost_witness:
  "\<exists>co' w'. Initialize schedule_store \<lparr> co_entries = [failing_entry], co_initialized = False \<rparr>
       sample_world 0 = (Some (BootstrapFailed ''github_refresh'' ''locked''), co', w') \<and>
     fst (Initialize schedule_store \<lparr> co_entries = [failing_entry], co_initialized = False \<rparr> w' hour) = None"
proof -
  obtain r co' w' where start: "Initialize schedule_store
      \<lparr> co_entries = [failing_entry], co_initialized = False \<rparr> sample_world 0 = (r, co', w')"
    by (metis prod_cases3)
  have new: "\<not> schedule_known sample_world (se_Operation failing_entry) (se_Target failing_entry)"
    by (simp add: schedule_known_def sample_world_def)
  have fails: "run_dispatch failing_entry v 0 = (Some ''locked'', v)" for v
    by (simp add: run_dispatch_def failing_entry_def)
  from failed_bootstrap_lost [OF new fails start, of hour] start show ?thesis
    by (auto simp: failing_entry_def sample_entry_def se_Operation_def)
qed

end
