(* ===== verification/Queue.thy ===== *)
theory Queue
  imports GoTime
begin

text \<open>
  Durable job queues. Six tables of the store (\<open>refresh_jobs\<close>, \<open>contribution_evidence_jobs\<close>,
  \<open>ancillary_author_jobs\<close>, \<open>pull_request_diff_jobs\<close>, \<open>analysis_jobs\<close>,
  \<open>correlation_jobs\<close>) share the columns \<open>id\<close>, \<open>status\<close>, \<open>scheduled_for\<close>, \<open>started_at\<close>
  and \<open>finished_at\<close>, a unique partial index on a key over the active rows, and the SQL statements
  that enqueue, claim, requeue, finish and recover jobs. Here are these statements on a table
  whose other columns are a payload \<open>'p\<close>, the invariant of such a table, its life cycle as a
  step relation, and the interface \<open>job_queue\<close> that the workers rely on.
\<close>

datatype job_status = Queued | Running | Completed

record 'p job_row =
  j_id :: nat
  j_status :: job_status
  j_scheduled_for :: string
  j_started_at :: "string option"
  j_finished_at :: "string option"
  j_payload :: 'p

text \<open>\<open>q_next\<close> is the next value of the \<open>AUTOINCREMENT\<close> id.\<close>

record 'p queue =
  q_jobs :: "'p job_row list"
  q_next :: nat

definition active :: "'p job_row \<Rightarrow> bool" where
  "active r \<longleftrightarrow> j_status r = Queued \<or> j_status r = Running"

section \<open>Statements\<close>

text \<open>
  \<open>INSERT OR IGNORE\<close> of a queued job: ignored when the partial unique index has an active row
  with the same key. The flag is \<open>RowsAffected() == 1\<close>.
\<close>

definition enqueue_job :: "('p \<Rightarrow> 'k) \<Rightarrow> 'p \<Rightarrow> time \<Rightarrow> 'p queue \<Rightarrow> bool \<times> 'p queue" where
  "enqueue_job key p scheduledFor q =
     (if list_ex (\<lambda>r. active r \<and> key (j_payload r) = key p) (q_jobs q) then (False, q)
      else (True, \<lparr> q_jobs = q_jobs q @ [\<lparr> j_id = q_next q, j_status = Queued,
              j_scheduled_for = formatTime scheduledFor, j_started_at = None, j_finished_at = None,
              j_payload = p \<rparr>], q_next = q_next q + 1 \<rparr>))"

definition is_claimable :: "time \<Rightarrow> 'p job_row \<Rightarrow> bool" where
  "is_claimable now r \<longleftrightarrow> j_status r = Queued \<and> j_scheduled_for r \<le> formatTime now"

text \<open>\<open>WHERE status = 'queued' AND scheduled_for <= now ORDER BY scheduled_for, id LIMIT 1\<close>.\<close>

definition select_due :: "time \<Rightarrow> 'p queue \<Rightarrow> 'p job_row option" where
  "select_due now q =
     (case sort_key j_scheduled_for (sort_key j_id (filter (is_claimable now) (q_jobs q))) of
        [] \<Rightarrow> None
      | r # _ \<Rightarrow> Some r)"

definition start_job :: "nat \<Rightarrow> time \<Rightarrow> 'p queue \<Rightarrow> 'p queue" where
  "start_job i now q =
     q\<lparr>q_jobs := update_where (\<lambda>r. j_id r = i \<and> j_status r = Queued)
        (\<lambda>r. r\<lparr>j_status := Running, j_started_at := Some (formatTime now)\<rparr>) (q_jobs q)\<rparr>"

text \<open>
  A claim in one transaction; it is rolled back when the stored schedule does not parse.
  \<open>Inr None\<close> means that no job is due.
\<close>

definition claim_job ::
  "(string \<Rightarrow> time option) \<Rightarrow> 'p queue \<Rightarrow> time \<Rightarrow> (string + ('p job_row \<times> time) option) \<times> 'p queue" where
  "claim_job parse q now =
     (case select_due now q of
        None \<Rightarrow> (Inr None, q)
      | Some r \<Rightarrow>
         (case parse (j_scheduled_for r) of
            None \<Rightarrow> (Inl (j_scheduled_for r), q)
          | Some t \<Rightarrow> (Inr (Some (r, t)), start_job (j_id r) now q)))"

text \<open>\<open>status = 'queued', started_at = NULL\<close> for a running job; fails when it is not running.\<close>

definition requeue_job :: "nat \<Rightarrow> time \<Rightarrow> 'p queue \<Rightarrow> bool \<times> 'p queue" where
  "requeue_job i scheduledFor q =
     (let p = (\<lambda>r. j_id r = i \<and> j_status r = Running) in
      if count_where p (q_jobs q) = 1
      then (True, q\<lparr>q_jobs := update_where p
        (\<lambda>r. r\<lparr>j_status := Queued, j_scheduled_for := formatTime scheduledFor, j_started_at := None\<rparr>)
        (q_jobs q)\<rparr>)
      else (False, q))"

definition finish_where :: "('p job_row \<Rightarrow> bool) \<Rightarrow> time \<Rightarrow> 'p queue \<Rightarrow> 'p queue" where
  "finish_where p completedAt q =
     q\<lparr>q_jobs := update_where p
        (\<lambda>r. r\<lparr>j_status := Completed, j_finished_at := Some (formatTime completedAt)\<rparr>) (q_jobs q)\<rparr>"

definition finish_job :: "nat \<Rightarrow> time \<Rightarrow> 'p queue \<Rightarrow> 'p queue" where
  "finish_job i completedAt q = finish_where (\<lambda>r. j_id r = i) completedAt q"

definition recover_jobs :: "'p queue \<Rightarrow> 'p queue" where
  "recover_jobs q =
     q\<lparr>q_jobs := update_where (\<lambda>r. j_status r = Running)
        (\<lambda>r. r\<lparr>j_status := Queued, j_started_at := None\<rparr>) (q_jobs q)\<rparr>"

section \<open>The invariant\<close>

text \<open>The primary key, the \<open>AUTOINCREMENT\<close> bound and the partial unique index.\<close>

definition queue_ok :: "('p \<Rightarrow> 'k) \<Rightarrow> 'p queue \<Rightarrow> bool" where
  "queue_ok key q \<longleftrightarrow>
     distinct (map j_id (q_jobs q)) \<and> (\<forall>r\<in>set (q_jobs q). j_id r < q_next q) \<and>
     distinct (map (key \<circ> j_payload) (filter active (q_jobs q)))"

lemma filter_update_where:
  "(\<And>r. p r \<Longrightarrow> q (f r) = q r) \<Longrightarrow> filter q (update_where p f t) = update_where p f (filter q t)"
  by (induction t) (auto simp: update_where_def)

lemma distinct_update_active:
  assumes "\<And>r. p r \<Longrightarrow> active (f r) \<Longrightarrow> active r" "\<And>r. p r \<Longrightarrow> key (j_payload (f r)) = key (j_payload r)"
    and "distinct (map (key \<circ> j_payload) (filter active t))"
  shows "distinct (map (key \<circ> j_payload) (filter active (update_where p f t)))"
proof -
  have sub: "(key \<circ> j_payload) ` set (filter active (update_where p f u)) \<subseteq>
      (key \<circ> j_payload) ` set (filter active u)" for u
    using assms(1,2) by (induction u) (auto simp: update_where_def split: if_splits)
  from assms(3) show ?thesis
  proof (induction t)
    case Nil
    then show ?case by (simp add: update_where_def)
  next
    case (Cons r t)
    have "update_where p f (r # t) = (if p r then f r else r) # update_where p f t"
      by (simp add: update_where_def)
    with Cons sub [of t] assms(1,2) show ?case by (auto split: if_splits)
  qed
qed

lemma queue_ok_update:
  assumes "queue_ok key q"
    and "\<And>r. p r \<Longrightarrow> j_id (f r) = j_id r \<and> key (j_payload (f r)) = key (j_payload r) \<and> (active (f r) \<longrightarrow> active r)"
  shows "queue_ok key (q\<lparr>q_jobs := update_where p f (q_jobs q)\<rparr>)"
proof -
  have "map j_id (update_where p f (q_jobs q)) = map j_id (q_jobs q)"
    using assms(2) by (intro map_update_where) blast
  moreover have "distinct (map (key \<circ> j_payload) (filter active (update_where p f (q_jobs q))))"
    using assms by (intro distinct_update_active) (auto simp: queue_ok_def)
  moreover have "\<forall>r\<in>set (update_where p f (q_jobs q)). j_id r < q_next q"
    using assms by (auto simp: set_update_where queue_ok_def)
  ultimately show ?thesis using assms(1) by (simp add: queue_ok_def)
qed

lemma enqueue_job_ok: "queue_ok key q \<Longrightarrow> queue_ok key (snd (enqueue_job key p t q))"
  by (auto simp: enqueue_job_def queue_ok_def active_def list_ex_iff split: if_splits)

lemma start_job_ok: "queue_ok key q \<Longrightarrow> queue_ok key (start_job i now q)"
  unfolding start_job_def by (rule queue_ok_update) (auto simp: active_def)

lemma claim_job_ok: "queue_ok key q \<Longrightarrow> queue_ok key (snd (claim_job parse q now))"
  by (auto simp: claim_job_def start_job_ok split: option.split)

lemma requeue_job_ok: "queue_ok key q \<Longrightarrow> queue_ok key (snd (requeue_job i t q))"
  by (auto simp: requeue_job_def Let_def active_def intro: queue_ok_update)

lemma finish_where_ok: "queue_ok key q \<Longrightarrow> queue_ok key (finish_where p t q)"
  unfolding finish_where_def by (rule queue_ok_update) (auto simp: active_def)

lemma finish_job_ok: "queue_ok key q \<Longrightarrow> queue_ok key (finish_job i t q)"
  unfolding finish_job_def by (rule finish_where_ok)

lemma recover_jobs_ok: "queue_ok key q \<Longrightarrow> queue_ok key (recover_jobs q)"
  unfolding recover_jobs_def by (rule queue_ok_update) (auto simp: active_def)

lemmas queue_preserves = enqueue_job_ok claim_job_ok requeue_job_ok finish_where_ok finish_job_ok
  recover_jobs_ok

section \<open>Claims\<close>

lemma sort_first:
  assumes "sort_key f (sort_key g xs) = r # rs"
  shows "r \<in> set xs \<and> (\<forall>x\<in>set xs. f r \<le> f x)"
proof -
  have "sorted (map f (r # rs))" unfolding assms [symmetric] by simp
  moreover have "set xs = set (r # rs)" using assms by (metis set_sort)
  ultimately show ?thesis by auto
qed

lemma select_due_Some:
  assumes "select_due now q = Some r"
  shows "r \<in> set (q_jobs q) \<and> is_claimable now r \<and>
    (\<forall>x\<in>set (q_jobs q). is_claimable now x \<longrightarrow> j_scheduled_for r \<le> j_scheduled_for x)"
proof -
  from assms obtain rs where
    "sort_key j_scheduled_for (sort_key j_id (filter (is_claimable now) (q_jobs q))) = r # rs"
    by (auto simp: select_due_def split: list.splits)
  from sort_first [OF this] show ?thesis by auto
qed

lemma select_due_None: "select_due now q = None \<longleftrightarrow> (\<forall>r\<in>set (q_jobs q). \<not> is_claimable now r)"
proof -
  have "sort_key j_scheduled_for (sort_key j_id (filter (is_claimable now) (q_jobs q))) = [] \<longleftrightarrow>
      filter (is_claimable now) (q_jobs q) = []" by (metis set_empty set_sort)
  then show ?thesis
    by (auto simp: select_due_def filter_empty_conv split: list.splits)
qed

definition job_status_of :: "'p queue \<Rightarrow> nat \<Rightarrow> job_status option" where
  "job_status_of q i = map_option j_status (find (\<lambda>r. j_id r = i) (q_jobs q))"

lemma find_update_where:
  "(\<And>r. p r \<Longrightarrow> j_id (f r) = j_id r) \<Longrightarrow>
     find (\<lambda>r. j_id r = i) (update_where p f t) =
     map_option (\<lambda>r. if p r then f r else r) (find (\<lambda>r. j_id r = i) t)"
  by (induction t) (auto simp: update_where_def)

lemma status_start_job:
  assumes "queue_ok key q" "r \<in> set (q_jobs q)" "j_status r = Queued"
  shows "job_status_of (start_job (j_id r) now q) = (job_status_of q)(j_id r \<mapsto> Running)"
proof
  fix i
  have f: "find (\<lambda>x. j_id x = j_id r) (q_jobs q) = Some r"
    using assms by (intro find_unique) (simp_all add: queue_ok_def)
  have "find (\<lambda>x. j_id x = i) (q_jobs (start_job (j_id r) now q)) =
      map_option (\<lambda>x. if j_id x = j_id r \<and> j_status x = Queued
        then x\<lparr>j_status := Running, j_started_at := Some (formatTime now)\<rparr> else x)
        (find (\<lambda>x. j_id x = i) (q_jobs q))"
    unfolding start_job_def by (simp add: find_update_where)
  then show "job_status_of (start_job (j_id r) now q) i = ((job_status_of q)(j_id r \<mapsto> Running)) i"
    using f assms(3) by (cases "find (\<lambda>x. j_id x = i) (q_jobs q)")
      (auto simp: job_status_of_def dest: find_SomeD)
qed

lemma status_finish_job:
  "job_status_of (finish_job i t q) =
     (if job_status_of q i = None then job_status_of q else (job_status_of q)(i \<mapsto> Completed))"
proof
  fix k
  have "find (\<lambda>x. j_id x = k) (q_jobs (finish_job i t q)) =
      map_option (\<lambda>x. if j_id x = i then x\<lparr>j_status := Completed, j_finished_at := Some (formatTime t)\<rparr>
        else x) (find (\<lambda>x. j_id x = k) (q_jobs q))"
    unfolding finish_job_def finish_where_def by (simp add: find_update_where)
  then show "job_status_of (finish_job i t q) k =
      (if job_status_of q i = None then job_status_of q else (job_status_of q)(i \<mapsto> Completed)) k"
    by (cases "find (\<lambda>x. j_id x = k) (q_jobs q)")
      (auto simp: job_status_of_def dest: find_SomeD)
qed

lemma status_recover_jobs:
  "job_status_of (recover_jobs q) i =
     map_option (\<lambda>s. if s = Running then Queued else s) (job_status_of q i)"
proof -
  have "find (\<lambda>x. j_id x = i) (q_jobs (recover_jobs q)) =
      map_option (\<lambda>x. if j_status x = Running then x\<lparr>j_status := Queued, j_started_at := None\<rparr> else x)
        (find (\<lambda>x. j_id x = i) (q_jobs q))"
    unfolding recover_jobs_def by (simp add: find_update_where)
  then show ?thesis
    by (cases "find (\<lambda>x. j_id x = i) (q_jobs q)") (auto simp: job_status_of_def)
qed

section \<open>The interface of the workers\<close>

text \<open>
  A worker claims jobs, finishes them, and recovers interrupted ones when it starts. \<open>claim\<close>
  answers the id of the claimed job; \<open>ok\<close> is the invariant of the provider.
\<close>

locale job_queue =
  fixes claim :: "'q \<Rightarrow> time \<Rightarrow> (string + nat option) \<times> 'q"
    and finish :: "'q \<Rightarrow> nat \<Rightarrow> time \<Rightarrow> 'q"
    and recover :: "'q \<Rightarrow> 'q"
    and status :: "'q \<Rightarrow> nat \<Rightarrow> job_status option"
    and ok :: "'q \<Rightarrow> bool"
  assumes claim_ok: "ok q \<Longrightarrow> ok (snd (claim q now))"
    and finish_ok: "ok q \<Longrightarrow> ok (finish q i now)"
    and recover_ok: "ok q \<Longrightarrow> ok (recover q)"
    and claim_Some: "ok q \<Longrightarrow> claim q now = (Inr (Some i), q') \<Longrightarrow>
      status q i = Some Queued \<and> status q' = (status q)(i \<mapsto> Running)"
    and claim_None: "claim q now = (Inr None, q') \<Longrightarrow> q' = q"
    and claim_error: "claim q now = (Inl e, q') \<Longrightarrow> q' = q"
    and finish_status: "ok q \<Longrightarrow> status (finish q i now) =
      (if status q i = None then status q else (status q)(i \<mapsto> Completed))"
    and recover_status: "ok q \<Longrightarrow> status (recover q) i =
      map_option (\<lambda>s. if s = Running then Queued else s) (status q i)"
begin

text \<open>The claim loop at the start of a worker's \<open>RunOnce\<close>: at most \<open>n\<close> jobs.\<close>

fun claim_many :: "nat \<Rightarrow> 'q \<Rightarrow> time \<Rightarrow> (string + nat list) \<times> 'q" where
  "claim_many 0 q now = (Inr [], q)"
| "claim_many (Suc n) q now =
     (case claim q now of
        (Inl e, q') \<Rightarrow> (Inl e, q')
      | (Inr None, q') \<Rightarrow> (Inr [], q')
      | (Inr (Some i), q') \<Rightarrow>
         (case claim_many n q' now of
            (Inl e, q'') \<Rightarrow> (Inl e, q'')
          | (Inr is, q'') \<Rightarrow> (Inr (i # is), q'')))"

text \<open>
  The jobs of one batch are distinct, were queued and are running afterwards; no other job
  changes its status.
\<close>

lemma claim_many_batch:
  "ok q \<Longrightarrow> claim_many n q now = (Inr is, q') \<Longrightarrow>
     ok q' \<and> length is \<le> n \<and> distinct is \<and> (\<forall>i\<in>set is. status q i = Some Queued) \<and>
     (\<forall>i. status q' i = (if i \<in> set is then Some Running else status q i))"
proof (induction n q now arbitrary: "is" q' rule: claim_many.induct)
  case (1 q now)
  then show ?case by simp
next
  case (2 n q now)
  show ?case
  proof (cases "claim q now")
    case (Pair r q1)
    show ?thesis
    proof (cases r)
      case (Inl e)
      with Pair 2 show ?thesis by simp
    next
      case (Inr o1)
      show ?thesis
      proof (cases o1)
        case None
        with Pair Inr 2 claim_None [of q now q1] show ?thesis by simp
      next
        case (Some i)
        note c = claim_Some [OF "2.prems"(1), of now i q1]
        have q1: "ok q1" using claim_ok [OF "2.prems"(1), of now] Pair by simp
        from "2.prems"(2) Pair Inr Some obtain js where
          m: "claim_many n q1 now = (Inr js, q')" and js: "is = i # js"
          by (auto split: prod.splits sum.splits)
        have "ok q' \<and> length js \<le> n \<and> distinct js \<and> (\<forall>i\<in>set js. status q1 i = Some Queued) \<and>
            (\<forall>i. status q' i = (if i \<in> set js then Some Running else status q1 i))"
          by (rule "2.IH" [OF Pair [symmetric] Inr Some q1 m])
        with c Pair Inr Some js show ?thesis by (auto split: if_splits)
      qed
    qed
  qed
qed

text \<open>A finished job is never claimed again, whatever is claimed, finished or recovered.\<close>

lemma completed_not_claimed:
  "ok q \<Longrightarrow> status q i = Some Completed \<Longrightarrow> claim q now \<noteq> (Inr (Some i), q')"
  using claim_Some [of q now i q'] by auto

lemma completed_stays:
  assumes "ok q" "status q i = Some Completed"
  shows "status (snd (claim q now)) i = Some Completed"
    and "status (finish q k now) i = Some Completed"
    and "status (recover q) i = Some Completed"
proof -
  obtain r q' where r: "claim q now = (r, q')" by (cases "claim q now")
  show "status (snd (claim q now)) i = Some Completed"
  proof (cases r)
    case (Inl e)
    with r assms claim_error [of q now e q'] show ?thesis by simp
  next
    case (Inr o1)
    with r assms claim_None [of q now q'] claim_Some [of q now _ q'] show ?thesis
      by (cases o1) force+
  qed
  show "status (finish q k now) i = Some Completed"
    using assms finish_status [of q k now] by simp
  show "status (recover q) i = Some Completed"
    using assms recover_status [of q i] by simp
qed

text \<open>After recovery no job is running, and every interrupted job can be claimed again.\<close>

lemma recover_requeues:
  "ok q \<Longrightarrow> status (recover q) i \<noteq> Some Running \<and>
     (status q i = Some Running \<longrightarrow> status (recover q) i = Some Queued)"
  using recover_status [of q i] by (cases "status q i") auto

end

section \<open>The generic table provides it\<close>

definition claim_id ::
  "(string \<Rightarrow> time option) \<Rightarrow> 'p queue \<Rightarrow> time \<Rightarrow> (string + nat option) \<times> 'p queue" where
  "claim_id parse q now =
     (case claim_job parse q now of
        (Inl e, q') \<Rightarrow> (Inl e, q')
      | (Inr None, q') \<Rightarrow> (Inr None, q')
      | (Inr (Some (r, _)), q') \<Rightarrow> (Inr (Some (j_id r)), q'))"

lemma claim_id_Some:
  assumes "queue_ok key q" "claim_id parse q now = (Inr (Some i), q')"
  shows "job_status_of q i = Some Queued \<and> job_status_of q' = (job_status_of q)(i \<mapsto> Running)"
proof -
  from assms(2) obtain r where r: "select_due now q = Some r" "i = j_id r" "q' = start_job (j_id r) now q"
    by (auto simp: claim_id_def claim_job_def split: option.splits sum.splits prod.splits)
  from select_due_Some [OF r(1)] have m: "r \<in> set (q_jobs q)" "j_status r = Queued"
    by (simp_all add: is_claimable_def)
  have "find (\<lambda>x. j_id x = j_id r) (q_jobs q) = Some r"
    using assms(1) m by (intro find_unique) (simp_all add: queue_ok_def)
  with m r status_start_job [OF assms(1) m] show ?thesis by (simp add: job_status_of_def)
qed

interpretation table: job_queue "claim_id parse" "\<lambda>q i t. finish_job i t q" recover_jobs job_status_of
  "queue_ok key" for parse and key :: "'p \<Rightarrow> 'k"
proof
  fix q :: "'p queue" and q' :: "'p queue" and now i e
  show "queue_ok key q \<Longrightarrow> queue_ok key (snd (claim_id parse q now))"
    using claim_job_ok [of key q parse now]
    by (auto simp: claim_id_def split: prod.splits sum.splits option.splits)
  show "queue_ok key q \<Longrightarrow> queue_ok key (finish_job i now q)" by (rule finish_job_ok)
  show "queue_ok key q \<Longrightarrow> queue_ok key (recover_jobs q)" by (rule recover_jobs_ok)
  show "queue_ok key q \<Longrightarrow> claim_id parse q now = (Inr (Some i), q') \<Longrightarrow>
      job_status_of q i = Some Queued \<and> job_status_of q' = (job_status_of q)(i \<mapsto> Running)"
    by (rule claim_id_Some)
  show "claim_id parse q now = (Inr None, q') \<Longrightarrow> q' = q"
    by (auto simp: claim_id_def claim_job_def split: option.splits)
  show "claim_id parse q now = (Inl e, q') \<Longrightarrow> q' = q"
    by (auto simp: claim_id_def claim_job_def split: option.splits)
  show "queue_ok key q \<Longrightarrow> job_status_of (finish_job i now q) =
      (if job_status_of q i = None then job_status_of q else (job_status_of q)(i \<mapsto> Completed))"
    by (rule status_finish_job)
  show "queue_ok key q \<Longrightarrow> job_status_of (recover_jobs q) i =
      map_option (\<lambda>s. if s = Running then Queued else s) (job_status_of q i)"
    by (rule status_recover_jobs)
qed

end
