(* ===== verification/GoRegexp.thy ===== *)
theory GoRegexp
  imports GoStrings
begin

text \<open>
  The part of Go's \<open>regexp\<close> package the code base uses: character classes, sequences,
  alternatives, greedy repetition, ASCII word boundaries, the end of the text and case
  folding of literals. A match is leftmost and, among the matches that start there, the one a
  backtracking search finds first, which is what \<open>regexp\<close> documents. Subjects are byte
  strings: every class used contains all or none of the bytes of non-ASCII runes, so matching
  byte by byte and rune by rune agree.
\<close>

datatype re =
    Cls "char \<Rightarrow> bool"
  | Eps
  | Seq re re
  | Alt re re
  | Star re
  | WordBoundary
  | EndText

definition word_byte :: "char \<Rightarrow> bool" where
  "word_byte c \<longleftrightarrow> 48 \<le> byte c \<and> byte c \<le> 57 \<or> 65 \<le> byte c \<and> byte c \<le> 90 \<or>
     97 \<le> byte c \<and> byte c \<le> 122 \<or> byte c = 95"

text \<open>\<open>at_boundary p s\<close>: \<open>p\<close> is the byte before the position, \<open>s\<close> the rest of the subject.\<close>

definition at_boundary :: "char option \<Rightarrow> string \<Rightarrow> bool" where
  "at_boundary p s \<longleftrightarrow>
     (case p of None \<Rightarrow> False | Some c \<Rightarrow> word_byte c) \<noteq>
     (case s of [] \<Rightarrow> False | c # _ \<Rightarrow> word_byte c)"

text \<open>A position: the byte before it and the rest of the subject.\<close>

type_synonym pos = "char option \<times> string"

text \<open>
  Greedy repetition of \<open>f\<close>; an iteration that consumes nothing is not repeated. \<open>n\<close>
  bounds the iterations; the length of the subject is enough (\<open>star_fuel\<close>).
\<close>

fun star_ends :: "nat \<Rightarrow> (pos \<Rightarrow> pos list) \<Rightarrow> pos \<Rightarrow> pos list" where
  "star_ends 0 f q = [q]"
| "star_ends (Suc n) f q =
     concat (map (\<lambda>m. if length (snd m) < length (snd q) then star_ends n f m else []) (f q)) @ [q]"

text \<open>
  The positions at which a match starting here may end, in the order in which backtracking
  tries them.
\<close>

primrec ends :: "re \<Rightarrow> pos \<Rightarrow> pos list" where
  "ends (Cls C) q = (case snd q of [] \<Rightarrow> [] | c # t \<Rightarrow> if C c then [(Some c, t)] else [])"
| "ends Eps q = [q]"
| "ends (Seq a b) q = concat (map (ends b) (ends a q))"
| "ends (Alt a b) q = ends a q @ ends b q"
| "ends (Star a) q = star_ends (length (snd q)) (ends a) q"
| "ends WordBoundary q = (if at_boundary (fst q) (snd q) then [q] else [])"
| "ends EndText q = (if snd q = [] then [q] else [])"

text \<open>More fuel than bytes changes nothing, so a star is its unbounded unfolding.\<close>

lemma star_fuel:
  "length (snd q) \<le> n \<Longrightarrow> star_ends n f q = star_ends (length (snd q)) f q"
proof (induction n arbitrary: q rule: less_induct)
  case (less n)
  have step: "star_ends k f m = star_ends (length (snd m)) f m"
    if "k < n" "length (snd m) \<le> k" for k m
    using less.IH that by blast
  show ?case
  proof (cases n)
    case 0
    with less.prems show ?thesis by simp
  next
    case (Suc k)
    show ?thesis
    proof (cases "snd q")
      case Nil
      with Suc show ?thesis by (simp add: concat_eq_Nil_conv)
    next
      case (Cons c t)
      have "star_ends k f m = star_ends (length t) f m" if "length (snd m) < length (snd q)" for m
        using that step [of k m] step [of "length t" m] less.prems Suc Cons by simp
      then have "map (\<lambda>m. if length (snd m) < length (snd q) then star_ends k f m else []) (f q) =
          map (\<lambda>m. if length (snd m) < length (snd q) then star_ends (length t) f m else []) (f q)"
        by (intro map_cong) simp_all
      then show ?thesis by (simp only: Suc Cons length_Cons star_ends.simps)
    qed
  qed
qed

lemma ends_Star:
  "ends (Star a) q =
     concat (map (\<lambda>m. if length (snd m) < length (snd q) then ends (Star a) m else []) (ends a q)) @ [q]"
proof -
  have "ends (Star a) q = star_ends (Suc (length (snd q))) (ends a) q"
    using star_fuel [of q "Suc (length (snd q))" "ends a"] by (simp del: star_ends.simps)
  moreover have "(if length (snd m) < length (snd q) then star_ends (length (snd q)) (ends a) m else []) =
      (if length (snd m) < length (snd q) then ends (Star a) m else [])" for m
    using star_fuel [of m "length (snd q)" "ends a"] by simp
  ultimately show ?thesis by simp
qed

lemma star_ends_length:
  "(\<And>m k. k \<in> set (f m) \<Longrightarrow> length (snd k) \<le> length (snd m)) \<Longrightarrow>
     e \<in> set (star_ends n f q) \<Longrightarrow> length (snd e) \<le> length (snd q)"
proof (induction n arbitrary: q)
  case 0
  then show ?case by simp
next
  case (Suc n)
  from Suc.prems(2) consider "e = q" |
      m where "length (snd m) < length (snd q)" "e \<in> set (star_ends n f m)"
    by (auto split: if_splits)
  then show ?case
  proof cases
    case 1
    then show ?thesis by simp
  next
    case (2 m)
    with Suc.IH [OF Suc.prems(1), of m] show ?thesis by simp
  qed
qed

lemma ends_length: "e \<in> set (ends r q) \<Longrightarrow> length (snd e) \<le> length (snd q)"
proof (induction r arbitrary: q e)
  case (Cls C)
  then show ?case by (cases "snd q") (simp_all split: if_splits)
next
  case (Seq a b)
  from Seq.prems obtain m where "m \<in> set (ends a q)" "e \<in> set (ends b m)" by auto
  with Seq.IH show ?case by (meson le_trans)
next
  case (Star a)
  then show ?case using star_ends_length [of "ends a" e] by simp
qed (auto split: if_splits)

section \<open>Patterns\<close>

definition Plus :: "re \<Rightarrow> re" where
  "Plus r = Seq r (Star r)"

text \<open>\<open>r{1,n}\<close> is \<open>r\<close> followed by up to \<open>n - 1\<close> more.\<close>

fun up_to :: "nat \<Rightarrow> re \<Rightarrow> re" where
  "up_to 0 r = Eps"
| "up_to (Suc n) r = Alt (Seq r (up_to n r)) Eps"

fun Seqs :: "re list \<Rightarrow> re" where
  "Seqs [] = Eps"
| "Seqs [r] = r"
| "Seqs (r # rs) = Seq r (Seqs rs)"

fun Alts :: "re list \<Rightarrow> re" where
  "Alts [] = Cls (\<lambda>_. False)"
| "Alts [r] = r"
| "Alts (r # rs) = Alt r (Alts rs)"

definition Lit :: "string \<Rightarrow> re" where
  "Lit w = Seqs (map (\<lambda>c. Cls (\<lambda>d. d = c)) w)"

text \<open>
  \<open>(?i)\<close>: the simple case foldings of a letter include U+017F for \<open>s\<close> (its UTF-8 form is
  the bytes C5 BF) and U+212A for \<open>k\<close> (E2 84 AA).
\<close>

definition exact :: "nat \<Rightarrow> re" where
  "exact n = Cls (\<lambda>d. byte d = n)"

definition fold_byte :: "char \<Rightarrow> re" where
  "fold_byte c =
     (let r = Cls (\<lambda>d. lower_byte d = lower_byte c) in
      if lower_byte c = CHR ''s'' then Alt r (Seq (exact 0xC5) (exact 0xBF))
      else if lower_byte c = CHR ''k'' then Alt r (Seqs [exact 0xE2, exact 0x84, exact 0xAA])
      else r)"

definition FoldLit :: "string \<Rightarrow> re" where
  "FoldLit w = Seqs (map fold_byte w)"

definition any_char :: re where
  "any_char = Cls (\<lambda>c. byte c \<noteq> 10)"

definition space_byte :: "char \<Rightarrow> bool" where
  "space_byte c \<longleftrightarrow> byte c \<in> {9, 10, 12, 13, 32}"

section \<open>Searching\<close>

fun match_from :: "re \<Rightarrow> char option \<Rightarrow> string \<Rightarrow> bool" where
  "match_from r p [] = (ends r (p, []) \<noteq> [])"
| "match_from r p (c # s) = (ends r (p, c # s) \<noteq> [] \<or> match_from r (Some c) s)"

definition MatchString :: "re \<Rightarrow> string \<Rightarrow> bool" where
  "MatchString r s = match_from r None s"

text \<open>
  The subject cut into unmatched bytes and successive non-overlapping matches, for patterns
  that match no empty string.
\<close>

function segments :: "re \<Rightarrow> char option \<Rightarrow> string \<Rightarrow> (char + string) list" where
  "segments r p s =
     (case s of
        [] \<Rightarrow> []
      | c # t \<Rightarrow>
         (case ends r (p, s) of
            (q, u) # _ \<Rightarrow>
              if length u < length s
              then Inr (take (length s - length u) s) # segments r q u
              else Inl c # segments r (Some c) t
          | [] \<Rightarrow> Inl c # segments r (Some c) t))"
  by pat_completeness auto
termination
  by (relation "measure (\<lambda>(r, p, s). length s)") auto

declare segments.simps [simp del]

definition FindAllString :: "re \<Rightarrow> string \<Rightarrow> string list" where
  "FindAllString r s = concat (map (case_sum (\<lambda>c. []) (\<lambda>m. [m])) (segments r None s))"

definition ReplaceAllString :: "re \<Rightarrow> string \<Rightarrow> string \<Rightarrow> string" where
  "ReplaceAllString r s repl = concat (map (case_sum (\<lambda>c. [c]) (\<lambda>m. repl)) (segments r None s))"

section \<open>Runes and bytes\<close>

definition bytes :: "nat list \<Rightarrow> string" where
  "bytes ns = map char_of ns"

text \<open>
  \<open>[]rune(s)\<close>, each rune as the bytes it is encoded with again; an ill-formed byte becomes
  U+FFFD.
\<close>

function runes :: "string \<Rightarrow> string list" where
  "runes s =
     (if s = [] then []
      else (if snd (decode_size s) then take (fst (decode_size s)) s else bytes [0xEF, 0xBF, 0xBD]) #
           runes (drop (fst (decode_size s)) s))"
  by pat_completeness auto
termination
proof (relation "measure length", goal_cases)
  case 1
  show ?case by simp
next
  case (2 s)
  then show ?case using decode_size_pos [of s] by simp
qed

declare runes.simps [simp del]

lemma length_runes: "length (runes s) = RuneCount s"
  unfolding RuneCount_def
proof (induction s rule: runes.induct)
  case (1 s)
  show ?case
  proof (cases "s = []")
    case True
    then show ?thesis by (simp add: runes.simps)
  next
    case False
    with 1 show ?thesis by (simp add: runes.simps [of s] rune_sizes.simps [of s])
  qed
qed

end
