(* ===== verification/Quality.thy ===== *)
theory Quality
  imports GoRegexp Config
begin

text \<open>
  \<open>quality/quality.go\<close>: the deterministic quality rules. \<open>Assess\<close> compares the file
  references of a description with the changed files, measures the breadth of additions, and
  quotes explicit statements of AI assistance; \<open>Level\<close> derives the display level. Level,
  severity and rule names are strings as in the code, since stored and model findings pass
  through the same functions. \<open>U\<close> is Unicode lower-casing of non-ASCII strings.
\<close>

section \<open>Types\<close>

record changed_file =
  f_Path :: string
  f_Additions :: int
  f_Deletions :: int

record input =
  i_Repository :: string
  i_Number :: int
  i_Title :: string
  i_Description :: string
  i_URL :: string
  i_Additions :: int
  i_Deletions :: int
  i_ChangedFileCount :: int
  i_Files :: "changed_file list"

record threshold =
  t_Value :: int
  t_Source :: string

record mismatch_policy =
  mp_MinReferences :: threshold
  mp_StrongMismatchMinReferences :: threshold

record broad_policy =
  bp_MinFiles :: threshold
  bp_MinAdditions :: threshold
  bp_MaxDeletions :: threshold

record policy =
  pol_Mismatch :: mismatch_policy
  pol_Broad :: broad_policy

record evidence =
  ev_Kind :: string
  ev_Detail :: string
  ev_URL :: string

record finding =
  fi_Rule :: string
  fi_Severity :: string
  fi_Provenance :: string
  fi_Summary :: string
  fi_Evidence :: "evidence list"
  fi_Completeness :: string
  fi_Confidence :: string
  fi_SourceIDs :: "string list"

record unevaluated_rule =
  un_Rule :: string
  un_Provenance :: string
  un_Completeness :: string
  un_Reason :: string

record disclosure =
  di_Statement :: string
  di_URL :: string

record assessment =
  as_Level :: string
  as_Findings :: "finding list"
  as_Unevaluated :: "unevaluated_rule list"
  as_AIDisclosures :: "disclosure list"
  as_Policy :: policy

section \<open>Policies\<close>

definition default_threshold :: "int \<Rightarrow> threshold" where
  "default_threshold v = \<lparr>t_Value = v, t_Source = ''default''\<rparr>"

definition DefaultPolicy :: policy where
  "DefaultPolicy =
     \<lparr> pol_Mismatch = \<lparr> mp_MinReferences = default_threshold 1,
         mp_StrongMismatchMinReferences = default_threshold 3 \<rparr>,
       pol_Broad = \<lparr> bp_MinFiles = default_threshold 10, bp_MinAdditions = default_threshold 400,
         bp_MaxDeletions = default_threshold 10 \<rparr> \<rparr>"

definition applyOverride :: "threshold \<Rightarrow> int option \<Rightarrow> threshold" where
  "applyOverride t v = (case v of None \<Rightarrow> t | Some n \<Rightarrow> \<lparr>t_Value = n, t_Source = ''local''\<rparr>)"

definition PolicyFromConfig :: "quality_config option \<Rightarrow> policy" where
  "PolicyFromConfig configured =
     (case configured of
        None \<Rightarrow> DefaultPolicy
      | Some q \<Rightarrow>
         (let m = (case q_DescriptionDiffMismatch q of
                None \<Rightarrow> pol_Mismatch DefaultPolicy
              | Some o1 \<Rightarrow>
                 \<lparr> mp_MinReferences = applyOverride (mp_MinReferences (pol_Mismatch DefaultPolicy)) (dd_MinReferences o1),
                   mp_StrongMismatchMinReferences = applyOverride
                     (mp_StrongMismatchMinReferences (pol_Mismatch DefaultPolicy))
                     (dd_StrongMismatchMinReferences o1) \<rparr>);
              b = (case q_BroadAdditionsOnly q of
                None \<Rightarrow> pol_Broad DefaultPolicy
              | Some o2 \<Rightarrow>
                 \<lparr> bp_MinFiles = applyOverride (bp_MinFiles (pol_Broad DefaultPolicy)) (ba_MinFiles o2),
                   bp_MinAdditions = applyOverride (bp_MinAdditions (pol_Broad DefaultPolicy)) (ba_MinAdditions o2),
                   bp_MaxDeletions = applyOverride (bp_MaxDeletions (pol_Broad DefaultPolicy)) (ba_MaxDeletions o2) \<rparr>);
              strong = mp_StrongMismatchMinReferences m;
              least = t_Value (mp_MinReferences m)
          in \<lparr> pol_Mismatch = (if t_Value strong < least
                 then m\<lparr>mp_StrongMismatchMinReferences := strong\<lparr>t_Value := least\<rparr>\<rparr> else m),
               pol_Broad = b \<rparr>))"

section \<open>The display level\<close>

text \<open>The loop of \<open>Level\<close> with its variables \<open>lowCount\<close> and \<open>level\<close>.\<close>

fun level_loop :: "nat \<Rightarrow> string \<Rightarrow> finding list \<Rightarrow> string" where
  "level_loop lowCount level [] = (if 2 \<le> lowCount then ''review_suggested'' else level)"
| "level_loop lowCount level (f # fs) =
     (if fi_Severity f = ''high'' then ''strong_concerns''
      else if fi_Severity f = ''medium'' then level_loop lowCount ''review_suggested'' fs
      else if fi_Severity f = ''low'' then level_loop (lowCount + 1) level fs
      else level_loop lowCount level fs)"

definition Level :: "finding list \<Rightarrow> string" where
  "Level findings = level_loop 0 ''no_concerns'' findings"

section \<open>File references of a description\<close>

definition alnum_byte :: "char \<Rightarrow> bool" where
  "alnum_byte c \<longleftrightarrow> word_byte c \<and> byte c \<noteq> 95"

definition path_byte :: "char \<Rightarrow> bool" where
  "path_byte c \<longleftrightarrow> word_byte c \<or> c = CHR ''.'' \<or> c = CHR ''-''"

definition slash :: char where
  "slash = CHR ''/''"

definition urlPattern :: re where
  "urlPattern = Seqs [Lit ''http'', Alt (Lit ''s'') Eps, Lit ''://'',
     Plus (Cls (\<lambda>c. \<not> space_byte c \<and> byte c \<notin> {60, 62, 34, 39}))]"

definition pathReferencePattern :: re where
  "pathReferencePattern =
     Seq (Plus (Cls path_byte)) (Plus (Seq (Cls (\<lambda>c. c = slash)) (Plus (Cls path_byte))))"

definition backtickPattern :: re where
  "backtickPattern =
     Seqs [exact 96, Plus (Cls (\<lambda>c. byte c \<noteq> 96 \<and> \<not> space_byte c)), exact 96]"

definition fileExtensionPattern :: re where
  "fileExtensionPattern =
     Seqs [Lit ''.'', Seq (Cls alnum_byte) (up_to 9 (Cls alnum_byte)), EndText]"

text \<open>\<open>strings.Trim\<close> with an ASCII cut set.\<close>

definition Trim :: "string \<Rightarrow> nat list \<Rightarrow> string" where
  "Trim s cutset = rev (dropWhile (\<lambda>c. byte c \<in> set cutset) (rev (dropWhile (\<lambda>c. byte c \<in> set cutset) s)))"

text \<open>The bytes of the cut set: a full stop, a comma, quotes and closing brackets.\<close>

definition reference_cutset :: "nat list" where
  "reference_cutset = [46, 44, 59, 58, 33, 63, 41, 93, 125, 40, 39, 34]"

text \<open>The closure \<open>add\<close>: \<open>seen\<close> holds the lower-cased candidates kept so far.\<close>

fun add_references :: "(string \<Rightarrow> string) \<Rightarrow> string list \<Rightarrow> string list \<Rightarrow> string list" where
  "add_references U seen [] = []"
| "add_references U seen (c # cs) =
     (let candidate = Trim c reference_cutset; key = ToLower U candidate in
      if candidate = [] \<or> \<not> MatchString fileExtensionPattern candidate \<or> key \<in> set seen
      then add_references U seen cs
      else candidate # add_references U (key # seen) cs)"

definition extractFileReferences :: "(string \<Rightarrow> string) \<Rightarrow> string \<Rightarrow> string list" where
  "extractFileReferences U description =
     (let withoutURLs = ReplaceAllString urlPattern description '' '' in
      sort (add_references U []
        (FindAllString pathReferencePattern withoutURLs @
         map (\<lambda>m. butlast (tl m)) (FindAllString backtickPattern withoutURLs))))"

text \<open>\<open>path.Base\<close>.\<close>

definition Base :: "string \<Rightarrow> string" where
  "Base p =
     (if p = [] then ''.''
      else (let q = rev (dropWhile (\<lambda>c. c = slash) (rev p));
                r = rev (takeWhile (\<lambda>c. c \<noteq> slash) (rev q))
            in if r = [] then [slash] else r))"

definition referenceMatchesDiff :: "(string \<Rightarrow> string) \<Rightarrow> string \<Rightarrow> changed_file list \<Rightarrow> bool" where
  "referenceMatchesDiff U reference changed =
     (let normalized = ToLower U (TrimPrefix reference ''./'') in
      list_ex (\<lambda>file. let filePath = ToLower U (f_Path file) in
        filePath = normalized \<or> HasSuffix filePath (slash # normalized) \<or>
        HasSuffix normalized (slash # filePath) \<or>
        slash \<notin> set normalized \<and> Base filePath = normalized) changed)"

section \<open>The rules\<close>

definition filesURL :: "string \<Rightarrow> string" where
  "filesURL prURL = (if prURL = [] then [] else prURL @ ''/files'')"

definition rule_finding ::
  "string \<Rightarrow> string \<Rightarrow> string \<Rightarrow> evidence list \<Rightarrow> string \<Rightarrow> finding" where
  "rule_finding rule severity summary evs completeness =
     \<lparr> fi_Rule = rule, fi_Severity = severity, fi_Provenance = ''rule_derived'', fi_Summary = summary,
       fi_Evidence = evs, fi_Completeness = completeness, fi_Confidence = [], fi_SourceIDs = [] \<rparr>"

definition unevaluated :: "string \<Rightarrow> string \<Rightarrow> unevaluated_rule" where
  "unevaluated rule reason =
     \<lparr> un_Rule = rule, un_Provenance = ''rule_derived'', un_Completeness = ''partial'', un_Reason = reason \<rparr>"

text \<open>A rule answers a finding, a reason why it could not run, or nothing.\<close>

definition assessMismatch ::
  "(string \<Rightarrow> string) \<Rightarrow> input \<Rightarrow> mismatch_policy \<Rightarrow> finding option \<times> unevaluated_rule option" where
  "assessMismatch U i p =
     (let references = extractFileReferences U (i_Description i) in
      if references = [] then (None, None)
      else if i_Files i = [] then (None, Some (unevaluated ''description_diff_mismatch''
        ''The changed file list was not collected, so description references could not be compared with the diff.''))
      else
       (let unmatched = filter (\<lambda>r. \<not> referenceMatchesDiff U r (i_Files i)) references in
        if length unmatched \<noteq> length references \<or> int (length references) < t_Value (mp_MinReferences p)
        then (None, None)
        else (Some (rule_finding ''description_diff_mismatch''
          (if t_Value (mp_StrongMismatchMinReferences p) \<le> int (length references) then ''high'' else ''medium'')
          (''The description references '' @ Itoa (int (length references)) @
             '' file(s); none of them appear in the diff.'')
          (map (\<lambda>r. \<lparr> ev_Kind = ''description_reference'',
               ev_Detail = ''The description references '' @ r @ '', which is not part of the diff.'',
               ev_URL = i_URL i \<rparr>) unmatched @
           [\<lparr> ev_Kind = ''changed_files'',
              ev_Detail = Itoa (int (length (i_Files i))) @ '' changed files were collected for comparison.'',
              ev_URL = filesURL (i_URL i) \<rparr>])
          (if int (length (i_Files i)) < i_ChangedFileCount i then ''partial'' else ''complete'')), None)))"

definition assessBroadAdditions ::
  "input \<Rightarrow> broad_policy \<Rightarrow> finding option \<times> unevaluated_rule option" where
  "assessBroadAdditions i p =
     (let additions = i_Additions i; deletions = i_Deletions i;
          fileCount = (if i_ChangedFileCount i = 0 then int (length (i_Files i)) else i_ChangedFileCount i) in
      if fileCount = 0 then
        (if additions = 0 \<and> deletions = 0 then (None, None)
         else (None, Some (unevaluated ''broad_additions_only''
           ''The changed file count was not collected, so change breadth could not be measured.'')))
      else if fileCount < t_Value (bp_MinFiles p) \<or> additions < t_Value (bp_MinAdditions p) \<or>
              t_Value (bp_MaxDeletions p) < deletions
      then (None, None)
      else (Some (rule_finding ''broad_additions_only'' ''medium''
        (''Unusually broad additions-only change: +'' @ Itoa additions @ '' lines across '' @
           Itoa fileCount @ '' files with only '' @ Itoa deletions @ '' deletions.'')
        [\<lparr> ev_Kind = ''measured_churn'',
           ev_Detail = CHR ''+'' # Itoa additions @ slash # bytes [0xE2, 0x88, 0x92] @ Itoa deletions @
             '' across '' @ Itoa fileCount @ '' files (raw provider totals).'',
           ev_URL = filesURL (i_URL i) \<rparr>,
         \<lparr> ev_Kind = ''policy_threshold'',
           ev_Detail = ''Policy flags at least '' @ Itoa (t_Value (bp_MinFiles p)) @ '' files, at least '' @
             Itoa (t_Value (bp_MinAdditions p)) @ '' additions, and at most '' @
             Itoa (t_Value (bp_MaxDeletions p)) @ '' deletions.'',
           ev_URL = [] \<rparr>]
        ''complete''), None))"

section \<open>Disclosures\<close>

definition assistants :: "string list" where
  "assistants = [''codex'', ''gemini'', ''cursor'', ''devin'', ''aider'']"

definition disclosurePatterns :: "re list" where
  "disclosurePatterns =
     [Seqs [FoldLit ''co-authored-by:'', Star any_char, WordBoundary,
        Alts (map FoldLit ([''copilot'', ''claude'', ''chatgpt''] @ assistants)), WordBoundary],
      Seqs [WordBoundary,
        Alts (map FoldLit [''generated'', ''written'', ''created'', ''authored'', ''drafted'']),
        Plus (Cls space_byte), Alts (map FoldLit [''with'', ''by'', ''using'']), WordBoundary,
        Star any_char, WordBoundary,
        Alts (map FoldLit ([''copilot'', ''claude'', ''chatgpt'', ''gpt''] @ assistants @ [''ai''])), WordBoundary],
      Seqs [WordBoundary, FoldLit ''ai'', Cls (\<lambda>c. space_byte c \<or> c = CHR ''-''),
        FoldLit ''assisted'', WordBoundary]]"

definition truncateRunes :: "string \<Rightarrow> nat \<Rightarrow> string" where
  "truncateRunes value limit =
     (let rs = runes value in
      if length rs \<le> limit then value
      else concat (take (limit - 1) rs) @ bytes [0xE2, 0x80, 0xA6])"

fun disclosure_loop :: "string \<Rightarrow> string list \<Rightarrow> string list \<Rightarrow> disclosure list" where
  "disclosure_loop url seen [] = []"
| "disclosure_loop url seen (line # ls) =
     (let trimmed = TrimSpace line; statement = truncateRunes trimmed 200 in
      if trimmed \<noteq> [] \<and> list_ex (\<lambda>r. MatchString r trimmed) disclosurePatterns \<and> statement \<notin> set seen
      then \<lparr>di_Statement = statement, di_URL = url\<rparr> # disclosure_loop url (statement # seen) ls
      else disclosure_loop url seen ls)"

definition findDisclosures :: "input \<Rightarrow> disclosure list" where
  "findDisclosures i = disclosure_loop (i_URL i) [] (Split (i_Description i) (CHR 0x0A))"

section \<open>The assessment\<close>

definition add_rule ::
  "finding option \<times> unevaluated_rule option \<Rightarrow> finding list \<times> unevaluated_rule list \<Rightarrow>
     finding list \<times> unevaluated_rule list" where
  "add_rule r acc =
     (case snd r of
        Some u \<Rightarrow> (fst acc, snd acc @ [u])
      | None \<Rightarrow> (case fst r of Some f \<Rightarrow> (fst acc @ [f], snd acc) | None \<Rightarrow> acc))"

definition Assess :: "(string \<Rightarrow> string) \<Rightarrow> input \<Rightarrow> policy \<Rightarrow> assessment" where
  "Assess U i p =
     (let (fs, us) = add_rule (assessBroadAdditions i (pol_Broad p))
                      (add_rule (assessMismatch U i (pol_Mismatch p)) ([], []))
      in \<lparr> as_Level = Level fs, as_Findings = fs, as_Unevaluated = us,
           as_AIDisclosures = findDisclosures i, as_Policy = p \<rparr>)"

end
