(* ===== verification/QualityFacts.thy ===== *)
theory QualityFacts
  imports Quality ConfigFacts
begin

text \<open>
  What the quality rules promise: the level depends on the severities only, strong concerns
  have one possible cause, assessments are well formed, and the thresholds that a validated
  configuration gives are usable.
\<close>

section \<open>The level\<close>

lemma level_loop_counts:
  "level_loop low lvl fs =
     (let n = (\<lambda>s. count (mset (map fi_Severity fs)) s) in
      if 0 < n ''high'' then ''strong_concerns''
      else if 2 \<le> low + n ''low'' then ''review_suggested''
      else if 0 < n ''medium'' then ''review_suggested'' else lvl)"
proof (induction low lvl fs rule: level_loop.induct)
  case (1 low lvl)
  show ?case by (simp add: Let_def)
next
  case (2 low lvl f fs)
  consider "fi_Severity f = ''high''" | "fi_Severity f = ''medium''" | "fi_Severity f = ''low''"
    | "fi_Severity f \<noteq> ''high''" "fi_Severity f \<noteq> ''medium''" "fi_Severity f \<noteq> ''low''" by blast
  then show ?case
    by cases (use "2.IH" in \<open>simp_all add: Let_def\<close>)
qed

text \<open>
  The display level is a function of how many findings have each severity: a high one
  makes strong concerns, a medium one or two low ones a suggested review, and neither the
  order of the findings nor any unknown severity matters, although the loop of \<open>Level\<close>
  returns early.
\<close>

theorem Level_counts:
  "Level fs =
     (let n = (\<lambda>s. count (mset (map fi_Severity fs)) s) in
      if 0 < n ''high'' then ''strong_concerns''
      else if 2 \<le> n ''low'' \<or> 0 < n ''medium'' then ''review_suggested'' else ''no_concerns'')"
  by (simp add: Level_def level_loop_counts Let_def)

section \<open>Strong concerns\<close>

definition unmatched_references :: "(string \<Rightarrow> string) \<Rightarrow> input \<Rightarrow> bool" where
  "unmatched_references U i \<longleftrightarrow>
     extractFileReferences U (i_Description i) \<noteq> [] \<and> i_Files i \<noteq> [] \<and>
     (\<forall>r\<in>set (extractFileReferences U (i_Description i)). \<not> referenceMatchesDiff U r (i_Files i))"

lemma filter_all_length: "length (filter P xs) = length xs \<longleftrightarrow> (\<forall>x\<in>set xs. P x)"
  using length_filter_less by (metis filter_True less_irrefl)

lemma broad_severity:
  "fst (assessBroadAdditions i p) = Some f \<Longrightarrow>
     fi_Severity f = ''medium'' \<and> fi_Rule f = ''broad_additions_only'' \<and> fi_Evidence f \<noteq> []"
  by (auto simp: assessBroadAdditions_def rule_finding_def Let_def split: if_splits)

lemma mismatch_severity:
  "fst (assessMismatch U i p) = Some f \<Longrightarrow>
     unmatched_references U i \<and>
     t_Value (mp_MinReferences p) \<le> int (length (extractFileReferences U (i_Description i))) \<and>
     fi_Rule f = ''description_diff_mismatch'' \<and> fi_Evidence f \<noteq> [] \<and>
     fi_Severity f = (if t_Value (mp_StrongMismatchMinReferences p) \<le>
       int (length (extractFileReferences U (i_Description i))) then ''high'' else ''medium'')"
  unfolding assessMismatch_def unmatched_references_def rule_finding_def Let_def
  by (simp add: filter_all_length split: if_splits) auto

lemma mismatch_none:
  "fst (assessMismatch U i p) = None \<Longrightarrow>
     \<not> unmatched_references U i \<or>
     int (length (extractFileReferences U (i_Description i))) < t_Value (mp_MinReferences p)"
  unfolding assessMismatch_def unmatched_references_def rule_finding_def Let_def
  by (simp add: filter_all_length split: if_splits)

lemma rule_exclusive:
  "snd (assessMismatch U i p) \<noteq> None \<Longrightarrow> fst (assessMismatch U i p) = None"
  "snd (assessBroadAdditions i b) \<noteq> None \<Longrightarrow> fst (assessBroadAdditions i b) = None"
  by (simp_all add: assessMismatch_def assessBroadAdditions_def Let_def split: if_splits)

lemma Assess_Findings:
  "as_Findings (Assess U i p) =
     case_option [] (\<lambda>f. [f]) (fst (assessMismatch U i (pol_Mismatch p))) @
     case_option [] (\<lambda>f. [f]) (fst (assessBroadAdditions i (pol_Broad p)))"
  using rule_exclusive(1) [of U i "pol_Mismatch p"] rule_exclusive(2) [of i "pol_Broad p"]
  by (cases "assessMismatch U i (pol_Mismatch p)"; cases "assessBroadAdditions i (pol_Broad p)")
    (auto simp: Assess_def add_rule_def split: option.splits)

lemma Level_strong: "Level fs = ''strong_concerns'' \<longleftrightarrow> (\<exists>f\<in>set fs. fi_Severity f = ''high'')"
proof -
  have "0 < count (mset (map fi_Severity fs)) ''high'' \<longleftrightarrow> ''high'' \<in> fi_Severity ` set fs"
    unfolding count_greater_zero_iff set_mset_mset set_map ..
  also have "\<dots> \<longleftrightarrow> (\<exists>f\<in>set fs. fi_Severity f = ''high'')"
    unfolding image_iff by metis
  finally have "0 < count (mset (map fi_Severity fs)) ''high'' \<longleftrightarrow> (\<exists>f\<in>set fs. fi_Severity f = ''high'')" .
  then show ?thesis
    by (simp add: Level_def level_loop_counts Let_def del: count_greater_zero_iff mset_map)
qed

text \<open>
  Strong concerns have exactly one cause: the description references files, at least as
  many as both thresholds ask for, the changed files were collected, and not one of the
  references matches any of them. Breadth of additions alone never makes strong concerns, and
  missing evidence never does.
\<close>

theorem strong_concerns_iff:
  "as_Level (Assess U i p) = ''strong_concerns'' \<longleftrightarrow>
     unmatched_references U i \<and>
     max (t_Value (mp_MinReferences (pol_Mismatch p)))
         (t_Value (mp_StrongMismatchMinReferences (pol_Mismatch p)))
       \<le> int (length (extractFileReferences U (i_Description i)))"
proof -
  have "as_Level (Assess U i p) = Level (as_Findings (Assess U i p))"
    by (simp add: Assess_def split: prod.splits)
  then have "as_Level (Assess U i p) = ''strong_concerns'' \<longleftrightarrow>
      (\<exists>f\<in>set (as_Findings (Assess U i p)). fi_Severity f = ''high'')"
    by (simp add: Level_strong)
  also have "\<dots> \<longleftrightarrow> (\<exists>f. fst (assessMismatch U i (pol_Mismatch p)) = Some f \<and> fi_Severity f = ''high'')"
    unfolding Assess_Findings using broad_severity [of i "pol_Broad p"]
    by (cases "fst (assessMismatch U i (pol_Mismatch p))"; cases "fst (assessBroadAdditions i (pol_Broad p))")
      simp_all
  finally show ?thesis
    using mismatch_severity [of U i "pol_Mismatch p"] mismatch_none [of U i "pol_Mismatch p"]
    by (cases "fst (assessMismatch U i (pol_Mismatch p))") auto
qed

section \<open>Well-formed assessments\<close>

lemma level_values: "Level fs \<in> {''no_concerns'', ''review_suggested'', ''strong_concerns''}"
  by (simp add: Level_def level_loop_counts Let_def)

lemma Assess_Unevaluated:
  "as_Unevaluated (Assess U i p) =
     case_option [] (\<lambda>u. [u]) (snd (assessMismatch U i (pol_Mismatch p))) @
     case_option [] (\<lambda>u. [u]) (snd (assessBroadAdditions i (pol_Broad p)))"
  by (cases "assessMismatch U i (pol_Mismatch p)"; cases "assessBroadAdditions i (pol_Broad p)")
    (auto simp: Assess_def add_rule_def split: option.splits)

lemma un_Rule_unevaluated: "un_Rule (unevaluated r x) = r"
  by (simp add: unevaluated_def)

lemma unevaluated_rules:
  "snd (assessMismatch U i q) = Some u \<Longrightarrow> un_Rule u = ''description_diff_mismatch''"
  "snd (assessBroadAdditions i b) = Some u \<Longrightarrow> un_Rule u = ''broad_additions_only''"
  using un_Rule_unevaluated
  by (auto simp: assessMismatch_def assessBroadAdditions_def Let_def split: if_splits)

text \<open>Two rules that each answer a finding or a reason, never both.\<close>

lemma two_rules_distinct:
  assumes "u1 = None \<or> f1 = None" "u2 = None \<or> f2 = None" "a \<noteq> b"
    and "\<And>x. f1 = Some x \<Longrightarrow> R x = a" "\<And>x. u1 = Some x \<Longrightarrow> S x = a"
    and "\<And>x. f2 = Some x \<Longrightarrow> R x = b" "\<And>x. u2 = Some x \<Longrightarrow> S x = b"
  shows "distinct (map R (case_option [] (\<lambda>x. [x]) f1 @ case_option [] (\<lambda>x. [x]) f2) @
    map S (case_option [] (\<lambda>x. [x]) u1 @ case_option [] (\<lambda>x. [x]) u2))"
  using assms by (cases f1; cases f2; cases u1; cases u2) auto

lemma disclosure_distinct:
  "distinct (map di_Statement (disclosure_loop url seen ls)) \<and>
   di_Statement ` set (disclosure_loop url seen ls) \<inter> set seen = {}"
  by (induction url seen ls rule: disclosure_loop.induct) (auto simp: Let_def)


section \<open>Thresholds\<close>

text \<open>
  The thresholds resolved from a quality section that validation accepts: at least one
  reference, file and addition are asked for, the deletion bound is not negative, and the
  threshold of strong concerns is never below the one of a finding, also when only one of the
  two is configured.
\<close>

theorem PolicyFromConfig_bounds:
  assumes "validateQuality q = None"
  shows "1 \<le> t_Value (mp_MinReferences (pol_Mismatch (PolicyFromConfig q))) \<and>
    t_Value (mp_MinReferences (pol_Mismatch (PolicyFromConfig q))) \<le>
      t_Value (mp_StrongMismatchMinReferences (pol_Mismatch (PolicyFromConfig q))) \<and>
    1 \<le> t_Value (bp_MinFiles (pol_Broad (PolicyFromConfig q))) \<and>
    1 \<le> t_Value (bp_MinAdditions (pol_Broad (PolicyFromConfig q))) \<and>
    0 \<le> t_Value (bp_MaxDeletions (pol_Broad (PolicyFromConfig q)))"
proof (cases q)
  case None
  then show ?thesis by (simp add: PolicyFromConfig_def DefaultPolicy_def default_threshold_def)
next
  case (Some c)
  have v: "t_Value (applyOverride (default_threshold d) x) = (case x of None \<Rightarrow> d | Some n \<Rightarrow> n)" for d x
    by (simp add: applyOverride_def default_threshold_def split: option.split)
  have "1 \<le> t_Value (bp_MinFiles (pol_Broad (PolicyFromConfig q))) \<and>
    1 \<le> t_Value (bp_MinAdditions (pol_Broad (PolicyFromConfig q))) \<and>
    0 \<le> t_Value (bp_MaxDeletions (pol_Broad (PolicyFromConfig q)))"
  proof (cases "q_BroadAdditionsOnly c")
    case None
    then show ?thesis
      by (simp add: Some PolicyFromConfig_def DefaultPolicy_def default_threshold_def Let_def)
  next
    case (Some b)
    with assms \<open>q = Some c\<close> show ?thesis
      by (simp add: validateQuality_def positive_opt_def PolicyFromConfig_def DefaultPolicy_def v Let_def
          split: option.splits)
  qed
  moreover have "1 \<le> t_Value (mp_MinReferences (pol_Mismatch (PolicyFromConfig q))) \<and>
    t_Value (mp_MinReferences (pol_Mismatch (PolicyFromConfig q))) \<le>
      t_Value (mp_StrongMismatchMinReferences (pol_Mismatch (PolicyFromConfig q)))"
  proof (cases "q_DescriptionDiffMismatch c")
    case None
    then show ?thesis
      by (simp add: Some PolicyFromConfig_def DefaultPolicy_def default_threshold_def Let_def)
  next
    case m: (Some m)
    have "positive_opt (dd_MinReferences m)"
      using assms Some m by (simp add: validateQuality_def)
    then show ?thesis
      by (simp add: Some m positive_opt_def PolicyFromConfig_def DefaultPolicy_def v Let_def
          split: option.splits)
  qed
  ultimately show ?thesis by blast
qed

lemma PolicyFromConfig_bounds_witness:
  "t_Value (mp_StrongMismatchMinReferences (pol_Mismatch (PolicyFromConfig (Some
     \<lparr> q_DescriptionDiffMismatch = Some \<lparr> dd_MinReferences = Some 5, dd_StrongMismatchMinReferences = None \<rparr>,
       q_BroadAdditionsOnly = None \<rparr>)))) \<ge> 1"
proof -
  have "validateQuality (Some
     \<lparr> q_DescriptionDiffMismatch = Some \<lparr> dd_MinReferences = Some 5, dd_StrongMismatchMinReferences = None \<rparr>,
       q_BroadAdditionsOnly = None \<rparr>) = None"
    by (simp add: validateQuality_def positive_opt_def)
  from PolicyFromConfig_bounds [OF this] show ?thesis by linarith
qed

end
