(* ===== verification/AnalysisTypes.thy ===== *)
theory AnalysisTypes
  imports Prelude
begin

text \<open>
  The result of a model analysis as \<open>internal/analysis/analysis.go\<close> has it, which the tables of
  the store keep and the analysis code checks and merges.
\<close>

record load_component =
  lc_Level :: string
  lc_Reason :: string
  lc_SourceIDs :: "string list"
  lc_EvidenceCompleteness :: string
  lc_PartialReason :: "string option"

record review_load =
  rl_ChangeScope :: load_component
  rl_RequiredContext :: load_component
  rl_ConceptualComplexity :: load_component
  rl_ReviewRisk :: load_component
  rl_Overall :: string
  rl_Rationale :: string
  rl_SourceIDs :: "string list"
  rl_EvidenceCompleteness :: string
  rl_PartialReason :: "string option"

record waiting_state =
  wt_Party :: string
  wt_Reason :: string
  wt_SourceIDs :: "string list"

record quality_finding =
  qf_Severity :: string
  qf_Summary :: string
  qf_SourceIDs :: "string list"
  qf_Confidence :: string

record quality_evaluation =
  qe_Family :: string
  qe_Status :: string
  qe_Completeness :: string
  qe_Finding :: "quality_finding option"
  qe_Reason :: string

record analysis_result =
  nx_Status :: string
  nx_Load :: "review_load option"
  nx_WaitingOn :: "waiting_state list"
  nx_QualityLevel :: string
  nx_Evaluations :: "quality_evaluation list"

end
