(* ===== verification/Tables.thy ===== *)
theory Tables
  imports Quality Routes Queue AnalysisTypes
begin

text \<open>
  The relational store of published pull requests (\<open>internal/storage/store.go\<close>): the Go values that
  are written, the rows of the tables, and the database as a record of tables. A column that
  holds the JSON encoding of a Go value holds the value here. Times are stored as text. The
  foreign keys with \<open>ON DELETE CASCADE\<close> are the functions \<open>delete_members\<close> and
  \<open>delete_pulls\<close>.
\<close>

section \<open>Values\<close>

record context_limit =
  cx_Repository :: string
  cx_Scope :: string
  cx_Reason :: string
  cx_Collected :: int
  cx_Total :: int

record relationship =
  rel_Kind :: string
  rel_SourceID :: string
  rel_SourceRepository :: string
  rel_SourceNumber :: int
  rel_Title :: string
  rel_Text :: string
  rel_State :: string
  rel_URL :: string
  rel_Timestamp :: time

record external_url =
  ext_URL :: string
  ext_SourceKind :: string
  ext_SourceID :: string
  ext_DiscoveredAt :: time

record pull_context =
  ctx_Completeness :: string
  ctx_Limits :: "context_limit list"
  ctx_CollectedAt :: time
  ctx_Relationships :: "relationship list"
  ctx_ExternalURLs :: "external_url list"

record check_run =
  run_ID :: int
  run_Name :: string
  run_Status :: string
  run_Conclusion :: string
  run_URL :: string

record readiness =
  rd_RequestedReviewers :: "string list"
  rd_RequestedTeams :: "string list"
  rd_Mergeable :: "bool option"
  rd_MergeableState :: string
  rd_ChecksTotal :: int
  rd_Runs :: "check_run list"
  rd_CollectedAt :: time

record repository_history =
  rh_Association :: string
  rh_Merged :: int
  rh_ClosedUnmerged :: int
  rh_Open :: int

record repository_activity =
  ract_Repository :: string
  ract_OccurredAt :: time

record author_history =
  ah_ID :: int
  ah_Login :: string
  ah_Complete :: bool
  ah_AccountCreatedAt :: time
  ah_Repositories :: "(string \<times> repository_history) list"
  ah_RecentActivity :: "repository_activity list"
  ah_CollectedAt :: time

text \<open>The fields of \<open>PullRequest\<close> that are written; the others belong to the read model.\<close>

record pull_request =
  pr_Repository :: string
  pr_Number :: int
  pr_HeadSHA :: string
  pr_Title :: string
  pr_Author :: string
  pr_AuthorID :: int
  pr_Additions :: int
  pr_Deletions :: int
  pr_ChangedFiles :: int
  pr_CreatedAt :: time
  pr_UpdatedAt :: time
  pr_URL :: string
  pr_ReviewState :: string
  pr_Readiness :: readiness
  pr_Body :: string
  pr_CollectionIDs :: "string list"
  pr_Context :: "pull_context option"
  pr_Files :: "changed_file list"
  pr_AuthorHistory :: "author_history option"
  pr_FingerprintVersion :: string
  pr_Fingerprint :: string
  pr_CachePayload :: string

section \<open>Rows\<close>

record collection_row =
  c_id :: string
  c_active :: bool
  c_quality_policy :: "policy option"
  c_model_provider :: string
  c_contribution_refresh_seconds :: int

text \<open>A membership: collection, repository, number.\<close>

type_synonym member = "string \<times> string \<times> int"

record pull_row =
  pu_repository :: string
  pu_number :: int
  pu_head_sha :: string
  pu_title :: string
  pu_author :: string
  pu_author_id :: int
  pu_additions :: int
  pu_deletions :: int
  pu_changed_files :: int
  pu_body :: string
  pu_created_at :: string
  pu_updated_at :: string
  pu_url :: string
  pu_review_state :: string
  pu_readiness :: readiness
  pu_fingerprint_version :: string
  pu_fingerprint :: string
  pu_reuse_payload :: string

text \<open>Rows of the tables that hang off a pull request carry its key \<open>(repository, number)\<close>.\<close>

type_synonym pull_key = "string \<times> int"

record context_row =
  cr_key :: pull_key
  cr_completeness :: string
  cr_limits :: "context_limit list"
  cr_collected_at :: string

record quality_row =
  qr_member :: member
  qr_level :: string
  qr_findings :: nat
  qr_assessment :: assessment
  qr_assessed_at :: string

record author_row =
  au_id :: int
  au_login :: string
  au_account_created_at :: string
  au_history_complete :: bool
  au_recent_activity :: "repository_activity list"
  au_collected_at :: string
  au_ancillary_status :: string
  au_ancillary_collected_at :: "string option"
  au_ancillary_attempted_at :: "string option"
  au_ancillary_error :: string

record contribution_row =
  ac_author_id :: int
  ac_repository :: string
  ac_history :: repository_history
  ac_status :: string
  ac_collected_at :: "string option"

record result_row =
  rs_member :: member
  rs_result :: analysis_result
  rs_provider :: string
  rs_model :: string
  rs_analyzed_at :: "string option"
  rs_payload_id :: string

record stored_result = result_row +
  sr_input_revision :: string
  sr_fallback_from :: string
  sr_quality_level :: string
  sr_schema_version :: string
  sr_prompt_version :: string

record analysis_attempt_row =
  at_member :: member
  at_status :: string
  at_input_revision :: string
  at_provider :: string
  at_fallback_from :: string
  at_model :: string
  at_attempted_at :: string
  at_payload_id :: string
  at_error :: string
  at_schema_version :: string
  at_prompt_version :: string

record retained_row = result_row +
  rs_closed_at :: string

record analysis_payload =
  ap_member :: member
  ap_head_sha :: string
  ap_forced :: bool

record diff_payload =
  dp_repository :: string
  dp_number :: int
  dp_head_sha :: string
  dp_changed_files :: int

record diff_row =
  de_repository :: string
  de_number :: int
  de_head_sha :: string
  de_completeness :: string
  de_original_files :: int
  de_sent_files :: int
  de_omitted_files :: int
  de_original_bytes :: int
  de_sent_bytes :: int
  de_truncated :: bool
  de_collected_at :: string

record diff_source_row =
  ds_repository :: string
  ds_number :: int
  ds_head_sha :: string
  ds_path :: string
  ds_source_id :: string
  ds_patch :: string
  ds_original_bytes :: int
  ds_sent_bytes :: int
  ds_truncated :: bool

text \<open>Personal state of a user about a pull request in a collection.\<close>

record personal_row =
  ps_user :: int
  ps_member :: member

record hidden_row = personal_row +
  hd_kind :: string
  hd_reason :: string
  hd_snoozed_until :: "string option"
  hd_wake_on_activity :: bool
  hd_hidden_at_updated_at :: string
  hd_created_at :: string
  hd_updated_at :: string

record repository_row = refresh_row +
  rr_last_full_reconciliation_at :: "string option"
  rr_last_reused :: int
  rr_last_hydrated :: int
  rr_last_forced :: bool

record pr_db =
  d_collections :: "collection_row list"
  d_repositories :: "(string \<times> string) list"
  d_pulls :: "pull_row list"
  d_files :: "(pull_key \<times> changed_file) list"
  d_contexts :: "context_row list"
  d_relationships :: "(pull_key \<times> relationship) list"
  d_externals :: "(pull_key \<times> external_url) list"
  d_members :: "member list"
  d_quality :: "quality_row list"
  d_authors :: "author_row list"
  d_contributions :: "contribution_row list"
  d_results :: "stored_result list"
  d_attempts :: "analysis_attempt_row list"
  d_retained :: "retained_row list"
  d_analysis :: "analysis_payload queue"
  d_diffs :: "diff_payload queue"
  d_evidence :: "diff_row list"
  d_sources :: "diff_source_row list"
  d_important :: "personal_row list"
  d_hidden :: "hidden_row list"
  d_refreshes :: "repository_row list"
  d_limits :: "(string \<times> context_limit list \<times> string) list"

definition pull_key :: "pull_row \<Rightarrow> pull_key" where
  "pull_key r = (pu_repository r, pu_number r)"

definition of_pull :: "pull_key \<Rightarrow> member \<Rightarrow> bool" where
  "of_pull k m \<longleftrightarrow> snd m = k"

datatype pr_error =
    WrongRepository int
  | MissingFields | NegativeChurn | NegativeFiles
  | NotConfigured string
  | InvalidFile | DuplicateFile string
  | InvalidCompleteness string | NoContextTime | InvalidRelationship | InvalidExternalURL
  | InvalidAuthor | InvalidContribution
  | CollectionLacksRepository string
  | CollectionMissing string
  | Constraint string
  | NoRows string

section \<open>Cascades\<close>

definition active_repository :: "pr_db \<Rightarrow> string \<Rightarrow> string \<Rightarrow> bool" where
  "active_repository db collection repository \<longleftrightarrow>
     (collection, repository) \<in> set (d_repositories db) \<and>
     list_ex (\<lambda>c. c_id c = collection \<and> c_active c) (d_collections db)"

definition configured_repository :: "pr_db \<Rightarrow> string \<Rightarrow> bool" where
  "configured_repository db repository \<longleftrightarrow>
     list_ex (\<lambda>c. active_repository db (c_id c) repository) (d_collections db)"

text \<open>Deleting memberships also deletes the quality, analysis and job rows that reference them.\<close>

definition delete_members :: "(member \<Rightarrow> bool) \<Rightarrow> pr_db \<Rightarrow> pr_db" where
  "delete_members p db =
     db\<lparr> d_members := delete_where p (d_members db),
         d_quality := delete_where (\<lambda>r. p (qr_member r) \<and> qr_member r \<in> set (d_members db)) (d_quality db),
         d_results := delete_where (\<lambda>r. p (rs_member r) \<and> rs_member r \<in> set (d_members db)) (d_results db),
         d_attempts := delete_where (\<lambda>r. p (at_member r) \<and> at_member r \<in> set (d_members db)) (d_attempts db),
         d_analysis := (d_analysis db)\<lparr>q_jobs := delete_where (\<lambda>r. p (ap_member (j_payload r)) \<and>
           ap_member (j_payload r) \<in> set (d_members db)) (q_jobs (d_analysis db))\<rparr> \<rparr>"

definition delete_pulls :: "(pull_key \<Rightarrow> bool) \<Rightarrow> pr_db \<Rightarrow> pr_db" where
  "delete_pulls p db =
     (let gone = (\<lambda>k. p k \<and> k \<in> pull_key ` set (d_pulls db));
          db1 = delete_members (\<lambda>m. gone (snd m)) db
      in db1\<lparr> d_pulls := delete_where (\<lambda>r. p (pull_key r)) (d_pulls db),
         d_files := delete_where (\<lambda>r. gone (fst r)) (d_files db),
         d_contexts := delete_where (\<lambda>r. gone (cr_key r)) (d_contexts db),
         d_relationships := delete_where (\<lambda>r. gone (fst r)) (d_relationships db),
         d_externals := delete_where (\<lambda>r. gone (fst r)) (d_externals db),
         d_diffs := (d_diffs db)\<lparr>q_jobs := delete_where (\<lambda>r. gone (dp_repository (j_payload r), dp_number (j_payload r)))
           (q_jobs (d_diffs db))\<rparr>,
         d_evidence := delete_where (\<lambda>r. gone (de_repository r, de_number r)) (d_evidence db),
         d_sources := delete_where (\<lambda>r. gone (ds_repository r, ds_number r)) (d_sources db),
         d_important := delete_where (\<lambda>r. gone (snd (ps_member r))) (d_important db),
         d_hidden := delete_where (\<lambda>r. gone (snd (ps_member r))) (d_hidden db) \<rparr>)"

lemma delete_members_simps [simp, table_simps]:
  "d_members (delete_members p db) = delete_where p (d_members db)"
  "d_pulls (delete_members p db) = d_pulls db"
  "d_repositories (delete_members p db) = d_repositories db"
  "d_collections (delete_members p db) = d_collections db"
  "d_important (delete_members p db) = d_important db"
  "d_hidden (delete_members p db) = d_hidden db"
  by (simp_all add: delete_members_def)

lemma delete_pulls_simps [simp, table_simps]:
  "d_pulls (delete_pulls p db) = delete_where (\<lambda>r. p (pull_key r)) (d_pulls db)"
  "d_repositories (delete_pulls p db) = d_repositories db"
  "d_collections (delete_pulls p db) = d_collections db"
  by (simp_all add: delete_pulls_def Let_def)

end
