(* ===== verification/Snapshot.thy ===== *)
theory Snapshot
  imports Tables
begin

text \<open>
  Publishing pull requests (\<open>internal/storage/store.go\<close>): normalisation, the rows of one pull
  request, quality assessments, the analysis and diff jobs a new head causes, and the
  transaction that replaces the snapshot of a repository. A result \<open>Inl\<close> is a rolled back
  transaction. \<open>Constraint\<close> is a violated key or foreign key of the schema. \<open>U\<close> is Unicode
  lower-casing, which the quality rules use.
\<close>

section \<open>Normalisation\<close>

definition maxBodyBytes :: nat where
  "maxBodyBytes = 64 * 1024"

definition normalizePullRequest :: "pull_request \<Rightarrow> pr_error + pull_request" where
  "normalizePullRequest pr =
     failIf (pr_Repository pr = [] \<or> pr_Number pr \<le> 0 \<or> pr_Title pr = [] \<or> pr_URL pr = [] \<or>
       IsZero (pr_UpdatedAt pr)) MissingFields
    (failIf (pr_Additions pr < 0 \<or> pr_Deletions pr < 0) NegativeChurn
    (failIf (pr_ChangedFiles pr < 0) NegativeFiles
    (Inr (pr\<lparr>
       pr_ChangedFiles := (if pr_ChangedFiles pr = 0 \<and> pr_Files pr \<noteq> [] then int (length (pr_Files pr))
         else pr_ChangedFiles pr),
       pr_Body := truncateUTF8 (pr_Body pr) maxBodyBytes,
       pr_Author := (if pr_Author pr = [] then ''unknown'' else pr_Author pr),
       pr_CreatedAt := (if IsZero (pr_CreatedAt pr) then pr_UpdatedAt pr else pr_CreatedAt pr),
       pr_ReviewState := (if pr_ReviewState pr = [] then ''none'' else pr_ReviewState pr)\<rparr>))))"

section \<open>The rows of one pull request\<close>

definition key_of :: "pull_request \<Rightarrow> pull_key" where
  "key_of pr = (pr_Repository pr, pr_Number pr)"

definition pull_row_of :: "pull_request \<Rightarrow> pull_row" where
  "pull_row_of pr =
     \<lparr> pu_repository = pr_Repository pr, pu_number = pr_Number pr, pu_head_sha = pr_HeadSHA pr,
       pu_title = pr_Title pr, pu_author = pr_Author pr, pu_author_id = pr_AuthorID pr,
       pu_additions = pr_Additions pr, pu_deletions = pr_Deletions pr,
       pu_changed_files = pr_ChangedFiles pr, pu_body = pr_Body pr,
       pu_created_at = formatTime (pr_CreatedAt pr), pu_updated_at = formatTime (pr_UpdatedAt pr),
       pu_url = pr_URL pr, pu_review_state = pr_ReviewState pr, pu_readiness = pr_Readiness pr,
       pu_fingerprint_version = pr_FingerprintVersion pr, pu_fingerprint = pr_Fingerprint pr,
       pu_reuse_payload = pr_CachePayload pr \<rparr>"

definition upsertPullRequestRow :: "pull_request \<Rightarrow> pr_db \<Rightarrow> pr_db" where
  "upsertPullRequestRow pr db =
     db\<lparr>d_pulls := upsert pull_key (\<lambda>old new. new) (pull_row_of pr) (d_pulls db)\<rparr>"

fun check_files :: "string list \<Rightarrow> changed_file list \<Rightarrow> pr_error option" where
  "check_files seen [] = None"
| "check_files seen (f # fs) =
     (if f_Path f = [] \<or> f_Additions f < 0 \<or> f_Deletions f < 0 then Some InvalidFile
      else if f_Path f \<in> set seen then Some (DuplicateFile (f_Path f))
      else check_files (f_Path f # seen) fs)"

definition replacePullRequestFiles :: "pull_request \<Rightarrow> pr_db \<Rightarrow> pr_error + pr_db" where
  "replacePullRequestFiles pr db =
     failE (check_files [] (pr_Files pr))
       (Inr (db\<lparr>d_files := delete_where (\<lambda>r. fst r = key_of pr) (d_files db) @
          map (Pair (key_of pr)) (pr_Files pr)\<rparr>))"

definition check_relationship :: "relationship \<Rightarrow> pr_error option" where
  "check_relationship r = guardE (rel_Kind r = [] \<or> rel_SourceID r = [] \<or> rel_URL r = [] \<or>
     IsZero (rel_Timestamp r)) InvalidRelationship"

definition check_external :: "external_url \<Rightarrow> pr_error option" where
  "check_external e = guardE (ext_URL e = [] \<or> ext_SourceKind e = [] \<or> ext_SourceID e = [] \<or>
     IsZero (ext_DiscoveredAt e)) InvalidExternalURL"

text \<open>Insertion of checked values one by one under a primary key.\<close>

fun insert_checked ::
  "('a \<Rightarrow> pr_error option) \<Rightarrow> ('a \<Rightarrow> 'k) \<Rightarrow> string \<Rightarrow> 'k list \<Rightarrow> 'a list \<Rightarrow> pr_error option" where
  "insert_checked check k table seen [] = None"
| "insert_checked check k table seen (x # xs) =
     seqE (check x)
    (seqE (guardE (k x \<in> set seen) (Constraint table))
     (insert_checked check k table (k x # seen) xs))"

definition replacePullRequestContext :: "pull_request \<Rightarrow> pr_db \<Rightarrow> pr_error + pr_db" where
  "replacePullRequestContext pr db =
     (let k = key_of pr;
          db1 = db\<lparr> d_contexts := delete_where (\<lambda>r. cr_key r = k) (d_contexts db),
            d_relationships := delete_where (\<lambda>r. fst r = k) (d_relationships db),
            d_externals := delete_where (\<lambda>r. fst r = k) (d_externals db) \<rparr>
      in case pr_Context pr of
           None \<Rightarrow> Inr db1
         | Some c \<Rightarrow>
             failIf (ctx_Completeness c \<notin> {''complete'', ''partial'', ''unknown''})
               (InvalidCompleteness (ctx_Completeness c))
            (failIf (IsZero (ctx_CollectedAt c)) NoContextTime
            (failE (insert_checked check_relationship (\<lambda>r. (rel_Kind r, rel_SourceID r))
               ''pull_request_relationships'' [] (ctx_Relationships c))
            (failE (insert_checked check_external (\<lambda>e. (ext_URL e, ext_SourceKind e, ext_SourceID e))
               ''pull_request_external_urls'' [] (ctx_ExternalURLs c))
            (Inr (db1\<lparr> d_contexts := d_contexts db1 @ [\<lparr> cr_key = k, cr_completeness = ctx_Completeness c,
                  cr_limits = ctx_Limits c, cr_collected_at = formatTime (ctx_CollectedAt c) \<rparr>],
                d_relationships := d_relationships db1 @ map (Pair k) (ctx_Relationships c),
                d_externals := d_externals db1 @ map (Pair k) (ctx_ExternalURLs c) \<rparr>))))))"

text \<open>
  \<open>authors.login\<close> is unique up to ASCII case, so a login that another account id holds
  violates a constraint although the statement handles conflicts on the id.
\<close>

definition login_taken :: "int \<Rightarrow> string \<Rightarrow> author_row list \<Rightarrow> bool" where
  "login_taken i login t \<longleftrightarrow>
     list_ex (\<lambda>r. au_id r \<noteq> i \<and> map lower_byte (au_login r) = map lower_byte login) t"

definition check_repository_history :: "string \<times> repository_history \<Rightarrow> pr_error option" where
  "check_repository_history x = guardE (fst x = [] \<or> rh_Merged (snd x) < 0 \<or>
     rh_ClosedUnmerged (snd x) < 0 \<or> rh_Open (snd x) < 0) InvalidContribution"

definition contribution_key :: "contribution_row \<Rightarrow> int \<times> string" where
  "contribution_key r = (ac_author_id r, ac_repository r)"

definition writeAuthorHistory :: "author_history \<Rightarrow> pr_db \<Rightarrow> pr_error + pr_db" where
  "writeAuthorHistory h db =
     failIf (ah_ID h \<le> 0 \<or> ah_Login h = [] \<or> IsZero (ah_CollectedAt h)) InvalidAuthor
    (failIf (login_taken (ah_ID h) (ah_Login h) (d_authors db)) (Constraint ''authors'')
    (failE (first_err check_repository_history (ah_Repositories h))
     (let at = formatTime (ah_CollectedAt h);
          status = (if ah_Complete h then ''complete'' else ''failed'');
          row = \<lparr> au_id = ah_ID h, au_login = ah_Login h,
            au_account_created_at = (if IsZero (ah_AccountCreatedAt h) then []
              else formatTime (ah_AccountCreatedAt h)),
            au_history_complete = ah_Complete h, au_recent_activity = ah_RecentActivity h,
            au_collected_at = at, au_ancillary_status = status, au_ancillary_collected_at = Some at,
            au_ancillary_attempted_at = None, au_ancillary_error = [] \<rparr>
      in Inr (db\<lparr>
           d_authors := upsert au_id (\<lambda>old new. new\<lparr>
             au_ancillary_attempted_at := au_ancillary_attempted_at old,
             au_ancillary_error := au_ancillary_error old\<rparr>) row (d_authors db),
           d_contributions := foldl (\<lambda>t x. upsert contribution_key (\<lambda>old new. new)
             \<lparr> ac_author_id = ah_ID h, ac_repository = fst x, ac_history = snd x, ac_status = status,
               ac_collected_at = Some at \<rparr> t) (d_contributions db) (ah_Repositories h)\<rparr>))))"

text \<open>The four writes for one pull request, in the order of both publishing operations.\<close>

definition write_pull :: "pull_request \<Rightarrow> pr_db \<Rightarrow> pr_error + pr_db" where
  "write_pull pr db =
     bindR (replacePullRequestFiles pr (upsertPullRequestRow pr db)) (\<lambda>db1.
     bindR (replacePullRequestContext pr db1) (\<lambda>db2.
     case pr_AuthorHistory pr of None \<Rightarrow> Inr db2 | Some h \<Rightarrow> writeAuthorHistory h db2))"

section \<open>Quality\<close>

definition qualityInput :: "pull_request \<Rightarrow> input" where
  "qualityInput pr =
     \<lparr> i_Repository = pr_Repository pr, i_Number = pr_Number pr, i_Title = pr_Title pr,
       i_Description = pr_Body pr, i_URL = pr_URL pr, i_Additions = pr_Additions pr,
       i_Deletions = pr_Deletions pr, i_ChangedFileCount = pr_ChangedFiles pr, i_Files = pr_Files pr \<rparr>"

definition policy_of :: "pr_db \<Rightarrow> string \<Rightarrow> policy" where
  "policy_of db collection =
     (case find (\<lambda>c. c_id c = collection) (d_collections db) of
        None \<Rightarrow> DefaultPolicy
      | Some c \<Rightarrow> (case c_quality_policy c of None \<Rightarrow> DefaultPolicy | Some p \<Rightarrow> p))"

definition writeQualityAssessment ::
  "(string \<Rightarrow> string) \<Rightarrow> string \<Rightarrow> pull_request \<Rightarrow> policy \<Rightarrow> time \<Rightarrow> pr_db \<Rightarrow> pr_error + pr_db" where
  "writeQualityAssessment U collection pr pol assessedAt db =
     (let a = Assess U (qualityInput pr) pol; m = (collection, key_of pr) in
      failIf (m \<notin> set (d_members db)) (Constraint ''pull_request_quality'')
       (Inr (db\<lparr>d_quality := upsert qr_member (\<lambda>old new. new)
          \<lparr> qr_member = m, qr_level = as_Level a, qr_findings = length (as_Findings a),
            qr_assessment = a, qr_assessed_at = formatTime assessedAt \<rparr> (d_quality db)\<rparr>)))"

fun foldR :: "('a \<Rightarrow> 's \<Rightarrow> 'e + 's) \<Rightarrow> 'a list \<Rightarrow> 's \<Rightarrow> 'e + 's" where
  "foldR f [] s = Inr s"
| "foldR f (x # xs) s = bindR (f x s) (foldR f xs)"

section \<open>Jobs for a head\<close>

definition analysis_key :: "analysis_payload \<Rightarrow> member" where
  "analysis_key = ap_member"

definition diff_key :: "diff_payload \<Rightarrow> string \<times> int \<times> string" where
  "diff_key p = (dp_repository p, dp_number p, dp_head_sha p)"

definition enqueueAnalysisForPRTx ::
  "string \<Rightarrow> string \<Rightarrow> int \<Rightarrow> bool \<Rightarrow> time \<Rightarrow> pr_db \<Rightarrow> pr_error + pr_db" where
  "enqueueAnalysisForPRTx collection repository number forced scheduledFor db =
     (let m = (collection, repository, number) in
      case find (\<lambda>c. c_id c = collection) (d_collections db) of
        None \<Rightarrow> Inl (CollectionMissing collection)
      | Some c \<Rightarrow>
          if c_model_provider c = [] then Inr db
          else (case find (\<lambda>r. pull_key r = (repository, number)) (d_pulls db) of
             None \<Rightarrow> Inl (NoRows ''pull_requests'')
           | Some r \<Rightarrow>
              (let q = d_analysis db;
                   coalesced = list_ex (\<lambda>j. active j \<and> ap_member (j_payload j) = m) (q_jobs q) in
               failIf (\<not> coalesced \<and> m \<notin> set (d_members db)) (Constraint ''analysis_jobs'')
                (let q1 = snd (enqueue_job analysis_key
                       \<lparr> ap_member = m, ap_head_sha = pu_head_sha r, ap_forced = forced \<rparr> scheduledFor q)
                 in Inr (db\<lparr>d_analysis := q1\<lparr>q_jobs := update_where
                      (\<lambda>j. ap_member (j_payload j) = m \<and> j_status j = Queued)
                      (\<lambda>j. j\<lparr>j_payload := (j_payload j)\<lparr> ap_head_sha := pu_head_sha r,
                              ap_forced := (forced \<or> ap_forced (j_payload j)) \<rparr>,
                            j_scheduled_for := min (j_scheduled_for j) (formatTime scheduledFor)\<rparr>)
                      (q_jobs q1)\<rparr>\<rparr>)))))"

definition diff_completeness :: "pr_db \<Rightarrow> pull_request \<Rightarrow> string" where
  "diff_completeness db pr =
     (case find (\<lambda>r. de_repository r = pr_Repository pr \<and> de_number r = pr_Number pr \<and>
         de_head_sha r = pr_HeadSHA pr) (d_evidence db) of
        None \<Rightarrow> [] | Some r \<Rightarrow> de_completeness r)"

definition enqueuePullRequestDiffTx :: "pull_request \<Rightarrow> time \<Rightarrow> pr_db \<Rightarrow> pr_error + pr_db" where
  "enqueuePullRequestDiffTx pr scheduledFor db =
     (let db1 = db\<lparr>d_analysis := finish_where
            (\<lambda>j. snd (ap_member (j_payload j)) = key_of pr \<and> j_status j = Queued \<and>
                 ap_head_sha (j_payload j) \<noteq> pr_HeadSHA pr) scheduledFor (d_analysis db)\<rparr>;
          release = foldR (\<lambda>c. enqueueAnalysisForPRTx c (pr_Repository pr) (pr_Number pr) False scheduledFor)
            (pr_CollectionIDs pr) db1
      in if pr_HeadSHA pr = [] then release
         else if diff_completeness db1 pr \<in> {''complete'', ''partial''} then release
         else Inr (db1\<lparr>d_diffs := snd (enqueue_job diff_key
             \<lparr> dp_repository = pr_Repository pr, dp_number = pr_Number pr, dp_head_sha = pr_HeadSHA pr,
               dp_changed_files = pr_ChangedFiles pr \<rparr> scheduledFor (d_diffs db1))\<rparr>))"

section \<open>Replacing the snapshot of a repository\<close>

record snapshot_metadata =
  sm_FullReconciliation :: bool
  sm_Forced :: bool
  sm_CacheHits :: int
  sm_CacheMisses :: int
  sm_CacheBypasses :: int

text \<open>The temporary table of desired memberships, filled in order.\<close>

fun add_desired :: "pr_db \<Rightarrow> string \<Rightarrow> int \<Rightarrow> string list \<Rightarrow> member list \<Rightarrow> pr_error + member list" where
  "add_desired db repository number [] acc = Inr acc"
| "add_desired db repository number (c # cs) acc =
     failIf (\<not> active_repository db c repository) (CollectionLacksRepository c)
    (failIf ((c, repository, number) \<in> set acc) (Constraint ''desired_collection_pull_requests'')
     (add_desired db repository number cs (acc @ [(c, repository, number)])))"

definition active_collections :: "pr_db \<Rightarrow> string \<Rightarrow> string list" where
  "active_collections db repository =
     map fst (filter (\<lambda>x. snd x = repository \<and> active_repository db (fst x) repository) (d_repositories db))"

definition desired_members :: "pr_db \<Rightarrow> string \<Rightarrow> pull_request list \<Rightarrow> pr_error + member list" where
  "desired_members db repository prs =
     foldR (\<lambda>pr acc. add_desired db repository (pr_Number pr)
        (if pr_CollectionIDs pr = [] then active_collections db repository else pr_CollectionIDs pr) acc) prs []"

fun normalize_all :: "string \<Rightarrow> pull_request list \<Rightarrow> pr_error + pull_request list" where
  "normalize_all repository [] = Inr []"
| "normalize_all repository (pr # prs) =
     failIf (pr_Repository pr \<noteq> repository) (WrongRepository (pr_Number pr))
    (bindR (normalizePullRequest pr) (\<lambda>p. bindR (normalize_all repository prs) (\<lambda>ps. Inr (p # ps))))"

text \<open>The statements that keep analyses of closed pull requests and publish the desired set.\<close>

definition retain_closed :: "string \<Rightarrow> member list \<Rightarrow> time \<Rightarrow> pr_db \<Rightarrow> pr_db" where
  "retain_closed repository desired completedAt db =
     db\<lparr>d_retained := foldl (\<lambda>t r. upsert rs_member (\<lambda>old new. new)
        (result_row.extend (result_row.truncate r) \<lparr>rs_closed_at = formatTime completedAt\<rparr>) t) (d_retained db)
        (filter (\<lambda>r. fst (snd (rs_member r)) = repository \<and> rs_member r \<notin> set desired) (d_results db))\<rparr>"

definition publish_members :: "string \<Rightarrow> member list \<Rightarrow> pr_db \<Rightarrow> pr_db" where
  "publish_members repository desired db =
     (let db1 = delete_members (\<lambda>m. fst (snd m) = repository \<and> m \<notin> set desired) db;
          db2 = db1\<lparr>d_members := foldl (\<lambda>t m. insert_ignore id m t) (d_members db1) desired\<rparr>;
          db3 = delete_pulls (\<lambda>k. fst k = repository \<and> k \<notin> snd ` set (d_members db2)) db2;
          stale = (\<lambda>m. fst (snd m) = repository \<and> m \<notin> set (d_members db3))
      in db3\<lparr> d_important := delete_where (\<lambda>r. stale (ps_member r)) (d_important db3),
              d_hidden := delete_where (\<lambda>r. stale (ps_member r)) (d_hidden db3) \<rparr>)"

definition publishedCollections :: "pr_db \<Rightarrow> string \<Rightarrow> int \<Rightarrow> string list" where
  "publishedCollections db repository number =
     map fst (filter (\<lambda>m. snd m = (repository, number)) (d_members db))"

definition release_pull :: "(string \<Rightarrow> string) \<Rightarrow> time \<Rightarrow> pull_request \<Rightarrow> pr_db \<Rightarrow> pr_error + pr_db" where
  "release_pull U completedAt pr db =
     (let publishedTo = publishedCollections db (pr_Repository pr) (pr_Number pr) in
      bindR (foldR (\<lambda>c d. writeQualityAssessment U c pr (policy_of db c) completedAt d) publishedTo db)
        (\<lambda>db1. enqueuePullRequestDiffTx (pr\<lparr>pr_CollectionIDs := publishedTo\<rparr>) completedAt db1))"

definition record_success ::
  "string \<Rightarrow> time \<Rightarrow> context_limit list \<Rightarrow> snapshot_metadata \<Rightarrow> pr_db \<Rightarrow> pr_db" where
  "record_success repository completedAt limits md db =
     (let at = formatTime completedAt in
      db\<lparr> d_refreshes := upsert rr_repository (\<lambda>old new. new\<lparr>rr_last_full_reconciliation_at :=
            (case rr_last_full_reconciliation_at new of
               None \<Rightarrow> rr_last_full_reconciliation_at old | Some t \<Rightarrow> Some t)\<rparr>)
          \<lparr> rr_repository = repository, rr_state = ''fresh'', rr_last_attempt_at = Some at,
            rr_last_success_at = Some at, rr_error = [],
            rr_last_full_reconciliation_at = (if sm_FullReconciliation md then Some at else None),
            rr_last_reused = sm_CacheHits md,
            rr_last_hydrated = sm_CacheMisses md + sm_CacheBypasses md,
            rr_last_forced = sm_Forced md \<rparr> (d_refreshes db),
         d_limits := (if limits = [] then delete_where (\<lambda>r. fst r = repository) (d_limits db)
           else upsert fst (\<lambda>old new. new) (repository, limits, at) (d_limits db)) \<rparr>)"

definition replaceRepositorySnapshot ::
  "(string \<Rightarrow> string) \<Rightarrow> string \<Rightarrow> pull_request list \<Rightarrow> time \<Rightarrow> context_limit list \<Rightarrow>
   snapshot_metadata \<Rightarrow> pr_db \<Rightarrow> pr_error + pr_db" where
  "replaceRepositorySnapshot U repository prs completedAt limits md db =
     bindR (normalize_all repository prs) (\<lambda>ps.
     failIf (\<not> configured_repository db repository) (NotConfigured repository)
    (bindR (foldR write_pull ps db) (\<lambda>db1.
     bindR (desired_members db1 repository ps) (\<lambda>desired.
     bindR (foldR (release_pull U completedAt) ps
        (publish_members repository desired (retain_closed repository desired completedAt db1))) (\<lambda>db2.
     Inr (record_success repository completedAt limits md db2))))))"

end
