(* ===== verification/SnapshotFacts.thy ===== *)
theory SnapshotFacts
  imports Snapshot
begin

text \<open>
  What replacing the snapshot of a repository does to the published state: a refinement of
  "the memberships of this repository become the desired ones, nothing else changes", and the
  error that a stale membership causes.
\<close>

section \<open>Loops over the rows\<close>

lemma foldR_invariant:
  assumes "\<And>x s s'. x \<in> set xs \<Longrightarrow> f x s = Inr s' \<Longrightarrow> P s \<Longrightarrow> P s'"
  shows "foldR f xs s = Inr s' \<Longrightarrow> P s \<Longrightarrow> P s'"
  using assms
proof (induction xs arbitrary: s)
  case Nil
  then show ?case by simp
next
  case (Cons x xs)
  from Cons.prems(1) obtain t where t: "f x s = Inr t" "foldR f xs t = Inr s'"
    by (auto simp: bindR_eq_Inr)
  with Cons.prems have "P t" by (meson list.set_intros(1))
  with Cons.IH [OF t(2)] Cons.prems(3) show ?case by (meson list.set_intros(2))
qed

lemma foldR_each:
  "foldR f xs s = Inr s' \<Longrightarrow> x \<in> set xs \<Longrightarrow> \<exists>t t'. f x t = Inr t'"
proof (induction xs arbitrary: s)
  case Nil
  then show ?case by simp
next
  case (Cons y xs)
  from Cons.prems(1) obtain t where t: "f y s = Inr t" "foldR f xs t = Inr s'"
    by (auto simp: bindR_eq_Inr)
  show ?case
  proof (cases "x = y")
    case True
    with t show ?thesis by blast
  next
    case False
    with Cons.prems Cons.IH [OF t(2)] show ?thesis by simp
  qed
qed

section \<open>Frames\<close>

text \<open>What the per-row writes and the released jobs leave alone.\<close>

definition same_published :: "pr_db \<Rightarrow> pr_db \<Rightarrow> bool" where
  "same_published a b \<longleftrightarrow> d_members a = d_members b \<and> d_collections a = d_collections b \<and>
     d_repositories a = d_repositories b \<and> d_important a = d_important b \<and> d_hidden a = d_hidden b"

lemma same_published_refl [simp]: "same_published a a"
  by (simp add: same_published_def)

lemma same_published_step:
  "same_published s' s \<Longrightarrow> same_published s db \<Longrightarrow> same_published s' db"
  by (simp add: same_published_def)

lemma same_published_trans: "same_published a b \<Longrightarrow> same_published b c \<Longrightarrow> same_published a c"
  by (simp add: same_published_def)

lemma replacePullRequestFiles_frame:
  "replacePullRequestFiles pr db = Inr db' \<Longrightarrow> same_published db' db \<and> d_pulls db' = d_pulls db"
  by (auto simp: replacePullRequestFiles_def same_published_def failE_eq_Inr)

lemma replacePullRequestContext_frame:
  "replacePullRequestContext pr db = Inr db' \<Longrightarrow> same_published db' db \<and> d_pulls db' = d_pulls db"
  by (auto simp: replacePullRequestContext_def same_published_def failE_eq_Inr failIf_eq_Inr Let_def
      split: option.splits)

lemma writeAuthorHistory_frame:
  "writeAuthorHistory h db = Inr db' \<Longrightarrow> same_published db' db \<and> d_pulls db' = d_pulls db"
  by (auto simp: writeAuthorHistory_def same_published_def failE_eq_Inr failIf_eq_Inr Let_def)

lemma write_pull_frame:
  assumes "write_pull pr db = Inr db'"
  shows "same_published db' db \<and>
    d_pulls db' = upsert pull_key (\<lambda>old new. new) (pull_row_of pr) (d_pulls db)"
proof -
  from assms obtain a b where a: "replacePullRequestFiles pr (upsertPullRequestRow pr db) = Inr a"
    and b: "replacePullRequestContext pr a = Inr b"
    and c: "(case pr_AuthorHistory pr of None \<Rightarrow> Inr b | Some h \<Rightarrow> writeAuthorHistory h b) = Inr db'"
    by (auto simp: write_pull_def bindR_eq_Inr)
  have "same_published db' b \<and> d_pulls db' = d_pulls b"
    using c writeAuthorHistory_frame by (cases "pr_AuthorHistory pr") auto
  with replacePullRequestFiles_frame [OF a] replacePullRequestContext_frame [OF b]
  show ?thesis by (simp add: same_published_def upsertPullRequestRow_def)
qed

lemma writeQualityAssessment_frame:
  "writeQualityAssessment U c pr pol at db = Inr db' \<Longrightarrow> same_published db' db \<and> d_pulls db' = d_pulls db"
  by (auto simp: writeQualityAssessment_def same_published_def failIf_eq_Inr Let_def)

lemma enqueueAnalysisForPRTx_frame:
  "enqueueAnalysisForPRTx c r n forced at db = Inr db' \<Longrightarrow> same_published db' db \<and> d_pulls db' = d_pulls db"
  by (auto simp: enqueueAnalysisForPRTx_def same_published_def failIf_eq_Inr Let_def
      split: option.splits if_splits)

lemma foldR_frame:
  assumes "\<And>x s s'. f x s = Inr s' \<Longrightarrow> same_published s' s \<and> d_pulls s' = d_pulls s"
    and "foldR f xs s = Inr s'"
  shows "same_published s' s \<and> d_pulls s' = d_pulls s"
  using assms(2)
  by (rule foldR_invariant [where P = "\<lambda>t. same_published t s \<and> d_pulls t = d_pulls s", rotated])
    (use assms(1) same_published_trans in \<open>fastforce+\<close>)

lemma enqueuePullRequestDiffTx_frame:
  assumes "enqueuePullRequestDiffTx pr at db = Inr db'"
  shows "same_published db' db \<and> d_pulls db' = d_pulls db"
proof -
  let ?db1 = "db\<lparr>d_analysis := finish_where (\<lambda>j. snd (ap_member (j_payload j)) = key_of pr \<and>
    j_status j = Queued \<and> ap_head_sha (j_payload j) \<noteq> pr_HeadSHA pr) at (d_analysis db)\<rparr>"
  have "same_published db' ?db1 \<and> d_pulls db' = d_pulls ?db1"
  proof (cases "pr_HeadSHA pr = [] \<or> diff_completeness ?db1 pr \<in> {''complete'', ''partial''}")
    case True
    with assms have "foldR (\<lambda>c. enqueueAnalysisForPRTx c (pr_Repository pr) (pr_Number pr) False at)
        (pr_CollectionIDs pr) ?db1 = Inr db'"
      unfolding enqueuePullRequestDiffTx_def Let_def by (simp split: if_splits)
    from foldR_frame [OF enqueueAnalysisForPRTx_frame this] show ?thesis by simp
  next
    case False
    with assms show ?thesis
      unfolding enqueuePullRequestDiffTx_def Let_def same_published_def by (simp split: if_splits) auto
  qed
  then show ?thesis by (simp add: same_published_def)
qed

lemma release_pull_frame:
  assumes "release_pull U at pr db = Inr db'"
  shows "same_published db' db \<and> d_pulls db' = d_pulls db"
proof -
  let ?to = "publishedCollections db (pr_Repository pr) (pr_Number pr)"
  from assms obtain a where a: "foldR (\<lambda>c d. writeQualityAssessment U c pr (policy_of db c) at d) ?to db = Inr a"
    and b: "enqueuePullRequestDiffTx (pr\<lparr>pr_CollectionIDs := ?to\<rparr>) at a = Inr db'"
    by (auto simp: release_pull_def bindR_eq_Inr Let_def)
  from foldR_frame [OF writeQualityAssessment_frame a] enqueuePullRequestDiffTx_frame [OF b]
  show ?thesis by (auto simp: same_published_def)
qed

lemma record_success_frame:
  "same_published (record_success r at limits md db) db \<and> d_pulls (record_success r at limits md db) = d_pulls db"
  by (simp add: record_success_def same_published_def Let_def)

section \<open>The desired memberships\<close>

definition collections_of :: "pr_db \<Rightarrow> string \<Rightarrow> pull_request \<Rightarrow> string list" where
  "collections_of db repository pr =
     (if pr_CollectionIDs pr = [] then active_collections db repository else pr_CollectionIDs pr)"

lemma add_desired_Inr:
  "add_desired db r n cs acc = Inr acc' \<Longrightarrow>
     acc' = acc @ map (\<lambda>c. (c, r, n)) cs \<and> (\<forall>c\<in>set cs. active_repository db c r)"
proof (induction cs arbitrary: acc)
  case Nil
  then show ?case by simp
next
  case (Cons c cs)
  then have "add_desired db r n cs (acc @ [(c, r, n)]) = Inr acc'" "active_repository db c r"
    by (simp_all add: failIf_eq_Inr)
  with Cons.IH [of "acc @ [(c, r, n)]"] show ?case by simp
qed

lemma desired_members_Inr:
  assumes "desired_members db r prs = Inr desired"
  shows "set desired = (\<Union>pr\<in>set prs. (\<lambda>c. (c, r, pr_Number pr)) ` set (collections_of db r pr)) \<and>
    (\<forall>pr\<in>set prs. \<forall>c\<in>set (collections_of db r pr). active_repository db c r)"
proof -
  let ?f = "\<lambda>pr acc. add_desired db r (pr_Number pr) (collections_of db r pr) acc"
  have "set desired = set acc \<union> (\<Union>pr\<in>set prs. (\<lambda>c. (c, r, pr_Number pr)) ` set (collections_of db r pr)) \<and>
    (\<forall>pr\<in>set prs. \<forall>c\<in>set (collections_of db r pr). active_repository db c r)"
    if "foldR ?f prs acc = Inr desired" for acc
    using that
  proof (induction prs arbitrary: acc)
    case Nil
    then show ?case by simp
  next
    case (Cons pr prs)
    from Cons.prems obtain b where b: "?f pr acc = Inr b" "foldR ?f prs b = Inr desired"
      by (auto simp: bindR_eq_Inr)
    from add_desired_Inr [OF b(1)] Cons.IH [OF b(2)] show ?case by auto
  qed
  from this [of "[]"] assms show ?thesis by (simp add: desired_members_def collections_of_def)
qed

lemma normalize_all_Inr:
  "normalize_all r prs = Inr ps \<Longrightarrow>
     map pr_Number ps = map pr_Number prs \<and> map pr_CollectionIDs ps = map pr_CollectionIDs prs \<and>
     (\<forall>p\<in>set ps. pr_Repository p = r)"
proof (induction prs arbitrary: ps)
  case Nil
  then show ?case by simp
next
  case (Cons pr prs)
  from Cons.prems obtain p qs where p: "pr_Repository pr = r" "normalizePullRequest pr = Inr p"
    and q: "normalize_all r prs = Inr qs" "ps = p # qs"
    by (auto simp: bindR_eq_Inr failIf_eq_Inr)
  from p have "pr_Number p = pr_Number pr \<and> pr_CollectionIDs p = pr_CollectionIDs pr \<and> pr_Repository p = r"
    by (auto simp: normalizePullRequest_def failIf_eq_Inr)
  with Cons.IH [OF q(1)] q show ?case by simp
qed

section \<open>The published state\<close>

definition published :: "pr_db \<Rightarrow> member set" where
  "published db = set (d_members db)"

definition publish_spec :: "string \<Rightarrow> member set \<Rightarrow> member set \<Rightarrow> member set" where
  "publish_spec repository desired P = {m \<in> P. fst (snd m) \<noteq> repository} \<union> desired"

definition personal_ok :: "pr_db \<Rightarrow> string \<Rightarrow> bool" where
  "personal_ok db repository \<longleftrightarrow>
     (\<forall>x\<in>set (d_important db). fst (snd (ps_member x)) = repository \<longrightarrow> ps_member x \<in> published db) \<and>
     (\<forall>x\<in>set (d_hidden db). fst (snd (ps_member x)) = repository \<longrightarrow> ps_member x \<in> published db)"

definition pulls_ok :: "pr_db \<Rightarrow> string \<Rightarrow> bool" where
  "pulls_ok db repository \<longleftrightarrow>
     (\<forall>r\<in>set (d_pulls db). pu_repository r = repository \<longrightarrow> pull_key r \<in> snd ` published db)"

lemma set_insert_ignore_all:
  "set (foldl (\<lambda>t m. insert_ignore id m t) t ms) = set t \<union> set ms"
proof (induction ms arbitrary: t)
  case Nil
  then show ?case by simp
next
  case (Cons m ms)
  have "set (insert_ignore id m t) = insert m (set t)" by (rule set_insert_ignore) simp
  then show ?case unfolding foldl_Cons Cons by auto
qed

lemma publish_members_published:
  assumes "\<forall>m\<in>set desired. fst (snd m) = repository"
  shows "published (publish_members repository desired db) = publish_spec repository (set desired) (published db)
    \<and> personal_ok (publish_members repository desired db) repository
    \<and> pulls_ok (publish_members repository desired db) repository
    \<and> d_collections (publish_members repository desired db) = d_collections db
    \<and> d_repositories (publish_members repository desired db) = d_repositories db"
proof -
  define db1 where "db1 = delete_members (\<lambda>m. fst (snd m) = repository \<and> m \<notin> set desired) db"
  define db2 where "db2 = db1\<lparr>d_members := foldl (\<lambda>t m. insert_ignore id m t) (d_members db1) desired\<rparr>"
  define db3 where "db3 = delete_pulls (\<lambda>k. fst k = repository \<and> k \<notin> snd ` set (d_members db2)) db2"
  note dbs = db1_def db2_def db3_def
  have m2: "set (d_members db2) = publish_spec repository (set desired) (published db)"
    using assms by (auto simp: db2_def db1_def set_insert_ignore_all set_delete_where publish_spec_def published_def)
  have m3: "set (d_members db3) = set (d_members db2)"
    unfolding db3_def delete_pulls_def Let_def by (auto simp: set_delete_where)
  have final: "publish_members repository desired db =
      db3\<lparr> d_important := delete_where (\<lambda>r. fst (snd (ps_member r)) = repository \<and>
             ps_member r \<notin> set (d_members db3)) (d_important db3),
           d_hidden := delete_where (\<lambda>r. fst (snd (ps_member r)) = repository \<and>
             ps_member r \<notin> set (d_members db3)) (d_hidden db3) \<rparr>"
    unfolding publish_members_def Let_def dbs ..
  have pulls: "pulls_ok (publish_members repository desired db) repository"
    unfolding pulls_ok_def final published_def using m3
    by (auto simp: db3_def set_delete_where pull_key_def)
  have pers: "personal_ok (publish_members repository desired db) repository"
    unfolding personal_ok_def final published_def by (auto simp: set_delete_where)
  have rest: "d_collections (publish_members repository desired db) = d_collections db"
    "d_repositories (publish_members repository desired db) = d_repositories db"
    unfolding final by (simp_all add: db3_def db2_def db1_def)
  show ?thesis using m2 m3 pulls pers rest by (simp add: final published_def)
qed

lemma write_all_frame:
  assumes "foldR write_pull ps db = Inr db1"
  shows "same_published db1 db"
proof (rule foldR_invariant [OF _ assms, where P = "\<lambda>t. same_published t db"])
  show "same_published s' db" if "write_pull x s = Inr s'" "same_published s db" for x s s'
    using write_pull_frame [OF that(1)] that(2) same_published_step by blast
qed simp

lemma snapshot_steps:
  assumes "replaceRepositorySnapshot U repository prs completedAt limits md db = Inr db'"
  obtains ps db1 desired db2 where "normalize_all repository prs = Inr ps"
    and "foldR write_pull ps db = Inr db1"
    and "desired_members db1 repository ps = Inr desired"
    and "foldR (release_pull U completedAt) ps
      (publish_members repository desired (retain_closed repository desired completedAt db1)) = Inr db2"
    and "db' = record_success repository completedAt limits md db2"
  using assms unfolding replaceRepositorySnapshot_def bindR_eq_Inr failIf_eq_Inr by blast

lemma map_pair_eq:
  assumes "map f xs = map f ys" "map g xs = map g ys"
  shows "map (\<lambda>x. (f x, g x)) xs = map (\<lambda>x. (f x, g x)) ys"
proof -
  have "map (\<lambda>x. (f x, g x)) zs = zip (map f zs) (map g zs)" for zs by (induction zs) simp_all
  with assms show ?thesis by simp
qed

section \<open>A concrete snapshot\<close>

definition sample_readiness :: readiness where
  "sample_readiness = \<lparr> rd_RequestedReviewers = [], rd_RequestedTeams = [], rd_Mergeable = None,
     rd_MergeableState = [], rd_ChecksTotal = 0, rd_Runs = [], rd_CollectedAt = 0 \<rparr>"

definition sample_pull :: "int \<Rightarrow> string list \<Rightarrow> pull_request" where
  "sample_pull n ids = \<lparr> pr_Repository = ''o/r'', pr_Number = n, pr_HeadSHA = ''h'', pr_Title = ''t'',
     pr_Author = ''a'', pr_AuthorID = 7, pr_Additions = 1, pr_Deletions = 0, pr_ChangedFiles = 1,
     pr_CreatedAt = 0, pr_UpdatedAt = second, pr_URL = ''u'', pr_ReviewState = [],
     pr_Readiness = sample_readiness, pr_Body = [], pr_CollectionIDs = ids, pr_Context = None,
     pr_Files = [], pr_AuthorHistory = None, pr_FingerprintVersion = ''1'', pr_Fingerprint = ''f'',
     pr_CachePayload = ''p'' \<rparr>"

definition empty_queue :: "'p queue" where
  "empty_queue = \<lparr> q_jobs = [], q_next = 1 \<rparr>"

definition sample_pr_db :: pr_db where
  "sample_pr_db = \<lparr> d_collections = [\<lparr> c_id = ''c'', c_active = True, c_quality_policy = None,
       c_model_provider = [], c_contribution_refresh_seconds = 604800 \<rparr>],
     d_repositories = [(''c'', ''o/r''), (''c'', ''o/s'')], d_pulls = [pull_row_of (sample_pull 9 [])],
     d_files = [], d_contexts = [], d_relationships = [], d_externals = [],
     d_members = [(''c'', ''o/r'', 9), (''c'', ''o/s'', 3)], d_quality = [], d_authors = [],
     d_contributions = [], d_results = [], d_attempts = [], d_retained = [], d_analysis = empty_queue,
     d_diffs = empty_queue, d_evidence = [], d_sources = [],
     d_important = [\<lparr> ps_user = 5, ps_member = (''c'', ''o/r'', 9) \<rparr>], d_hidden = [], d_refreshes = [],
     d_limits = [] \<rparr>"

definition sample_metadata :: snapshot_metadata where
  "sample_metadata = \<lparr> sm_FullReconciliation = False, sm_Forced = False, sm_CacheHits = 0,
     sm_CacheMisses = 1, sm_CacheBypasses = 0 \<rparr>"

lemma sample_snapshot_succeeds:
  "\<not> isl (replaceRepositorySnapshot (\<lambda>s. s) ''o/r'' [sample_pull 1 []] second [] sample_metadata sample_pr_db)"
  by (simp add: replaceRepositorySnapshot_def normalizePullRequest_def write_pull_def
      upsertPullRequestRow_def replacePullRequestFiles_def replacePullRequestContext_def
      desired_members_def active_collections_def active_repository_def configured_repository_def
      retain_closed_def publish_members_def release_pull_def publishedCollections_def
      writeQualityAssessment_def enqueuePullRequestDiffTx_def diff_completeness_def
      delete_members_def delete_pulls_def delete_where_def insert_ignore_def upsert_def
      update_where_def pull_key_def key_of_def pull_row_of_def
      sample_pull_def sample_pr_db_def IsZero_def second_def Let_def)

text \<open>
  C9. Replacing the snapshot of a repository refines one assignment: the memberships of that
  repository become exactly the pairs of a snapshot pull request and a collection it belongs
  to (all active collections of the repository when it names none), those of every other
  repository stay; afterwards no stored pull request of the repository is without a
  membership, and no personal mark refers to one that is not published. On any error nothing
  changes.
\<close>

theorem replaceRepositorySnapshot_publishes:
  assumes "replaceRepositorySnapshot U repository prs completedAt limits md db = Inr db'"
  shows "published db' = publish_spec repository
      (\<Union>pr\<in>set prs. (\<lambda>c. (c, repository, pr_Number pr)) ` set (collections_of db repository pr)) (published db)
    \<and> pulls_ok db' repository \<and> personal_ok db' repository"
proof -
  from assms obtain ps db1 desired db2 where ps: "normalize_all repository prs = Inr ps"
    and db1: "foldR write_pull ps db = Inr db1"
    and desired: "desired_members db1 repository ps = Inr desired"
    and db2: "foldR (release_pull U completedAt) ps
      (publish_members repository desired (retain_closed repository desired completedAt db1)) = Inr db2"
    and db': "db' = record_success repository completedAt limits md db2"
    by (rule snapshot_steps)
  have s1: "same_published db1 db" by (rule write_all_frame [OF db1])
  let ?r = "retain_closed repository desired completedAt db1"
  let ?p = "publish_members repository desired ?r"
  have r: "published ?r = published db" using s1 by (simp add: retain_closed_def published_def same_published_def)
  have "\<forall>m\<in>set desired. fst (snd m) = repository"
    using desired_members_Inr [OF desired] by auto
  note p = publish_members_published [OF this, of ?r]
  have "same_published db2 ?p \<and> d_pulls db2 = d_pulls ?p"
    by (rule foldR_frame [OF release_pull_frame db2])
  with record_success_frame [of repository completedAt limits md db2]
  have s2: "same_published db' ?p \<and> d_pulls db' = d_pulls ?p"
    unfolding db' by (auto intro: same_published_trans)
  have eq: "published db' = published ?p" "pulls_ok db' repository = pulls_ok ?p repository"
    "personal_ok db' repository = personal_ok ?p repository"
    using s2 by (simp_all add: published_def pulls_ok_def personal_ok_def same_published_def)
  have coll: "collections_of db1 repository pr = collections_of db repository pr" for pr
    using s1 by (simp add: collections_of_def active_collections_def active_repository_def same_published_def)
  let ?g = "\<lambda>ids. if ids = [] then active_collections db repository else ids"
  have keys: "map (\<lambda>pr. (pr_Number pr, pr_CollectionIDs pr)) ps =
      map (\<lambda>pr. (pr_Number pr, pr_CollectionIDs pr)) prs"
    using normalize_all_Inr [OF ps] by (intro map_pair_eq) simp_all
  have U: "(\<Union>pr\<in>set qs. (\<lambda>c. (c, repository, pr_Number pr)) ` set (collections_of db repository pr)) =
      (\<Union>x\<in>set (map (\<lambda>pr. (pr_Number pr, pr_CollectionIDs pr)) qs). (\<lambda>c. (c, repository, fst x)) ` set (?g (snd x)))"
    for qs unfolding collections_of_def set_map image_image fst_conv snd_conv ..
  have "set desired = (\<Union>pr\<in>set ps. (\<lambda>c. (c, repository, pr_Number pr)) ` set (collections_of db repository pr))"
    using desired_members_Inr [OF desired] unfolding coll by blast
  also have "\<dots> = (\<Union>pr\<in>set prs. (\<lambda>c. (c, repository, pr_Number pr)) ` set (collections_of db repository pr))"
    unfolding U keys ..
  finally show ?thesis using p r eq by simp
qed

lemma replaceRepositorySnapshot_publishes_witness:
  "published (projr (replaceRepositorySnapshot (\<lambda>s. s) ''o/r'' [sample_pull 1 []] second []
     sample_metadata sample_pr_db)) = {(''c'', ''o/s'', 3), (''c'', ''o/r'', 1)}"
proof -
  let ?r = "replaceRepositorySnapshot (\<lambda>s. s) ''o/r'' [sample_pull 1 []] second [] sample_metadata sample_pr_db"
  have "?r = Inr (projr ?r)" using sample_snapshot_succeeds by (cases ?r) simp_all
  from replaceRepositorySnapshot_publishes [OF this]
  have "published (projr ?r) = publish_spec ''o/r'' (\<Union>pr\<in>set [sample_pull 1 []].
      (\<lambda>c. (c, ''o/r'', pr_Number pr)) ` set (collections_of sample_pr_db ''o/r'' pr)) (published sample_pr_db)"
    by blast
  also have "collections_of sample_pr_db ''o/r'' (sample_pull 1 []) = [''c'']" by code_simp
  then have "publish_spec ''o/r'' (\<Union>pr\<in>set [sample_pull 1 []].
      (\<lambda>c. (c, ''o/r'', pr_Number pr)) ` set (collections_of sample_pr_db ''o/r'' pr)) (published sample_pr_db) =
      {(''c'', ''o/s'', 3), (''c'', ''o/r'', 1)}"
    by (simp add: publish_spec_def published_def sample_pr_db_def sample_pull_def) auto
  finally show ?thesis .
qed

end
