(* ===== verification/Progress.thy ===== *)
theory Progress
  imports Tables
begin

text \<open>
  Qualifying activity (\<open>internal/storage/progress.go\<close>): the progress checkpoint of a repository,
  recorded events and review-thread observations, and private goal preferences. \<open>repos\<close> is the
  table \<open>collection_repositories\<close>. The time zone database is a parameter.
\<close>

section \<open>Calendar arithmetic\<close>

text \<open>\<open>Time.AddDate(0, k, 0)\<close>: the month is normalised and an overflowing day runs into the next month.\<close>

definition add_months :: "int \<Rightarrow> time \<Rightarrow> time" where
  "add_months k t =
     (let d = t div day; y = year_of d; (m, dom) = month_day y (d - days_before_year y);
          n = 12 * y + (m - 1) + k; y' = n div 12
      in (days_before_year y' + sum_list (take (nat (n mod 12)) (month_lengths y')) + (dom - 1)) * day +
         t mod day)"

section \<open>Types\<close>

definition defaultQualifyingActivities :: "string list" where
  "defaultQualifyingActivities = [''review'', ''comment'', ''thread_resolved'', ''merge'', ''close'']"

record progress_event =
  pe_ID :: string
  pe_ActorID :: int
  pe_ActivityType :: string
  pe_Repository :: string
  pe_Number :: int
  pe_Title :: string
  pe_PullRequestURL :: string
  pe_ActivityURL :: string
  pe_OccurredAt :: time
  pe_CollectionIDs :: "string list"

record thread_state =
  th_ID :: string
  th_Resolved :: bool
  th_ResolvedBy :: int
  th_Repository :: string
  th_Number :: int
  th_Title :: string
  th_PullRequestURL :: string
  th_ActivityURL :: string
  th_CollectionIDs :: "string list"

record event_row =
  er_collection :: string
  er_repository :: string
  er_number :: int
  er_event_id :: string
  er_actor :: int
  er_activity :: string
  er_title :: string
  er_pull_url :: string
  er_activity_url :: string
  er_occurred_at :: string
  er_collected_at :: string

record thread_row =
  tw_collection :: string
  tw_repository :: string
  tw_number :: int
  tw_thread_id :: string
  tw_resolved :: bool
  tw_resolved_by :: int
  tw_title :: string
  tw_pull_url :: string
  tw_activity_url :: string
  tw_observed_at :: string

record goal_preferences =
  gp_Target :: int
  gp_EnabledActivities :: "string list"
  gp_Timezone :: string
  gp_Configured :: bool

record goal_row =
  go_user :: int
  go_collection :: string
  go_goal :: goal_preferences

record progress_db =
  pg_collected :: "(string \<times> string) list"
  pg_events :: "event_row list"
  pg_threads :: "thread_row list"
  pg_goals :: "goal_row list"

datatype progress_error =
    MissingCollection | RepositoryNotConfigured string | InconsistentEvent
  | UnsupportedActivity string | InconsistentThread | CollectionWithoutRepository string
  | ProgressTime string | BadTarget | NoActivity | BadTimezone string | GoalCollectionNotFound

definition event_key :: "event_row \<Rightarrow> string \<times> string \<times> int \<times> string \<times> string" where
  "event_key r = (er_collection r, er_repository r, er_number r, er_event_id r, er_activity r)"

definition thread_key :: "thread_row \<Rightarrow> string \<times> string \<times> int \<times> string" where
  "thread_key r = (tw_collection r, tw_repository r, tw_number r, tw_thread_id r)"

section \<open>The checkpoint\<close>

text \<open>\<open>None\<close> as the parsed time stands for a stored text that does not parse.\<close>

definition RepositoryProgressCollectedAt ::
  "(string \<Rightarrow> time option) \<Rightarrow> string \<Rightarrow> progress_db \<Rightarrow> progress_error + time" where
  "RepositoryProgressCollectedAt parse repository db =
     (case map_of (pg_collected db) repository of
        None \<Rightarrow> Inr 0
      | Some at \<Rightarrow> (case parse at of None \<Rightarrow> Inl (ProgressTime at) | Some t \<Rightarrow> Inr t))"

section \<open>Events\<close>

definition validateProgressEvent :: "progress_event \<Rightarrow> string \<Rightarrow> progress_error option" where
  "validateProgressEvent e repository =
     seqE (guardE (pe_ID e = [] \<or> pe_ActorID e \<le> 0 \<or> pe_Repository e \<noteq> repository \<or> pe_Number e \<le> 0 \<or>
             pe_Title e = [] \<or> pe_PullRequestURL e = [] \<or> pe_ActivityURL e = [] \<or>
             IsZero (pe_OccurredAt e)) InconsistentEvent)
          (guardE (pe_ActivityType e \<notin> set defaultQualifyingActivities)
             (UnsupportedActivity (pe_ActivityType e)))"

definition event_row_of :: "progress_event \<Rightarrow> string \<Rightarrow> time \<Rightarrow> event_row" where
  "event_row_of e c collectedAt =
     \<lparr> er_collection = c, er_repository = pe_Repository e, er_number = pe_Number e,
       er_event_id = pe_ID e, er_actor = pe_ActorID e, er_activity = pe_ActivityType e,
       er_title = pe_Title e, er_pull_url = pe_PullRequestURL e, er_activity_url = pe_ActivityURL e,
       er_occurred_at = formatTime (pe_OccurredAt e), er_collected_at = formatTime collectedAt \<rparr>"

definition insertProgressEvent :: "progress_event \<Rightarrow> string \<Rightarrow> time \<Rightarrow> progress_db \<Rightarrow> progress_db" where
  "insertProgressEvent e c collectedAt db =
     db\<lparr>pg_events := insert_ignore event_key (event_row_of e c collectedAt) (pg_events db)\<rparr>"

definition collections_for :: "(string \<times> string) list \<Rightarrow> string \<Rightarrow> string list \<Rightarrow> string list" where
  "collections_for repos repository ids =
     (if ids = [] then map fst (filter (\<lambda>r. snd r = repository) repos) else ids)"

text \<open>One collection of one event: ignored when known, an error when not configured and not known.\<close>

fun record_event_in ::
  "(string \<times> string) list \<Rightarrow> string \<Rightarrow> time \<Rightarrow> progress_event \<Rightarrow> string list \<Rightarrow> progress_db \<Rightarrow>
     progress_error + progress_db" where
  "record_event_in repos repository collectedAt e [] db = Inr db"
| "record_event_in repos repository collectedAt e (c # cs) db =
     (let row = event_row_of (e\<lparr>pe_Repository := repository\<rparr>) c collectedAt in
      if (c, repository) \<in> set repos
      then record_event_in repos repository collectedAt e cs
        (db\<lparr>pg_events := insert_ignore event_key row (pg_events db)\<rparr>)
      else if list_ex (\<lambda>r. event_key r = event_key row) (pg_events db)
      then record_event_in repos repository collectedAt e cs db
      else Inl (CollectionWithoutRepository c))"

fun record_events ::
  "(string \<times> string) list \<Rightarrow> string \<Rightarrow> time \<Rightarrow> progress_event list \<Rightarrow> progress_db \<Rightarrow>
     progress_error + progress_db" where
  "record_events repos repository collectedAt [] db = Inr db"
| "record_events repos repository collectedAt (e # es) db =
     failE (validateProgressEvent e repository)
    (bindR (record_event_in repos repository collectedAt e
        (collections_for repos repository (pe_CollectionIDs e)) db)
      (record_events repos repository collectedAt es))"

section \<open>Review threads\<close>

definition validateThread :: "thread_state \<Rightarrow> string \<Rightarrow> progress_error option" where
  "validateThread t repository =
     guardE (th_ID t = [] \<or> th_Repository t \<noteq> repository \<or> th_Number t \<le> 0 \<or> th_Title t = [] \<or>
       th_PullRequestURL t = [] \<or> th_ActivityURL t = [] \<or> th_Resolved t \<and> th_ResolvedBy t \<le> 0)
       InconsistentThread"

definition thread_row_of :: "thread_state \<Rightarrow> string \<Rightarrow> string \<Rightarrow> time \<Rightarrow> thread_row" where
  "thread_row_of t c repository collectedAt =
     \<lparr> tw_collection = c, tw_repository = repository, tw_number = th_Number t, tw_thread_id = th_ID t,
       tw_resolved = th_Resolved t, tw_resolved_by = th_ResolvedBy t, tw_title = th_Title t,
       tw_pull_url = th_PullRequestURL t, tw_activity_url = th_ActivityURL t,
       tw_observed_at = formatTime collectedAt \<rparr>"

definition resolved_event :: "thread_state \<Rightarrow> string \<Rightarrow> string \<Rightarrow> time \<Rightarrow> progress_event" where
  "resolved_event t c repository collectedAt =
     \<lparr> pe_ID = th_ID t @ ''@'' @ formatTime collectedAt, pe_ActorID = th_ResolvedBy t,
       pe_ActivityType = ''thread_resolved'', pe_Repository = repository, pe_Number = th_Number t,
       pe_Title = th_Title t, pe_PullRequestURL = th_PullRequestURL t,
       pe_ActivityURL = th_ActivityURL t, pe_OccurredAt = collectedAt, pe_CollectionIDs = [c] \<rparr>"

definition was_resolved :: "progress_db \<Rightarrow> thread_row \<Rightarrow> bool option" where
  "was_resolved db row =
     map_option tw_resolved (find (\<lambda>r. thread_key r = thread_key row) (pg_threads db))"

text \<open>Only a stored unresolved observation that is now resolved counts.\<close>

definition observe_thread ::
  "string \<Rightarrow> time \<Rightarrow> thread_state \<Rightarrow> string \<Rightarrow> progress_db \<Rightarrow> progress_db" where
  "observe_thread repository collectedAt t c db =
     (let row = thread_row_of t c repository collectedAt;
          db1 = (if was_resolved db row = Some False \<and> th_Resolved t
            then insertProgressEvent (resolved_event t c repository collectedAt) c collectedAt db else db)
      in db1\<lparr>pg_threads := upsert thread_key (\<lambda>old new. new) row (pg_threads db1)\<rparr>)"

fun record_thread_in ::
  "(string \<times> string) list \<Rightarrow> string \<Rightarrow> time \<Rightarrow> thread_state \<Rightarrow> string list \<Rightarrow> progress_db \<Rightarrow>
     progress_error + progress_db" where
  "record_thread_in repos repository collectedAt t [] db = Inr db"
| "record_thread_in repos repository collectedAt t (c # cs) db =
     failIf ((c, repository) \<notin> set repos) (CollectionWithoutRepository c)
       (record_thread_in repos repository collectedAt t cs (observe_thread repository collectedAt t c db))"

fun record_threads ::
  "(string \<times> string) list \<Rightarrow> string \<Rightarrow> time \<Rightarrow> thread_state list \<Rightarrow> progress_db \<Rightarrow>
     progress_error + progress_db" where
  "record_threads repos repository collectedAt [] db = Inr db"
| "record_threads repos repository collectedAt (t # ts) db =
     failE (validateThread t repository)
    (bindR (record_thread_in repos repository collectedAt t
        (collections_for repos repository (th_CollectionIDs t)) db)
      (record_threads repos repository collectedAt ts))"

definition prune :: "time \<Rightarrow> progress_db \<Rightarrow> progress_db" where
  "prune collectedAt db =
     (let limit = formatTime (add_months (- 3) collectedAt) in
      db\<lparr> pg_events := delete_where (\<lambda>r. er_occurred_at r < limit) (pg_events db),
          pg_threads := delete_where (\<lambda>r. tw_observed_at r < limit) (pg_threads db) \<rparr>)"

definition RecordProgressSnapshot ::
  "(string \<times> string) list \<Rightarrow> string \<Rightarrow> progress_event list \<Rightarrow> thread_state list \<Rightarrow> time \<Rightarrow>
     progress_db \<Rightarrow> progress_error + progress_db" where
  "RecordProgressSnapshot repos repository events threads collectedAt db =
     failIf (repository = [] \<or> IsZero collectedAt) MissingCollection
    (failIf (\<not> list_ex (\<lambda>r. snd r = repository) repos) (RepositoryNotConfigured repository)
    (bindR (record_events repos repository collectedAt events
        (db\<lparr>pg_collected := upsert fst (\<lambda>old new. new) (repository, formatTime collectedAt) (pg_collected db)\<rparr>))
      (\<lambda>db1. bindR (record_threads repos repository collectedAt threads db1)
        (\<lambda>db2. Inr (prune collectedAt db2)))))"

section \<open>Goals\<close>

definition normalizeQualifyingActivities :: "string list \<Rightarrow> progress_error + string list" where
  "normalizeQualifyingActivities activities =
     failE (first_err (\<lambda>a. guardE (a \<notin> set defaultQualifyingActivities) (UnsupportedActivity a)) activities)
    (failIf (activities = []) NoActivity
    (Inr (filter (\<lambda>a. a \<in> set activities) defaultQualifyingActivities)))"

definition SetGoalPreferences ::
  "(string \<Rightarrow> bool) \<Rightarrow> string list \<Rightarrow> int \<Rightarrow> string \<Rightarrow> goal_preferences \<Rightarrow> progress_db \<Rightarrow>
     progress_error + progress_db" where
  "SetGoalPreferences zone collections user collection p db =
     failIf (user \<le> 0 \<or> gp_Target p < 1 \<or> 1000 < gp_Target p) BadTarget
    (bindR (normalizeQualifyingActivities (gp_EnabledActivities p)) (\<lambda>activities.
     failIf (\<not> zone (gp_Timezone p)) (BadTimezone (gp_Timezone p))
    (failIf (collection \<notin> set collections) GoalCollectionNotFound
    (Inr (db\<lparr>pg_goals := upsert (\<lambda>r. (go_user r, go_collection r)) (\<lambda>old new. new)
       \<lparr> go_user = user, go_collection = collection, go_goal = p\<lparr>gp_EnabledActivities := activities\<rparr> \<rparr>
       (pg_goals db)\<rparr>)))))"

definition goalPreferences :: "string list \<Rightarrow> int \<Rightarrow> string \<Rightarrow> progress_db \<Rightarrow> progress_error + goal_preferences" where
  "goalPreferences collections user collection db =
     (case find (\<lambda>r. go_user r = user \<and> go_collection r = collection) (pg_goals db) of
        None \<Rightarrow> failIf (collection \<notin> set collections) GoalCollectionNotFound
          (Inr \<lparr> gp_Target = 10, gp_EnabledActivities = defaultQualifyingActivities,
                 gp_Timezone = ''UTC'', gp_Configured = False \<rparr>)
      | Some r \<Rightarrow> Inr ((go_goal r)\<lparr>gp_Configured := True\<rparr>))"

text \<open>
  A saved goal reads back with the same target and time zone and its activities in the
  fixed order, each once and at least one; users and collections without a saved goal keep the
  default.
\<close>

theorem goal_roundtrip:
  assumes "SetGoalPreferences zone collections user collection p db = Inr db'"
  shows "\<exists>g. goalPreferences collections user collection db' = Inr g \<and> gp_Target g = gp_Target p \<and>
    gp_Timezone g = gp_Timezone p \<and> gp_Configured g \<and>
    set (gp_EnabledActivities g) = set (gp_EnabledActivities p) \<and> gp_EnabledActivities g \<noteq> [] \<and>
    distinct (gp_EnabledActivities g)"
proof -
  let ?a = "filter (\<lambda>a. a \<in> set (gp_EnabledActivities p)) defaultQualifyingActivities"
  let ?k = "\<lambda>r. (go_user r, go_collection r)"
  let ?row = "\<lparr> go_user = user, go_collection = collection, go_goal = p\<lparr>gp_EnabledActivities := ?a\<rparr> \<rparr>"
  have acts: "set (gp_EnabledActivities p) \<subseteq> set defaultQualifyingActivities" "gp_EnabledActivities p \<noteq> []"
    and db': "db' = db\<lparr>pg_goals := upsert ?k (\<lambda>old new. new) ?row (pg_goals db)\<rparr>"
    using assms by (auto simp: SetGoalPreferences_def normalizeQualifyingActivities_def bindR_eq_Inr
        failIf_eq_Inr failE_eq_Inr)
  have set_a: "set ?a = set (gp_EnabledActivities p)" using acts(1) by auto
  with acts(2) have ne: "?a \<noteq> []" by (metis set_empty)
  have "distinct defaultQualifyingActivities" by (simp add: defaultQualifyingActivities_def)
  then have d: "distinct ?a" by (rule distinct_filter)
  have "find (\<lambda>r. go_user r = user \<and> go_collection r = collection) (upsert ?k (\<lambda>old new. new) ?row t) =
      Some ?row" for t
    by (induction t) (auto simp: upsert_def update_where_def)
  then show ?thesis using set_a ne d by (simp add: db' goalPreferences_def)
qed

lemma goal_roundtrip_witness:
  "\<exists>g. goalPreferences [''c''] 1 ''c'' (projr (SetGoalPreferences (\<lambda>z. True) [''c''] 1 ''c''
     \<lparr> gp_Target = 5, gp_EnabledActivities = [''merge'', ''review'', ''merge''], gp_Timezone = ''UTC'',
       gp_Configured = False \<rparr> \<lparr> pg_collected = [], pg_events = [], pg_threads = [], pg_goals = [] \<rparr>)) = Inr g \<and>
     gp_Target g = 5"
proof -
  let ?p = "\<lparr> gp_Target = 5, gp_EnabledActivities = [''merge'', ''review'', ''merge''],
    gp_Timezone = ''UTC'', gp_Configured = False \<rparr>"
  let ?db = "\<lparr> pg_collected = [], pg_events = [], pg_threads = [], pg_goals = [] \<rparr>"
  have "SetGoalPreferences (\<lambda>z. True) [''c''] 1 ''c'' ?p ?db =
      Inr (projr (SetGoalPreferences (\<lambda>z. True) [''c''] 1 ''c'' ?p ?db))" by code_simp
  from goal_roundtrip [OF this] show ?thesis by auto
qed

section \<open>Resolved threads\<close>

lemma was_resolved_observed:
  assumes "thread_key (thread_row_of u c repository s) = thread_key (thread_row_of t c repository at)"
  shows "was_resolved (observe_thread repository at t c db) (thread_row_of u c repository s) = Some (th_Resolved t)"
proof -
  let ?row = "thread_row_of t c repository at"
  have "find (\<lambda>r. thread_key r = thread_key ?row) (upsert thread_key (\<lambda>old new. new) ?row rows) = Some ?row"
    for rows by (induction rows) (auto simp: upsert_def update_where_def)
  moreover have "tw_resolved ?row = th_Resolved t" by (simp add: thread_row_of_def)
  ultimately show ?thesis
    by (simp add: was_resolved_def assms observe_thread_def Let_def insertProgressEvent_def)
qed

text \<open>
  Only transitions count: of two successive observations of one review thread the second
  records a resolution exactly when the first saw the thread open and it sees it resolved. A
  thread first seen resolved, seen resolved again or reopened records nothing.
\<close>

theorem thread_resolution_counted_once:
  assumes "th_ID u = th_ID t" "th_Number u = th_Number t"
    and "db1 = observe_thread repository at t c db"
  shows "pg_events (observe_thread repository s u c db1) =
    (if \<not> th_Resolved t \<and> th_Resolved u
     then insert_ignore event_key (event_row_of (resolved_event u c repository s) c s) (pg_events db1)
     else pg_events db1)"
proof -
  have "thread_key (thread_row_of u c repository s) = thread_key (thread_row_of t c repository at)"
    using assms(1,2) by (simp add: thread_key_def thread_row_of_def)
  from was_resolved_observed [OF this, of db] show ?thesis
    unfolding assms(3) observe_thread_def [of repository s u] Let_def
    by (simp add: insertProgressEvent_def)
qed

definition sample_thread :: "bool \<Rightarrow> thread_state" where
  "sample_thread b = \<lparr> th_ID = ''T'', th_Resolved = b, th_ResolvedBy = 4, th_Repository = ''o/r'',
     th_Number = 1, th_Title = ''t'', th_PullRequestURL = ''u'', th_ActivityURL = ''v'', th_CollectionIDs = [] \<rparr>"

lemma thread_resolution_counted_once_witness:
  "length (pg_events (observe_thread ''o/r'' second (sample_thread True) ''c''
     (observe_thread ''o/r'' 0 (sample_thread False) ''c''
       \<lparr> pg_collected = [], pg_events = [], pg_threads = [], pg_goals = [] \<rparr>))) = 1"
proof -
  let ?db = "\<lparr> pg_collected = [], pg_events = [], pg_threads = [], pg_goals = [] \<rparr>"
  have "th_ID (sample_thread True) = th_ID (sample_thread False)"
    "th_Number (sample_thread True) = th_Number (sample_thread False)"
    by (simp_all add: sample_thread_def)
  from thread_resolution_counted_once [OF this refl, of "''o/r''" second "''c''" 0 ?db]
  show ?thesis
    by (simp add: sample_thread_def insert_ignore_def observe_thread_def was_resolved_def Let_def)
qed

end
