(* ===== verification/RefreshStore.thy ===== *)
theory RefreshStore
  imports SnapshotFacts Progress
begin

text \<open>
  Durable refresh work (\<open>internal/storage/refresh_generation.go\<close> and the refresh job operations
  of \<open>internal/storage/store.go\<close> and \<open>internal/storage/periodic.go\<close>): the job queue of
  repositories, the staged generation of a job with its phase and its items, and the batches
  that are published while a generation hydrates. Times in rows are stored text, JSON columns
  hold the decoded value. \<open>parse\<close> is \<open>time.Parse\<close> with the stored layout.
\<close>

section \<open>State\<close>

record refresh_payload =
  rp_repository :: string
  rp_forced :: bool

datatype phase = Hydrating | ProgressPhase | Publishing

record generation_row =
  g_id :: nat
  g_job :: nat
  g_repository :: string
  g_phase :: phase
  g_forced :: bool
  g_discovered_at :: string
  g_progress_since :: "string option"
  g_limits :: "context_limit list"
  g_progress_payload :: string
  g_rediscovery :: bool
  g_retry_count :: nat
  g_failure :: "string \<times> string \<times> string \<times> string"
  g_created_at :: string

record item_row =
  it_generation :: nat
  it_number :: int
  it_collection_ids :: "string list"
  it_completed :: bool
  it_payload :: string
  it_fingerprint_version :: string
  it_fingerprint :: string
  it_cache_outcome :: string

record refresh_db =
  rf_pr :: pr_db
  rf_jobs :: "refresh_payload queue"
  rf_gens :: "generation_row list"
  rf_next_gen :: nat
  rf_items :: "item_row list"
  rf_progress :: progress_db

datatype refresh_error =
    RMissingData | RJobMissing nat | RJobChanged nat | RInvalidNumber | RNoGeneration
  | RBatchSize | RLengthMismatch | RPull pr_error | RIncompleteItem int | RNoPublished int
  | RWrongRepository int | RNotPending int | RNotInPhase phase | RNotRunning nat
  | RTimeParse string | RInvalidState string | RNotConfigured string

text \<open>\<open>RefreshJob\<close>, \<open>RefreshGenerationDiscovery\<close> and the other exported values.\<close>

record refresh_job =
  jb_ID :: nat
  jb_Repository :: string
  jb_ScheduledFor :: time
  jb_Forced :: bool

record discovery =
  dc_Members :: "(int \<times> string list) list"
  dc_Limits :: "context_limit list"
  dc_DiscoveredAt :: time
  dc_ProgressSince :: time

record generation =
  gen_ID :: nat
  gen_RefreshJobID :: nat
  gen_Repository :: string
  gen_Phase :: phase
  gen_Forced :: bool
  gen_DiscoveredAt :: time
  gen_ProgressSince :: time
  gen_Limits :: "context_limit list"
  gen_ProgressPayload :: string
  gen_RediscoveryRequested :: bool
  gen_Pending :: nat
  gen_Completed :: nat
  gen_CacheHits :: nat
  gen_CacheMisses :: nat
  gen_CacheBypasses :: nat
  gen_RetryCount :: nat
  gen_Failure :: "string \<times> string \<times> string \<times> string"

record staged =
  sg_Number :: int
  sg_CollectionIDs :: "string list"
  sg_Payload :: string
  sg_FingerprintVersion :: string
  sg_Fingerprint :: string
  sg_CacheOutcome :: string

definition no_failure :: "string \<times> string \<times> string \<times> string" where
  "no_failure = ([], [], [], [])"

section \<open>Jobs\<close>

definition refresh_key :: "refresh_payload \<Rightarrow> string" where
  "refresh_key = rp_repository"

definition EnqueueRefreshWithForce ::
  "string \<Rightarrow> time \<Rightarrow> bool \<Rightarrow> refresh_db \<Rightarrow> refresh_error + bool \<times> refresh_db" where
  "EnqueueRefreshWithForce repository scheduledFor forced db =
     failIf (\<not> configured_repository (rf_pr db) repository) (RNotConfigured repository)
     (let (new, q) = enqueue_job refresh_key \<lparr> rp_repository = repository, rp_forced = forced \<rparr>
            scheduledFor (rf_jobs db);
          q1 = (if forced then q\<lparr>q_jobs := update_where (\<lambda>j. rp_repository (j_payload j) = repository \<and> active j)
            (\<lambda>j. j\<lparr>j_payload := (j_payload j)\<lparr>rp_forced := True\<rparr>\<rparr>) (q_jobs q)\<rparr> else q)
      in Inr (new, db\<lparr>rf_jobs := q1\<rparr>))"

definition EnqueueRefresh :: "string \<Rightarrow> time \<Rightarrow> refresh_db \<Rightarrow> refresh_error + bool \<times> refresh_db" where
  "EnqueueRefresh repository scheduledFor db = EnqueueRefreshWithForce repository scheduledFor False db"

text \<open>Scheduled refreshes ask active generations to rediscover and enqueue every repository.\<close>

definition active_job_ids :: "refresh_db \<Rightarrow> nat list" where
  "active_job_ids db = map j_id (filter active (q_jobs (rf_jobs db)))"

definition EnqueueAllRefreshes :: "time \<Rightarrow> refresh_db \<Rightarrow> refresh_db" where
  "EnqueueAllRefreshes now db =
     db\<lparr> rf_gens := update_where (\<lambda>g. g_job g \<in> set (active_job_ids db)) (\<lambda>g. g\<lparr>g_rediscovery := True\<rparr>)
           (rf_gens db),
         rf_jobs := foldl (\<lambda>q r. snd (enqueue_job refresh_key
           \<lparr> rp_repository = rr_repository r, rp_forced = False \<rparr> now q)) (rf_jobs db) (d_refreshes (rf_pr db)) \<rparr>"

definition ClaimRefresh ::
  "(string \<Rightarrow> time option) \<Rightarrow> time \<Rightarrow> refresh_db \<Rightarrow> (refresh_error + refresh_job option) \<times> refresh_db" where
  "ClaimRefresh parse now db =
     (case claim_job parse (rf_jobs db) now of
        (Inl e, q) \<Rightarrow> (Inl (RTimeParse e), db\<lparr>rf_jobs := q\<rparr>)
      | (Inr None, q) \<Rightarrow> (Inr None, db\<lparr>rf_jobs := q\<rparr>)
      | (Inr (Some (r, t)), q) \<Rightarrow>
          (Inr (Some \<lparr> jb_ID = j_id r, jb_Repository = rp_repository (j_payload r), jb_ScheduledFor = t,
             jb_Forced = rp_forced (j_payload r) \<rparr>), db\<lparr>rf_jobs := q\<rparr>))"

definition CompleteRefreshJob :: "nat \<Rightarrow> time \<Rightarrow> refresh_db \<Rightarrow> refresh_db" where
  "CompleteRefreshJob i completedAt db = db\<lparr>rf_jobs := finish_job i completedAt (rf_jobs db)\<rparr>"

definition RecoverRefreshJobs :: "refresh_db \<Rightarrow> refresh_db" where
  "RecoverRefreshJobs db = db\<lparr>rf_jobs := recover_jobs (rf_jobs db)\<rparr>"

definition RequeueRefreshJob :: "nat \<Rightarrow> time \<Rightarrow> refresh_db \<Rightarrow> refresh_error + refresh_db" where
  "RequeueRefreshJob i scheduledFor db =
     (let (ok, q) = requeue_job i scheduledFor (rf_jobs db) in
      failIf (\<not> ok) (RNotRunning i) (Inr (db\<lparr>rf_jobs := q\<rparr>)))"

text \<open>Cancellation of work for repositories that no active collection configures any more.\<close>

definition cancel_unconfigured :: "time \<Rightarrow> refresh_db \<Rightarrow> refresh_db" where
  "cancel_unconfigured now db =
     db\<lparr> rf_jobs := finish_where (\<lambda>j. j_status j = Queued \<and>
           \<not> configured_repository (rf_pr db) (rp_repository (j_payload j))) now (rf_jobs db),
         rf_gens := delete_where (\<lambda>g. \<not> configured_repository (rf_pr db) (g_repository g)) (rf_gens db),
         rf_items := delete_where (\<lambda>i. \<exists>g\<in>set (rf_gens db). g_id g = it_generation i \<and>
           \<not> configured_repository (rf_pr db) (g_repository g)) (rf_items db) \<rparr>"

definition RecordRefreshResult :: "string \<Rightarrow> string \<Rightarrow> time \<Rightarrow> string \<Rightarrow> refresh_db \<Rightarrow> refresh_error + refresh_db" where
  "RecordRefreshResult repository state attemptedAt message db =
     failIf (state \<notin> {''stale'', ''running'', ''failed'', ''incomplete''}) (RInvalidState state)
       (Inr (db\<lparr>rf_pr := (rf_pr db)\<lparr>d_refreshes := update_where (\<lambda>r. rr_repository r = repository)
          (\<lambda>r. r\<lparr>rr_state := state, rr_last_attempt_at := Some (formatTime attemptedAt), rr_error := message\<rparr>)
          (d_refreshes (rf_pr db))\<rparr>\<rparr>))"

section \<open>Generations\<close>

definition gen_of :: "refresh_db \<Rightarrow> nat \<Rightarrow> generation_row option" where
  "gen_of db job = find (\<lambda>g. g_job g = job) (rf_gens db)"

definition items_of :: "refresh_db \<Rightarrow> nat \<Rightarrow> item_row list" where
  "items_of db gen = filter (\<lambda>i. it_generation i = gen) (rf_items db)"

definition pending_item :: "nat \<Rightarrow> int \<times> string list \<Rightarrow> item_row" where
  "pending_item gen m = \<lparr> it_generation = gen, it_number = fst m, it_collection_ids = snd m,
     it_completed = False, it_payload = [], it_fingerprint_version = [], it_fingerprint = [],
     it_cache_outcome = [] \<rparr>"

text \<open>\<open>DELETE FROM refresh_generations WHERE refresh_job_id = ?\<close>, with its cascade.\<close>

definition DeleteRefreshGeneration :: "nat \<Rightarrow> refresh_db \<Rightarrow> refresh_db" where
  "DeleteRefreshGeneration job db =
     db\<lparr> rf_gens := delete_where (\<lambda>g. g_job g = job) (rf_gens db),
         rf_items := delete_where (\<lambda>i. list_ex (\<lambda>g. g_job g = job \<and> g_id g = it_generation i) (rf_gens db))
           (rf_items db) \<rparr>"

definition since_text :: "time \<Rightarrow> string option" where
  "since_text t = (if IsZero t then None else Some (formatTime t))"

definition new_generation :: "nat \<Rightarrow> refresh_job \<Rightarrow> bool \<Rightarrow> discovery \<Rightarrow> generation_row" where
  "new_generation gid job forced d =
     \<lparr> g_id = gid, g_job = jb_ID job, g_repository = jb_Repository job,
       g_phase = Hydrating, g_forced = forced,
       g_discovered_at = formatTime (dc_DiscoveredAt d), g_progress_since = since_text (dc_ProgressSince d),
       g_limits = dc_Limits d, g_progress_payload = [], g_rediscovery = False, g_retry_count = 0,
       g_failure = no_failure, g_created_at = formatTime (dc_DiscoveredAt d) \<rparr>"

definition StartRefreshGeneration :: "refresh_job \<Rightarrow> discovery \<Rightarrow> refresh_db \<Rightarrow> refresh_error + refresh_db" where
  "StartRefreshGeneration job d db =
     failIf (jb_ID job = 0 \<or> jb_Repository job = [] \<or> IsZero (dc_DiscoveredAt d)) RMissingData
     (case find (\<lambda>j. j_id j = jb_ID job) (q_jobs (rf_jobs db)) of
        None \<Rightarrow> Inl (RJobMissing (jb_ID job))
      | Some j \<Rightarrow>
         failIf (rp_repository (j_payload j) \<noteq> jb_Repository job \<or> j_status j \<noteq> Running) (RJobChanged (jb_ID job))
        (let db1 = DeleteRefreshGeneration (jb_ID job) db; gid = rf_next_gen db1 in
         failIf (\<exists>m\<in>set (dc_Members d). fst m \<le> 0) RInvalidNumber
        (Inr (db1\<lparr>
           rf_gens := rf_gens db1 @ [new_generation gid job (rp_forced (j_payload j)) d],
           rf_next_gen := gid + 1,
           rf_items := rf_items db1 @ map (pending_item gid) (sort_key fst (dc_Members d))\<rparr>))))"

definition set_members :: "nat \<Rightarrow> (int \<times> string list) list \<Rightarrow> item_row list \<Rightarrow> item_row list" where
  "set_members gid ms items =
     foldl (\<lambda>t m. upsert (\<lambda>i. (it_generation i, it_number i))
         (\<lambda>old new. old\<lparr>it_collection_ids := it_collection_ids new\<rparr>) (pending_item gid m) t)
       (delete_where (\<lambda>i. it_generation i = gid \<and> it_number i \<notin> fst ` set ms) items) ms"

definition rediscovered :: "discovery \<Rightarrow> generation_row \<Rightarrow> generation_row" where
  "rediscovered d g =
     g\<lparr> g_phase := Hydrating, g_discovered_at := formatTime (dc_DiscoveredAt d),
        g_progress_since := since_text (dc_ProgressSince d), g_limits := dc_Limits d,
        g_progress_payload := [], g_rediscovery := False, g_retry_count := 0, g_failure := no_failure \<rparr>"

definition ReconcileRefreshGenerationDiscovery ::
  "nat \<Rightarrow> discovery \<Rightarrow> refresh_db \<Rightarrow> refresh_error + refresh_db" where
  "ReconcileRefreshGenerationDiscovery job d db =
     failIf (IsZero (dc_DiscoveredAt d)) RMissingData
     (case gen_of db job of
        None \<Rightarrow> Inl RNoGeneration
      | Some g \<Rightarrow>
         failIf (\<exists>m\<in>set (dc_Members d). fst m \<le> 0) RInvalidNumber
        (Inr (db\<lparr>
           rf_items := set_members (g_id g) (sort_key fst (dc_Members d)) (rf_items db),
           rf_gens := update_where (\<lambda>x. g_id x = g_id g) (rediscovered d) (rf_gens db)\<rparr>)))"

definition count_items :: "(item_row \<Rightarrow> bool) \<Rightarrow> generation_row \<Rightarrow> refresh_db \<Rightarrow> nat" where
  "count_items p g db = count_where (\<lambda>i. it_generation i = g_id g \<and> p i) (rf_items db)"

definition LoadRefreshGeneration ::
  "(string \<Rightarrow> time option) \<Rightarrow> nat \<Rightarrow> refresh_db \<Rightarrow> refresh_error + generation option" where
  "LoadRefreshGeneration parse job db =
     (case gen_of db job of
        None \<Rightarrow> Inr None
      | Some g \<Rightarrow>
         (case parse (g_discovered_at g) of
            None \<Rightarrow> Inl (RTimeParse (g_discovered_at g))
          | Some at \<Rightarrow>
             (case (case g_progress_since g of None \<Rightarrow> Some 0 | Some s \<Rightarrow> parse s) of
                None \<Rightarrow> Inl (RTimeParse (the (g_progress_since g)))
              | Some since \<Rightarrow> Inr (Some
                  \<lparr> gen_ID = g_id g, gen_RefreshJobID = g_job g, gen_Repository = g_repository g,
                    gen_Phase = g_phase g, gen_Forced = g_forced g, gen_DiscoveredAt = at,
                    gen_ProgressSince = since, gen_Limits = g_limits g,
                    gen_ProgressPayload = g_progress_payload g,
                    gen_RediscoveryRequested = g_rediscovery g,
                    gen_Pending = count_items (\<lambda>i. \<not> it_completed i) g db,
                    gen_Completed = count_items it_completed g db,
                    gen_CacheHits = count_items (\<lambda>i. it_cache_outcome i = ''hit'') g db,
                    gen_CacheMisses = count_items (\<lambda>i. it_cache_outcome i = ''miss'') g db,
                    gen_CacheBypasses = count_items (\<lambda>i. it_cache_outcome i = ''bypass'') g db,
                    gen_RetryCount = g_retry_count g, gen_Failure = g_failure g \<rparr>))))"

definition ActiveRefreshGenerations ::
  "(string \<Rightarrow> time option) \<Rightarrow> refresh_db \<Rightarrow> refresh_error + (string \<times> time) list" where
  "ActiveRefreshGenerations parse db =
     foldR (\<lambda>g acc. case parse (g_created_at g) of
         None \<Rightarrow> Inl (RTimeParse (g_created_at g)) | Some t \<Rightarrow> Inr (acc @ [(g_repository g, t)]))
       (sort_key g_repository (filter (\<lambda>g. g_job g \<in> set (active_job_ids db)) (rf_gens db))) []"

section \<open>Batches\<close>

definition hydrating_gen :: "refresh_db \<Rightarrow> nat \<Rightarrow> generation_row option" where
  "hydrating_gen db job = find (\<lambda>g. g_job g = job \<and> g_phase g = Hydrating) (rf_gens db)"

definition LoadRefreshGenerationBatch ::
  "nat \<Rightarrow> int \<Rightarrow> refresh_db \<Rightarrow> refresh_error + (int \<times> string list) list" where
  "LoadRefreshGenerationBatch job limit db =
     failIf (limit \<le> 0) RBatchSize
     (Inr (case hydrating_gen db job of
        None \<Rightarrow> []
      | Some g \<Rightarrow> map (\<lambda>i. (it_number i, it_collection_ids i))
          (take (nat limit) (sort_key it_number (filter (\<lambda>i. \<not> it_completed i) (items_of db (g_id g)))))))"

definition valid_staged :: "staged \<Rightarrow> bool" where
  "valid_staged i \<longleftrightarrow> \<not> (sg_Number i \<le> 0 \<or> sg_Payload i = [] \<or> sg_FingerprintVersion i = [] \<or>
     sg_Fingerprint i = [] \<or> sg_CacheOutcome i \<notin> {''hit'', ''miss'', ''bypass''})"

text \<open>The last pull request with the number, which is the one the map \<open>published\<close> points to.\<close>

definition last_index :: "int \<Rightarrow> pull_request list \<Rightarrow> nat option" where
  "last_index n prs =
     (case filter (\<lambda>k. pr_Number (prs ! k) = n) [0..<length prs] of [] \<Rightarrow> None | ks \<Rightarrow> Some (last ks))"

fun join_collections :: "string \<Rightarrow> int \<Rightarrow> string list \<Rightarrow> pr_db \<Rightarrow> pr_db" where
  "join_collections repository number [] db = db"
| "join_collections repository number (c # cs) db =
     join_collections repository number cs
       (if active_repository db c repository
        then db\<lparr>d_members := insert_ignore id (c, repository, number) (d_members db)\<rparr> else db)"

definition complete_item :: "nat \<Rightarrow> staged \<Rightarrow> refresh_db \<Rightarrow> refresh_error + refresh_db" where
  "complete_item job item db =
     (let gid = map_option g_id (hydrating_gen db job);
          p = (\<lambda>i. Some (it_generation i) = gid \<and> it_number i = sg_Number item \<and> \<not> it_completed i) in
      failIf (count_where p (rf_items db) \<noteq> 1) (RNotPending (sg_Number item))
       (Inr (db\<lparr>rf_items := update_where p (\<lambda>i. i\<lparr> it_completed := True, it_payload := sg_Payload item,
          it_fingerprint_version := sg_FingerprintVersion item, it_fingerprint := sg_Fingerprint item,
          it_cache_outcome := sg_CacheOutcome item \<rparr>) (rf_items db)\<rparr>)))"

definition lift_pr :: "(pr_db \<Rightarrow> pr_error + pr_db) \<Rightarrow> refresh_db \<Rightarrow> refresh_error + refresh_db" where
  "lift_pr f db = (case f (rf_pr db) of Inl e \<Rightarrow> Inl (RPull e) | Inr d \<Rightarrow> Inr (db\<lparr>rf_pr := d\<rparr>))"

definition publish_item ::
  "nat \<Rightarrow> staged \<Rightarrow> pull_request list \<times> refresh_db \<Rightarrow> refresh_error + pull_request list \<times> refresh_db" where
  "publish_item job item s =
     (let (prs, db) = s in
      failIf (\<not> valid_staged item) (RIncompleteItem (sg_Number item))
     (case last_index (sg_Number item) prs of
        None \<Rightarrow> Inl (RNoPublished (sg_Number item))
      | Some k \<Rightarrow>
         (case hydrating_gen db job of
            None \<Rightarrow> Inl RNoGeneration
          | Some g \<Rightarrow>
             (let pr = (if sg_CollectionIDs item = [] then prs ! k
                    else (prs ! k)\<lparr>pr_CollectionIDs := sg_CollectionIDs item\<rparr>) in
              failIf (pr_Repository pr \<noteq> g_repository g) (RWrongRepository (sg_Number item))
             (bindR (lift_pr (write_pull pr) db) (\<lambda>db1.
              bindR (complete_item job item (db1\<lparr>rf_pr := join_collections (g_repository g) (sg_Number item)
                (pr_CollectionIDs pr) (rf_pr db1)\<rparr>)) (\<lambda>db2. Inr (prs[k := pr], db2))))))))"

fun normalize_batch :: "pull_request list \<Rightarrow> refresh_error + pull_request list" where
  "normalize_batch [] = Inr []"
| "normalize_batch (pr # prs) =
     failIf (pr_Number pr \<le> 0) RInvalidNumber
     (case normalizePullRequest pr of
        Inl e \<Rightarrow> Inl (RPull e)
      | Inr p \<Rightarrow> bindR (normalize_batch prs) (\<lambda>ps. Inr (p # ps)))"

definition assess_batch ::
  "(string \<Rightarrow> string) \<Rightarrow> time \<Rightarrow> pull_request list \<Rightarrow> pr_db \<Rightarrow> pr_error + pr_db" where
  "assess_batch U completedAt prs db =
     foldR (\<lambda>pr d. foldR (\<lambda>c e. writeQualityAssessment U c pr (policy_of e c) completedAt e)
       (pr_CollectionIDs pr) d) prs db"

definition reset_retries :: "nat \<Rightarrow> refresh_db \<Rightarrow> refresh_db" where
  "reset_retries job db = db\<lparr>rf_gens := update_where (\<lambda>g. g_job g = job)
     (\<lambda>g. g\<lparr>g_retry_count := 0, g_failure := no_failure\<rparr>) (rf_gens db)\<rparr>"

definition PublishRefreshGenerationBatch ::
  "(string \<Rightarrow> string) \<Rightarrow> nat \<Rightarrow> staged list \<Rightarrow> pull_request list \<Rightarrow> time \<Rightarrow> refresh_db \<Rightarrow>
     refresh_error + refresh_db" where
  "PublishRefreshGenerationBatch U job items prs completedAt db =
     failIf (length items \<noteq> length prs) RLengthMismatch
    (bindR (normalize_batch prs) (\<lambda>ps.
     bindR (foldR (publish_item job) items (ps, db)) (\<lambda>s.
     bindR (lift_pr (assess_batch U completedAt (fst s)) (snd s)) (\<lambda>db1.
     Inr (reset_retries job db1)))))"

section \<open>Phases\<close>

definition AdvanceRefreshGeneration ::
  "nat \<Rightarrow> phase \<Rightarrow> phase \<Rightarrow> string \<Rightarrow> refresh_db \<Rightarrow> refresh_error + refresh_db" where
  "AdvanceRefreshGeneration job old new payload db =
     (let p = (\<lambda>g. g_job g = job \<and> g_phase g = old) in
      failIf (count_where p (rf_gens db) \<noteq> 1) (RNotInPhase old)
       (Inr (db\<lparr>rf_gens := update_where p (\<lambda>g. g\<lparr> g_phase := new,
          g_progress_payload := (if payload \<noteq> [] then payload else g_progress_payload g),
          g_retry_count := 0, g_failure := no_failure \<rparr>) (rf_gens db)\<rparr>)))"

definition RecordRefreshGenerationRetry ::
  "nat \<Rightarrow> string \<times> string \<times> string \<times> string \<Rightarrow> refresh_db \<Rightarrow> refresh_error + nat \<times> refresh_db" where
  "RecordRefreshGenerationRetry job failure db =
     (let db1 = db\<lparr>rf_gens := update_where (\<lambda>g. g_job g = job)
        (\<lambda>g. g\<lparr>g_retry_count := g_retry_count g + 1, g_failure := failure\<rparr>) (rf_gens db)\<rparr> in
      case gen_of db1 job of None \<Rightarrow> Inl RNoGeneration | Some g \<Rightarrow> Inr (g_retry_count g, db1))"

definition LoadStagedRefreshPullRequests :: "nat \<Rightarrow> refresh_db \<Rightarrow> staged list" where
  "LoadStagedRefreshPullRequests job db =
     (case gen_of db job of
        None \<Rightarrow> []
      | Some g \<Rightarrow> map (\<lambda>i. \<lparr> sg_Number = it_number i, sg_CollectionIDs = it_collection_ids i,
            sg_Payload = it_payload i, sg_FingerprintVersion = it_fingerprint_version i,
            sg_Fingerprint = it_fingerprint i, sg_CacheOutcome = it_cache_outcome i \<rparr>)
          (sort_key it_number (filter it_completed (items_of db (g_id g)))))"

text \<open>Cached pull requests of a repository (\<open>LoadCachedPullRequests\<close>).\<close>

definition LoadCachedPullRequests :: "string \<Rightarrow> refresh_db \<Rightarrow> (int \<times> string \<times> string \<times> string) list" where
  "LoadCachedPullRequests repository db =
     map (\<lambda>r. (pu_number r, pu_fingerprint_version r, pu_fingerprint r, pu_reuse_payload r))
       (filter (\<lambda>r. pu_repository r = repository \<and> pu_fingerprint_version r \<noteq> [] \<and> pu_fingerprint r \<noteq> [] \<and>
          pu_reuse_payload r \<noteq> []) (d_pulls (rf_pr db)))"

end
