(* ===== verification/RefreshFacts.thy ===== *)
theory RefreshFacts
  imports RefreshStore
begin

text \<open>
  The refresh tables as a state machine: the steps are the store operations the way the
  scheduler and the request handlers call them, and the invariant holds in every reachable
  state.
\<close>

section \<open>The invariant\<close>

definition item_key :: "item_row \<Rightarrow> nat \<times> int" where
  "item_key i = (it_generation i, it_number i)"

definition gens_ok :: "refresh_db \<Rightarrow> bool" where
  "gens_ok db \<longleftrightarrow> distinct (map g_id (rf_gens db)) \<and> distinct (map g_job (rf_gens db)) \<and>
     (\<forall>g\<in>set (rf_gens db). g_id g < rf_next_gen db)"

definition items_ok :: "refresh_db \<Rightarrow> bool" where
  "items_ok db \<longleftrightarrow> distinct (map item_key (rf_items db)) \<and>
     (\<forall>i\<in>set (rf_items db). it_generation i \<in> g_id ` set (rf_gens db) \<and> 0 < it_number i)"

text \<open>A generation that has left hydration has no pending item.\<close>

definition phases_ok :: "refresh_db \<Rightarrow> bool" where
  "phases_ok db \<longleftrightarrow> (\<forall>g\<in>set (rf_gens db). g_phase g \<noteq> Hydrating \<longrightarrow>
     (\<forall>i\<in>set (rf_items db). it_generation i = g_id g \<longrightarrow> it_completed i))"

definition refresh_ok :: "refresh_db \<Rightarrow> bool" where
  "refresh_ok db \<longleftrightarrow> queue_ok refresh_key (rf_jobs db) \<and> gens_ok db \<and> items_ok db \<and> phases_ok db"

lemma item_keys_ok:
  assumes "refresh_ok db" "k \<in> item_key ` set (rf_items db)"
  shows "\<exists>g\<in>set (rf_gens db). fst k = g_id g \<and> 0 < snd k"
proof -
  from assms(2) obtain i where "i \<in> set (rf_items db)" "k = item_key i" by auto
  moreover from this assms(1) obtain g where "g \<in> set (rf_gens db)" "it_generation i = g_id g" "0 < it_number i"
    unfolding refresh_ok_def items_ok_def by blast
  ultimately show ?thesis by (auto simp: item_key_def)
qed

lemma items_okI:
  assumes "distinct (map item_key (rf_items db))"
    and "\<And>k. k \<in> item_key ` set (rf_items db) \<Longrightarrow> \<exists>g\<in>set (rf_gens db). fst k = g_id g \<and> 0 < snd k"
  shows "items_ok db"
proof -
  have "it_generation i \<in> g_id ` set (rf_gens db) \<and> 0 < it_number i" if "i \<in> set (rf_items db)" for i
    using assms(2) [of "item_key i"] that by (auto simp: item_key_def)
  with assms(1) show ?thesis by (simp add: items_ok_def)
qed

text \<open>Updates of generations that keep ids and jobs and let no generation leave hydration.\<close>

lemma refresh_ok_update_gens:
  assumes "refresh_ok db"
    and "\<And>g. p g \<Longrightarrow> g_id (f g) = g_id g \<and> g_job (f g) = g_job g"
    and "\<And>g. g \<in> set (rf_gens db) \<Longrightarrow> p g \<Longrightarrow> g_phase (f g) \<noteq> Hydrating \<Longrightarrow>
      \<forall>i\<in>set (rf_items db). it_generation i = g_id g \<longrightarrow> it_completed i"
  shows "refresh_ok (db\<lparr>rf_gens := update_where p f (rf_gens db)\<rparr>)"
proof -
  have m: "map g_id (update_where p f (rf_gens db)) = map g_id (rf_gens db)"
    "map g_job (update_where p f (rf_gens db)) = map g_job (rf_gens db)"
    by (rule map_update_where, simp add: assms(2))+
  have "g_id ` set (update_where p f (rf_gens db)) = g_id ` set (rf_gens db)"
    using arg_cong [OF m(1), of set] by simp
  moreover have "phases_ok (db\<lparr>rf_gens := update_where p f (rf_gens db)\<rparr>)"
    using assms by (auto simp: refresh_ok_def phases_ok_def set_update_where)
  moreover have "\<forall>g\<in>set (update_where p f (rf_gens db)). g_id g < rf_next_gen db"
    using assms(1,2) by (auto simp: refresh_ok_def gens_ok_def set_update_where)
  ultimately show ?thesis
    using assms(1) m by (simp add: refresh_ok_def gens_ok_def items_ok_def)
qed

lemma refresh_ok_jobs:
  "refresh_ok db \<Longrightarrow> queue_ok refresh_key q \<Longrightarrow> refresh_ok (db\<lparr>rf_jobs := q\<rparr>)"
  by (simp add: refresh_ok_def gens_ok_def items_ok_def phases_ok_def)

lemma refresh_ok_pr [simp]: "refresh_ok (db\<lparr>rf_pr := d\<rparr>) = refresh_ok db"
  by (simp add: refresh_ok_def gens_ok_def items_ok_def phases_ok_def)

lemma refresh_ok_progress [simp]: "refresh_ok (db\<lparr>rf_progress := d\<rparr>) = refresh_ok db"
  by (simp add: refresh_ok_def gens_ok_def items_ok_def phases_ok_def)

section \<open>Every operation keeps it\<close>

lemma EnqueueRefreshWithForce_ok:
  assumes "refresh_ok db" "EnqueueRefreshWithForce r t forced db = Inr (b, db')"
  shows "refresh_ok db'"
proof -
  let ?q = "snd (enqueue_job refresh_key \<lparr>rp_repository = r, rp_forced = forced\<rparr> t (rf_jobs db))"
  have q: "queue_ok refresh_key ?q"
    using assms(1) by (simp add: refresh_ok_def enqueue_job_ok)
  have "queue_ok refresh_key (?q\<lparr>q_jobs := update_where (\<lambda>j. rp_repository (j_payload j) = r \<and> active j)
      (\<lambda>j. j\<lparr>j_payload := (j_payload j)\<lparr>rp_forced := True\<rparr>\<rparr>) (q_jobs ?q)\<rparr>)"
    using q by (rule queue_ok_update) (simp add: active_def refresh_key_def)
  with q assms show ?thesis
    by (auto simp: EnqueueRefreshWithForce_def failIf_eq_Inr Let_def intro!: refresh_ok_jobs split: prod.splits if_splits)
qed

lemma EnqueueAllRefreshes_ok: "refresh_ok db \<Longrightarrow> refresh_ok (EnqueueAllRefreshes now db)"
proof -
  assume ok: "refresh_ok db"
  have q: "queue_ok refresh_key (foldl (\<lambda>q r. snd (enqueue_job refresh_key
      \<lparr> rp_repository = rr_repository r, rp_forced = False \<rparr> now q)) q rs)"
    if "queue_ok refresh_key q" for q and rs :: "repository_row list"
    using that by (induction rs arbitrary: q) (simp_all add: enqueue_job_ok)
  let ?g = "update_where (\<lambda>g. g_job g \<in> set (active_job_ids db)) (\<lambda>g. g\<lparr>g_rediscovery := True\<rparr>) (rf_gens db)"
  have "refresh_ok (db\<lparr>rf_gens := ?g\<rparr>)"
    using ok by (intro refresh_ok_update_gens) (auto simp: refresh_ok_def phases_ok_def)
  from refresh_ok_jobs [OF this q [of "rf_jobs db"]] ok show ?thesis
    by (simp add: EnqueueAllRefreshes_def refresh_ok_def)
qed

lemma ClaimRefresh_jobs:
  "rf_jobs (snd (ClaimRefresh parse now db)) = snd (claim_job parse (rf_jobs db) now)"
  by (auto simp: ClaimRefresh_def split: prod.splits sum.splits option.splits)

lemma ClaimRefresh_frame: "snd (ClaimRefresh parse now db) = db\<lparr>rf_jobs := snd (claim_job parse (rf_jobs db) now)\<rparr>"
  by (auto simp: ClaimRefresh_def split: prod.splits sum.splits option.splits)

lemma ClaimRefresh_ok: "refresh_ok db \<Longrightarrow> refresh_ok (snd (ClaimRefresh parse now db))"
  unfolding ClaimRefresh_frame
  by (intro refresh_ok_jobs claim_job_ok) (simp_all add: refresh_ok_def)

lemma CompleteRefreshJob_ok: "refresh_ok db \<Longrightarrow> refresh_ok (CompleteRefreshJob i t db)"
  unfolding CompleteRefreshJob_def by (intro refresh_ok_jobs finish_job_ok) (simp_all add: refresh_ok_def)

lemma RecoverRefreshJobs_ok: "refresh_ok db \<Longrightarrow> refresh_ok (RecoverRefreshJobs db)"
  unfolding RecoverRefreshJobs_def by (intro refresh_ok_jobs recover_jobs_ok) (simp_all add: refresh_ok_def)

lemma RequeueRefreshJob_ok: "refresh_ok db \<Longrightarrow> RequeueRefreshJob i t db = Inr db' \<Longrightarrow> refresh_ok db'"
  using requeue_job_ok [of refresh_key "rf_jobs db" i t] refresh_ok_jobs [of db]
  by (cases "requeue_job i t (rf_jobs db)")
    (auto simp: RequeueRefreshJob_def failIf_eq_Inr refresh_ok_def)

lemma DeleteRefreshGeneration_ok:
  assumes "refresh_ok db"
  shows "refresh_ok (DeleteRefreshGeneration job db)"
proof -
  let ?d = "DeleteRefreshGeneration job db"
  have "gens_ok ?d"
    using assms by (auto simp: refresh_ok_def gens_ok_def DeleteRefreshGeneration_def distinct_delete_where
        set_delete_where)
  moreover have "items_ok ?d"
    using assms
    by (simp add: refresh_ok_def items_ok_def DeleteRefreshGeneration_def distinct_delete_where
        set_delete_where list_ex_iff image_iff) metis
  moreover have "phases_ok ?d"
    using assms by (auto simp: refresh_ok_def phases_ok_def DeleteRefreshGeneration_def set_delete_where)
  ultimately show ?thesis using assms by (simp add: refresh_ok_def DeleteRefreshGeneration_def)
qed

lemma find_unique_and:
  "distinct (map k t) \<Longrightarrow> g \<in> set t \<Longrightarrow> P g \<Longrightarrow> find (\<lambda>x. k x = k g \<and> P x) t = Some g"
  by (induction t) (auto simp: image_iff)

lemma gen_of_unique: "gens_ok db \<Longrightarrow> g \<in> set (rf_gens db) \<Longrightarrow> g_job g = job \<Longrightarrow> gen_of db job = Some g"
  unfolding gen_of_def gens_ok_def using find_unique [of g_job "rf_gens db" g] by simp

lemma hydrating_gen_unique:
  "gens_ok db \<Longrightarrow> g \<in> set (rf_gens db) \<Longrightarrow> g_job g = job \<Longrightarrow> g_phase g = Hydrating \<Longrightarrow>
     hydrating_gen db job = Some g"
  unfolding hydrating_gen_def gens_ok_def
  using find_unique_and [of g_job "rf_gens db" g "\<lambda>g. g_phase g = Hydrating"] by simp

lemma gen_of_SomeD: "gen_of db job = Some g \<Longrightarrow> g \<in> set (rf_gens db) \<and> g_job g = job"
  unfolding gen_of_def by (rule find_SomeD)

lemma hydrating_gen_SomeD:
  "hydrating_gen db job = Some g \<Longrightarrow> g \<in> set (rf_gens db) \<and> g_job g = job \<and> g_phase g = Hydrating"
  unfolding hydrating_gen_def by (drule find_SomeD) simp

lemma AdvanceRefreshGeneration_ok:
  assumes "refresh_ok db" "AdvanceRefreshGeneration job old new payload db = Inr db'"
    and "old = Hydrating \<Longrightarrow> LoadRefreshGenerationBatch job n db = Inr []" "0 < n"
  shows "refresh_ok db'"
proof -
  have db': "db' = db\<lparr>rf_gens := update_where (\<lambda>g. g_job g = job \<and> g_phase g = old)
      (\<lambda>g. g\<lparr> g_phase := new, g_progress_payload := (if payload \<noteq> [] then payload else g_progress_payload g),
          g_retry_count := 0, g_failure := no_failure \<rparr>) (rf_gens db)\<rparr>"
    using assms(2) by (simp add: AdvanceRefreshGeneration_def Let_def failIf_eq_Inr)
  show ?thesis unfolding db'
  proof (rule refresh_ok_update_gens [OF assms(1)], goal_cases)
    case (1 g)
    show ?case by simp
  next
    case (2 g)
    show ?case
    proof (cases "old = Hydrating")
      case False
      with 2 assms(1) show ?thesis by (auto simp: refresh_ok_def phases_ok_def)
    next
      case True
      with 2 assms(1) have "hydrating_gen db job = Some g"
        by (intro hydrating_gen_unique) (simp_all add: refresh_ok_def)
      with assms(3) [OF True] assms(4) have "take (nat n) (sort_key it_number
          (filter (\<lambda>i. \<not> it_completed i) (items_of db (g_id g)))) = []"
        by (simp add: LoadRefreshGenerationBatch_def failIf_eq_Inr)
      with assms(4) have "sort_key it_number (filter (\<lambda>i. \<not> it_completed i) (items_of db (g_id g))) = []"
        by simp
      then have "filter (\<lambda>i. \<not> it_completed i) (items_of db (g_id g)) = []" by (metis set_empty set_sort)
      then show ?thesis by (auto simp: items_of_def filter_empty_conv)
    qed
  qed
qed

lemma new_generation_simps [simp]:
  "g_id (new_generation n job b d) = n" "g_job (new_generation n job b d) = jb_ID job"
  "g_phase (new_generation n job b d) = Hydrating"
  "g_repository (new_generation n job b d) = jb_Repository job"
  by (simp_all add: new_generation_def)

lemma rediscovered_simps [simp]:
  "g_id (rediscovered d g) = g_id g" "g_job (rediscovered d g) = g_job g"
  "g_phase (rediscovered d g) = Hydrating" "g_repository (rediscovered d g) = g_repository g"
  by (simp_all add: rediscovered_def)

text \<open>A new generation: its members are the keys of a Go map, so they are distinct.\<close>

lemma StartRefreshGeneration_ok:
  assumes "refresh_ok db" "StartRefreshGeneration job d db = Inr db'" "distinct (map fst (dc_Members d))"
  shows "refresh_ok db'"
proof -
  let ?db1 = "DeleteRefreshGeneration (jb_ID job) db" and ?ms = "sort_key fst (dc_Members d)"
  have ok: "refresh_ok ?db1" by (rule DeleteRefreshGeneration_ok [OF assms(1)])
  have new: "jb_ID job \<notin> g_job ` set (rf_gens ?db1)"
    by (auto simp: DeleteRefreshGeneration_def set_delete_where)
  from assms(2) obtain b where pos: "\<forall>m\<in>set (dc_Members d). 0 < fst m"
    and db': "db' = ?db1\<lparr>rf_gens := rf_gens ?db1 @ [new_generation (rf_next_gen ?db1) job b d], rf_next_gen := rf_next_gen ?db1 + 1,
      rf_items := rf_items ?db1 @ map (pending_item (rf_next_gen ?db1)) ?ms\<rparr>"
    by (auto simp: StartRefreshGeneration_def failIf_eq_Inr Let_def not_le split: option.splits)
  have "distinct (map fst ?ms)" using assms(3) by (simp add: distinct_map)
  then have d: "distinct (map (item_key \<circ> pending_item n) ?ms)" for n
    by (auto simp: distinct_map inj_on_def item_key_def pending_item_def)
  have lt: "\<forall>i\<in>set (rf_items ?db1). it_generation i < rf_next_gen ?db1"
    "\<forall>g\<in>set (rf_gens ?db1). g_id g < rf_next_gen ?db1"
    using ok by (auto simp: refresh_ok_def items_ok_def gens_ok_def)
  have "gens_ok db'"
    using ok lt(2) new unfolding db' by (auto simp: refresh_ok_def gens_ok_def)
  moreover have "distinct (map item_key (rf_items db'))"
    using ok lt(1) d unfolding db'
    by (fastforce simp: refresh_ok_def items_ok_def item_key_def pending_item_def)
  then have "items_ok db'"
    using ok pos unfolding db' by (auto simp: refresh_ok_def items_ok_def pending_item_def)
  moreover have "phases_ok db'"
    using ok lt(2) unfolding db' by (auto simp: refresh_ok_def phases_ok_def pending_item_def)
  ultimately show ?thesis using ok unfolding db' by (simp add: refresh_ok_def)
qed

subsection \<open>Membership of a generation\<close>

abbreviation member_upsert :: "nat \<Rightarrow> int \<times> string list \<Rightarrow> item_row list \<Rightarrow> item_row list" where
  "member_upsert gid m t \<equiv> upsert (\<lambda>i. (it_generation i, it_number i))
     (\<lambda>old new. old\<lparr>it_collection_ids := it_collection_ids new\<rparr>) (pending_item gid m) t"

lemma member_upsert_keys:
  "item_key ` set (member_upsert gid m t) = insert (gid, fst m) (item_key ` set t)"
  unfolding item_key_def by (subst keys_upsert) (simp_all add: pending_item_def)

lemma member_upsert_distinct:
  "distinct (map item_key t) \<Longrightarrow> distinct (map item_key (member_upsert gid m t))"
  unfolding item_key_def by (rule distinct_upsert) (simp_all add: pending_item_def)

lemma member_upsert_other:
  "item_key x \<noteq> (gid, fst m) \<Longrightarrow> x \<in> set (member_upsert gid m t) \<longleftrightarrow> x \<in> set t"
  unfolding item_key_def by (rule set_upsert_other) (auto simp: pending_item_def)

lemma members_foldl_keys:
  "item_key ` set (foldl (\<lambda>t m. member_upsert gid m t) t ms) = (\<lambda>m. (gid, fst m)) ` set ms \<union> item_key ` set t"
  by (induction ms arbitrary: t) (auto simp: member_upsert_keys)

lemma members_foldl_distinct:
  "distinct (map item_key t) \<Longrightarrow> distinct (map item_key (foldl (\<lambda>t m. member_upsert gid m t) t ms))"
  by (induction ms arbitrary: t) (simp_all add: member_upsert_distinct)

lemma members_foldl_other:
  "item_key x \<notin> (\<lambda>m. (gid, fst m)) ` set ms \<Longrightarrow>
     x \<in> set (foldl (\<lambda>t m. member_upsert gid m t) t ms) \<longleftrightarrow> x \<in> set t"
proof (induction ms arbitrary: t)
  case (Cons m ms)
  then show ?case using member_upsert_other [of x gid m t] by simp
qed simp

lemma set_members_keys:
  "item_key ` set (set_members gid ms t) =
     (\<lambda>m. (gid, fst m)) ` set ms \<union> {k \<in> item_key ` set t. fst k \<noteq> gid}"
  unfolding set_members_def members_foldl_keys by (auto simp: set_delete_where item_key_def image_iff)

lemma set_members_distinct:
  "distinct (map item_key t) \<Longrightarrow> distinct (map item_key (set_members gid ms t))"
  unfolding set_members_def by (intro members_foldl_distinct distinct_delete_where)

lemma set_members_other:
  "it_generation x \<noteq> gid \<Longrightarrow> x \<in> set (set_members gid ms t) \<longleftrightarrow> x \<in> set t"
  unfolding set_members_def by (subst members_foldl_other) (auto simp: set_delete_where item_key_def)

lemma ReconcileRefreshGenerationDiscovery_ok:
  assumes "refresh_ok db" "ReconcileRefreshGenerationDiscovery job d db = Inr db'"
  shows "refresh_ok db'"
proof -
  let ?ms = "sort_key fst (dc_Members d)"
  from assms(2) obtain g where g: "gen_of db job = Some g" and pos: "\<forall>m\<in>set (dc_Members d). 0 < fst m"
    and db': "db' = db\<lparr>rf_items := set_members (g_id g) ?ms (rf_items db),
      rf_gens := update_where (\<lambda>x. g_id x = g_id g) (rediscovered d) (rf_gens db)\<rparr>"
    by (auto simp: ReconcileRefreshGenerationDiscovery_def failIf_eq_Inr Let_def not_le split: option.splits)
  have mem: "g \<in> set (rf_gens db)" using gen_of_SomeD [OF g] by simp
  let ?db1 = "db\<lparr>rf_gens := update_where (\<lambda>x. g_id x = g_id g) (rediscovered d) (rf_gens db)\<rparr>"
  have ok: "refresh_ok ?db1" by (rule refresh_ok_update_gens [OF assms(1)]) simp_all
  have "items_ok db'"
  proof (rule items_okI)
    fix k assume "k \<in> item_key ` set (rf_items db')"
    then have "k \<in> (\<lambda>m. (g_id g, fst m)) ` set (dc_Members d) \<or> k \<in> item_key ` set (rf_items db)"
      by (simp add: db' set_members_keys) blast
    moreover have "(\<lambda>x. g_id x) ` set (rf_gens db') = g_id ` set (rf_gens db)"
      using arg_cong [OF map_update_where [of "\<lambda>x. g_id x = g_id g" g_id "rediscovered d" "rf_gens db"], of set]
      by (simp add: db')
    ultimately show "\<exists>g\<in>set (rf_gens db'). fst k = g_id g \<and> 0 < snd k"
      using pos mem item_keys_ok [OF assms(1), of k] by (metis (no_types, lifting) fst_conv image_iff snd_conv)
  qed (use assms(1) in \<open>simp add: db' refresh_ok_def items_ok_def set_members_distinct\<close>)
  moreover have "phases_ok db'"
    using ok by (auto simp: db' phases_ok_def refresh_ok_def set_members_other set_update_where)
  ultimately show ?thesis using ok by (simp add: db' refresh_ok_def gens_ok_def)
qed

subsection \<open>Batches and retries\<close>

text \<open>Items may only become completed: this is all that publishing does to the refresh tables.\<close>

definition items_advance :: "refresh_db \<Rightarrow> refresh_db \<Rightarrow> bool" where
  "items_advance db db' \<longleftrightarrow> rf_jobs db' = rf_jobs db \<and> rf_gens db' = rf_gens db \<and>
     rf_next_gen db' = rf_next_gen db \<and> rf_progress db' = rf_progress db \<and>
     map item_key (rf_items db') = map item_key (rf_items db) \<and>
     item_key ` {i \<in> set (rf_items db'). \<not> it_completed i} \<subseteq> item_key ` {i \<in> set (rf_items db). \<not> it_completed i}"

lemma items_advance_refl [intro]: "items_advance db db"
  by (simp add: items_advance_def)

lemma items_advance_trans: "items_advance a b \<Longrightarrow> items_advance b c \<Longrightarrow> items_advance a c"
  by (fastforce simp: items_advance_def)

lemma items_advance_ok:
  assumes "refresh_ok db" "items_advance db db'"
  shows "refresh_ok db'"
proof -
  have keys: "item_key ` set (rf_items db') = item_key ` set (rf_items db)"
    using assms(2) by (metis items_advance_def set_map)
  have "items_ok db'"
  proof (rule items_okI)
    show "distinct (map item_key (rf_items db'))"
      using assms unfolding items_advance_def refresh_ok_def items_ok_def by metis
    show "\<exists>g\<in>set (rf_gens db'). fst k = g_id g \<and> 0 < snd k" if "k \<in> item_key ` set (rf_items db')" for k
      using that assms(2) item_keys_ok [OF assms(1), of k] unfolding keys items_advance_def by simp
  qed
  moreover
  have "it_completed i" if m: "g \<in> set (rf_gens db)" "g_phase g \<noteq> Hydrating" "i \<in> set (rf_items db')"
    "it_generation i = g_id g" for g i
  proof (rule ccontr)
    assume "\<not> it_completed i"
    with m assms(2) have "item_key i \<in> item_key ` {j \<in> set (rf_items db). \<not> it_completed j}"
      by (auto simp: items_advance_def)
    then obtain j where "j \<in> set (rf_items db)" "\<not> it_completed j" "item_key j = item_key i" by auto
    with m assms(1) show False by (auto simp: refresh_ok_def phases_ok_def item_key_def)
  qed
  ultimately show ?thesis
    using assms by (simp add: refresh_ok_def gens_ok_def phases_ok_def items_advance_def)
qed

lemma complete_item_advance:
  assumes "complete_item job item db = Inr db'"
  shows "items_advance db db'"
proof -
  let ?p = "\<lambda>i. Some (it_generation i) = map_option g_id (hydrating_gen db job) \<and>
      it_number i = sg_Number item \<and> \<not> it_completed i"
  let ?f = "\<lambda>i. i\<lparr> it_completed := True, it_payload := sg_Payload item,
      it_fingerprint_version := sg_FingerprintVersion item, it_fingerprint := sg_Fingerprint item,
      it_cache_outcome := sg_CacheOutcome item \<rparr>"
  from assms have db': "db' = db\<lparr>rf_items := update_where ?p ?f (rf_items db)\<rparr>"
    by (simp add: complete_item_def Let_def failIf_eq_Inr)
  have "map item_key (update_where ?p ?f (rf_items db)) = map item_key (rf_items db)"
    by (rule map_update_where) (simp add: item_key_def)
  moreover have "{i \<in> set (update_where ?p ?f (rf_items db)). \<not> it_completed i} \<subseteq>
      {i \<in> set (rf_items db). \<not> it_completed i}"
    by (auto simp: set_update_where split: if_splits)
  then have "item_key ` {i \<in> set (update_where ?p ?f (rf_items db)). \<not> it_completed i} \<subseteq>
      item_key ` {i \<in> set (rf_items db). \<not> it_completed i}" by (rule image_mono)
  ultimately show ?thesis unfolding db' by (simp add: items_advance_def)
qed

lemma items_advance_pr: "items_advance db (db\<lparr>rf_pr := d\<rparr>)"
  by (simp add: items_advance_def)

lemma lift_pr_advance: "lift_pr f db = Inr db' \<Longrightarrow> items_advance db db'"
  using items_advance_pr [of db] by (auto simp: lift_pr_def split: sum.splits)

lemma publish_item_steps:
  assumes "publish_item job item s = Inr s'"
  shows "\<exists>k g pr db1 db2. last_index (sg_Number item) (fst s) = Some k \<and> valid_staged item \<and>
     hydrating_gen (snd s) job = Some g \<and> pr_Repository pr = g_repository g \<and>
     lift_pr (write_pull pr) (snd s) = Inr db1 \<and>
     complete_item job item (db1\<lparr>rf_pr := join_collections (g_repository g) (sg_Number item)
       (pr_CollectionIDs pr) (rf_pr db1)\<rparr>) = Inr db2 \<and> s' = ((fst s)[k := pr], db2)"
  using assms unfolding publish_item_def
  by (cases s) (simp add: failIf_eq_Inr Let_def bindR_eq_Inr split: option.splits; blast)

lemma publish_item_advance: "publish_item job item s = Inr s' \<Longrightarrow> items_advance (snd s) (snd s')"
  by (drule publish_item_steps)
    (metis lift_pr_advance complete_item_advance items_advance_trans items_advance_pr snd_conv)

lemma publish_items_advance:
  "foldR (publish_item job) items s = Inr s' \<Longrightarrow> items_advance (snd s) (snd s')"
proof (induction items arbitrary: s)
  case Nil
  then show ?case by auto
next
  case (Cons item items)
  then obtain s1 where "publish_item job item s = Inr s1" "foldR (publish_item job) items s1 = Inr s'"
    by (auto simp: bindR_eq_Inr)
  with Cons.IH show ?case using publish_item_advance items_advance_trans by blast
qed

lemma PublishRefreshGenerationBatch_steps:
  assumes "PublishRefreshGenerationBatch U job items prs t db = Inr db'"
  shows "\<exists>ps s db1. length items = length prs \<and> normalize_batch prs = Inr ps \<and>
     foldR (publish_item job) items (ps, db) = Inr s \<and> items_advance db (snd s) \<and>
     lift_pr (assess_batch U t (fst s)) (snd s) = Inr db1 \<and> items_advance db db1 \<and> db' = reset_retries job db1"
proof -
  from assms obtain ps s db1 where "length items = length prs" "normalize_batch prs = Inr ps" and
    s: "foldR (publish_item job) items (ps, db) = Inr s" and
    db1: "lift_pr (assess_batch U t (fst s)) (snd s) = Inr db1" "db' = reset_retries job db1"
    unfolding PublishRefreshGenerationBatch_def bindR_eq_Inr failIf_eq_Inr by blast
  moreover have "items_advance db (snd s)" using publish_items_advance [OF s] by simp
  moreover have "items_advance db db1" using calculation lift_pr_advance items_advance_trans by blast
  ultimately show ?thesis by blast
qed

lemma PublishRefreshGenerationBatch_ok:
  assumes "refresh_ok db" "PublishRefreshGenerationBatch U job items prs t db = Inr db'"
  shows "refresh_ok db'"
proof -
  from PublishRefreshGenerationBatch_steps [OF assms(2)] obtain db1 where
    db1: "items_advance db db1" "db' = reset_retries job db1" by blast
  have ok: "refresh_ok db1" by (rule items_advance_ok [OF assms(1) db1(1)])
  show ?thesis unfolding db1(2) reset_retries_def
    by (rule refresh_ok_update_gens [OF ok]) (use ok in \<open>simp_all add: refresh_ok_def phases_ok_def\<close>)
qed

lemma RecordRefreshGenerationRetry_ok:
  assumes "refresh_ok db" "RecordRefreshGenerationRetry job f db = Inr (n, db')"
  shows "refresh_ok db'"
proof -
  have db': "db' = db\<lparr>rf_gens := update_where (\<lambda>g. g_job g = job)
      (\<lambda>g. g\<lparr>g_retry_count := g_retry_count g + 1, g_failure := f\<rparr>) (rf_gens db)\<rparr>"
    using assms(2) by (auto simp: RecordRefreshGenerationRetry_def Let_def split: option.splits)
  show ?thesis unfolding db'
    by (rule refresh_ok_update_gens [OF assms(1)]) (use assms(1) in \<open>simp_all add: refresh_ok_def phases_ok_def\<close>)
qed

lemma RecordRefreshResult_ok: "refresh_ok db \<Longrightarrow> RecordRefreshResult r st t m db = Inr db' \<Longrightarrow> refresh_ok db'"
  by (auto simp: RecordRefreshResult_def failIf_eq_Inr)

lemma cancel_unconfigured_ok:
  assumes "refresh_ok db"
  shows "refresh_ok (cancel_unconfigured now db)"
proof -
  let ?d = "cancel_unconfigured now db"
  have gone: "g \<in> set (rf_gens ?d)" if "g \<in> set (rf_gens db)" "i \<in> set (rf_items ?d)" "it_generation i = g_id g" for g i
    using that by (auto simp: cancel_unconfigured_def set_delete_where)
  have "gens_ok ?d"
    using assms by (auto simp: refresh_ok_def gens_ok_def cancel_unconfigured_def distinct_delete_where set_delete_where)
  moreover have sub: "set (rf_items ?d) \<subseteq> set (rf_items db)" "set (rf_gens ?d) \<subseteq> set (rf_gens db)"
    by (auto simp: cancel_unconfigured_def set_delete_where)
  have "distinct (map item_key (rf_items ?d))"
    using assms by (simp add: refresh_ok_def items_ok_def cancel_unconfigured_def distinct_delete_where)
  then have "items_ok ?d"
  proof (rule items_okI)
    fix k assume "k \<in> item_key ` set (rf_items ?d)"
    then obtain i where i: "i \<in> set (rf_items ?d)" "k = item_key i" by auto
    with sub have "k \<in> item_key ` set (rf_items db)" by auto
    from item_keys_ok [OF assms this] obtain g where g: "g \<in> set (rf_gens db)" "fst k = g_id g" "0 < snd k" by auto
    with gone [of g i] i show "\<exists>g\<in>set (rf_gens ?d). fst k = g_id g \<and> 0 < snd k" by (auto simp: item_key_def)
  qed
  moreover have "phases_ok ?d"
    using assms sub unfolding refresh_ok_def phases_ok_def by blast
  moreover have "queue_ok refresh_key (rf_jobs ?d)"
    using assms by (simp add: refresh_ok_def cancel_unconfigured_def finish_where_ok)
  ultimately show ?thesis by (simp add: refresh_ok_def)
qed

section \<open>Reachable refresh tables\<close>

text \<open>
  The steps are the committed transactions of the request handlers, the coordinator and the
  scheduler: a generation leaves hydration only after an empty batch, and discovery yields a Go
  map of members, whose keys are distinct. \<open>other\<close> stands for every operation that leaves the
  refresh tables alone.
\<close>

definition refreshHydrationBatchSize :: int where
  "refreshHydrationBatchSize = 20"

definition no_refreshes :: "pr_db \<Rightarrow> progress_db \<Rightarrow> refresh_db" where
  "no_refreshes d p = \<lparr> rf_pr = d, rf_jobs = \<lparr> q_jobs = [], q_next = 1 \<rparr>, rf_gens = [], rf_next_gen = 1,
     rf_items = [], rf_progress = p \<rparr>"

inductive refresh_step :: "refresh_db \<Rightarrow> refresh_db \<Rightarrow> bool" where
  enqueue: "EnqueueRefreshWithForce r t forced db = Inr (b, db') \<Longrightarrow> refresh_step db db'"
| enqueue_all: "refresh_step db (EnqueueAllRefreshes now db)"
| claim: "refresh_step db (snd (ClaimRefresh parse now db))"
| complete: "refresh_step db (CompleteRefreshJob i t db)"
| recover: "refresh_step db (RecoverRefreshJobs db)"
| requeue: "RequeueRefreshJob i t db = Inr db' \<Longrightarrow> refresh_step db db'"
| start: "StartRefreshGeneration job d db = Inr db' \<Longrightarrow> distinct (map fst (dc_Members d)) \<Longrightarrow> refresh_step db db'"
| reconcile: "ReconcileRefreshGenerationDiscovery i d db = Inr db' \<Longrightarrow> distinct (map fst (dc_Members d)) \<Longrightarrow>
    refresh_step db db'"
| delete: "refresh_step db (DeleteRefreshGeneration i db)"
| batch: "PublishRefreshGenerationBatch U i items prs t db = Inr db' \<Longrightarrow> refresh_step db db'"
| hydrated: "LoadRefreshGenerationBatch i refreshHydrationBatchSize db = Inr [] \<Longrightarrow>
    AdvanceRefreshGeneration i Hydrating ProgressPhase [] db = Inr db' \<Longrightarrow> refresh_step db db'"
| progress: "AdvanceRefreshGeneration i ProgressPhase Publishing payload db = Inr db' \<Longrightarrow> refresh_step db db'"
| retry: "RecordRefreshGenerationRetry i f db = Inr (n, db') \<Longrightarrow> refresh_step db db'"
| result: "RecordRefreshResult r st t m db = Inr db' \<Longrightarrow> refresh_step db db'"
| cancel: "refresh_step db (cancel_unconfigured now db)"
| other: "refresh_step db (db\<lparr>rf_pr := d, rf_progress := p\<rparr>)"

inductive refresh_reachable :: "refresh_db \<Rightarrow> bool" where
  start: "refresh_reachable (no_refreshes d p)"
| step: "refresh_reachable db \<Longrightarrow> refresh_step db db' \<Longrightarrow> refresh_reachable db'"

lemma refresh_step_ok: "refresh_step db db' \<Longrightarrow> refresh_ok db \<Longrightarrow> refresh_ok db'"
proof (induction rule: refresh_step.induct)
  case (hydrated i db db')
  show ?case
    by (rule AdvanceRefreshGeneration_ok [OF hydrated(3,2), of refreshHydrationBatchSize])
      (use hydrated(1) in \<open>simp_all add: refreshHydrationBatchSize_def\<close>)
next
  case (progress i payload db db')
  show ?case by (rule AdvanceRefreshGeneration_ok [OF progress(2,1), of 1]) simp_all
next
  case (batch U i items prs t db db')
  then show ?case by (rule PublishRefreshGenerationBatch_ok [rotated])
next
  case (other db d p)
  then show ?case by simp
qed (erule EnqueueAllRefreshes_ok ClaimRefresh_ok CompleteRefreshJob_ok RecoverRefreshJobs_ok
    DeleteRefreshGeneration_ok cancel_unconfigured_ok
  | erule (1) EnqueueRefreshWithForce_ok [rotated] RequeueRefreshJob_ok [rotated]
    ReconcileRefreshGenerationDiscovery_ok [rotated] RecordRefreshGenerationRetry_ok [rotated]
    RecordRefreshResult_ok [rotated]
  | erule (2) StartRefreshGeneration_ok [rotated])+

lemma refresh_reachable_ok: "refresh_reachable db \<Longrightarrow> refresh_ok db"
proof (induction rule: refresh_reachable.induct)
  case (start d p)
  then show ?case
    by (simp add: no_refreshes_def refresh_ok_def queue_ok_def gens_ok_def items_ok_def phases_ok_def)
next
  case (step db db')
  then show ?case using refresh_step_ok by blast
qed

section \<open>The refresh tables provide the worker's queue\<close>

definition claim_refresh_id ::
  "(string \<Rightarrow> time option) \<Rightarrow> refresh_db \<Rightarrow> time \<Rightarrow> (string + nat option) \<times> refresh_db" where
  "claim_refresh_id parse db now =
     (let (r, q) = claim_id parse (rf_jobs db) now in (r, db\<lparr>rf_jobs := q\<rparr>))"

text \<open>\<open>claim_refresh_id\<close> reads the id off what \<open>ClaimRefresh\<close> answers.\<close>

lemma claim_refresh_id_eq:
  "claim_refresh_id parse db now =
     (case ClaimRefresh parse now db of
        (Inl e, db') \<Rightarrow> (Inl (case e of RTimeParse s \<Rightarrow> s | _ \<Rightarrow> []), db')
      | (Inr o1, db') \<Rightarrow> (Inr (map_option jb_ID o1), db'))"
  by (simp add: claim_refresh_id_def ClaimRefresh_def claim_id_def
      split: prod.splits sum.splits option.splits)

interpretation refreshes: job_queue "claim_refresh_id parse" "\<lambda>db i t. CompleteRefreshJob i t db"
  RecoverRefreshJobs "\<lambda>db. job_status_of (rf_jobs db)" refresh_ok for parse
proof
  fix db db' now i e
  show "refresh_ok db \<Longrightarrow> refresh_ok (snd (claim_refresh_id parse db now))"
    using table.claim_ok [of refresh_key "rf_jobs db" parse now]
      refresh_ok_jobs [of db "snd (claim_id parse (rf_jobs db) now)"]
    by (simp add: claim_refresh_id_def refresh_ok_def case_prod_unfold Let_def)
  show "refresh_ok db \<Longrightarrow> refresh_ok (CompleteRefreshJob i now db)" by (rule CompleteRefreshJob_ok)
  show "refresh_ok db \<Longrightarrow> refresh_ok (RecoverRefreshJobs db)" by (rule RecoverRefreshJobs_ok)
  show "refresh_ok db \<Longrightarrow> claim_refresh_id parse db now = (Inr (Some i), db') \<Longrightarrow>
      job_status_of (rf_jobs db) i = Some Queued \<and>
      job_status_of (rf_jobs db') = (job_status_of (rf_jobs db))(i \<mapsto> Running)"
    using table.claim_Some [of refresh_key "rf_jobs db" parse now i]
    by (auto simp: claim_refresh_id_def refresh_ok_def split: prod.splits)
  show "claim_refresh_id parse db now = (Inr None, db') \<Longrightarrow> db' = db"
    using table.claim_None [of parse "rf_jobs db" now]
    by (auto simp: claim_refresh_id_def split: prod.splits)
  show "claim_refresh_id parse db now = (Inl e, db') \<Longrightarrow> db' = db"
    using table.claim_error [of parse "rf_jobs db" now]
    by (auto simp: claim_refresh_id_def split: prod.splits)
  show "refresh_ok db \<Longrightarrow> job_status_of (rf_jobs (CompleteRefreshJob i now db)) =
      (if job_status_of (rf_jobs db) i = None then job_status_of (rf_jobs db)
       else (job_status_of (rf_jobs db))(i \<mapsto> Completed))"
    using status_finish_job [of i now "rf_jobs db"]
    by (simp add: refresh_ok_def CompleteRefreshJob_def)
  show "refresh_ok db \<Longrightarrow> job_status_of (rf_jobs (RecoverRefreshJobs db)) i =
      map_option (\<lambda>s. if s = Running then Queued else s) (job_status_of (rf_jobs db) i)"
    using status_recover_jobs [of "rf_jobs db" i] by (simp add: RecoverRefreshJobs_def)
qed

end
