(* ===== verification/RefreshProps.thy ===== *)
theory RefreshProps
  imports RefreshFacts
begin

text \<open>
  What durable refresh work promises: one active job per repository, complete generations
  before they are published, rediscovery that keeps hydrated pull requests, and batches that
  shrink the pending work.
\<close>

section \<open>Complete generations\<close>

lemma count_where_length: "count_where p t = length (filter p t)"
  by (simp add: count_where_def)

lemma LoadRefreshGeneration_SomeD:
  assumes "LoadRefreshGeneration parse job db = Inr (Some g)"
  shows "\<exists>r. gen_of db job = Some r \<and> gen_ID g = g_id r \<and> gen_Phase g = g_phase r \<and>
     gen_Pending g = count_items (\<lambda>i. \<not> it_completed i) r db \<and> gen_Completed g = count_items it_completed r db"
  using assms by (auto simp: LoadRefreshGeneration_def split: option.splits)

lemma staged_length:
  "gen_of db job = Some r \<Longrightarrow> length (LoadStagedRefreshPullRequests job db) = count_items it_completed r db"
  by (simp add: LoadStagedRefreshPullRequests_def count_items_def count_where_def items_of_def conj_commute)

lemma publishing_complete:
  assumes "refresh_ok db" "LoadRefreshGeneration parse job db = Inr (Some g)" "gen_Phase g = Publishing"
  shows "gen_Pending g = 0 \<and> length (LoadStagedRefreshPullRequests job db) = gen_Completed g"
proof -
  from LoadRefreshGeneration_SomeD [OF assms(2)] obtain r where r: "gen_of db job = Some r" "gen_Phase g = g_phase r"
    "gen_Pending g = count_items (\<lambda>i. \<not> it_completed i) r db" "gen_Completed g = count_items it_completed r db" by blast
  have "r \<in> set (rf_gens db)" using gen_of_SomeD [OF r(1)] by simp
  with assms(1,3) r(2)
  have "\<forall>i\<in>set (rf_items db). it_generation i = g_id r \<longrightarrow> it_completed i"
    by (simp add: refresh_ok_def phases_ok_def)
  then have "count_items (\<lambda>i. \<not> it_completed i) r db = 0" by (simp add: count_items_def count_where_0)
  with r staged_length [OF r(1)] show ?thesis by simp
qed

section \<open>Rediscovery\<close>

lemma members_foldl_row:
  assumes "distinct (map fst ms)" "(n, c) \<in> set ms" "x \<in> set t" "item_key x = (gid, n)"
  shows "x\<lparr>it_collection_ids := c\<rparr> \<in> set (foldl (\<lambda>t m. member_upsert gid m t) t ms)"
  using assms
proof (induction ms arbitrary: t)
  case Nil
  then show ?case by simp
next
  case (Cons m ms)
  show ?case
  proof (cases "m = (n, c)")
    case True
    have "x\<lparr>it_collection_ids := c\<rparr> \<in> set (member_upsert gid m t)"
      using Cons.prems True
      by (force simp: upsert_def set_update_where pending_item_def item_key_def list_ex_iff image_iff)
    moreover have "item_key (x\<lparr>it_collection_ids := c\<rparr>) \<notin> (\<lambda>m. (gid, fst m)) ` set ms"
      using Cons.prems True by (auto simp: item_key_def)
    ultimately show ?thesis by (simp add: members_foldl_other)
  next
    case False
    with Cons.prems have "(n, c) \<in> set ms" "fst m \<noteq> n" by (auto simp: image_iff)
    with Cons.prems have "x \<in> set (member_upsert gid m t)" by (simp add: member_upsert_other)
    with Cons.IH [of "member_upsert gid m t"] Cons.prems \<open>(n, c) \<in> set ms\<close> show ?thesis by simp
  qed
qed

lemma members_foldl_new:
  assumes "distinct (map fst ms)" "(n, c) \<in> set ms" "(gid, n) \<notin> item_key ` set t"
  shows "pending_item gid (n, c) \<in> set (foldl (\<lambda>t m. member_upsert gid m t) t ms)"
  using assms
proof (induction ms arbitrary: t)
  case Nil
  then show ?case by simp
next
  case (Cons m ms)
  show ?case
  proof (cases "m = (n, c)")
    case True
    have "\<not> list_ex (\<lambda>x. (it_generation x, it_number x) = (gid, n)) t"
      using Cons.prems(3) by (auto simp: list_ex_iff item_key_def image_iff)
    then have "pending_item gid (n, c) \<in> set (member_upsert gid m t)"
      using True by (simp add: upsert_def pending_item_def)
    moreover have "item_key (pending_item gid (n, c)) \<notin> (\<lambda>m. (gid, fst m)) ` set ms"
      using Cons.prems True by (auto simp: item_key_def pending_item_def)
    ultimately show ?thesis by (simp add: members_foldl_other)
  next
    case False
    with Cons.prems have "(n, c) \<in> set ms" "fst m \<noteq> n" by (auto simp: image_iff)
    moreover from this Cons.prems(3) have "(gid, n) \<notin> item_key ` set (member_upsert gid m t)"
      by (auto simp: member_upsert_keys)
    ultimately show ?thesis using Cons.IH [of "member_upsert gid m t"] Cons.prems by simp
  qed
qed

lemma set_members_row:
  assumes "distinct (map fst ms)" "(n, c) \<in> set ms" "x \<in> set t" "item_key x = (gid, n)"
  shows "x\<lparr>it_collection_ids := c\<rparr> \<in> set (set_members gid ms t)"
  unfolding set_members_def using assms
  by (intro members_foldl_row [where n = n]) (force simp: set_delete_where item_key_def)+

lemma set_members_new:
  assumes "distinct (map fst ms)" "(n, c) \<in> set ms" "(gid, n) \<notin> item_key ` set t"
  shows "pending_item gid (n, c) \<in> set (set_members gid ms t)"
  unfolding set_members_def using assms
  by (intro members_foldl_new) (auto simp: set_delete_where)

text \<open>The item of a generation with a number.\<close>

definition item_of :: "refresh_db \<Rightarrow> nat \<Rightarrow> int \<Rightarrow> item_row option" where
  "item_of db gid n = find (\<lambda>i. item_key i = (gid, n)) (rf_items db)"

lemma item_of_unique:
  "items_ok db \<Longrightarrow> i \<in> set (rf_items db) \<Longrightarrow> item_key i = (gid, n) \<Longrightarrow> item_of db gid n = Some i"
  unfolding item_of_def items_ok_def using find_unique [of item_key "rf_items db" i] by simp

lemma item_of_None: "item_of db gid n = None \<longleftrightarrow> (gid, n) \<notin> item_key ` set (rf_items db)"
  unfolding item_of_def by (auto simp: find_None_iff image_iff)

lemma item_of_SomeD: "item_of db gid n = Some i \<Longrightarrow> i \<in> set (rf_items db) \<and> item_key i = (gid, n)"
  unfolding item_of_def by (rule find_SomeD)

section \<open>Batches\<close>

lemma count_where_split:
  assumes "\<And>r. p r \<Longrightarrow> q r \<and> \<not> q (f r)"
  shows "count_where q (update_where p f t) + count_where p t = count_where q t"
  using assms by (induction t) (auto simp: update_where_def)

definition pending_of :: "refresh_db \<Rightarrow> nat \<Rightarrow> nat" where
  "pending_of db job = (case hydrating_gen db job of None \<Rightarrow> 0 | Some g \<Rightarrow> count_items (\<lambda>i. \<not> it_completed i) g db)"

lemma complete_item_pending:
  assumes "complete_item job item db = Inr db'"
  shows "pending_of db' job + 1 = pending_of db job"
proof (cases "hydrating_gen db job")
  case None
  with assms have "count_where (\<lambda>i. False) (rf_items db) = 1"
    by (simp add: complete_item_def Let_def failIf_eq_Inr)
  then show ?thesis by (simp add: count_where_def)
next
  case (Some g)
  let ?p = "\<lambda>i. it_generation i = g_id g \<and> it_number i = sg_Number item \<and> \<not> it_completed i"
  let ?f = "\<lambda>i. i\<lparr> it_completed := True, it_payload := sg_Payload item,
      it_fingerprint_version := sg_FingerprintVersion item, it_fingerprint := sg_Fingerprint item,
      it_cache_outcome := sg_CacheOutcome item \<rparr>"
  from assms Some have db': "db' = db\<lparr>rf_items := update_where ?p ?f (rf_items db)\<rparr>"
    and one: "count_where ?p (rf_items db) = 1"
    by (simp_all add: complete_item_def Let_def failIf_eq_Inr)
  have "count_where (\<lambda>i. it_generation i = g_id g \<and> \<not> it_completed i) (update_where ?p ?f (rf_items db)) +
      count_where ?p (rf_items db) = count_where (\<lambda>i. it_generation i = g_id g \<and> \<not> it_completed i) (rf_items db)"
    by (rule count_where_split) simp
  with one Some show ?thesis by (simp add: pending_of_def count_items_def db' hydrating_gen_def)
qed

lemma pending_of_pr [simp]: "pending_of (db\<lparr>rf_pr := d\<rparr>) job = pending_of db job"
  by (simp add: pending_of_def hydrating_gen_def count_items_def split: option.split)

lemma lift_pr_pending: "lift_pr f db = Inr db' \<Longrightarrow> pending_of db' job = pending_of db job"
  by (auto simp: lift_pr_def split: sum.splits)

lemma publish_items_pending:
  "foldR (publish_item job) items s = Inr s' \<Longrightarrow>
     pending_of (snd s') job + length items = pending_of (snd s) job"
proof (induction items arbitrary: s)
  case Nil
  then show ?case by simp
next
  case (Cons item items)
  then obtain s1 where s1: "publish_item job item s = Inr s1" "foldR (publish_item job) items s1 = Inr s'"
    by (auto simp: bindR_eq_Inr)
  have "pending_of (snd s1) job + 1 = pending_of (snd s) job"
    using publish_item_steps [OF s1(1)] complete_item_pending lift_pr_pending
    by (metis pending_of_pr snd_conv)
  with Cons.IH [OF s1(2)] show ?case by simp
qed

lemma find_update_unchanged:
  "(\<And>g. P (f g) = P g) \<Longrightarrow> find P (update_where p f t) = map_option (\<lambda>g. if p g then f g else g) (find P t)"
  by (induction t) (auto simp: update_where_def)

lemma reset_retries_pending: "pending_of (reset_retries job db) job = pending_of db job"
  by (auto simp: pending_of_def hydrating_gen_def reset_retries_def find_update_unchanged count_items_def
      split: option.split)

lemma batch_pending:
  assumes "PublishRefreshGenerationBatch U job items prs t db = Inr db'"
  shows "pending_of db' job + length items = pending_of db job"
proof -
  from PublishRefreshGenerationBatch_steps [OF assms] obtain ps s db1 where
    s: "foldR (publish_item job) items (ps, db) = Inr s"
    and db1: "lift_pr (assess_batch U t (fst s)) (snd s) = Inr db1" "db' = reset_retries job db1" by blast
  from publish_items_pending [OF s] lift_pr_pending [OF db1(1)] show ?thesis
    by (simp add: db1(2) reset_retries_pending)
qed

section \<open>A sample run\<close>

text \<open>One repository without open pull requests is refreshed up to its publishing phase.\<close>

definition no_progress :: progress_db where
  "no_progress = \<lparr> pg_collected = [], pg_events = [], pg_threads = [], pg_goals = [] \<rparr>"

definition sample_job_row :: "job_status \<Rightarrow> refresh_payload job_row" where
  "sample_job_row st = \<lparr> j_id = 1, j_status = st, j_scheduled_for = formatTime second,
     j_started_at = (if st = Queued then None else Some (formatTime second)), j_finished_at = None,
     j_payload = \<lparr> rp_repository = ''o/r'', rp_forced = False \<rparr> \<rparr>"

definition sample_job :: refresh_job where
  "sample_job = \<lparr> jb_ID = 1, jb_Repository = ''o/r'', jb_ScheduledFor = second, jb_Forced = False \<rparr>"

definition sample_discovery :: "(int \<times> string list) list \<Rightarrow> discovery" where
  "sample_discovery ms = \<lparr> dc_Members = ms, dc_Limits = [], dc_DiscoveredAt = second, dc_ProgressSince = 0 \<rparr>"

definition sample_gen :: "phase \<Rightarrow> string \<Rightarrow> generation_row" where
  "sample_gen ph payload = (new_generation 1 sample_job False (sample_discovery []))
     \<lparr> g_phase := ph, g_progress_payload := payload \<rparr>"

definition sample_state :: "job_status \<Rightarrow> generation_row list \<Rightarrow> item_row list \<Rightarrow> refresh_db" where
  "sample_state st gens items = \<lparr> rf_pr = sample_pr_db, rf_jobs = \<lparr> q_jobs = [sample_job_row st], q_next = 2 \<rparr>,
     rf_gens = gens, rf_next_gen = length gens + 1, rf_items = items, rf_progress = no_progress \<rparr>"

lemma sample_configured: "configured_repository sample_pr_db ''o/r''"
  by code_simp

lemma sample_enqueue:
  "EnqueueRefreshWithForce ''o/r'' second False (no_refreshes sample_pr_db no_progress) =
     Inr (True, sample_state Queued [] [])"
  by (simp add: EnqueueRefreshWithForce_def no_refreshes_def sample_configured enqueue_job_def
      sample_state_def sample_job_row_def)

lemma sample_claim:
  "ClaimRefresh (\<lambda>s. Some second) second (sample_state Queued [] []) = (Inr (Some sample_job), sample_state Running [] [])"
  by (simp add: ClaimRefresh_def claim_job_def select_due_def is_claimable_def sample_state_def
      sample_job_row_def start_job_def update_where_def sample_job_def)

lemma sample_start:
  "StartRefreshGeneration sample_job (sample_discovery []) (sample_state Running [] []) =
     Inr (sample_state Running [sample_gen Hydrating []] [])"
  by (simp add: StartRefreshGeneration_def sample_state_def sample_job_row_def sample_job_def
      sample_discovery_def IsZero_def second_def DeleteRefreshGeneration_def delete_where_def
      sample_gen_def new_generation_def Let_def)

lemma sample_advance:
  "AdvanceRefreshGeneration 1 old new payload (sample_state Running [sample_gen old p] []) =
     Inr (sample_state Running [sample_gen new (if payload \<noteq> [] then payload else p)] [])"
  by (simp add: AdvanceRefreshGeneration_def sample_state_def sample_gen_def new_generation_def
      sample_job_def update_where_def no_failure_def Let_def)

lemma sample_empty_batch:
  "LoadRefreshGenerationBatch 1 refreshHydrationBatchSize (sample_state Running [sample_gen Hydrating []] []) = Inr []"
  by (simp add: LoadRefreshGenerationBatch_def refreshHydrationBatchSize_def sample_state_def
      items_of_def split: option.split)

lemma sample_progress_reachable:
  "refresh_reachable (sample_state Running [sample_gen ProgressPhase []] [])"
proof -
  have "refresh_reachable (sample_state Queued [] [])"
    by (rule refresh_reachable.step [OF refresh_reachable.start refresh_step.enqueue [OF sample_enqueue]])
  then have "refresh_reachable (sample_state Running [] [])"
    using refresh_step.claim [of "sample_state Queued [] []" "\<lambda>s. Some second" second]
    by (simp add: sample_claim) (rule refresh_reachable.step)
  then have "refresh_reachable (sample_state Running [sample_gen Hydrating []] [])"
    by (rule refresh_reachable.step) (rule refresh_step.start [OF sample_start], simp add: sample_discovery_def)
  then show ?thesis
    by (rule refresh_reachable.step)
      (rule refresh_step.hydrated [OF sample_empty_batch],
        use sample_advance [of Hydrating ProgressPhase "[]" "[]"] in simp)
qed

lemma sample_publishing_reachable:
  "refresh_reachable (sample_state Running [sample_gen Publishing ''{}''] [])"
proof -
  from sample_progress_reachable show ?thesis
    by (rule refresh_reachable.step)
      (rule refresh_step.progress [of 1 "''{}''"], use sample_advance [of ProgressPhase Publishing "''{}''" "[]"] in simp)
qed

section \<open>Properties\<close>

lemma count_where_unique:
  "distinct (map k (filter p t)) \<Longrightarrow> count_where (\<lambda>x. p x \<and> k x = v) t \<le> 1"
proof (induction t)
  case (Cons a t)
  show ?case
  proof (cases "p a \<and> k a = v")
    case True
    with Cons.prems have "k a \<notin> k ` set (filter p t)" by simp
    then have "\<forall>r\<in>set t. p r \<longrightarrow> k r \<noteq> k a" by (simp add: image_iff) metis
    with True have "\<forall>r\<in>set t. p r \<longrightarrow> k r \<noteq> v" by simp
    then have "count_where (\<lambda>x. p x \<and> k x = v) t = 0" by (simp add: count_where_0)
    then show ?thesis by simp
  qed (use Cons in \<open>auto split: if_splits\<close>)
qed simp

text \<open>
  In every state the committed transactions can reach, a repository has at most one active
  refresh job, a job at most one staged generation, and a generation at most one item per pull
  request number.
\<close>

theorem refresh_work_unique:
  assumes "refresh_reachable db"
  shows "count_where (\<lambda>j. active j \<and> refresh_key (j_payload j) = r) (q_jobs (rf_jobs db)) \<le> 1 \<and>
    count_where (\<lambda>g. g_job g = job) (rf_gens db) \<le> 1 \<and>
    count_where (\<lambda>i. it_generation i = gid \<and> it_number i = n) (rf_items db) \<le> 1"
proof -
  have ok: "refresh_ok db" by (rule refresh_reachable_ok [OF assms])
  from ok have "distinct (map (refresh_key \<circ> j_payload) (filter active (q_jobs (rf_jobs db))))"
    by (simp add: refresh_ok_def queue_ok_def)
  from count_where_unique [OF this, of r]
  have "count_where (\<lambda>j. active j \<and> refresh_key (j_payload j) = r) (q_jobs (rf_jobs db)) \<le> 1" by simp
  moreover have "count_where (\<lambda>g. g_job g = job) (rf_gens db) \<le> 1"
    using count_where_unique [of g_job "\<lambda>_. True" "rf_gens db" job] ok by (simp add: refresh_ok_def gens_ok_def)
  moreover have "count_where (\<lambda>i. it_generation i = gid \<and> it_number i = n) (rf_items db) \<le> 1"
    using count_where_unique [of item_key "\<lambda>_. True" "rf_items db" "(gid, n)"] ok
    by (simp add: refresh_ok_def items_ok_def item_key_def)
  ultimately show ?thesis by blast
qed

lemma refresh_work_unique_witness:
  "count_where (\<lambda>g. g_job g = 1) (rf_gens (sample_state Running [sample_gen Publishing ''{}''] [])) \<le> 1"
  using refresh_work_unique [OF sample_publishing_reachable, of "''o/r''" 1 1 7] by blast



text \<open>
  C11. Rediscovery during a refresh keeps what is hydrated: afterwards the generation has an item
  for every discovered pull request and no other, a pull request that was already staged keeps
  its hydrated data and state under its new collections, and a new one is pending; the
  generation is hydrating again and the request is answered.
\<close>

theorem Reconcile_keeps_hydrated:
  assumes "refresh_ok db" "gen_of db job = Some g" "distinct (map fst (dc_Members d))"
    and "ReconcileRefreshGenerationDiscovery job d db = Inr db'"
  shows "gen_of db' job = Some (rediscovered d g) \<and>
    (\<forall>n. item_of db' (g_id g) n =
      (case map_of (dc_Members d) n of
         None \<Rightarrow> None
       | Some c \<Rightarrow> Some (case item_of db (g_id g) n of
           None \<Rightarrow> pending_item (g_id g) (n, c) | Some i \<Rightarrow> i\<lparr>it_collection_ids := c\<rparr>)))"
proof -
  let ?ms = "sort_key fst (dc_Members d)"
  from assms(2,4) have db': "db' = db\<lparr>rf_items := set_members (g_id g) ?ms (rf_items db),
      rf_gens := update_where (\<lambda>x. g_id x = g_id g) (rediscovered d) (rf_gens db)\<rparr>"
    by (simp add: ReconcileRefreshGenerationDiscovery_def failIf_eq_Inr)
  have ok: "items_ok db'"
    using ReconcileRefreshGenerationDiscovery_ok [OF assms(1,4)] by (simp add: refresh_ok_def)
  have gen: "gen_of db' job = Some (rediscovered d g)"
    using assms(2) by (simp add: db' gen_of_def find_update_unchanged)
  have ms: "distinct (map fst ?ms)" using assms(3) by (simp add: distinct_map)
  have "item_of db' (g_id g) n = (case map_of (dc_Members d) n of None \<Rightarrow> None
       | Some c \<Rightarrow> Some (case item_of db (g_id g) n of
           None \<Rightarrow> pending_item (g_id g) (n, c) | Some i \<Rightarrow> i\<lparr>it_collection_ids := c\<rparr>))" for n
  proof (cases "map_of (dc_Members d) n")
    case None
    then have "(g_id g, n) \<notin> item_key ` set (rf_items db')"
      by (auto simp: db' set_members_keys map_of_eq_None_iff)
    with None show ?thesis by (simp add: item_of_None)
  next
    case (Some c)
    then have c: "(n, c) \<in> set ?ms" by (auto dest: map_of_SomeD)
    show ?thesis
    proof (cases "item_of db (g_id g) n")
      case None
      with set_members_new [OF ms c] have "pending_item (g_id g) (n, c) \<in> set (rf_items db')"
        by (simp add: db' item_of_None)
      from item_of_unique [OF ok this] Some None show ?thesis by (simp add: item_key_def pending_item_def)
    next
      case (Some i)
      from item_of_SomeD [OF this] set_members_row [OF ms c, of i]
      have i: "i\<lparr>it_collection_ids := c\<rparr> \<in> set (rf_items db')" "item_key i = (g_id g, n)"
        by (simp_all add: db')
      with item_of_unique [OF ok i(1), of "g_id g" n] Some \<open>map_of (dc_Members d) n = Some c\<close> show ?thesis
        by (simp add: item_key_def)
    qed
  qed
  with gen show ?thesis by blast
qed

text \<open>A generation that is publishing when its members are discovered again.\<close>

definition hydrated_item :: item_row where
  "hydrated_item = (pending_item 1 (7, [''c'']))\<lparr>it_completed := True, it_payload := ''{}''\<rparr>"

definition staged_state :: refresh_db where
  "staged_state = sample_state Running [sample_gen Publishing ''{}''] [hydrated_item]"

lemma staged_state_ok: "refresh_ok staged_state"
  by (simp add: refresh_ok_def staged_state_def sample_state_def queue_ok_def gens_ok_def items_ok_def
      phases_ok_def sample_job_row_def sample_gen_def new_generation_def hydrated_item_def pending_item_def
      active_def)

lemma Reconcile_keeps_hydrated_witness:
  "\<exists>db'. ReconcileRefreshGenerationDiscovery 1 (sample_discovery [(7, [''e'']), (8, [''c''])]) staged_state = Inr db' \<and>
     item_of db' 1 7 = Some (hydrated_item\<lparr>it_collection_ids := [''e'']\<rparr>) \<and>
     item_of db' 1 8 = Some (pending_item 1 (8, [''c'']))"
proof -
  let ?d = "sample_discovery [(7, [''e'']), (8, [''c''])]"
  have g: "gen_of staged_state 1 = Some (sample_gen Publishing ''{}'')" "g_id (sample_gen Publishing ''{}'') = 1"
    by (simp_all add: gen_of_def staged_state_def sample_state_def sample_gen_def new_generation_def sample_job_def)
  obtain db' where r: "ReconcileRefreshGenerationDiscovery 1 ?d staged_state = Inr db'"
    using g by (simp add: ReconcileRefreshGenerationDiscovery_def sample_discovery_def IsZero_def second_def)
  have m: "dc_Members ?d = [(7, [''e'']), (8, [''c''])]" by (simp add: sample_discovery_def)
  have o: "item_of staged_state 1 7 = Some hydrated_item" "item_of staged_state 1 8 = None"
    by (simp_all add: item_of_def staged_state_def sample_state_def hydrated_item_def pending_item_def item_key_def)
  from Reconcile_keeps_hydrated [OF staged_state_ok g(1) _ r] m g(2) o r show ?thesis by simp
qed

text \<open>
  C12. Hydration makes progress: publishing a batch completes exactly as many pending items of
  the job's generation as the batch has pull requests, each of them once, in the order given.
\<close>

theorem batch_decreases_pending:
  assumes "PublishRefreshGenerationBatch U job items prs completedAt db = Inr db'"
  shows "pending_of db' job + length items = pending_of db job \<and> length prs = length items \<and>
    rf_jobs db' = rf_jobs db \<and> map g_phase (rf_gens db') = map g_phase (rf_gens db)"
proof -
  from PublishRefreshGenerationBatch_steps [OF assms] obtain db1 where
    db1: "items_advance db db1" "length items = length prs" "db' = reset_retries job db1" by blast
  have "map g_phase (rf_gens db') = map g_phase (rf_gens db1)"
    unfolding db1(3) reset_retries_def by (simp add: map_update_where)
  with db1 batch_pending [OF assms] show ?thesis by (simp add: items_advance_def reset_retries_def)
qed

definition hydrating_state :: refresh_db where
  "hydrating_state = sample_state Running [sample_gen Hydrating []] [pending_item 1 (7, [''c''])]"

definition sample_staged :: staged where
  "sample_staged = \<lparr> sg_Number = 7, sg_CollectionIDs = [''c''], sg_Payload = ''{}'',
     sg_FingerprintVersion = ''1'', sg_Fingerprint = ''f'', sg_CacheOutcome = ''miss'' \<rparr>"

lemma sample_batch_succeeds:
  "\<not> isl (PublishRefreshGenerationBatch (\<lambda>s. s) 1 [sample_staged] [sample_pull 7 [''c'']] second hydrating_state)"
  by (simp add: PublishRefreshGenerationBatch_def normalizePullRequest_def publish_item_def
      valid_staged_def last_index_def hydrating_gen_def lift_pr_def write_pull_def
      upsertPullRequestRow_def replacePullRequestFiles_def replacePullRequestContext_def
      complete_item_def assess_batch_def writeQualityAssessment_def active_repository_def
      insert_ignore_def upsert_def update_where_def pull_key_def key_of_def pull_row_of_def
      sample_pull_def sample_pr_db_def IsZero_def second_def Let_def
      hydrating_state_def sample_state_def sample_gen_def new_generation_def sample_job_def
      sample_staged_def pending_item_def)

lemma batch_decreases_pending_witness:
  "pending_of hydrating_state 1 = 1 \<and>
   pending_of (projr (PublishRefreshGenerationBatch (\<lambda>s. s) 1 [sample_staged] [sample_pull 7 [''c'']] second
     hydrating_state)) 1 = 0"
proof -
  let ?r = "PublishRefreshGenerationBatch (\<lambda>s. s) 1 [sample_staged] [sample_pull 7 [''c'']] second hydrating_state"
  have "?r = Inr (projr ?r)" using sample_batch_succeeds by (cases ?r) simp_all
  from batch_decreases_pending [OF this] have "pending_of (projr ?r) 1 + 1 = pending_of hydrating_state 1" by simp
  moreover have "pending_of hydrating_state 1 = 1"
    by (simp add: pending_of_def hydrating_gen_def count_items_def hydrating_state_def sample_state_def
        sample_gen_def new_generation_def sample_job_def pending_item_def)
  ultimately show ?thesis by simp
qed

text \<open>
  A forced refresh requested while the repository's job is running does not create a job: the
  running job is marked instead. When that job then completes, as it does after publishing, no
  active job of the repository is left, so the forced refresh does not happen.
\<close>

theorem forced_request_during_run_lost:
  assumes "refresh_ok db" "j \<in> set (q_jobs (rf_jobs db))" "j_status j = Running"
    and "configured_repository (rf_pr db) (refresh_key (j_payload j))"
  shows "\<exists>db1. EnqueueRefreshWithForce (refresh_key (j_payload j)) t True db = Inr (False, db1) \<and>
    (\<forall>k\<in>set (q_jobs (rf_jobs (CompleteRefreshJob (j_id j) t' db1))).
       refresh_key (j_payload k) = refresh_key (j_payload j) \<longrightarrow> \<not> active k)"
proof -
  let ?r = "refresh_key (j_payload j)" and ?jobs = "q_jobs (rf_jobs db)"
  let ?f = "\<lambda>j. j\<lparr>j_payload := (j_payload j)\<lparr>rp_forced := True\<rparr>\<rparr>"
  let ?q = "(rf_jobs db)\<lparr>q_jobs := update_where (\<lambda>j. rp_repository (j_payload j) = ?r \<and> active j) ?f ?jobs\<rparr>"
  have a: "active j" using assms(3) by (simp add: active_def)
  have "list_ex (\<lambda>x. active x \<and> refresh_key (j_payload x) = ?r) ?jobs"
    using assms(2) a by (auto simp: list_ex_iff)
  then have e: "EnqueueRefreshWithForce ?r t True db = Inr (False, db\<lparr>rf_jobs := ?q\<rparr>)"
    using assms(4) by (simp add: EnqueueRefreshWithForce_def enqueue_job_def refresh_key_def)
  have uniq: "x = j" if "x \<in> set ?jobs" "active x" "refresh_key (j_payload x) = ?r" for x
    using assms(1,2) a that by (auto simp: refresh_ok_def queue_ok_def distinct_map inj_on_def)
  have "\<not> active k" if k: "k \<in> set (q_jobs (rf_jobs (CompleteRefreshJob (j_id j) t' (db\<lparr>rf_jobs := ?q\<rparr>))))"
    "refresh_key (j_payload k) = ?r" for k
  proof
    assume "active k"
    with k obtain x where "x \<in> set ?jobs" "active x" "refresh_key (j_payload x) = ?r" "j_id x \<noteq> j_id j"
      by (auto simp: CompleteRefreshJob_def finish_job_def finish_where_def set_update_where active_def
          refresh_key_def split: if_splits)
    with uniq show False by blast
  qed
  with e show ?thesis by blast
qed

lemma forced_request_during_run_lost_witness:
  "\<exists>db1. EnqueueRefreshWithForce ''o/r'' second True staged_state = Inr (False, db1) \<and>
    (\<forall>k\<in>set (q_jobs (rf_jobs (CompleteRefreshJob 1 second db1))). refresh_key (j_payload k) = ''o/r'' \<longrightarrow> \<not> active k)"
proof -
  have "sample_job_row Running \<in> set (q_jobs (rf_jobs staged_state))"
    "configured_repository (rf_pr staged_state) ''o/r''"
    by (simp_all add: staged_state_def sample_state_def sample_configured)
  with forced_request_during_run_lost [OF staged_state_ok, of "sample_job_row Running" second second]
  show ?thesis by (simp add: sample_job_row_def refresh_key_def)
qed

end
