(* ===== verification/Scheduler.thy ===== *)
theory Scheduler
  imports RefreshProps
begin

text \<open>
  The refresh worker (\<open>internal/refresh/scheduler.go\<close>): a claimed job takes one durable step of its
  generation and is queued again, until its generation is published or its failure is final. The
  collector is the interface \<open>Collector\<close> that the GitHub router implements; its answers, the
  JSON encoding and the clock are parameters. \<open>sd_now k\<close> are readings of the clock while one job
  is processed, a larger \<open>k\<close> being a later reading. A store operation that fails leaves the tables as they were, and
  the step returns its error with what earlier operations have committed.
\<close>

section \<open>What the collector answers\<close>

text \<open>
  The types of \<open>internal/githubapp/client.go\<close>. Relationships, external URLs, check runs, files,
  progress events and review threads have the same fields there as in the store.
\<close>

record gh_limit =
  gl_Scope :: string
  gl_Reason :: string
  gl_Collected :: int
  gl_Total :: int

record gh_context =
  gc_Completeness :: string
  gc_Limits :: "gh_limit list"
  gc_Relationships :: "relationship list"
  gc_ExternalURLs :: "external_url list"
  gc_CollectedAt :: time

record gh_pull =
  hp_Repository :: string
  hp_Number :: int
  hp_HeadSHA :: string
  hp_Title :: string
  hp_Body :: string
  hp_Author :: string
  hp_AuthorID :: int
  hp_AuthorAssociation :: string
  hp_CreatedAt :: time
  hp_UpdatedAt :: time
  hp_URL :: string
  hp_Additions :: int
  hp_Deletions :: int
  hp_ChangedFiles :: int
  hp_Files :: "changed_file list"
  hp_ReviewState :: string
  hp_Readiness :: readiness
  hp_CollectionIDs :: "string list"
  hp_Context :: gh_context

record input_fingerprint =
  fp_Version :: string
  fp_Value :: string

record cached_pull =
  cp_PullRequest :: gh_pull
  cp_Fingerprint :: input_fingerprint

record discovered_pull =
  dq_Number :: int
  dq_CollectionIDs :: "string list"
  dq_ContextLimits :: "gh_limit list"

record discovery_result =
  dr_Repository :: string
  dr_PullRequests :: "discovered_pull list"
  dr_Limits :: "gh_limit list"

record hydration_result =
  hr_Repository :: string
  hr_PullRequests :: "gh_pull list"
  hr_CollectedAt :: time
  hr_Fingerprints :: "(int \<times> input_fingerprint) list"

record progress_result =
  gr_Repository :: string
  gr_ProgressEvents :: "progress_event list"
  gr_ReviewThreads :: "thread_state list"
  gr_CollectedAt :: time

record snapshot =
  sn_Repository :: string
  sn_PullRequests :: "gh_pull list"
  sn_Authors :: "author_history list"
  sn_ProgressEvents :: "progress_event list"
  sn_ReviewThreads :: "thread_state list"
  sn_CollectedAt :: time
  sn_Limits :: "gh_limit list"
  sn_Fingerprints :: "(int \<times> input_fingerprint) list"
  sn_CacheHits :: int
  sn_CacheMisses :: int
  sn_CacheBypasses :: int

record collector =
  col_Discover :: "string \<Rightarrow> attempt list \<times> (failure + discovery_result)"
  col_Hydrate :: "string \<Rightarrow> discovered_pull list \<Rightarrow> (int \<times> cached_pull) list \<Rightarrow> bool \<Rightarrow>
    attempt list \<times> (failure + hydration_result)"
  col_Progress :: "string \<Rightarrow> time \<Rightarrow> attempt list \<times> (failure + progress_result)"

text \<open>\<open>json.Marshal\<close> and \<open>json.Unmarshal\<close> on the two staged types.\<close>

record codec =
  enc_pull :: "gh_pull \<Rightarrow> string option"
  dec_pull :: "string \<Rightarrow> gh_pull option"
  enc_progress :: "progress_result \<Rightarrow> string option"
  dec_progress :: "string \<Rightarrow> progress_result option"

record scheduler =
  sd_collector :: collector
  sd_concurrency :: int
  sd_pollInterval :: int
  sd_jobTimeout :: int
  sd_now :: "nat \<Rightarrow> time"
  sd_codec :: codec
  sd_parse :: "string \<Rightarrow> time option"
  sd_upper :: "string \<Rightarrow> string"

text \<open>The defaults of \<open>newScheduler\<close>.\<close>

definition newScheduler :: "scheduler \<Rightarrow> scheduler" where
  "newScheduler o1 = o1\<lparr>
     sd_concurrency := (if sd_concurrency o1 \<le> 0 then 2 else sd_concurrency o1),
     sd_pollInterval := (if sd_pollInterval o1 \<le> 0 then second else sd_pollInterval o1),
     sd_jobTimeout := (if sd_jobTimeout o1 \<le> 0 then 15 * minute else sd_jobTimeout o1)\<rparr>"

section \<open>Conversion\<close>

definition storageContextLimits :: "gh_limit list \<Rightarrow> context_limit list" where
  "storageContextLimits ls = map (\<lambda>l. \<lparr> cx_Repository = [], cx_Scope = gl_Scope l, cx_Reason = gl_Reason l,
     cx_Collected = gl_Collected l, cx_Total = gl_Total l \<rparr>) ls"

definition githubContextLimits :: "context_limit list \<Rightarrow> gh_limit list" where
  "githubContextLimits ls = map (\<lambda>l. \<lparr> gl_Scope = cx_Scope l, gl_Reason = cx_Reason l,
     gl_Collected = cx_Collected l, gl_Total = cx_Total l \<rparr>) ls"

text \<open>A context is stored when the collector has put anything in it.\<close>

definition storage_context :: "gh_context \<Rightarrow> pull_context option" where
  "storage_context c =
     (if gc_Completeness c \<noteq> [] \<or> gc_Limits c \<noteq> [] \<or> gc_Relationships c \<noteq> [] \<or> gc_ExternalURLs c \<noteq> []
      then Some \<lparr> ctx_Completeness = gc_Completeness c, ctx_Limits = storageContextLimits (gc_Limits c),
             ctx_CollectedAt = gc_CollectedAt c, ctx_Relationships = gc_Relationships c,
             ctx_ExternalURLs = gc_ExternalURLs c \<rparr>
      else None)"

definition storagePullRequest :: "gh_pull \<Rightarrow> input_fingerprint \<Rightarrow> string \<Rightarrow> pull_request" where
  "storagePullRequest p fp payload =
     \<lparr> pr_Repository = hp_Repository p, pr_Number = hp_Number p, pr_HeadSHA = hp_HeadSHA p,
       pr_Title = hp_Title p, pr_Author = hp_Author p, pr_AuthorID = hp_AuthorID p,
       pr_Additions = hp_Additions p, pr_Deletions = hp_Deletions p, pr_ChangedFiles = hp_ChangedFiles p,
       pr_CreatedAt = hp_CreatedAt p, pr_UpdatedAt = hp_UpdatedAt p, pr_URL = hp_URL p,
       pr_ReviewState = hp_ReviewState p, pr_Readiness = hp_Readiness p, pr_Body = hp_Body p,
       pr_CollectionIDs = hp_CollectionIDs p, pr_Context = storage_context (hp_Context p),
       pr_Files = hp_Files p, pr_AuthorHistory = None, pr_FingerprintVersion = fp_Version fp,
       pr_Fingerprint = fp_Value fp, pr_CachePayload = payload \<rparr>"

definition fingerprint_of :: "(int \<times> input_fingerprint) list \<Rightarrow> int \<Rightarrow> input_fingerprint" where
  "fingerprint_of fps n = (case map_of fps n of None \<Rightarrow> \<lparr> fp_Version = [], fp_Value = [] \<rparr> | Some f \<Rightarrow> f)"

section \<open>Steps\<close>

record sched_world =
  sw_db :: refresh_db
  sw_operations :: "operation_row list"
  sw_attempts :: "attempt_row list"

datatype sched_error =
    SRefresh refresh_error | SProgress progress_error | SRoute route_db_error | SPull pr_error
  | SNotComplete | SDecode int | SDecodeProgress | SEncode int | SEncodeProgress
  | SHydrationCount nat nat

type_synonym 'a act = "sched_world \<Rightarrow> (sched_error + 'a) \<times> sched_world"

definition thenS :: "'a act \<Rightarrow> ('a \<Rightarrow> 'b act) \<Rightarrow> 'b act" where
  "thenS m f = (\<lambda>w. case m w of (Inl e, w') \<Rightarrow> (Inl e, w') | (Inr x, w') \<Rightarrow> f x w')"

definition okS :: "'a \<Rightarrow> 'a act" where
  "okS x = (\<lambda>w. (Inr x, w))"

definition failS :: "sched_error \<Rightarrow> 'a act" where
  "failS e = (\<lambda>w. (Inl e, w))"

text \<open>A transaction on the refresh tables, and a query.\<close>

definition tx :: "(refresh_db \<Rightarrow> refresh_error + refresh_db) \<Rightarrow> unit act" where
  "tx f = (\<lambda>w. case f (sw_db w) of Inl e \<Rightarrow> (Inl (SRefresh e), w) | Inr db \<Rightarrow> (Inr (), w\<lparr>sw_db := db\<rparr>))"

definition query :: "(refresh_db \<Rightarrow> refresh_error + 'a) \<Rightarrow> 'a act" where
  "query f = (\<lambda>w. case f (sw_db w) of Inl e \<Rightarrow> (Inl (SRefresh e), w) | Inr x \<Rightarrow> (Inr x, w))"

definition route_view :: "sched_world \<Rightarrow> route_db" where
  "route_view w = \<lparr> rt_refreshes = map refresh_row.truncate (d_refreshes (rf_pr (sw_db w))),
     rt_operations = sw_operations w, rt_attempts = sw_attempts w \<rparr>"

definition persistPhaseAttempts :: "string \<Rightarrow> operation \<Rightarrow> attempt list \<Rightarrow> time \<Rightarrow> unit act" where
  "persistPhaseAttempts repository opn attempts attemptedAt = (\<lambda>w.
     case ReplaceRouteAttempts (route_view w) repository (operation_text opn)
         (storageRouteAttempts attempts) attemptedAt of
       Inl e \<Rightarrow> if e = ErrRepositoryNotConfigured then (Inr (), w) else (Inl (SRoute e), w)
     | Inr d \<Rightarrow> (Inr (), w\<lparr>sw_operations := rt_operations d, sw_attempts := rt_attempts d\<rparr>))"

definition requeue :: "nat \<Rightarrow> time \<Rightarrow> unit act" where
  "requeue job at = tx (RequeueRefreshJob job at)"

definition is_retryable :: "failure_category \<Rightarrow> bool" where
  "is_retryable c \<longleftrightarrow> c \<in> {FailurePrimaryRateLimited, FailureSecondaryRateLimited,
     FailureGitHubUnavailable, FailureOperationTimeout}"

text \<open>\<open>time.Minute * (1 << min(retries-1, 4))\<close>.\<close>

definition retry_delay :: "nat \<Rightarrow> int" where
  "retry_delay retries = minute * 2 ^ min (retries - 1) 4"

text \<open>\<open>canceled\<close> is \<open>ctx.Err() != nil\<close> for the context of the worker.\<close>

definition handlePhasedFailure ::
  "scheduler \<Rightarrow> bool \<Rightarrow> refresh_job \<Rightarrow> time \<Rightarrow> failure \<Rightarrow> generation option \<Rightarrow> unit act" where
  "handlePhasedFailure s canceled job attemptedAt collectErr g =
     (let md = BoundedFailureMetadata collectErr; retryable = is_retryable (fm_Category md) in
      if canceled then okS ()
      else if retryable \<and> g = None then requeue (jb_ID job) (sd_now s 0 + minute)
      else if retryable \<and> sd_now s 0 - gen_DiscoveredAt (the g) < 24 * hour
      then (\<lambda>w. case RecordRefreshGenerationRetry (jb_ID job) (category_text (fm_Category md), fm_Detail md,
              fm_Remediation md, fm_Phase md) (sw_db w) of
           Inl e \<Rightarrow> (Inl (SRefresh e), w)
         | Inr (retries, db) \<Rightarrow> requeue (jb_ID job) (sd_now s 1 + retry_delay retries) (w\<lparr>sw_db := db\<rparr>))
      else thenS (tx (RecordRefreshResult (jb_Repository job)
             (if IsIncomplete collectErr then ''incomplete'' else ''failed'') attemptedAt
             (if IsIncomplete collectErr then ''GitHub refresh was incomplete.'' else ''GitHub refresh failed.'')))
           (\<lambda>_. thenS (tx (\<lambda>db. Inr (DeleteRefreshGeneration (jb_ID job) db)))
           (\<lambda>_. tx (\<lambda>db. Inr (CompleteRefreshJob (jb_ID job) (sd_now s 2) db)))))"

text \<open>The Go map from pull request number to collections.\<close>

definition members_of :: "discovered_pull list \<Rightarrow> (int \<times> string list) list" where
  "members_of ps = foldl (\<lambda>t p. upsert fst (\<lambda>old new. new) (dq_Number p, dq_CollectionIDs p) t) [] ps"

definition progress_since :: "scheduler \<Rightarrow> string \<Rightarrow> time act" where
  "progress_since s repository = (\<lambda>w.
     case RepositoryProgressCollectedAt (sd_parse s) repository (rf_progress (sw_db w)) of
       Inl e \<Rightarrow> (Inl (SProgress e), w) | Inr t \<Rightarrow> (Inr t, w))"

text \<open>Discovery, for a new generation or, when \<open>g\<close> is one, for its reconciliation.\<close>

definition discover ::
  "scheduler \<Rightarrow> bool \<Rightarrow> refresh_job \<Rightarrow> time \<Rightarrow> generation option \<Rightarrow> unit act" where
  "discover s canceled job attemptedAt g =
     (let (attempts, answer) = col_Discover (sd_collector s) (jb_Repository job) in
      thenS (persistPhaseAttempts (jb_Repository job) OperationDiscovery attempts attemptedAt) (\<lambda>_.
      case answer of
        Inl err \<Rightarrow> handlePhasedFailure s canceled job attemptedAt err g
      | Inr result \<Rightarrow>
          thenS (progress_since s (jb_Repository job)) (\<lambda>since.
            let d = \<lparr> dc_Members = members_of (dr_PullRequests result),
                  dc_Limits = storageContextLimits (dr_Limits result),
                  dc_DiscoveredAt = sd_now s 0, dc_ProgressSince = since \<rparr> in
            thenS (tx (case g of None \<Rightarrow> StartRefreshGeneration job d
                        | Some _ \<Rightarrow> ReconcileRefreshGenerationDiscovery (jb_ID job) d))
              (\<lambda>_. requeue (jb_ID job) (sd_now s 1)))))"

text \<open>Cached pull requests that still decode.\<close>

definition cachedPullRequests :: "scheduler \<Rightarrow> string \<Rightarrow> refresh_db \<Rightarrow> (int \<times> cached_pull) list" where
  "cachedPullRequests s repository db =
     List.map_filter (\<lambda>(n, v, f, payload). map_option (\<lambda>p. (n, \<lparr> cp_PullRequest = p,
         cp_Fingerprint = \<lparr> fp_Version = v, fp_Value = f \<rparr> \<rparr>)) (dec_pull (sd_codec s) payload))
       (LoadCachedPullRequests repository db)"

definition cache_outcome :: "bool \<Rightarrow> (int \<times> cached_pull) list \<Rightarrow> int \<Rightarrow> input_fingerprint \<Rightarrow> string" where
  "cache_outcome forced cached n fp =
     (if forced then ''bypass''
      else if \<exists>c. map_of cached n = Some c \<and> cp_Fingerprint c = fp then ''hit'' else ''miss'')"

text \<open>The staged and the published form of one hydrated pull request.\<close>

definition stage_pull ::
  "codec \<Rightarrow> bool \<Rightarrow> (int \<times> cached_pull) list \<Rightarrow> (int \<times> string list) list \<Rightarrow>
   (int \<times> input_fingerprint) list \<Rightarrow> gh_pull \<Rightarrow> sched_error + (staged \<times> pull_request)" where
  "stage_pull c forced cached memberships fps p =
     (case enc_pull c p of
        None \<Rightarrow> Inl (SEncode (hp_Number p))
      | Some payload \<Rightarrow>
          let n = hp_Number p; fp = fingerprint_of fps n;
              ids = (case map_of memberships n of None \<Rightarrow> [] | Some cs \<Rightarrow> cs) in
          Inr (\<lparr> sg_Number = n, sg_CollectionIDs = ids, sg_Payload = payload,
                 sg_FingerprintVersion = fp_Version fp, sg_Fingerprint = fp_Value fp,
                 sg_CacheOutcome = cache_outcome forced cached n fp \<rparr>,
               storagePullRequest (p\<lparr>hp_CollectionIDs := ids\<rparr>) fp payload))"

definition publish_batch ::
  "scheduler \<Rightarrow> refresh_job \<Rightarrow> (int \<times> string list) list \<Rightarrow> (int \<times> cached_pull) list \<Rightarrow>
   hydration_result \<Rightarrow> unit act" where
  "publish_batch s job batch cached result =
     (case collectR (stage_pull (sd_codec s) (jb_Forced job) cached batch (hr_Fingerprints result))
         (hr_PullRequests result) of
        Inl e \<Rightarrow> failS e
      | Inr xs \<Rightarrow>
          if length xs \<noteq> length batch then failS (SHydrationCount (length xs) (length batch))
          else thenS (tx (PublishRefreshGenerationBatch (sd_upper s) (jb_ID job) (map fst xs) (map snd xs)
                 (sd_now s 0)))
               (\<lambda>_. requeue (jb_ID job) (sd_now s 1)))"

definition processHydrationBatch ::
  "scheduler \<Rightarrow> bool \<Rightarrow> refresh_job \<Rightarrow> time \<Rightarrow> generation \<Rightarrow> unit act" where
  "processHydrationBatch s canceled job attemptedAt g =
     thenS (query (LoadRefreshGenerationBatch (jb_ID job) refreshHydrationBatchSize)) (\<lambda>batch.
       if batch = []
       then thenS (tx (AdvanceRefreshGeneration (jb_ID job) Hydrating ProgressPhase []))
              (\<lambda>_. requeue (jb_ID job) (sd_now s 0))
       else
         thenS (query (\<lambda>db. Inr (if jb_Forced job then [] else cachedPullRequests s (jb_Repository job) db))) (\<lambda>cached.
         let (attempts, answer) = col_Hydrate (sd_collector s) (jb_Repository job)
               (map (\<lambda>(n, ids). \<lparr> dq_Number = n, dq_CollectionIDs = ids,
                  dq_ContextLimits = githubContextLimits (gen_Limits g) \<rparr>) batch) cached (jb_Forced job) in
         thenS (persistPhaseAttempts (jb_Repository job) OperationHydration attempts attemptedAt) (\<lambda>_.
         case answer of
           Inl err \<Rightarrow> handlePhasedFailure s canceled job attemptedAt err (Some g)
         | Inr result \<Rightarrow> publish_batch s job batch cached result)))"

text \<open>The progress phase.\<close>

definition processProgress :: "scheduler \<Rightarrow> bool \<Rightarrow> refresh_job \<Rightarrow> time \<Rightarrow> generation \<Rightarrow> unit act" where
  "processProgress s canceled job attemptedAt g =
     (let (attempts, answer) = col_Progress (sd_collector s) (jb_Repository job) (gen_ProgressSince g) in
      thenS (persistPhaseAttempts (jb_Repository job) OperationProgress attempts attemptedAt) (\<lambda>_.
      case answer of
        Inl err \<Rightarrow> handlePhasedFailure s canceled job attemptedAt err (Some g)
      | Inr result \<Rightarrow>
         (case enc_progress (sd_codec s) result of
            None \<Rightarrow> failS SEncodeProgress
          | Some payload \<Rightarrow>
              thenS (tx (AdvanceRefreshGeneration (jb_ID job) ProgressPhase Publishing payload))
                (\<lambda>_. requeue (jb_ID job) (sd_now s 0)))))"

section \<open>Publishing\<close>

definition decode_item :: "codec \<Rightarrow> staged \<Rightarrow> sched_error + gh_pull" where
  "decode_item c i = (case dec_pull c (sg_Payload i) of
     None \<Rightarrow> Inl (SDecode (sg_Number i))
   | Some p \<Rightarrow> Inr (p\<lparr>hp_CollectionIDs := sg_CollectionIDs i\<rparr>))"

text \<open>The snapshot a complete generation stands for.\<close>

definition snapshot_of :: "scheduler \<Rightarrow> refresh_job \<Rightarrow> generation \<Rightarrow> staged list \<Rightarrow> sched_error + snapshot" where
  "snapshot_of s job g items =
     bindR (collectR (decode_item (sd_codec s)) items) (\<lambda>ps.
     let sn = \<lparr> sn_Repository = jb_Repository job, sn_PullRequests = ps, sn_Authors = [],
           sn_ProgressEvents = [], sn_ReviewThreads = [], sn_CollectedAt = sd_now s 0,
           sn_Limits = githubContextLimits (gen_Limits g),
           sn_Fingerprints = rev (map (\<lambda>i. (sg_Number i, \<lparr> fp_Version = sg_FingerprintVersion i,
             fp_Value = sg_Fingerprint i \<rparr>)) items),
           sn_CacheHits = int (gen_CacheHits g), sn_CacheMisses = int (gen_CacheMisses g),
           sn_CacheBypasses = int (gen_CacheBypasses g) \<rparr> in
     if gen_ProgressPayload g = [] then Inr sn
     else case dec_progress (sd_codec s) (gen_ProgressPayload g) of
            None \<Rightarrow> Inl SDecodeProgress
          | Some r \<Rightarrow> Inr (sn\<lparr> sn_ProgressEvents := gr_ProgressEvents r, sn_ReviewThreads := gr_ReviewThreads r,
              sn_CollectedAt := (if IsZero (gr_CollectedAt r) then sn_CollectedAt sn else gr_CollectedAt r) \<rparr>))"

text \<open>The conversion loop of \<open>publishSnapshot\<close>.\<close>

definition author_of :: "snapshot \<Rightarrow> string \<Rightarrow> author_history option" where
  "author_of sn login = map_of (rev (map (\<lambda>a. (ah_Login a, a)) (sn_Authors sn))) login"

definition publish_pull :: "codec \<Rightarrow> snapshot \<Rightarrow> gh_pull \<Rightarrow> sched_error + pull_request" where
  "publish_pull c sn p =
     (case enc_pull c p of
        None \<Rightarrow> Inl (SEncode (hp_Number p))
      | Some payload \<Rightarrow>
          let fp = fingerprint_of (sn_Fingerprints sn) (hp_Number p) in
          Inr \<lparr> pr_Repository = hp_Repository p, pr_Number = hp_Number p, pr_HeadSHA = hp_HeadSHA p,
            pr_Title = hp_Title p, pr_Author = hp_Author p, pr_AuthorID = hp_AuthorID p,
            pr_Additions = hp_Additions p, pr_Deletions = hp_Deletions p, pr_ChangedFiles = hp_ChangedFiles p,
            pr_CreatedAt = hp_CreatedAt p, pr_UpdatedAt = hp_UpdatedAt p, pr_URL = hp_URL p,
            pr_ReviewState = hp_ReviewState p, pr_Readiness = hp_Readiness p, pr_Body = hp_Body p,
            pr_CollectionIDs = hp_CollectionIDs p, pr_Context = storage_context (hp_Context p),
            pr_Files = hp_Files p, pr_AuthorHistory = author_of sn (hp_Author p),
            pr_FingerprintVersion = fp_Version fp, pr_Fingerprint = fp_Value fp, pr_CachePayload = payload \<rparr>)"

text \<open>The flag tells whether the repository was still configured.\<close>

definition publishSnapshot :: "scheduler \<Rightarrow> refresh_job \<Rightarrow> snapshot \<Rightarrow> bool \<Rightarrow> bool act" where
  "publishSnapshot s job sn fullReconciliation = (\<lambda>w.
     let completedAt = (if IsZero (sn_CollectedAt sn) then sd_now s 1 else sn_CollectedAt sn) in
     case collectR (publish_pull (sd_codec s) sn) (sn_PullRequests sn) of
       Inl e \<Rightarrow> (Inl e, w)
     | Inr prs \<Rightarrow>
        (case replaceRepositorySnapshot (sd_upper s) (jb_Repository job) prs completedAt
            (storageContextLimits (sn_Limits sn))
            \<lparr> sm_FullReconciliation = fullReconciliation, sm_Forced = jb_Forced job,
              sm_CacheHits = sn_CacheHits sn, sm_CacheMisses = sn_CacheMisses sn,
              sm_CacheBypasses = sn_CacheBypasses sn \<rparr> (rf_pr (sw_db w)) of
           Inl (NotConfigured r) \<Rightarrow> (Inr False, w)
         | Inl e \<Rightarrow> (Inl (SPull e), w)
         | Inr d \<Rightarrow>
             let w1 = w\<lparr>sw_db := (sw_db w)\<lparr>rf_pr := d\<rparr>\<rparr> in
             (case RecordProgressSnapshot (d_repositories d) (jb_Repository job) (sn_ProgressEvents sn)
                 (sn_ReviewThreads sn) completedAt (rf_progress (sw_db w1)) of
                Inl (RepositoryNotConfigured r) \<Rightarrow> (Inr True, w1)
              | Inl e \<Rightarrow> (Inl (SProgress e), w1)
              | Inr p \<Rightarrow> (Inr True, w1\<lparr>sw_db := (sw_db w1)\<lparr>rf_progress := p\<rparr>\<rparr>))))"

definition processPublishing :: "scheduler \<Rightarrow> refresh_job \<Rightarrow> generation \<Rightarrow> unit act" where
  "processPublishing s job g =
     thenS (query (\<lambda>db. Inr (LoadStagedRefreshPullRequests (jb_ID job) db))) (\<lambda>items.
       if length items \<noteq> gen_Completed g \<or> gen_Pending g \<noteq> 0 then failS SNotComplete
       else case snapshot_of s job g items of
         Inl e \<Rightarrow> failS e
       | Inr sn \<Rightarrow> thenS (publishSnapshot s job sn (jb_Forced job))
           (\<lambda>_. tx (\<lambda>db. Inr (CompleteRefreshJob (jb_ID job) (sd_now s 2) db))))"

section \<open>One job, one round, one run\<close>

definition processPhased :: "scheduler \<Rightarrow> bool \<Rightarrow> refresh_job \<Rightarrow> time \<Rightarrow> unit act" where
  "processPhased s canceled job attemptedAt =
     thenS (query (LoadRefreshGeneration (sd_parse s) (jb_ID job))) (\<lambda>loaded.
     thenS (if loaded \<noteq> None \<and> gen_Forced (the loaded) \<noteq> jb_Forced job
            then thenS (tx (\<lambda>db. Inr (DeleteRefreshGeneration (jb_ID job) db))) (\<lambda>_. okS None)
            else okS loaded) (\<lambda>generation.
     case generation of
       None \<Rightarrow> discover s canceled job attemptedAt None
     | Some g \<Rightarrow>
        (if gen_RediscoveryRequested g then discover s canceled job attemptedAt (Some g)
         else case gen_Phase g of
             Hydrating \<Rightarrow> processHydrationBatch s canceled job attemptedAt g
           | ProgressPhase \<Rightarrow> processProgress s canceled job attemptedAt g
           | Publishing \<Rightarrow> processPublishing s job g)))"

definition process :: "scheduler \<Rightarrow> bool \<Rightarrow> time \<Rightarrow> refresh_job \<Rightarrow> unit act" where
  "process s canceled attemptedAt job =
     thenS (tx (RecordRefreshResult (jb_Repository job) ''running'' attemptedAt []))
       (\<lambda>_. processPhased s canceled job attemptedAt)"

text \<open>The claims of a round: the jobs claimed before a failing claim stay running.\<close>

fun claim_jobs :: "(string \<Rightarrow> time option) \<Rightarrow> time \<Rightarrow> nat \<Rightarrow> refresh_job list act" where
  "claim_jobs parse now 0 = okS []"
| "claim_jobs parse now (Suc n) = (\<lambda>w.
     case ClaimRefresh parse now (sw_db w) of
       (Inl e, db) \<Rightarrow> (Inl (SRefresh e), w\<lparr>sw_db := db\<rparr>)
     | (Inr None, db) \<Rightarrow> (Inr [], w\<lparr>sw_db := db\<rparr>)
     | (Inr (Some j), db) \<Rightarrow> thenS (claim_jobs parse now n) (\<lambda>js. okS (j # js)) (w\<lparr>sw_db := db\<rparr>))"

text \<open>
  The jobs of a round run in goroutines and belong to different repositories; here they run one
  after the other. Every job is processed, and the round answers the first error.
\<close>

fun process_all :: "(refresh_job \<Rightarrow> unit act) \<Rightarrow> refresh_job list \<Rightarrow> unit act" where
  "process_all f [] = okS ()"
| "process_all f (j # js) = (\<lambda>w.
     case f j w of
       (Inl e, w1) \<Rightarrow> (case process_all f js w1 of (_, w2) \<Rightarrow> (Inl e, w2))
     | (Inr _, w1) \<Rightarrow> process_all f js w1)"

definition RunOnce :: "scheduler \<Rightarrow> bool \<Rightarrow> time \<Rightarrow> unit act" where
  "RunOnce s canceled now =
     thenS (claim_jobs (sd_parse s) now (nat (sd_concurrency s)))
       (\<lambda>jobs. process_all (process s canceled now) jobs)"

text \<open>\<open>Run\<close> up to a cancellation after the given rounds.\<close>

fun run_rounds :: "scheduler \<Rightarrow> time list \<Rightarrow> unit act" where
  "run_rounds s [] = okS ()"
| "run_rounds s (t # ts) = thenS (RunOnce s False t) (\<lambda>_. run_rounds s ts)"

definition Run :: "scheduler \<Rightarrow> time list \<Rightarrow> unit act" where
  "Run s ticks = thenS (tx (\<lambda>db. Inr (RecoverRefreshJobs db))) (\<lambda>_. run_rounds s ticks)"

end
