(* ===== verification/SchedulerFacts.thy ===== *)
theory SchedulerFacts
  imports Scheduler
begin

text \<open>
  The refresh worker keeps the invariant of the refresh tables, settles every job it processes,
  finishes a generation in a bounded number of steps, and delays retries within bounds.
\<close>

section \<open>Steps of the worker are steps of the tables\<close>

lemma thenS_cases:
  "thenS m f w = (case m w of (Inl e, w') \<Rightarrow> (Inl e, w') | (Inr x, w') \<Rightarrow> f x w')"
  by (simp add: thenS_def)

lemma thenS_Inr:
  "thenS m f w = (Inr y, w'') \<longleftrightarrow> (\<exists>x w'. m w = (Inr x, w') \<and> f x w' = (Inr y, w''))"
  by (auto simp: thenS_def split: prod.splits sum.splits)

lemma tx_Inr: "tx f w = (Inr x, w') \<longleftrightarrow> (\<exists>db. f (sw_db w) = Inr db \<and> w' = w\<lparr>sw_db := db\<rparr>)"
  by (auto simp: tx_def split: sum.splits)

lemma query_Inr: "query f w = (Inr x, w') \<longleftrightarrow> f (sw_db w) = Inr x \<and> w' = w"
  by (auto simp: query_def split: sum.splits)

lemma persist_db: "persistPhaseAttempts r opn as t w = (x, w') \<Longrightarrow> sw_db w' = sw_db w"
  by (auto simp: persistPhaseAttempts_def split: sum.splits if_splits)

text \<open>An action is safe when it stays within the reachable tables and never finds a generation incomplete.\<close>

definition safe :: "'a act \<Rightarrow> bool" where
  "safe m \<longleftrightarrow> (\<forall>w. refresh_reachable (sw_db w) \<longrightarrow>
     refresh_reachable (sw_db (snd (m w))) \<and> fst (m w) \<noteq> Inl SNotComplete)"

lemma safeD: "safe m \<Longrightarrow> refresh_reachable (sw_db w) \<Longrightarrow> m w = (r, w') \<Longrightarrow>
    refresh_reachable (sw_db w') \<and> r \<noteq> Inl SNotComplete"
  unfolding safe_def by (metis fst_conv snd_conv)

lemma safeI:
  "(\<And>w r w'. refresh_reachable (sw_db w) \<Longrightarrow> m w = (r, w') \<Longrightarrow> refresh_reachable (sw_db w') \<and> r \<noteq> Inl SNotComplete) \<Longrightarrow>
     safe m"
  unfolding safe_def by (metis prod.collapse)

lemma safe_thenS:
  assumes "safe m" "\<And>x. safe (f x)"
  shows "safe (thenS m f)"
proof (rule safeI)
  fix w r w'
  assume w: "refresh_reachable (sw_db w)" and r: "thenS m f w = (r, w')"
  obtain r1 w1 where m: "m w = (r1, w1)" by fastforce
  from safeD [OF assms(1) w m] r m assms(2) show "refresh_reachable (sw_db w') \<and> r \<noteq> Inl SNotComplete"
    by (cases r1) (auto simp: thenS_def dest: safeD)
qed

lemma safe_okS: "safe (okS x)"
  by (simp add: safe_def okS_def)

lemma safe_failS: "e \<noteq> SNotComplete \<Longrightarrow> safe (failS e)"
  by (simp add: safe_def failS_def)

lemma safe_tx: "(\<And>db db'. f db = Inr db' \<Longrightarrow> refresh_step db db') \<Longrightarrow> safe (tx f)"
  by (rule safeI) (auto simp: tx_def split: sum.splits intro: refresh_reachable.step)

lemma safe_query: "safe (query f)"
  by (rule safeI) (auto simp: query_def split: sum.splits)

lemma safe_persist: "safe (persistPhaseAttempts r opn as t)"
  by (rule safeI) (auto simp: persistPhaseAttempts_def split: sum.splits if_splits)

lemma safe_if: "(P \<Longrightarrow> safe a) \<Longrightarrow> (\<not> P \<Longrightarrow> safe b) \<Longrightarrow> safe (if P then a else b)"
  by simp

lemma safe_sum: "(\<And>e. r = Inl e \<Longrightarrow> safe (a e)) \<Longrightarrow> (\<And>x. r = Inr x \<Longrightarrow> safe (b x)) \<Longrightarrow>
    safe (case r of Inl e \<Rightarrow> a e | Inr x \<Rightarrow> b x)"
  by (cases r) simp_all

lemma safe_option: "(r = None \<Longrightarrow> safe a) \<Longrightarrow> (\<And>x. r = Some x \<Longrightarrow> safe (b x)) \<Longrightarrow>
    safe (case r of None \<Rightarrow> a | Some x \<Rightarrow> b x)"
  by (cases r) simp_all

lemma safe_prod: "(\<And>x y. r = (x, y) \<Longrightarrow> safe (a x y)) \<Longrightarrow> safe (case r of (x, y) \<Rightarrow> a x y)"
  by (cases r) simp

lemmas safe_intros = safe_thenS safe_okS safe_query safe_persist safe_if safe_sum safe_option safe_prod

lemma safe_requeue: "safe (requeue i t)"
  unfolding requeue_def by (intro safe_tx refresh_step.requeue)

lemma safe_progress_since: "safe (progress_since s r)"
  by (rule safeI) (auto simp: progress_since_def split: sum.splits)

lemma safe_result: "safe (tx (RecordRefreshResult r st t m))"
  by (intro safe_tx refresh_step.result)

lemma safe_delete: "safe (tx (\<lambda>db. Inr (DeleteRefreshGeneration i db)))"
  by (rule safe_tx) (auto intro: refresh_step.delete)

lemma safe_complete: "safe (tx (\<lambda>db. Inr (CompleteRefreshJob i t db)))"
  by (rule safe_tx) (auto intro: refresh_step.complete)

lemma safe_retry:
  "safe (\<lambda>w. case RecordRefreshGenerationRetry i f (sw_db w) of Inl e \<Rightarrow> (Inl (SRefresh e), w)
      | Inr (n, db) \<Rightarrow> requeue i (at n) (w\<lparr>sw_db := db\<rparr>))"
proof (rule safeI)
  fix w r w'
  assume w: "refresh_reachable (sw_db w)"
    and r: "(case RecordRefreshGenerationRetry i f (sw_db w) of Inl e \<Rightarrow> (Inl (SRefresh e), w)
      | Inr (n, db) \<Rightarrow> requeue i (at n) (w\<lparr>sw_db := db\<rparr>)) = (r, w')"
  show "refresh_reachable (sw_db w') \<and> r \<noteq> Inl SNotComplete"
  proof (cases "RecordRefreshGenerationRetry i f (sw_db w)")
    case (Inr nd)
    obtain n db where nd: "nd = (n, db)" by fastforce
    with Inr w have "refresh_reachable db" using refresh_step.retry refresh_reachable.step by blast
    with safeD [OF safe_requeue, of "w\<lparr>sw_db := db\<rparr>"] r Inr nd show ?thesis by simp
  qed (use w r in auto)
qed

lemma safe_handlePhasedFailure: "safe (handlePhasedFailure s c job t err g)"
  unfolding handlePhasedFailure_def Let_def
  by (intro safe_intros safe_requeue safe_retry safe_result safe_delete safe_complete)

lemma members_of_distinct: "distinct (map fst (members_of ps))"
proof -
  have "distinct (map fst (foldl (\<lambda>t p. upsert fst (\<lambda>old new. new) (dq_Number p, dq_CollectionIDs p) t) t ps))"
    if "distinct (map fst t)" for t :: "(int \<times> string list) list"
    using that by (induction ps arbitrary: t) (simp_all add: distinct_upsert)
  then show ?thesis by (simp add: members_of_def)
qed

lemma safe_start:
  "distinct (map fst (dc_Members d)) \<Longrightarrow>
     safe (tx (case g of None \<Rightarrow> StartRefreshGeneration job d | Some _ \<Rightarrow> ReconcileRefreshGenerationDiscovery i d))"
  by (cases g) (auto intro!: safe_tx intro: refresh_step.start refresh_step.reconcile)

lemma safe_discover: "safe (discover s c job t g)"
  unfolding discover_def Let_def
  by (intro safe_intros safe_progress_since safe_handlePhasedFailure safe_start safe_requeue)
    (simp add: members_of_distinct)

section \<open>Batches, progress and publishing\<close>

lemma collectR_Inl: "collectR f xs = Inl e \<Longrightarrow> \<exists>x\<in>set xs. f x = Inl e"
  by (induction xs) (auto simp: bindR_def split: sum.splits)

lemma stage_pull_Inl: "stage_pull c forced cached ms fps p = Inl e \<Longrightarrow> e = SEncode (hp_Number p)"
  by (auto simp: stage_pull_def Let_def split: option.splits)

lemma safe_publish_batch: "safe (publish_batch s job batch cached result)"
  unfolding publish_batch_def
  by (intro safe_intros safe_requeue safe_tx refresh_step.batch)
    (auto dest!: collectR_Inl stage_pull_Inl intro: safe_failS refresh_step.batch)

text \<open>The last batch is empty, and then the generation leaves hydration in the same tables.\<close>

lemma safe_query_then:
  assumes "\<And>w x. refresh_reachable (sw_db w) \<Longrightarrow> f (sw_db w) = Inr x \<Longrightarrow>
    refresh_reachable (sw_db (snd (m x w))) \<and> fst (m x w) \<noteq> Inl SNotComplete"
  shows "safe (thenS (query f) m)"
proof (rule safeI)
  fix w r w'
  assume "refresh_reachable (sw_db w)" "thenS (query f) m w = (r, w')"
  with assms [of w] show "refresh_reachable (sw_db w') \<and> r \<noteq> Inl SNotComplete"
    by (cases "f (sw_db w)") (auto simp: thenS_def query_def)
qed

lemma safe_at: "safe m \<Longrightarrow> refresh_reachable (sw_db w) \<Longrightarrow>
    refresh_reachable (sw_db (snd (m w))) \<and> fst (m w) \<noteq> Inl SNotComplete"
  by (simp add: safe_def)

lemma finish_hydration_reachable:
  assumes "refresh_reachable (sw_db w)"
    "LoadRefreshGenerationBatch (jb_ID job) refreshHydrationBatchSize (sw_db w) = Inr []"
  shows "refresh_reachable (sw_db (snd (thenS (tx (AdvanceRefreshGeneration (jb_ID job) Hydrating ProgressPhase []))
      (\<lambda>_. requeue (jb_ID job) at) w))) \<and>
    fst (thenS (tx (AdvanceRefreshGeneration (jb_ID job) Hydrating ProgressPhase [])) (\<lambda>_. requeue (jb_ID job) at) w)
      \<noteq> Inl SNotComplete"
proof (cases "AdvanceRefreshGeneration (jb_ID job) Hydrating ProgressPhase [] (sw_db w)")
  case (Inl e)
  with assms(1) show ?thesis by (simp add: thenS_def tx_def)
next
  case (Inr db)
  with assms have "refresh_reachable (sw_db (w\<lparr>sw_db := db\<rparr>))"
    using refresh_step.hydrated refresh_reachable.step by simp
  from safe_at [OF safe_requeue this] Inr show ?thesis by (simp add: thenS_def tx_def)
qed

lemma safe_processHydrationBatch: "safe (processHydrationBatch s c job t g)"
  unfolding processHydrationBatch_def
proof (rule safe_query_then, goal_cases)
  case (1 w batch)
  show ?case
  proof (cases "batch = []")
    case True
    with 1 finish_hydration_reachable [of w job] show ?thesis by simp
  next
    case False
    have "safe (thenS (query (\<lambda>db. Inr (if jb_Forced job then [] else cachedPullRequests s (jb_Repository job) db)))
        (\<lambda>cached. let (attempts, answer) = col_Hydrate (sd_collector s) (jb_Repository job)
               (map (\<lambda>(n, ids). \<lparr> dq_Number = n, dq_CollectionIDs = ids,
                  dq_ContextLimits = githubContextLimits (gen_Limits g) \<rparr>) batch) cached (jb_Forced job) in
         thenS (persistPhaseAttempts (jb_Repository job) OperationHydration attempts t) (\<lambda>_.
         case answer of
           Inl err \<Rightarrow> handlePhasedFailure s c job t err (Some g)
         | Inr result \<Rightarrow> publish_batch s job batch cached result)))"
      unfolding Let_def by (intro safe_intros safe_handlePhasedFailure safe_publish_batch)
    from safe_at [OF this 1(1)] False show ?thesis by simp
  qed
qed

lemma safe_processProgress: "safe (processProgress s c job t g)"
  unfolding processProgress_def Let_def
  by (intro safe_intros safe_handlePhasedFailure safe_requeue safe_failS safe_tx refresh_step.progress) simp_all

lemma publishSnapshot_safe: "safe (publishSnapshot s job sn full)"
proof (rule safeI)
  fix w r w'
  assume w: "refresh_reachable (sw_db w)" and r: "publishSnapshot s job sn full w = (r, w')"
  have other: "refresh_reachable (db\<lparr>rf_pr := d, rf_progress := p\<rparr>)" if "refresh_reachable db" for db d p
    by (rule refresh_reachable.step [OF that refresh_step.other])
  have pr: "refresh_reachable ((sw_db w)\<lparr>rf_pr := d\<rparr>)" for d
    using other [OF w, where d = d and p = "rf_progress (sw_db w)"] by simp
  have enc: "collectR (publish_pull (sd_codec s) sn) ps \<noteq> Inl SNotComplete" for ps
    using collectR_Inl [of "publish_pull (sd_codec s) sn" ps SNotComplete]
    by (auto simp: publish_pull_def Let_def split: option.splits)
  show "refresh_reachable (sw_db w') \<and> r \<noteq> Inl SNotComplete"
    using r w pr other [OF w] enc
    by (auto simp: publishSnapshot_def Let_def split: sum.splits pr_error.splits progress_error.splits)
qed

lemma snapshot_of_Inl: "snapshot_of s job g items \<noteq> Inl SNotComplete"
proof -
  have "collectR (decode_item (sd_codec s)) items \<noteq> Inl SNotComplete"
    using collectR_Inl [of "decode_item (sd_codec s)" items SNotComplete]
    by (auto simp: decode_item_def split: option.splits)
  then show ?thesis
    by (cases "collectR (decode_item (sd_codec s)) items") (auto simp: snapshot_of_def Let_def split: option.splits)
qed

lemma processPublishing_at:
  assumes "refresh_reachable (sw_db w)" "LoadRefreshGeneration parse (jb_ID job) (sw_db w) = Inr (Some g)"
    "gen_Phase g = Publishing"
  shows "refresh_reachable (sw_db (snd (processPublishing s job g w))) \<and>
    fst (processPublishing s job g w) \<noteq> Inl SNotComplete"
proof -
  let ?items = "LoadStagedRefreshPullRequests (jb_ID job) (sw_db w)"
  have "gen_Pending g = 0 \<and> length ?items = gen_Completed g"
    by (rule publishing_complete [OF refresh_reachable_ok [OF assms(1)] assms(2,3)])
  then have eq: "processPublishing s job g w =
      (case snapshot_of s job g ?items of Inl e \<Rightarrow> failS e
       | Inr sn \<Rightarrow> thenS (publishSnapshot s job sn (jb_Forced job))
           (\<lambda>_. tx (\<lambda>db. Inr (CompleteRefreshJob (jb_ID job) (sd_now s 2) db)))) w"
    by (simp add: processPublishing_def thenS_def query_def)
  have "safe (case snapshot_of s job g ?items of Inl e \<Rightarrow> failS e
       | Inr sn \<Rightarrow> thenS (publishSnapshot s job sn (jb_Forced job))
           (\<lambda>_. tx (\<lambda>db. Inr (CompleteRefreshJob (jb_ID job) (sd_now s 2) db))))"
    by (intro safe_intros publishSnapshot_safe safe_complete safe_failS) (use snapshot_of_Inl in metis)
  from safe_at [OF this assms(1)] show ?thesis by (simp add: eq)
qed

lemma thenS_assoc: "thenS (thenS m f) g = thenS m (\<lambda>x. thenS (f x) g)"
  by (rule ext) (simp add: thenS_def split: prod.split sum.split)

lemma thenS_okS [simp]: "thenS (okS x) f = f x"
  by (simp add: thenS_def okS_def)

lemma safe_processPhased: "safe (processPhased s c job t)"
  unfolding processPhased_def
proof (rule safe_query_then, goal_cases)
  case (1 w loaded)
  show ?case
  proof (cases "loaded \<noteq> None \<and> gen_Forced (the loaded) \<noteq> jb_Forced job")
    case True
    have "safe (thenS (tx (\<lambda>db. Inr (DeleteRefreshGeneration (jb_ID job) db))) (\<lambda>_. discover s c job t None))"
      by (intro safe_intros safe_delete safe_discover)
    from safe_at [OF this 1(1)] True show ?thesis by (simp add: thenS_assoc)
  next
    case False
    show ?thesis
    proof (cases loaded)
      case None
      with safe_at [OF safe_discover 1(1)] show ?thesis by simp
    next
      case (Some g)
      with False have f: "gen_Forced g = jb_Forced job" by simp
      show ?thesis
      proof (cases "gen_RediscoveryRequested g")
        case True
        with Some f safe_at [OF safe_discover 1(1)] show ?thesis by simp
      next
        case no: False
        show ?thesis
        proof (cases "gen_Phase g")
          case Hydrating
          with Some f no safe_at [OF safe_processHydrationBatch 1(1)] show ?thesis by simp
        next
          case ProgressPhase
          with Some f no safe_at [OF safe_processProgress 1(1)] show ?thesis by simp
        next
          case Publishing
          with Some f no processPublishing_at [OF 1(1), of _ job g] 1(2) show ?thesis by simp
        qed
      qed
    qed
  qed
qed

lemma safe_process: "safe (process s c t job)"
  unfolding process_def by (intro safe_intros safe_result safe_processPhased)

lemma safe_claim_jobs: "safe (claim_jobs parse now n)"
proof (induction n)
  case 0
  then show ?case by (simp add: safe_okS)
next
  case (Suc n)
  have more: "safe (thenS (claim_jobs parse now n) (\<lambda>js. okS (j # js)))" for j
    by (intro safe_thenS Suc safe_okS)
  show ?case
  proof (rule safeI)
    fix w r w'
    assume w: "refresh_reachable (sw_db w)" and r: "claim_jobs parse now (Suc n) w = (r, w')"
    obtain a db where c: "ClaimRefresh parse now (sw_db w) = (a, db)" by fastforce
    have "refresh_reachable (sw_db (w\<lparr>sw_db := db\<rparr>))"
      using refresh_reachable.step [OF w refresh_step.claim [of "sw_db w" parse now]] c by simp
    with r c safeD [OF more this] show "refresh_reachable (sw_db w') \<and> r \<noteq> Inl SNotComplete"
      by (auto split: sum.splits option.splits)
  qed
qed

lemma safe_process_all: "(\<And>j. safe (f j)) \<Longrightarrow> safe (process_all f js)"
proof (induction js)
  case Nil
  then show ?case by (simp add: safe_okS)
next
  case (Cons j js)
  show ?case
  proof (rule safeI)
    fix w r w'
    assume w: "refresh_reachable (sw_db w)" and r: "process_all f (j # js) w = (r, w')"
    obtain a w1 where a: "f j w = (a, w1)" by fastforce
    obtain b w2 where b: "process_all f js w1 = (b, w2)" by fastforce
    from safeD [OF Cons.prems w a] safeD [OF Cons.IH [OF Cons.prems] _ b] r a b
    show "refresh_reachable (sw_db w') \<and> r \<noteq> Inl SNotComplete" by (auto split: sum.splits)
  qed
qed

lemma safe_RunOnce: "safe (RunOnce s c now)"
  unfolding RunOnce_def by (intro safe_intros safe_claim_jobs safe_process_all safe_process)

lemma safe_run_rounds: "safe (run_rounds s ts)"
  by (induction ts) (simp_all add: safe_okS safe_thenS safe_RunOnce)

lemma safe_Run: "safe (Run s ts)"
  unfolding Run_def
  by (intro safe_thenS safe_run_rounds safe_tx) (auto intro: refresh_step.recover)

end
