(* ===== verification/SchedulerProps.thy ===== *)
theory SchedulerProps
  imports SchedulerFacts
begin

text \<open>
  What the refresh worker promises about a processed job: it is settled, its generation comes
  one step nearer to publication, failures are retried within bounds or ended; and what it does
  to a generation that names a collection its repository has left.
\<close>

section \<open>Settled jobs\<close>

definition no_running :: "nat \<Rightarrow> refresh_db \<Rightarrow> bool" where
  "no_running i db \<longleftrightarrow> (\<forall>j\<in>set (q_jobs (rf_jobs db)). j_id j = i \<longrightarrow> j_status j \<noteq> Running)"

definition settles :: "nat \<Rightarrow> 'a act \<Rightarrow> bool" where
  "settles i m \<longleftrightarrow> (\<forall>w x w'. m w = (Inr x, w') \<longrightarrow> no_running i (sw_db w'))"

lemma settlesI: "(\<And>w x w'. m w = (Inr x, w') \<Longrightarrow> no_running i (sw_db w')) \<Longrightarrow> settles i m"
  by (simp add: settles_def)

lemma settlesD: "settles i m \<Longrightarrow> m w = (Inr x, w') \<Longrightarrow> no_running i (sw_db w')"
  by (simp add: settles_def)

lemma settles_thenS: "(\<And>x. settles i (f x)) \<Longrightarrow> settles i (thenS m f)"
  by (rule settlesI) (auto simp: thenS_Inr dest: settlesD)

lemma settles_failS: "settles i (failS e)"
  by (simp add: settles_def failS_def)

lemma settles_if: "(P \<Longrightarrow> settles i a) \<Longrightarrow> (\<not> P \<Longrightarrow> settles i b) \<Longrightarrow> settles i (if P then a else b)"
  by simp

lemma settles_sum: "(\<And>e. settles i (a e)) \<Longrightarrow> (\<And>x. settles i (b x)) \<Longrightarrow>
    settles i (case r of Inl e \<Rightarrow> a e | Inr x \<Rightarrow> b x)"
  by (cases r) simp_all

lemma settles_option: "settles i a \<Longrightarrow> (\<And>x. settles i (b x)) \<Longrightarrow>
    settles i (case r of None \<Rightarrow> a | Some x \<Rightarrow> b x)"
  by (cases r) simp_all

lemma settles_prod: "(\<And>x y. settles i (a x y)) \<Longrightarrow> settles i (case r of (x, y) \<Rightarrow> a x y)"
  by (cases r) simp

lemma settles_phase: "settles i a \<Longrightarrow> settles i b \<Longrightarrow> settles i c \<Longrightarrow>
    settles i (case p of Hydrating \<Rightarrow> a | ProgressPhase \<Rightarrow> b | Publishing \<Rightarrow> c)"
  by (cases p) simp_all

lemma requeue_rows:
  assumes "RequeueRefreshJob i t db = Inr db'"
  shows "\<exists>f. db' = db\<lparr>rf_jobs := (rf_jobs db)\<lparr>q_jobs :=
      update_where (\<lambda>r. j_id r = i \<and> j_status r = Running) f (q_jobs (rf_jobs db))\<rparr>\<rparr> \<and>
    (\<forall>r. j_status (f r) = Queued \<and> j_id (f r) = j_id r \<and> j_scheduled_for (f r) = formatTime t)"
proof (cases "count_where (\<lambda>r. j_id r = i \<and> j_status r = Running) (q_jobs (rf_jobs db)) = 1")
  case True
  with assms have "db' = db\<lparr>rf_jobs := (rf_jobs db)\<lparr>q_jobs :=
      update_where (\<lambda>r. j_id r = i \<and> j_status r = Running)
        (\<lambda>r. r\<lparr>j_status := Queued, j_scheduled_for := formatTime t, j_started_at := None\<rparr>)
        (q_jobs (rf_jobs db))\<rparr>\<rparr>"
    by (simp add: RequeueRefreshJob_def requeue_job_def)
  then show ?thesis by fastforce
next
  case False
  with assms show ?thesis by (simp add: RequeueRefreshJob_def requeue_job_def)
qed

lemma requeue_row:
  assumes "RequeueRefreshJob i t db = Inr db'" "j \<in> set (q_jobs (rf_jobs db'))" "j_id j = i"
  shows "j_status j \<noteq> Running"
proof -
  from requeue_rows [OF assms(1)] obtain f where
    f: "db' = db\<lparr>rf_jobs := (rf_jobs db)\<lparr>q_jobs :=
      update_where (\<lambda>r. j_id r = i \<and> j_status r = Running) f (q_jobs (rf_jobs db))\<rparr>\<rparr>"
    "\<And>r. j_status (f r) = Queued" by blast
  have "set (q_jobs (rf_jobs db')) = (\<lambda>r. if j_id r = i \<and> j_status r = Running then f r else r) `
      set (q_jobs (rf_jobs db))" by (simp add: f(1) set_update_where)
  with assms(2) obtain r where "j = (if j_id r = i \<and> j_status r = Running then f r else r)" by blast
  with assms(3) f(2) show ?thesis by (auto split: if_splits)
qed

lemma settles_requeue: "settles i (requeue i t)"
proof (rule settlesI)
  fix w x w'
  assume "requeue i t w = (Inr x, w')"
  then obtain db where "RequeueRefreshJob i t (sw_db w) = Inr db" "sw_db w' = db"
    by (auto simp: requeue_def tx_Inr)
  then show "no_running i (sw_db w')" unfolding no_running_def using requeue_row by blast
qed

lemma update_where_row:
  assumes "r \<in> set (update_where p f t)"
  obtains x where "x \<in> set t" "r = (if p x then f x else x)"
  using assms by (auto simp only: set_update_where image_iff)

lemma complete_row:
  assumes "j \<in> set (q_jobs (rf_jobs (CompleteRefreshJob i t db)))" "j_id j = i"
  shows "j_status j = Completed"
proof -
  from assms(1) have "j \<in> set (update_where (\<lambda>r. j_id r = i)
      (\<lambda>r. r\<lparr>j_status := Completed, j_finished_at := Some (formatTime t)\<rparr>) (q_jobs (rf_jobs db)))"
    by (simp add: CompleteRefreshJob_def finish_job_def finish_where_def)
  then obtain r where
    "j = (if j_id r = i then r\<lparr>j_status := Completed, j_finished_at := Some (formatTime t)\<rparr> else r)"
    by (rule update_where_row)
  with assms(2) show ?thesis by (simp split: if_splits)
qed

lemma settles_complete: "settles i (tx (\<lambda>db. Inr (CompleteRefreshJob i t db)))"
proof (rule settlesI)
  fix w x w'
  assume "tx (\<lambda>db. Inr (CompleteRefreshJob i t db)) w = (Inr x, w')"
  then have "sw_db w' = CompleteRefreshJob i t (sw_db w)" by (simp add: tx_Inr)
  then show "no_running i (sw_db w')" unfolding no_running_def using complete_row by fastforce
qed

lemma settles_retry:
  "settles i (\<lambda>w. case RecordRefreshGenerationRetry i f (sw_db w) of Inl e \<Rightarrow> (Inl (SRefresh e), w)
      | Inr (n, db) \<Rightarrow> requeue i (at n) (w\<lparr>sw_db := db\<rparr>))"
proof (rule settlesI)
  fix w x w'
  assume "(case RecordRefreshGenerationRetry i f (sw_db w) of Inl e \<Rightarrow> (Inl (SRefresh e), w)
      | Inr (n, db) \<Rightarrow> requeue i (at n) (w\<lparr>sw_db := db\<rparr>)) = (Inr x, w')"
  then obtain nd where "requeue i (at (fst nd)) (w\<lparr>sw_db := snd nd\<rparr>) = (Inr x, w')"
    by (cases "RecordRefreshGenerationRetry i f (sw_db w)") (simp_all add: case_prod_unfold)
  then show "no_running i (sw_db w')" by (rule settlesD [OF settles_requeue])
qed

lemmas settles_intros = settles_thenS settles_failS settles_if settles_sum settles_option settles_prod
  settles_phase settles_requeue settles_complete

lemma settles_handlePhasedFailure: "settles (jb_ID job) (handlePhasedFailure s False job t err g)"
  unfolding handlePhasedFailure_def Let_def by (simp only: if_False) (intro settles_intros settles_retry)

lemma settles_process: "settles (jb_ID job) (process s False t job)"
  unfolding process_def processPhased_def discover_def processHydrationBatch_def publish_batch_def
    processProgress_def processPublishing_def Let_def
  by (intro settles_intros settles_handlePhasedFailure)

section \<open>A sample worker\<close>

definition sample_codec :: codec where
  "sample_codec = \<lparr> enc_pull = (\<lambda>p. Some (hp_Title p)), dec_pull = (\<lambda>s. None),
     enc_progress = (\<lambda>p. Some ''{}''), dec_progress = (\<lambda>s. Some \<lparr> gr_Repository = ''o/r'',
       gr_ProgressEvents = [], gr_ReviewThreads = [], gr_CollectedAt = second \<rparr>) \<rparr>"

definition sample_collector :: "(failure + progress_result) \<Rightarrow> collector" where
  "sample_collector r = \<lparr>
     col_Discover = (\<lambda>_. ([], Inr \<lparr> dr_Repository = ''o/r'', dr_PullRequests = [], dr_Limits = [] \<rparr>)),
     col_Hydrate = (\<lambda>_ _ _ _. ([], Inr \<lparr> hr_Repository = ''o/r'', hr_PullRequests = [], hr_CollectedAt = second,
       hr_Fingerprints = [] \<rparr>)), col_Progress = (\<lambda>_ _. ([], r)) \<rparr>"

definition sample_scheduler :: "(failure + progress_result) \<Rightarrow> scheduler" where
  "sample_scheduler r = \<lparr> sd_collector = sample_collector r, sd_concurrency = 2, sd_pollInterval = second,
     sd_jobTimeout = 15 * minute, sd_now = (\<lambda>_. second), sd_codec = sample_codec,
     sd_parse = (\<lambda>_. Some second), sd_upper = (\<lambda>s. s) \<rparr>"

definition sample_world :: "refresh_db \<Rightarrow> sched_world" where
  "sample_world db = \<lparr> sw_db = db, sw_operations = [], sw_attempts = [] \<rparr>"

text \<open>
  C13. A run of the refresh worker, whatever the collector answers and whichever rounds it makes,
  stays within the reachable refresh tables, so their invariant holds after every round; and it
  never stops because a generation it publishes is incomplete.
\<close>

theorem Run_keeps_invariant:
  assumes "refresh_reachable (sw_db w)"
  shows "refresh_reachable (sw_db (snd (Run s ticks w))) \<and> refresh_ok (sw_db (snd (Run s ticks w))) \<and>
    fst (Run s ticks w) \<noteq> Inl SNotComplete"
  using safe_at [OF safe_Run assms] refresh_reachable_ok by blast

lemma Run_keeps_invariant_witness:
  "refresh_ok (sw_db (snd (Run (sample_scheduler (Inl (Plain ''x''))) [second, minute]
     (sample_world (sample_state Running [sample_gen Publishing ''{}''] [])))))"
  using Run_keeps_invariant [of "sample_world (sample_state Running [sample_gen Publishing ''{}''] [])"]
    sample_publishing_reachable by (simp add: sample_world_def)



section \<open>Steps left of a generation\<close>

text \<open>
  Batches of at most 20 pending pull requests, the step that finds nothing left, the progress
  phase and publishing.
\<close>

definition steps_left :: "refresh_db \<Rightarrow> nat \<Rightarrow> nat" where
  "steps_left db job = (case gen_of db job of None \<Rightarrow> 0
     | Some g \<Rightarrow> (case g_phase g of Hydrating \<Rightarrow> 3 + (pending_of db job + 19) div 20
         | ProgressPhase \<Rightarrow> 2 | Publishing \<Rightarrow> 1))"

text \<open>The collector answers every request.\<close>

definition collector_succeeds :: "collector \<Rightarrow> bool" where
  "collector_succeeds c \<longleftrightarrow> (\<forall>r. \<not> isl (snd (col_Discover c r))) \<and>
     (\<forall>r ds cs f. \<not> isl (snd (col_Hydrate c r ds cs f))) \<and> (\<forall>r t. \<not> isl (snd (col_Progress c r t)))"

lemma requeue_gens:
  assumes "requeue i t w = (Inr x, w')"
  shows "rf_gens (sw_db w') = rf_gens (sw_db w) \<and> rf_items (sw_db w') = rf_items (sw_db w)"
proof -
  from assms obtain db where "RequeueRefreshJob i t (sw_db w) = Inr db" "w' = w\<lparr>sw_db := db\<rparr>"
    by (auto simp: requeue_def tx_Inr)
  with requeue_rows [of i t "sw_db w" db] show ?thesis by auto
qed

lemma pending_of_cong:
  "rf_gens db' = rf_gens db \<Longrightarrow> rf_items db' = rf_items db \<Longrightarrow> pending_of db' job = pending_of db job"
  by (simp add: pending_of_def hydrating_gen_def count_items_def split: option.split)

lemma steps_left_cong:
  assumes "rf_gens db' = rf_gens db" "rf_items db' = rf_items db"
  shows "steps_left db' job = steps_left db job"
  unfolding steps_left_def gen_of_def pending_of_cong [OF assms] assms ..

lemma batches_arith:
  fixes p n l :: nat
  assumes "p + l = n" "l = min 20 n" "0 < l"
  shows "(p + 19) div 20 + 1 = (n + 19) div 20"
proof (cases "n \<le> 20")
  case True
  with assms have "p = 0" "0 < n" by auto
  moreover have "(n + 19) div 20 = 1" using True \<open>0 < n\<close> by presburger
  ultimately show ?thesis by simp
next
  case False
  with assms have "n = p + 20" by simp
  then show ?thesis by simp
qed

lemma pending_batch:
  assumes "LoadRefreshGenerationBatch job 20 db = Inr batch"
  shows "length batch = min 20 (pending_of db job)"
  using assms
  by (auto simp: LoadRefreshGenerationBatch_def pending_of_def count_items_def items_of_def count_where_def
      failIf_eq_Inr conj_commute split: option.splits)

lemma advance_steps:
  assumes "gens_ok db" "gen_of db job = Some g" "AdvanceRefreshGeneration job old new payload db = Inr db'"
  shows "g_phase g = old \<and> (\<exists>g'. gen_of db' job = Some g' \<and> g_phase g' = new)"
proof -
  let ?p = "\<lambda>g. g_job g = job \<and> g_phase g = old"
  let ?f = "\<lambda>g. g\<lparr> g_phase := new, g_progress_payload := (if payload \<noteq> [] then payload else g_progress_payload g),
      g_retry_count := 0, g_failure := no_failure \<rparr>"
  from assms(3) have db': "db' = db\<lparr>rf_gens := update_where ?p ?f (rf_gens db)\<rparr>"
    and one: "count_where ?p (rf_gens db) = 1"
    by (simp_all add: AdvanceRefreshGeneration_def Let_def failIf_eq_Inr)
  have "filter ?p (rf_gens db) \<noteq> []" using one by (auto simp: count_where_def)
  then obtain g1 where "g1 \<in> set (rf_gens db)" "?p g1" by (auto simp: filter_empty_conv)
  with gen_of_unique [OF assms(1), of g1 job] assms(2) have "?p g" by simp
  moreover have "gen_of db' job = map_option (\<lambda>g. if ?p g then ?f g else g) (gen_of db job)"
    unfolding db' gen_of_def by (simp add: find_update_unchanged)
  ultimately show ?thesis using assms(2) by simp
qed

lemma steps_left_Hydrating:
  "gen_of db job = Some g \<Longrightarrow> g_phase g = Hydrating \<Longrightarrow> steps_left db job = 3 + (pending_of db job + 19) div 20"
  by (simp add: steps_left_def)

lemma hydration_step:
  assumes ok: "gens_ok (sw_db w)" and g: "gen_of (sw_db w) (jb_ID job) = Some r" "g_phase r = Hydrating"
    and c: "collector_succeeds (sd_collector s)"
    and run: "processHydrationBatch s c1 job t g w = (Inr (), w')"
  shows "steps_left (sw_db w') (jb_ID job) + 1 = steps_left (sw_db w) (jb_ID job)"
proof -
  let ?job = "jb_ID job" and ?n = "pending_of (sw_db w) (jb_ID job)"
  from run obtain batch where b: "LoadRefreshGenerationBatch ?job 20 (sw_db w) = Inr batch"
    by (auto simp: processHydrationBatch_def thenS_Inr query_Inr refreshHydrationBatchSize_def)
  note len = pending_batch [OF b]
  show ?thesis
  proof (cases "batch = []")
    case True
    with run b obtain db where
      adv: "AdvanceRefreshGeneration ?job Hydrating ProgressPhase [] (sw_db w) = Inr db"
      and rq: "requeue ?job (sd_now s 0) (w\<lparr>sw_db := db\<rparr>) = (Inr (), w')"
      by (auto simp: processHydrationBatch_def thenS_Inr query_Inr tx_Inr refreshHydrationBatchSize_def)
    from advance_steps [OF ok g(1) adv] have "steps_left db ?job = 2" by (auto simp: steps_left_def)
    with requeue_gens [OF rq] steps_left_cong [of "sw_db w'" db ?job] have "steps_left (sw_db w') ?job = 2" by simp
    moreover have "?n = 0" using len True by simp
    ultimately show ?thesis using steps_left_Hydrating [OF g] by simp
  next
    case False
    let ?cached = "if jb_Forced job then [] else cachedPullRequests s (jb_Repository job) (sw_db w)"
    obtain as ans where a: "col_Hydrate (sd_collector s) (jb_Repository job)
        (map (\<lambda>(n, ids). \<lparr> dq_Number = n, dq_CollectionIDs = ids,
           dq_ContextLimits = githubContextLimits (gen_Limits g) \<rparr>) batch) ?cached (jb_Forced job) = (as, ans)"
      by fastforce
    from c a obtain result where "ans = Inr result"
      unfolding collector_succeeds_def by (metis snd_conv sum.disc(1) sum.exhaust)
    with run b False a obtain w1 where
      p: "persistPhaseAttempts (jb_Repository job) OperationHydration as t w = (Inr (), w1)"
      and pub: "publish_batch s job batch ?cached result w1 = (Inr (), w')"
      by (auto simp: processHydrationBatch_def thenS_Inr query_Inr refreshHydrationBatchSize_def)
    from pub obtain xs db where len2: "length xs = length batch"
      and b2: "PublishRefreshGenerationBatch (sd_upper s) ?job (map fst xs) (map snd xs) (sd_now s 0) (sw_db w1) = Inr db"
      and rq: "requeue ?job (sd_now s 1) (w1\<lparr>sw_db := db\<rparr>) = (Inr (), w')"
      by (auto simp: publish_batch_def thenS_Inr tx_Inr failS_def split: sum.splits if_splits)
    have w1: "sw_db w1 = sw_db w" by (rule persist_db [OF p])
    from batch_pending [OF b2] w1 len2 have pend: "pending_of db ?job + length batch = ?n" by simp
    from PublishRefreshGenerationBatch_steps [OF b2] obtain db1 where
      db1: "items_advance (sw_db w) db1" "db = reset_retries ?job db1" using w1 by auto
    have "gen_of db ?job = map_option (\<lambda>g. if g_job g = ?job then g\<lparr>g_retry_count := 0, g_failure := no_failure\<rparr> else g)
        (gen_of (sw_db w) ?job)"
      using db1 by (simp add: gen_of_def reset_retries_def find_update_unchanged items_advance_def)
    with g have "steps_left db ?job = 3 + (pending_of db ?job + 19) div 20"
      by (auto intro: steps_left_Hydrating)
    with requeue_gens [OF rq] steps_left_cong [of "sw_db w'" db ?job]
    have "steps_left (sw_db w') ?job = 3 + (pending_of db ?job + 19) div 20" by simp
    moreover have "(pending_of db ?job + 19) div 20 + 1 = (?n + 19) div 20"
      by (rule batches_arith [OF pend len]) (use False in simp)
    ultimately show ?thesis using steps_left_Hydrating [OF g] by simp
  qed
qed

lemma progress_step:
  assumes ok: "gens_ok (sw_db w)" and g: "gen_of (sw_db w) (jb_ID job) = Some r" "g_phase r = ProgressPhase"
    and c: "collector_succeeds (sd_collector s)"
    and run: "processProgress s c1 job t g w = (Inr (), w')"
  shows "steps_left (sw_db w') (jb_ID job) + 1 = steps_left (sw_db w) (jb_ID job)"
proof -
  let ?job = "jb_ID job"
  obtain as ans where a: "col_Progress (sd_collector s) (jb_Repository job) (gen_ProgressSince g) = (as, ans)"
    by fastforce
  from c a obtain result where ans: "ans = Inr result"
    unfolding collector_succeeds_def by (metis snd_conv sum.disc(1) sum.exhaust)
  with run a obtain w1 where
    p: "persistPhaseAttempts (jb_Repository job) OperationProgress as t w = (Inr (), w1)"
    and r1: "(case enc_progress (sd_codec s) result of None \<Rightarrow> failS SEncodeProgress
          | Some payload \<Rightarrow>
              thenS (tx (AdvanceRefreshGeneration ?job ProgressPhase Publishing payload))
                (\<lambda>_. requeue ?job (sd_now s 0))) w1 = (Inr (), w')"
    by (auto simp: processProgress_def thenS_Inr)
  from r1 obtain payload db where
    adv: "AdvanceRefreshGeneration ?job ProgressPhase Publishing payload (sw_db w1) = Inr db"
    and rq: "requeue ?job (sd_now s 0) (w1\<lparr>sw_db := db\<rparr>) = (Inr (), w')"
    by (auto simp: failS_def thenS_Inr tx_Inr split: option.splits)
  have w1: "sw_db w1 = sw_db w" by (rule persist_db [OF p])
  from advance_steps [OF ok g(1)] adv w1 have "steps_left db ?job = 1" by (fastforce simp: steps_left_def)
  with requeue_gens [OF rq] steps_left_cong [of "sw_db w'" db ?job] g show ?thesis by (simp add: steps_left_def)
qed

lemma publishing_step:
  assumes "processPublishing s job g w = (Inr (), w')"
  shows "\<forall>j\<in>set (q_jobs (rf_jobs (sw_db w'))). j_id j = jb_ID job \<longrightarrow> j_status j = Completed"
proof -
  from assms obtain w1 where "tx (\<lambda>db. Inr (CompleteRefreshJob (jb_ID job) (sd_now s 2) db)) w1 = (Inr (), w')"
    by (auto simp: processPublishing_def thenS_Inr failS_def split: if_splits sum.splits)
  then have "sw_db w' = CompleteRefreshJob (jb_ID job) (sd_now s 2) (sw_db w1)" by (simp add: tx_Inr)
  then show ?thesis using complete_row by metis
qed

definition refresh_running :: "sched_world \<Rightarrow> refresh_job \<Rightarrow> time \<Rightarrow> sched_world" where
  "refresh_running w job t = w\<lparr>sw_db := (sw_db w)\<lparr>rf_pr := (rf_pr (sw_db w))\<lparr>d_refreshes :=
     update_where (\<lambda>r. rr_repository r = jb_Repository job)
       (\<lambda>r. r\<lparr>rr_state := ''running'', rr_last_attempt_at := Some (formatTime t), rr_error := []\<rparr>)
       (d_refreshes (rf_pr (sw_db w)))\<rparr>\<rparr>\<rparr>"

lemma process_eq: "process s c t job w = processPhased s c job t (refresh_running w job t)"
  by (simp add: process_def thenS_def tx_def RecordRefreshResult_def refresh_running_def)

lemma refresh_running_simps [simp]:
  "rf_gens (sw_db (refresh_running w job t)) = rf_gens (sw_db w)"
  "rf_items (sw_db (refresh_running w job t)) = rf_items (sw_db w)"
  "rf_jobs (sw_db (refresh_running w job t)) = rf_jobs (sw_db w)"
  "rf_progress (sw_db (refresh_running w job t)) = rf_progress (sw_db w)"
  "d_collections (rf_pr (sw_db (refresh_running w job t))) = d_collections (rf_pr (sw_db w))"
  "d_repositories (rf_pr (sw_db (refresh_running w job t))) = d_repositories (rf_pr (sw_db w))"
  by (simp_all add: refresh_running_def)

lemma LoadRefreshGeneration_cong:
  assumes "rf_gens db' = rf_gens db" "rf_items db' = rf_items db"
  shows "LoadRefreshGeneration parse job db' = LoadRefreshGeneration parse job db"
  unfolding LoadRefreshGeneration_def gen_of_def count_items_def assms ..

text \<open>What \<open>processPhased\<close> does to a generation that is loaded and needs no discovery.\<close>

lemma processPhased_loaded:
  assumes "LoadRefreshGeneration (sd_parse s) (jb_ID job) (sw_db w) = Inr (Some g)"
    "gen_Forced g = jb_Forced job" "\<not> gen_RediscoveryRequested g"
  shows "processPhased s c job t w =
    (case gen_Phase g of Hydrating \<Rightarrow> processHydrationBatch s c job t g
       | ProgressPhase \<Rightarrow> processProgress s c job t g | Publishing \<Rightarrow> processPublishing s job g) w"
  using assms by (simp add: processPhased_def thenS_def query_def okS_def)

text \<open>
  C14. A refresh comes to an end: when the collector answers and no store operation fails, each
  processed step of a staged generation brings it exactly one step nearer to publication, at
  most 3 steps plus one per 20 pending pull requests, and the last step completes the job.
\<close>

theorem process_approaches_publication:
  assumes "refresh_reachable (sw_db w)"
    and "LoadRefreshGeneration (sd_parse s) (jb_ID job) (sw_db w) = Inr (Some g)"
    and "gen_Forced g = jb_Forced job" "\<not> gen_RediscoveryRequested g"
    and "collector_succeeds (sd_collector s)"
    and "process s canceled attemptedAt job w = (Inr (), w')"
  shows "if steps_left (sw_db w) (jb_ID job) = 1
    then \<forall>j\<in>set (q_jobs (rf_jobs (sw_db w'))). j_id j = jb_ID job \<longrightarrow> j_status j = Completed
    else steps_left (sw_db w') (jb_ID job) + 1 = steps_left (sw_db w) (jb_ID job)"
proof -
  let ?w = "refresh_running w job attemptedAt" and ?job = "jb_ID job"
  have ok: "gens_ok (sw_db ?w)"
    using refresh_reachable_ok [OF assms(1)] by (simp add: refresh_ok_def gens_ok_def refresh_running_def)
  have load: "LoadRefreshGeneration (sd_parse s) ?job (sw_db ?w) = Inr (Some g)"
    using assms(2) LoadRefreshGeneration_cong [of "sw_db ?w" "sw_db w"] by simp
  from LoadRefreshGeneration_SomeD [OF load] obtain r where
    r: "gen_of (sw_db ?w) ?job = Some r" "gen_Phase g = g_phase r" by blast
  have left: "steps_left (sw_db ?w) ?job = steps_left (sw_db w) ?job" by (rule steps_left_cong) simp_all
  from assms(6) have run: "(case gen_Phase g of Hydrating \<Rightarrow> processHydrationBatch s canceled job attemptedAt g
       | ProgressPhase \<Rightarrow> processProgress s canceled job attemptedAt g
       | Publishing \<Rightarrow> processPublishing s job g) ?w = (Inr (), w')"
    by (simp add: process_eq processPhased_loaded [OF load assms(3,4)])
  show ?thesis
  proof (cases "gen_Phase g")
    case Hydrating
    with run r hydration_step [OF ok r(1) _ assms(5)] steps_left_Hydrating [OF r(1)] left show ?thesis by simp
  next
    case ProgressPhase
    with run r progress_step [OF ok r(1) _ assms(5)] left show ?thesis by (simp add: steps_left_def)
  next
    case Publishing
    with run publishing_step [of s job g ?w w'] r left show ?thesis by (simp add: steps_left_def)
  qed
qed

lemma process_approaches_publication_witness:
  "\<exists>w'. process (sample_scheduler (Inr \<lparr> gr_Repository = ''o/r'', gr_ProgressEvents = [], gr_ReviewThreads = [],
       gr_CollectedAt = second \<rparr>)) False second sample_job
      (sample_world (sample_state Running [sample_gen ProgressPhase []] [])) = (Inr (), w') \<and>
    steps_left (sw_db w') 1 + 1 = 2"
proof -
  let ?w = "sample_world (sample_state Running [sample_gen ProgressPhase []] [])"
  let ?s = "sample_scheduler (Inr \<lparr> gr_Repository = ''o/r'', gr_ProgressEvents = [], gr_ReviewThreads = [],
       gr_CollectedAt = second \<rparr>)"
  have "fst (process ?s False second sample_job ?w) = Inr ()"
    by (simp add: process_def thenS_def tx_def query_def RecordRefreshResult_def sample_world_def
        sample_scheduler_def sample_state_def processPhased_def LoadRefreshGeneration_def gen_of_def
        sample_gen_def new_generation_def sample_job_def sample_discovery_def since_text_def IsZero_def okS_def
        processProgress_def sample_collector_def persistPhaseAttempts_def ReplaceRouteAttempts_def route_view_def
        configured_def storageRouteAttempts_def validRouteOperation_def route_operations_def
        sample_pr_db_def update_where_def sample_codec_def AdvanceRefreshGeneration_def Let_def
        requeue_def RequeueRefreshJob_def requeue_job_def sample_job_row_def)
  then obtain w' where w': "process ?s False second sample_job ?w = (Inr (), w')" by (metis prod.collapse)
  obtain g where g: "LoadRefreshGeneration (sd_parse ?s) 1 (sw_db ?w) = Inr (Some g)" "\<not> gen_Forced g"
    "\<not> gen_RediscoveryRequested g"
    by (simp add: LoadRefreshGeneration_def gen_of_def sample_state_def sample_gen_def new_generation_def
        sample_job_def sample_discovery_def since_text_def IsZero_def sample_world_def sample_scheduler_def)
  have "collector_succeeds (sd_collector ?s)"
    by (simp add: collector_succeeds_def sample_scheduler_def sample_collector_def)
  moreover have "jb_ID sample_job = 1" "\<not> jb_Forced sample_job" by (simp_all add: sample_job_def)
  moreover have "refresh_reachable (sw_db ?w)" using sample_progress_reachable by (simp add: sample_world_def)
  moreover have "steps_left (sw_db ?w) 1 = 2"
    by (simp add: steps_left_def gen_of_def sample_state_def sample_gen_def new_generation_def
        sample_job_def sample_world_def)
  ultimately show ?thesis
    using process_approaches_publication [of ?w ?s sample_job g False second w'] g w' by simp
qed

section \<open>Failures\<close>

lemma retry_delay_bounds: "minute \<le> retry_delay n \<and> retry_delay n \<le> 16 * minute"
proof -
  have "(1::int) \<le> 2 ^ min (n - 1) 4" by simp
  moreover have "(2::int) ^ min (n - 1) 4 \<le> 2 ^ 4" by (rule power_increasing) simp_all
  ultimately show ?thesis by (simp add: retry_delay_def minute_def second_def)
qed

definition retried :: "generation option \<Rightarrow> failure \<Rightarrow> time \<Rightarrow> bool" where
  "retried g err now \<longleftrightarrow> is_retryable (fm_Category (BoundedFailureMetadata err)) \<and>
     (g = None \<or> now - gen_DiscoveredAt (the g) < 24 * hour)"

lemma requeue_schedules:
  assumes "requeue i t w = (Inr (), w')" "j \<in> set (q_jobs (rf_jobs (sw_db w')))" "j_id j = i"
    and "queue_ok refresh_key (rf_jobs (sw_db w))"
  shows "j_status j = Queued \<and> j_scheduled_for j = formatTime t"
proof -
  let ?p = "\<lambda>r. j_id r = i \<and> j_status r = Running"
  from assms(1) obtain db where db: "RequeueRefreshJob i t (sw_db w) = Inr db" "sw_db w' = db"
    by (auto simp: requeue_def tx_Inr)
  then have "count_where ?p (q_jobs (rf_jobs (sw_db w))) = 1"
    by (auto simp: RequeueRefreshJob_def requeue_job_def Let_def split: if_splits)
  then have "filter ?p (q_jobs (rf_jobs (sw_db w))) \<noteq> []" by (auto simp: count_where_def)
  then obtain k where k: "k \<in> set (q_jobs (rf_jobs (sw_db w)))" "?p k" by (auto simp: filter_empty_conv)
  from requeue_rows [OF db(1)] obtain f where
    f: "db = (sw_db w)\<lparr>rf_jobs := (rf_jobs (sw_db w))\<lparr>q_jobs := update_where ?p f (q_jobs (rf_jobs (sw_db w)))\<rparr>\<rparr>"
    "\<And>r. j_status (f r) = Queued \<and> j_id (f r) = j_id r \<and> j_scheduled_for (f r) = formatTime t" by blast
  from assms(2) db(2) f(1) have "j \<in> set (update_where ?p f (q_jobs (rf_jobs (sw_db w))))" by simp
  then obtain r where r: "r \<in> set (q_jobs (rf_jobs (sw_db w)))" "j = (if ?p r then f r else r)"
    by (rule update_where_row)
  have "j_id r = i" using r(2) f(2) assms(3) by (auto split: if_splits)
  with k r(1) assms(4) have "r = k" by (auto simp: queue_ok_def distinct_map inj_on_def)
  with k r(2) f(2) show ?thesis by simp
qed

text \<open>
  C16. Outcome of a failed collection. A rate limit, an outage or a timeout within 24 hours of
  discovery queues the job again between 1 and 16 minutes ahead of a reading of the clock and
  keeps its generation; every other failure completes the job and deletes its generation.
\<close>

theorem handlePhasedFailure_outcome:
  assumes "queue_ok refresh_key (rf_jobs (sw_db w))"
    and "handlePhasedFailure s False job attemptedAt err g w = (Inr (), w')"
    and "j \<in> set (q_jobs (rf_jobs (sw_db w')))" "j_id j = jb_ID job"
  shows "if retried g err (sd_now s 0)
    then j_status j = Queued \<and> map g_id (rf_gens (sw_db w')) = map g_id (rf_gens (sw_db w)) \<and>
      (\<exists>k d. j_scheduled_for j = formatTime (sd_now s k + d) \<and> minute \<le> d \<and> d \<le> 16 * minute)
    else j_status j = Completed \<and> gen_of (sw_db w') (jb_ID job) = None"
proof -
  let ?md = "BoundedFailureMetadata err" and ?job = "jb_ID job"
  show ?thesis
  proof (cases "retried g err (sd_now s 0)")
    case True
    show ?thesis
    proof (cases g)
      case None
      with True assms(2) have rq: "requeue ?job (sd_now s 0 + minute) w = (Inr (), w')"
        by (simp add: handlePhasedFailure_def retried_def Let_def)
      from requeue_schedules [OF rq assms(3,4,1)] requeue_gens [OF rq] True show ?thesis
        by (auto simp: minute_def second_def intro!: exI [of _ 0] exI [of _ minute])
    next
      case (Some g0)
      with True assms(2) obtain n db where
        rec: "RecordRefreshGenerationRetry ?job (category_text (fm_Category ?md), fm_Detail ?md,
          fm_Remediation ?md, fm_Phase ?md) (sw_db w) = Inr (n, db)"
        and rq: "requeue ?job (sd_now s 1 + retry_delay n) (w\<lparr>sw_db := db\<rparr>) = (Inr (), w')"
        by (auto simp: handlePhasedFailure_def retried_def Let_def split: sum.splits)
      from rec have db: "rf_jobs db = rf_jobs (sw_db w)" "map g_id (rf_gens db) = map g_id (rf_gens (sw_db w))"
        by (auto simp: RecordRefreshGenerationRetry_def Let_def map_update_where split: option.splits)
      from requeue_schedules [OF rq assms(3,4)] requeue_gens [OF rq] db assms(1) True retry_delay_bounds [of n]
      show ?thesis by auto
    qed
  next
    case False
    with assms(2) obtain db where
      d: "tx (\<lambda>db. Inr (CompleteRefreshJob ?job (sd_now s 2) db)) (w\<lparr>sw_db := DeleteRefreshGeneration ?job db\<rparr>) = (Inr (), w')"
      by (auto simp: handlePhasedFailure_def retried_def Let_def thenS_Inr tx_Inr split: if_splits)
    then have w': "sw_db w' = CompleteRefreshJob ?job (sd_now s 2) (DeleteRefreshGeneration ?job db)"
      by (simp add: tx_Inr)
    have "gen_of (sw_db w') ?job = None"
      by (simp add: w' CompleteRefreshJob_def gen_of_def DeleteRefreshGeneration_def find_None_iff set_delete_where)
    with complete_row assms(3,4) w' False show ?thesis by metis
  qed
qed

lemma handlePhasedFailure_outcome_witness:
  "\<exists>w'. handlePhasedFailure (sample_scheduler (Inl Canceled)) False sample_job second Canceled None
      (sample_world (sample_state Running [sample_gen Hydrating []] [])) = (Inr (), w') \<and>
    gen_of (sw_db w') 1 = None"
proof -
  let ?w = "sample_world (sample_state Running [sample_gen Hydrating []] [])"
  let ?s = "sample_scheduler (Inl Canceled)"
  have "queue_ok refresh_key (rf_jobs (sw_db ?w))"
    by (simp add: queue_ok_def sample_world_def sample_state_def sample_job_row_def active_def)
  moreover have n: "\<not> retried None Canceled (sd_now ?s 0)"
    by (simp add: retried_def is_retryable_def BoundedFailureMetadata_def metadata0_def case_prod_unfold)
  moreover have ni: "\<not> IsIncomplete Canceled" by (simp add: IsIncomplete_def)
  have "fst (handlePhasedFailure ?s False sample_job second Canceled None ?w) = Inr ()"
    using n ni by (simp add: retried_def handlePhasedFailure_def Let_def thenS_def tx_def RecordRefreshResult_def)
  then obtain w' where w': "handlePhasedFailure ?s False sample_job second Canceled None ?w = (Inr (), w')"
    by (metis prod.collapse)
  moreover have "\<exists>j\<in>set (q_jobs (rf_jobs (sw_db w'))). j_id j = jb_ID sample_job"
    using n ni w' by (simp add: retried_def handlePhasedFailure_def Let_def thenS_def tx_def RecordRefreshResult_def)
      (auto simp: CompleteRefreshJob_def finish_job_def finish_where_def DeleteRefreshGeneration_def
        sample_world_def sample_state_def sample_job_row_def sample_job_def update_where_def)
  ultimately show ?thesis
    using handlePhasedFailure_outcome [of ?w ?s sample_job second Canceled None w'] by (auto simp: sample_job_def)
qed

section \<open>Generations that name a collection their repository has left\<close>

text \<open>Only the check at the start of a snapshot answers \<open>NotConfigured\<close>.\<close>

definition other_error :: "pr_error + 'a \<Rightarrow> bool" where
  "other_error r \<longleftrightarrow> (\<forall>n. r \<noteq> Inl (NotConfigured n))"

lemma other_error_bindR: "other_error r \<Longrightarrow> (\<And>x. other_error (f x)) \<Longrightarrow> other_error (bindR r f)"
  by (cases r) (auto simp: other_error_def)

lemma other_error_Inr: "other_error (Inr x)"
  by (simp add: other_error_def)

lemma other_error_failIf: "(\<And>n. e \<noteq> NotConfigured n) \<Longrightarrow> other_error r \<Longrightarrow> other_error (failIf c e r)"
  by (simp add: other_error_def failIf_def)

lemma other_error_failE: "(\<And>n. e \<noteq> Some (NotConfigured n)) \<Longrightarrow> other_error r \<Longrightarrow> other_error (failE e r)"
  by (cases e) (auto simp: other_error_def)

lemma other_error_foldR: "(\<And>x s. other_error (f x s)) \<Longrightarrow> other_error (foldR f xs s)"
  by (induction xs arbitrary: s) (auto intro: other_error_Inr other_error_bindR)

lemma check_files_other: "check_files seen fs \<noteq> Some (NotConfigured n)"
  by (induction seen fs rule: check_files.induct) auto

lemma insert_checked_other:
  "(\<And>x. check x \<noteq> Some (NotConfigured n)) \<Longrightarrow> insert_checked check k table seen xs \<noteq> Some (NotConfigured n)"
  by (induction xs arbitrary: seen) (auto simp: seqE_def guardE_def split: option.splits)

lemma write_pull_other: "other_error (write_pull pr db)"
proof -
  have "first_err check_repository_history xs \<noteq> Some (NotConfigured n)" for xs n
    using first_err_Some [of check_repository_history xs "NotConfigured n"]
    by (auto simp: check_repository_history_def guardE_def split: if_splits)
  then have "other_error (writeAuthorHistory h db)" for h db
    unfolding writeAuthorHistory_def Let_def
    by (intro other_error_failIf other_error_failE other_error_Inr) simp_all
  moreover have "other_error (replacePullRequestContext pr db)" for db
    unfolding replacePullRequestContext_def Let_def
    by (cases "pr_Context pr")
      (auto intro!: other_error_failIf other_error_failE other_error_Inr insert_checked_other
        simp: check_relationship_def check_external_def guardE_def split: if_splits)
  moreover have "other_error (replacePullRequestFiles pr db)" for db
    unfolding replacePullRequestFiles_def
    by (intro other_error_failE other_error_Inr check_files_other)
  ultimately show ?thesis
    unfolding write_pull_def by (cases "pr_AuthorHistory pr") (auto intro!: other_error_bindR other_error_Inr)
qed

lemma normalize_all_other: "other_error (normalize_all r prs)"
  by (induction prs)
    (auto intro!: other_error_failIf other_error_bindR other_error_Inr simp: normalizePullRequest_def)

lemma add_desired_other: "other_error (add_desired db r n cs acc)"
  by (induction cs arbitrary: acc) (auto intro!: other_error_failIf other_error_Inr)

lemma stale_snapshot_error:
  assumes "pr \<in> set prs" "c \<in> set (pr_CollectionIDs pr)" "\<not> active_repository db c repository"
    and "configured_repository db repository"
  shows "\<exists>e. replaceRepositorySnapshot U repository prs t limits md db = Inl e \<and> (\<forall>n. e \<noteq> NotConfigured n)"
proof -
  have fails: "desired_members db1 repository ps \<noteq> Inr d"
    if ps: "normalize_all repository prs = Inr ps" and db1: "foldR write_pull ps db = Inr db1" for ps db1 d
  proof
    assume desired: "desired_members db1 repository ps = Inr d"
    have "pr_CollectionIDs pr \<in> set (map pr_CollectionIDs ps)"
      using normalize_all_Inr [OF ps] assms(1) by simp
    then obtain p where p: "p \<in> set ps" "pr_CollectionIDs p = pr_CollectionIDs pr" by auto
    with assms(2) have "c \<in> set (collections_of db1 repository p)" by (auto simp: collections_of_def)
    with desired_members_Inr [OF desired] p(1) have "active_repository db1 c repository" by blast
    with assms(3) write_all_frame [OF db1] show False by (simp add: active_repository_def same_published_def)
  qed
  have "other_error (desired_members d repository ps)" for d ps
    unfolding desired_members_def by (intro other_error_foldR add_desired_other)
  moreover have "other_error (foldR write_pull ps db)" for ps
    by (intro other_error_foldR write_pull_other)
  ultimately show ?thesis
    using assms(4) fails normalize_all_other [of repository prs]
    unfolding replaceRepositorySnapshot_def other_error_def bindR_def
    by (auto split: sum.split)
qed

definition stale_generation :: "scheduler \<Rightarrow> refresh_job \<Rightarrow> refresh_db \<Rightarrow> bool" where
  "stale_generation s job db \<longleftrightarrow>
     configured_repository (rf_pr db) (jb_Repository job) \<and>
     (\<exists>g. LoadRefreshGeneration (sd_parse s) (jb_ID job) db = Inr (Some g) \<and> gen_Phase g = Publishing \<and>
        gen_Forced g = jb_Forced job \<and> \<not> gen_RediscoveryRequested g) \<and>
     (\<exists>i\<in>set (LoadStagedRefreshPullRequests (jb_ID job) db). \<exists>c\<in>set (sg_CollectionIDs i).
        \<not> active_repository (rf_pr db) c (jb_Repository job))"

lemma collectR_Inr_mem: "collectR f xs = Inr ys \<Longrightarrow> x \<in> set xs \<Longrightarrow> \<exists>y\<in>set ys. f x = Inr y"
  by (induction xs arbitrary: ys) (auto simp: bindR_eq_Inr)

lemma stale_publishing_fails:
  assumes "i \<in> set items" "c \<in> set (sg_CollectionIDs i)"
    and "\<not> active_repository (rf_pr (sw_db w)) c (jb_Repository job)"
    and "configured_repository (rf_pr (sw_db w)) (jb_Repository job)"
    and "snapshot_of s job g items = Inr sn"
  shows "\<exists>e. publishSnapshot s job sn full w = (Inl e, w)"
proof (cases "collectR (publish_pull (sd_codec s) sn) (sn_PullRequests sn)")
  case (Inl e)
  then show ?thesis by (simp add: publishSnapshot_def)
next
  case (Inr prs)
  from assms(5) obtain ps where ps: "collectR (decode_item (sd_codec s)) items = Inr ps" "sn_PullRequests sn = ps"
    by (auto simp: snapshot_of_def bindR_eq_Inr Let_def split: if_splits option.splits)
  from collectR_Inr_mem [OF ps(1) assms(1)] obtain p where p: "p \<in> set ps" "hp_CollectionIDs p = sg_CollectionIDs i"
    by (auto simp: decode_item_def split: option.splits)
  from collectR_Inr_mem [OF Inr, of p] p ps(2) obtain pr where
    pr: "pr \<in> set prs" "pr_CollectionIDs pr = sg_CollectionIDs i"
    by (auto simp: publish_pull_def Let_def split: option.splits)
  let ?t = "if IsZero (sn_CollectedAt sn) then sd_now s 1 else sn_CollectedAt sn"
  from stale_snapshot_error [of pr prs c "rf_pr (sw_db w)" "jb_Repository job" "sd_upper s" ?t
      "storageContextLimits (sn_Limits sn)" "\<lparr> sm_FullReconciliation = full, sm_Forced = jb_Forced job,
        sm_CacheHits = sn_CacheHits sn, sm_CacheMisses = sn_CacheMisses sn, sm_CacheBypasses = sn_CacheBypasses sn \<rparr>"]
    pr assms(2,3,4) obtain e where e: "replaceRepositorySnapshot (sd_upper s) (jb_Repository job) prs ?t
      (storageContextLimits (sn_Limits sn)) \<lparr> sm_FullReconciliation = full, sm_Forced = jb_Forced job,
        sm_CacheHits = sn_CacheHits sn, sm_CacheMisses = sn_CacheMisses sn, sm_CacheBypasses = sn_CacheBypasses sn \<rparr>
      (rf_pr (sw_db w)) = Inl e" "\<And>n. e \<noteq> NotConfigured n" by auto
  then show ?thesis unfolding publishSnapshot_def Let_def Inr by (cases e) auto
qed

lemma stale_generation_cong:
  assumes "rf_gens db' = rf_gens db" "rf_items db' = rf_items db"
    "d_collections (rf_pr db') = d_collections (rf_pr db)" "d_repositories (rf_pr db') = d_repositories (rf_pr db)"
  shows "stale_generation s job db' = stale_generation s job db"
  unfolding stale_generation_def LoadRefreshGeneration_cong [OF assms(1,2)] LoadStagedRefreshPullRequests_def
    gen_of_def items_of_def configured_repository_def active_repository_def assms ..



section \<open>The two publications of a pull request\<close>

text \<open>
  A pull request is stored twice in a refresh: when its batch is hydrated and when the whole
  generation is published from its staged payload. When decoding gives back what was encoded
  and the cache payload, which the second publication encodes anew, is left aside, both store the
  same pull request, with the collections of the discovery and the same fingerprint.
\<close>

theorem staged_pull_published_alike:
  assumes "stage_pull c forced cached memberships fps p = Inr (st, early)"
    and "\<And>payload. enc_pull c p = Some payload \<Longrightarrow> dec_pull c payload = Some p"
    and "decode_item c st = Inr p'" "publish_pull c sn p' = Inr late"
    and "sn_Authors sn = []" "fingerprint_of (sn_Fingerprints sn) (sg_Number st) =
      \<lparr> fp_Version = sg_FingerprintVersion st, fp_Value = sg_Fingerprint st \<rparr>"
  shows "late = early\<lparr>pr_CachePayload := pr_CachePayload late\<rparr> \<and>
    pr_CachePayload early = sg_Payload st \<and> pr_CollectionIDs late = sg_CollectionIDs st"
proof -
  let ?ids = "case map_of memberships (hp_Number p) of None \<Rightarrow> [] | Some cs \<Rightarrow> cs"
  let ?fp = "fingerprint_of fps (hp_Number p)"
  from assms(1) obtain payload where e: "enc_pull c p = Some payload" and
    st: "sg_Payload st = payload" "sg_CollectionIDs st = ?ids" "sg_Number st = hp_Number p"
      "sg_FingerprintVersion st = fp_Version ?fp" "sg_Fingerprint st = fp_Value ?fp" and
    early: "early = storagePullRequest (p\<lparr>hp_CollectionIDs := ?ids\<rparr>) ?fp payload"
    by (auto simp: stage_pull_def Let_def split: option.splits)
  have p': "p' = p\<lparr>hp_CollectionIDs := ?ids\<rparr>"
    using assms(3) assms(2) [OF e] st by (simp add: decode_item_def)
  have fp: "fingerprint_of (sn_Fingerprints sn) (hp_Number p) = ?fp"
    using assms(6) st by simp
  from assms(4) p' fp assms(5) show ?thesis
    by (auto simp: publish_pull_def early storagePullRequest_def author_of_def st Let_def split: option.splits)
qed

definition sample_gh_pull :: gh_pull where
  "sample_gh_pull = \<lparr> hp_Repository = ''o/r'', hp_Number = 7, hp_HeadSHA = ''sha'', hp_Title = ''t'',
     hp_Body = [], hp_Author = ''ann'', hp_AuthorID = 1, hp_AuthorAssociation = [], hp_CreatedAt = second,
     hp_UpdatedAt = second, hp_URL = ''u'', hp_Additions = 1, hp_Deletions = 0, hp_ChangedFiles = 1,
     hp_Files = [], hp_ReviewState = ''none'', hp_Readiness = sample_readiness, hp_CollectionIDs = [],
     hp_Context = \<lparr> gc_Completeness = [], gc_Limits = [], gc_Relationships = [], gc_ExternalURLs = [],
       gc_CollectedAt = 0 \<rparr> \<rparr>"

definition one_pull_codec :: codec where
  "one_pull_codec = sample_codec\<lparr> dec_pull := (\<lambda>s. if s = ''t'' then Some sample_gh_pull else None) \<rparr>"

lemma staged_pull_published_alike_witness:
  "\<exists>st early late. stage_pull one_pull_codec False [] [(7, [''c''])] [] sample_gh_pull = Inr (st, early) \<and>
     late = early\<lparr>pr_CachePayload := pr_CachePayload late\<rparr> \<and> pr_CollectionIDs late = [''c'']"
proof -
  let ?sn = "\<lparr> sn_Repository = ''o/r'', sn_PullRequests = [], sn_Authors = [], sn_ProgressEvents = [],
    sn_ReviewThreads = [], sn_CollectedAt = second, sn_Limits = [],
    sn_Fingerprints = [(7, \<lparr> fp_Version = [], fp_Value = [] \<rparr>)], sn_CacheHits = 0, sn_CacheMisses = 1,
    sn_CacheBypasses = 0 \<rparr>"
  obtain st early where s: "stage_pull one_pull_codec False [] [(7, [''c''])] [] sample_gh_pull = Inr (st, early)"
    and st: "sg_Number st = 7" "sg_CollectionIDs st = [''c'']" "sg_Payload st = ''t''"
      "sg_FingerprintVersion st = []" "sg_Fingerprint st = []"
    by (simp add: stage_pull_def one_pull_codec_def sample_codec_def sample_gh_pull_def fingerprint_of_def Let_def)
  obtain late where l: "publish_pull one_pull_codec ?sn (sample_gh_pull\<lparr>hp_CollectionIDs := [''c'']\<rparr>) = Inr late"
    by (simp add: publish_pull_def one_pull_codec_def sample_codec_def Let_def)
  have d: "decode_item one_pull_codec st = Inr (sample_gh_pull\<lparr>hp_CollectionIDs := [''c'']\<rparr>)"
    by (simp add: decode_item_def one_pull_codec_def st)
  have e: "dec_pull one_pull_codec payload = Some sample_gh_pull" if "enc_pull one_pull_codec sample_gh_pull = Some payload" for payload
    using that by (simp add: one_pull_codec_def sample_codec_def sample_gh_pull_def)
  from staged_pull_published_alike [OF s e d l] s st show ?thesis by (auto simp: fingerprint_of_def)
qed

end
