(* ===== verification/Contribution.thy ===== *)
theory Contribution
  imports Tables
begin

text \<open>
  Author context (\<open>internal/contribution/contribution.go\<close>): the level of an author in a collection
  and the experimental signal of unusual activity, from collected facts. A Go map is an
  association list with distinct keys in the order of one iteration; \<open>U\<close> and \<open>L\<close> are Unicode
  upper and lower case outside ASCII. The age in days is computed on exact durations, where the
  code goes through a \<open>float64\<close> number of hours.
\<close>

section \<open>Policy\<close>

record contribution_policy =
  cp_EstablishedMergedPRs :: threshold
  cp_AccountAgeDays :: threshold
  cp_WindowDays :: threshold
  cp_MinRepositories :: threshold
  cp_MinOrganizations :: threshold

definition threshold_of :: "int \<Rightarrow> string \<Rightarrow> threshold" where
  "threshold_of v source = \<lparr> t_Value = v, t_Source = source \<rparr>"

definition DefaultContributionPolicy :: contribution_policy where
  "DefaultContributionPolicy = \<lparr> cp_EstablishedMergedPRs = threshold_of 3 ''default'',
     cp_AccountAgeDays = threshold_of 90 ''default'', cp_WindowDays = threshold_of 14 ''default'',
     cp_MinRepositories = threshold_of 20 ''default'', cp_MinOrganizations = threshold_of 3 ''default'' \<rparr>"

definition apply_threshold :: "int option \<Rightarrow> threshold \<Rightarrow> threshold" where
  "apply_threshold value target = (case value of None \<Rightarrow> target | Some v \<Rightarrow> threshold_of v ''local'')"

definition ContributionPolicyFromConfig :: "contribution_config option \<Rightarrow> contribution_policy" where
  "ContributionPolicyFromConfig value =
     (case value of
        None \<Rightarrow> DefaultContributionPolicy
      | Some c \<Rightarrow>
         (let p = DefaultContributionPolicy\<lparr>cp_EstablishedMergedPRs :=
                apply_threshold (cn_EstablishedMergedPRs c) (cp_EstablishedMergedPRs DefaultContributionPolicy)\<rparr>
          in case cn_UnusualActivity c of
               None \<Rightarrow> p
             | Some u \<Rightarrow> p\<lparr> cp_AccountAgeDays := apply_threshold (un_AccountAgeDays u) (cp_AccountAgeDays p),
                 cp_WindowDays := apply_threshold (un_WindowDays u) (cp_WindowDays p),
                 cp_MinRepositories := apply_threshold (un_MinRepositories u) (cp_MinRepositories p),
                 cp_MinOrganizations := apply_threshold (un_MinOrganizations u) (cp_MinOrganizations p) \<rparr>))"

section \<open>Evaluation\<close>

record contribution_input =
  ci_Complete :: bool
  ci_AccountCreatedAt :: time
  ci_Repositories :: "(string \<times> repository_history) list"
  ci_CurrentOpen :: "(string \<times> int) list"
  ci_RecentActivity :: "repository_activity list"

record unusual_result =
  ur_Detected :: bool
  ur_AccountAgeDays :: int
  ur_Repositories :: nat
  ur_Organizations :: nat
  ur_WindowDays :: int

record evaluation =
  ev_Completeness :: string
  ev_Level :: string
  ev_Association :: string
  ev_Merged :: int
  ev_ClosedUnmerged :: int
  ev_Open :: int
  ev_Repositories :: "(string \<times> repository_history) list"
  ev_UnusualActivity :: "unusual_result option"
  ev_Policy :: contribution_policy

definition associationRank :: "(string \<Rightarrow> string) \<Rightarrow> string \<Rightarrow> nat" where
  "associationRank U value =
     (let u = ToUpper U value in
      if u = ''OWNER'' then 5
      else if u = ''MEMBER'' then 4
      else if u = ''COLLABORATOR'' then 3
      else if u = ''CONTRIBUTOR'' then 2
      else if u = ''FIRST_TIME_CONTRIBUTOR'' \<or> u = ''FIRST_TIMER'' then 1
      else 0)"

definition add_history :: "(string \<Rightarrow> string) \<Rightarrow> evaluation \<Rightarrow> repository_history \<Rightarrow> evaluation" where
  "add_history U r h =
     r\<lparr> ev_Merged := ev_Merged r + rh_Merged h,
        ev_ClosedUnmerged := ev_ClosedUnmerged r + rh_ClosedUnmerged h,
        ev_Open := ev_Open r + rh_Open h,
        ev_Association := (if associationRank U (rh_Association h) > associationRank U (ev_Association r)
          then rh_Association h else ev_Association r) \<rparr>"

text \<open>Open pull requests that are not among the currently listed ones.\<close>

definition open_of :: "(string \<times> repository_history) list \<Rightarrow> string \<Rightarrow> int" where
  "open_of repositories r = (case map_of repositories r of None \<Rightarrow> 0 | Some h \<Rightarrow> rh_Open h)"

definition prior_open :: "(string \<times> repository_history) list \<Rightarrow> (string \<times> int) list \<Rightarrow> int \<Rightarrow> int" where
  "prior_open repositories current n =
     foldl (\<lambda>n (r, count). if count < 0 then n else n - min count (open_of repositories r)) n current"

definition level_of :: "(string \<Rightarrow> string) \<Rightarrow> contribution_policy \<Rightarrow> evaluation \<Rightarrow> int \<Rightarrow> string" where
  "level_of U policy r priorOpen =
     (if associationRank U (ev_Association r) \<ge> associationRank U ''COLLABORATOR'' \<or>
         ev_Merged r \<ge> t_Value (cp_EstablishedMergedPRs policy) then ''established''
      else if ev_Merged r + ev_ClosedUnmerged r + priorOpen > 0 then ''some_history''
      else ''new_to_collection'')"

text \<open>The sets of recent repositories and organizations, as lists without repetition.\<close>

definition in_window :: "contribution_policy \<Rightarrow> time \<Rightarrow> repository_activity \<Rightarrow> bool" where
  "in_window policy now a \<longleftrightarrow> \<not> (ract_Repository a = [] \<or>
     ract_OccurredAt a < now - t_Value (cp_WindowDays policy) * day \<or> now < ract_OccurredAt a)"

definition recent_repositories ::
  "(string \<Rightarrow> string) \<Rightarrow> contribution_policy \<Rightarrow> time \<Rightarrow> repository_activity list \<Rightarrow> string list" where
  "recent_repositories L policy now as =
     remdups (map (\<lambda>a. ToLower L (ract_Repository a)) (filter (in_window policy now) as))"

definition owner_part :: "string \<Rightarrow> string option" where
  "owner_part r = (let (owner, _, ok) = Cut r (CHR ''/'') in if ok \<and> owner \<noteq> [] then Some owner else None)"

definition recent_organizations ::
  "(string \<Rightarrow> string) \<Rightarrow> contribution_policy \<Rightarrow> time \<Rightarrow> repository_activity list \<Rightarrow> string list" where
  "recent_organizations L policy now as =
     remdups (map (ToLower L) (List.map_filter (\<lambda>a. owner_part (ract_Repository a)) (filter (in_window policy now) as)))"

text \<open>\<open>time.Time.Sub\<close> saturates at the largest duration.\<close>

definition account_age :: "time \<Rightarrow> time \<Rightarrow> int" where
  "account_age now created =
     (if IsZero created \<or> now < created then -1 else min (now - created) (2 ^ 63 - 1) div day)"

definition unusual ::
  "(string \<Rightarrow> string) \<Rightarrow> contribution_policy \<Rightarrow> time \<Rightarrow> contribution_input \<Rightarrow> unusual_result" where
  "unusual L policy now i =
     (let repositories = length (recent_repositories L policy now (ci_RecentActivity i));
          organizations = length (recent_organizations L policy now (ci_RecentActivity i));
          age = account_age now (ci_AccountCreatedAt i);
          young = age \<noteq> -1 \<and> age < t_Value (cp_AccountAgeDays policy)
      in \<lparr> ur_Detected = young \<and> int repositories \<ge> t_Value (cp_MinRepositories policy) \<and>
             int organizations \<ge> t_Value (cp_MinOrganizations policy),
           ur_AccountAgeDays = age, ur_Repositories = repositories, ur_Organizations = organizations,
           ur_WindowDays = t_Value (cp_WindowDays policy) \<rparr>)"

definition Evaluate ::
  "(string \<Rightarrow> string) \<Rightarrow> (string \<Rightarrow> string) \<Rightarrow> contribution_input \<Rightarrow> contribution_policy \<Rightarrow> time \<Rightarrow> evaluation" where
  "Evaluate U L i policy now =
     (let r = foldl (\<lambda>r (_, h). add_history U r h)
            \<lparr> ev_Completeness = ''incomplete'', ev_Level = [], ev_Association = [], ev_Merged = 0,
              ev_ClosedUnmerged = 0, ev_Open = 0, ev_Repositories = ci_Repositories i,
              ev_UnusualActivity = None, ev_Policy = policy \<rparr> (ci_Repositories i)
      in if \<not> ci_Complete i then r
         else r\<lparr> ev_Completeness := ''complete'',
             ev_Level := level_of U policy r
               (prior_open (ci_Repositories i) (ci_CurrentOpen i) (ev_Open r)),
             ev_UnusualActivity := Some (unusual L policy now i) \<rparr>)"

section \<open>The result does not depend on the iteration order\<close>

lemma add_histories:
  "let r' = foldl (\<lambda>r (_, h). add_history U r h) r hs in
     ev_Merged r' = ev_Merged r + sum_list (map (rh_Merged \<circ> snd) hs) \<and>
     ev_ClosedUnmerged r' = ev_ClosedUnmerged r + sum_list (map (rh_ClosedUnmerged \<circ> snd) hs) \<and>
     ev_Open r' = ev_Open r + sum_list (map (rh_Open \<circ> snd) hs) \<and>
     associationRank U (ev_Association r') =
       Max (insert (associationRank U (ev_Association r)) ((\<lambda>x. associationRank U (rh_Association (snd x))) ` set hs)) \<and>
     ev_Completeness r' = ev_Completeness r \<and> ev_Level r' = ev_Level r \<and>
     ev_UnusualActivity r' = ev_UnusualActivity r"
proof (induction hs arbitrary: r)
  case Nil
  then show ?case by simp
next
  case (Cons x hs)
  let ?rank = "\<lambda>x. associationRank U (rh_Association (snd x))"
  let ?a = "associationRank U (ev_Association r)"
  have 1: "associationRank U (ev_Association (add_history U r (snd x))) = max ?a (?rank x)"
    by (simp add: add_history_def)
  have "Max (insert (max ?a (?rank x)) (?rank ` set hs)) = Max (insert ?a (?rank ` set (x # hs)))"
    by (cases "set hs = {}") (simp_all add: ac_simps)
  with Cons.IH [of "add_history U r (snd x)"] 1 show ?case
    by (simp add: case_prod_unfold Let_def) (simp add: add_history_def)
qed

lemma prior_open_sum:
  "prior_open repositories current n =
     n - sum_list (map (\<lambda>(r, count). if count < 0 then 0 else min count (open_of repositories r)) current)"
  by (induction current arbitrary: n) (auto simp: prior_open_def)

lemma map_of_perm:
  assumes "distinct (map fst xs)" "mset xs = mset ys"
  shows "map_of xs = map_of ys"
proof -
  have "mset (map fst xs) = mset (map fst ys)" using assms(2) by (metis mset_map)
  then have "distinct (map fst ys)" using assms(1) mset_eq_imp_distinct_iff by blast
  moreover have "set xs = set ys" using assms(2) by (rule mset_eq_setD)
  ultimately show ?thesis using assms(1) by (simp add: map_of_inject_set)
qed

lemma sum_list_perm: "mset xs = mset ys \<Longrightarrow> sum_list (map f xs) = sum_list (map (f :: 'a \<Rightarrow> int) ys)"
  by (metis mset_map sum_mset_sum_list)

lemma level_of_cong:
  assumes "associationRank U (ev_Association r) = associationRank U (ev_Association r')"
    "ev_Merged r = ev_Merged r'" "ev_ClosedUnmerged r = ev_ClosedUnmerged r'"
  shows "level_of U policy r n = level_of U policy r' n"
  using assms by (simp add: level_of_def)

lemma recent_perm:
  assumes "mset as = mset bs"
  shows "length (recent_repositories L policy now as) = length (recent_repositories L policy now bs)"
    "length (recent_organizations L policy now as) = length (recent_organizations L policy now bs)"
proof -
  have "set as = set bs" using assms by (rule mset_eq_setD)
  then show "length (recent_repositories L policy now as) = length (recent_repositories L policy now bs)"
    "length (recent_organizations L policy now as) = length (recent_organizations L policy now bs)"
    by (simp_all add: recent_repositories_def recent_organizations_def length_remdups_card_conv
        List.map_filter_def)
qed


definition sample_histories :: "(string \<times> repository_history) list" where
  "sample_histories =
     [(''o/a'', \<lparr> rh_Association = ''CONTRIBUTOR'', rh_Merged = 1, rh_ClosedUnmerged = 0, rh_Open = 2 \<rparr>),
      (''o/b'', \<lparr> rh_Association = ''MEMBER'', rh_Merged = 0, rh_ClosedUnmerged = 1, rh_Open = 0 \<rparr>)]"

definition sample_input :: contribution_input where
  "sample_input = \<lparr> ci_Complete = True, ci_AccountCreatedAt = 0, ci_Repositories = sample_histories,
     ci_CurrentOpen = [(''o/a'', 1)], ci_RecentActivity = [] \<rparr>"


end
