(* ===== verification/Evidence.thy ===== *)
theory Evidence
  imports Contribution Snapshot
begin

text \<open>
  Author and diff evidence in the store (\<open>internal/storage/store.go\<close>, \<open>author_evidence.go\<close>,
  \<open>diff.go\<close>, \<open>periodic.go\<close>): the queues of repository contributions, of public author facts
  (ancillary) with their shared cooldown, and of pull request diffs. \<open>parse\<close> is
  \<open>time.Parse(time.RFC3339Nano, _)\<close>, \<open>U\<close> is Unicode upper case outside ASCII.
\<close>

section \<open>State\<close>

record contribution_payload =
  cb_author_id :: int
  cb_login :: string
  cb_repository :: string
  cb_association :: string

record ancillary_payload =
  an_author_id :: int
  an_login :: string

text \<open>\<open>e_next\<close> is the single row of \<open>ancillary_queue\<close>.\<close>

record evidence_db =
  e_pr :: pr_db
  e_contributions :: "contribution_payload queue"
  e_ancillary :: "ancillary_payload queue"
  e_next :: "string option"

record evidence_author =
  ea_ID :: int
  ea_Login :: string
  ea_Association :: string

definition contribution_job_key :: "contribution_payload \<Rightarrow> int \<times> string" where
  "contribution_job_key p = (cb_author_id p, cb_repository p)"

definition AncillaryRequestInterval :: int where
  "AncillaryRequestInterval = 65 * second"

definition tx_e :: "(pr_error + pr_db) \<Rightarrow> evidence_db \<Rightarrow> pr_error + evidence_db" where
  "tx_e r db = bindR r (\<lambda>d. Inr (db\<lparr>e_pr := d\<rparr>))"

section \<open>Enqueueing after a snapshot\<close>

text \<open>
  The repositories of the active collections that hold the source, each with the smallest
  refresh interval, in the order of the query. The code puts them in a Go map, so it visits
  them in an arbitrary order: \<open>iter\<close> in \<open>EnqueueAuthorEvidenceAfterSnapshot\<close>.
\<close>

definition source_collections :: "pr_db \<Rightarrow> string \<Rightarrow> collection_row list" where
  "source_collections db source =
     filter (\<lambda>c. c_active c \<and> (c_id c, source) \<in> set (d_repositories db)) (d_collections db)"

definition evidence_intervals :: "pr_db \<Rightarrow> string \<Rightarrow> (string \<times> int) list" where
  "evidence_intervals db source =
     (let rows = concat (map (\<lambda>c. map (\<lambda>x. (snd x, c_contribution_refresh_seconds c * second))
            (filter (\<lambda>x. fst x = c_id c) (d_repositories db))) (source_collections db source))
      in map (\<lambda>r. (r, Min (snd ` set (filter (\<lambda>x. fst x = r) rows)))) (sort (remdups (map fst rows))))"

definition minimumInterval :: "(string \<times> int) list \<Rightarrow> int" where
  "minimumInterval values =
     foldl (\<lambda>result x. if 0 < snd x \<and> snd x < result then snd x else result) (7 * day) values"

definition contributionAssociationRank :: "(string \<Rightarrow> string) \<Rightarrow> string \<Rightarrow> nat" where
  "contributionAssociationRank U value =
     (let u = ToUpper U value in
      if u = ''OWNER'' then 5
      else if u = ''MEMBER'' then 4
      else if u = ''COLLABORATOR'' then 3
      else if u = ''CONTRIBUTOR'' then 2
      else if u = ''FIRST_TIME_CONTRIBUTOR'' \<or> u = ''FIRST_TIMER'' then 1
      else 0)"

definition fresh_within :: "(string \<Rightarrow> time option) \<Rightarrow> time \<Rightarrow> int \<Rightarrow> string option \<Rightarrow> bool" where
  "fresh_within parse now interval collected =
     (case collected of
        None \<Rightarrow> False
      | Some c \<Rightarrow> (case parse c of None \<Rightarrow> False | Some at \<Rightarrow> now < at + interval))"

definition contribution_row_for :: "pr_db \<Rightarrow> int \<Rightarrow> string \<Rightarrow> contribution_row option" where
  "contribution_row_for db a r = find (\<lambda>x. contribution_key x = (a, r)) (d_contributions db)"

definition author_row_for :: "pr_db \<Rightarrow> int \<Rightarrow> author_row option" where
  "author_row_for db a = find (\<lambda>x. au_id x = a) (d_authors db)"

text \<open>\<open>INSERT INTO authors ... ON CONFLICT(id) DO UPDATE SET login\<close>.\<close>

definition upsert_author :: "int \<Rightarrow> string \<Rightarrow> time \<Rightarrow> pr_db \<Rightarrow> pr_error + pr_db" where
  "upsert_author a login now db =
     failIf (login_taken a login (d_authors db)) (Constraint ''authors'')
      (Inr (db\<lparr>d_authors := upsert au_id (\<lambda>old new. old\<lparr>au_login := au_login new\<rparr>)
         \<lparr> au_id = a, au_login = login, au_account_created_at = [], au_history_complete = False,
           au_recent_activity = [], au_collected_at = formatTime now, au_ancillary_status = ''pending'',
           au_ancillary_collected_at = None, au_ancillary_attempted_at = None,
           au_ancillary_error = [] \<rparr> (d_authors db)\<rparr>))"

text \<open>The history row of a newly queued job.\<close>

definition pending_history :: "int \<Rightarrow> string \<Rightarrow> string \<Rightarrow> contribution_row" where
  "pending_history a r association =
     \<lparr> ac_author_id = a, ac_repository = r, ac_history = \<lparr> rh_Association = association, rh_Merged = 0,
         rh_ClosedUnmerged = 0, rh_Open = 0 \<rparr>, ac_status = ''pending'', ac_collected_at = None \<rparr>"

definition evidence_association ::
  "(string \<Rightarrow> string) \<Rightarrow> string \<Rightarrow> evidence_author \<Rightarrow> string \<Rightarrow> pr_db \<Rightarrow> string" where
  "evidence_association U source author repository db =
     (let association = (if repository = source then ea_Association author else []) in
      case contribution_row_for db (ea_ID author) repository of
        None \<Rightarrow> association
      | Some x \<Rightarrow>
          if contributionAssociationRank U (rh_Association (ac_history x)) >
             contributionAssociationRank U association
          then rh_Association (ac_history x) else association)"

definition enqueue_repository_evidence ::
  "(string \<Rightarrow> time option) \<Rightarrow> (string \<Rightarrow> string) \<Rightarrow> string \<Rightarrow> evidence_author \<Rightarrow> time \<Rightarrow>
   evidence_db \<Rightarrow> string \<times> int \<Rightarrow> evidence_db" where
  "enqueue_repository_evidence parse U source author now db x =
     (let repository = fst x;
          association = evidence_association U source author repository (e_pr db);
          collected = (case contribution_row_for (e_pr db) (ea_ID author) repository of
            None \<Rightarrow> None | Some r \<Rightarrow> if ac_status r = ''complete'' then ac_collected_at r else None)
      in if fresh_within parse now (snd x) collected then db
         else case enqueue_job contribution_job_key
             \<lparr> cb_author_id = ea_ID author, cb_login = ea_Login author, cb_repository = repository,
               cb_association = association \<rparr> now (e_contributions db) of
             (False, _) \<Rightarrow> db
           | (True, q) \<Rightarrow> db\<lparr> e_contributions := q,
               e_pr := (e_pr db)\<lparr>d_contributions := upsert contribution_key
                 (\<lambda>old new. old\<lparr>ac_history := (ac_history old)\<lparr>rh_Association := rh_Association (ac_history new)\<rparr>,
                    ac_status := ''pending''\<rparr>)
                 (pending_history (ea_ID author) repository association) (d_contributions (e_pr db))\<rparr> \<rparr>)"

definition set_ancillary_status :: "(int \<Rightarrow> bool) \<Rightarrow> pr_db \<Rightarrow> pr_db" where
  "set_ancillary_status p db =
     db\<lparr>d_authors := update_where (\<lambda>r. p (au_id r)) (\<lambda>r. r\<lparr>au_ancillary_status := ''pending''\<rparr>) (d_authors db)\<rparr>"

definition enqueue_ancillary ::
  "(string \<Rightarrow> time option) \<Rightarrow> evidence_author \<Rightarrow> int \<Rightarrow> time \<Rightarrow> evidence_db \<Rightarrow> evidence_db" where
  "enqueue_ancillary parse author interval now db =
     (let collected = (case author_row_for (e_pr db) (ea_ID author) of
            None \<Rightarrow> None
          | Some r \<Rightarrow> if au_ancillary_status r = ''complete'' then au_ancillary_collected_at r else None)
      in if fresh_within parse now interval collected then db
         else case enqueue_job an_author_id
             \<lparr> an_author_id = ea_ID author, an_login = ea_Login author \<rparr> now (e_ancillary db) of
             (False, _) \<Rightarrow> db
           | (True, q) \<Rightarrow> db\<lparr> e_ancillary := q,
               e_pr := set_ancillary_status (\<lambda>a. a = ea_ID author) (e_pr db) \<rparr>)"

definition enqueue_author_evidence ::
  "(string \<Rightarrow> time option) \<Rightarrow> (string \<Rightarrow> string) \<Rightarrow> string \<Rightarrow> (string \<times> int) list \<Rightarrow> time \<Rightarrow>
   evidence_author \<Rightarrow> evidence_db \<Rightarrow> pr_error + evidence_db" where
  "enqueue_author_evidence parse U source intervals now author db =
     (if ea_ID author \<le> 0 \<or> ea_Login author = [] then Inr db
      else bindR (tx_e (upsert_author (ea_ID author) (ea_Login author) now (e_pr db)) db) (\<lambda>db1.
        Inr (enqueue_ancillary parse author (minimumInterval intervals) now
          (foldl (enqueue_repository_evidence parse U source author now) db1 intervals))))"

definition EnqueueAuthorEvidenceAfterSnapshot ::
  "(string \<Rightarrow> time option) \<Rightarrow> (string \<Rightarrow> string) \<Rightarrow> ((string \<times> int) list \<Rightarrow> (string \<times> int) list) \<Rightarrow>
   string \<Rightarrow> evidence_author list \<Rightarrow> time \<Rightarrow> evidence_db \<Rightarrow> pr_error + evidence_db" where
  "EnqueueAuthorEvidenceAfterSnapshot parse U iter source authors now db =
     foldR (enqueue_author_evidence parse U source (iter (evidence_intervals (e_pr db) source)) now)
       authors db"

section \<open>Claims\<close>

text \<open>
  One transaction; \<open>None\<close> is \<open>sql.ErrNoRows\<close>. The schedule of the job is parsed by the callers
  after the commit, so a schedule that does not parse leaves the job running.
\<close>

definition claim_row :: "time \<Rightarrow> 'p queue \<Rightarrow> ('p job_row \<times> 'p queue) option" where
  "claim_row now q = (case select_due now q of None \<Rightarrow> None | Some r \<Rightarrow> Some (r, start_job (j_id r) now q))"

definition parsed_claim ::
  "(string \<Rightarrow> time option) \<Rightarrow> 'p job_row \<Rightarrow> string + ('p job_row \<times> time) option" where
  "parsed_claim parse r =
     (case parse (j_scheduled_for r) of None \<Rightarrow> Inl (j_scheduled_for r) | Some t \<Rightarrow> Inr (Some (r, t)))"

definition ClaimContributionEvidence ::
  "(string \<Rightarrow> time option) \<Rightarrow> time \<Rightarrow> evidence_db \<Rightarrow>
   (string + (contribution_payload job_row \<times> time) option) \<times> evidence_db" where
  "ClaimContributionEvidence parse now db =
     (case claim_row now (e_contributions db) of
        None \<Rightarrow> (Inr None, db)
      | Some (r, q) \<Rightarrow> (parsed_claim parse r, db\<lparr>e_contributions := q\<rparr>))"

definition ancillary_blocked :: "time \<Rightarrow> evidence_db \<Rightarrow> bool" where
  "ancillary_blocked now db \<longleftrightarrow>
     (case e_next db of None \<Rightarrow> False | Some t \<Rightarrow> t > formatTime now) \<or>
     list_ex (\<lambda>r. j_status r = Running) (q_jobs (e_ancillary db))"

definition ClaimAncillaryAuthorEvidence ::
  "(string \<Rightarrow> time option) \<Rightarrow> time \<Rightarrow> evidence_db \<Rightarrow>
   (string + (ancillary_payload job_row \<times> time) option) \<times> evidence_db" where
  "ClaimAncillaryAuthorEvidence parse now db =
     (if ancillary_blocked now db then (Inr None, db)
      else case claim_row now (e_ancillary db) of
        None \<Rightarrow> (Inr None, db)
      | Some (r, q) \<Rightarrow> (parsed_claim parse r,
          db\<lparr> e_ancillary := q, e_next := Some (formatTime (now + AncillaryRequestInterval)),
              e_pr := (e_pr db)\<lparr>d_authors := update_where (\<lambda>a. au_id a = an_author_id (j_payload r))
                (\<lambda>a. a\<lparr>au_ancillary_attempted_at := Some (formatTime now)\<rparr>) (d_authors (e_pr db))\<rparr> \<rparr>))"

section \<open>Completion\<close>

definition CompleteContributionEvidence ::
  "nat \<Rightarrow> contribution_payload \<Rightarrow> 'e + repository_history \<Rightarrow> time \<Rightarrow> evidence_db \<Rightarrow> pr_error + evidence_db" where
  "CompleteContributionEvidence i p collected collectedAt db =
     (let d = e_pr db; k = (cb_author_id p, cb_repository p) in
      bindR (case collected of
          Inr h \<Rightarrow>
            failIf (author_row_for d (cb_author_id p) = None \<or> rh_Merged h < 0 \<or> rh_ClosedUnmerged h < 0 \<or>
                rh_Open h < 0) (Constraint ''author_repository_contributions'')
             (Inr (d\<lparr>d_contributions := upsert contribution_key (\<lambda>old new. new)
               \<lparr> ac_author_id = cb_author_id p, ac_repository = cb_repository p, ac_history = h,
                 ac_status = ''complete'', ac_collected_at = Some (formatTime collectedAt) \<rparr>
               (d_contributions d)\<rparr>))
        | Inl _ \<Rightarrow> Inr (d\<lparr>d_contributions := update_where (\<lambda>r. contribution_key r = k)
             (\<lambda>r. r\<lparr>ac_status := ''failed''\<rparr>) (d_contributions d)\<rparr>))
        (\<lambda>d1. Inr (db\<lparr> e_pr := d1, e_contributions := finish_job i collectedAt (e_contributions db) \<rparr>)))"

definition CompleteAncillaryAuthorEvidence ::
  "nat \<Rightarrow> ancillary_payload \<Rightarrow> 'e + (time \<times> repository_activity list) \<Rightarrow> time \<Rightarrow> evidence_db \<Rightarrow> evidence_db" where
  "CompleteAncillaryAuthorEvidence i p collected collectedAt db =
     (let at = formatTime collectedAt;
          change = (case collected of
             Inr (created, recent) \<Rightarrow> (\<lambda>a. a\<lparr> au_account_created_at := formatTime created,
               au_recent_activity := recent, au_history_complete := True, au_collected_at := at,
               au_ancillary_status := ''complete'', au_ancillary_collected_at := Some at,
               au_ancillary_attempted_at := Some at, au_ancillary_error := [] \<rparr>)
           | Inl _ \<Rightarrow> (\<lambda>a. a\<lparr> au_ancillary_status := ''failed'', au_ancillary_attempted_at := Some at,
               au_ancillary_error := ''Public author collection failed.'' \<rparr>))
      in db\<lparr> e_pr := (e_pr db)\<lparr>d_authors := update_where (\<lambda>a. au_id a = an_author_id p) change (d_authors (e_pr db))\<rparr>,
             e_ancillary := finish_job i collectedAt (e_ancillary db) \<rparr>)"

definition RequeueAncillaryAuthorEvidence ::
  "nat \<Rightarrow> ancillary_payload \<Rightarrow> time \<Rightarrow> time \<Rightarrow> string \<Rightarrow> evidence_db \<Rightarrow> evidence_db" where
  "RequeueAncillaryAuthorEvidence i p now retryAt detail db =
     db\<lparr> e_ancillary := (e_ancillary db)\<lparr>q_jobs := update_where (\<lambda>r. j_id r = i \<and> j_status r = Running)
           (\<lambda>r. r\<lparr>j_status := Queued, j_scheduled_for := formatTime retryAt, j_finished_at := None\<rparr>)
           (q_jobs (e_ancillary db))\<rparr>,
         e_pr := (e_pr db)\<lparr>d_authors := update_where (\<lambda>a. au_id a = an_author_id p)
           (\<lambda>a. a\<lparr> au_ancillary_status := ''pending'', au_ancillary_attempted_at := Some (formatTime now),
                   au_ancillary_error := detail \<rparr>) (d_authors (e_pr db))\<rparr>,
         e_next := Some (case e_next db of None \<Rightarrow> formatTime retryAt | Some t \<Rightarrow> max t (formatTime retryAt)) \<rparr>"

definition RecoverEvidenceJobs :: "evidence_db \<Rightarrow> evidence_db" where
  "RecoverEvidenceJobs db =
     db\<lparr> e_contributions := recover_jobs (e_contributions db), e_ancillary := recover_jobs (e_ancillary db),
         e_pr := (e_pr db)\<lparr>d_diffs := recover_jobs (d_diffs (e_pr db))\<rparr> \<rparr>"

section \<open>Scheduled and manual requests\<close>

text \<open>The pull requests of a collection whose author is known, in the order of the join.\<close>

definition authored_pulls :: "pr_db \<Rightarrow> string \<Rightarrow> pull_row list" where
  "authored_pulls db c =
     concat (map (\<lambda>m. filter (\<lambda>p. pull_key p = snd m \<and> pu_author_id p > 0 \<and> pu_author p \<noteq> []) (d_pulls db))
       (filter (\<lambda>m. fst m = c) (d_members db)))"

definition collection_active :: "pr_db \<Rightarrow> string \<Rightarrow> bool option" where
  "collection_active db c = map_option c_active (find (\<lambda>r. c_id r = c) (d_collections db))"

definition active_jobs :: "'p queue \<Rightarrow> 'p list" where
  "active_jobs q = map j_payload (filter active (q_jobs q))"

definition enqueue_all :: "('p \<Rightarrow> 'k) \<Rightarrow> time \<Rightarrow> 'p list \<Rightarrow> 'p queue \<Rightarrow> 'p queue" where
  "enqueue_all key now ps q = foldl (\<lambda>q p. snd (enqueue_job key p now q)) q ps"

text \<open>
  The association of a scheduled job; \<open>stored\<close> reads \<open>AuthorAssociation\<close> from a valid reuse
  payload.
\<close>

definition scheduled_association ::
  "(string \<Rightarrow> string option) \<Rightarrow> pr_db \<Rightarrow> pull_row \<Rightarrow> string \<Rightarrow> string" where
  "scheduled_association stored db p target =
     (let existing = (case contribution_row_for db (pu_author_id p) target of
            None \<Rightarrow> [] | Some r \<Rightarrow> rh_Association (ac_history r))
      in if target = pu_repository p
         then (case stored (pu_reuse_payload p) of Some a \<Rightarrow> a | None \<Rightarrow> existing)
         else existing)"

definition mark_contributions_pending :: "contribution_payload list \<Rightarrow> pr_db \<Rightarrow> pr_db" where
  "mark_contributions_pending jobs db =
     db\<lparr>d_contributions := foldl (\<lambda>t p. upsert contribution_key (\<lambda>old new. old\<lparr>ac_status := ''pending''\<rparr>)
        (pending_history (cb_author_id p) (cb_repository p) (cb_association p)) t) (d_contributions db) jobs\<rparr>"

definition mark_ancillary_pending :: "evidence_db \<Rightarrow> evidence_db" where
  "mark_ancillary_pending db =
     db\<lparr>e_pr := set_ancillary_status (\<lambda>a. a \<in> an_author_id ` set (active_jobs (e_ancillary db))) (e_pr db)\<rparr>"

definition EnqueueCollectionEvidence ::
  "(string \<Rightarrow> string option) \<Rightarrow> string \<Rightarrow> time \<Rightarrow> evidence_db \<Rightarrow> pr_error + evidence_db" where
  "EnqueueCollectionEvidence stored c now db =
     (case collection_active (e_pr db) c of
        None \<Rightarrow> Inl (NoRows ''collections'')
      | Some False \<Rightarrow> Inl (CollectionMissing c)
      | Some True \<Rightarrow>
         (let pulls = authored_pulls (e_pr db) c;
              targets = map snd (filter (\<lambda>x. fst x = c) (d_repositories (e_pr db)))
          in bindR (foldR (\<lambda>p. upsert_author (fst p) (snd p) now)
               (remdups (map (\<lambda>p. (pu_author_id p, pu_author p)) pulls)) (e_pr db)) (\<lambda>d1.
             let contributions = enqueue_all contribution_job_key now
                   (remdups (concat (map (\<lambda>p. map (\<lambda>t. \<lparr> cb_author_id = pu_author_id p, cb_login = pu_author p,
                      cb_repository = t, cb_association = scheduled_association stored d1 p t \<rparr>) targets) pulls)))
                   (e_contributions db);
                 ancillary = enqueue_all an_author_id now
                   (remdups (map (\<lambda>p. \<lparr> an_author_id = pu_author_id p, an_login = pu_author p \<rparr>) pulls))
                   (e_ancillary db)
             in Inr (mark_ancillary_pending (db\<lparr> e_contributions := contributions, e_ancillary := ancillary,
                  e_pr := mark_contributions_pending (active_jobs contributions) d1 \<rparr>)))))"

definition CancelDisabledContributionEvidence :: "string list \<Rightarrow> time \<Rightarrow> evidence_db \<Rightarrow> evidence_db" where
  "CancelDisabledContributionEvidence enabled now db =
     (if enabled = []
      then db\<lparr> e_contributions := finish_where (\<lambda>j. j_status j = Queued) now (e_contributions db),
               e_ancillary := finish_where (\<lambda>j. j_status j = Queued) now (e_ancillary db) \<rparr>
      else db\<lparr> e_contributions := finish_where (\<lambda>j. j_status j = Queued \<and>
                 cb_repository (j_payload j) \<notin> snd ` set (filter (\<lambda>x. fst x \<in> set enabled) (d_repositories (e_pr db))))
                 now (e_contributions db),
               e_ancillary := finish_where (\<lambda>j. j_status j = Queued \<and>
                 \<not> list_ex (\<lambda>m. fst m \<in> set enabled \<and> list_ex (\<lambda>p. pull_key p = snd m \<and>
                     pu_author_id p = an_author_id (j_payload j)) (d_pulls (e_pr db))) (d_members (e_pr db)))
                 now (e_ancillary db) \<rparr>)"

text \<open>\<open>ORDER BY a.ancillary_collected_at\<close>: \<open>NULL\<close> comes before every text, and no stored time is empty.\<close>

definition collected_order :: "author_row \<Rightarrow> string" where
  "collected_order a = (case au_ancillary_collected_at a of None \<Rightarrow> [] | Some t \<Rightarrow> t)"

definition EnqueueAncillaryAuthorRefresh :: "string \<Rightarrow> time \<Rightarrow> evidence_db \<Rightarrow> pr_error + nat \<times> evidence_db" where
  "EnqueueAncillaryAuthorRefresh c now db =
     (case collection_active (e_pr db) c of
        None \<Rightarrow> Inl (NoRows ''collections'')
      | Some False \<Rightarrow> Inl (CollectionMissing c)
      | Some True \<Rightarrow>
         (let authors = filter (\<lambda>a. list_ex (\<lambda>m. fst m = c \<and> list_ex (\<lambda>p. pull_key p = snd m \<and>
                pu_author_id p = au_id a) (d_pulls (e_pr db))) (d_members (e_pr db))) (d_authors (e_pr db));
              ordered = sort_key collected_order (sort_key au_id authors);
              q = enqueue_all an_author_id now
                (map (\<lambda>a. \<lparr> an_author_id = au_id a, an_login = au_login a \<rparr>) ordered) (e_ancillary db)
          in Inr (length (q_jobs q) - length (q_jobs (e_ancillary db)),
               mark_ancillary_pending (db\<lparr>e_ancillary := q\<rparr>))))"

end
