(* ===== verification/Diffs.thy ===== *)
theory Diffs
  imports Evidence SnapshotFacts
begin

text \<open>
  Diff evidence of pull requests (\<open>internal/storage/diff.go\<close>) and the status of public author
  evidence (\<open>author_evidence.go\<close>). \<open>valid8\<close> is \<open>utf8.ValidString\<close>. The identifier of a diff
  source is \<open>diff:\<close> and its path.
\<close>

section \<open>Evidence\<close>

record diff_source =
  src_Path :: string
  src_Patch :: string
  src_OriginalBytes :: int
  src_SentBytes :: int
  src_Truncated :: bool

record diff_evidence =
  dv_Completeness :: string
  dv_OriginalFiles :: int
  dv_SentFiles :: int
  dv_OmittedFiles :: int
  dv_OriginalBytes :: int
  dv_SentBytes :: int
  dv_Truncated :: bool
  dv_Sources :: "diff_source list"

datatype diff_error =
    InconsistentFiles | InvalidSource string | InconsistentBytes | CompletenessMismatch
  | BadCompleteness string | DiffStore pr_error

definition invalid_source :: "(string \<Rightarrow> bool) \<Rightarrow> diff_source \<Rightarrow> bool" where
  "invalid_source valid8 s \<longleftrightarrow>
     src_Path s = [] \<or> src_Patch s = [] \<or> \<not> valid8 (src_Patch s) \<or> length (src_Patch s) > 8 * 1024 \<or>
     src_SentBytes s \<noteq> int (length (src_Patch s)) \<or> src_OriginalBytes s < src_SentBytes s"

text \<open>The loop over the sources with the sum of the sent bytes and the truncation flag.\<close>

fun check_sources ::
  "(string \<Rightarrow> bool) \<Rightarrow> diff_source list \<Rightarrow> int \<Rightarrow> bool \<Rightarrow> diff_error + int \<times> bool" where
  "check_sources valid8 [] sent truncated = Inr (sent, truncated)"
| "check_sources valid8 (s # ss) sent truncated =
     failIf (invalid_source valid8 s) (InvalidSource (src_Path s))
       (check_sources valid8 ss (sent + src_SentBytes s) (truncated \<or> src_Truncated s))"

definition validatePullRequestDiffEvidence :: "(string \<Rightarrow> bool) \<Rightarrow> diff_evidence \<Rightarrow> diff_error option" where
  "validatePullRequestDiffEvidence valid8 e =
     (if length (dv_Sources e) > 100 \<or> dv_SentFiles e \<noteq> int (length (dv_Sources e)) \<or>
         dv_OriginalFiles e < dv_SentFiles e \<or>
         dv_OmittedFiles e \<noteq> dv_OriginalFiles e - dv_SentFiles e then Some InconsistentFiles
      else case check_sources valid8 (dv_Sources e) 0 (dv_OmittedFiles e > 0) of
        Inl err \<Rightarrow> Some err
      | Inr (sentBytes, truncated) \<Rightarrow>
          if sentBytes \<noteq> dv_SentBytes e \<or> sentBytes > 128 * 1024 \<or> dv_OriginalBytes e < dv_SentBytes e \<or>
             dv_Truncated e \<noteq> truncated then Some InconsistentBytes
          else if (dv_Completeness e = ''complete'' \<and> dv_Truncated e) \<or>
             (dv_Completeness e = ''partial'' \<and> \<not> dv_Truncated e) \<or>
             (dv_Completeness e = ''unavailable'' \<and> (dv_Sources e \<noteq> [] \<or> dv_SentBytes e \<noteq> 0))
          then Some CompletenessMismatch
          else None)"

section \<open>Jobs\<close>

definition ClaimPullRequestDiff ::
  "(string \<Rightarrow> time option) \<Rightarrow> time \<Rightarrow> pr_db \<Rightarrow> (string + (diff_payload job_row \<times> time) option) \<times> pr_db" where
  "ClaimPullRequestDiff parse now db =
     (let (r, q) = claim_job parse (d_diffs db) now in (r, db\<lparr>d_diffs := q\<rparr>))"

definition SupersedePullRequestDiff :: "nat \<Rightarrow> time \<Rightarrow> pr_db \<Rightarrow> pr_db" where
  "SupersedePullRequestDiff i completedAt db =
     db\<lparr>d_diffs := finish_where (\<lambda>j. j_id j = i \<and> j_status j = Running) completedAt (d_diffs db)\<rparr>"

definition unavailable_diff :: "diff_payload \<Rightarrow> diff_evidence" where
  "unavailable_diff p =
     \<lparr> dv_Completeness = ''unavailable'', dv_OriginalFiles = dp_changed_files p, dv_SentFiles = 0,
       dv_OmittedFiles = dp_changed_files p, dv_OriginalBytes = 0, dv_SentBytes = 0,
       dv_Truncated = (dp_changed_files p > 0), dv_Sources = [] \<rparr>"

definition diff_row_key :: "diff_row \<Rightarrow> string \<times> int \<times> string" where
  "diff_row_key r = (de_repository r, de_number r, de_head_sha r)"

definition source_row_key :: "diff_source_row \<Rightarrow> string \<times> int \<times> string" where
  "source_row_key r = (ds_repository r, ds_number r, ds_head_sha r)"

definition diff_row_of :: "diff_payload \<Rightarrow> diff_evidence \<Rightarrow> time \<Rightarrow> diff_row" where
  "diff_row_of p e at =
     \<lparr> de_repository = dp_repository p, de_number = dp_number p, de_head_sha = dp_head_sha p,
       de_completeness = dv_Completeness e, de_original_files = dv_OriginalFiles e,
       de_sent_files = dv_SentFiles e, de_omitted_files = dv_OmittedFiles e,
       de_original_bytes = dv_OriginalBytes e, de_sent_bytes = dv_SentBytes e,
       de_truncated = dv_Truncated e, de_collected_at = formatTime at \<rparr>"

definition source_row_of :: "diff_payload \<Rightarrow> diff_source \<Rightarrow> diff_source_row" where
  "source_row_of p s =
     \<lparr> ds_repository = dp_repository p, ds_number = dp_number p, ds_head_sha = dp_head_sha p,
       ds_path = src_Path s, ds_source_id = ''diff:'' @ src_Path s, ds_patch = src_Patch s,
       ds_original_bytes = src_OriginalBytes s, ds_sent_bytes = src_SentBytes s,
       ds_truncated = src_Truncated s \<rparr>"

definition current_head :: "pr_db \<Rightarrow> pull_key \<Rightarrow> string" where
  "current_head db k = (case find (\<lambda>r. pull_key r = k) (d_pulls db) of None \<Rightarrow> [] | Some r \<Rightarrow> pu_head_sha r)"

text \<open>Analysis is released for the collections that show the pull request, in their order.\<close>

definition release_analysis :: "diff_payload \<Rightarrow> time \<Rightarrow> pr_db \<Rightarrow> pr_error + pr_db" where
  "release_analysis p collectedAt db =
     (if current_head db (dp_repository p, dp_number p) = dp_head_sha p
      then foldR (\<lambda>c. enqueueAnalysisForPRTx c (dp_repository p) (dp_number p) False collectedAt)
        (sort (publishedCollections db (dp_repository p) (dp_number p))) db
      else Inr db)"

text \<open>The patches are stored under the key \<open>(repository, number, head_sha, path)\<close>.\<close>

definition write_diff :: "nat \<Rightarrow> diff_payload \<Rightarrow> diff_evidence \<Rightarrow> time \<Rightarrow> pr_db \<Rightarrow> pr_error + pr_db" where
  "write_diff i p e collectedAt db =
     failIf (\<not> distinct (map src_Path (dv_Sources e))) (Constraint ''pull_request_diff_sources'')
      (Inr (db\<lparr> d_evidence := upsert diff_row_key (\<lambda>old new. new) (diff_row_of p e collectedAt) (d_evidence db),
         d_sources := delete_where (\<lambda>r. source_row_key r = diff_key p) (d_sources db) @
           map (source_row_of p) (dv_Sources e),
         d_diffs := finish_job i collectedAt (d_diffs db) \<rparr>))"

definition CompletePullRequestDiff ::
  "(string \<Rightarrow> bool) \<Rightarrow> nat \<Rightarrow> diff_payload \<Rightarrow> 'e + diff_evidence \<Rightarrow> time \<Rightarrow> pr_db \<Rightarrow> diff_error + pr_db" where
  "CompletePullRequestDiff valid8 i p collected collectedAt db =
     (let e = (case collected of Inl _ \<Rightarrow> unavailable_diff p | Inr e \<Rightarrow> e) in
      failIf (dv_Completeness e \<notin> {''complete'', ''partial'', ''unavailable''}) (BadCompleteness (dv_Completeness e))
     (failE (validatePullRequestDiffEvidence valid8 e)
      (if \<not> list_ex (\<lambda>r. pull_key r = (dp_repository p, dp_number p)) (d_pulls db) then Inr db
       else case bindR (write_diff i p e collectedAt db) (release_analysis p collectedAt) of
          Inl err \<Rightarrow> Inl (DiffStore err)
        | Inr db1 \<Rightarrow> Inr db1)))"

section \<open>The status of public author evidence\<close>

record author_evidence_status =
  es_Status :: string
  es_LastAttemptAt :: "time option"
  es_LastSuccessfulAt :: "time option"
  es_NextAttemptAt :: "time option"
  es_Error :: string

definition next_attempt :: "int \<Rightarrow> evidence_db \<Rightarrow> string option" where
  "next_attempt a db =
     (case find (\<lambda>j. an_author_id (j_payload j) = a \<and> j_status j = Queued) (q_jobs (e_ancillary db)) of
        None \<Rightarrow> None
      | Some j \<Rightarrow> Some (max (j_scheduled_for j)
          (case e_next db of None \<Rightarrow> j_scheduled_for j | Some t \<Rightarrow> t)))"

text \<open>\<open>Inl None\<close> is \<open>sql.ErrNoRows\<close>, \<open>Inl (Some s)\<close> a stored time that does not parse.\<close>

definition parse_column :: "(string \<Rightarrow> time option) \<Rightarrow> string option \<Rightarrow> string option + time option" where
  "parse_column parse v =
     (case v of None \<Rightarrow> Inr None
      | Some s \<Rightarrow> (case parse s of None \<Rightarrow> Inl (Some s) | Some t \<Rightarrow> Inr (Some t)))"

definition AuthorEvidenceStatus ::
  "(string \<Rightarrow> time option) \<Rightarrow> int \<Rightarrow> evidence_db \<Rightarrow> string option + author_evidence_status" where
  "AuthorEvidenceStatus parse a db =
     (case author_row_for (e_pr db) a of
        None \<Rightarrow> Inl None
      | Some r \<Rightarrow>
          bindR (parse_column parse (au_ancillary_attempted_at r)) (\<lambda>attempt.
          bindR (parse_column parse (au_ancillary_collected_at r)) (\<lambda>success.
          bindR (parse_column parse (next_attempt a db)) (\<lambda>next.
          Inr \<lparr> es_Status = au_ancillary_status r, es_LastAttemptAt = attempt, es_LastSuccessfulAt = success,
            es_NextAttemptAt = next, es_Error = au_ancillary_error r \<rparr>))))"

definition AncillaryQueueDepth :: "evidence_db \<Rightarrow> nat" where
  "AncillaryQueueDepth db = count_where (\<lambda>j. j_status j = Queued) (q_jobs (e_ancillary db))"

section \<open>What is stored is consistent\<close>

text \<open>The metadata of a stored attempt agrees with the patches stored for the same head.\<close>

definition diff_consistent :: "diff_row \<Rightarrow> diff_source_row list \<Rightarrow> bool" where
  "diff_consistent r sources \<longleftrightarrow>
     de_completeness r \<in> {''complete'', ''partial'', ''unavailable''} \<and>
     de_sent_files r = int (length sources) \<and> length sources \<le> 100 \<and>
     de_omitted_files r = de_original_files r - de_sent_files r \<and> 0 \<le> de_omitted_files r \<and>
     de_sent_bytes r = (\<Sum>s\<leftarrow>sources. int (length (ds_patch s))) \<and> de_sent_bytes r \<le> 128 * 1024 \<and>
     de_sent_bytes r \<le> de_original_bytes r \<and>
     (de_truncated r \<longleftrightarrow> 0 < de_omitted_files r \<or> list_ex ds_truncated sources) \<and>
     (de_completeness r = ''complete'' \<longrightarrow> \<not> de_truncated r) \<and>
     (de_completeness r = ''partial'' \<longrightarrow> de_truncated r) \<and>
     (de_completeness r = ''unavailable'' \<longrightarrow> sources = []) \<and>
     list_all (\<lambda>s. ds_path s \<noteq> [] \<and> 0 < length (ds_patch s) \<and> length (ds_patch s) \<le> 8 * 1024 \<and>
       ds_sent_bytes s = int (length (ds_patch s)) \<and> ds_source_id s = ''diff:'' @ ds_path s) sources \<and>
     distinct (map ds_path sources)"

lemma check_sources_Inr:
  "check_sources valid8 ss n t = Inr (m, u) \<Longrightarrow>
     m = n + (\<Sum>s\<leftarrow>ss. int (length (src_Patch s))) \<and> (u \<longleftrightarrow> t \<or> list_ex src_Truncated ss) \<and>
     list_all (\<lambda>s. \<not> invalid_source valid8 s) ss"
proof (induction ss arbitrary: n t)
  case Nil
  then show ?case by simp
next
  case (Cons s ss)
  then have "check_sources valid8 ss (n + src_SentBytes s) (t \<or> src_Truncated s) = Inr (m, u)"
    and valid: "\<not> invalid_source valid8 s" by (simp_all add: failIf_eq_Inr)
  from Cons.IH [OF this(1)] valid show ?case by (simp add: invalid_source_def)
qed

lemma validated_sources:
  assumes "validatePullRequestDiffEvidence valid8 e = None"
  shows "check_sources valid8 (dv_Sources e) 0 (dv_OmittedFiles e > 0) = Inr (dv_SentBytes e, dv_Truncated e)"
  using assms by (auto simp: validatePullRequestDiffEvidence_def split: sum.splits if_splits)

lemma validated_consistent:
  assumes "validatePullRequestDiffEvidence valid8 e = None" "distinct (map src_Path (dv_Sources e))"
    "dv_Completeness e \<in> {''complete'', ''partial'', ''unavailable''}"
  shows "diff_consistent (diff_row_of p e at) (map (source_row_of p) (dv_Sources e))"
proof -
  from check_sources_Inr [OF validated_sources [OF assms(1)]]
  have s: "dv_SentBytes e = (\<Sum>s\<leftarrow>dv_Sources e. int (length (src_Patch s)))"
    "dv_Truncated e \<longleftrightarrow> 0 < dv_OmittedFiles e \<or> list_ex src_Truncated (dv_Sources e)"
    "list_all (\<lambda>s. \<not> invalid_source valid8 s) (dv_Sources e)" by auto
  from assms(1) validated_sources [OF assms(1)] have f: "length (dv_Sources e) \<le> 100"
    "dv_SentFiles e = int (length (dv_Sources e))" "dv_SentFiles e \<le> dv_OriginalFiles e"
    "dv_OmittedFiles e = dv_OriginalFiles e - dv_SentFiles e" "dv_SentBytes e \<le> 128 * 1024"
    "dv_SentBytes e \<le> dv_OriginalBytes e" "dv_Completeness e = ''complete'' \<longrightarrow> \<not> dv_Truncated e"
    "dv_Completeness e = ''partial'' \<longrightarrow> dv_Truncated e" "dv_Completeness e = ''unavailable'' \<longrightarrow> dv_Sources e = []"
    by (simp_all add: validatePullRequestDiffEvidence_def split: if_splits)
  define ss where "ss = map (source_row_of p) (dv_Sources e)"
  have l: "list_all (\<lambda>s. ds_path s \<noteq> [] \<and> 0 < length (ds_patch s) \<and> length (ds_patch s) \<le> 8 * 1024 \<and>
       ds_sent_bytes s = int (length (ds_patch s)) \<and> ds_source_id s = ''diff:'' @ ds_path s) ss"
    using s(3) by (auto simp: ss_def list_all_iff invalid_source_def source_row_of_def not_less)
  have "map ds_path ss = map src_Path (dv_Sources e)"
    by (simp add: ss_def source_row_of_def)
  with assms(2) have d: "distinct (map ds_path ss)" by simp
  have m: "list_ex ds_truncated ss = list_ex src_Truncated (dv_Sources e)"
    "(\<Sum>s\<leftarrow>ss. int (length (ds_patch s))) = (\<Sum>s\<leftarrow>dv_Sources e. int (length (src_Patch s)))"
    "length ss = length (dv_Sources e)" "(ss = []) = (dv_Sources e = [])"
    by (simp_all add: ss_def source_row_of_def comp_def list_ex_iff)
  show ?thesis
    unfolding diff_consistent_def ss_def [symmetric] m
    by (intro conjI l d) (use s(1,2) f assms(3) in \<open>simp_all add: diff_row_of_def\<close>)
qed

text \<open>Every stored attempt of the database.\<close>

definition diffs_ok :: "pr_db \<Rightarrow> bool" where
  "diffs_ok db \<longleftrightarrow> distinct (map diff_row_key (d_evidence db)) \<and>
     list_all (\<lambda>r. diff_consistent r (filter (\<lambda>s. source_row_key s = diff_row_key r) (d_sources db)))
       (d_evidence db)"

lemma enqueueAnalysisForPRTx_only:
  "enqueueAnalysisForPRTx c r n f at db = Inr db' \<Longrightarrow> \<exists>q. db' = db\<lparr>d_analysis := q\<rparr>"
  by (auto simp: enqueueAnalysisForPRTx_def Let_def failIf_eq_Inr split: option.splits if_splits
      intro: exI [of _ "d_analysis db"])

lemma foldR_analysis_only:
  "foldR (\<lambda>c. enqueueAnalysisForPRTx c r n f at) cs db = Inr db' \<Longrightarrow> \<exists>q. db' = db\<lparr>d_analysis := q\<rparr>"
proof (induction cs arbitrary: db)
  case Nil
  then show ?case by (auto intro: exI [of _ "d_analysis db"])
next
  case (Cons c cs)
  then obtain db1 where 1: "enqueueAnalysisForPRTx c r n f at db = Inr db1"
    and 2: "foldR (\<lambda>c. enqueueAnalysisForPRTx c r n f at) cs db1 = Inr db'"
    by (auto simp: bindR_eq_Inr)
  from enqueueAnalysisForPRTx_only [OF 1] Cons.IH [OF 2] show ?case by auto
qed

lemma release_analysis_only:
  assumes "release_analysis p at db = Inr db'"
  shows "\<exists>q. db' = db\<lparr>d_analysis := q\<rparr>"
  using assms foldR_analysis_only [of "dp_repository p" "dp_number p" False at _ db db']
  unfolding release_analysis_def by (auto split: if_splits intro: exI [of _ "d_analysis db"])

lemma filter_other_sources:
  "k \<noteq> diff_key p \<Longrightarrow>
     filter (\<lambda>s. source_row_key s = k) (delete_where (\<lambda>r. source_row_key r = diff_key p) t @ map (source_row_of p) ss) =
     filter (\<lambda>s. source_row_key s = k) t"
  by (auto simp: delete_where_def filter_map comp_def source_row_of_def source_row_key_def diff_key_def
      intro: filter_cong)

lemma filter_own_sources:
  "filter (\<lambda>s. source_row_key s = diff_key p)
     (delete_where (\<lambda>r. source_row_key r = diff_key p) t @ map (source_row_of p) ss) = map (source_row_of p) ss"
  by (auto simp: delete_where_def filter_map comp_def source_row_of_def source_row_key_def diff_key_def
      filter_empty_conv)

lemma write_diff_ok:
  assumes "diffs_ok db" "write_diff i p e at db = Inr db'" "validatePullRequestDiffEvidence valid8 e = None"
    "dv_Completeness e \<in> {''complete'', ''partial'', ''unavailable''}"
  shows "diffs_ok db'"
proof -
  let ?row = "diff_row_of p e at"
  have key: "diff_row_key ?row = diff_key p" by (simp add: diff_row_key_def diff_row_of_def diff_key_def)
  from assms(2) have d: "distinct (map src_Path (dv_Sources e))"
    and db': "d_evidence db' = upsert diff_row_key (\<lambda>old new. new) ?row (d_evidence db)"
      "d_sources db' = delete_where (\<lambda>r. source_row_key r = diff_key p) (d_sources db) @ map (source_row_of p) (dv_Sources e)"
    by (auto simp: write_diff_def failIf_eq_Inr)
  have dist: "distinct (map diff_row_key (d_evidence db'))"
    unfolding db' using assms(1) by (intro distinct_upsert) (simp_all add: diffs_ok_def)
  have "diff_consistent r (filter (\<lambda>s. source_row_key s = diff_row_key r) (d_sources db'))"
    if r: "r \<in> set (d_evidence db')" for r
  proof (cases "diff_row_key r = diff_key p")
    case True
    have "?row \<in> set (d_evidence db')"
      unfolding db' by (auto simp: upsert_def set_update_where list_ex_iff)
    with r True key dist have "r = ?row" by (metis distinct_map inj_onD)
    with validated_consistent [OF assms(3) d assms(4)] show ?thesis
      by (simp only: key db' filter_own_sources)
  next
    case False
    with r key have "r \<in> set (d_evidence db)"
      unfolding db' using set_upsert_other [of diff_row_key r ?row "\<lambda>old new. new" "d_evidence db"] by simp
    with assms(1) have "diff_consistent r (filter (\<lambda>s. source_row_key s = diff_row_key r) (d_sources db))"
      by (simp add: diffs_ok_def list_all_iff)
    then show ?thesis by (simp only: db' filter_other_sources [OF False])
  qed
  with dist show ?thesis by (simp add: diffs_ok_def list_all_iff)
qed

lemma validated_unavailable:
  "0 \<le> dp_changed_files p \<Longrightarrow> validatePullRequestDiffEvidence valid8 (unavailable_diff p) = None"
  by (simp add: validatePullRequestDiffEvidence_def unavailable_diff_def) linarith

text \<open>C21. Completing a diff job keeps the stored diff evidence consistent: for every head the file
  and byte counts, the truncation flag and the completeness agree with the stored patches and their
  bounds; and when the pull request exists, the head of the job has an attempt and the job is
  completed.\<close>

theorem CompletePullRequestDiff_consistent:
  assumes "diffs_ok db" "CompletePullRequestDiff valid8 i p collected at db = Inr db'"
  shows "diffs_ok db' \<and>
    (\<not> list_ex (\<lambda>r. pull_key r = (dp_repository p, dp_number p)) (d_pulls db) \<or>
     diff_key p \<in> diff_row_key ` set (d_evidence db') \<and>
     d_diffs db' = finish_job i at (d_diffs db))"
proof -
  define e where "e = (case collected of Inl _ \<Rightarrow> unavailable_diff p | Inr e \<Rightarrow> e)"
  from assms(2) have c: "dv_Completeness e \<in> {''complete'', ''partial'', ''unavailable''}"
    and v: "validatePullRequestDiffEvidence valid8 e = None"
    and r: "(if \<not> list_ex (\<lambda>r. pull_key r = (dp_repository p, dp_number p)) (d_pulls db) then Inr db
       else case bindR (write_diff i p e at db) (release_analysis p at) of
          Inl err \<Rightarrow> Inl (DiffStore err) | Inr db1 \<Rightarrow> Inr db1) = Inr db'"
    unfolding CompletePullRequestDiff_def e_def [symmetric] Let_def failIf_eq_Inr failE_eq_Inr by simp_all
  show ?thesis
  proof (cases "list_ex (\<lambda>r. pull_key r = (dp_repository p, dp_number p)) (d_pulls db)")
    case False
    with r assms(1) show ?thesis by simp
  next
    case True
    with r obtain d where d: "write_diff i p e at db = Inr d" "release_analysis p at d = Inr db'"
      by (auto simp: bindR_def split: sum.splits)
    from release_analysis_only [OF d(2)] obtain q where q: "db' = d\<lparr>d_analysis := q\<rparr>" by blast
    from write_diff_ok [OF assms(1) d(1) v c] q have "diffs_ok db'" by (simp add: diffs_ok_def)
    moreover from d(1) have "d_diffs d = finish_job i at (d_diffs db)"
      "d_evidence d = upsert diff_row_key (\<lambda>old new. new) (diff_row_of p e at) (d_evidence db)"
      by (auto simp: write_diff_def failIf_eq_Inr)
    ultimately show ?thesis using q keys_upsert [of diff_row_key "diff_row_of p e at" "\<lambda>old new. new" "d_evidence db"]
      by (simp add: diff_row_key_def diff_row_of_def diff_key_def)
  qed
qed

definition sample_diff_payload :: diff_payload where
  "sample_diff_payload = \<lparr> dp_repository = ''o/r'', dp_number = 9, dp_head_sha = ''abc'', dp_changed_files = 2 \<rparr>"

definition sample_diff :: diff_evidence where
  "sample_diff = \<lparr> dv_Completeness = ''partial'', dv_OriginalFiles = 2, dv_SentFiles = 1, dv_OmittedFiles = 1,
     dv_OriginalBytes = 7, dv_SentBytes = 3, dv_Truncated = True,
     dv_Sources = [\<lparr> src_Path = ''a.go'', src_Patch = ''+ x'', src_OriginalBytes = 3, src_SentBytes = 3,
       src_Truncated = False \<rparr>] \<rparr>"

theorem CompletePullRequestDiff_consistent_witness:
  "diffs_ok (projr (CompletePullRequestDiff (\<lambda>_. True) 1 sample_diff_payload (Inr sample_diff :: string + diff_evidence)
     0 sample_pr_db))"
proof -
  let ?r = "CompletePullRequestDiff (\<lambda>_. True) 1 sample_diff_payload (Inr sample_diff :: string + diff_evidence)
     0 sample_pr_db"
  have "\<not> isl ?r"
    by (simp add: CompletePullRequestDiff_def sample_diff_def sample_diff_payload_def sample_pr_db_def
        validatePullRequestDiffEvidence_def invalid_source_def write_diff_def release_analysis_def current_head_def
        pull_key_def pull_row_of_def sample_pull_def)
  then have "?r = Inr (projr ?r)" by (cases ?r) simp_all
  moreover have "diffs_ok sample_pr_db" by (simp add: diffs_ok_def sample_pr_db_def)
  ultimately show ?thesis using CompletePullRequestDiff_consistent by blast
qed

end
