(* ===== verification/EvidenceWorker.thy ===== *)
theory EvidenceWorker
  imports Diffs
begin

text \<open>
  The evidence worker (\<open>internal/evidenceworker/worker.go\<close>): it claims from three durable queues in
  turn and processes the claimed jobs. The collectors' answers are a parameter; \<open>at\<close> is the
  reading of the clock after a collection, \<open>canceled\<close> tells that the parent context ended.
\<close>

datatype evidence_error =
    WRoute route_db_error | WStore pr_error | WDiff diff_error | WParse string

datatype evidence_work =
    RepositoryWork "contribution_payload job_row"
  | AncillaryWork "ancillary_payload job_row"
  | DiffWork "diff_payload job_row"

record evidence_world =
  ew_db :: evidence_db
  ew_routes :: route_db

record evidence_options =
  eo_Concurrency :: int
  eo_PollInterval :: int
  eo_JobTimeout :: int
  eo_Diff :: bool

text \<open>The answers of the collectors; \<open>ec_superseded\<close> is \<open>githubapp.IsPullRequestHeadChanged\<close>.\<close>

record evidence_collectors =
  ec_repository :: "contribution_payload \<Rightarrow> (failure + repository_history) \<times> attempt list"
  ec_ancillary :: "ancillary_payload \<Rightarrow> failure + time \<times> repository_activity list"
  ec_diff :: "diff_payload \<Rightarrow> (failure + diff_evidence) \<times> attempt list"
  ec_superseded :: "failure \<Rightarrow> bool"

definition NewEvidenceWorker :: "evidence_options \<Rightarrow> evidence_options" where
  "NewEvidenceWorker o1 =
     o1\<lparr> eo_Concurrency := (if eo_Concurrency o1 \<le> 0 then 2 else eo_Concurrency o1),
         eo_PollInterval := (if eo_PollInterval o1 \<le> 0 then second else eo_PollInterval o1),
         eo_JobTimeout := (if eo_JobTimeout o1 \<le> 0 then 5 * minute else eo_JobTimeout o1) \<rparr>"

section \<open>Fair claims\<close>

text \<open>Claiming from queue 0 (repository), 1 (ancillary) or 2 (diff, when it is configured).\<close>

definition claim_from ::
  "(string \<Rightarrow> time option) \<Rightarrow> bool \<Rightarrow> time \<Rightarrow> nat \<Rightarrow> evidence_db \<Rightarrow>
   (string + evidence_work option) \<times> evidence_db" where
  "claim_from parse diff now k db =
     (if k = 0 then (let (r, d) = ClaimContributionEvidence parse now db in
        (map_sum id (map_option (\<lambda>x. RepositoryWork (fst x))) r, d))
      else if k = 1 then (let (r, d) = ClaimAncillaryAuthorEvidence parse now db in
        (map_sum id (map_option (\<lambda>x. AncillaryWork (fst x))) r, d))
      else if \<not> diff then (Inr None, db)
      else (let (r, d) = ClaimPullRequestDiff parse now (e_pr db) in
        (map_sum id (map_option (\<lambda>x. DiffWork (fst x))) r, db\<lparr>e_pr := d\<rparr>)))"

text \<open>The loop over the queues \<open>(queueNext + offset) % 3\<close>; the second component is \<open>queueNext\<close>.\<close>

fun claim_loop ::
  "(nat \<Rightarrow> evidence_db \<Rightarrow> (string + evidence_work option) \<times> evidence_db) \<Rightarrow> nat list \<Rightarrow> nat \<Rightarrow> evidence_db \<Rightarrow>
   (string + evidence_work option) \<times> nat \<times> evidence_db" where
  "claim_loop claim [] next db = (Inr None, next, db)"
| "claim_loop claim (k # ks) next db =
     (case claim k db of
        (Inl e, db1) \<Rightarrow> (Inl e, next, db1)
      | (Inr (Some w), db1) \<Rightarrow> (Inr (Some w), (k + 1) mod 3, db1)
      | (Inr None, db1) \<Rightarrow> claim_loop claim ks next db1)"

definition claimFair ::
  "(string \<Rightarrow> time option) \<Rightarrow> bool \<Rightarrow> time \<Rightarrow> nat \<Rightarrow> evidence_db \<Rightarrow>
   (string + evidence_work option) \<times> nat \<times> evidence_db" where
  "claimFair parse diff now next db =
     claim_loop (claim_from parse diff now) (map (\<lambda>offset. (next + offset) mod 3) [0, 1, 2]) next db"

section \<open>Processing\<close>

definition timed_out :: "failure + 'b \<Rightarrow> bool" where
  "timed_out r = (case r of Inl e \<Rightarrow> Canceled \<in> set (chain e) \<or> DeadlineExceeded \<in> set (chain e) | Inr _ \<Rightarrow> False)"

text \<open>Recording the route attempts; a repository that is no longer configured is not an error.\<close>

definition record_attempts ::
  "string \<Rightarrow> string \<Rightarrow> attempt list \<Rightarrow> time \<Rightarrow> evidence_world \<Rightarrow> evidence_error + evidence_world" where
  "record_attempts repository opn attempts at w =
     (case ReplaceRouteAttempts (ew_routes w) repository opn (storageRouteAttempts attempts) at of
        Inl ErrRepositoryNotConfigured \<Rightarrow> Inr w
      | Inl e \<Rightarrow> Inl (WRoute e)
      | Inr r \<Rightarrow> Inr (w\<lparr>ew_routes := r\<rparr>))"

definition processRepository ::
  "evidence_collectors \<Rightarrow> bool \<Rightarrow> time \<Rightarrow> contribution_payload job_row \<Rightarrow> evidence_world \<Rightarrow>
   evidence_error option \<times> evidence_world" where
  "processRepository c canceled at job w =
     (let p = j_payload job; (result, attempts) = ec_repository c p in
      case (if timed_out result then Inr w
            else record_attempts (cb_repository p) ''contribution_evidence'' attempts at w) of
        Inl e \<Rightarrow> (Some e, w)
      | Inr w1 \<Rightarrow>
          if canceled then (None, w1)
          else case CompleteContributionEvidence (j_id job) p result at (ew_db w1) of
            Inl e \<Rightarrow> (Some (WStore e), w1)
          | Inr db \<Rightarrow> (None, w1\<lparr>ew_db := db\<rparr>))"

definition processDiff ::
  "(string \<Rightarrow> bool) \<Rightarrow> evidence_collectors \<Rightarrow> bool \<Rightarrow> time \<Rightarrow> diff_payload job_row \<Rightarrow> evidence_world \<Rightarrow>
   evidence_error option \<times> evidence_world" where
  "processDiff valid8 c canceled at job w =
     (let p = j_payload job; (result, attempts) = ec_diff c p; db = ew_db w in
      if isl result \<and> ec_superseded c (projl result)
      then (if canceled then (None, w)
            else (None, w\<lparr>ew_db := db\<lparr>e_pr := SupersedePullRequestDiff (j_id job) at (e_pr db)\<rparr>\<rparr>))
      else case (if timed_out result then Inr w
                 else record_attempts (dp_repository p) ''pull_request_diff'' attempts at w) of
        Inl e \<Rightarrow> (Some e, w)
      | Inr w1 \<Rightarrow>
          if canceled then (None, w1)
          else case CompletePullRequestDiff valid8 (j_id job) p result at (e_pr (ew_db w1)) of
            Inl e \<Rightarrow> (Some (WDiff e), w1)
          | Inr d \<Rightarrow> (None, w1\<lparr>ew_db := (ew_db w1)\<lparr>e_pr := d\<rparr>\<rparr>))"

text \<open>\<open>time.Unix(s, 0)\<close>: the Unix epoch is 62135596800 seconds after the zero time.\<close>

definition unix_time :: "int \<Rightarrow> time" where
  "unix_time s = (62135596800 + s) * second"

definition ancillary_retry_at :: "failure_metadata \<Rightarrow> time \<Rightarrow> time" where
  "ancillary_retry_at m at =
     (let retryAt = at + AncillaryRequestInterval;
          reset = unix_time (fm_RateLimitResetUnix m) + 5 * second;
          retryAt = (if reset > retryAt then reset else retryAt);
          after = at + (fm_RetryAfter m + 5 * second)
      in if after > retryAt then after else retryAt)"

definition processAncillary ::
  "evidence_collectors \<Rightarrow> bool \<Rightarrow> time \<Rightarrow> ancillary_payload job_row \<Rightarrow> evidence_world \<Rightarrow>
   evidence_error option \<times> evidence_world" where
  "processAncillary c canceled at job w =
     (let p = j_payload job; result = ec_ancillary c p in
      if canceled then (None, w)
      else case result of
        Inl err \<Rightarrow>
          (let m = BoundedFailureMetadata err in
           if fm_Category m = FailurePrimaryRateLimited \<or> fm_Category m = FailureSecondaryRateLimited
           then (None, w\<lparr>ew_db := RequeueAncillaryAuthorEvidence (j_id job) p at (ancillary_retry_at m at)
             (fm_Detail m) (ew_db w)\<rparr>)
           else (None, w\<lparr>ew_db := CompleteAncillaryAuthorEvidence (j_id job) p result at (ew_db w)\<rparr>))
      | Inr _ \<Rightarrow> (None, w\<lparr>ew_db := CompleteAncillaryAuthorEvidence (j_id job) p result at (ew_db w)\<rparr>))"

definition process_work ::
  "(string \<Rightarrow> bool) \<Rightarrow> evidence_collectors \<Rightarrow> bool \<Rightarrow> time \<Rightarrow> evidence_work \<Rightarrow> evidence_world \<Rightarrow>
   evidence_error option \<times> evidence_world" where
  "process_work valid8 c canceled at work w =
     (case work of
        RepositoryWork j \<Rightarrow> processRepository c canceled at j w
      | AncillaryWork j \<Rightarrow> processAncillary c canceled at j w
      | DiffWork j \<Rightarrow> processDiff valid8 c canceled at j w)"

section \<open>Rounds\<close>

text \<open>
  At most \<open>n\<close> claims. A failing claim ends the round without processing what was claimed before,
  and the worker stops: those jobs run again after \<open>RecoverEvidenceJobs\<close>.
\<close>

fun claim_round ::
  "(string \<Rightarrow> time option) \<Rightarrow> bool \<Rightarrow> time \<Rightarrow> nat \<Rightarrow> nat \<Rightarrow> evidence_db \<Rightarrow>
   (string + evidence_work list) \<times> nat \<times> evidence_db" where
  "claim_round parse diff now 0 next db = (Inr [], next, db)"
| "claim_round parse diff now (Suc n) next db =
     (case claimFair parse diff now next db of
        (Inl e, next1, db1) \<Rightarrow> (Inl e, next1, db1)
      | (Inr None, next1, db1) \<Rightarrow> (Inr [], next1, db1)
      | (Inr (Some w), next1, db1) \<Rightarrow>
          (case claim_round parse diff now n next1 db1 of
             (Inl e, next2, db2) \<Rightarrow> (Inl e, next2, db2)
           | (Inr ws, next2, db2) \<Rightarrow> (Inr (w # ws), next2, db2)))"

text \<open>Every claimed item is processed, and the round answers the first error.\<close>

fun process_items ::
  "(evidence_work \<Rightarrow> evidence_world \<Rightarrow> evidence_error option \<times> evidence_world) \<Rightarrow> evidence_work list \<Rightarrow>
   evidence_world \<Rightarrow> evidence_error option \<times> evidence_world" where
  "process_items f [] w = (None, w)"
| "process_items f (x # xs) w =
     (let (e, w1) = f x w; (e2, w2) = process_items f xs w1 in
      (case e of Some _ \<Rightarrow> e | None \<Rightarrow> e2, w2))"

text \<open>
  The goroutines of a round run in the order \<open>order\<close> of the claimed items; they touch different
  jobs, and each store operation is one transaction.
\<close>

definition EvidenceRunOnce ::
  "(string \<Rightarrow> time option) \<Rightarrow> (string \<Rightarrow> bool) \<Rightarrow> evidence_options \<Rightarrow> evidence_collectors \<Rightarrow>
   (evidence_work list \<Rightarrow> evidence_work list) \<Rightarrow> bool \<Rightarrow> time \<Rightarrow> time \<Rightarrow> nat \<Rightarrow> evidence_world \<Rightarrow>
   evidence_error option \<times> nat \<times> evidence_world" where
  "EvidenceRunOnce parse valid8 opts c order canceled now at next w =
     (case claim_round parse (eo_Diff opts) now (nat (eo_Concurrency opts)) next (ew_db w) of
        (Inl e, next1, db) \<Rightarrow> (Some (WParse e), next1, w\<lparr>ew_db := db\<rparr>)
      | (Inr items, next1, db) \<Rightarrow>
          (let (e, w1) = process_items (process_work valid8 c canceled at) (order items) (w\<lparr>ew_db := db\<rparr>)
           in (e, next1, w1)))"

text \<open>\<open>Run\<close> up to a cancellation after the given rounds: each has its time and collection time.\<close>

fun evidence_rounds ::
  "(string \<Rightarrow> time option) \<Rightarrow> (string \<Rightarrow> bool) \<Rightarrow> evidence_options \<Rightarrow> evidence_collectors \<Rightarrow>
   (evidence_work list \<Rightarrow> evidence_work list) \<Rightarrow> (time \<times> time) list \<Rightarrow> nat \<Rightarrow> evidence_world \<Rightarrow>
   evidence_error option \<times> evidence_world" where
  "evidence_rounds parse valid8 opts c order [] next w = (None, w)"
| "evidence_rounds parse valid8 opts c order (t # ts) next w =
     (case EvidenceRunOnce parse valid8 opts c order False (fst t) (snd t) next w of
        (Some e, next1, w1) \<Rightarrow> (Some e, w1)
      | (None, next1, w1) \<Rightarrow> evidence_rounds parse valid8 opts c order ts next1 w1)"

definition EvidenceRun ::
  "(string \<Rightarrow> time option) \<Rightarrow> (string \<Rightarrow> bool) \<Rightarrow> evidence_options \<Rightarrow> evidence_collectors \<Rightarrow>
   (evidence_work list \<Rightarrow> evidence_work list) \<Rightarrow> (time \<times> time) list \<Rightarrow> evidence_world \<Rightarrow>
   evidence_error option \<times> evidence_world" where
  "EvidenceRun parse valid8 opts c order ts w =
     evidence_rounds parse valid8 opts c order ts 0 (w\<lparr>ew_db := RecoverEvidenceJobs (ew_db w)\<rparr>)"

end
