(* ===== verification/EvidenceFacts.thy ===== *)
theory EvidenceFacts
  imports EvidenceWorker
begin

text \<open>
  What the evidence queues guarantee: public author requests are spaced by the shared cooldown,
  whatever else happens to the store, and no queue starves another.
\<close>

section \<open>Fairness of the claims\<close>

definition rotation_distance :: "nat \<Rightarrow> nat \<Rightarrow> nat" where
  "rotation_distance next k = (k + 3 - next) mod 3"

lemma rotation_table:
  "list_all (\<lambda>next. list_all (\<lambda>k. let l = map (\<lambda>offset. (next + offset) mod 3) [0, 1, 2]; d = rotation_distance next k in
     l = take d l @ k # drop (Suc d) l \<and>
     list_all (\<lambda>j. j < 3 \<and> j \<noteq> k \<and> rotation_distance ((j + 1) mod 3) k < d) (take d l)) [0, 1, 2]) [0, 1, 2]"
  by code_simp

lemma rotation:
  assumes "next < 3" "k < 3"
  obtains js ks where "map (\<lambda>offset. (next + offset) mod 3) [0, 1, 2] = js @ k # ks"
    "\<forall>j\<in>set js. j < 3 \<and> j \<noteq> k \<and> rotation_distance ((j + 1) mod 3) k < rotation_distance next k"
proof -
  from assms have "next \<in> set [0, 1, 2]" "k \<in> set [0, 1, 2]" by auto
  with rotation_table show thesis
    using that by (simp only: list_all_iff Let_def) blast
qed

text \<open>
  The three queues as the claim loop uses them: a claim that finds nothing changes nothing, and
  a claim from one queue does not change what another offers.
\<close>

locale fair_queues =
  fixes claim :: "nat \<Rightarrow> evidence_db \<Rightarrow> (string + evidence_work option) \<times> evidence_db"
  assumes claim_none: "claim j db = (Inr None, db') \<Longrightarrow> db' = db"
    and claim_other: "j < 3 \<Longrightarrow> k < 3 \<Longrightarrow> j \<noteq> k \<Longrightarrow> claim j db = (Inr (Some x), db') \<Longrightarrow>
      fst (claim k db') = fst (claim k db)"
begin

lemma claim_loop_skip:
  assumes "claim_loop claim (j # ks) next db = (Inr r, next', db')" "j < 3"
  shows "(\<exists>x. claim j db = (Inr (Some x), db') \<and> r = Some x \<and> next' = (j + 1) mod 3) \<or>
    claim j db = (Inr None, db) \<and> claim_loop claim ks next db = (Inr r, next', db')"
  using assms claim_none [of j db] by (auto split: prod.splits sum.splits option.splits)

text \<open>
  The loop reaches queue \<open>k\<close> or is served by a queue before it, which brings \<open>k\<close> nearer.
\<close>

lemma claim_loop_reaches:
  assumes "fst (claim k db) = Inr (Some w)" "k < 3" "\<forall>j\<in>set js. j < 3 \<and> j \<noteq> k"
    "claim_loop claim (js @ k # ks) next db = (Inr r, next', db')"
  shows "r = Some w \<or> (\<exists>j\<in>set js. \<exists>x. r = Some x \<and> next' = (j + 1) mod 3 \<and> fst (claim k db') = Inr (Some w))"
  using assms(3,4)
proof (induction js)
  case Nil
  with assms(1,2) claim_loop_skip [of k ks "next" db r next' db'] show ?case by auto
next
  case (Cons j js)
  then have "claim_loop claim (j # js @ k # ks) next db = (Inr r, next', db')" "j < 3" "j \<noteq> k" by simp_all
  from claim_loop_skip [OF this(1,2)] show ?case
  proof (elim disjE exE conjE)
    fix x
    assume "claim j db = (Inr (Some x), db')" "r = Some x" "next' = (j + 1) mod 3"
    with claim_other [of j k db x db'] \<open>j < 3\<close> \<open>j \<noteq> k\<close> assms(1,2) show ?case by auto
  next
    assume "claim_loop claim (js @ k # ks) next db = (Inr r, next', db')"
    with Cons show ?case by auto
  qed
qed

lemma fair_progress:
  assumes "fst (claim k db) = Inr (Some w)" "k < 3" "next < 3"
    "claim_loop claim (map (\<lambda>offset. (next + offset) mod 3) [0, 1, 2]) next db = (Inr r, next', db')"
  shows "r = Some w \<or>
    (\<exists>x. r = Some x \<and> next' < 3 \<and> rotation_distance next' k < rotation_distance next k \<and> fst (claim k db') = Inr (Some w))"
proof -
  from assms(3,2) obtain js ks where m: "map (\<lambda>offset. (next + offset) mod 3) [0, 1, 2] = js @ k # ks"
    and js: "\<forall>j\<in>set js. j < 3 \<and> j \<noteq> k \<and> rotation_distance ((j + 1) mod 3) k < rotation_distance next k" by (rule rotation)
  from js have "\<forall>j\<in>set js. j < 3 \<and> j \<noteq> k" by blast
  from claim_loop_reaches [OF assms(1,2) this assms(4) [unfolded m]] js show ?thesis by fastforce
qed

end

lemma claim_row_None: "claim_row now q = None \<longleftrightarrow> select_due now q = None"
  by (simp add: claim_row_def split: option.split)

lemma claim_from_none:
  assumes "claim_from parse diff now j db = (Inr None, db')"
  shows "db' = db"
  using assms
  by (auto simp: claim_from_def ClaimContributionEvidence_def ClaimAncillaryAuthorEvidence_def
      ClaimPullRequestDiff_def claim_job_def parsed_claim_def map_sum_def
      split: option.splits if_splits prod.splits sum.splits)

lemma claim_from_other:
  assumes "j < 3" "k < 3" "j \<noteq> k" "claim_from parse diff now j db = (r, db')"
  shows "fst (claim_from parse diff now k db') = fst (claim_from parse diff now k db)"
proof -
  have 0: "e_contributions db' = e_contributions db" if "j \<noteq> 0"
    using assms(4) that
    by (auto simp: claim_from_def ClaimAncillaryAuthorEvidence_def split: option.splits if_splits prod.splits)
  have 1: "e_ancillary db' = e_ancillary db \<and> e_next db' = e_next db" if "j \<noteq> 1"
    using assms(4) that
    by (auto simp: claim_from_def ClaimContributionEvidence_def split: option.splits if_splits prod.splits)
  have 2: "d_diffs (e_pr db') = d_diffs (e_pr db)" if "j < 2"
    using assms(4) that
    by (auto simp: claim_from_def ClaimContributionEvidence_def ClaimAncillaryAuthorEvidence_def
        split: option.splits if_splits prod.splits)
  from assms(1-3) consider "k = 0" "j \<noteq> 0" | "k = 1" "j \<noteq> 1" | "k = 2" "j < 2" by linarith
  then show ?thesis
  proof cases
    case 1
    with 0 show ?thesis
      by (simp add: claim_from_def ClaimContributionEvidence_def split: option.split prod.split)
  next
    case 2
    with 1 show ?thesis
      by (simp add: claim_from_def ClaimAncillaryAuthorEvidence_def ancillary_blocked_def split: option.split prod.split)
  next
    case 3
    with 2 show ?thesis
      by (simp add: claim_from_def ClaimPullRequestDiff_def split: prod.split)
  qed
qed

interpretation evidence_queues: fair_queues "claim_from parse diff now" for parse diff now
proof
  show "claim_from parse diff now j db = (Inr None, db') \<Longrightarrow> db' = db" for j db db'
    by (rule claim_from_none)
  show "j < 3 \<Longrightarrow> k < 3 \<Longrightarrow> j \<noteq> k \<Longrightarrow> claim_from parse diff now j db = (Inr (Some x), db') \<Longrightarrow>
      fst (claim_from parse diff now k db') = fst (claim_from parse diff now k db)" for j k db x db'
    by (rule claim_from_other)
qed

lemma claim_round_serves:
  assumes "fst (claim_from parse diff now k db) = Inr (Some w)" "k < 3" "next < 3"
    "rotation_distance next k < n" "claim_round parse diff now n next db = (Inr ws, next', db')"
  shows "w \<in> set ws"
  using assms
proof (induction n arbitrary: "next" db ws next' db')
  case 0
  then show ?case by simp
next
  case (Suc n)
  obtain r next1 db1 where c: "claimFair parse diff now next db = (r, next1, db1)"
    by (cases "claimFair parse diff now next db") auto
  with Suc.prems(5) obtain o1 where r: "r = Inr o1" by (cases r) auto
  note p = evidence_queues.fair_progress [OF Suc.prems(1-3) c [unfolded claimFair_def r]]
  then obtain x where x: "o1 = Some x" by auto
  from Suc.prems(5) c r x obtain ws1 next2 db2 where
    rest: "claim_round parse diff now n next1 db1 = (Inr ws1, next2, db2)" and ws: "ws = x # ws1"
    by (auto split: prod.splits sum.splits)
  show ?case
  proof (cases "x = w")
    case True
    with ws show ?thesis by simp
  next
    case False
    with p x have q: "fst (claim_from parse diff now k db1) = Inr (Some w)" "next1 < 3"
      "rotation_distance next1 k < n" using Suc.prems(4) by auto
    from Suc.IH [OF q(1) Suc.prems(2) q(2,3) rest] ws show ?thesis by simp
  qed
qed

text \<open>C20. The three evidence queues are served fairly: wherever the rotation stands, a round of at
  least three claims takes the first due job of every queue that has one, so a backlog in one
  queue does not starve the others.\<close>

theorem claims_fair:
  assumes "fst (claim_from parse diff now k db) = Inr (Some w)" "k < 3" "next < 3" "3 \<le> n"
    "claim_round parse diff now n next db = (Inr ws, next', db')"
  shows "w \<in> set ws"
proof (rule claim_round_serves [OF assms(1-3) _ assms(5)])
  show "rotation_distance next k < n" using assms(4) by (simp add: rotation_distance_def)
qed

text \<open>When every stored schedule parses, as \<open>formatTime\<close> writes it, no claim fails.\<close>

lemma claim_from_parses:
  "\<not> isl (fst (claim_from (\<lambda>s. Some (f s)) diff now k db))"
  by (simp add: claim_from_def ClaimContributionEvidence_def ClaimAncillaryAuthorEvidence_def
      ClaimPullRequestDiff_def claim_job_def parsed_claim_def Let_def split: option.split prod.split)

lemma claim_loop_parses:
  assumes "\<And>k db. \<not> isl (fst (claim k db))"
  shows "\<not> isl (fst (claim_loop claim ks next db))"
proof (induction ks arbitrary: db)
  case Nil
  show ?case by simp
next
  case (Cons k ks)
  from assms [of k db] Cons.IH show ?case by (auto split: prod.splits sum.splits option.splits)
qed

lemma claim_round_parses:
  "\<not> isl (fst (claim_round (\<lambda>s. Some (f s)) diff now n next db))"
proof (induction n arbitrary: "next" db)
  case 0
  show ?case by simp
next
  case (Suc n)
  obtain r next1 db1 where c: "claimFair (\<lambda>s. Some (f s)) diff now next db = (r, next1, db1)"
    by (cases "claimFair (\<lambda>s. Some (f s)) diff now next db") auto
  have "\<not> isl (fst (claimFair (\<lambda>s. Some (f s)) diff now next db))"
    unfolding claimFair_def by (rule claim_loop_parses, rule claim_from_parses)
  with c Suc.IH [of next1 db1] show ?case by (auto split: prod.split sum.splits option.split)
qed

definition sample_queued :: "'p \<Rightarrow> 'p queue" where
  "sample_queued p = \<lparr> q_jobs = [\<lparr> j_id = 1, j_status = Queued, j_scheduled_for = [], j_started_at = None,
     j_finished_at = None, j_payload = p \<rparr>], q_next = 2 \<rparr>"

definition sample_evidence_db :: evidence_db where
  "sample_evidence_db = \<lparr> e_pr = sample_pr_db\<lparr>d_diffs := sample_queued sample_diff_payload\<rparr>,
     e_contributions = sample_queued \<lparr> cb_author_id = 7, cb_login = ''ann'', cb_repository = ''o/r'', cb_association = [] \<rparr>,
     e_ancillary = sample_queued \<lparr> an_author_id = 7, an_login = ''ann'' \<rparr>, e_next = None \<rparr>"

lemmas sample_claims = sample_evidence_db_def sample_queued_def claim_from_def ClaimPullRequestDiff_def
  ClaimContributionEvidence_def ClaimAncillaryAuthorEvidence_def ancillary_blocked_def claim_row_def
  claim_job_def select_due_def is_claimable_def parsed_claim_def start_job_def update_where_def

theorem claims_fair_witness:
  "AncillaryWork (hd (q_jobs (e_ancillary sample_evidence_db))) \<in>
     set (projr (fst (claim_round (\<lambda>_. Some 0) True 0 3 2 sample_evidence_db)))"
proof -
  let ?w = "AncillaryWork (hd (q_jobs (e_ancillary sample_evidence_db)))"
  let ?r = "claim_round (\<lambda>_. Some 0) True 0 3 2 sample_evidence_db"
  have ready: "fst (claim_from (\<lambda>_. Some 0) True 0 1 sample_evidence_db) = Inr (Some ?w)"
    by (simp add: sample_claims)
  have "\<not> isl (fst ?r)" by (rule claim_round_parses)
  then have "?r = (Inr (projr (fst ?r)), fst (snd ?r), snd (snd ?r))" by (simp add: prod_eq_iff)
  from claims_fair [OF ready _ _ _ this] show ?thesis by simp
qed

section \<open>The cooldown of public author requests\<close>

definition running_jobs :: "'p queue \<Rightarrow> 'p job_row list" where
  "running_jobs q = filter (\<lambda>r. j_status r = Running) (q_jobs q)"

text \<open>
  The store with the times of its successful ancillary claims, latest first: it starts with no
  running job and no cooldown, and makes any steps, at any times the store can represent. The
  last rule covers everything that touches neither the ancillary queue nor its cooldown.
\<close>

inductive claimed_at :: "(string \<Rightarrow> time option) \<Rightarrow> evidence_db \<Rightarrow> time list \<Rightarrow> bool" for parse where
  start: "queue_ok an_author_id (e_ancillary db) \<Longrightarrow> running_jobs (e_ancillary db) = [] \<Longrightarrow> e_next db = None \<Longrightarrow>
    claimed_at parse db []"
| none_due: "claimed_at parse db ts \<Longrightarrow> ClaimAncillaryAuthorEvidence parse now db = (Inr None, db') \<Longrightarrow>
    claimed_at parse db' ts"
| claim: "claimed_at parse db ts \<Longrightarrow> storable now \<Longrightarrow> storable (now + AncillaryRequestInterval) \<Longrightarrow>
    ClaimAncillaryAuthorEvidence parse now db = (r, db') \<Longrightarrow> r \<noteq> Inr None \<Longrightarrow> claimed_at parse db' (now # ts)"
| complete: "claimed_at parse db ts \<Longrightarrow> 
    claimed_at parse (CompleteAncillaryAuthorEvidence i p (collected :: failure + time \<times> repository_activity list) now db) ts"
| requeue: "claimed_at parse db ts \<Longrightarrow> claimed_at parse (RequeueAncillaryAuthorEvidence i p now retryAt detail db) ts"
| recover: "claimed_at parse db ts \<Longrightarrow> claimed_at parse (RecoverEvidenceJobs db) ts"
| snapshot: "claimed_at parse db ts \<Longrightarrow>
    EnqueueAuthorEvidenceAfterSnapshot parse U iter source authors now db = Inr db' \<Longrightarrow> claimed_at parse db' ts"
| scheduled: "claimed_at parse db ts \<Longrightarrow> EnqueueCollectionEvidence stored c now db = Inr db' \<Longrightarrow>
    claimed_at parse db' ts"
| cancel: "claimed_at parse db ts \<Longrightarrow> claimed_at parse (CancelDisabledContributionEvidence enabled now db) ts"
| manual: "claimed_at parse db ts \<Longrightarrow> EnqueueAncillaryAuthorRefresh c now db = Inr (n, db') \<Longrightarrow> claimed_at parse db' ts"
| other: "claimed_at parse db ts \<Longrightarrow> e_ancillary db' = e_ancillary db \<Longrightarrow> e_next db' = e_next db \<Longrightarrow>
    claimed_at parse db' ts"

text \<open>Steps that start no job and do not shorten the cooldown.\<close>

definition calm :: "evidence_db \<Rightarrow> evidence_db \<Rightarrow> bool" where
  "calm db db' \<longleftrightarrow> (queue_ok an_author_id (e_ancillary db) \<longrightarrow> queue_ok an_author_id (e_ancillary db')) \<and>
     length (running_jobs (e_ancillary db')) \<le> length (running_jobs (e_ancillary db)) \<and> e_next db' = e_next db"

lemma calm_refl: "calm db db"
  by (simp add: calm_def)

lemma calm_trans: "calm a b \<Longrightarrow> calm b c \<Longrightarrow> calm a c"
  by (auto simp: calm_def)

lemma calm_same: "e_ancillary db' = e_ancillary db \<Longrightarrow> e_next db' = e_next db \<Longrightarrow> calm db db'"
  by (simp add: calm_def)

lemma length_filter_update_where:
  "(\<And>r. p r \<Longrightarrow> P (f r) \<Longrightarrow> P r) \<Longrightarrow> length (filter P (update_where p f t)) \<le> length (filter P t)"
  by (induction t) (auto simp: update_where_def)

lemma running_finish_where: "length (running_jobs (finish_where p t q)) \<le> length (running_jobs q)"
  unfolding running_jobs_def finish_where_def by (simp, rule length_filter_update_where) simp

lemma running_recover: "length (running_jobs (recover_jobs q)) \<le> length (running_jobs q)"
  unfolding running_jobs_def recover_jobs_def by (simp, rule length_filter_update_where) simp

lemma running_enqueue: "running_jobs (snd (enqueue_job key p t q)) = running_jobs q"
  by (simp add: running_jobs_def enqueue_job_def)

lemma enqueue_all_calm:
  "running_jobs (enqueue_all key now ps q) = running_jobs q \<and>
   (queue_ok key q \<longrightarrow> queue_ok key (enqueue_all key now ps q))"
proof -
  have "running_jobs (foldl (\<lambda>q p. snd (enqueue_job key p now q)) q ps) = running_jobs q \<and>
    (queue_ok key q \<longrightarrow> queue_ok key (foldl (\<lambda>q p. snd (enqueue_job key p now q)) q ps))"
    by (induction ps arbitrary: q) (simp_all add: running_enqueue enqueue_job_ok)
  then show ?thesis by (simp add: enqueue_all_def)
qed

lemma calm_complete: "calm db (CompleteAncillaryAuthorEvidence i p collected now db)"
  by (simp add: calm_def CompleteAncillaryAuthorEvidence_def Let_def finish_job_ok)
    (simp add: finish_job_def running_finish_where)

lemma calm_recover: "calm db (RecoverEvidenceJobs db)"
  by (simp add: calm_def RecoverEvidenceJobs_def running_recover recover_jobs_ok)

lemma calm_cancel: "calm db (CancelDisabledContributionEvidence enabled now db)"
  by (simp add: calm_def CancelDisabledContributionEvidence_def running_finish_where finish_where_ok)

lemma calm_repository: "calm db (enqueue_repository_evidence parse U source author now db x)"
  by (rule calm_same) (simp_all add: enqueue_repository_evidence_def Let_def split: prod.split bool.split)

lemma calm_repositories: "calm db (foldl (enqueue_repository_evidence parse U source author now) db xs)"
proof (induction xs arbitrary: db)
  case Nil
  show ?case by (simp add: calm_refl)
next
  case (Cons x xs)
  from calm_trans [OF calm_repository Cons.IH] show ?case by simp
qed

lemma calm_ancillary: "calm db (enqueue_ancillary parse author interval now db)"
proof -
  let ?e = "enqueue_job an_author_id \<lparr> an_author_id = ea_ID author, an_login = ea_Login author \<rparr> now (e_ancillary db)"
  have "queue_ok an_author_id (snd ?e)" if "queue_ok an_author_id (e_ancillary db)" using that by (rule enqueue_job_ok)
  then show ?thesis
    using running_enqueue [of an_author_id "\<lparr> an_author_id = ea_ID author, an_login = ea_Login author \<rparr>" now "e_ancillary db"]
    by (cases ?e) (auto simp: calm_def enqueue_ancillary_def Let_def split: bool.split)
qed

lemma calm_author:
  assumes "enqueue_author_evidence parse U source intervals now author db = Inr db'"
  shows "calm db db'"
proof (cases "ea_ID author \<le> 0 \<or> ea_Login author = []")
  case True
  with assms show ?thesis by (simp add: enqueue_author_evidence_def calm_refl)
next
  case False
  with assms obtain d where "db' = enqueue_ancillary parse author (minimumInterval intervals) now
      (foldl (enqueue_repository_evidence parse U source author now) (db\<lparr>e_pr := d\<rparr>) intervals)"
    by (auto simp: enqueue_author_evidence_def tx_e_def bindR_eq_Inr)
  moreover have "calm db (db\<lparr>e_pr := d\<rparr>)" by (rule calm_same) simp_all
  ultimately show ?thesis using calm_trans calm_repositories calm_ancillary by metis
qed

lemma calm_snapshot:
  "foldR (enqueue_author_evidence parse U source intervals now) authors db = Inr db' \<Longrightarrow> calm db db'"
proof (induction authors arbitrary: db)
  case Nil
  then show ?case by (simp add: calm_refl)
next
  case (Cons a as)
  then obtain db1 where "enqueue_author_evidence parse U source intervals now a db = Inr db1"
    "foldR (enqueue_author_evidence parse U source intervals now) as db1 = Inr db'" by (auto simp: bindR_eq_Inr)
  with calm_author Cons.IH calm_trans show ?case by blast
qed

lemma calm_scheduled: "EnqueueCollectionEvidence stored c now db = Inr db' \<Longrightarrow> calm db db'"
  by (auto simp: EnqueueCollectionEvidence_def Let_def bindR_eq_Inr calm_def mark_ancillary_pending_def
      enqueue_all_calm split: option.splits bool.splits)

lemma calm_manual: "EnqueueAncillaryAuthorRefresh c now db = Inr (n, db') \<Longrightarrow> calm db db'"
  by (auto simp: EnqueueAncillaryAuthorRefresh_def Let_def calm_def mark_ancillary_pending_def
      enqueue_all_calm split: option.splits bool.splits)

text \<open>The invariant: one running job, and the cooldown reaches past the latest claim.\<close>

definition cooldown_ok :: "evidence_db \<Rightarrow> time list \<Rightarrow> bool" where
  "cooldown_ok db ts \<longleftrightarrow> queue_ok an_author_id (e_ancillary db) \<and> length (running_jobs (e_ancillary db)) \<le> 1 \<and>
     (case ts of [] \<Rightarrow> True
      | t # _ \<Rightarrow> storable (t + AncillaryRequestInterval) \<and>
          (case e_next db of None \<Rightarrow> False | Some n \<Rightarrow> formatTime (t + AncillaryRequestInterval) \<le> n)) \<and>
     sorted_wrt (\<lambda>later earlier. earlier + 64 * second < later) ts"

lemma cooldown_calm: "cooldown_ok db ts \<Longrightarrow> calm db db' \<Longrightarrow> cooldown_ok db' ts"
  by (cases ts) (auto simp: cooldown_ok_def calm_def)

lemma filter_id_le:
  "distinct (map j_id t) \<Longrightarrow> length (filter (\<lambda>r. j_id r = i) t) \<le> 1"
  by (induction t) (auto simp: filter_empty_conv image_iff)

lemma running_start_job:
  assumes "queue_ok key q" "running_jobs q = []"
  shows "length (running_jobs (start_job i now q)) \<le> 1"
proof -
  let ?f = "\<lambda>r. r\<lparr>j_status := Running, j_started_at := Some (formatTime now)\<rparr>"
  have "length (filter (\<lambda>r. j_status r = Running) (update_where (\<lambda>r. j_id r = i \<and> j_status r = Queued) ?f t)) \<le>
      length (filter (\<lambda>r. j_id r = i) t)" if "filter (\<lambda>r. j_status r = Running) t = []" for t :: "'a job_row list"
    using that by (induction t) (auto simp: update_where_def split: if_splits)
  from this [of "q_jobs q"] filter_id_le [of "q_jobs q" i] assms show ?thesis
    by (simp add: running_jobs_def start_job_def queue_ok_def)
qed

lemma cooldown_requeue:
  assumes "cooldown_ok db ts"
  shows "cooldown_ok (RequeueAncillaryAuthorEvidence i p now retryAt detail db) ts"
proof -
  let ?f = "\<lambda>r :: ancillary_payload job_row. r\<lparr>j_status := Queued, j_scheduled_for := formatTime retryAt, j_finished_at := None\<rparr>"
  let ?q = "(e_ancillary db)\<lparr>q_jobs := update_where (\<lambda>r. j_id r = i \<and> j_status r = Running) ?f (q_jobs (e_ancillary db))\<rparr>"
  have "queue_ok an_author_id ?q"
    using assms by (intro queue_ok_update) (auto simp: cooldown_ok_def active_def)
  moreover have "length (running_jobs ?q) \<le> length (running_jobs (e_ancillary db))"
    unfolding running_jobs_def by (simp, rule length_filter_update_where) simp
  ultimately show ?thesis
    using assms by (auto simp: cooldown_ok_def RequeueAncillaryAuthorEvidence_def max_def
        split: list.splits option.splits)
qed

lemma cooldown_claim:
  assumes "cooldown_ok db ts" "storable now" "storable (now + AncillaryRequestInterval)"
    "ClaimAncillaryAuthorEvidence parse now db = (r, db')" "r \<noteq> Inr None"
  shows "cooldown_ok db' (now # ts)"
proof -
  from assms(4,5) obtain j where b: "\<not> ancillary_blocked now db"
    and q: "e_ancillary db' = start_job j now (e_ancillary db)"
    and n: "e_next db' = Some (formatTime (now + AncillaryRequestInterval))"
    by (auto simp: ClaimAncillaryAuthorEvidence_def claim_row_def split: if_splits option.splits)
  from b have idle: "running_jobs (e_ancillary db) = []"
    by (auto simp: ancillary_blocked_def running_jobs_def list_ex_iff filter_empty_conv)
  have gap: "t + 64 * second < now" if "ts = t # ts'" for t ts'
  proof -
    from assms(1) b that have "storable (t + AncillaryRequestInterval)"
      "formatTime (t + AncillaryRequestInterval) \<le> formatTime now"
      by (auto simp: cooldown_ok_def ancillary_blocked_def split: option.splits)
    from formatTime_le_second [OF this(1) assms(2) this(2)] show ?thesis
      by (simp add: AncillaryRequestInterval_def second_def)
  qed
  have "sorted_wrt (\<lambda>later earlier. earlier + 64 * second < later) (now # ts)"
  proof (cases ts)
    case (Cons t ts')
    with gap assms(1) show ?thesis by (auto simp: cooldown_ok_def second_def intro: order.strict_trans)
  qed simp
  with q n assms(1,3) idle running_start_job [of an_author_id "e_ancillary db" j now] show ?thesis
    by (simp add: cooldown_ok_def start_job_ok)
qed

lemma claim_none_same: "ClaimAncillaryAuthorEvidence parse now db = (Inr None, db') \<Longrightarrow> db' = db"
  using claim_from_none [of parse True now 1 db db'] by (simp add: claim_from_def)

lemma claimed_cooldown: "claimed_at parse db ts \<Longrightarrow> cooldown_ok db ts"
proof (induction rule: claimed_at.induct)
  case (start db)
  then show ?case by (simp add: cooldown_ok_def)
next
  case none_due
  then show ?case using claim_none_same by blast
next
  case claim
  then show ?case by (simp add: cooldown_claim)
next
  case complete
  then show ?case using cooldown_calm calm_complete by blast
next
  case requeue
  then show ?case by (simp add: cooldown_requeue)
next
  case recover
  then show ?case using cooldown_calm calm_recover by blast
next
  case snapshot
  then show ?case using cooldown_calm calm_snapshot unfolding EnqueueAuthorEvidenceAfterSnapshot_def by blast
next
  case scheduled
  then show ?case using cooldown_calm calm_scheduled by blast
next
  case cancel
  then show ?case using cooldown_calm calm_cancel by blast
next
  case manual
  then show ?case using cooldown_calm calm_manual by blast
next
  case other
  then show ?case using cooldown_calm calm_same by blast
qed

lemma spaced_length:
  assumes "sorted_wrt (\<lambda>later earlier. earlier + g < later) ts" "ts \<noteq> []" "0 < g"
  shows "(int (length ts) - 1) * g \<le> hd ts - last ts"
  using assms(1,2)
proof (induction ts)
  case (Cons t ts)
  show ?case
  proof (cases "ts = []")
    case False
    with Cons have "(int (length ts) - 1) * g \<le> hd ts - last ts" by simp
    moreover from Cons.prems False have "hd ts + g < t" by simp
    ultimately show ?thesis using False by (simp add: algebra_simps)
  qed simp
qed simp

text \<open>C19. Public author requests are throttled: whatever the store does between claims, and at
  whatever rate workers ask, at most one ancillary job runs at a time, successive claims are more
  than 64 seconds apart, and any window of an hour contains at most 57 of them, within the documented
  60 unauthenticated requests per hour.\<close>

theorem ancillary_throttled:
  assumes "claimed_at parse db ts"
  shows "length (running_jobs (e_ancillary db)) \<le> 1 \<and>
    sorted_wrt (\<lambda>later earlier. earlier + 64 * second < later) ts \<and>
    length (filter (\<lambda>t. a \<le> t \<and> t < a + hour) ts) \<le> 57"
proof -
  from claimed_cooldown [OF assms] have c: "length (running_jobs (e_ancillary db)) \<le> 1"
    and s: "sorted_wrt (\<lambda>later earlier. earlier + 64 * second < later) ts" by (simp_all add: cooldown_ok_def)
  let ?w = "filter (\<lambda>t. a \<le> t \<and> t < a + hour) ts"
  have "length ?w \<le> 57"
  proof (cases "?w = []")
    case False
    from s have "sorted_wrt (\<lambda>later earlier. earlier + 64 * second < later) ?w" by (rule sorted_wrt_filter)
    from spaced_length [OF this False] have "(int (length ?w) - 1) * (64 * second) \<le> hd ?w - last ?w"
      by (simp add: second_def)
    moreover from False have "hd ?w \<in> set ?w" "last ?w \<in> set ?w" by (rule hd_in_set, rule last_in_set)
    then have "hd ?w < a + hour" "a \<le> last ?w" by auto
    ultimately show ?thesis by (simp add: duration_defs)
  qed simp
  with c s show ?thesis by simp
qed

theorem ancillary_throttled_witness:
  "length (filter (\<lambda>t. 0 \<le> t \<and> t < 0 + hour) [second]) \<le> 57 \<and>
     (\<exists>db. claimed_at (\<lambda>_. Some 0) db [second] \<and> length (running_jobs (e_ancillary db)) \<le> 1)"
proof -
  let ?c = "ClaimAncillaryAuthorEvidence (\<lambda>_. Some 0) second sample_evidence_db"
  have "claimed_at (\<lambda>_. Some 0) sample_evidence_db []"
    by (rule claimed_at.start) (simp_all add: sample_evidence_db_def sample_queued_def queue_ok_def running_jobs_def)
  moreover have "storable second" "storable (second + AncillaryRequestInterval)"
    by (simp_all add: storable_def max_seconds_def AncillaryRequestInterval_def second_def days_before_year_def)
  moreover have "fst ?c \<noteq> Inr None" by (simp add: sample_claims)
  ultimately have "claimed_at (\<lambda>_. Some 0) (snd ?c) [second]"
    using claimed_at.claim [of "\<lambda>_. Some 0" sample_evidence_db "[]" second "fst ?c" "snd ?c"] by simp
  with ancillary_throttled [OF this, of 0] show ?thesis by blast
qed

end
