(* ===== verification/Correlation.thy ===== *)
theory Correlation
  imports GoStrings Routes Snapshot
begin

text \<open>
  Feature correlation (\<open>internal/correlation/correlation.go\<close>): bounded model requests for a
  collection and the validation of the groups that a model answers. \<open>U\<close> is Unicode upper case
  outside ASCII, \<open>enc\<close> the JSON body a revision is computed from, \<open>hash\<close> is SHA-256 in
  hexadecimal, and \<open>decode\<close> decodes exactly one strict JSON document.
\<close>

section \<open>Data\<close>

definition MaxPullRequestsPerRequest :: nat where "MaxPullRequestsPerRequest = 200"
definition MaxFilesPerPullRequest :: nat where "MaxFilesPerPullRequest = 20"
definition MaxRelationshipsPerPR :: nat where "MaxRelationshipsPerPR = 50"
definition MaxTitleBytes :: nat where "MaxTitleBytes = 500"
definition MaxGroupsPerResponse :: nat where "MaxGroupsPerResponse = 100"
definition MaxMembersPerGroup :: nat where "MaxMembersPerGroup = 50"
definition MaxEdgesPerGroup :: nat where "MaxEdgesPerGroup = 200"
definition MaxNameRunes :: nat where "MaxNameRunes = 120"
definition MaxDescriptionRunes :: nat where "MaxDescriptionRunes = 500"
definition MaxReasonRunes :: nat where "MaxReasonRunes = 500"

lemmas correlation_limits = MaxPullRequestsPerRequest_def MaxFilesPerPullRequest_def MaxRelationshipsPerPR_def
  MaxTitleBytes_def MaxGroupsPerResponse_def MaxMembersPerGroup_def MaxEdgesPerGroup_def MaxNameRunes_def
  MaxDescriptionRunes_def MaxReasonRunes_def

definition edgeTypes :: "string list" where
  "edgeTypes = [''duplicated'', ''competing_design'', ''stacked_on_top_of'', ''related'']"

record corr_source =
  cs_ID :: string
  cs_Kind :: string
  cs_EntityID :: string
  cs_Repository :: string
  cs_Number :: int
  cs_Title :: string
  cs_State :: string
  cs_URL :: string

record corr_pull =
  cq_SourceID :: string
  cq_Repository :: string
  cq_Number :: int
  cq_Title :: string
  cq_Author :: string
  cq_URL :: string
  cq_State :: string
  cq_Files :: "string list"
  cq_Relationships :: "corr_source list"

record corr_input =
  ki_CollectionID :: string
  ki_PullRequests :: "corr_pull list"

record corr_request =
  kr_SchemaVersion :: string
  kr_PromptVersion :: string
  kr_InputRevision :: string
  kr_CollectionID :: string
  kr_Chunk :: nat
  kr_Chunks :: nat
  kr_PullRequests :: "corr_pull list"

record corr_member =
  km_SourceID :: string
  km_Repository :: string
  km_Number :: int
  km_Title :: string
  km_State :: string
  km_URL :: string

record corr_evidence =
  kv_Owner :: string
  kv_EntityID :: string

record corr_edge =
  ke_From :: string
  ke_To :: string
  ke_Type :: string
  ke_Confidence :: string
  ke_Reason :: string
  ke_SourceIDs :: "string list"

record corr_group =
  kg_ID :: string
  kg_Name :: string
  kg_Description :: string
  kg_Confidence :: string
  kg_SourceIDs :: "string list"
  kg_Members :: "corr_member list"
  kg_Edges :: "corr_edge list"

text \<open>One group of the decoded response.\<close>

record raw_group =
  rg_Name :: string
  rg_Description :: string
  rg_Confidence :: string
  rg_SourceIDs :: "string list"
  rg_Members :: "string list"
  rg_Edges :: "corr_edge list"

datatype evidence_problem = EvidenceCount | UnknownSource string | UnrelatedSource string | DuplicateSource string

datatype edge_problem =
    EdgeType string | EdgeConfidence | EdgeReason | SelfEdge | UnknownFrom | UnknownTo
  | EdgeEvidence evidence_problem

datatype corr_error =
    NoCollection | MissingIdentity nat
  | DecodeResponse | NotOneDocument | TooManyGroups
  | GroupName nat | GroupDescription nat | GroupConfidence nat | MemberCount nat | DuplicateMembers nat
  | UnknownMember nat string | NoOpenMember nat | GroupEvidence nat evidence_problem
  | TooManyEdges nat | EdgeProblem nat nat edge_problem | DuplicateEdge nat | DuplicateGroup string

section \<open>Helpers\<close>

definition replace_separators :: "string \<Rightarrow> string" where
  "replace_separators s = map (\<lambda>c. if c \<in> {CHR ''/'', CHR ''#'', CHR '' ''} then CHR ''_'' else c) s"

definition PullRequestSourceID :: "string \<Rightarrow> int \<Rightarrow> string" where
  "PullRequestSourceID repository number = ''PR_'' @ replace_separators repository @ ''_'' @ Itoa number"

definition EntitySourceID :: "(string \<Rightarrow> string) \<Rightarrow> string \<Rightarrow> string \<Rightarrow> int \<Rightarrow> string" where
  "EntitySourceID U kind repository number =
     ToUpper U kind @ ''_'' @ replace_separators repository @ ''_'' @ Itoa number"

definition normalizeText :: "string \<Rightarrow> string" where
  "normalizeText value = Join (Fields value) '' ''"

definition sortedUnique :: "string list \<Rightarrow> string list" where
  "sortedUnique values = remdups_adj (sort values)"

fun unique_sources :: "string list \<Rightarrow> corr_source list \<Rightarrow> corr_source list" where
  "unique_sources seen [] = []"
| "unique_sources seen (v # vs) =
     (if cs_ID v = [] \<or> cs_ID v \<in> set seen then unique_sources seen vs
      else v # unique_sources (cs_ID v # seen) vs)"

definition uniqueSources :: "corr_source list \<Rightarrow> corr_source list" where
  "uniqueSources values = unique_sources [] values"

definition validConfidence :: "string \<Rightarrow> bool" where
  "validConfidence value \<longleftrightarrow> value = ''medium'' \<or> value = ''high''"

definition groupID :: "(string \<Rightarrow> string) \<Rightarrow> string list \<Rightarrow> string" where
  "groupID hash memberIDs = ''group-'' @ take 16 (hash (Join memberIDs [CHR 0x00]))"

definition edgeKey :: "corr_edge \<Rightarrow> string" where
  "edgeKey e =
     (if ke_Type e \<noteq> ''stacked_on_top_of'' \<and> ke_To e < ke_From e
      then Join [ke_Type e, ke_To e, ke_From e] [CHR 0x00]
      else Join [ke_Type e, ke_From e, ke_To e] [CHR 0x00])"

section \<open>Requests\<close>

definition missing_identity :: "corr_pull \<Rightarrow> bool" where
  "missing_identity p \<longleftrightarrow> cq_SourceID p = [] \<or> cq_Repository p = [] \<or> cq_Number p < 1 \<or> cq_Title p = [] \<or> cq_URL p = []"

definition bound_pull :: "corr_pull \<Rightarrow> corr_pull" where
  "bound_pull p = p\<lparr> cq_Title := truncateUTF8 (cq_Title p) MaxTitleBytes,
     cq_Files := take MaxFilesPerPullRequest (sortedUnique (cq_Files p)),
     cq_Relationships := map (\<lambda>s. s\<lparr>cs_Title := truncateUTF8 (cs_Title s) MaxTitleBytes\<rparr>)
       (take MaxRelationshipsPerPR (uniqueSources (sort_key cs_ID (cq_Relationships p)))) \<rparr>"

fun bound_pulls :: "nat \<Rightarrow> corr_pull list \<Rightarrow> corr_error + corr_pull list" where
  "bound_pulls index [] = Inr []"
| "bound_pulls index (p # ps) =
     failIf (missing_identity p) (MissingIdentity index)
       (bindR (bound_pulls (index + 1) ps) (\<lambda>qs. Inr (bound_pull p # qs)))"

definition chunk_of :: "nat \<Rightarrow> corr_pull list \<Rightarrow> corr_pull list" where
  "chunk_of chunk ps = take MaxPullRequestsPerRequest (drop (chunk * MaxPullRequestsPerRequest) ps)"

definition request_of ::
  "(string \<times> nat \<times> nat \<times> corr_pull list \<Rightarrow> string) \<Rightarrow> (string \<Rightarrow> string) \<Rightarrow> string \<Rightarrow> corr_pull list \<Rightarrow> nat \<Rightarrow> nat \<Rightarrow>
   corr_request" where
  "request_of enc hash collection ps chunks chunk =
     \<lparr> kr_SchemaVersion = ''correlation.v1'', kr_PromptVersion = ''correlation-prompt.v1'',
       kr_InputRevision = hash (enc (collection, chunk + 1, chunks, chunk_of chunk ps)),
       kr_CollectionID = collection, kr_Chunk = chunk + 1, kr_Chunks = chunks,
       kr_PullRequests = chunk_of chunk ps \<rparr>"

definition chunk_count :: "corr_pull list \<Rightarrow> nat" where
  "chunk_count ps = (length ps + MaxPullRequestsPerRequest - 1) div MaxPullRequestsPerRequest"

definition BuildRequests ::
  "(string \<times> nat \<times> nat \<times> corr_pull list \<Rightarrow> string) \<Rightarrow> (string \<Rightarrow> string) \<Rightarrow> corr_input \<Rightarrow> corr_error + corr_request list" where
  "BuildRequests enc hash i =
     failIf (ki_CollectionID i = []) NoCollection
      (bindR (bound_pulls 0 (sort_key cq_SourceID (ki_PullRequests i))) (\<lambda>ps.
        let chunks = chunk_count ps in
        Inr (map (request_of enc hash (ki_CollectionID i) ps chunks) [0..<chunks])))"

section \<open>Known sources\<close>

type_synonym members = "string \<Rightarrow> corr_member option"
type_synonym evidences = "string \<Rightarrow> corr_evidence option"

definition member_of :: "corr_pull \<Rightarrow> corr_member" where
  "member_of p = \<lparr> km_SourceID = cq_SourceID p, km_Repository = cq_Repository p, km_Number = cq_Number p,
     km_Title = cq_Title p, km_State = cq_State p, km_URL = cq_URL p \<rparr>"

definition entity_member :: "corr_source \<Rightarrow> corr_member" where
  "entity_member s = \<lparr> km_SourceID = cs_EntityID s, km_Repository = cs_Repository s, km_Number = cs_Number s,
     km_Title = cs_Title s, km_State = cs_State s, km_URL = cs_URL s \<rparr>"

definition ended_pull :: "corr_source \<Rightarrow> bool" where
  "ended_pull s \<longleftrightarrow> HasPrefix (cs_EntityID s) ''PR_'' \<and> (cs_State s = ''closed'' \<or> cs_State s = ''merged'')"

definition add_known_source :: "corr_pull \<Rightarrow> members \<times> evidences \<Rightarrow> corr_source \<Rightarrow> members \<times> evidences" where
  "add_known_source p st s =
     (let (members, evidence) = st;
          evidence1 = evidence(cs_ID s \<mapsto> \<lparr> kv_Owner = cq_SourceID p, kv_EntityID = cs_EntityID s \<rparr>)
      in if ended_pull s \<and> members (cs_EntityID s) = None
         then (members(cs_EntityID s \<mapsto> entity_member s), evidence1)
         else (members, evidence1))"

definition add_known_pull :: "members \<times> evidences \<Rightarrow> corr_pull \<Rightarrow> members \<times> evidences" where
  "add_known_pull st p =
     foldl (add_known_source p)
       ((fst st)(cq_SourceID p \<mapsto> member_of p),
        (snd st)(cq_SourceID p \<mapsto> \<lparr> kv_Owner = cq_SourceID p, kv_EntityID = cq_SourceID p \<rparr>))
       (cq_Relationships p)"

definition KnownSources :: "corr_request \<Rightarrow> members \<times> evidences" where
  "KnownSources r = foldl add_known_pull (Map.empty, Map.empty) (kr_PullRequests r)"

section \<open>Validation\<close>

fun check_evidence :: "evidences \<Rightarrow> string list \<Rightarrow> string list \<Rightarrow> string list \<Rightarrow> evidence_problem option" where
  "check_evidence known relevant seen [] = None"
| "check_evidence known relevant seen (i # is) =
     (case known i of
        None \<Rightarrow> Some (UnknownSource i)
      | Some e \<Rightarrow>
          if kv_Owner e \<notin> set relevant \<and> kv_EntityID e \<notin> set relevant then Some (UnrelatedSource i)
          else if i \<in> set seen then Some (DuplicateSource i)
          else check_evidence known relevant (i # seen) is)"

definition validateEvidence :: "string list \<Rightarrow> evidences \<Rightarrow> string list \<Rightarrow> evidence_problem option" where
  "validateEvidence ids known relevant =
     (if ids = [] \<or> length ids > 20 then Some EvidenceCount else check_evidence known relevant [] ids)"

definition validate_edge :: "evidences \<Rightarrow> string list \<Rightarrow> corr_edge \<Rightarrow> edge_problem + corr_edge" where
  "validate_edge known memberIDs e =
     failIf (ke_Type e \<notin> set edgeTypes) (EdgeType (ke_Type e))
    (failIf (\<not> validConfidence (ke_Confidence e)) EdgeConfidence
     (let reason = normalizeText (ke_Reason e) in
      failIf (reason = [] \<or> RuneCount reason > MaxReasonRunes) EdgeReason
     (failIf (ke_From e = ke_To e) SelfEdge
     (failIf (ke_From e \<notin> set memberIDs) UnknownFrom
     (failIf (ke_To e \<notin> set memberIDs) UnknownTo
     (failE (map_option EdgeEvidence (validateEvidence (ke_SourceIDs e) known [ke_From e, ke_To e]))
     (Inr (e\<lparr> ke_Reason := reason, ke_SourceIDs := sortedUnique (ke_SourceIDs e) \<rparr>))))))))"

fun validate_edges ::
  "evidences \<Rightarrow> string list \<Rightarrow> nat \<Rightarrow> nat \<Rightarrow> string list \<Rightarrow> corr_edge list \<Rightarrow> corr_error + corr_edge list" where
  "validate_edges known memberIDs index edgeIndex seen [] = Inr []"
| "validate_edges known memberIDs index edgeIndex seen (e # es) =
     (case validate_edge known memberIDs e of
        Inl problem \<Rightarrow> Inl (EdgeProblem index edgeIndex problem)
      | Inr e1 \<Rightarrow>
          failIf (edgeKey e1 \<in> set seen) (DuplicateEdge index)
            (bindR (validate_edges known memberIDs index (edgeIndex + 1) (edgeKey e1 # seen) es) (\<lambda>es1.
              Inr (e1 # es1))))"

fun group_members :: "members \<Rightarrow> nat \<Rightarrow> string list \<Rightarrow> corr_error + corr_member list" where
  "group_members known index [] = Inr []"
| "group_members known index (i # is) =
     (case known i of
        None \<Rightarrow> Inl (UnknownMember index i)
      | Some m \<Rightarrow> bindR (group_members known index is) (\<lambda>ms. Inr (m # ms)))"

definition validate_group ::
  "(string \<Rightarrow> string) \<Rightarrow> members \<Rightarrow> evidences \<Rightarrow> nat \<Rightarrow> raw_group \<Rightarrow> corr_error + corr_group" where
  "validate_group hash knownMembers knownEvidence index c =
     (let name = normalizeText (rg_Name c); description = normalizeText (rg_Description c);
          memberIDs = sortedUnique (rg_Members c) in
      failIf (name = [] \<or> RuneCount name > MaxNameRunes) (GroupName index)
     (failIf (description = [] \<or> RuneCount description > MaxDescriptionRunes) (GroupDescription index)
     (failIf (\<not> validConfidence (rg_Confidence c)) (GroupConfidence index)
     (failIf (length (rg_Members c) < 2 \<or> length (rg_Members c) > MaxMembersPerGroup) (MemberCount index)
     (failIf (length memberIDs \<noteq> length (rg_Members c)) (DuplicateMembers index)
     (bindR (group_members knownMembers index memberIDs) (\<lambda>members.
      failIf (\<not> list_ex (\<lambda>m. km_State m = ''open'') members) (NoOpenMember index)
     (failE (map_option (GroupEvidence index) (validateEvidence (rg_SourceIDs c) knownEvidence memberIDs))
     (failIf (length (rg_Edges c) > MaxEdgesPerGroup) (TooManyEdges index)
     (bindR (validate_edges knownEvidence memberIDs index 0 [] (rg_Edges c)) (\<lambda>edges.
      Inr \<lparr> kg_ID = groupID hash memberIDs, kg_Name = name, kg_Description = description,
        kg_Confidence = rg_Confidence c, kg_SourceIDs = sortedUnique (rg_SourceIDs c),
        kg_Members = sort_key km_SourceID members, kg_Edges = sort_key edgeKey edges \<rparr>)))))))))))"

fun validate_groups ::
  "(string \<Rightarrow> string) \<Rightarrow> members \<Rightarrow> evidences \<Rightarrow> nat \<Rightarrow> string list \<Rightarrow> raw_group list \<Rightarrow> corr_error + corr_group list" where
  "validate_groups hash knownMembers knownEvidence index seen [] = Inr []"
| "validate_groups hash knownMembers knownEvidence index seen (c # cs) =
     bindR (validate_group hash knownMembers knownEvidence index c) (\<lambda>g.
     failIf (kg_ID g \<in> set seen) (DuplicateGroup (kg_ID g))
      (bindR (validate_groups hash knownMembers knownEvidence (index + 1) (kg_ID g # seen) cs) (\<lambda>gs.
        Inr (g # gs))))"

definition ValidateResponse ::
  "(string \<Rightarrow> corr_error + raw_group list) \<Rightarrow> (string \<Rightarrow> string) \<Rightarrow> string \<Rightarrow> members \<Rightarrow> evidences \<Rightarrow>
   corr_error + corr_group list" where
  "ValidateResponse decode hash body knownMembers knownEvidence =
     bindR (decode body) (\<lambda>groups.
     failIf (length groups > MaxGroupsPerResponse) TooManyGroups
      (bindR (validate_groups hash knownMembers knownEvidence 0 [] groups) (\<lambda>gs.
        Inr (sort_key kg_ID gs))))"

section \<open>The text of a graph\<close>

definition NL :: string where "NL = [CHR 0x0A]"

definition TextGraph :: "corr_group \<Rightarrow> string" where
  "TextGraph g =
     ''# '' @ kg_Name g @ NL @ kg_Description g @ NL @
     concat (map (\<lambda>m. ''PR '' @ km_Repository m @ ''#'' @ Itoa (km_Number m) @ '' ['' @ km_State m @ '']: '' @
        km_Title m @ NL) (sort_key km_SourceID (kg_Members g))) @
     concat (map (\<lambda>e. ke_From e @ '' --'' @ ke_Type e @
        (if ke_Type e = ''stacked_on_top_of'' then ''-->'' else ''--'') @ '' '' @ ke_To e @
        (if ke_Reason e \<noteq> [] then '': '' @ ke_Reason e else []) @ NL) (sort_key edgeKey (kg_Edges g)))"

end
