(* ===== verification/CorrelationFacts.thy ===== *)
theory CorrelationFacts
  imports Correlation
begin

text \<open>
  What the correlation requests carry and what a validated answer guarantees.
\<close>

section \<open>Sorted lists without repetition\<close>

lemma remdups_adj_strict: "sorted xs \<Longrightarrow> sorted_wrt (<) (remdups_adj xs)" for xs :: "'a :: linorder list"
proof (induction xs rule: remdups_adj.induct)
  case (3 x y xs)
  show ?case
  proof (cases "x = y")
    case True
    with 3 show ?thesis by simp
  next
    case False
    with 3 have "sorted_wrt (<) (remdups_adj (y # xs))" "\<forall>z\<in>set (y # xs). x < z" by fastforce+
    with False show ?thesis by (simp only: remdups_adj.simps if_False sorted_wrt.simps remdups_adj_set)
  qed
qed simp_all

lemma sortedUnique_strict: "sorted_wrt (<) (sortedUnique xs)"
  unfolding sortedUnique_def by (rule remdups_adj_strict) simp

lemma set_sortedUnique [simp]: "set (sortedUnique xs) = set xs"
  by (simp add: sortedUnique_def)

lemma sorted_sortedUnique [simp]: "sorted (sortedUnique xs)"
  using sortedUnique_strict by (rule strict_sorted_imp_sorted)

lemma distinct_sortedUnique [simp]: "distinct (sortedUnique xs)"
  using sortedUnique_strict strict_sorted_iff by blast

lemma length_sortedUnique: "distinct xs \<Longrightarrow> length (sortedUnique xs) = length xs"
  by (metis distinct_card distinct_sortedUnique set_sortedUnique)

lemma sortedUnique_Nil: "sortedUnique xs = [] \<longleftrightarrow> xs = []"
  by (metis set_empty set_sortedUnique)

section \<open>Requests\<close>

lemma bound_pulls_Inr: "bound_pulls n ps = Inr qs \<Longrightarrow> qs = map bound_pull ps \<and> list_all (\<lambda>p. \<not> missing_identity p) ps"
  by (induction ps arbitrary: n qs) (auto simp: failIf_eq_Inr bindR_eq_Inr)

lemma chunks_concat:
  "concat (map (\<lambda>c. take k (drop (c * k) ps)) [0..<n]) = take (n * k) ps"
proof (induction n)
  case (Suc n)
  have "take (n * k + k) ps = take (n * k) ps @ take k (drop (n * k) ps)" by (rule take_add)
  with Suc show ?case by (simp add: add.commute)
qed simp

lemma chunk_count_enough: "length ps \<le> chunk_count ps * MaxPullRequestsPerRequest"
proof -
  have "length ps + 199 = (length ps + 199) div 200 * 200 + (length ps + 199) mod 200" by simp
  moreover have "(length ps + 199) mod 200 < 200" by simp
  ultimately show ?thesis unfolding chunk_count_def MaxPullRequestsPerRequest_def by simp
qed

lemma chunk_nonempty:
  assumes "c < chunk_count ps"
  shows "chunk_of c ps \<noteq> [] \<and> length (chunk_of c ps) \<le> 200"
proof -
  have "c * 200 < length ps"
  proof -
    from assms have "c + 1 \<le> (length ps + 199) div 200" by (simp add: chunk_count_def MaxPullRequestsPerRequest_def)
    then have "(c + 1) * 200 \<le> (length ps + 199) div 200 * 200" by (rule mult_le_mono1)
    also have "\<dots> \<le> length ps + 199" by simp
    finally show ?thesis by simp
  qed
  then show ?thesis by (simp add: chunk_of_def MaxPullRequestsPerRequest_def)
qed

definition pull_bounded :: "corr_pull \<Rightarrow> bool" where
  "pull_bounded p \<longleftrightarrow> length (cq_Title p) \<le> 500 \<and> length (cq_Files p) \<le> 20 \<and> sorted_wrt (<) (cq_Files p) \<and>
     length (cq_Relationships p) \<le> 50 \<and> distinct (map cs_ID (cq_Relationships p)) \<and>
     list_all (\<lambda>s. cs_ID s \<noteq> [] \<and> length (cs_Title s) \<le> 500) (cq_Relationships p)"

lemma unique_sources_ids:
  "distinct (map cs_ID (unique_sources seen vs)) \<and> cs_ID ` set (unique_sources seen vs) \<inter> set seen = {} \<and>
   list_all (\<lambda>s. cs_ID s \<noteq> []) (unique_sources seen vs)"
proof (induction vs arbitrary: seen)
  case (Cons v vs)
  from Cons.IH [of seen] Cons.IH [of "cs_ID v # seen"] show ?case by auto
qed simp

lemma list_all_take: "list_all P xs \<Longrightarrow> list_all P (take n xs)"
  by (meson in_set_takeD list_all_iff)

lemma bound_pull_bounded: "pull_bounded (bound_pull p)"
proof -
  let ?us = "unique_sources [] (sort_key cs_ID (cq_Relationships p))"
  have "distinct (map cs_ID (take 50 ?us))"
    using unique_sources_ids [of "[]" "sort_key cs_ID (cq_Relationships p)"] by (metis distinct_take take_map)
  moreover have "list_all (\<lambda>s. cs_ID s \<noteq> []) (take 50 ?us)"
    using unique_sources_ids by (intro list_all_take) blast
  moreover have "sorted_wrt (<) (take 20 (sortedUnique (cq_Files p)))"
    by (rule sorted_wrt_take [OF sortedUnique_strict])
  ultimately show ?thesis
    by (simp add: pull_bounded_def bound_pull_def correlation_limits uniqueSources_def list.pred_map comp_def
        truncateUTF8_length list_all_iff)
qed

lemma BuildRequests_Inr:
  assumes "BuildRequests enc hash i = Inr rs"
  obtains ps where "bound_pulls 0 (sort_key cq_SourceID (ki_PullRequests i)) = Inr ps"
    "rs = map (request_of enc hash (ki_CollectionID i) ps (chunk_count ps)) [0..<chunk_count ps]"
  using assms by (auto simp: BuildRequests_def failIf_eq_Inr bindR_eq_Inr Let_def)

lemma requests_concat:
  "concat (map kr_PullRequests (map (request_of enc hash c ps (chunk_count ps)) [0..<chunk_count ps])) = ps"
  using chunks_concat [of MaxPullRequestsPerRequest ps "chunk_count ps"] chunk_count_enough [of ps]
  by (simp add: request_of_def comp_def chunk_of_def)

text \<open>The requests of a collection carry every pull request exactly once, in the order of their
  identifiers and cut to the documented bounds, in non-empty chunks of at most 200 that are
  numbered consecutively and know their total.\<close>

theorem BuildRequests_complete:
  assumes "BuildRequests enc hash i = Inr rs"
  shows "concat (map kr_PullRequests rs) = map bound_pull (sort_key cq_SourceID (ki_PullRequests i)) \<and>
    list_all pull_bounded (concat (map kr_PullRequests rs)) \<and>
    list_all (\<lambda>r. kr_PullRequests r \<noteq> [] \<and> length (kr_PullRequests r) \<le> 200 \<and> kr_Chunks r = length rs) rs \<and>
    map kr_Chunk rs = [1..<length rs + 1]"
proof -
  from assms obtain ps where b: "bound_pulls 0 (sort_key cq_SourceID (ki_PullRequests i)) = Inr ps"
    and rs: "rs = map (request_of enc hash (ki_CollectionID i) ps (chunk_count ps)) [0..<chunk_count ps]"
    by (rule BuildRequests_Inr)
  have all: "concat (map kr_PullRequests rs) = ps" unfolding rs by (rule requests_concat)
  have "list_all (\<lambda>r. kr_PullRequests r \<noteq> [] \<and> length (kr_PullRequests r) \<le> 200 \<and> kr_Chunks r = length rs) rs"
    using chunk_nonempty by (simp add: rs request_of_def list_all_iff)
  moreover have "map kr_Chunk rs = [1..<length rs + 1]"
    by (simp add: rs request_of_def comp_def map_Suc_upt)
  moreover from bound_pulls_Inr [OF b] have "ps = map bound_pull (sort_key cq_SourceID (ki_PullRequests i))" by simp
  moreover have "list_all pull_bounded (map bound_pull qs)" for qs by (simp add: list.pred_map list_all_iff bound_pull_bounded)
  ultimately show ?thesis by (simp only: all)
qed

definition sample_corr_pull :: corr_pull where
  "sample_corr_pull = \<lparr> cq_SourceID = ''PR_o_r_1'', cq_Repository = ''o/r'', cq_Number = 1, cq_Title = ''t'',
     cq_Author = [], cq_URL = ''u'', cq_State = ''open'', cq_Files = [''b'', ''a'', ''b''], cq_Relationships = [] \<rparr>"

theorem BuildRequests_complete_witness:
  "map cq_Files (concat (map kr_PullRequests (projr (BuildRequests (\<lambda>_. []) id
     \<lparr> ki_CollectionID = ''c'', ki_PullRequests = [sample_corr_pull] \<rparr>)))) = [[''a'', ''b'']]"
proof -
  let ?r = "BuildRequests (\<lambda>_. []) id \<lparr> ki_CollectionID = ''c'', ki_PullRequests = [sample_corr_pull] \<rparr>"
  have "\<not> isl ?r" by (simp add: BuildRequests_def missing_identity_def sample_corr_pull_def Let_def)
  then have "?r = Inr (projr ?r)" by (cases ?r) simp_all
  from BuildRequests_complete [OF this]
  have "concat (map kr_PullRequests (projr ?r)) = [bound_pull sample_corr_pull]" by simp
  moreover have "cq_Files (bound_pull sample_corr_pull) = [''a'', ''b'']"
    by (simp add: bound_pull_def sample_corr_pull_def sortedUnique_def MaxFilesPerPullRequest_def)
  ultimately show ?thesis by simp
qed

section \<open>Validated answers\<close>

text \<open>Citations: 1 to 20 distinct known sources, each about one of the cited members.\<close>

definition sources_ok :: "evidences \<Rightarrow> string list \<Rightarrow> string list \<Rightarrow> bool" where
  "sources_ok known relevant ids \<longleftrightarrow> ids \<noteq> [] \<and> length ids \<le> 20 \<and> distinct ids \<and>
     list_all (\<lambda>i. case known i of None \<Rightarrow> False
       | Some e \<Rightarrow> kv_Owner e \<in> set relevant \<or> kv_EntityID e \<in> set relevant) ids"

definition edge_ok :: "evidences \<Rightarrow> string list \<Rightarrow> corr_edge \<Rightarrow> bool" where
  "edge_ok known ids e \<longleftrightarrow> ke_Type e \<in> set edgeTypes \<and> validConfidence (ke_Confidence e) \<and>
     ke_Reason e \<noteq> [] \<and> RuneCount (ke_Reason e) \<le> 500 \<and> ke_From e \<noteq> ke_To e \<and> ke_From e \<in> set ids \<and>
     ke_To e \<in> set ids \<and> sources_ok known [ke_From e, ke_To e] (ke_SourceIDs e)"

definition group_ok :: "(string \<Rightarrow> string) \<Rightarrow> members \<Rightarrow> evidences \<Rightarrow> corr_group \<Rightarrow> bool" where
  "group_ok hash members known g \<longleftrightarrow>
     (let ids = map km_SourceID (kg_Members g) in
      kg_ID g = groupID hash ids \<and> 2 \<le> length ids \<and> length ids \<le> 50 \<and> sorted_wrt (<) ids \<and>
      list_all (\<lambda>m. members (km_SourceID m) = Some m) (kg_Members g) \<and>
      list_ex (\<lambda>m. km_State m = ''open'') (kg_Members g) \<and>
      kg_Name g \<noteq> [] \<and> RuneCount (kg_Name g) \<le> 120 \<and> kg_Description g \<noteq> [] \<and>
      RuneCount (kg_Description g) \<le> 500 \<and> validConfidence (kg_Confidence g) \<and>
      sources_ok known ids (kg_SourceIDs g) \<and> length (kg_Edges g) \<le> 200 \<and>
      distinct (map edgeKey (kg_Edges g)) \<and> list_all (edge_ok known ids) (kg_Edges g))"

lemma check_evidence_None:
  "check_evidence known relevant seen ids = None \<Longrightarrow> distinct ids \<and> set ids \<inter> set seen = {} \<and>
     list_all (\<lambda>i. case known i of None \<Rightarrow> False
       | Some e \<Rightarrow> kv_Owner e \<in> set relevant \<or> kv_EntityID e \<in> set relevant) ids"
proof (induction ids arbitrary: seen)
  case (Cons i ids)
  then obtain e where e: "known i = Some e" "kv_Owner e \<in> set relevant \<or> kv_EntityID e \<in> set relevant" "i \<notin> set seen"
    and "check_evidence known relevant (i # seen) ids = None" by (auto split: option.splits if_splits)
  with Cons.IH [of "i # seen"] show ?case by auto
qed simp

lemma validateEvidence_ok:
  assumes "validateEvidence ids known relevant = None"
  shows "sources_ok known relevant (sortedUnique ids)"
proof -
  from assms have "check_evidence known relevant [] ids = None" "ids \<noteq> []" "length ids \<le> 20"
    by (auto simp: validateEvidence_def split: if_splits)
  with check_evidence_None [of known relevant "[]" ids] show ?thesis
    by (simp add: sources_ok_def length_sortedUnique sortedUnique_Nil list_all_iff)
qed

lemma validate_edge_ok:
  assumes "validate_edge known ids e = Inr e'"
  shows "edge_ok known ids e'"
  using assms validateEvidence_ok [of "ke_SourceIDs e" known "[ke_From e, ke_To e]"]
  by (auto simp: validate_edge_def failIf_eq_Inr failE_eq_Inr Let_def edge_ok_def MaxReasonRunes_def)

lemma validate_edges_ok:
  "validate_edges known ids index k seen es = Inr es' \<Longrightarrow>
     length es' = length es \<and> distinct (map edgeKey es') \<and> edgeKey ` set es' \<inter> set seen = {} \<and>
     list_all (edge_ok known ids) es'"
proof (induction es arbitrary: k seen es')
  case (Cons e es)
  from Cons.prems obtain e1 es1 where "validate_edge known ids e = Inr e1" "edgeKey e1 \<notin> set seen"
    "validate_edges known ids index (k + 1) (edgeKey e1 # seen) es = Inr es1" "es' = e1 # es1"
    by (auto simp: failIf_eq_Inr bindR_eq_Inr split: sum.splits)
  with Cons.IH [of "k + 1" "edgeKey e1 # seen" es1] validate_edge_ok [of known ids e e1] show ?case by auto
qed simp

lemma group_members_Inr:
  "group_members known index ids = Inr ms \<Longrightarrow> map known ids = map Some ms"
  by (induction ids arbitrary: ms) (auto simp: bindR_eq_Inr split: option.splits)

text \<open>Members are known under their own identifier.\<close>

definition own_ids :: "members \<Rightarrow> bool" where
  "own_ids members \<longleftrightarrow> (\<forall>i m. members i = Some m \<longrightarrow> km_SourceID m = i)"

lemma group_members_ids:
  assumes "own_ids known" "map known ids = map Some ms"
  shows "map km_SourceID ms = ids"
  using assms(2)
proof (induction ids arbitrary: ms)
  case (Cons i ids)
  then obtain m ms1 where "ms = m # ms1" "known i = Some m" "map known ids = map Some ms1" by (cases ms) auto
  with Cons.IH [of ms1] assms(1) show ?case by (simp add: own_ids_def)
qed simp

lemma validate_group_ok:
  assumes "own_ids members" "validate_group hash members known index c = Inr g"
  shows "group_ok hash members known g"
proof -
  let ?ids = "sortedUnique (rg_Members c)"
  from assms(2) obtain ms es where ms: "group_members members index ?ids = Inr ms"
    and es: "validate_edges known ?ids index 0 [] (rg_Edges c) = Inr es"
    and ev: "validateEvidence (rg_SourceIDs c) known ?ids = None"
    and c: "normalizeText (rg_Name c) \<noteq> []" "RuneCount (normalizeText (rg_Name c)) \<le> 120"
      "normalizeText (rg_Description c) \<noteq> []" "RuneCount (normalizeText (rg_Description c)) \<le> 500"
      "validConfidence (rg_Confidence c)" "2 \<le> length ?ids" "length ?ids \<le> 50" "length (rg_Edges c) \<le> 200"
      "list_ex (\<lambda>m. km_State m = ''open'') ms"
    and g: "g = \<lparr> kg_ID = groupID hash ?ids, kg_Name = normalizeText (rg_Name c),
        kg_Description = normalizeText (rg_Description c), kg_Confidence = rg_Confidence c,
        kg_SourceIDs = sortedUnique (rg_SourceIDs c), kg_Members = sort_key km_SourceID ms,
        kg_Edges = sort_key edgeKey es \<rparr>"
    by (auto simp: validate_group_def failIf_eq_Inr failE_eq_Inr bindR_eq_Inr Let_def correlation_limits)
  from group_members_Inr [OF ms] have known: "map members ?ids = map Some ms" .
  from group_members_ids [OF assms(1) this] have ids: "map km_SourceID ms = ?ids" .
  then have sorted_ms: "sort_key km_SourceID ms = ms"
    by (simp add: sort_key_id_if_sorted)
  have "list_all (\<lambda>m. members (km_SourceID m) = Some m) ms"
    unfolding list_all_iff
  proof
    fix m
    assume "m \<in> set ms"
    then have "Some m \<in> set (map Some ms)" by simp
    then have "Some m \<in> set (map members ?ids)" by (simp only: known)
    then obtain i where "members i = Some m" by auto
    with assms(1) show "members (km_SourceID m) = Some m" by (simp add: own_ids_def)
  qed
  moreover from validate_edges_ok [OF es] have "length (sort_key edgeKey es) \<le> 200"
    "distinct (map edgeKey (sort_key edgeKey es))" "list_all (edge_ok known ?ids) (sort_key edgeKey es)"
    using c(8) by (simp_all add: list_all_iff distinct_map)
  ultimately show ?thesis
    unfolding group_ok_def Let_def g
    using c validateEvidence_ok [OF ev] ids sorted_ms by (simp add: sortedUnique_strict)
qed

lemma validate_groups_ok:
  assumes "own_ids members"
  shows "validate_groups hash members known index seen cs = Inr gs \<Longrightarrow>
     length gs = length cs \<and> distinct (map kg_ID gs) \<and> kg_ID ` set gs \<inter> set seen = {} \<and>
     list_all (group_ok hash members known) gs"
proof (induction cs arbitrary: index seen gs)
  case (Cons c cs)
  from Cons.prems obtain g gs1 where "validate_group hash members known index c = Inr g" "kg_ID g \<notin> set seen"
    "validate_groups hash members known (index + 1) (kg_ID g # seen) cs = Inr gs1" "gs = g # gs1"
    by (auto simp: failIf_eq_Inr bindR_eq_Inr)
  with Cons.IH [of "index + 1" "kg_ID g # seen" gs1] validate_group_ok [OF assms] show ?case by auto
qed simp

section \<open>Known sources\<close>

text \<open>Every known member is a pull request of the request, or a closed or merged one it cites.\<close>

definition members_ok :: "corr_pull list \<Rightarrow> members \<Rightarrow> bool" where
  "members_ok ps members \<longleftrightarrow> (\<forall>i m. members i = Some m \<longrightarrow> km_SourceID m = i \<and>
     ((\<exists>p\<in>set ps. m = member_of p) \<or> km_State m = ''closed'' \<or> km_State m = ''merged''))"

lemma add_known_source_ok:
  "members_ok ps (fst st) \<Longrightarrow> members_ok ps (fst (add_known_source p st s))"
  by (cases st) (auto simp: members_ok_def add_known_source_def ended_pull_def entity_member_def Let_def)

lemma add_known_sources_ok:
  "members_ok ps (fst st) \<Longrightarrow> members_ok ps (fst (foldl (add_known_source p) st ss))"
  by (induction ss arbitrary: st) (simp_all add: add_known_source_ok)

lemma add_known_pull_ok:
  assumes "members_ok ps (fst st)" "p \<in> set ps"
  shows "members_ok ps (fst (add_known_pull st p))"
  unfolding add_known_pull_def
  by (rule add_known_sources_ok) (use assms in \<open>auto simp: members_ok_def member_of_def\<close>)

lemma add_known_pulls_ok:
  "members_ok ps (fst st) \<Longrightarrow> set qs \<subseteq> set ps \<Longrightarrow> members_ok ps (fst (foldl add_known_pull st qs))"
proof (induction qs arbitrary: st)
  case (Cons q qs)
  then have "members_ok ps (fst (add_known_pull st q))" by (intro add_known_pull_ok) simp_all
  from Cons.IH [OF this] Cons.prems(2) show ?case by simp
qed simp

lemma KnownSources_ok: "members_ok (kr_PullRequests r) (fst (KnownSources r))"
  unfolding KnownSources_def by (rule add_known_pulls_ok) (simp_all add: members_ok_def)

lemma known_own_ids: "own_ids (fst (KnownSources r))"
  using KnownSources_ok [of r] by (simp add: members_ok_def own_ids_def)

lemma ValidateResponse_Inr:
  assumes "ValidateResponse decode hash body (fst (KnownSources r)) (snd (KnownSources r)) = Inr gs"
  obtains cs hs where "validate_groups hash (fst (KnownSources r)) (snd (KnownSources r)) 0 [] cs = Inr hs"
    "length cs \<le> 100" "gs = sort_key kg_ID hs"
  using assms by (auto simp: ValidateResponse_def bindR_eq_Inr failIf_eq_Inr MaxGroupsPerResponse_def)

lemma ValidateResponse_groups:
  assumes "ValidateResponse decode hash body (fst (KnownSources r)) (snd (KnownSources r)) = Inr gs"
  shows "list_all (group_ok hash (fst (KnownSources r)) (snd (KnownSources r))) gs"
proof -
  from assms obtain cs hs where "validate_groups hash (fst (KnownSources r)) (snd (KnownSources r)) 0 [] cs = Inr hs"
    and gs: "gs = sort_key kg_ID hs" by (rule ValidateResponse_Inr)
  from validate_groups_ok [OF known_own_ids this(1)] show ?thesis by (simp add: gs list_all_iff)
qed

text \<open>The open members of a group are pull requests of the request.\<close>

lemma open_member_of_request:
  assumes "group_ok hash (fst (KnownSources r)) known g"
  shows "\<exists>m\<in>set (kg_Members g). km_State m = ''open'' \<and> (\<exists>p\<in>set (kr_PullRequests r). m = member_of p)"
proof -
  from assms obtain m where m: "m \<in> set (kg_Members g)" "km_State m = ''open''"
    "fst (KnownSources r) (km_SourceID m) = Some m"
    by (auto simp: group_ok_def Let_def list_all_iff list_ex_iff)
  with KnownSources_ok [of r] show ?thesis unfolding members_ok_def by fastforce
qed

text \<open>C22. What a model answers is only used when it is grounded: of an accepted answer every group
  has 2 to 50 different members that the request knows, at least one of them open, cites only
  known sources about its members, and its at most 200 different edges connect different members of
  the group and cite sources about their two ends; the groups have different member lists and
  identifiers.\<close>

theorem ValidateResponse_grounded:
  assumes "ValidateResponse decode hash body (fst (KnownSources r)) (snd (KnownSources r)) = Inr gs"
  shows "length gs \<le> 100 \<and> sorted_wrt (<) (map kg_ID gs) \<and> distinct (map (map km_SourceID \<circ> kg_Members) gs) \<and>
    list_all (group_ok hash (fst (KnownSources r)) (snd (KnownSources r))) gs"
proof -
  from assms obtain cs hs where v: "validate_groups hash (fst (KnownSources r)) (snd (KnownSources r)) 0 [] cs = Inr hs"
    and l: "length cs \<le> 100" and gs: "gs = sort_key kg_ID hs"
    by (rule ValidateResponse_Inr)
  note ok = validate_groups_ok [OF known_own_ids v]
  then have d: "distinct (map kg_ID gs)" by (simp add: gs distinct_map)
  note all = ValidateResponse_groups [OF assms]
  have "sorted (map kg_ID gs)" unfolding gs by (rule sorted_sort_key)
  with d have "sorted_wrt (<) (map kg_ID gs)" by (simp add: strict_sorted_iff)
  moreover have "distinct (map (map km_SourceID \<circ> kg_Members) gs)"
  proof -
    have "map kg_ID gs = map (groupID hash) (map (map km_SourceID \<circ> kg_Members) gs)"
      using all by (auto simp: list_all_iff group_ok_def Let_def)
    with d show ?thesis by (metis distinct_map)
  qed
  ultimately show ?thesis using ok l all by (simp add: gs)
qed

definition sample_raw_group :: raw_group where
  "sample_raw_group = \<lparr> rg_Name = ''n'', rg_Description = ''d'', rg_Confidence = ''high'',
     rg_SourceIDs = [''a''], rg_Members = [''b'', ''a''],
     rg_Edges = [\<lparr> ke_From = ''a'', ke_To = ''b'', ke_Type = ''related'', ke_Confidence = ''medium'',
       ke_Reason = ''x'', ke_SourceIDs = [''b''] \<rparr>] \<rparr>"

definition sample_corr_request :: corr_request where
  "sample_corr_request = \<lparr> kr_SchemaVersion = [], kr_PromptVersion = [], kr_InputRevision = [], kr_CollectionID = ''c'',
     kr_Chunk = 1, kr_Chunks = 1,
     kr_PullRequests = [sample_corr_pull\<lparr>cq_SourceID := ''a''\<rparr>, sample_corr_pull\<lparr>cq_SourceID := ''b''\<rparr>] \<rparr>"

theorem ValidateResponse_grounded_witness:
  "map (map km_SourceID \<circ> kg_Members) (projr (ValidateResponse (\<lambda>_. Inr [sample_raw_group]) id []
     (fst (KnownSources sample_corr_request)) (snd (KnownSources sample_corr_request)))) = [[''a'', ''b'']] \<and>
   list_all (group_ok id (fst (KnownSources sample_corr_request)) (snd (KnownSources sample_corr_request)))
     (projr (ValidateResponse (\<lambda>_. Inr [sample_raw_group]) id []
       (fst (KnownSources sample_corr_request)) (snd (KnownSources sample_corr_request))))"
proof -
  let ?r = "ValidateResponse (\<lambda>_. Inr [sample_raw_group]) id []
     (fst (KnownSources sample_corr_request)) (snd (KnownSources sample_corr_request))"
  have "map_sum id (map (map km_SourceID \<circ> kg_Members)) ?r = Inr [[''a'', ''b'']]" by code_simp
  then have r: "?r = Inr (projr ?r)" "map (map km_SourceID \<circ> kg_Members) (projr ?r) = [[''a'', ''b'']]"
    by (cases ?r; simp)+
  from ValidateResponse_grounded [OF r(1)] r(2) show ?thesis by simp
qed

end
