(* ===== verification/CorrelationStore.thy ===== *)
theory CorrelationStore
  imports CorrelationFacts RefreshStore
begin

text \<open>
  Durable correlation (\<open>internal/storage/correlation.go\<close>) and its worker
  (\<open>internal/correlationworker/worker.go\<close>). The columns of a collection that only correlation
  reads are rows \<open>(id, correlation_enabled, model_fallback_provider)\<close>. \<open>parse\<close> parses a stored
  time, \<open>U\<close>, \<open>enc\<close>, \<open>hash\<close> and \<open>decode\<close> are as in the theory Correlation, and a fresh payload
  identifier is an argument (\<open>None\<close> when the random source fails).
\<close>

section \<open>State\<close>

record correlation_payload =
  cl_collection :: string
  cl_forced :: bool

record provenance =
  vp_Provider :: string
  vp_FallbackFrom :: string
  vp_Model :: string
  vp_InputRevision :: string
  vp_SchemaVersion :: string
  vp_PromptVersion :: string
  vp_CorrelatedAt :: time
  vp_PayloadID :: string

record group_row =
  gw_collection :: string
  gw_group :: corr_group
  gw_text_graph :: string
  gw_provenance :: provenance
  gw_correlated_at :: string

record group_member_row =
  gm_collection :: string
  gm_group_id :: string
  gm_source_id :: string
  gm_repository :: string
  gm_number :: int
  gm_state :: string

record corr_state_row =
  kt_collection :: string
  kt_status :: string
  kt_last_attempt_at :: "string option"
  kt_last_success_at :: "string option"
  kt_error :: string
  kt_provider :: string
  kt_model :: string
  kt_input_revision :: string
  kt_schema_version :: string
  kt_prompt_version :: string
  kt_payload_id :: string

record payload_row =
  py_id :: string
  py_request :: string
  py_response :: string
  py_created_at :: string

record correlation_db =
  k_refresh :: refresh_db
  k_settings :: "(string \<times> bool \<times> string) list"
  k_jobs :: "correlation_payload queue"
  k_groups :: "group_row list"
  k_members :: "group_member_row list"
  k_states :: "corr_state_row list"
  k_payloads :: "payload_row list"

abbreviation k_pr :: "correlation_db \<Rightarrow> pr_db" where
  "k_pr db \<equiv> rf_pr (k_refresh db)"

record correlation_job =
  kj_ID :: nat
  kj_CollectionID :: string
  kj_PrimaryProvider :: string
  kj_FallbackProvider :: string
  kj_Forced :: bool
  kj_ScheduledFor :: time

datatype correlation_error =
    KNotFound string | KDisabled string | KTimeParse string | KBuild corr_error
  | KInputsChanged string string | KConstraint string | KPayloadID

section \<open>The queue\<close>

definition setting_of :: "correlation_db \<Rightarrow> string \<Rightarrow> bool \<times> string" where
  "setting_of db c = (case find (\<lambda>x. fst x = c) (k_settings db) of None \<Rightarrow> (False, []) | Some x \<Rightarrow> snd x)"

definition EnqueueCollectionCorrelation ::
  "string \<Rightarrow> bool \<Rightarrow> time \<Rightarrow> correlation_db \<Rightarrow> correlation_error + (nat \<times> nat) \<times> correlation_db" where
  "EnqueueCollectionCorrelation c forced scheduledFor db =
     (if \<not> list_ex (\<lambda>r. c_id r = c \<and> c_active r) (d_collections (k_pr db)) then Inl (KNotFound c)
      else if \<not> fst (setting_of db c) then Inl (KDisabled c)
      else if list_ex (\<lambda>j. active j \<and> cl_collection (j_payload j) = c) (q_jobs (k_jobs db))
      then Inr ((0, 1), if forced then db\<lparr>k_jobs := (k_jobs db)\<lparr>q_jobs := update_where
             (\<lambda>j. cl_collection (j_payload j) = c \<and> j_status j = Queued)
             (\<lambda>j. j\<lparr>j_payload := (j_payload j)\<lparr>cl_forced := True\<rparr>\<rparr>) (q_jobs (k_jobs db))\<rparr>\<rparr> else db)
      else Inr ((1, 0), db\<lparr>k_jobs := snd (enqueue_job cl_collection
             \<lparr> cl_collection = c, cl_forced = forced \<rparr> scheduledFor (k_jobs db))\<rparr>))"

definition RecoverCorrelationJobs :: "correlation_db \<Rightarrow> correlation_db" where
  "RecoverCorrelationJobs db = db\<lparr>k_jobs := recover_jobs (k_jobs db)\<rparr>"

definition CompleteCorrelationJob :: "nat \<Rightarrow> time \<Rightarrow> correlation_db \<Rightarrow> correlation_db" where
  "CompleteCorrelationJob i now db = db\<lparr>k_jobs := finish_job i now (k_jobs db)\<rparr>"

text \<open>No repository of the collection has refresh work that is queued or running.\<close>

definition refresh_idle :: "correlation_db \<Rightarrow> string \<Rightarrow> bool" where
  "refresh_idle db c \<longleftrightarrow>
     \<not> list_ex (\<lambda>x. fst x = c \<and> list_ex (\<lambda>j. active j \<and> rp_repository (j_payload j) = snd x)
        (q_jobs (rf_jobs (k_refresh db)))) (d_repositories (k_pr db))"

definition may_correlate :: "correlation_db \<Rightarrow> string \<Rightarrow> bool" where
  "may_correlate db c \<longleftrightarrow>
     list_ex (\<lambda>r. c_id r = c \<and> c_active r) (d_collections (k_pr db)) \<and> fst (setting_of db c) \<and> refresh_idle db c"

definition select_correlation :: "time \<Rightarrow> correlation_db \<Rightarrow> correlation_payload job_row option" where
  "select_correlation now db =
     select_due now ((k_jobs db)\<lparr>q_jobs := filter (\<lambda>j. may_correlate db (cl_collection (j_payload j))) (q_jobs (k_jobs db))\<rparr>)"

definition provider_of :: "correlation_db \<Rightarrow> string \<Rightarrow> string" where
  "provider_of db c =
     (case find (\<lambda>r. c_id r = c) (d_collections (k_pr db)) of None \<Rightarrow> [] | Some r \<Rightarrow> c_model_provider r)"

definition ClaimCorrelation ::
  "(string \<Rightarrow> time option) \<Rightarrow> time \<Rightarrow> correlation_db \<Rightarrow> (correlation_error + correlation_job option) \<times> correlation_db" where
  "ClaimCorrelation parse now db =
     (case select_correlation now db of
        None \<Rightarrow> (Inr None, db)
      | Some r \<Rightarrow>
         (let c = cl_collection (j_payload r) in
          case parse (j_scheduled_for r) of
            None \<Rightarrow> (Inl (KTimeParse (j_scheduled_for r)), db)
          | Some t \<Rightarrow> (Inr (Some \<lparr> kj_ID = j_id r, kj_CollectionID = c, kj_PrimaryProvider = provider_of db c,
               kj_FallbackProvider = snd (setting_of db c), kj_Forced = cl_forced (j_payload r), kj_ScheduledFor = t \<rparr>),
               db\<lparr>k_jobs := start_job (j_id r) now (k_jobs db)\<rparr>)))"

section \<open>Requests from the published pull requests\<close>

definition correlation_kinds :: "string list" where
  "correlation_kinds = [''closing_issue'', ''cross_reference'', ''associated_pull_request'']"

definition entity_of :: "(string \<Rightarrow> string) \<Rightarrow> relationship \<Rightarrow> string" where
  "entity_of U r =
     EntitySourceID U (if rel_Kind r = ''associated_pull_request'' then ''pr''
        else if Contains (rel_URL r) ''/pull/'' then ''pr'' else ''issue'') (rel_SourceRepository r) (rel_SourceNumber r)"

definition source_of :: "(string \<Rightarrow> string) \<Rightarrow> relationship \<Rightarrow> corr_source" where
  "source_of U r = \<lparr> cs_ID = rel_SourceID r, cs_Kind = rel_Kind r, cs_EntityID = entity_of U r,
     cs_Repository = rel_SourceRepository r, cs_Number = rel_SourceNumber r, cs_Title = rel_Title r,
     cs_State = rel_State r, cs_URL = rel_URL r \<rparr>"

definition open_pull :: "(string \<Rightarrow> string) \<Rightarrow> pr_db \<Rightarrow> pull_row \<Rightarrow> corr_pull" where
  "open_pull U db p =
     \<lparr> cq_SourceID = PullRequestSourceID (pu_repository p) (pu_number p), cq_Repository = pu_repository p,
       cq_Number = pu_number p, cq_Title = pu_title p, cq_Author = pu_author p, cq_URL = pu_url p,
       cq_State = ''open'',
       cq_Files = sort (map (\<lambda>x. f_Path (snd x)) (filter (\<lambda>x. fst x = pull_key p) (d_files db))),
       cq_Relationships = map (source_of U) (sort_key rel_SourceID (map snd (filter (\<lambda>x. fst x = pull_key p \<and>
         rel_Kind (snd x) \<in> set correlation_kinds) (d_relationships db)))) \<rparr>"

definition collection_pulls :: "pr_db \<Rightarrow> string \<Rightarrow> pull_row list" where
  "collection_pulls db c =
     sort_key pu_repository (sort_key pu_number
       (filter (\<lambda>p. (c, pull_key p) \<in> set (d_members db)) (d_pulls db)))"

definition BuildCorrelationRequests ::
  "(string \<Rightarrow> string) \<Rightarrow> (string \<times> nat \<times> nat \<times> corr_pull list \<Rightarrow> string) \<Rightarrow> (string \<Rightarrow> string) \<Rightarrow> string \<Rightarrow>
   correlation_db \<Rightarrow> correlation_error + corr_request list" where
  "BuildCorrelationRequests U enc hash c db =
     (case BuildRequests enc hash \<lparr> ki_CollectionID = c,
         ki_PullRequests = map (open_pull U (k_pr db)) (collection_pulls (k_pr db) c) \<rparr> of
        Inl e \<Rightarrow> Inl (KBuild e) | Inr rs \<Rightarrow> Inr rs)"

definition correlationInputRevision :: "(string \<Rightarrow> string) \<Rightarrow> corr_request list \<Rightarrow> string" where
  "correlationInputRevision hash rs = hash (Join (sort (map kr_InputRevision rs)) [CHR 0x00])"

section \<open>Recording results\<close>

definition group_storable :: "corr_group \<Rightarrow> bool" where
  "group_storable g \<longleftrightarrow> validConfidence (kg_Confidence g) \<and> distinct (map km_SourceID (kg_Members g)) \<and>
     list_all (\<lambda>m. 0 < km_Number m) (kg_Members g)"

definition member_row :: "string \<Rightarrow> corr_group \<Rightarrow> corr_member \<Rightarrow> group_member_row" where
  "member_row c g m = \<lparr> gm_collection = c, gm_group_id = kg_ID g, gm_source_id = km_SourceID m,
     gm_repository = km_Repository m, gm_number = km_Number m, gm_state = km_State m \<rparr>"

text \<open>Deleting the groups of a collection cascades to their members.\<close>

definition replaceCorrelationGroupsTx ::
  "string \<Rightarrow> corr_group list \<Rightarrow> provenance \<Rightarrow> correlation_db \<Rightarrow> correlation_error + correlation_db" where
  "replaceCorrelationGroupsTx c groups p db =
     failIf (groups \<noteq> [] \<and> \<not> list_ex (\<lambda>r. c_id r = c) (d_collections (k_pr db))) (KConstraint ''correlation_groups'')
    (failIf (\<not> distinct (map kg_ID groups) \<or> \<not> list_all group_storable groups) (KConstraint ''correlation_groups'')
     (Inr (db\<lparr> k_groups := delete_where (\<lambda>r. gw_collection r = c) (k_groups db) @
         map (\<lambda>g. \<lparr> gw_collection = c, gw_group = g, gw_text_graph = TextGraph g, gw_provenance = p,
            gw_correlated_at = formatTime (vp_CorrelatedAt p) \<rparr>) groups,
       k_members := delete_where (\<lambda>r. gm_collection r = c) (k_members db) @
         concat (map (\<lambda>g. map (member_row c g) (kg_Members g)) groups) \<rparr>)))"

definition ReplaceCorrelationGroups ::
  "string \<Rightarrow> corr_group list \<Rightarrow> provenance \<Rightarrow> correlation_db \<Rightarrow> correlation_error + correlation_db" where
  "ReplaceCorrelationGroups c groups p db = replaceCorrelationGroupsTx c groups p db"

definition retain_payload ::
  "string \<Rightarrow> string \<Rightarrow> string \<Rightarrow> time \<Rightarrow> correlation_db \<Rightarrow> correlation_error + correlation_db" where
  "retain_payload i request response at db =
     failIf (list_ex (\<lambda>r. py_id r = i) (k_payloads db)) (KConstraint ''retained_model_payloads'')
      (Inr (db\<lparr>k_payloads := k_payloads db @ [\<lparr> py_id = i, py_request = request, py_response = response,
         py_created_at = formatTime at \<rparr>]\<rparr>))"

definition upsert_state ::
  "(corr_state_row \<Rightarrow> corr_state_row \<Rightarrow> corr_state_row) \<Rightarrow> corr_state_row \<Rightarrow> correlation_db \<Rightarrow> correlation_error + correlation_db" where
  "upsert_state m r db =
     failIf (\<not> list_ex (\<lambda>x. c_id x = kt_collection r) (d_collections (k_pr db))) (KConstraint ''correlation_state'')
      (Inr (db\<lparr>k_states := upsert kt_collection m r (k_states db)\<rparr>))"

definition RecordCorrelationSuccess ::
  "(string \<Rightarrow> string) \<Rightarrow> (string \<times> nat \<times> nat \<times> corr_pull list \<Rightarrow> string) \<Rightarrow> (string \<Rightarrow> string) \<Rightarrow> string option \<Rightarrow>
   correlation_job \<Rightarrow> corr_request list \<Rightarrow> corr_group list \<Rightarrow> string \<Rightarrow> string \<Rightarrow> string \<Rightarrow> string \<Rightarrow> string \<Rightarrow> time \<Rightarrow>
   correlation_db \<Rightarrow> correlation_error + correlation_db" where
  "RecordCorrelationSuccess U enc hash pid job requests groups provider fallbackFrom model requestBody responseBody at db =
     (case pid of
        None \<Rightarrow> Inl KPayloadID
      | Some i \<Rightarrow>
         (let c = kj_CollectionID job; revision = correlationInputRevision hash requests;
              p = \<lparr> vp_Provider = provider, vp_FallbackFrom = fallbackFrom, vp_Model = model,
                vp_InputRevision = revision, vp_SchemaVersion = ''correlation.v1'',
                vp_PromptVersion = ''correlation-prompt.v1'', vp_CorrelatedAt = at, vp_PayloadID = i \<rparr>
          in bindR (BuildCorrelationRequests U enc hash c db) (\<lambda>current.
             failIf (correlationInputRevision hash current \<noteq> revision)
               (KInputsChanged revision (correlationInputRevision hash current))
            (bindR (retain_payload i requestBody responseBody at db) (\<lambda>db1.
             bindR (replaceCorrelationGroupsTx c groups p db1) (\<lambda>db2.
             upsert_state (\<lambda>old new. new)
               \<lparr> kt_collection = c, kt_status = ''complete'', kt_last_attempt_at = Some (formatTime at),
                 kt_last_success_at = Some (formatTime at), kt_error = [], kt_provider = provider, kt_model = model,
                 kt_input_revision = revision, kt_schema_version = ''correlation.v1'',
                 kt_prompt_version = ''correlation-prompt.v1'', kt_payload_id = i \<rparr> db2))))))"

definition RecordCorrelationFailure ::
  "string option \<Rightarrow> correlation_job \<Rightarrow> string \<Rightarrow> string \<Rightarrow> string \<Rightarrow> string \<Rightarrow> time \<Rightarrow> string \<Rightarrow> correlation_db \<Rightarrow>
   correlation_error + correlation_db" where
  "RecordCorrelationFailure pid job provider model requestBody responseBody at message db =
     bindR (if requestBody \<noteq> [] \<or> responseBody \<noteq> []
        then (case pid of None \<Rightarrow> Inl KPayloadID
          | Some i \<Rightarrow> bindR (retain_payload i requestBody responseBody at db) (\<lambda>d. Inr (i, d)))
        else Inr ([], db)) (\<lambda>(i, db1).
     upsert_state (\<lambda>old new. new\<lparr> kt_last_success_at := kt_last_success_at old, kt_input_revision := kt_input_revision old \<rparr>)
       \<lparr> kt_collection = kj_CollectionID job, kt_status = ''failed'', kt_last_attempt_at = Some (formatTime at),
         kt_last_success_at = None, kt_error = message, kt_provider = provider, kt_model = model,
         kt_input_revision = [], kt_schema_version = ''correlation.v1'', kt_prompt_version = ''correlation-prompt.v1'',
         kt_payload_id = i \<rparr> db1)"

end
