(* ===== verification/CorrelationWorker.thy ===== *)
theory CorrelationWorker
  imports CorrelationStore
begin

text \<open>
  Reading correlation state (\<open>internal/storage/correlation.go\<close>) and the correlation worker
  (\<open>internal/correlationworker/worker.go\<close>). A provider is a function from a request to its
  answer; \<open>encB\<close> encodes a list of raw bodies. Between building the requests and recording the
  result other operations may change the store: this is the function \<open>env\<close>.
\<close>

section \<open>Reading groups and status\<close>

record correlation_group =
  xg_Group :: corr_group
  xg_OpenMemberCount :: nat
  xg_TextGraph :: string
  xg_Provenance :: provenance

record group_summary =
  xs_ID :: string
  xs_Name :: string
  xs_Description :: string
  xs_OpenMemberCount :: nat
  xs_Confidence :: string
  xs_Provider :: string
  xs_Model :: string
  xs_CorrelatedAt :: time

record correlation_status =
  xt_State :: string
  xt_Error :: string
  xt_LastAttempt :: "time option"
  xt_LastSuccess :: "time option"
  xt_Queued :: nat
  xt_Running :: nat
  xt_Oldest :: "time option"

record correlation_queue_status =
  xq_Queued :: nat
  xq_Running :: nat
  xq_Failures :: nat
  xq_Oldest :: "time option"
  xq_LastResult :: "time option"

definition open_member_count :: "corr_group \<Rightarrow> nat" where
  "open_member_count g = count_where (\<lambda>m. km_State m = ''open'') (kg_Members g)"

definition group_of_row :: "(string \<Rightarrow> time option) \<Rightarrow> group_row \<Rightarrow> correlation_error + correlation_group" where
  "group_of_row parse r =
     (case parse (gw_correlated_at r) of
        None \<Rightarrow> Inl (KTimeParse (gw_correlated_at r))
      | Some t \<Rightarrow> Inr \<lparr> xg_Group = gw_group r, xg_OpenMemberCount = open_member_count (gw_group r),
          xg_TextGraph = gw_text_graph r, xg_Provenance = (gw_provenance r)\<lparr>vp_CorrelatedAt := t\<rparr> \<rparr>)"

definition ListCorrelationGroups ::
  "(string \<Rightarrow> time option) \<Rightarrow> string \<Rightarrow> correlation_db \<Rightarrow> correlation_error + correlation_group list" where
  "ListCorrelationGroups parse c db =
     failIf (\<not> list_ex (\<lambda>r. c_id r = c \<and> c_active r) (d_collections (k_pr db))) (KNotFound c)
      (collectR (group_of_row parse)
        (sort_key (\<lambda>r. kg_Name (gw_group r)) (sort_key (\<lambda>r. kg_ID (gw_group r))
          (filter (\<lambda>r. gw_collection r = c) (k_groups db)))))"

definition GetCorrelationGroup ::
  "(string \<Rightarrow> time option) \<Rightarrow> string \<Rightarrow> string \<Rightarrow> correlation_db \<Rightarrow> correlation_error + correlation_group option" where
  "GetCorrelationGroup parse c g db =
     bindR (ListCorrelationGroups parse c db) (\<lambda>groups. Inr (find (\<lambda>x. kg_ID (xg_Group x) = g) groups))"

text \<open>The join of the groups with the target member and all members, grouped by group.\<close>

definition correlationGroupsForPullRequest ::
  "(string \<Rightarrow> time option) \<Rightarrow> string \<Rightarrow> string \<Rightarrow> int \<Rightarrow> correlation_db \<Rightarrow> correlation_error + group_summary list" where
  "correlationGroupsForPullRequest parse c repository number db =
     (let members = (\<lambda>r. filter (\<lambda>m. gm_collection m = c \<and> gm_group_id m = kg_ID (gw_group r)) (k_members db));
          targets = (\<lambda>r. count_where (\<lambda>m. gm_repository m = repository \<and> gm_number m = number) (members r));
          rows = filter (\<lambda>r. gw_collection r = c \<and> 0 < targets r) (k_groups db)
      in collectR (\<lambda>r. case parse (gw_correlated_at r) of
            None \<Rightarrow> Inl (KTimeParse (gw_correlated_at r))
          | Some t \<Rightarrow> Inr \<lparr> xs_ID = kg_ID (gw_group r), xs_Name = kg_Name (gw_group r),
              xs_Description = kg_Description (gw_group r),
              xs_OpenMemberCount = targets r * count_where (\<lambda>m. gm_state m = ''open'') (members r),
              xs_Confidence = kg_Confidence (gw_group r), xs_Provider = vp_Provider (gw_provenance r),
              xs_Model = vp_Model (gw_provenance r), xs_CorrelatedAt = t \<rparr>)
          (sort_key (\<lambda>r. kg_Name (gw_group r)) (sort_key (\<lambda>r. kg_ID (gw_group r)) rows)))"

definition parse_stored :: "(string \<Rightarrow> time option) \<Rightarrow> string option \<Rightarrow> correlation_error + time option" where
  "parse_stored parse v =
     (case v of None \<Rightarrow> Inr None
      | Some s \<Rightarrow> (case parse s of None \<Rightarrow> Inl (KTimeParse s) | Some t \<Rightarrow> Inr (Some t)))"

definition oldest_of :: "string list \<Rightarrow> string option" where
  "oldest_of ts = (if ts = [] then None else Some (Min (set ts)))"

definition CorrelationStatus ::
  "(string \<Rightarrow> time option) \<Rightarrow> string \<Rightarrow> correlation_db \<Rightarrow> correlation_error + correlation_status" where
  "CorrelationStatus parse c db =
     (let row = find (\<lambda>r. kt_collection r = c) (k_states db);
          jobs = (\<lambda>s. filter (\<lambda>j. cl_collection (j_payload j) = c \<and> j_status j = s) (q_jobs (k_jobs db)))
      in bindR (parse_stored parse (case row of None \<Rightarrow> None | Some r \<Rightarrow> kt_last_attempt_at r)) (\<lambda>attempt.
         bindR (parse_stored parse (case row of None \<Rightarrow> None | Some r \<Rightarrow> kt_last_success_at r)) (\<lambda>success.
         bindR (parse_stored parse (oldest_of (map j_scheduled_for (jobs Queued)))) (\<lambda>oldest.
         Inr \<lparr> xt_State = (case row of None \<Rightarrow> ''never'' | Some r \<Rightarrow> kt_status r),
           xt_Error = (case row of None \<Rightarrow> [] | Some r \<Rightarrow> kt_error r), xt_LastAttempt = attempt,
           xt_LastSuccess = success, xt_Queued = length (jobs Queued), xt_Running = length (jobs Running),
           xt_Oldest = oldest \<rparr>))))"

definition ListCorrelationStatuses ::
  "(string \<Rightarrow> time option) \<Rightarrow> correlation_db \<Rightarrow> correlation_error + (string \<times> correlation_status) list" where
  "ListCorrelationStatuses parse db =
     collectR (\<lambda>c. bindR (CorrelationStatus parse c db) (\<lambda>s. Inr (c, s)))
       (sort (map c_id (filter (\<lambda>r. c_active r \<and> fst (setting_of db (c_id r))) (d_collections (k_pr db)))))"

definition earlier_of :: "time option \<Rightarrow> time option \<Rightarrow> time option" where
  "earlier_of old new = (case new of None \<Rightarrow> old
     | Some t \<Rightarrow> (case old of None \<Rightarrow> Some t | Some u \<Rightarrow> if t < u then Some t else old))"

definition later_of :: "time option \<Rightarrow> time option \<Rightarrow> time option" where
  "later_of old new = (case new of None \<Rightarrow> old
     | Some t \<Rightarrow> (case old of None \<Rightarrow> Some t | Some u \<Rightarrow> if u < t then Some t else old))"

definition CorrelationQueueStatus ::
  "(string \<Rightarrow> time option) \<Rightarrow> correlation_db \<Rightarrow> correlation_error + correlation_queue_status" where
  "CorrelationQueueStatus parse db =
     bindR (ListCorrelationStatuses parse db) (\<lambda>statuses. Inr (foldl (\<lambda>r (_, s).
       r\<lparr> xq_Queued := xq_Queued r + xt_Queued s, xq_Running := xq_Running r + xt_Running s,
          xq_Failures := xq_Failures r + (if xt_State s = ''failed'' \<or> xt_State s = ''unknown'' then 1 else 0),
          xq_Oldest := earlier_of (xq_Oldest r) (xt_Oldest s),
          xq_LastResult := later_of (xq_LastResult r) (xt_LastSuccess s) \<rparr>)
       \<lparr> xq_Queued = 0, xq_Running = 0, xq_Failures = 0, xq_Oldest = None, xq_LastResult = None \<rparr> statuses))"

section \<open>The worker\<close>

text \<open>What a provider answers; \<open>pa_Output\<close> is \<open>None\<close> when it fails.\<close>

record provider_answer =
  pa_Model :: string
  pa_RequestBody :: string
  pa_ResponseBody :: string
  pa_Output :: "string option"

type_synonym corr_provider = "corr_request \<Rightarrow> provider_answer"

record corr_worker =
  cw_providers :: "string \<Rightarrow> corr_provider option"
  cw_upper :: "string \<Rightarrow> string"
  cw_enc :: "string \<times> nat \<times> nat \<times> corr_pull list \<Rightarrow> string"
  cw_hash :: "string \<Rightarrow> string"
  cw_decode :: "string \<Rightarrow> corr_error + raw_group list"
  cw_bodies :: "string list \<Rightarrow> string"
  cw_payload_id :: "string option"

text \<open>\<open>lastProvider\<close>, \<open>lastModel\<close>, \<open>lastRequest\<close> and \<open>lastResponse\<close>.\<close>

record attempt_state =
  as_provider :: string
  as_model :: string
  as_request :: string
  as_response :: string

definition append_body :: "string list \<Rightarrow> string \<Rightarrow> string list" where
  "append_body bodies b = (if b = [] then bodies else bodies @ [b])"

text \<open>The groups of one chunk, unless one of them appeared in an earlier chunk.\<close>

definition accept_chunk :: "corr_worker \<Rightarrow> string list \<Rightarrow> corr_request \<Rightarrow> provider_answer \<Rightarrow> corr_group list option" where
  "accept_chunk w ids request a =
     (case pa_Output a of
        None \<Rightarrow> None
      | Some output \<Rightarrow>
         (case ValidateResponse (cw_decode w) (cw_hash w) output (fst (KnownSources request)) (snd (KnownSources request)) of
            Inl e \<Rightarrow> None
          | Inr gs \<Rightarrow> if list_ex (\<lambda>g. kg_ID g \<in> set ids) gs then None else Some gs))"

fun correlate_chunks ::
  "corr_worker \<Rightarrow> string \<Rightarrow> corr_provider \<Rightarrow> corr_request list \<Rightarrow> corr_group list \<Rightarrow> string list \<Rightarrow> string list \<Rightarrow>
   attempt_state \<Rightarrow> corr_group list option \<times> attempt_state" where
  "correlate_chunks w name provider [] groups reqs resps latest = (Some groups, latest)"
| "correlate_chunks w name provider (r # rs) groups reqs resps latest =
     (let a = provider r; reqs1 = append_body reqs (pa_RequestBody a); resps1 = append_body resps (pa_ResponseBody a);
          latest1 = \<lparr> as_provider = name, as_model = pa_Model a, as_request = cw_bodies w reqs1,
            as_response = cw_bodies w resps1 \<rparr>
      in case accept_chunk w (map kg_ID groups) r a of
           None \<Rightarrow> (None, latest1)
         | Some gs \<Rightarrow> correlate_chunks w name provider rs (groups @ gs) reqs1 resps1 latest1)"

text \<open>The answer of the first provider whose chunks are all accepted, with its name.\<close>

fun try_providers ::
  "corr_worker \<Rightarrow> corr_request list \<Rightarrow> string list \<Rightarrow> attempt_state \<Rightarrow> (string \<times> corr_group list) option \<times> attempt_state" where
  "try_providers w rs [] latest = (None, latest)"
| "try_providers w rs (n # ns) latest =
     (case cw_providers w n of
        None \<Rightarrow> try_providers w rs ns (latest\<lparr>as_provider := n\<rparr>)
      | Some provider \<Rightarrow>
         (case correlate_chunks w n provider rs [] [] [] latest of
            (Some groups, latest1) \<Rightarrow> (Some (n, groups), latest1)
          | (None, latest1) \<Rightarrow> try_providers w rs ns latest1))"

definition failure_message :: string where
  "failure_message = ''Model provider unavailable or returned invalid correlation data; the last successful groups remain available.''"

definition correlation_process ::
  "corr_worker \<Rightarrow> (correlation_db \<Rightarrow> correlation_db) \<Rightarrow> correlation_job \<Rightarrow> time \<Rightarrow> correlation_db \<Rightarrow>
   correlation_error option \<times> correlation_db" where
  "correlation_process w env job now db =
     (case BuildCorrelationRequests (cw_upper w) (cw_enc w) (cw_hash w) (kj_CollectionID job) db of
        Inl e \<Rightarrow> (Some e, db)
      | Inr requests \<Rightarrow>
         (let names = kj_PrimaryProvider job # (if kj_FallbackProvider job \<noteq> [] then [kj_FallbackProvider job] else []);
              db1 = env db;
              record_success = RecordCorrelationSuccess (cw_upper w) (cw_enc w) (cw_hash w) (cw_payload_id w) job requests;
              r = (if requests = [] then record_success [] (kj_PrimaryProvider job) [] [] ''[]'' ''[]'' now db1
                else case try_providers w requests names \<lparr> as_provider = [], as_model = [], as_request = [], as_response = [] \<rparr> of
                  (Some (n, groups), latest) \<Rightarrow> record_success groups n
                     (if n \<noteq> kj_PrimaryProvider job then kj_PrimaryProvider job else []) (as_model latest)
                     (as_request latest) (as_response latest) now db1
                | (None, latest) \<Rightarrow> RecordCorrelationFailure (cw_payload_id w) job (as_provider latest) (as_model latest)
                     (as_request latest) (as_response latest) now failure_message db1)
          in case r of Inl e \<Rightarrow> (Some e, db1) | Inr db2 \<Rightarrow> (None, db2)))"

text \<open>One round; a changed input completes the job and queues another one.\<close>

definition CorrelationRunOnce ::
  "(string \<Rightarrow> time option) \<Rightarrow> corr_worker \<Rightarrow> (correlation_db \<Rightarrow> correlation_db) \<Rightarrow> time \<Rightarrow> time \<Rightarrow> correlation_db \<Rightarrow>
   correlation_error option \<times> correlation_db" where
  "CorrelationRunOnce parse w env now later db =
     (case ClaimCorrelation parse now db of
        (Inl e, db0) \<Rightarrow> (Some e, db0)
      | (Inr None, db0) \<Rightarrow> (None, db0)
      | (Inr (Some job), db0) \<Rightarrow>
         (case correlation_process w env job now db0 of
            (None, db1) \<Rightarrow> (None, CompleteCorrelationJob (kj_ID job) later db1)
          | (Some (KInputsChanged a b), db1) \<Rightarrow>
             (let db2 = CompleteCorrelationJob (kj_ID job) later db1 in
              case EnqueueCollectionCorrelation (kj_CollectionID job) False later db2 of
                Inl e \<Rightarrow> (Some e, db2)
              | Inr (_, db3) \<Rightarrow> (None, db3))
          | (Some e, db1) \<Rightarrow> (Some e, db1)))"

text \<open>\<open>Run\<close> up to a cancellation: each round has its times and the changes made meanwhile.\<close>

fun correlation_rounds ::
  "(string \<Rightarrow> time option) \<Rightarrow> corr_worker \<Rightarrow> (time \<times> time \<times> (correlation_db \<Rightarrow> correlation_db)) list \<Rightarrow> correlation_db \<Rightarrow>
   correlation_error option \<times> correlation_db" where
  "correlation_rounds parse w [] db = (None, db)"
| "correlation_rounds parse w ((now, later, env) # ts) db =
     (case CorrelationRunOnce parse w env now later db of
        (Some e, db1) \<Rightarrow> (Some e, db1)
      | (None, db1) \<Rightarrow> correlation_rounds parse w ts db1)"

definition CorrelationRun ::
  "(string \<Rightarrow> time option) \<Rightarrow> corr_worker \<Rightarrow> (time \<times> time \<times> (correlation_db \<Rightarrow> correlation_db)) list \<Rightarrow> correlation_db \<Rightarrow>
   correlation_error option \<times> correlation_db" where
  "CorrelationRun parse w ts db = correlation_rounds parse w ts (RecoverCorrelationJobs db)"

end
