(* ===== verification/CorrelationProps.thy ===== *)
theory CorrelationProps
  imports CorrelationWorker RefreshProps
begin

text \<open>
  Groups are only published for the inputs they were inferred from, and no changed input is
  lost.
\<close>

section \<open>What the worker accepts\<close>

definition grounded_in :: "corr_worker \<Rightarrow> corr_request list \<Rightarrow> corr_group \<Rightarrow> bool" where
  "grounded_in w rs g \<longleftrightarrow>
     list_ex (\<lambda>r. group_ok (cw_hash w) (fst (KnownSources r)) (snd (KnownSources r)) g) rs"

lemma accept_chunk_grounded:
  assumes "accept_chunk w ids r a = Some gs" "r \<in> set rs" "g \<in> set gs"
  shows "grounded_in w rs g"
proof -
  from assms(1) obtain out where
    "ValidateResponse (cw_decode w) (cw_hash w) out (fst (KnownSources r)) (snd (KnownSources r)) = Inr gs"
    by (auto simp: accept_chunk_def split: option.splits sum.splits if_splits)
  from ValidateResponse_groups [OF this] assms(2,3) show ?thesis
    by (auto simp: grounded_in_def list_ex_iff list_all_iff)
qed

lemma correlate_chunks_grounded:
  assumes "correlate_chunks w n provider rs groups reqs resps st = (Some gs, st')" "set rs \<subseteq> set all"
    "\<forall>g\<in>set groups. grounded_in w all g"
  shows "\<forall>g\<in>set gs. grounded_in w all g"
  using assms
proof (induction rs arbitrary: groups reqs resps st)
  case (Cons r rs)
  from Cons.prems(1) obtain hs reqs1 resps1 st1 where h: "accept_chunk w (map kg_ID groups) r (provider r) = Some hs"
    and rest: "correlate_chunks w n provider rs (groups @ hs) reqs1 resps1 st1 = (Some gs, st')"
    by (auto simp: Let_def split: option.splits)
  from accept_chunk_grounded [OF h, of all] Cons.prems(2,3) have "\<forall>g\<in>set (groups @ hs). grounded_in w all g" by auto
  from Cons.IH [OF rest _ this] Cons.prems(2) show ?case by simp
qed simp

lemma try_providers_grounded:
  "try_providers w rs ns st = (Some (n, gs), st') \<Longrightarrow> \<forall>g\<in>set gs. grounded_in w rs g"
proof (induction ns arbitrary: st)
  case (Cons m ns)
  show ?case
  proof (cases "cw_providers w m")
    case None
    with Cons show ?thesis by simp
  next
    case (Some provider)
    obtain r st1 where c: "correlate_chunks w m provider rs [] [] [] st = (r, st1)"
      by (cases "correlate_chunks w m provider rs [] [] [] st")
    show ?thesis
    proof (cases r)
      case None
      with Cons Some c show ?thesis by simp
    next
      case (Some hs)
      with Cons.prems \<open>cw_providers w m = Some provider\<close> c have "hs = gs" by simp
      with correlate_chunks_grounded [OF c [unfolded Some], of rs] show ?thesis by simp
    qed
  qed
qed simp

section \<open>Requests and the store\<close>

lemma built_pull:
  assumes "BuildCorrelationRequests U enc hash c db = Inr rs" "r \<in> set rs" "p \<in> set (kr_PullRequests r)"
  shows "(c, cq_Repository p, cq_Number p) \<in> set (d_members (k_pr db))"
proof -
  from assms(1) have "BuildRequests enc hash \<lparr> ki_CollectionID = c,
     ki_PullRequests = map (open_pull U (k_pr db)) (collection_pulls (k_pr db) c) \<rparr> = Inr rs"
    by (auto simp: BuildCorrelationRequests_def split: sum.splits)
  then obtain ps where b: "bound_pulls 0 (sort_key cq_SourceID (map (open_pull U (k_pr db)) (collection_pulls (k_pr db) c))) = Inr ps"
    and rs: "rs = map (request_of enc hash c ps (chunk_count ps)) [0..<chunk_count ps]"
    by (rule BuildRequests_Inr) simp
  from assms(2,3) have "p \<in> set (concat (map kr_PullRequests rs))" by auto
  then have "p \<in> set ps" unfolding rs by (simp only: requests_concat)
  with bound_pulls_Inr [OF b] obtain row where "row \<in> set (collection_pulls (k_pr db) c)"
    "p = bound_pull (open_pull U (k_pr db) row)" by auto
  then show ?thesis by (simp add: collection_pulls_def bound_pull_def open_pull_def pull_key_def)
qed

lemma built_revision:
  assumes "BuildCorrelationRequests U enc hash c db = Inr rs" "r \<in> set rs"
  shows "\<exists>x. kr_InputRevision r = hash x"
  using assms by (auto simp: BuildCorrelationRequests_def request_of_def split: sum.splits elim!: BuildRequests_Inr) blast

lemma same_revision:
  assumes "inj hash" "\<And>x. hash x \<noteq> [] \<and> CHR 0x00 \<notin> set (hash x)"
    and "\<And>r. r \<in> set rs \<Longrightarrow> \<exists>x. kr_InputRevision r = hash x" "\<And>r. r \<in> set ss \<Longrightarrow> \<exists>x. kr_InputRevision r = hash x"
    and "correlationInputRevision hash ss = correlationInputRevision hash rs" "r \<in> set rs"
  shows "\<exists>s\<in>set ss. kr_InputRevision r = kr_InputRevision s"
proof -
  let ?a = "sort (map kr_InputRevision rs)" and ?b = "sort (map kr_InputRevision ss)"
  have j: "Join ?a [CHR 0x00] = Join ?b [CHR 0x00]"
    using assms(1,5) by (simp add: correlationInputRevision_def inj_def)
  have a: "v \<noteq> [] \<and> CHR 0x00 \<notin> set v" if v: "v \<in> set ?a" for v
  proof -
    from v obtain r where "r \<in> set rs" "v = kr_InputRevision r" by auto
    with assms(3) obtain x where "v = hash x" by blast
    with assms(2) show ?thesis by simp
  qed
  have b: "v \<noteq> [] \<and> CHR 0x00 \<notin> set v" if v: "v \<in> set ?b" for v
  proof -
    from v obtain r where "r \<in> set ss" "v = kr_InputRevision r" by auto
    with assms(4) obtain x where "v = hash x" by blast
    with assms(2) show ?thesis by simp
  qed
  have ne: "?a \<noteq> []" using assms(6) by (metis empty_iff empty_set image_is_empty set_map set_sort)
  have "?b \<noteq> []"
  proof
    assume "?b = []"
    with j have "Join ?a [CHR 0x00] = []" by simp
    from Join_eq_Nil [OF this] ne a [of "hd ?a"] show False by (metis list.set_sel(1))
  qed
  from Join_inj [OF ne this _ _ j] a b have "?a = ?b" by blast
  then have "set ?a = set ?b" by simp
  with assms(6) show ?thesis by fastforce
qed

lemma replace_groups_Inr:
  "replaceCorrelationGroupsTx c gs p db = Inr db' \<Longrightarrow>
     k_refresh db' = k_refresh db \<and> k_jobs db' = k_jobs db \<and> k_settings db' = k_settings db \<and>
     filter (\<lambda>r. gw_collection r \<noteq> c) (k_groups db') = filter (\<lambda>r. gw_collection r \<noteq> c) (k_groups db) \<and>
     map gw_group (filter (\<lambda>r. gw_collection r = c) (k_groups db')) = gs"
  by (auto simp: replaceCorrelationGroupsTx_def failIf_eq_Inr delete_where_def filter_map comp_def)

text \<open>Payloads and states aside, nothing changes.\<close>

definition same_tables :: "correlation_db \<Rightarrow> correlation_db \<Rightarrow> bool" where
  "same_tables a b \<longleftrightarrow> k_refresh a = k_refresh b \<and> k_jobs a = k_jobs b \<and> k_settings a = k_settings b \<and> k_groups a = k_groups b"

lemma retain_payload_same: "retain_payload i rb sb at db = Inr db' \<Longrightarrow> same_tables db' db"
  by (auto simp: retain_payload_def failIf_eq_Inr same_tables_def)

lemma upsert_state_same: "upsert_state m r db = Inr db' \<Longrightarrow> same_tables db' db"
  by (auto simp: upsert_state_def failIf_eq_Inr same_tables_def)

lemma success_Inr:
  assumes "RecordCorrelationSuccess U enc hash pid job rs gs pr fb m rb sb at db = Inr db'"
  obtains current where "BuildCorrelationRequests U enc hash (kj_CollectionID job) db = Inr current"
    "correlationInputRevision hash current = correlationInputRevision hash rs"
    "k_refresh db' = k_refresh db" "k_jobs db' = k_jobs db" "k_settings db' = k_settings db"
    "filter (\<lambda>r. gw_collection r \<noteq> kj_CollectionID job) (k_groups db') =
       filter (\<lambda>r. gw_collection r \<noteq> kj_CollectionID job) (k_groups db)"
    "map gw_group (filter (\<lambda>r. gw_collection r = kj_CollectionID job) (k_groups db')) = gs"
proof -
  from assms obtain i p current db1 db2 where c: "BuildCorrelationRequests U enc hash (kj_CollectionID job) db = Inr current"
    "correlationInputRevision hash current = correlationInputRevision hash rs"
    and 1: "retain_payload i rb sb at db = Inr db1" and 2: "replaceCorrelationGroupsTx (kj_CollectionID job) gs p db1 = Inr db2"
    and 3: "same_tables db' db2"
    by (auto simp: RecordCorrelationSuccess_def Let_def bindR_eq_Inr failIf_eq_Inr split: option.splits dest: upsert_state_same)
  from that [OF c] 3 retain_payload_same [OF 1] replace_groups_Inr [OF 2] show thesis by (simp add: same_tables_def)
qed

lemma failure_Inr:
  assumes "RecordCorrelationFailure pid job pr m rb sb at msg db = Inr db'"
  shows "same_tables db' db"
proof -
  from assms obtain i db1 where
    1: "(if rb \<noteq> [] \<or> sb \<noteq> [] then (case pid of None \<Rightarrow> Inl KPayloadID
          | Some i \<Rightarrow> bindR (retain_payload i rb sb at db) (\<lambda>d. Inr (i, d))) else Inr ([], db)) = Inr (i, db1)"
    and 2: "same_tables db' db1"
    by (auto simp: RecordCorrelationFailure_def bindR_eq_Inr dest: upsert_state_same)
  from 1 have "same_tables db1 db"
    by (auto simp: bindR_eq_Inr split: if_splits option.splits dest: retain_payload_same) (simp_all add: same_tables_def)
  with 2 show ?thesis by (simp add: same_tables_def)
qed

text \<open>The three ways in which processing ends without an error.\<close>

lemma process_None:
  assumes "correlation_process w env job now db = (None, db')"
  obtains rs gs pr fb m rb sb where
    "BuildCorrelationRequests (cw_upper w) (cw_enc w) (cw_hash w) (kj_CollectionID job) db = Inr rs"
    "\<forall>g\<in>set gs. grounded_in w rs g"
    "RecordCorrelationSuccess (cw_upper w) (cw_enc w) (cw_hash w) (cw_payload_id w) job rs gs pr fb m rb sb now (env db) = Inr db'"
  | pr m rb sb where "RecordCorrelationFailure (cw_payload_id w) job pr m rb sb now failure_message (env db) = Inr db'"
proof -
  from assms obtain rs where rs: "BuildCorrelationRequests (cw_upper w) (cw_enc w) (cw_hash w) (kj_CollectionID job) db = Inr rs"
    by (auto simp: correlation_process_def split: sum.splits)
  let ?names = "kj_PrimaryProvider job # (if kj_FallbackProvider job \<noteq> [] then [kj_FallbackProvider job] else [])"
  let ?z = "\<lparr> as_provider = [], as_model = [], as_request = [], as_response = [] \<rparr>"
  obtain r st where t: "try_providers w rs ?names ?z = (r, st)" by (cases "try_providers w rs ?names ?z")
  show thesis
  proof (cases "rs = []")
    case True
    with assms rs have "RecordCorrelationSuccess (cw_upper w) (cw_enc w) (cw_hash w) (cw_payload_id w) job rs []
        (kj_PrimaryProvider job) [] [] ''[]'' ''[]'' now (env db) = Inr db'"
      by (auto simp: correlation_process_def Let_def split: sum.splits)
    from that(1) [OF rs _ this] show thesis by simp
  next
    case False
    show thesis
    proof (cases r)
      case None
      with assms rs t False have "RecordCorrelationFailure (cw_payload_id w) job (as_provider st) (as_model st)
          (as_request st) (as_response st) now failure_message (env db) = Inr db'"
        by (auto simp: correlation_process_def Let_def split: sum.splits)
      then show thesis by (rule that(2))
    next
      case (Some x)
      obtain n gs where x: "x = (n, gs)" by (cases x)
      with assms rs t False Some have "RecordCorrelationSuccess (cw_upper w) (cw_enc w) (cw_hash w) (cw_payload_id w) job rs gs n
          (if n \<noteq> kj_PrimaryProvider job then kj_PrimaryProvider job else []) (as_model st) (as_request st)
          (as_response st) now (env db) = Inr db'"
        by (auto simp: correlation_process_def Let_def split: sum.splits)
      from that(1) [OF rs try_providers_grounded [OF t [unfolded Some x]] this] show thesis .
    qed
  qed
qed

section \<open>Publication\<close>

definition groups_of :: "string \<Rightarrow> correlation_db \<Rightarrow> corr_group list" where
  "groups_of c db = map gw_group (filter (\<lambda>r. gw_collection r = c) (k_groups db))"

text \<open>A group has an open member that the collection publishes.\<close>

definition currently_open :: "string \<Rightarrow> correlation_db \<Rightarrow> corr_group \<Rightarrow> bool" where
  "currently_open c db g \<longleftrightarrow>
     list_ex (\<lambda>m. km_State m = ''open'' \<and> (c, km_Repository m, km_Number m) \<in> set (d_members (k_pr db))) (kg_Members g)"


section \<open>Rounds\<close>

lemma select_correlation_Some:
  assumes "select_correlation now db = Some r"
  shows "r \<in> set (q_jobs (k_jobs db)) \<and> j_status r = Queued \<and> may_correlate db (cl_collection (j_payload r))"
  using select_due_Some [OF assms [unfolded select_correlation_def]] by (auto simp: is_claimable_def)

lemma ClaimCorrelation_Some:
  assumes "ClaimCorrelation parse now db = (Inr (Some job), db')"
  obtains r where "select_correlation now db = Some r" "kj_ID job = j_id r"
    "kj_CollectionID job = cl_collection (j_payload r)" "db' = db\<lparr>k_jobs := start_job (j_id r) now (k_jobs db)\<rparr>"
  using assms by (auto simp: ClaimCorrelation_def Let_def split: option.splits)

definition has_active_job :: "string \<Rightarrow> correlation_db \<Rightarrow> bool" where
  "has_active_job c db \<longleftrightarrow> list_ex (\<lambda>j. active j \<and> cl_collection (j_payload j) = c) (q_jobs (k_jobs db))"

lemma find_append: "find P (xs @ ys) = (case find P xs of None \<Rightarrow> find P ys | Some x \<Rightarrow> Some x)"
  by (induction xs) simp_all

lemma enqueue_correlation_active:
  assumes "EnqueueCollectionCorrelation c f t db = Inr (n, db')"
  shows "has_active_job c db' \<and> (job_status_of (k_jobs db) i = Some s \<longrightarrow> job_status_of (k_jobs db') i = Some s)"
proof (cases "has_active_job c db")
  case True
  let ?p = "\<lambda>j :: correlation_payload job_row. cl_collection (j_payload j) = c \<and> j_status j = Queued"
  let ?f = "\<lambda>j :: correlation_payload job_row. j\<lparr>j_payload := (j_payload j)\<lparr>cl_forced := True\<rparr>\<rparr>"
  have active: "list_ex (\<lambda>j. active j \<and> cl_collection (j_payload j) = c) (update_where ?p ?f t) =
      list_ex (\<lambda>j. active j \<and> cl_collection (j_payload j) = c) t" for t
    by (induction t) (auto simp: update_where_def active_def)
  have status: "map_option j_status (find (\<lambda>j. j_id j = i) (update_where ?p ?f t)) = map_option j_status (find (\<lambda>j. j_id j = i) t)" for t
    by (induction t) (auto simp: update_where_def)
  from assms True have db': "db' = (if f then db\<lparr>k_jobs := (k_jobs db)\<lparr>q_jobs := update_where ?p ?f (q_jobs (k_jobs db))\<rparr>\<rparr> else db)"
    by (auto simp: EnqueueCollectionCorrelation_def has_active_job_def split: if_splits)
  then have "job_status_of (k_jobs db') i = job_status_of (k_jobs db) i"
    by (cases f) (simp_all add: job_status_of_def status)
  moreover from db' True have "has_active_job c db'" by (cases f) (simp_all add: has_active_job_def active)
  ultimately show ?thesis by simp
next
  case False
  with assms have "db' = db\<lparr>k_jobs := snd (enqueue_job cl_collection \<lparr> cl_collection = c, cl_forced = f \<rparr> t (k_jobs db))\<rparr>"
    by (auto simp: EnqueueCollectionCorrelation_def has_active_job_def split: if_splits)
  with False show ?thesis
    by (auto simp: has_active_job_def enqueue_job_def job_status_of_def active_def find_append split: option.split)
qed

lemma process_jobs:
  assumes "correlation_process w env job now db0 = (r, db1)"
  shows "k_jobs db1 = k_jobs (env db0) \<or> db1 = db0"
proof (cases r)
  case None
  from assms [unfolded None] have "k_jobs db1 = k_jobs (env db0)"
  proof (cases rule: process_None)
    case (1 rs gs pr fb m rb sb)
    from success_Inr [OF 1(3)] show ?thesis by metis
  next
    case (2 pr m rb sb)
    from failure_Inr [OF 2] show ?thesis by (simp add: same_tables_def)
  qed
  then show ?thesis ..
next
  case (Some e)
  with assms show ?thesis by (auto simp: correlation_process_def Let_def split: sum.splits)
qed

text \<open>C24. A round of the worker takes a job only while no repository of its collection has refresh
  work under way, and settles it: when the round ends without error the job is completed; and when
  the published inputs changed under the model's eyes, another job for the collection is queued
  or running, so the change is not lost.\<close>

theorem correlation_round_settles:
  assumes "queue_ok cl_collection (k_jobs db)"
    and "ClaimCorrelation parse now db = (Inr (Some job), db0)"
    and "job_status_of (k_jobs (env db0)) (kj_ID job) = Some Running"
    and "CorrelationRunOnce parse w env now t db = (None, db')"
  shows "refresh_idle db (kj_CollectionID job) \<and> job_status_of (k_jobs db) (kj_ID job) = Some Queued \<and>
    job_status_of (k_jobs db') (kj_ID job) = Some Completed \<and>
    (\<forall>a b. fst (correlation_process w env job now db0) = Some (KInputsChanged a b) \<longrightarrow>
       has_active_job (kj_CollectionID job) db')"
proof -
  from assms(2) obtain r where r: "select_correlation now db = Some r" "kj_ID job = j_id r"
    "kj_CollectionID job = cl_collection (j_payload r)" and db0: "db0 = db\<lparr>k_jobs := start_job (j_id r) now (k_jobs db)\<rparr>"
    by (rule ClaimCorrelation_Some)
  from select_correlation_Some [OF r(1)] have m: "r \<in> set (q_jobs (k_jobs db))" "j_status r = Queued"
    and idle: "refresh_idle db (kj_CollectionID job)" by (simp_all add: may_correlate_def r(3))
  have "find (\<lambda>x. j_id x = j_id r) (q_jobs (k_jobs db)) = Some r"
    using assms(1) m by (intro find_unique) (simp_all add: queue_ok_def)
  with m(2) r(2) have queued: "job_status_of (k_jobs db) (kj_ID job) = Some Queued" by (simp add: job_status_of_def)
  have run0: "job_status_of (k_jobs db0) (kj_ID job) = Some Running"
    using status_start_job [OF assms(1) m, of now] by (simp add: db0 r(2))
  obtain q db1 where p: "correlation_process w env job now db0 = (q, db1)"
    by (cases "correlation_process w env job now db0")
  from process_jobs [OF p] assms(3) run0 have "job_status_of (k_jobs db1) (kj_ID job) = Some Running" by auto
  then have fin: "job_status_of (k_jobs (CompleteCorrelationJob (kj_ID job) t db1)) (kj_ID job) = Some Completed"
    by (simp add: CompleteCorrelationJob_def status_finish_job)
  show ?thesis
  proof (cases q)
    case None
    with assms(4) assms(2) p have "db' = CompleteCorrelationJob (kj_ID job) t db1"
      by (simp add: CorrelationRunOnce_def)
    with fin idle queued p None show ?thesis by simp
  next
    case (Some e)
    with assms(4) assms(2) p obtain a b where e: "e = KInputsChanged a b"
      by (cases e) (auto simp: CorrelationRunOnce_def)
    with Some assms(4) assms(2) p obtain n where
      "EnqueueCollectionCorrelation (kj_CollectionID job) False t (CompleteCorrelationJob (kj_ID job) t db1) = Inr (n, db')"
      by (auto simp: CorrelationRunOnce_def Let_def split: sum.splits prod.splits)
    from enqueue_correlation_active [OF this, of "kj_ID job" Completed] fin idle queued show ?thesis by simp
  qed
qed

section \<open>An instance\<close>

definition sample_hash :: "string \<Rightarrow> string" where
  "sample_hash x = CHR ''h'' # concat (map (\<lambda>c. if c = CHR 0x00 then ''a0'' else [CHR ''b'', c]) x)"

lemma sample_hash_inj: "inj sample_hash"
proof -
  have "concat (map (\<lambda>c. if c = CHR 0x00 then ''a0'' else [CHR ''b'', c]) x) =
      concat (map (\<lambda>c. if c = CHR 0x00 then ''a0'' else [CHR ''b'', c]) y) \<Longrightarrow> x = y" for x y
  proof (induction x arbitrary: y)
    case Nil
    then show ?case by (cases y) (auto split: if_splits)
  next
    case (Cons c x)
    then show ?case by (cases y) (auto split: if_splits)
  qed
  then show ?thesis by (auto simp: inj_def sample_hash_def)
qed

lemma sample_hash_text: "sample_hash x \<noteq> [] \<and> CHR 0x00 \<notin> set (sample_hash x)"
  by (auto simp: sample_hash_def split: if_splits)

definition sample_answer :: provider_answer where
  "sample_answer = \<lparr> pa_Model = ''m'', pa_RequestBody = ''q'', pa_ResponseBody = ''a'', pa_Output = Some ''a'' \<rparr>"

definition sample_corr_worker :: corr_worker where
  "sample_corr_worker = \<lparr> cw_providers = (\<lambda>n. if n = ''p'' then Some (\<lambda>_. sample_answer) else None), cw_upper = id,
     cw_enc = (\<lambda>_. ''e''), cw_hash = sample_hash,
     cw_decode = (\<lambda>_. Inr [sample_raw_group\<lparr> rg_SourceIDs := [''PR_o_r_8''], rg_Members := [''PR_o_r_8'', ''PR_o_r_9''], rg_Edges := [] \<rparr>]),
     cw_bodies = concat, cw_payload_id = Some ''x'' \<rparr>"

definition sample_kdb :: correlation_db where
  "sample_kdb = \<lparr> k_refresh = no_refreshes (sample_pr_db\<lparr> d_pulls := [pull_row_of (sample_pull 8 []), pull_row_of (sample_pull 9 [])],
       d_members := [(''c'', ''o/r'', 8), (''c'', ''o/r'', 9)],
       d_collections := map (\<lambda>c. c\<lparr>c_model_provider := ''p''\<rparr>) (d_collections sample_pr_db) \<rparr>) no_progress,
     k_settings = [(''c'', True, [])],
     k_jobs = \<lparr> q_jobs = [\<lparr> j_id = 1, j_status = Queued, j_scheduled_for = [], j_started_at = None, j_finished_at = None,
       j_payload = \<lparr> cl_collection = ''c'', cl_forced = False \<rparr> \<rparr>], q_next = 2 \<rparr>,
     k_groups = [], k_members = [], k_states = [], k_payloads = [] \<rparr>"

definition sample_corr_job :: correlation_job where
  "sample_corr_job = \<lparr> kj_ID = 1, kj_CollectionID = ''c'', kj_PrimaryProvider = ''p'', kj_FallbackProvider = [],
     kj_Forced = False, kj_ScheduledFor = 0 \<rparr>"

lemma sample_process:
  "map_prod id (\<lambda>db. map (map km_SourceID \<circ> kg_Members) (groups_of ''c'' db))
     (correlation_process sample_corr_worker id sample_corr_job 0 sample_kdb) = (None, [[''PR_o_r_8'', ''PR_o_r_9'']])"
  by code_simp

lemma sample_build:
  "map_sum id length (BuildCorrelationRequests id (\<lambda>_. ''e'') sample_hash ''c'' sample_kdb) = Inr 1"
  by code_simp


theorem correlation_round_settles_witness:
  "job_status_of (k_jobs (snd (CorrelationRunOnce (\<lambda>_. Some 0) sample_corr_worker id 0 0 sample_kdb))) 1 = Some Completed"
proof -
  let ?c = "ClaimCorrelation (\<lambda>_. Some 0) 0 sample_kdb"
  let ?r = "CorrelationRunOnce (\<lambda>_. Some 0) sample_corr_worker id 0 0 sample_kdb"
  have "fst ?c = Inr (Some sample_corr_job)" by code_simp
  then have c: "?c = (Inr (Some sample_corr_job), snd ?c)" by (simp add: prod_eq_iff)
  have run: "job_status_of (k_jobs (id (snd ?c))) (kj_ID sample_corr_job) = Some Running" by code_simp
  let ?d = "sample_kdb\<lparr>k_jobs := start_job 1 0 (k_jobs sample_kdb)\<rparr>"
  have "fst (correlation_process sample_corr_worker id sample_corr_job 0 ?d) = None" by code_simp
  then obtain db1 where p: "correlation_process sample_corr_worker id sample_corr_job 0 ?d = (None, db1)"
    by (cases "correlation_process sample_corr_worker id sample_corr_job 0 ?d") auto
  have d: "snd ?c = ?d"
  proof -
    have *: "snd ?c = sample_kdb\<lparr>k_jobs := start_job (kj_ID sample_corr_job) 0 (k_jobs sample_kdb)\<rparr>"
      using c by (rule ClaimCorrelation_Some) simp
    from * show ?thesis by (simp add: sample_corr_job_def)
  qed
  from c d have "?c = (Inr (Some sample_corr_job), ?d)" by metis
  then have "fst ?r = None" unfolding CorrelationRunOnce_def by (simp only: p prod.case sum.case option.case fst_conv)
  then have r: "?r = (None, snd ?r)" by (simp add: prod_eq_iff)
  have "queue_ok cl_collection (k_jobs sample_kdb)" by (simp add: sample_kdb_def queue_ok_def active_def)
  from correlation_round_settles [OF this c run r] show ?thesis by (simp add: sample_corr_job_def)
qed

end
