(* ===== verification/Analysis.thy ===== *)
theory Analysis
  imports Quality CorrelationFacts AnalysisTypes
begin

text \<open>
  Model analysis of one pull request (\<open>internal/analysis/analysis.go\<close>): the bounded request, the
  validation of the answer section by section, and the merge with the previous result. \<open>enc\<close>
  is the JSON body of the revision and \<open>hash\<close> SHA-256 in hexadecimal. The decoders of JSON are
  parameters; a decoder answers the value it filled in and whether it succeeded.
\<close>

section \<open>Data\<close>

definition MaxDescriptionBytes :: nat where "MaxDescriptionBytes = 12 * 1024"
definition MaxSourceBytes :: nat where "MaxSourceBytes = 2 * 1024"
definition MaxDiffSourceBytes :: nat where "MaxDiffSourceBytes = 8 * 1024"
definition MaxSources :: nat where "MaxSources = 300"
definition MaxFiles :: nat where "MaxFiles = 100"
definition MaxFindingRunes :: nat where "MaxFindingRunes = 500"

lemmas analysis_limits = MaxDescriptionBytes_def MaxSourceBytes_def MaxDiffSourceBytes_def MaxSources_def
  MaxFiles_def MaxFindingRunes_def MaxReasonRunes_def

record analysis_source =
  sc_ID :: string
  sc_Kind :: string
  sc_Text :: string
  sc_URL :: string

record diff_summary =
  dm_Completeness :: string
  dm_OriginalFiles :: int
  dm_SentFiles :: int
  dm_OmittedFiles :: int
  dm_OriginalBytes :: int
  dm_SentBytes :: int
  dm_Truncated :: bool

record analysis_input =
  ni_CollectionID :: string
  ni_Repository :: string
  ni_Number :: int
  ni_Title :: string
  ni_Description :: string
  ni_URL :: string
  ni_UpdatedAt :: time
  ni_Additions :: int
  ni_Deletions :: int
  ni_ContextCompleteness :: string
  ni_Files :: "string list"
  ni_Sources :: "analysis_source list"
  ni_DiffEvidence :: diff_summary

record request_pull =
  rq_SourceID :: string
  rq_CollectionID :: string
  rq_Repository :: string
  rq_Number :: int
  rq_Title :: string
  rq_Description :: string
  rq_URL :: string
  rq_UpdatedAt :: time
  rq_Additions :: int
  rq_Deletions :: int
  rq_ContextCompleteness :: string
  rq_Files :: "string list"

record text_truncation =
  tt_OriginalBytes :: nat
  tt_SentBytes :: nat
  tt_Truncated :: bool

record list_truncation =
  lt_Original :: nat
  lt_Sent :: nat
  lt_Omitted :: nat

record truncation =
  tr_Description :: text_truncation
  tr_Files :: list_truncation
  tr_Sources :: list_truncation

record analysis_request =
  nr_SchemaVersion :: string
  nr_PromptVersion :: string
  nr_InputRevision :: string
  nr_PullRequest :: request_pull
  nr_Sources :: "analysis_source list"
  nr_Truncation :: truncation
  nr_DiffEvidence :: diff_summary

definition ModelQualityFamilies :: "string list" where
  "ModelQualityFamilies = [''unrelated_changes'', ''description_diff_mismatch'', ''missing_expected_tests'',
     ''internal_contradictions'', ''unsupported_references'']"

datatype analysis_section = SectionLoad | SectionWaiting | SectionEvaluations

definition section_name :: "analysis_section \<Rightarrow> string" where
  "section_name s = (case s of SectionLoad \<Rightarrow> ''reviewCognitiveLoad'' | SectionWaiting \<Rightarrow> ''waitingOn''
     | SectionEvaluations \<Rightarrow> ''qualityEvaluations'')"

definition responseSections :: "analysis_section list" where
  "responseSections = [SectionLoad, SectionWaiting, SectionEvaluations]"

record provider_response =
  pv_Load :: review_load
  pv_WaitingOn :: "waiting_state list"
  pv_Evaluations :: "quality_evaluation list"
  pv_Valid :: "analysis_section list"

datatype analysis_error =
    NoIdentity | DecodeRoot | UnknownField string | MissingSection analysis_section
  | DecodeSection analysis_section
  | UnknownValue string string | BadText string | SourceCount string | UnknownCitation string string
  | DuplicateCitation string string
  | UnexpectedPartialReason string | BadPartialReason string
  | TooManyWaiting | DuplicateParty string | FamilyCount | DuplicateFamily string
  | StatusMismatch string | BadReason string | SeverityTooHigh string | FamilyNeedsComplete string

definition SectionValid :: "provider_response \<Rightarrow> analysis_section \<Rightarrow> bool" where
  "SectionValid r s \<longleftrightarrow> s \<in> set (pv_Valid r)"

definition CompleteResponse :: "provider_response \<Rightarrow> bool" where
  "CompleteResponse r \<longleftrightarrow> list_all (SectionValid r) responseSections"

definition HasValidSections :: "provider_response \<Rightarrow> bool" where
  "HasValidSections r \<longleftrightarrow> list_ex (SectionValid r) responseSections"

section \<open>The request\<close>

definition AnalysisPullRequestSourceID :: "string \<Rightarrow> int \<Rightarrow> string" where
  "AnalysisPullRequestSourceID repository number =
     ''PR_'' @ replace_separators repository @ ''_'' @ Itoa number"

definition sourcePriority :: "analysis_source \<Rightarrow> nat" where
  "sourcePriority s = (if sc_Kind s = ''diff'' then 0 else if sc_Kind s = ''pull_request'' then 1 else 2)"

definition listTruncation :: "nat \<Rightarrow> nat \<Rightarrow> list_truncation" where
  "listTruncation original sent = \<lparr> lt_Original = original, lt_Sent = sent, lt_Omitted = original - sent \<rparr>"

text \<open>On a sorted list the loop of \<open>unique\<close> drops the empty text and repetitions.\<close>

definition unique :: "string list \<Rightarrow> string list" where
  "unique values = remdups_adj (filter (\<lambda>v. v \<noteq> []) values)"

fun unique_analysis_sources :: "string list \<Rightarrow> analysis_source list \<Rightarrow> analysis_source list" where
  "unique_analysis_sources seen [] = []"
| "unique_analysis_sources seen (v # vs) =
     (if sc_ID v = [] \<or> sc_ID v \<in> set seen then unique_analysis_sources seen vs
      else v # unique_analysis_sources (sc_ID v # seen) vs)"

text \<open>The order of \<open>sort.Slice\<close>: priority, then identifier, then kind.\<close>

definition sort_sources :: "analysis_source list \<Rightarrow> analysis_source list" where
  "sort_sources ss = sort_key sourcePriority (sort_key sc_ID (sort_key sc_Kind ss))"

definition bound_source :: "analysis_source \<Rightarrow> analysis_source" where
  "bound_source s = s\<lparr>sc_Text := truncateUTF8 (sc_Text s)
     (if sc_Kind s = ''diff'' then MaxDiffSourceBytes else MaxSourceBytes)\<rparr>"

definition input_files :: "analysis_input \<Rightarrow> string list" where
  "input_files i = unique (sort (ni_Files i))"

definition all_sources :: "analysis_input \<Rightarrow> analysis_source list" where
  "all_sources i =
     ni_Sources i @
     [\<lparr> sc_ID = AnalysisPullRequestSourceID (ni_Repository i) (ni_Number i), sc_Kind = ''pull_request'',
        sc_Text = truncateUTF8 (ni_Description i) MaxDescriptionBytes, sc_URL = ni_URL i \<rparr>] @
     map (\<lambda>f. \<lparr> sc_ID = ''file:'' @ f, sc_Kind = ''changed_file'', sc_Text = f, sc_URL = ni_URL i @ ''/files'' \<rparr>)
       (take MaxFiles (input_files i))"

definition ordered_sources :: "analysis_input \<Rightarrow> analysis_source list" where
  "ordered_sources i = map bound_source (unique_analysis_sources [] (sort_sources (all_sources i)))"

definition BuildAnalysisRequest ::
  "(request_pull \<times> analysis_source list \<times> truncation \<times> diff_summary \<Rightarrow> string) \<Rightarrow> (string \<Rightarrow> string) \<Rightarrow>
   analysis_input \<Rightarrow> analysis_error + analysis_request" where
  "BuildAnalysisRequest enc hash i =
     failIf (ni_CollectionID i = [] \<or> ni_Repository i = [] \<or> ni_Number i \<le> 0 \<or> ni_Title i = []) NoIdentity
      (let description = truncateUTF8 (ni_Description i) MaxDescriptionBytes;
           files = take MaxFiles (input_files i);
           sources = take MaxSources (ordered_sources i);
           pull = \<lparr> rq_SourceID = AnalysisPullRequestSourceID (ni_Repository i) (ni_Number i),
             rq_CollectionID = ni_CollectionID i, rq_Repository = ni_Repository i, rq_Number = ni_Number i,
             rq_Title = ni_Title i, rq_Description = description, rq_URL = ni_URL i,
             rq_UpdatedAt = ni_UpdatedAt i, rq_Additions = ni_Additions i, rq_Deletions = ni_Deletions i,
             rq_ContextCompleteness = ni_ContextCompleteness i, rq_Files = files \<rparr>;
           trunc = \<lparr> tr_Description = \<lparr> tt_OriginalBytes = length (ni_Description i),
               tt_SentBytes = length description,
               tt_Truncated = (length description \<noteq> length (ni_Description i)) \<rparr>,
             tr_Files = listTruncation (length (input_files i)) (length files),
             tr_Sources = listTruncation (length (ordered_sources i)) (length sources) \<rparr>
       in Inr \<lparr> nr_SchemaVersion = ''analysis.v2'', nr_PromptVersion = ''analysis-prompt.v2'',
            nr_InputRevision = hash (enc (pull, sources, trunc, ni_DiffEvidence i)), nr_PullRequest = pull,
            nr_Sources = sources, nr_Truncation = trunc, nr_DiffEvidence = ni_DiffEvidence i \<rparr>)"

section \<open>Validation\<close>

fun check_citations :: "string \<Rightarrow> string list \<Rightarrow> string list \<Rightarrow> string list \<Rightarrow> analysis_error option" where
  "check_citations name known seen [] = None"
| "check_citations name known seen (i # is) =
     (if i \<notin> set known then Some (UnknownCitation name i)
      else if i \<in> set seen then Some (DuplicateCitation name i)
      else check_citations name known (i # seen) is)"

definition validateTextAndSources ::
  "string \<Rightarrow> string \<Rightarrow> nat \<Rightarrow> string list \<Rightarrow> string list \<Rightarrow> analysis_error option" where
  "validateTextAndSources name txt limit sourceIDs known =
     (if TrimSpace txt = [] \<or> RuneCount txt > limit then Some (BadText name)
      else if sourceIDs = [] \<or> length sourceIDs > 20 then Some (SourceCount name)
      else check_citations name known [] sourceIDs)"

definition validateCompleteness :: "string \<Rightarrow> string \<Rightarrow> string option \<Rightarrow> analysis_error option" where
  "validateCompleteness name completeness partialReason =
     (if completeness = ''complete'' then guardE (partialReason \<noteq> None) (UnexpectedPartialReason name)
      else if completeness = ''partial'' then
        guardE (case partialReason of None \<Rightarrow> True | Some r \<Rightarrow> TrimSpace r = [] \<or> RuneCount r > MaxReasonRunes)
          (BadPartialReason name)
      else Some (UnknownValue (name @ ''.evidenceCompleteness'') completeness))"

definition validateComponent :: "string \<Rightarrow> load_component \<Rightarrow> string list \<Rightarrow> analysis_error option" where
  "validateComponent name c known =
     seqE (guardE (lc_Level c \<notin> {''low'', ''medium'', ''high'', ''unknown''}) (UnknownValue (name @ ''.level'') (lc_Level c)))
    (seqE (validateTextAndSources name (lc_Reason c) MaxReasonRunes (lc_SourceIDs c) known)
      (validateCompleteness name (lc_EvidenceCompleteness c) (lc_PartialReason c)))"

text \<open>The components are in a Go map, so which of several errors is reported is not determined.\<close>

definition validateReviewCognitiveLoad :: "review_load \<Rightarrow> string list \<Rightarrow> analysis_error option" where
  "validateReviewCognitiveLoad l known =
     (let name = ''reviewCognitiveLoad'' in
      seqE (guardE (rl_Overall l \<notin> {''low'', ''medium'', ''high''}) (UnknownValue (name @ ''.overall'') (rl_Overall l)))
     (seqE (validateTextAndSources name (rl_Rationale l) MaxReasonRunes (rl_SourceIDs l) known)
     (seqE (validateCompleteness name (rl_EvidenceCompleteness l) (rl_PartialReason l))
      (first_err (\<lambda>(n, c). validateComponent (name @ n) c known)
        [(''.changeScope'', rl_ChangeScope l), (''.requiredContext'', rl_RequiredContext l),
         (''.conceptualComplexity'', rl_ConceptualComplexity l), (''.reviewRisk'', rl_ReviewRisk l)]))))"

definition parties :: "string list" where
  "parties = [''triager'', ''maintainer'', ''author'', ''external_dependency'']"

definition indexed :: "string \<Rightarrow> nat \<Rightarrow> string" where
  "indexed name i = name @ ''['' @ nat_str i @ '']''"

fun check_waiting :: "nat \<Rightarrow> string list \<Rightarrow> waiting_state list \<Rightarrow> string list \<Rightarrow> analysis_error option" where
  "check_waiting index seen [] known = None"
| "check_waiting index seen (w # ws) known =
     seqE (guardE (wt_Party w \<notin> set parties) (UnknownValue (indexed ''waitingOn'' index @ ''.party'') (wt_Party w)))
    (seqE (guardE (wt_Party w \<in> set seen) (DuplicateParty (wt_Party w)))
    (seqE (validateTextAndSources (indexed ''waitingOn'' index) (wt_Reason w) MaxReasonRunes (wt_SourceIDs w) known)
      (check_waiting (index + 1) (wt_Party w # seen) ws known)))"

definition validateWaitingOn :: "waiting_state list \<Rightarrow> string list \<Rightarrow> analysis_error option" where
  "validateWaitingOn ws known = seqE (guardE (length ws > 4) TooManyWaiting) (check_waiting 0 [] ws known)"

definition validate_quality_finding ::
  "string \<Rightarrow> quality_evaluation \<Rightarrow> quality_finding \<Rightarrow> string list \<Rightarrow> analysis_error option" where
  "validate_quality_finding name e f known =
     seqE (guardE (qf_Severity f \<notin> {''low'', ''medium'', ''high''}) (UnknownValue (name @ ''.finding.severity'') (qf_Severity f)))
    (seqE (guardE (qf_Confidence f \<notin> {''medium'', ''high''}) (UnknownValue (name @ ''.finding.confidence'') (qf_Confidence f)))
    (seqE (guardE (qf_Severity f = ''high'' \<and> (qe_Completeness e \<noteq> ''complete'' \<or> qf_Confidence f \<noteq> ''high''))
       (SeverityTooHigh name))
    (seqE (guardE (qe_Completeness e = ''partial'' \<and> qf_Severity f = ''high'') (SeverityTooHigh name))
    (seqE (guardE (qe_Family e \<in> {''missing_expected_tests'', ''unsupported_references''} \<and>
        qe_Completeness e \<noteq> ''complete'') (FamilyNeedsComplete name))
      (validateTextAndSources (name @ ''.finding'') (qf_Summary f) MaxFindingRunes (qf_SourceIDs f) known)))))"

definition validateQualityEvaluation :: "nat \<Rightarrow> quality_evaluation \<Rightarrow> string list \<Rightarrow> analysis_error option" where
  "validateQualityEvaluation index e known =
     (let name = indexed ''qualityEvaluations'' index in
      seqE (guardE (qe_Completeness e \<notin> {''complete'', ''partial''})
        (UnknownValue (name @ ''.completeness'') (qe_Completeness e)))
      (if qe_Status e = ''no_concern'' then
         seqE (guardE (qe_Completeness e \<noteq> ''complete'') (StatusMismatch name))
           (guardE (qe_Finding e \<noteq> None \<or> qe_Reason e \<noteq> []) (StatusMismatch name))
       else if qe_Status e = ''not_evaluated'' then
         seqE (guardE (qe_Completeness e \<noteq> ''partial'') (StatusMismatch name))
        (seqE (guardE (qe_Finding e \<noteq> None) (StatusMismatch name))
           (guardE (TrimSpace (qe_Reason e) = [] \<or> RuneCount (qe_Reason e) > MaxReasonRunes) (BadReason name)))
       else if qe_Status e = ''finding'' then
         (case qe_Finding e of
            None \<Rightarrow> Some (StatusMismatch name)
          | Some f \<Rightarrow> seqE (guardE (qe_Reason e \<noteq> []) (StatusMismatch name)) (validate_quality_finding name e f known))
       else Some (UnknownValue (name @ ''.status'') (qe_Status e))))"

fun check_evaluations :: "nat \<Rightarrow> string list \<Rightarrow> quality_evaluation list \<Rightarrow> string list \<Rightarrow> analysis_error option" where
  "check_evaluations index seen [] known = None"
| "check_evaluations index seen (e # es) known =
     seqE (guardE (qe_Family e \<notin> set ModelQualityFamilies)
       (UnknownValue (indexed ''qualityEvaluations'' index @ ''.family'') (qe_Family e)))
    (seqE (guardE (qe_Family e \<in> set seen) (DuplicateFamily (qe_Family e)))
    (seqE (validateQualityEvaluation index e known)
      (check_evaluations (index + 1) (qe_Family e # seen) es known)))"

definition validateQualityEvaluations :: "quality_evaluation list \<Rightarrow> string list \<Rightarrow> analysis_error option" where
  "validateQualityEvaluations es known =
     seqE (guardE (length es \<noteq> length ModelQualityFamilies) FamilyCount) (check_evaluations 0 [] es known)"

text \<open>
  The decoders: of the root object (its fields with their raw values) and of the three sections.
  A value that fails to decode may be filled in partly.
\<close>

record analysis_decoders =
  dc_root :: "string \<Rightarrow> (string \<times> string) list option"
  dc_load :: "string \<Rightarrow> review_load \<times> bool"
  dc_waiting :: "string \<Rightarrow> waiting_state list \<times> bool"
  dc_evaluations :: "string \<Rightarrow> quality_evaluation list \<times> bool"

definition validateSection ::
  "(string \<times> string) list \<Rightarrow> analysis_section \<Rightarrow> (string \<Rightarrow> 'a \<times> bool) \<Rightarrow> ('a \<Rightarrow> analysis_error option) \<Rightarrow> 'a \<Rightarrow>
   'a \<times> analysis_error option" where
  "validateSection root s dec check initial =
     (case map_of root (section_name s) of
        None \<Rightarrow> (initial, Some (MissingSection s))
      | Some raw \<Rightarrow>
         (let (value, ok) = dec raw in
          if \<not> ok then (value, Some (DecodeSection s)) else (value, check value)))"

definition empty_component :: load_component where
  "empty_component = \<lparr> lc_Level = [], lc_Reason = [], lc_SourceIDs = [], lc_EvidenceCompleteness = [], lc_PartialReason = None \<rparr>"

definition empty_load :: review_load where
  "empty_load = \<lparr> rl_ChangeScope = empty_component, rl_RequiredContext = empty_component,
     rl_ConceptualComplexity = empty_component, rl_ReviewRisk = empty_component, rl_Overall = [], rl_Rationale = [],
     rl_SourceIDs = [], rl_EvidenceCompleteness = [], rl_PartialReason = None \<rparr>"

definition ValidateAnalysisResponse ::
  "analysis_decoders \<Rightarrow> string \<Rightarrow> string list \<Rightarrow> provider_response \<times> analysis_error list" where
  "ValidateAnalysisResponse d body known =
     (case dc_root d body of
        None \<Rightarrow> (\<lparr> pv_Load = empty_load, pv_WaitingOn = [], pv_Evaluations = [], pv_Valid = [] \<rparr>, [DecodeRoot])
      | Some root \<Rightarrow>
         (let unknown = map (UnknownField \<circ> fst) (filter (\<lambda>x. fst x \<notin> section_name ` set responseSections) root);
              (load, e1) = validateSection root SectionLoad (dc_load d) (\<lambda>l. validateReviewCognitiveLoad l known) empty_load;
              (waiting, e2) = validateSection root SectionWaiting (dc_waiting d) (\<lambda>w. validateWaitingOn w known) [];
              (evaluations, e3) = validateSection root SectionEvaluations (dc_evaluations d)
                (\<lambda>e. validateQualityEvaluations e known) []
          in (\<lparr> pv_Load = load, pv_WaitingOn = waiting, pv_Evaluations = evaluations,
                pv_Valid = map fst (filter (\<lambda>x. snd x = None)
                  [(SectionLoad, e1), (SectionWaiting, e2), (SectionEvaluations, e3)]) \<rparr>,
              unknown @ List.map_filter id [e1, e2, e3])))"

section \<open>Merging\<close>

definition analysis_quality_level :: "quality_evaluation list \<Rightarrow> string" where
  "analysis_quality_level es =
     Level (List.map_filter (\<lambda>e. if qe_Status e \<noteq> ''finding'' then None
        else map_option (\<lambda>f. \<lparr> fi_Rule = [], fi_Severity = qf_Severity f, fi_Provenance = [], fi_Summary = [],
          fi_Evidence = [], fi_Completeness = [], fi_Confidence = [], fi_SourceIDs = [] \<rparr>) (qe_Finding e)) es)"

definition MergeAnalysis :: "analysis_result \<Rightarrow> provider_response \<Rightarrow> analysis_result" where
  "MergeAnalysis previous r =
     (let r1 = (if SectionValid r SectionLoad then previous\<lparr>nx_Load := Some (pv_Load r)\<rparr> else previous);
          r2 = (if SectionValid r SectionWaiting then r1\<lparr>nx_WaitingOn := pv_WaitingOn r\<rparr> else r1);
          r3 = (if SectionValid r SectionEvaluations then r2\<lparr> nx_Evaluations := pv_Evaluations r,
                  nx_QualityLevel := analysis_quality_level (pv_Evaluations r) \<rparr> else r2)
      in r3\<lparr> nx_QualityLevel := (if nx_QualityLevel r3 = [] then ''no_concerns'' else nx_QualityLevel r3),
             nx_Status := ''complete'' \<rparr>)"

definition AssembleAnalysis :: "provider_response \<Rightarrow> analysis_result" where
  "AssembleAnalysis r = MergeAnalysis \<lparr> nx_Status = [], nx_Load = None, nx_WaitingOn = [], nx_QualityLevel = [],
     nx_Evaluations = [] \<rparr> r"

end
