(* ===== verification/AnalysisStore.thy ===== *)
theory AnalysisStore
  imports Analysis CorrelationWorker
begin

text \<open>
  Durable model analysis (\<open>internal/storage/analysis.go\<close>): the job queue, the request built from
  the published pull request with its diff evidence and correlation groups, the results and the
  state of the last attempt. The state is that of the correlation store, which holds the tables of
  pull requests and the retained payloads. \<open>parse\<close> is \<open>time.Parse(time.RFC3339Nano, _)\<close>,
  \<open>enc\<close> and \<open>hash\<close> are the JSON encoding and the digest of \<open>BuildRequest\<close>, \<open>pid\<close> is the
  random payload identifier. A result \<open>Inl\<close> is a rolled back transaction.
\<close>

record analysis_job =
  nj_ID :: nat
  nj_CollectionID :: string
  nj_Repository :: string
  nj_Number :: int
  nj_HeadSHA :: string
  nj_PrimaryProvider :: string
  nj_FallbackProvider :: string
  nj_Forced :: bool
  nj_ScheduledFor :: time

datatype analysis_store_error =
    ASuperseded | AInputMissing | APending | ATimeParse string | ABuild analysis_error
  | ABadStatus string | APayloadID | AConstraint string
  | ACollectionMissing string | ANoProvider string | AJobs pr_error
  | ABoth analysis_store_error analysis_store_error

definition update_pr :: "(pr_db \<Rightarrow> pr_db) \<Rightarrow> correlation_db \<Rightarrow> correlation_db" where
  "update_pr f db = db\<lparr>k_refresh := (k_refresh db)\<lparr>rf_pr := f (k_pr db)\<rparr>\<rparr>"

definition job_member :: "analysis_job \<Rightarrow> member" where
  "job_member j = (nj_CollectionID j, nj_Repository j, nj_Number j)"

section \<open>The queue\<close>

text \<open>The pull requests of a collection in the order of the statement, with the two counters.\<close>

fun enqueue_analyses ::
  "string \<Rightarrow> bool \<Rightarrow> time \<Rightarrow> pull_key list \<Rightarrow> nat \<times> nat \<Rightarrow> pr_db \<Rightarrow> pr_error + (nat \<times> nat) \<times> pr_db" where
  "enqueue_analyses c forced scheduledFor [] n db = Inr (n, db)"
| "enqueue_analyses c forced scheduledFor (k # ks) n db =
     (let busy = list_ex (\<lambda>j. active j \<and> ap_member (j_payload j) = (c, k)) (q_jobs (d_analysis db));
          n1 = (if busy then (fst n, snd n + 1) else (fst n + 1, snd n))
      in bindR (enqueueAnalysisForPRTx c (fst k) (snd k) forced scheduledFor db)
           (enqueue_analyses c forced scheduledFor ks n1))"

definition EnqueueCollectionAnalysis ::
  "string \<Rightarrow> bool \<Rightarrow> time \<Rightarrow> correlation_db \<Rightarrow> analysis_store_error + (nat \<times> nat) \<times> correlation_db" where
  "EnqueueCollectionAnalysis c forced scheduledFor db =
     (case find (\<lambda>r. c_id r = c) (d_collections (k_pr db)) of
        None \<Rightarrow> Inl (ACollectionMissing c)
      | Some r \<Rightarrow>
          failIf (c_model_provider r = []) (ANoProvider c)
           (case enqueue_analyses c forced scheduledFor
               (sort_key fst (sort_key snd (map snd (filter (\<lambda>m. fst m = c) (d_members (k_pr db)))))) (0, 0) (k_pr db) of
              Inl e \<Rightarrow> Inl (AJobs e)
            | Inr (n, pr) \<Rightarrow> Inr (n, update_pr (\<lambda>_. pr) db)))"

definition RecoverAnalysisJobs :: "correlation_db \<Rightarrow> correlation_db" where
  "RecoverAnalysisJobs db = update_pr (\<lambda>p. p\<lparr>d_analysis := recover_jobs (d_analysis p)\<rparr>) db"

text \<open>Diff evidence of a head that no longer changes.\<close>

definition terminal_evidence :: "pr_db \<Rightarrow> string \<Rightarrow> int \<Rightarrow> string \<Rightarrow> bool" where
  "terminal_evidence db repository number head \<longleftrightarrow>
     list_ex (\<lambda>r. de_repository r = repository \<and> de_number r = number \<and> de_head_sha r = head \<and>
       de_completeness r \<in> {''complete'', ''partial'', ''unavailable''}) (d_evidence db)"

definition may_analyze :: "pr_db \<Rightarrow> analysis_payload \<Rightarrow> bool" where
  "may_analyze db p =
     (case ap_member p of (c, repository, number) \<Rightarrow>
       list_ex (\<lambda>r. c_id r = c \<and> c_active r \<and> c_model_provider r \<noteq> []) (d_collections db) \<and>
       list_ex (\<lambda>r. pull_key r = (repository, number) \<and> ap_head_sha p = pu_head_sha r \<and>
         (pu_head_sha r = [] \<or> terminal_evidence db repository number (pu_head_sha r))) (d_pulls db))"

definition select_analysis :: "time \<Rightarrow> pr_db \<Rightarrow> analysis_payload job_row option" where
  "select_analysis now db =
     select_due now ((d_analysis db)\<lparr>q_jobs := filter (\<lambda>j. may_analyze db (j_payload j)) (q_jobs (d_analysis db))\<rparr>)"

definition ClaimAnalysis ::
  "(string \<Rightarrow> time option) \<Rightarrow> time \<Rightarrow> correlation_db \<Rightarrow> (analysis_store_error + analysis_job option) \<times> correlation_db" where
  "ClaimAnalysis parse now db =
     (case select_analysis now (k_pr db) of
        None \<Rightarrow> (Inr None, db)
      | Some r \<Rightarrow>
         (case ap_member (j_payload r) of (c, repository, number) \<Rightarrow>
           (case parse (j_scheduled_for r) of
              None \<Rightarrow> (Inl (ATimeParse (j_scheduled_for r)), db)
            | Some t \<Rightarrow> (Inr (Some \<lparr> nj_ID = j_id r, nj_CollectionID = c, nj_Repository = repository,
                 nj_Number = number, nj_HeadSHA = ap_head_sha (j_payload r), nj_PrimaryProvider = provider_of db c,
                 nj_FallbackProvider = snd (setting_of db c), nj_Forced = ap_forced (j_payload r),
                 nj_ScheduledFor = t \<rparr>),
                 update_pr (\<lambda>p. p\<lparr>d_analysis := start_job (j_id r) now (d_analysis p)\<rparr>) db))))"

definition RequeueAnalysisJob :: "nat \<Rightarrow> time \<Rightarrow> correlation_db \<Rightarrow> correlation_db" where
  "RequeueAnalysisJob i scheduledFor db =
     update_pr (\<lambda>p. p\<lparr>d_analysis := snd (requeue_job i scheduledFor (d_analysis p))\<rparr>) db"

text \<open>A job whose pull request has moved on is queued anew once the diff of the new head is known.\<close>

definition CompleteAnalysisJob :: "nat \<Rightarrow> time \<Rightarrow> correlation_db \<Rightarrow> analysis_store_error + correlation_db" where
  "CompleteAnalysisJob i completedAt db =
     (let pr = k_pr db in
      case find (\<lambda>j. j_id j = i) (q_jobs (d_analysis pr)) of
        None \<Rightarrow> Inr db
      | Some j \<Rightarrow>
         (case ap_member (j_payload j) of (c, repository, number) \<Rightarrow>
           (let pr1 = pr\<lparr>d_analysis := finish_job i completedAt (d_analysis pr)\<rparr> in
            case find (\<lambda>r. pull_key r = (repository, number)) (d_pulls pr) of
              None \<Rightarrow> Inr (update_pr (\<lambda>_. pr1) db)
            | Some r \<Rightarrow>
                if pu_head_sha r \<noteq> ap_head_sha (j_payload j) \<and>
                   (pu_head_sha r = [] \<or> terminal_evidence pr repository number (pu_head_sha r))
                then (case enqueueAnalysisForPRTx c repository number False completedAt pr1 of
                        Inl e \<Rightarrow> Inl (AJobs e)
                      | Inr pr2 \<Rightarrow> Inr (update_pr (\<lambda>_. pr2) db))
                else Inr (update_pr (\<lambda>_. pr1) db))))"

section \<open>The request of a job\<close>

definition source_text :: "relationship \<Rightarrow> string" where
  "source_text r =
     (if rel_Text r = [] then rel_Title r
      else if rel_Title r \<noteq> [] \<and> rel_Title r \<noteq> rel_Text r then rel_Title r @ [CHR 0x0A] @ rel_Text r
      else rel_Text r) @
     (if rel_State r \<noteq> [] then [CHR 0x0A] @ ''State: '' @ rel_State r else [])"

definition relationship_sources :: "pr_db \<Rightarrow> pull_key \<Rightarrow> analysis_source list" where
  "relationship_sources db k =
     map (\<lambda>r. \<lparr> sc_ID = rel_SourceID r, sc_Kind = rel_Kind r, sc_Text = source_text r, sc_URL = rel_URL r \<rparr>)
       (sort_key rel_SourceID (map snd (filter (\<lambda>x. fst x = k) (d_relationships db))))"

definition diff_summary_of :: "pr_db \<Rightarrow> string \<Rightarrow> int \<Rightarrow> string \<Rightarrow> diff_summary" where
  "diff_summary_of db repository number head =
     (case find (\<lambda>r. de_repository r = repository \<and> de_number r = number \<and> de_head_sha r = head) (d_evidence db) of
        None \<Rightarrow> \<lparr> dm_Completeness = ''unavailable'', dm_OriginalFiles = 0, dm_SentFiles = 0, dm_OmittedFiles = 0,
          dm_OriginalBytes = 0, dm_SentBytes = 0, dm_Truncated = False \<rparr>
      | Some r \<Rightarrow> \<lparr> dm_Completeness = de_completeness r, dm_OriginalFiles = de_original_files r,
          dm_SentFiles = de_sent_files r, dm_OmittedFiles = de_omitted_files r,
          dm_OriginalBytes = de_original_bytes r, dm_SentBytes = de_sent_bytes r, dm_Truncated = de_truncated r \<rparr>)"

definition diff_sources :: "pr_db \<Rightarrow> string \<Rightarrow> int \<Rightarrow> string \<Rightarrow> string \<Rightarrow> analysis_source list" where
  "diff_sources db repository number head url =
     map (\<lambda>s. \<lparr> sc_ID = ds_source_id s, sc_Kind = ''diff'', sc_Text = ds_patch s, sc_URL = url @ ''/files'' \<rparr>)
       (sort_key ds_path (filter (\<lambda>s. ds_repository s = repository \<and> ds_number s = number \<and> ds_head_sha s = head)
         (d_sources db)))"

text \<open>One source for each pair of a group and one of its members that is the pull request.\<close>

definition group_sources :: "correlation_db \<Rightarrow> string \<Rightarrow> string \<Rightarrow> int \<Rightarrow> analysis_source list" where
  "group_sources db c repository number =
     concat (map (\<lambda>g. map (\<lambda>_. \<lparr> sc_ID = ''correlation-group:'' @ kg_ID (gw_group g), sc_Kind = ''correlation_group'',
         sc_Text = gw_text_graph g, sc_URL = [] \<rparr>)
       (filter (\<lambda>m. gm_collection m = c \<and> gm_group_id m = kg_ID (gw_group g) \<and> gm_repository m = repository \<and>
         gm_number m = number) (k_members db)))
       (sort_key (\<lambda>g. kg_ID (gw_group g)) (filter (\<lambda>g. gw_collection g = c) (k_groups db))))"

definition context_completeness :: "pr_db \<Rightarrow> pull_key \<Rightarrow> string" where
  "context_completeness db k =
     (case find (\<lambda>r. cr_key r = k) (d_contexts db) of None \<Rightarrow> ''unknown'' | Some r \<Rightarrow> cr_completeness r)"

definition Store_BuildAnalysisRequest ::
  "(string \<Rightarrow> time option) \<Rightarrow> (request_pull \<times> analysis_source list \<times> truncation \<times> diff_summary \<Rightarrow> string) \<Rightarrow>
   (string \<Rightarrow> string) \<Rightarrow> analysis_job \<Rightarrow> correlation_db \<Rightarrow> analysis_store_error + analysis_request" where
  "Store_BuildAnalysisRequest parse enc hash job db =
     (let pr = k_pr db; repository = nj_Repository job; number = nj_Number job; k = (repository, number) in
      case (if job_member job \<in> set (d_members pr) then find (\<lambda>r. pull_key r = k) (d_pulls pr) else None) of
        None \<Rightarrow> Inl AInputMissing
      | Some r \<Rightarrow>
          failIf (pu_head_sha r \<noteq> nj_HeadSHA job) ASuperseded
         (failIf (pu_head_sha r \<noteq> [] \<and> \<not> terminal_evidence pr repository number (pu_head_sha r)) APending
         (case parse (pu_updated_at r) of
            None \<Rightarrow> Inl (ATimeParse (pu_updated_at r))
          | Some updatedAt \<Rightarrow>
             (case BuildAnalysisRequest enc hash
                \<lparr> ni_CollectionID = nj_CollectionID job, ni_Repository = repository, ni_Number = number,
                  ni_Title = pu_title r, ni_Description = pu_body r, ni_URL = pu_url r, ni_UpdatedAt = updatedAt,
                  ni_Additions = pu_additions r, ni_Deletions = pu_deletions r,
                  ni_ContextCompleteness = context_completeness pr k,
                  ni_Files = sort (map (\<lambda>x. f_Path (snd x)) (filter (\<lambda>x. fst x = k) (d_files pr))),
                  ni_Sources = relationship_sources pr k @ diff_sources pr repository number (pu_head_sha r) (pu_url r) @
                    group_sources db (nj_CollectionID job) repository number,
                  ni_DiffEvidence = diff_summary_of pr repository number (pu_head_sha r) \<rparr> of
                Inl e \<Rightarrow> Inl (ABuild e)
              | Inr request \<Rightarrow> Inr request))))"

text \<open>Whether the last attempt was complete for exactly these inputs, by a provider still assigned.\<close>

definition AnalysisIsCurrent :: "analysis_job \<Rightarrow> string \<Rightarrow> pr_db \<Rightarrow> bool" where
  "AnalysisIsCurrent job revision db =
     (case find (\<lambda>a. at_member a = job_member job) (d_attempts db) of
        None \<Rightarrow> False
      | Some a \<Rightarrow>
          at_status a = ''complete'' \<and>
          list_ex (\<lambda>r. rs_member r = job_member job \<and> sr_schema_version r = at_schema_version a) (d_results db) \<and>
          at_input_revision a = revision \<and>
          (at_provider a = nj_PrimaryProvider job \<or>
            nj_FallbackProvider job \<noteq> [] \<and> at_provider a = nj_FallbackProvider job) \<and>
          at_schema_version a = ''analysis.v2'')"

definition KnownSourceIDs :: "analysis_request \<Rightarrow> string list" where
  "KnownSourceIDs r = rq_SourceID (nr_PullRequest r) # map sc_ID (nr_Sources r)"

definition SortWaiting :: "waiting_state list \<Rightarrow> waiting_state list" where
  "SortWaiting ws = sort_key wt_Party ws"

section \<open>Recording results\<close>

definition ensureAnalysisJobCurrentTx :: "analysis_job \<Rightarrow> pr_db \<Rightarrow> analysis_store_error option" where
  "ensureAnalysisJobCurrentTx job db =
     (case find (\<lambda>r. pull_key r = (nj_Repository job, nj_Number job)) (d_pulls db) of
        None \<Rightarrow> Some ASuperseded
      | Some r \<Rightarrow> guardE (pu_head_sha r \<noteq> nj_HeadSHA job) ASuperseded)"

definition retainAnalysisPayload ::
  "string \<Rightarrow> string \<Rightarrow> string \<Rightarrow> time \<Rightarrow> correlation_db \<Rightarrow> analysis_store_error + correlation_db" where
  "retainAnalysisPayload i request response at db =
     failIf (list_ex (\<lambda>r. py_id r = i) (k_payloads db)) (AConstraint ''retained_model_payloads'')
      (Inr (db\<lparr>k_payloads := k_payloads db @ [\<lparr> py_id = i, py_request = request, py_response = response,
         py_created_at = formatTime at \<rparr>]\<rparr>))"

definition upsertAnalysisAttempt :: "analysis_attempt_row \<Rightarrow> correlation_db \<Rightarrow> analysis_store_error + correlation_db" where
  "upsertAnalysisAttempt a db =
     failIf (at_member a \<notin> set (d_members (k_pr db)) \<or>
       at_status a \<notin> {''complete'', ''partial'', ''unknown'', ''failed''}) (AConstraint ''analysis_attempt_state'')
      (Inr (update_pr (\<lambda>p. p\<lparr>d_attempts := upsert at_member (\<lambda>old new. new) a (d_attempts p)\<rparr>) db))"

text \<open>The encoded body of a model request or of its answer.\<close>

type_synonym body = string

definition writeAnalysisAttempt ::
  "string option \<Rightarrow> analysis_job \<Rightarrow> string \<Rightarrow> string \<Rightarrow> string \<Rightarrow> string \<Rightarrow> string \<Rightarrow> string \<Rightarrow> string \<Rightarrow> body \<Rightarrow> body \<Rightarrow>
   time \<Rightarrow> string \<Rightarrow> correlation_db \<Rightarrow> analysis_store_error + correlation_db" where
  "writeAnalysisAttempt pid job revision schema prompt status provider fallbackFrom model requestBody responseBody
     analyzedAt message db =
     failE (ensureAnalysisJobCurrentTx job (k_pr db))
      (bindR (if requestBody \<noteq> [] \<or> responseBody \<noteq> []
         then (case pid of None \<Rightarrow> Inl APayloadID
           | Some i \<Rightarrow> bindR (retainAnalysisPayload i requestBody responseBody analyzedAt db) (\<lambda>d. Inr (i, d)))
         else Inr ([], db)) (\<lambda>(i, db1).
       upsertAnalysisAttempt \<lparr> at_member = job_member job, at_status = status, at_input_revision = revision,
         at_provider = provider, at_fallback_from = fallbackFrom, at_model = model,
         at_attempted_at = formatTime analyzedAt, at_payload_id = i, at_error = message,
         at_schema_version = schema, at_prompt_version = prompt \<rparr> db1))"

definition RecordAnalysisFailure ::
  "string option \<Rightarrow> analysis_job \<Rightarrow> analysis_request \<Rightarrow> string \<Rightarrow> string \<Rightarrow> body \<Rightarrow> body \<Rightarrow> time \<Rightarrow> string \<Rightarrow> string \<Rightarrow>
   correlation_db \<Rightarrow> analysis_store_error + correlation_db" where
  "RecordAnalysisFailure pid job request provider model requestBody responseBody analyzedAt status message db =
     failIf (status \<noteq> ''unknown'' \<and> status \<noteq> ''failed'') (ABadStatus status)
      (writeAnalysisAttempt pid job (nr_InputRevision request) (nr_SchemaVersion request) (nr_PromptVersion request)
         status provider [] model requestBody responseBody analyzedAt message db)"

definition RecordAnalysisBuildFailure ::
  "analysis_job \<Rightarrow> time \<Rightarrow> string \<Rightarrow> correlation_db \<Rightarrow> analysis_store_error + correlation_db" where
  "RecordAnalysisBuildFailure job analyzedAt message db =
     writeAnalysisAttempt None job [] ''analysis.v2'' ''analysis-prompt.v2'' ''failed'' [] [] [] [] [] analyzedAt message db"

definition result_row_of ::
  "analysis_job \<Rightarrow> analysis_request \<Rightarrow> analysis_result \<Rightarrow> string \<Rightarrow> string \<Rightarrow> string \<Rightarrow> time \<Rightarrow> string \<Rightarrow> stored_result" where
  "result_row_of job request result provider fallbackFrom model analyzedAt i =
     \<lparr> rs_member = job_member job, rs_result = result, rs_provider = provider, rs_model = model,
       rs_analyzed_at = Some (formatTime analyzedAt), rs_payload_id = i,
       sr_input_revision = nr_InputRevision request, sr_fallback_from = fallbackFrom, sr_quality_level = nx_QualityLevel result,
       sr_schema_version = nr_SchemaVersion request, sr_prompt_version = nr_PromptVersion request \<rparr>"

definition writeAnalysis ::
  "string option \<Rightarrow> analysis_job \<Rightarrow> analysis_request \<Rightarrow> analysis_result \<Rightarrow> string \<Rightarrow>
   string \<Rightarrow> string \<Rightarrow> string \<Rightarrow> body \<Rightarrow> body \<Rightarrow> time \<Rightarrow> string \<Rightarrow> correlation_db \<Rightarrow>
   analysis_store_error + correlation_db" where
  "writeAnalysis pid job request result status provider fallbackFrom model requestBody responseBody
     analyzedAt message db =
     (case pid of
        None \<Rightarrow> Inl APayloadID
      | Some i \<Rightarrow>
          failE (ensureAnalysisJobCurrentTx job (k_pr db))
         (bindR (retainAnalysisPayload i requestBody responseBody analyzedAt db) (\<lambda>db1.
          failIf (job_member job \<notin> set (d_members (k_pr db1)) \<or>
            nx_QualityLevel result \<notin> {''no_concerns'', ''review_suggested'', ''strong_concerns''})
            (AConstraint ''analysis_results'')
         (upsertAnalysisAttempt \<lparr> at_member = job_member job, at_status = status,
              at_input_revision = nr_InputRevision request, at_provider = provider, at_fallback_from = fallbackFrom,
              at_model = model, at_attempted_at = formatTime analyzedAt, at_payload_id = i, at_error = message,
              at_schema_version = nr_SchemaVersion request, at_prompt_version = nr_PromptVersion request \<rparr>
            (update_pr (\<lambda>p. p\<lparr>d_results := upsert rs_member (\<lambda>old new. new)
               (result_row_of job request result provider fallbackFrom model analyzedAt i) (d_results p)\<rparr>) db1)))))"

definition RecordAnalysis ::
  "string option \<Rightarrow> analysis_job \<Rightarrow> analysis_request \<Rightarrow> analysis_result \<Rightarrow> string \<Rightarrow> string \<Rightarrow>
   string \<Rightarrow> string \<Rightarrow> string \<Rightarrow> time \<Rightarrow> correlation_db \<Rightarrow> analysis_store_error + correlation_db" where
  "RecordAnalysis pid job request result provider fallbackFrom model requestBody responseBody analyzedAt db =
     writeAnalysis pid job request result ''complete'' provider fallbackFrom model requestBody responseBody
       analyzedAt [] db"

text \<open>The zero value of a result.\<close>

definition no_result :: analysis_result where
  "no_result = \<lparr> nx_Status = [], nx_Load = None, nx_WaitingOn = [], nx_QualityLevel = [], nx_Evaluations = [] \<rparr>"

definition last_result :: "analysis_job \<Rightarrow> pr_db \<Rightarrow> analysis_result" where
  "last_result job db =
     (case find (\<lambda>r. rs_member r = job_member job) (d_results db) of None \<Rightarrow> no_result | Some r \<Rightarrow> rs_result r)"

definition merged_result :: "analysis_result \<Rightarrow> provider_response \<Rightarrow> analysis_result" where
  "merged_result previous response =
     (let r = MergeAnalysis previous response in r\<lparr>nx_WaitingOn := SortWaiting (nx_WaitingOn r)\<rparr>)"

definition RecordAnalysisSections ::
  "string option \<Rightarrow> analysis_job \<Rightarrow> analysis_request \<Rightarrow>
   provider_response \<Rightarrow> string \<Rightarrow> string \<Rightarrow> string \<Rightarrow> body \<Rightarrow> body \<Rightarrow> time \<Rightarrow> string \<Rightarrow> string \<Rightarrow> correlation_db \<Rightarrow>
   analysis_store_error + correlation_db" where
  "RecordAnalysisSections pid job request response provider fallbackFrom model requestBody
     responseBody analyzedAt status message db =
     failIf (status \<noteq> ''complete'' \<and> status \<noteq> ''partial'') (ABadStatus status)
      (writeAnalysis pid job request (merged_result (last_result job (k_pr db)) response) status provider fallbackFrom
         model requestBody responseBody analyzedAt message db)"

section \<open>The status of the queue\<close>

record analysis_queue_status =
  aq_Queued :: nat
  aq_Running :: nat
  aq_Oldest :: "time option"
  aq_Failures :: nat
  aq_Stale :: nat
  aq_LastResult :: "time option"

definition latest_of :: "string list \<Rightarrow> string option" where
  "latest_of ts = (if ts = [] then None else Some (Max (set ts)))"

definition parse_time :: "(string \<Rightarrow> time option) \<Rightarrow> string option \<Rightarrow> analysis_store_error + time option" where
  "parse_time parse v =
     (case v of None \<Rightarrow> Inr None
      | Some s \<Rightarrow> (case parse s of None \<Rightarrow> Inl (ATimeParse s) | Some t \<Rightarrow> Inr (Some t)))"

definition AnalysisStatus ::
  "(string \<Rightarrow> time option) \<Rightarrow> correlation_db \<Rightarrow> analysis_store_error + analysis_queue_status" where
  "AnalysisStatus parse db =
     (let pr = k_pr db; jobs = (\<lambda>s. filter (\<lambda>j. j_status j = s) (q_jobs (d_analysis pr))) in
      bindR (parse_time parse (oldest_of (map j_scheduled_for (jobs Queued)))) (\<lambda>oldest.
      bindR (parse_time parse (latest_of (map at_attempted_at (d_attempts pr)))) (\<lambda>latest.
      Inr \<lparr> aq_Queued = length (jobs Queued), aq_Running = length (jobs Running), aq_Oldest = oldest,
        aq_Failures = count_where (\<lambda>a. at_status a \<noteq> ''complete'') (d_attempts pr),
        aq_Stale = sum_list (map (\<lambda>j. count_where (\<lambda>r. rs_member r = ap_member (j_payload j)) (d_results pr))
          (filter active (q_jobs (d_analysis pr)))), aq_LastResult = latest \<rparr>)))"

end
