(* ===== verification/AnalysisWorker.thy ===== *)
theory AnalysisWorker
  imports AnalysisStore
begin

text \<open>
  The analysis worker (\<open>internal/analysisworker/worker.go\<close>). A round claims one job and processes
  it: the request is built, the providers are asked in turn, and what is valid of an answer is
  recorded. \<open>env\<close> is what other parts of the service do to the store between the reading of the
  inputs and the recording. Cancellation, telemetry and logging are left out.
\<close>

type_synonym analysis_provider = "analysis_request \<Rightarrow> provider_answer"

record analysis_worker =
  aw_providers :: "string \<Rightarrow> analysis_provider option"
  aw_decoders :: analysis_decoders
  aw_parse :: "string \<Rightarrow> time option"
  aw_enc :: "request_pull \<times> analysis_source list \<times> truncation \<times> diff_summary \<Rightarrow> string"
  aw_hash :: "string \<Rightarrow> string"
  aw_payload_id :: "string option"
  aw_poll_interval :: int

definition message_partial :: string where
  "message_partial = ''Some model analysis sections were invalid; valid sections were retained.''"
definition message_build :: string where
  "message_build = ''Analysis input could not be built; prior valid analysis is preserved.''"
definition message_failed :: string where
  "message_failed = ''Model provider unavailable; factual pull request data remains available.''"
definition message_unknown :: string where
  "message_unknown = ''Model response was invalid; analysis is unknown.''"

definition fallback_from :: "analysis_job \<Rightarrow> string \<Rightarrow> string" where
  "fallback_from job provider = (if provider \<noteq> nj_PrimaryProvider job then nj_PrimaryProvider job else [])"

definition record_sections ::
  "analysis_worker \<Rightarrow> analysis_job \<Rightarrow> analysis_request \<Rightarrow> string \<Rightarrow> provider_answer \<Rightarrow> provider_response \<Rightarrow> string \<Rightarrow> string \<Rightarrow>
   time \<Rightarrow> correlation_db \<Rightarrow> analysis_store_error + correlation_db" where
  "record_sections w job request provider a response status message now db =
     RecordAnalysisSections (aw_payload_id w) job request response provider
       (fallback_from job provider) (pa_Model a) (pa_RequestBody a) (pa_ResponseBody a) now status message db"

text \<open>\<open>schema\<close> is \<open>lastFailureKind == "schema"\<close>.\<close>

fun analyze_with ::
  "analysis_worker \<Rightarrow> analysis_job \<Rightarrow> analysis_request \<Rightarrow> time \<Rightarrow> string list \<Rightarrow> attempt_state \<Rightarrow> bool \<Rightarrow> correlation_db \<Rightarrow>
   analysis_store_error + correlation_db" where
  "analyze_with w job request now [] latest schema db =
     RecordAnalysisFailure (aw_payload_id w) job request (as_provider latest) (as_model latest) (as_request latest)
       (as_response latest) now (if schema then ''unknown'' else ''failed'')
       (if schema then message_unknown else message_failed) db"
| "analyze_with w job request now (n # ns) latest schema db =
     (case aw_providers w n of
        None \<Rightarrow> analyze_with w job request now ns (latest\<lparr>as_provider := n\<rparr>) False db
      | Some provider \<Rightarrow>
         (let a = provider request;
              latest1 = \<lparr> as_provider = n, as_model = pa_Model a, as_request = pa_RequestBody a,
                as_response = pa_ResponseBody a \<rparr>
          in case pa_Output a of
               None \<Rightarrow> analyze_with w job request now ns latest1 False db
             | Some output \<Rightarrow>
                (let (response, errors) = ValidateAnalysisResponse (aw_decoders w) output (KnownSourceIDs request) in
                 if errors \<noteq> []
                 then (if HasValidSections response
                       then record_sections w job request n a response ''partial'' message_partial now db
                       else analyze_with w job request now ns latest1 True db)
                 else record_sections w job request n a response ''complete'' [] now db)))"

definition provider_names :: "analysis_job \<Rightarrow> string list" where
  "provider_names job = nj_PrimaryProvider job # (if nj_FallbackProvider job \<noteq> [] then [nj_FallbackProvider job] else [])"

definition analysis_process ::
  "analysis_worker \<Rightarrow> (correlation_db \<Rightarrow> correlation_db) \<Rightarrow> analysis_job \<Rightarrow> time \<Rightarrow> correlation_db \<Rightarrow>
   analysis_store_error option \<times> correlation_db" where
  "analysis_process w env job now db =
     (case Store_BuildAnalysisRequest (aw_parse w) (aw_enc w) (aw_hash w) job db of
        Inl e \<Rightarrow>
         (case RecordAnalysisBuildFailure job now message_build (env db) of
            Inl e1 \<Rightarrow> (Some (ABoth e e1), env db)
          | Inr db1 \<Rightarrow> (None, db1))
      | Inr request \<Rightarrow>
          if \<not> nj_Forced job \<and> AnalysisIsCurrent job (nr_InputRevision request) (k_pr db) then (None, env db)
          else (case analyze_with w job request now (provider_names job)
                  \<lparr> as_provider = [], as_model = [], as_request = [], as_response = [] \<rparr> False (env db) of
                  Inl e \<Rightarrow> (Some e, env db)
                | Inr db1 \<Rightarrow> (None, db1)))"

text \<open>\<open>errors.Is(err, ErrAnalysisSuperseded)\<close>.\<close>

fun is_superseded :: "analysis_store_error \<Rightarrow> bool" where
  "is_superseded ASuperseded = True"
| "is_superseded (ABoth e f) = (is_superseded e \<or> is_superseded f)"
| "is_superseded e = False"

definition complete_or_fail ::
  "nat \<Rightarrow> time \<Rightarrow> correlation_db \<Rightarrow> analysis_store_error option \<times> correlation_db" where
  "complete_or_fail i at db = (case CompleteAnalysisJob i at db of Inl e \<Rightarrow> (Some e, db) | Inr db1 \<Rightarrow> (None, db1))"

definition AnalysisRunOnce ::
  "analysis_worker \<Rightarrow> (correlation_db \<Rightarrow> correlation_db) \<Rightarrow> time \<Rightarrow> time \<Rightarrow> correlation_db \<Rightarrow>
   analysis_store_error option \<times> correlation_db" where
  "AnalysisRunOnce w env now after db =
     (case ClaimAnalysis (aw_parse w) now db of
        (Inl e, db0) \<Rightarrow> (Some e, db0)
      | (Inr None, db0) \<Rightarrow> (None, db0)
      | (Inr (Some job), db0) \<Rightarrow>
         (case analysis_process w env job now db0 of
            (None, db1) \<Rightarrow> complete_or_fail (nj_ID job) after db1
          | (Some e, db1) \<Rightarrow>
              if is_superseded e then complete_or_fail (nj_ID job) after db1
              else (None, RequeueAnalysisJob (nj_ID job) (after + aw_poll_interval w) db1)))"

fun analysis_rounds ::
  "analysis_worker \<Rightarrow> (time \<times> time \<times> (correlation_db \<Rightarrow> correlation_db)) list \<Rightarrow> correlation_db \<Rightarrow>
   analysis_store_error option \<times> correlation_db" where
  "analysis_rounds w [] db = (None, db)"
| "analysis_rounds w ((now, after, env) # ts) db =
     (case AnalysisRunOnce w env now after db of
        (Some e, db1) \<Rightarrow> (Some e, db1)
      | (None, db1) \<Rightarrow> analysis_rounds w ts db1)"

definition AnalysisRun ::
  "analysis_worker \<Rightarrow> (time \<times> time \<times> (correlation_db \<Rightarrow> correlation_db)) list \<Rightarrow> correlation_db \<Rightarrow>
   analysis_store_error option \<times> correlation_db" where
  "AnalysisRun w ts db = analysis_rounds w ts (RecoverAnalysisJobs db)"

end
