(* ===== verification/AnalysisFacts.thy ===== *)
theory AnalysisFacts
  imports Analysis
begin

text \<open>
  The bounds of analysis requests, and what every stored analysis result satisfies however many
  partly valid answers it was merged from.
\<close>

section \<open>Requests\<close>

lemma unique_strict: "sorted vs \<Longrightarrow> sorted_wrt (<) (unique vs)"
  unfolding unique_def by (intro remdups_adj_strict sorted_filter [where f = "\<lambda>x. x", simplified])

lemma unique_analysis_sources_ids:
  "distinct (map sc_ID (unique_analysis_sources seen vs)) \<and>
   sc_ID ` set (unique_analysis_sources seen vs) \<inter> set seen = {} \<and>
   list_all (\<lambda>s. sc_ID s \<noteq> []) (unique_analysis_sources seen vs)"
proof (induction vs arbitrary: seen)
  case (Cons v vs)
  from Cons.IH [of seen] Cons.IH [of "sc_ID v # seen"] show ?case by auto
qed simp

lemma unique_analysis_sources_filter:
  "length (filter P (unique_analysis_sources seen vs)) \<le> length (filter P vs)"
proof (induction vs arbitrary: seen)
  case (Cons v vs)
  from Cons.IH [of seen] Cons.IH [of "sc_ID v # seen"] show ?case by (auto intro: le_SucI)
qed simp

lemma unique_analysis_sources_subset: "set (unique_analysis_sources seen vs) \<subseteq> set vs"
proof (induction vs arbitrary: seen)
  case (Cons v vs)
  from Cons.IH [of seen] Cons.IH [of "sc_ID v # seen"] show ?case by auto
qed simp

lemma unique_analysis_sources_sorted:
  "sorted (map f vs) \<Longrightarrow> sorted (map f (unique_analysis_sources seen vs))"
proof (induction vs arbitrary: seen)
  case (Cons v vs)
  from Cons.prems have s: "sorted (map f vs)" "\<forall>x\<in>set vs. f v \<le> f x" by simp_all
  from Cons.IH [OF s(1), of seen] Cons.IH [OF s(1), of "sc_ID v # seen"] s(2)
    unique_analysis_sources_subset [of "sc_ID v # seen" vs]
  show ?case by auto
qed simp

lemma unique_analysis_sources_first:
  assumes "x \<in> set vs" "sorted (map f vs)" "sc_ID x \<noteq> []" "sc_ID x \<notin> set seen"
  shows "\<exists>y\<in>set (unique_analysis_sources seen vs). sc_ID y = sc_ID x \<and> f y \<le> f x"
  using assms
proof (induction vs arbitrary: seen)
  case (Cons v vs)
  show ?case
  proof (cases "sc_ID v = sc_ID x")
    case True
    with Cons.prems show ?thesis by auto
  next
    case False
    with Cons.prems have "x \<in> set vs" "sorted (map f vs)" by auto
    with Cons.IH [of seen] Cons.IH [of "sc_ID v # seen"] Cons.prems(3,4) False show ?thesis by auto
  qed
qed simp

lemma sorted_sources: "sorted (map sourcePriority (sort_sources ss))"
  unfolding sort_sources_def by (rule sorted_sort_key)

lemma set_sort_sources [simp]: "set (sort_sources ss) = set ss"
  by (simp add: sort_sources_def)

lemma length_filter_sort_key: "length (filter P (sort_key f xs)) = length (filter P xs)"
  by (metis mset_filter mset_sort size_mset)

lemma sorted_prefix: "sorted (map f xs) \<Longrightarrow> filter (\<lambda>x. f x < n) xs = takeWhile (\<lambda>x. f x < n) xs"
  for f :: "'a \<Rightarrow> nat"
proof (induction xs)
  case (Cons x xs)
  show ?case
  proof (cases "f x < n")
    case False
    with Cons.prems have "filter (\<lambda>x. f x < n) xs = []" by (auto simp: filter_empty_conv)
    with False show ?thesis by simp
  next
    case True
    with Cons show ?thesis by simp
  qed
qed simp

lemma in_take_of_small:
  fixes f :: "'a \<Rightarrow> nat"
  assumes "sorted (map f xs)" "x \<in> set xs" "f x < n" "length (filter (\<lambda>x. f x < n) xs) \<le> k"
  shows "x \<in> set (take k xs)"
proof -
  have "x \<in> set (takeWhile (\<lambda>x. f x < n) xs)"
    using assms(2,3) by (simp only: sorted_prefix [OF assms(1), symmetric]) simp
  moreover have "takeWhile (\<lambda>x. f x < n) xs = take (length (takeWhile (\<lambda>x. f x < n) xs)) xs"
    by (rule takeWhile_eq_take)
  moreover have "length (takeWhile (\<lambda>x. f x < n) xs) \<le> k"
    using assms(4) by (simp only: sorted_prefix [OF assms(1)])
  ultimately show ?thesis by (metis set_take_subset_set_take subsetD)
qed

lemma bound_source_simps [simp]:
  "sc_ID (bound_source s) = sc_ID s" "sc_Kind (bound_source s) = sc_Kind s"
  "sourcePriority (bound_source s) = sourcePriority s"
  by (simp_all add: bound_source_def sourcePriority_def)

lemma own_source_sent:
  assumes "length (filter (\<lambda>s. sourcePriority s < 2) (ni_Sources i)) < 300"
  shows "AnalysisPullRequestSourceID (ni_Repository i) (ni_Number i) \<in> sc_ID ` set (take 300 (ordered_sources i))"
proof -
  let ?own = "\<lparr> sc_ID = AnalysisPullRequestSourceID (ni_Repository i) (ni_Number i), sc_Kind = ''pull_request'',
        sc_Text = truncateUTF8 (ni_Description i) MaxDescriptionBytes, sc_URL = ni_URL i \<rparr>"
  let ?L = "unique_analysis_sources [] (sort_sources (all_sources i))"
  have own: "?own \<in> set (sort_sources (all_sources i))" "sc_ID ?own \<noteq> []" "sourcePriority ?own = 1"
    by (simp_all add: all_sources_def AnalysisPullRequestSourceID_def sourcePriority_def)
  from unique_analysis_sources_first [OF own(1) sorted_sources own(2), of "[]"] own(3) obtain y where
    y: "y \<in> set ?L" "sc_ID y = sc_ID ?own" "sourcePriority y < 2" by auto
  have "filter (\<lambda>s. sourcePriority s < 2) (map (\<lambda>f. \<lparr> sc_ID = ''file:'' @ f, sc_Kind = ''changed_file'',
      sc_Text = f, sc_URL = ni_URL i @ ''/files'' \<rparr>) fs) = []" for fs
    by (simp add: filter_empty_conv sourcePriority_def)
  then have "length (filter (\<lambda>s. sourcePriority s < 2) (all_sources i)) \<le> 300"
    using assms by (simp add: all_sources_def)
  then have "length (filter (\<lambda>s. sourcePriority s < 2) (sort_sources (all_sources i))) \<le> 300"
    by (simp add: sort_sources_def length_filter_sort_key)
  then have "length (filter (\<lambda>s. sourcePriority s < 2) ?L) \<le> 300"
    using unique_analysis_sources_filter [of "\<lambda>s. sourcePriority s < 2" "[]" "sort_sources (all_sources i)"] by linarith
  from in_take_of_small [OF unique_analysis_sources_sorted [OF sorted_sources] y(1,3) this]
  have "y \<in> set (take 300 ?L)" .
  then have "bound_source y \<in> set (take 300 (ordered_sources i))"
    by (simp add: ordered_sources_def take_map)
  with y(2) show ?thesis by (metis (no_types, lifting) analysis_source.select_convs(1) bound_source_simps(1) image_eqI)
qed

definition request_bounded :: "analysis_request \<Rightarrow> bool" where
  "request_bounded r \<longleftrightarrow>
     length (nr_Sources r) \<le> 300 \<and> distinct (map sc_ID (nr_Sources r)) \<and> sorted (map sourcePriority (nr_Sources r)) \<and>
     list_all (\<lambda>s. sc_ID s \<noteq> [] \<and> length (sc_Text s) \<le> (if sc_Kind s = ''diff'' then 8192 else 2048)) (nr_Sources r) \<and>
     length (rq_Files (nr_PullRequest r)) \<le> 100 \<and> sorted_wrt (<) (rq_Files (nr_PullRequest r)) \<and>
     length (rq_Description (nr_PullRequest r)) \<le> 12288 \<and>
     lt_Sent (tr_Sources (nr_Truncation r)) = length (nr_Sources r) \<and>
     lt_Original (tr_Sources (nr_Truncation r)) = lt_Sent (tr_Sources (nr_Truncation r)) + lt_Omitted (tr_Sources (nr_Truncation r)) \<and>
     lt_Sent (tr_Files (nr_Truncation r)) = length (rq_Files (nr_PullRequest r)) \<and>
     lt_Original (tr_Files (nr_Truncation r)) = lt_Sent (tr_Files (nr_Truncation r)) + lt_Omitted (tr_Files (nr_Truncation r))"

lemma list_all_map_sources:
  assumes "list_all (\<lambda>s. sc_ID s \<noteq> []) us"
  shows "list_all (\<lambda>s. sc_ID s \<noteq> [] \<and> length (sc_Text s) \<le> (if sc_Kind s = ''diff'' then 8192 else 2048))
    (take 300 (map bound_source us))"
  using assms truncateUTF8_length
  by (intro list_all_take) (auto simp: list_all_iff bound_source_def MaxDiffSourceBytes_def MaxSourceBytes_def)

lemma ordered_sources_bounded:
  "distinct (map sc_ID (take 300 (ordered_sources i)))" "sorted (map sourcePriority (take 300 (ordered_sources i)))"
  "list_all (\<lambda>s. sc_ID s \<noteq> [] \<and> length (sc_Text s) \<le> (if sc_Kind s = ''diff'' then 8192 else 2048))
    (take 300 (ordered_sources i))"
proof -
  let ?L = "unique_analysis_sources [] (sort_sources (all_sources i))"
  have m: "map sc_ID (ordered_sources i) = map sc_ID ?L" "map sourcePriority (ordered_sources i) = map sourcePriority ?L"
    by (simp_all add: ordered_sources_def)
  show "distinct (map sc_ID (take 300 (ordered_sources i)))"
    unfolding take_map [symmetric] m using unique_analysis_sources_ids by (intro distinct_take) blast
  show "sorted (map sourcePriority (take 300 (ordered_sources i)))"
    unfolding take_map [symmetric] m by (intro sorted_wrt_take unique_analysis_sources_sorted sorted_sources)
  show "list_all (\<lambda>s. sc_ID s \<noteq> [] \<and> length (sc_Text s) \<le> (if sc_Kind s = ''diff'' then 8192 else 2048))
    (take 300 (ordered_sources i))"
    unfolding ordered_sources_def using unique_analysis_sources_ids by (intro list_all_map_sources) blast
qed


definition sample_summary :: diff_summary where
  "sample_summary = \<lparr> dm_Completeness = [], dm_OriginalFiles = 0, dm_SentFiles = 0, dm_OmittedFiles = 0,
     dm_OriginalBytes = 0, dm_SentBytes = 0, dm_Truncated = False \<rparr>"

definition sample_analysis_input :: analysis_input where
  "sample_analysis_input = \<lparr> ni_CollectionID = ''c'', ni_Repository = ''o/r'', ni_Number = 1, ni_Title = ''t'',
     ni_Description = ''d'', ni_URL = ''u'', ni_UpdatedAt = 0, ni_Additions = 1, ni_Deletions = 0,
     ni_ContextCompleteness = [], ni_Files = [''b'', ''a''], ni_Sources = [], ni_DiffEvidence = sample_summary \<rparr>"


section \<open>Validated sections\<close>

definition citations_ok :: "string list \<Rightarrow> string list \<Rightarrow> bool" where
  "citations_ok known ids \<longleftrightarrow> ids \<noteq> [] \<and> length ids \<le> 20 \<and> distinct ids \<and> set ids \<subseteq> set known"

definition text_ok :: "string \<Rightarrow> bool" where
  "text_ok t \<longleftrightarrow> TrimSpace t \<noteq> [] \<and> RuneCount t \<le> 500"

definition completeness_ok :: "string \<Rightarrow> string option \<Rightarrow> bool" where
  "completeness_ok c reason \<longleftrightarrow> (c = ''complete'' \<and> reason = None) \<or>
     (c = ''partial'' \<and> (case reason of None \<Rightarrow> False | Some r \<Rightarrow> text_ok r))"

definition component_ok :: "string list \<Rightarrow> load_component \<Rightarrow> bool" where
  "component_ok known c \<longleftrightarrow> lc_Level c \<in> {''low'', ''medium'', ''high'', ''unknown''} \<and> text_ok (lc_Reason c) \<and>
     citations_ok known (lc_SourceIDs c) \<and> completeness_ok (lc_EvidenceCompleteness c) (lc_PartialReason c)"

definition load_ok :: "string list \<Rightarrow> review_load \<Rightarrow> bool" where
  "load_ok known l \<longleftrightarrow> rl_Overall l \<in> {''low'', ''medium'', ''high''} \<and> text_ok (rl_Rationale l) \<and>
     citations_ok known (rl_SourceIDs l) \<and> completeness_ok (rl_EvidenceCompleteness l) (rl_PartialReason l) \<and>
     component_ok known (rl_ChangeScope l) \<and> component_ok known (rl_RequiredContext l) \<and>
     component_ok known (rl_ConceptualComplexity l) \<and> component_ok known (rl_ReviewRisk l)"

definition waiting_ok :: "string list \<Rightarrow> waiting_state list \<Rightarrow> bool" where
  "waiting_ok known ws \<longleftrightarrow> distinct (map wt_Party ws) \<and>
     list_all (\<lambda>w. wt_Party w \<in> set parties \<and> text_ok (wt_Reason w) \<and> citations_ok known (wt_SourceIDs w)) ws"

definition evaluation_ok :: "string list \<Rightarrow> quality_evaluation \<Rightarrow> bool" where
  "evaluation_ok known e \<longleftrightarrow>
     (qe_Status e = ''no_concern'' \<and> qe_Completeness e = ''complete'' \<and> qe_Finding e = None) \<or>
     (qe_Status e = ''not_evaluated'' \<and> qe_Completeness e = ''partial'' \<and> qe_Finding e = None \<and> text_ok (qe_Reason e)) \<or>
     (qe_Status e = ''finding'' \<and> (case qe_Finding e of None \<Rightarrow> False
       | Some f \<Rightarrow> qf_Severity f \<in> {''low'', ''medium'', ''high''} \<and> qf_Confidence f \<in> {''medium'', ''high''} \<and>
           (qf_Severity f = ''high'' \<longrightarrow> qe_Completeness e = ''complete'' \<and> qf_Confidence f = ''high'') \<and>
           (qe_Family e \<in> {''missing_expected_tests'', ''unsupported_references''} \<longrightarrow> qe_Completeness e = ''complete'') \<and>
           text_ok (qf_Summary f) \<and> citations_ok known (qf_SourceIDs f)))"

text \<open>Exactly one evaluation of each family.\<close>

definition evaluations_ok :: "string list \<Rightarrow> quality_evaluation list \<Rightarrow> bool" where
  "evaluations_ok known es \<longleftrightarrow> mset (map qe_Family es) = mset ModelQualityFamilies \<and> list_all (evaluation_ok known) es"

lemma check_citations_ok:
  "check_citations n known seen ids = None \<Longrightarrow> distinct ids \<and> set ids \<inter> set seen = {} \<and> set ids \<subseteq> set known"
proof (induction ids arbitrary: seen)
  case (Cons i ids)
  then have "check_citations n known (i # seen) ids = None" "i \<in> set known" "i \<notin> set seen"
    by (simp_all split: if_splits)
  with Cons.IH [of "i # seen"] show ?case by auto
qed simp

lemma validateTextAndSources_ok:
  "validateTextAndSources n t limit ids known = None \<Longrightarrow> limit = 500 \<Longrightarrow> text_ok t \<and> citations_ok known ids"
  using check_citations_ok [of n known "[]" ids]
  by (auto simp: validateTextAndSources_def text_ok_def citations_ok_def split: if_splits)

lemma validateCompleteness_ok: "validateCompleteness n c r = None \<Longrightarrow> completeness_ok c r"
  unfolding validateCompleteness_def completeness_ok_def text_ok_def
  by (auto simp: MaxReasonRunes_def split: if_splits option.splits)

lemma validateComponent_ok: "validateComponent n c known = None \<Longrightarrow> component_ok known c"
  using validateTextAndSources_ok validateCompleteness_ok
  unfolding validateComponent_def component_ok_def seqE_None guardE_None MaxReasonRunes_def by blast

lemma validateReviewCognitiveLoad_ok:
  assumes "validateReviewCognitiveLoad l known = None"
  shows "load_ok known l"
proof -
  from assms have "rl_Overall l \<in> {''low'', ''medium'', ''high''}"
    and t: "validateTextAndSources ''reviewCognitiveLoad'' (rl_Rationale l) 500 (rl_SourceIDs l) known = None"
    and c: "validateCompleteness ''reviewCognitiveLoad'' (rl_EvidenceCompleteness l) (rl_PartialReason l) = None"
    and cs: "first_err (\<lambda>(n, c). validateComponent (''reviewCognitiveLoad'' @ n) c known)
        [(''.changeScope'', rl_ChangeScope l), (''.requiredContext'', rl_RequiredContext l),
         (''.conceptualComplexity'', rl_ConceptualComplexity l), (''.reviewRisk'', rl_ReviewRisk l)] = None"
    unfolding validateReviewCognitiveLoad_def Let_def seqE_None guardE_None MaxReasonRunes_def by blast+
  moreover from cs have "component_ok known (rl_ChangeScope l)" "component_ok known (rl_RequiredContext l)"
    "component_ok known (rl_ConceptualComplexity l)" "component_ok known (rl_ReviewRisk l)"
    by (auto split: option.splits intro: validateComponent_ok)
  ultimately show ?thesis
    using validateTextAndSources_ok [OF t refl] validateCompleteness_ok [OF c] unfolding load_ok_def by blast
qed

lemma check_waiting_ok:
  "check_waiting n seen ws known = None \<Longrightarrow> waiting_ok known ws \<and> wt_Party ` set ws \<inter> set seen = {}"
proof (induction ws arbitrary: n seen)
  case Nil
  then show ?case by (simp add: waiting_ok_def)
next
  case (Cons w ws)
  then have "check_waiting (n + 1) (wt_Party w # seen) ws known = None"
    and w: "wt_Party w \<in> set parties" "wt_Party w \<notin> set seen"
    and t: "validateTextAndSources (indexed ''waitingOn'' n) (wt_Reason w) 500 (wt_SourceIDs w) known = None"
    by (simp_all add: MaxReasonRunes_def)
  from Cons.IH [OF this(1)] w validateTextAndSources_ok [OF t refl] show ?case by (auto simp: waiting_ok_def)
qed

lemma validateQualityEvaluation_ok:
  assumes "validateQualityEvaluation n e known = None"
  shows "evaluation_ok known e"
proof -
  consider (a) "qe_Status e = ''no_concern''" | (b) "qe_Status e = ''not_evaluated''"
    | (c) "qe_Status e = ''finding''" using assms by (auto simp: validateQualityEvaluation_def Let_def split: if_splits)
  then show ?thesis
  proof cases
    case a
    with assms show ?thesis by (simp add: validateQualityEvaluation_def Let_def evaluation_ok_def)
  next
    case b
    with assms show ?thesis by (simp add: validateQualityEvaluation_def Let_def evaluation_ok_def text_ok_def MaxReasonRunes_def)
  next
    case c
    with assms obtain f where f: "qe_Finding e = Some f"
      and v: "validate_quality_finding (indexed ''qualityEvaluations'' n) e f known = None"
      by (auto simp: validateQualityEvaluation_def Let_def split: option.splits)
    from v have "qf_Severity f \<in> {''low'', ''medium'', ''high''}" "qf_Confidence f \<in> {''medium'', ''high''}"
      "qf_Severity f = ''high'' \<longrightarrow> qe_Completeness e = ''complete'' \<and> qf_Confidence f = ''high''"
      "qe_Family e \<in> {''missing_expected_tests'', ''unsupported_references''} \<longrightarrow> qe_Completeness e = ''complete''"
      and t: "validateTextAndSources (indexed ''qualityEvaluations'' n @ ''.finding'') (qf_Summary f) 500 (qf_SourceIDs f) known = None"
      unfolding validate_quality_finding_def seqE_None guardE_None MaxFindingRunes_def by blast+
    with c f validateTextAndSources_ok [OF t refl] show ?thesis unfolding evaluation_ok_def f option.case by blast
  qed
qed

lemma check_evaluations_ok:
  "check_evaluations n seen es known = None \<Longrightarrow> distinct (map qe_Family es) \<and> qe_Family ` set es \<inter> set seen = {} \<and>
     qe_Family ` set es \<subseteq> set ModelQualityFamilies \<and> list_all (evaluation_ok known) es"
proof (induction es arbitrary: n seen)
  case (Cons e es)
  then have "check_evaluations (n + 1) (qe_Family e # seen) es known = None"
    and e: "qe_Family e \<in> set ModelQualityFamilies" "qe_Family e \<notin> set seen" "validateQualityEvaluation n e known = None"
    by simp_all
  from Cons.IH [OF this(1)] e(1,2) validateQualityEvaluation_ok [OF e(3)] show ?case by auto
qed simp

lemma validateQualityEvaluations_ok:
  assumes "validateQualityEvaluations es known = None"
  shows "evaluations_ok known es"
proof -
  from assms have l: "length es = length ModelQualityFamilies" and c: "check_evaluations 0 [] es known = None"
    by (simp_all add: validateQualityEvaluations_def)
  note ok = check_evaluations_ok [OF c]
  have "distinct ModelQualityFamilies" by (simp add: ModelQualityFamilies_def)
  moreover from ok l have "set (map qe_Family es) = set ModelQualityFamilies"
    by (intro card_subset_eq) (simp_all add: distinct_card [symmetric, of "map qe_Family es"]
        distinct_card [OF \<open>distinct ModelQualityFamilies\<close>] distinct_card flip: set_map)
  ultimately have "mset (map qe_Family es) = mset ModelQualityFamilies"
    using ok by (simp only: set_eq_iff_mset_eq_distinct)
  with ok show ?thesis by (simp add: evaluations_ok_def)
qed

section \<open>Results\<close>

text \<open>
  What a stored result satisfies: each section is absent or was accepted in full, and the level
  is the one its evaluations give.
\<close>

definition result_ok :: "string list \<Rightarrow> analysis_result \<Rightarrow> bool" where
  "result_ok known r \<longleftrightarrow>
     (case nx_Load r of None \<Rightarrow> True | Some l \<Rightarrow> load_ok known l) \<and> waiting_ok known (nx_WaitingOn r) \<and>
     (nx_Evaluations r = [] \<or> evaluations_ok known (nx_Evaluations r)) \<and>
     nx_QualityLevel r = analysis_quality_level (nx_Evaluations r)"

lemma level_loop_storable:
  "l \<in> {''no_concerns'', ''review_suggested''} \<Longrightarrow>
     level_loop n l fs \<in> {''no_concerns'', ''review_suggested'', ''strong_concerns''}"
  by (induction n l fs rule: level_loop.induct) auto

lemma analysis_quality_level_nonempty: "analysis_quality_level es \<noteq> []"
proof -
  have "level_loop 0 ''no_concerns'' fs \<noteq> []" for fs
    using level_loop_storable [of "''no_concerns''" 0 fs] by auto
  then show ?thesis by (simp add: analysis_quality_level_def Level_def)
qed

lemma citations_ok_mono: "citations_ok known ids \<Longrightarrow> citations_ok (old @ known) ids" "citations_ok old ids \<Longrightarrow> citations_ok (old @ known) ids"
  by (auto simp: citations_ok_def)

lemma component_ok_mono: "component_ok k c \<Longrightarrow> (\<And>ids. citations_ok k ids \<Longrightarrow> citations_ok m ids) \<Longrightarrow> component_ok m c"
  by (simp add: component_ok_def)

lemma load_ok_mono: "load_ok k l \<Longrightarrow> (\<And>ids. citations_ok k ids \<Longrightarrow> citations_ok m ids) \<Longrightarrow> load_ok m l"
  using component_ok_mono [of k _ m] unfolding load_ok_def by blast

lemma waiting_ok_mono: "waiting_ok k w \<Longrightarrow> (\<And>ids. citations_ok k ids \<Longrightarrow> citations_ok m ids) \<Longrightarrow> waiting_ok m w"
  by (auto simp: waiting_ok_def list_all_iff)

lemma evaluation_ok_mono: "evaluation_ok k e \<Longrightarrow> (\<And>ids. citations_ok k ids \<Longrightarrow> citations_ok m ids) \<Longrightarrow> evaluation_ok m e"
  unfolding evaluation_ok_def by (cases "qe_Finding e") auto

lemma evaluations_ok_mono:
  "evaluations_ok k es \<Longrightarrow> (\<And>ids. citations_ok k ids \<Longrightarrow> citations_ok m ids) \<Longrightarrow> evaluations_ok m es"
  using evaluation_ok_mono [of k _ m] by (simp add: evaluations_ok_def list_all_iff)

lemma validateSection_None: "validateSection root s dec check z = (v, None) \<Longrightarrow> check v = None"
  by (auto simp: validateSection_def Let_def split: option.splits prod.splits if_splits)

lemma valid_sections_ok:
  assumes "ValidateAnalysisResponse d body known = (r, errs)"
  shows "SectionValid r SectionLoad \<Longrightarrow> load_ok known (pv_Load r)"
    "SectionValid r SectionWaiting \<Longrightarrow> waiting_ok known (pv_WaitingOn r)"
    "SectionValid r SectionEvaluations \<Longrightarrow> evaluations_ok known (pv_Evaluations r)"
proof -
  consider "pv_Valid r = []" | l e1 w e2 q e3 root where
    "validateSection root SectionLoad (dc_load d) (\<lambda>l. validateReviewCognitiveLoad l known) empty_load = (l, e1)"
    "validateSection root SectionWaiting (dc_waiting d) (\<lambda>w. validateWaitingOn w known) [] = (w, e2)"
    "validateSection root SectionEvaluations (dc_evaluations d) (\<lambda>e. validateQualityEvaluations e known) [] = (q, e3)"
    "r = \<lparr> pv_Load = l, pv_WaitingOn = w, pv_Evaluations = q, pv_Valid = map fst (filter (\<lambda>x. snd x = None)
        [(SectionLoad, e1), (SectionWaiting, e2), (SectionEvaluations, e3)]) \<rparr>"
    using assms by (auto simp: ValidateAnalysisResponse_def Let_def split: option.splits prod.splits)
  note cases = this
  show "load_ok known (pv_Load r)" if "SectionValid r SectionLoad"
    using cases
  proof cases
    case 2
    with that have "e1 = None" by (auto simp: SectionValid_def split: if_splits)
    with 2 show ?thesis using validateSection_None validateReviewCognitiveLoad_ok by fastforce
  qed (use that in \<open>simp add: SectionValid_def\<close>)
  show "waiting_ok known (pv_WaitingOn r)" if "SectionValid r SectionWaiting"
    using cases
  proof cases
    case 2
    with that have "e2 = None" by (auto simp: SectionValid_def split: if_splits)
    with 2(2) have "validateWaitingOn w known = None" using validateSection_None by fastforce
    with 2(4) show ?thesis using check_waiting_ok [of 0 "[]" w known] by (simp add: validateWaitingOn_def)
  qed (use that in \<open>simp add: SectionValid_def\<close>)
  show "evaluations_ok known (pv_Evaluations r)" if "SectionValid r SectionEvaluations"
    using cases
  proof cases
    case 2
    with that have "e3 = None" by (auto simp: SectionValid_def split: if_splits)
    with 2 show ?thesis using validateSection_None validateQualityEvaluations_ok by fastforce
  qed (use that in \<open>simp add: SectionValid_def\<close>)
qed

lemma merge_sections:
  "nx_Load (MergeAnalysis p r) = (if SectionValid r SectionLoad then Some (pv_Load r) else nx_Load p)"
  "nx_WaitingOn (MergeAnalysis p r) = (if SectionValid r SectionWaiting then pv_WaitingOn r else nx_WaitingOn p)"
  "nx_Evaluations (MergeAnalysis p r) = (if SectionValid r SectionEvaluations then pv_Evaluations r else nx_Evaluations p)"
  by (simp_all add: MergeAnalysis_def Let_def)

lemma merge_level:
  "nx_QualityLevel p = analysis_quality_level (nx_Evaluations p) \<Longrightarrow>
     nx_QualityLevel (MergeAnalysis p r) = analysis_quality_level (nx_Evaluations (MergeAnalysis p r))"
  by (simp add: MergeAnalysis_def Let_def analysis_quality_level_nonempty)

lemma merge_keeps_ok:
  assumes "ValidateAnalysisResponse d body known = (r, errs)" "result_ok old previous"
  shows "result_ok (old @ known) (MergeAnalysis previous r)"
proof -
  note new = valid_sections_ok [OF assms(1)]
  from assms(2) have old: "case nx_Load previous of None \<Rightarrow> True | Some l \<Rightarrow> load_ok old l"
    "waiting_ok old (nx_WaitingOn previous)"
    "nx_Evaluations previous = [] \<or> evaluations_ok old (nx_Evaluations previous)"
    and level: "nx_QualityLevel previous = analysis_quality_level (nx_Evaluations previous)"
    unfolding result_ok_def by blast+
  have 1: "case nx_Load (MergeAnalysis previous r) of None \<Rightarrow> True | Some l \<Rightarrow> load_ok (old @ known) l"
  proof (cases "SectionValid r SectionLoad")
    case True
    with load_ok_mono [OF new(1) [OF True] citations_ok_mono(1)] show ?thesis by (simp add: merge_sections)
  next
    case False
    with old(1) load_ok_mono [of old _ "old @ known"] citations_ok_mono(2) show ?thesis
      by (simp add: merge_sections split: option.splits)
  qed
  have 2: "waiting_ok (old @ known) (nx_WaitingOn (MergeAnalysis previous r))"
  proof (cases "SectionValid r SectionWaiting")
    case True
    with waiting_ok_mono [OF new(2) [OF True] citations_ok_mono(1)] show ?thesis by (simp add: merge_sections)
  next
    case False
    with waiting_ok_mono [OF old(2) citations_ok_mono(2)] show ?thesis by (simp add: merge_sections)
  qed
  have 3: "nx_Evaluations (MergeAnalysis previous r) = [] \<or>
      evaluations_ok (old @ known) (nx_Evaluations (MergeAnalysis previous r))"
  proof (cases "SectionValid r SectionEvaluations")
    case True
    with evaluations_ok_mono [OF new(3) [OF True] citations_ok_mono(1)] show ?thesis by (simp add: merge_sections)
  next
    case False
    with old(3) evaluations_ok_mono [of old "nx_Evaluations previous" "old @ known"] citations_ok_mono(2) show ?thesis
      by (auto simp: merge_sections)
  qed
  from 1 2 3 merge_level [OF level] show ?thesis unfolding result_ok_def by blast
qed

text \<open>C26. Whatever a model answers, the merged result stays well formed: a section of the answer
  enters the result only when it is complete and correct (levels and severities of the contract, at
  most one state per waiting party, exactly one evaluation of each quality family, a high severity
  only with complete evidence and high confidence, 1 to 20 different citations of sources known
  to the old or the new request), every other section keeps its previous value, and the level agrees
  with the evaluations.\<close>

theorem merged_result_ok:
  assumes "ValidateAnalysisResponse d body known = (r, errs)" "result_ok old previous"
  shows "result_ok (old @ known) (MergeAnalysis previous r) \<and>
    (\<not> SectionValid r SectionLoad \<longrightarrow> nx_Load (MergeAnalysis previous r) = nx_Load previous) \<and>
    (\<not> SectionValid r SectionWaiting \<longrightarrow> nx_WaitingOn (MergeAnalysis previous r) = nx_WaitingOn previous) \<and>
    (\<not> SectionValid r SectionEvaluations \<longrightarrow> nx_Evaluations (MergeAnalysis previous r) = nx_Evaluations previous)"
  using merge_keeps_ok [OF assms] by (simp add: merge_sections)

definition sample_decoders :: analysis_decoders where
  "sample_decoders = \<lparr> dc_root = (\<lambda>_. Some [(''waitingOn'', ''w'')]), dc_load = (\<lambda>_. (empty_load, False)),
     dc_waiting = (\<lambda>_. ([\<lparr> wt_Party = ''author'', wt_Reason = ''r'', wt_SourceIDs = [''s''] \<rparr>], True)),
     dc_evaluations = (\<lambda>_. ([], False)) \<rparr>"

theorem merged_result_ok_witness:
  "result_ok ([] @ [''s'']) (MergeAnalysis (AssembleAnalysis \<lparr> pv_Load = empty_load, pv_WaitingOn = [], pv_Evaluations = [], pv_Valid = [] \<rparr>)
     (fst (ValidateAnalysisResponse sample_decoders [] [''s'']))) \<and>
   pv_Valid (fst (ValidateAnalysisResponse sample_decoders [] [''s''])) = [SectionWaiting]"
proof -
  have "result_ok [] (AssembleAnalysis \<lparr> pv_Load = empty_load, pv_WaitingOn = [], pv_Evaluations = [], pv_Valid = [] \<rparr>)"
    by (simp add: result_ok_def AssembleAnalysis_def MergeAnalysis_def Let_def SectionValid_def waiting_ok_def
        analysis_quality_level_def Level_def List.map_filter_def)
  moreover have "pv_Valid (fst (ValidateAnalysisResponse sample_decoders [] [''s''])) = [SectionWaiting]" by code_simp
  ultimately show ?thesis using merged_result_ok prod.collapse by metis
qed

end
