(* ===== verification/AnalysisSamples.thy ===== *)
theory AnalysisSamples
  imports AnalysisWorker AnalysisFacts Diffs RefreshProps
begin

text \<open>
  A small store with one published pull request and a due analysis job, and two workers: one whose
  model answers a single valid section, one whose model answers all of them. The lemmas evaluate
  the worker on them; they show that the properties of the analysis worker speak of runs that
  exist.
\<close>

definition sample_provider_answer :: provider_answer where
  "sample_provider_answer = \<lparr> pa_Model = ''m'', pa_RequestBody = ''q'', pa_ResponseBody = ''a'', pa_Output = Some ''a'' \<rparr>"

text \<open>A model that always finds the author waiting for the pull request itself.\<close>

definition sample_analysis_worker :: analysis_worker where
  "sample_analysis_worker = \<lparr> aw_providers = (\<lambda>n. if n = ''p'' then Some (\<lambda>_. sample_provider_answer) else None),
     aw_decoders = sample_decoders\<lparr>dc_waiting := (\<lambda>_. ([\<lparr> wt_Party = ''author'', wt_Reason = ''r'',
       wt_SourceIDs = [''PR_o_r_9''] \<rparr>], True))\<rparr>,
     aw_parse = (\<lambda>_. Some 0), aw_enc = (\<lambda>_. ''e''), aw_hash = id, aw_payload_id = Some ''x'', aw_poll_interval = second \<rparr>"

definition sample_ndb :: correlation_db where
  "sample_ndb = \<lparr> k_refresh = no_refreshes (sample_pr_db\<lparr> d_pulls := [pull_row_of (sample_pull 9 [])],
       d_members := [(''c'', ''o/r'', 9)],
       d_collections := map (\<lambda>c. c\<lparr>c_model_provider := ''p''\<rparr>) (d_collections sample_pr_db),
       d_evidence := [\<lparr> de_repository = ''o/r'', de_number = 9, de_head_sha = pu_head_sha (pull_row_of (sample_pull 9 [])),
         de_completeness = ''complete'', de_original_files = 0, de_sent_files = 0, de_omitted_files = 0,
         de_original_bytes = 0, de_sent_bytes = 0, de_truncated = False, de_collected_at = [] \<rparr>],
       d_analysis := \<lparr> q_jobs = [\<lparr> j_id = 1, j_status = Queued, j_scheduled_for = [], j_started_at = None, j_finished_at = None,
         j_payload = \<lparr> ap_member = (''c'', ''o/r'', 9), ap_head_sha = pu_head_sha (pull_row_of (sample_pull 9 [])),
           ap_forced = False \<rparr> \<rparr>], q_next = 2 \<rparr> \<rparr>) no_progress,
     k_settings = [], k_jobs = empty_queue, k_groups = [], k_members = [], k_states = [], k_payloads = [] \<rparr>"

definition sample_analysis_job :: analysis_job where
  "sample_analysis_job = \<lparr> nj_ID = 1, nj_CollectionID = ''c'', nj_Repository = ''o/r'', nj_Number = 9,
     nj_HeadSHA = pu_head_sha (pull_row_of (sample_pull 9 [])), nj_PrimaryProvider = ''p'', nj_FallbackProvider = [],
     nj_Forced = False, nj_ScheduledFor = 0 \<rparr>"

lemma sample_analysis:
  "map_prod id (\<lambda>db. (map (map wt_Party \<circ> nx_WaitingOn \<circ> rs_result) (d_results (k_pr db)), map at_status (d_attempts (k_pr db))))
     (analysis_process sample_analysis_worker id sample_analysis_job 0 sample_ndb) = (None, [[''author'']], [''partial''])"
  by code_simp

text \<open>A model whose answer is complete.\<close>

definition sample_component :: load_component where
  "sample_component = \<lparr> lc_Level = ''low'', lc_Reason = ''r'', lc_SourceIDs = [''PR_o_r_9''],
     lc_EvidenceCompleteness = ''complete'', lc_PartialReason = None \<rparr>"

definition sample_load :: review_load where
  "sample_load = \<lparr> rl_ChangeScope = sample_component, rl_RequiredContext = sample_component,
     rl_ConceptualComplexity = sample_component, rl_ReviewRisk = sample_component, rl_Overall = ''low'', rl_Rationale = ''r'',
     rl_SourceIDs = [''PR_o_r_9''], rl_EvidenceCompleteness = ''complete'', rl_PartialReason = None \<rparr>"

definition sample_evaluation :: "string \<Rightarrow> quality_evaluation" where
  "sample_evaluation f = \<lparr> qe_Family = f, qe_Status = ''no_concern'', qe_Completeness = ''complete'', qe_Finding = None,
     qe_Reason = [] \<rparr>"

definition complete_analysis_worker :: analysis_worker where
  "complete_analysis_worker = sample_analysis_worker\<lparr>aw_decoders :=
     \<lparr> dc_root = (\<lambda>_. Some (map (\<lambda>s. (section_name s, [])) responseSections)), dc_load = (\<lambda>_. (sample_load, True)),
       dc_waiting = (\<lambda>_. ([], True)), dc_evaluations = (\<lambda>_. (map sample_evaluation ModelQualityFamilies, True)) \<rparr>\<rparr>"

abbreviation analyzed :: correlation_db where
  "analyzed \<equiv> snd (analysis_process complete_analysis_worker id sample_analysis_job 0 sample_ndb)"

lemma complete_analysis:
  "map_prod id (\<lambda>db. map_option at_status (find (\<lambda>a. at_member a = job_member sample_analysis_job) (d_attempts (k_pr db))))
     (analysis_process complete_analysis_worker id sample_analysis_job 0 sample_ndb) = (None, Some ''complete'')"
  by code_simp

definition sample_claim :: "correlation_db \<Rightarrow> (analysis_store_error + analysis_job option) \<times> correlation_db" where
  "sample_claim = ClaimAnalysis (aw_parse sample_analysis_worker) 0"

lemma sample_claimed:
  "map_prod id (\<lambda>db. let q = d_analysis (k_pr db) in
       (map j_id (q_jobs q), q_next q, map (\<lambda>j. (j_status j, ap_member (j_payload j), ap_head_sha (j_payload j))) (q_jobs q)))
     (sample_claim sample_ndb) =
   (Inr (Some sample_analysis_job), ([1], 2, [(Running, job_member sample_analysis_job, nj_HeadSHA sample_analysis_job)]))"
  by code_simp

lemma sample_round:
  "map_prod id (\<lambda>db. (map j_status (q_jobs (d_analysis (k_pr db))), map (map wt_Party \<circ> nx_WaitingOn \<circ> rs_result) (d_results (k_pr db))))
     (AnalysisRun sample_analysis_worker [(0, 0, id)] sample_ndb) = (None, [Completed], [[''author'']])"
  by code_simp

end
