(* ===== verification/AnalysisProps.thy ===== *)
theory AnalysisProps
  imports AnalysisSamples
begin

text \<open>
  What the analysis worker guarantees: results are only published for the current head of a
  published pull request, every stored result stays well formed, analysed inputs are not
  analysed again, and no claimed job is lost.
\<close>

section \<open>Writes\<close>

lemma update_pr_simps [simp]:
  "k_pr (update_pr f db) = f (k_pr db)" "k_groups (update_pr f db) = k_groups db"
  "k_members (update_pr f db) = k_members db" "k_settings (update_pr f db) = k_settings db"
  "k_payloads (update_pr f db) = k_payloads db"
  by (simp_all add: update_pr_def)

lemma find_upsert: "find (\<lambda>x. k x = k r) (upsert k (\<lambda>old new. new) r t) = Some r"
proof (cases "list_ex (\<lambda>x. k x = k r) t")
  case True
  then have "find (\<lambda>x. k x = k r) (update_where (\<lambda>x. k x = k r) (\<lambda>x. r) t) = Some r"
    by (induction t) (auto simp: update_where_def)
  with True show ?thesis by (simp add: upsert_def)
next
  case False
  then have "find (\<lambda>x. k x = k r) (t @ [r]) = Some r" by (induction t) auto
  with False show ?thesis by (simp add: upsert_def)
qed

lemma set_upsert_new: "x \<in> set (upsert k (\<lambda>old new. new) r t) \<Longrightarrow> x = r \<or> x \<in> set t \<and> k x \<noteq> k r"
  by (auto simp: upsert_def set_update_where list_ex_iff split: if_splits)

text \<open>The inputs of requests and everything but results and attempts are as before.\<close>

definition only_health :: "correlation_db \<Rightarrow> correlation_db \<Rightarrow> bool" where
  "only_health db db' \<longleftrightarrow> k_groups db' = k_groups db \<and> k_members db' = k_members db \<and> k_settings db' = k_settings db \<and>
     k_pr db' = (k_pr db)\<lparr> d_attempts := d_attempts (k_pr db'), d_results := d_results (k_pr db') \<rparr>"

definition head_current :: "analysis_job \<Rightarrow> correlation_db \<Rightarrow> bool" where
  "head_current job db \<longleftrightarrow> (\<exists>r\<in>set (d_pulls (k_pr db)). pull_key r = (nj_Repository job, nj_Number job) \<and>
     pu_head_sha r = nj_HeadSHA job)"

lemma ensure_None: "ensureAnalysisJobCurrentTx job (k_pr db) = None \<Longrightarrow> head_current job db"
  by (auto simp: ensureAnalysisJobCurrentTx_def head_current_def split: option.splits dest: find_SomeD)

lemma retain_Inr: "retainAnalysisPayload i rb sb at db = Inr db1 \<Longrightarrow>
    k_pr db1 = k_pr db \<and> k_groups db1 = k_groups db \<and> k_members db1 = k_members db \<and> k_settings db1 = k_settings db"
  by (auto simp: retainAnalysisPayload_def failIf_eq_Inr)

lemma payload_Inr:
  "(if c then (case pid of None \<Rightarrow> Inl APayloadID | Some i \<Rightarrow> bindR (retainAnalysisPayload i rb sb at db) (\<lambda>d. Inr (i, d)))
     else Inr ([], db)) = Inr (i, db1) \<Longrightarrow>
    k_pr db1 = k_pr db \<and> k_groups db1 = k_groups db \<and> k_members db1 = k_members db \<and> k_settings db1 = k_settings db"
  using retain_Inr by (cases pid) (auto simp: bindR_eq_Inr split: if_splits)

lemma attempt_Inr:
  assumes "writeAnalysisAttempt pid job revision schema prompt status provider fb model rb sb at msg db = Inr db'"
  shows "only_health db db'" "d_results (k_pr db') = d_results (k_pr db)" "head_current job db"
    "\<exists>a. find (\<lambda>x. at_member x = job_member job) (d_attempts (k_pr db')) = Some a \<and> at_status a = status"
proof -
  let ?a = "\<lambda>i. \<lparr> at_member = job_member job, at_status = status, at_input_revision = revision,
         at_provider = provider, at_fallback_from = fb, at_model = model,
         at_attempted_at = formatTime at, at_payload_id = i, at_error = msg,
         at_schema_version = schema, at_prompt_version = prompt \<rparr>"
  from assms obtain i db1 where e: "ensureAnalysisJobCurrentTx job (k_pr db) = None"
    and pl: "(if rb \<noteq> [] \<or> sb \<noteq> [] then (case pid of None \<Rightarrow> Inl APayloadID
       | Some i \<Rightarrow> bindR (retainAnalysisPayload i rb sb at db) (\<lambda>d. Inr (i, d))) else Inr ([], db)) = Inr (i, db1)"
    and u: "upsertAnalysisAttempt (?a i) db1 = Inr db'"
    unfolding writeAnalysisAttempt_def failE_eq_Inr bindR_eq_Inr by (elim exE conjE) (simp split: prod.splits)
  note db1 = payload_Inr [OF pl]
  from u have db': "db' = update_pr (\<lambda>p. p\<lparr>d_attempts := upsert at_member (\<lambda>old new. new) (?a i) (d_attempts p)\<rparr>) db1"
    by (simp add: upsertAnalysisAttempt_def failIf_eq_Inr)
  show "only_health db db'" "d_results (k_pr db') = d_results (k_pr db)" by (simp_all add: db' db1 only_health_def)
  show "head_current job db" by (rule ensure_None [OF e])
  have "find (\<lambda>x. at_member x = job_member job) (d_attempts (k_pr db')) = Some (?a i)"
    using find_upsert [of at_member "?a i" "d_attempts (k_pr db1)"] by (simp add: db')
  then show "\<exists>a. find (\<lambda>x. at_member x = job_member job) (d_attempts (k_pr db')) = Some a \<and> at_status a = status"
    by simp
qed

lemma write_Inr:
  assumes "writeAnalysis pid job request result status provider fb model rb sb at msg db = Inr db'"
  obtains i where "only_health db db'" "head_current job db" "job_member job \<in> set (d_members (k_pr db))"
    "d_results (k_pr db') = upsert rs_member (\<lambda>old new. new)
       (result_row_of job request result provider fb model at i) (d_results (k_pr db))"
    "\<exists>a. find (\<lambda>x. at_member x = job_member job) (d_attempts (k_pr db')) = Some a \<and> at_status a = status \<and>
       at_input_revision a = nr_InputRevision request \<and> at_provider a = provider \<and>
       at_schema_version a = nr_SchemaVersion request"
proof -
  from assms obtain i where i: "pid = Some i" by (cases pid) (simp_all add: writeAnalysis_def)
  let ?a = "\<lparr> at_member = job_member job, at_status = status,
              at_input_revision = nr_InputRevision request, at_provider = provider, at_fallback_from = fb,
              at_model = model, at_attempted_at = formatTime at, at_payload_id = i, at_error = msg,
              at_schema_version = nr_SchemaVersion request, at_prompt_version = nr_PromptVersion request \<rparr>"
  let ?r = "result_row_of job request result provider fb model at i"
  from assms i obtain db1 where e: "ensureAnalysisJobCurrentTx job (k_pr db) = None"
    and r: "retainAnalysisPayload i rb sb at db = Inr db1" and m: "job_member job \<in> set (d_members (k_pr db1))"
    and u: "upsertAnalysisAttempt ?a (update_pr (\<lambda>p. p\<lparr>d_results := upsert rs_member (\<lambda>old new. new) ?r (d_results p)\<rparr>) db1) = Inr db'"
    by (auto simp: writeAnalysis_def failE_eq_Inr bindR_eq_Inr failIf_eq_Inr)
  note db1 = retain_Inr [OF r]
  from u have db': "db' = update_pr (\<lambda>p. p\<lparr>d_attempts := upsert at_member (\<lambda>old new. new) ?a (d_attempts p)\<rparr>)
      (update_pr (\<lambda>p. p\<lparr>d_results := upsert rs_member (\<lambda>old new. new) ?r (d_results p)\<rparr>) db1)"
    by (simp add: upsertAnalysisAttempt_def failIf_eq_Inr)
  have "find (\<lambda>x. at_member x = job_member job) (d_attempts (k_pr db')) = Some ?a"
    using find_upsert [of at_member ?a "d_attempts (k_pr db1)"] by (simp add: db')
  moreover have "only_health db db'" by (simp add: db' db1 only_health_def)
  moreover have "d_results (k_pr db') = upsert rs_member (\<lambda>old new. new) ?r (d_results (k_pr db))" by (simp add: db' db1)
  ultimately show thesis using that [of i] ensure_None [OF e] m db1 by simp
qed

text \<open>The two ways a request is settled.\<close>

definition failed_attempt :: "analysis_worker \<Rightarrow> analysis_job \<Rightarrow> time \<Rightarrow> correlation_db \<Rightarrow> correlation_db \<Rightarrow> bool" where
  "failed_attempt w job now db db' \<longleftrightarrow>
     (\<exists>revision schema prompt st p fb m rb sb msg. st \<in> {''unknown'', ''failed''} \<and>
        writeAnalysisAttempt (aw_payload_id w) job revision schema prompt st p fb m rb sb now msg db = Inr db')"

definition recorded_answer :: "analysis_worker \<Rightarrow> analysis_job \<Rightarrow> analysis_request \<Rightarrow> time \<Rightarrow> string list \<Rightarrow> correlation_db \<Rightarrow>
    correlation_db \<Rightarrow> bool" where
  "recorded_answer w job request now ns db db' \<longleftrightarrow>
     (\<exists>n a body response errors st msg. n \<in> set ns \<and>
        ValidateAnalysisResponse (aw_decoders w) body (KnownSourceIDs request) = (response, errors) \<and>
        HasValidSections response \<and> record_sections w job request n a response st msg now db = Inr db')"

lemma failed_attemptI:
  "writeAnalysisAttempt (aw_payload_id w) job revision schema prompt st p fb m rb sb now msg db = Inr db' \<Longrightarrow>
     st = ''unknown'' \<or> st = ''failed'' \<Longrightarrow> failed_attempt w job now db db'"
  unfolding failed_attempt_def by blast

lemma failed_attemptD:
  assumes "failed_attempt w job now db db'"
  shows "only_health db db'" "d_results (k_pr db') = d_results (k_pr db)"
    "\<exists>a. find (\<lambda>x. at_member x = job_member job) (d_attempts (k_pr db')) = Some a \<and> at_status a \<noteq> ''complete''"
proof -
  from assms obtain revision schema prompt st p fb m rb sb msg where st: "st \<in> {''unknown'', ''failed''}"
    and w: "writeAnalysisAttempt (aw_payload_id w) job revision schema prompt st p fb m rb sb now msg db = Inr db'"
    unfolding failed_attempt_def by blast
  show "only_health db db'" by (rule attempt_Inr(1) [OF w])
  show "d_results (k_pr db') = d_results (k_pr db)" by (rule attempt_Inr(2) [OF w])
  show "\<exists>a. find (\<lambda>x. at_member x = job_member job) (d_attempts (k_pr db')) = Some a \<and> at_status a \<noteq> ''complete''"
    using attempt_Inr(4) [OF w] st by auto
qed

lemma recorded_answerI:
  "n \<in> set ns \<Longrightarrow> ValidateAnalysisResponse (aw_decoders w) body (KnownSourceIDs request) = (response, errors) \<Longrightarrow>
     HasValidSections response \<Longrightarrow> record_sections w job request n a response st msg now db = Inr db' \<Longrightarrow>
     recorded_answer w job request now ns db db'"
  unfolding recorded_answer_def by blast

lemma recorded_answer_mono:
  "recorded_answer w job request now ns db db' \<Longrightarrow> recorded_answer w job request now (n # ns) db db'"
  unfolding recorded_answer_def list.set by blast

lemma no_errors_valid: "ValidateAnalysisResponse d body known = (r, []) \<Longrightarrow> HasValidSections r"
  by (auto simp: ValidateAnalysisResponse_def Let_def HasValidSections_def SectionValid_def responseSections_def
      List.map_filter_simps split: option.splits prod.splits)

lemma analyze_with_settled:
  "analyze_with w job request now ns latest schema db = Inr db' \<Longrightarrow>
     failed_attempt w job now db db' \<or> recorded_answer w job request now ns db db'"
proof (induction ns arbitrary: latest schema)
  case Nil
  let ?st = "if schema then ''unknown'' else ''failed'' :: string"
  from Nil have "writeAnalysisAttempt (aw_payload_id w) job (nr_InputRevision request) (nr_SchemaVersion request)
      (nr_PromptVersion request) ?st (as_provider latest) [] (as_model latest) (as_request latest) (as_response latest) now
      (if schema then message_unknown else message_failed) db = Inr db'"
    by (simp add: RecordAnalysisFailure_def failIf_eq_Inr)
  from failed_attemptI [OF this] show ?case by simp
next
  case (Cons n ns)
  have rest: "failed_attempt w job now db db' \<or> recorded_answer w job request now (n # ns) db db'"
    if "analyze_with w job request now ns l k db = Inr db'" for l k
    using Cons.IH [OF that] recorded_answer_mono by blast
  show ?case
  proof (cases "aw_providers w n")
    case None
    with Cons.prems show ?thesis by (intro rest) simp
  next
    case (Some provider)
    define a where "a = provider request"
    show ?thesis
    proof (cases "pa_Output a")
      case None
      from Cons.prems [simplified Some analyze_with.simps option.case Let_def a_def [symmetric] None] show ?thesis by (rule rest)
    next
      case out: (Some body)
      obtain response errors where v:
        "ValidateAnalysisResponse (aw_decoders w) body (KnownSourceIDs request) = (response, errors)"
        by (cases "ValidateAnalysisResponse (aw_decoders w) body (KnownSourceIDs request)")
      note step = Cons.prems [simplified Some analyze_with.simps option.case Let_def a_def [symmetric] out v prod.case]
      consider "errors = []" | "errors \<noteq> []" "HasValidSections response" | "errors \<noteq> []" "\<not> HasValidSections response"
        by blast
      then show ?thesis
      proof cases
        case 1
        with step have "record_sections w job request n a response ''complete'' [] now db = Inr db'" by simp
        with recorded_answerI [OF _ v no_errors_valid [OF v [unfolded 1]]] show ?thesis by force
      next
        case 2
        with step have "record_sections w job request n a response ''partial'' message_partial now db = Inr db'" by simp
        with recorded_answerI [OF _ v 2(2)] show ?thesis by force
      next
        case 3
        with step show ?thesis by (intro rest) simp
      qed
    qed
  qed
qed

lemma record_sections_Inr:
  assumes "record_sections w job request n a response status msg now db = Inr db'"
  obtains i where "only_health db db'" "head_current job db" "job_member job \<in> set (d_members (k_pr db))"
    "d_results (k_pr db') = upsert rs_member (\<lambda>old new. new)
       (result_row_of job request (merged_result (last_result job (k_pr db)) response) n (fallback_from job n) (pa_Model a)
          now i) (d_results (k_pr db))"
    "\<exists>x. find (\<lambda>x. at_member x = job_member job) (d_attempts (k_pr db')) = Some x \<and> at_status x = status \<and>
       at_input_revision x = nr_InputRevision request \<and> at_provider x = n \<and>
       at_schema_version x = nr_SchemaVersion request"
proof -
  from assms have "writeAnalysis (aw_payload_id w) job request (merged_result (last_result job (k_pr db)) response) status n
       (fallback_from job n) (pa_Model a) (pa_RequestBody a) (pa_ResponseBody a) now msg db = Inr db'"
    unfolding record_sections_def RecordAnalysisSections_def failIf_eq_Inr by blast
  then show thesis by (rule write_Inr) (rule that)
qed

text \<open>What a successful processing did: nothing, a failed attempt, or new sections.\<close>

lemma analysis_process_None:
  assumes "analysis_process w env job now db = (None, db')"
  obtains (build) msg where "writeAnalysisAttempt None job [] ''analysis.v2'' ''analysis-prompt.v2'' ''failed'' [] [] [] [] [] now msg (env db) = Inr db'"
  | (current) request where "Store_BuildAnalysisRequest (aw_parse w) (aw_enc w) (aw_hash w) job db = Inr request"
      "\<not> nj_Forced job" "AnalysisIsCurrent job (nr_InputRevision request) (k_pr db)" "db' = env db"
  | (asked) request where "Store_BuildAnalysisRequest (aw_parse w) (aw_enc w) (aw_hash w) job db = Inr request"
      "failed_attempt w job now (env db) db' \<or> recorded_answer w job request now (provider_names job) (env db) db'"
proof (cases "Store_BuildAnalysisRequest (aw_parse w) (aw_enc w) (aw_hash w) job db")
  case (Inl e)
  with assms show thesis
    by (intro build [of message_build]) (auto simp: analysis_process_def RecordAnalysisBuildFailure_def split: sum.splits)
next
  case (Inr request)
  show thesis
  proof (cases "\<not> nj_Forced job \<and> AnalysisIsCurrent job (nr_InputRevision request) (k_pr db)")
    case True
    with assms Inr show thesis by (intro current) (auto simp: analysis_process_def)
  next
    case False
    with assms Inr have "\<exists>l. analyze_with w job request now (provider_names job) l False (env db) = Inr db'"
      by (auto simp: analysis_process_def split: sum.splits if_splits)
    then show thesis using asked [OF Inr] analyze_with_settled by blast
  qed
qed

lemma analysis_process_Some: "analysis_process w env job now db = (Some e, db') \<Longrightarrow> db' = env db"
  by (auto simp: analysis_process_def split: sum.splits if_splits)

section \<open>Results are published for the current head\<close>

text \<open>C27. A result is only published when it is current: whatever changes while the model is asked
  (\<open>env\<close>), processing a job changes the stored results only when the request was built from the
  published state, at least one section of the answer was accepted against the sources of that
  request, and at the moment of writing the pull request is still published in the collection
  and still at the head the job was made for. It then touches the result of that member alone,
  and keeps every section that the answer does not replace.\<close>

theorem analysis_published_current:
  assumes "analysis_process w env job now db = (e, db')"
    and "d_results (k_pr db') \<noteq> d_results (k_pr (env db))"
  shows "e = None \<and> head_current job (env db) \<and> job_member job \<in> set (d_members (k_pr (env db))) \<and>
    (\<exists>request body response errors row.
       Store_BuildAnalysisRequest (aw_parse w) (aw_enc w) (aw_hash w) job db = Inr request \<and>
       ValidateAnalysisResponse (aw_decoders w) body (KnownSourceIDs request) = (response, errors) \<and>
       HasValidSections response \<and> rs_member row = job_member job \<and>
       rs_result row = merged_result (last_result job (k_pr (env db))) response \<and>
       sr_input_revision row = nr_InputRevision request \<and>
       d_results (k_pr db') = upsert rs_member (\<lambda>old new. new) row (d_results (k_pr (env db))))"
proof -
  have e: "e = None" using assms analysis_process_Some [of w env job now db] by (cases e) auto
  from assms(1) [unfolded e] show ?thesis
  proof (cases rule: analysis_process_None)
    case (build msg)
    from attempt_Inr(2) [OF build] assms(2) show ?thesis by simp
  next
    case (current request)
    with assms(2) show ?thesis by simp
  next
    case (asked request)
    from asked(2) assms(2) obtain n a body response errors st msg where
      v: "ValidateAnalysisResponse (aw_decoders w) body (KnownSourceIDs request) = (response, errors)"
      and h: "HasValidSections response"
      and r: "record_sections w job request n a response st msg now (env db) = Inr db'"
      unfolding recorded_answer_def using failed_attemptD(2) by blast
    let ?row = "\<lambda>i. result_row_of job request (merged_result (last_result job (k_pr (env db))) response) n
      (fallback_from job n) (pa_Model a) now i"
    from r obtain i where p: "head_current job (env db)" "job_member job \<in> set (d_members (k_pr (env db)))"
      and u: "d_results (k_pr db') = upsert rs_member (\<lambda>old new. new) (?row i) (d_results (k_pr (env db)))"
      by (rule record_sections_Inr)
    have "rs_member (?row i) = job_member job" "sr_input_revision (?row i) = nr_InputRevision request"
      "rs_result (?row i) = merged_result (last_result job (k_pr (env db))) response" by (simp_all add: result_row_of_def)
    with e asked(1) v h p u show ?thesis by blast
  qed
qed

section \<open>Stored results stay well formed\<close>

definition results_ok :: "correlation_db \<Rightarrow> bool" where
  "results_ok db \<longleftrightarrow> (\<forall>r\<in>set (d_results (k_pr db)). (\<exists>known. result_ok known (rs_result r)) \<and>
     sr_quality_level r = nx_QualityLevel (rs_result r))"

lemma merge_no_result: "MergeAnalysis no_result r = MergeAnalysis (no_result\<lparr>nx_QualityLevel := ''no_concerns''\<rparr>) r"
  by (simp add: MergeAnalysis_def no_result_def Let_def)

lemma result_ok_initial: "result_ok [] (no_result\<lparr>nx_QualityLevel := ''no_concerns''\<rparr>)"
  by (simp add: result_ok_def no_result_def waiting_ok_def analysis_quality_level_def Level_def List.map_filter_def)

lemma SortWaiting_ok: "waiting_ok known (SortWaiting ws) = waiting_ok known ws"
proof -
  have "mset (map wt_Party (SortWaiting ws)) = mset (map wt_Party ws)" by (simp add: SortWaiting_def)
  then have "distinct (map wt_Party (SortWaiting ws)) = distinct (map wt_Party ws)" by (rule mset_eq_imp_distinct_iff)
  then show ?thesis by (simp add: waiting_ok_def SortWaiting_def list_all_iff)
qed

lemma merged_result_keeps_ok:
  assumes "ValidateAnalysisResponse d body known = (r, errs)" "result_ok old previous \<or> previous = no_result"
  shows "\<exists>m. result_ok m (merged_result previous r)"
proof -
  have "\<exists>m. result_ok m (MergeAnalysis previous r)" using assms(2)
  proof
    assume "result_ok old previous"
    from merge_keeps_ok [OF assms(1) this] show ?thesis ..
  next
    assume "previous = no_result"
    with merge_keeps_ok [OF assms(1) result_ok_initial] show ?thesis by (auto simp: merge_no_result)
  qed
  then obtain m where "result_ok m (MergeAnalysis previous r)" ..
  then have "result_ok m (merged_result previous r)" by (simp add: result_ok_def merged_result_def Let_def SortWaiting_ok)
  then show ?thesis ..
qed

lemma last_result_ok:
  assumes "results_ok db"
  shows "\<exists>old. result_ok old (last_result job (k_pr db)) \<or> last_result job (k_pr db) = no_result"
proof (cases "find (\<lambda>r. rs_member r = job_member job) (d_results (k_pr db))")
  case None
  then show ?thesis by (simp add: last_result_def)
next
  case (Some r)
  with assms have "\<exists>known. result_ok known (rs_result r)" unfolding results_ok_def by (meson find_SomeD)
  with Some show ?thesis by (simp add: last_result_def)
qed

lemma recorded_results_ok:
  assumes "results_ok db" "recorded_answer w job request now ns db db'"
  shows "results_ok db'"
proof -
  from assms(2) obtain n a body response errors st msg where
    v: "ValidateAnalysisResponse (aw_decoders w) body (KnownSourceIDs request) = (response, errors)"
    and r: "record_sections w job request n a response st msg now db = Inr db'"
    unfolding recorded_answer_def by blast
  let ?x = "merged_result (last_result job (k_pr db)) response"
  from r obtain i where u: "d_results (k_pr db') = upsert rs_member (\<lambda>old new. new)
      (result_row_of job request ?x n (fallback_from job n) (pa_Model a) now i) (d_results (k_pr db))"
    by (rule record_sections_Inr)
  from last_result_ok [OF assms(1)] obtain m where "result_ok m ?x" using merged_result_keeps_ok [OF v] by blast
  then have new: "(\<exists>known. result_ok known (rs_result (result_row_of job request ?x p f m' t j))) \<and>
      sr_quality_level (result_row_of job request ?x p f m' t j) = nx_QualityLevel (rs_result (result_row_of job request ?x p f m' t j))"
    for p f m' t j by (auto simp: result_row_of_def)
  show ?thesis unfolding results_ok_def u
    using set_upsert_new assms(1) [unfolded results_ok_def] new by metis
qed

lemma process_results_ok:
  assumes "results_ok (env db)" "analysis_process w env job now db = (e, db')"
  shows "results_ok db'"
proof (cases e)
  case (Some f)
  with assms analysis_process_Some show ?thesis by blast
next
  case None
  from assms(2) [unfolded None] show ?thesis
  proof (cases rule: analysis_process_None)
    case (build msg)
    from attempt_Inr(2) [OF this] assms(1) show ?thesis by (simp add: results_ok_def)
  next
    case (current request)
    with assms(1) show ?thesis by simp
  next
    case (asked request)
    from asked(2) show ?thesis
    proof
      assume "failed_attempt w job now (env db) db'"
      from failed_attemptD(2) [OF this] assms(1) show ?thesis by (simp add: results_ok_def)
    qed (rule recorded_results_ok [OF assms(1)])
  qed
qed

text \<open>Everything but the analysis queue is as before.\<close>

definition only_jobs :: "correlation_db \<Rightarrow> correlation_db \<Rightarrow> bool" where
  "only_jobs db db' \<longleftrightarrow> (\<exists>q. db' = update_pr (\<lambda>p. p\<lparr>d_analysis := q\<rparr>) db)"

lemma only_jobs_results: "only_jobs db db' \<Longrightarrow> results_ok db' = results_ok db"
  by (auto simp: only_jobs_def results_ok_def)

lemma only_jobs_refl: "only_jobs db db"
  unfolding only_jobs_def by (intro exI [of _ "d_analysis (k_pr db)"]) (simp add: update_pr_def)

lemma CompleteAnalysisJob_only:
  assumes "CompleteAnalysisJob i t db = Inr db'"
  shows "only_jobs db db'"
proof (cases "find (\<lambda>j. j_id j = i) (q_jobs (d_analysis (k_pr db)))")
  case None
  with assms show ?thesis by (simp add: CompleteAnalysisJob_def only_jobs_refl)
next
  case (Some j)
  obtain c r n where m: "ap_member (j_payload j) = (c, r, n)" by (cases "ap_member (j_payload j)")
  let ?p = "(k_pr db)\<lparr>d_analysis := finish_job i t (d_analysis (k_pr db))\<rparr>"
  from assms Some m consider "db' = update_pr (\<lambda>_. ?p) db"
    | p where "enqueueAnalysisForPRTx c r n False t ?p = Inr p" "db' = update_pr (\<lambda>_. p) db"
    by (auto simp: CompleteAnalysisJob_def Let_def split: option.splits if_splits sum.splits)
  then show ?thesis
  proof cases
    case 1
    then show ?thesis by (auto simp: only_jobs_def update_pr_def)
  next
    case 2
    from enqueueAnalysisForPRTx_only [OF 2(1)] obtain q where "p = (k_pr db)\<lparr>d_analysis := q\<rparr>" by auto
    with 2(2) show ?thesis by (auto simp: only_jobs_def update_pr_def)
  qed
qed

lemma complete_or_fail_only: "complete_or_fail i t db = (e, db') \<Longrightarrow> only_jobs db db'"
  by (auto simp: complete_or_fail_def only_jobs_refl split: sum.splits dest: CompleteAnalysisJob_only)

lemma only_jobs_update: "only_jobs db (update_pr (\<lambda>p. p\<lparr>d_analysis := f (d_analysis p)\<rparr>) db)"
  unfolding only_jobs_def by (intro exI [of _ "f (d_analysis (k_pr db))"]) (simp add: update_pr_def)

lemma ClaimAnalysis_only: "ClaimAnalysis parse now db = (r, db') \<Longrightarrow> only_jobs db db'"
  unfolding ClaimAnalysis_def
  by (auto simp: only_jobs_refl only_jobs_update [of _ "start_job i now" for i] split: option.splits prod.splits)

lemma RunOnce_results_ok:
  assumes "\<And>d. results_ok d \<Longrightarrow> results_ok (env d)"
    and "results_ok db" "AnalysisRunOnce w env now t db = (e, db')"
  shows "results_ok db'"
proof -
  obtain r db0 where c: "ClaimAnalysis (aw_parse w) now db = (r, db0)" by (cases "ClaimAnalysis (aw_parse w) now db")
  from ClaimAnalysis_only [OF c] assms(2) have ok0: "results_ok db0" by (simp add: only_jobs_results)
  show ?thesis
  proof (cases "\<exists>job. r = Inr (Some job)")
    case False
    with assms(3) c ok0 show ?thesis by (auto simp: AnalysisRunOnce_def split: sum.splits option.splits)
  next
    case True
    then obtain job where r: "r = Inr (Some job)" by blast
    obtain f db1 where p: "analysis_process w env job now db0 = (f, db1)" by (cases "analysis_process w env job now db0")
    have ok1: "results_ok db1" by (rule process_results_ok [OF assms(1) [OF ok0] p])
    from assms(3) c r p consider "complete_or_fail (nj_ID job) t db1 = (e, db')"
      | "db' = RequeueAnalysisJob (nj_ID job) (t + aw_poll_interval w) db1"
      by (auto simp: AnalysisRunOnce_def split: option.splits if_splits)
    then show ?thesis
    proof cases
      case 1
      with complete_or_fail_only ok1 show ?thesis by (metis only_jobs_results)
    next
      case 2
      with ok1 show ?thesis by (simp add: RequeueAnalysisJob_def results_ok_def)
    qed
  qed
qed

text \<open>C28. In every state of the store each stored analysis decodes to a well formed result: a run of
  the worker, over any number of rounds, with any answers of the models and any changes other
  parts make that keep this invariant, never stores a section that a request's contract rejects,
  and the quality level of the row is that of its findings.\<close>

theorem stored_results_valid:
  assumes "\<And>now t env d. (now, t, env) \<in> set ts \<Longrightarrow> results_ok d \<Longrightarrow> results_ok (env d)"
    and "results_ok db" "AnalysisRun w ts db = (e, db')"
  shows "results_ok db'"
proof -
  have "analysis_rounds w ts db = (e, db') \<Longrightarrow> results_ok db \<Longrightarrow>
      (\<And>now t env d. (now, t, env) \<in> set ts \<Longrightarrow> results_ok d \<Longrightarrow> results_ok (env d)) \<Longrightarrow> results_ok db'" for ts db
  proof (induction ts arbitrary: db)
    case Nil
    then show ?case by simp
  next
    case (Cons x ts)
    obtain now t env where x: "x = (now, t, env)" by (cases x)
    obtain f db1 where r: "AnalysisRunOnce w env now t db = (f, db1)" by (cases "AnalysisRunOnce w env now t db")
    have ok: "results_ok db1"
      by (rule RunOnce_results_ok [OF _ Cons.prems(2) r]) (use Cons.prems(3) x in auto)
    show ?case
    proof (cases f)
      case None
      with Cons.prems(1) x r have "analysis_rounds w ts db1 = (e, db')" by simp
      then show ?thesis by (rule Cons.IH) (use ok Cons.prems(3) in auto)
    next
      case (Some g)
      with Cons.prems(1) x r ok show ?thesis by simp
    qed
  qed
  moreover have "results_ok (RecoverAnalysisJobs db)" using assms(2) by (simp add: RecoverAnalysisJobs_def results_ok_def)
  ultimately show ?thesis using assms(1,3) unfolding AnalysisRun_def by blast
qed

section \<open>Analysed inputs are not analysed again\<close>

lemma Store_Build_only_health:
  assumes "only_health db db'"
  shows "Store_BuildAnalysisRequest parse enc hash job db' = Store_BuildAnalysisRequest parse enc hash job db"
proof -
  from assms obtain a r where pr: "k_pr db' = (k_pr db)\<lparr>d_attempts := a, d_results := r\<rparr>"
    and k: "k_groups db' = k_groups db" "k_members db' = k_members db" unfolding only_health_def by blast
  have "d_members (k_pr db') = d_members (k_pr db)" "d_pulls (k_pr db') = d_pulls (k_pr db)"
    "d_evidence (k_pr db') = d_evidence (k_pr db)" "d_contexts (k_pr db') = d_contexts (k_pr db)"
    "d_files (k_pr db') = d_files (k_pr db)" "d_relationships (k_pr db') = d_relationships (k_pr db)"
    "d_sources (k_pr db') = d_sources (k_pr db)" by (simp_all add: pr)
  note fields = this
  show ?thesis
    unfolding Store_BuildAnalysisRequest_def terminal_evidence_def context_completeness_def relationship_sources_def
      diff_sources_def group_sources_def diff_summary_of_def Let_def fields k ..
qed

lemma Store_Build_schema:
  "Store_BuildAnalysisRequest parse enc hash job db = Inr request \<Longrightarrow> nr_SchemaVersion request = ''analysis.v2''"
  by (auto simp: Store_BuildAnalysisRequest_def BuildAnalysisRequest_def Let_def failIf_eq_Inr
      split: option.splits if_splits sum.splits)

text \<open>Analysis is idempotent: once the processing of a job ends with a complete attempt, processing
  the same unforced job again, with whatever models are then configured behind the same
  profiles, asks no model and changes nothing, because recording a result does not
  change what the next request is built from.\<close>

theorem analysis_not_repeated:
  assumes "analysis_process w id job now db = (None, db1)" "\<not> nj_Forced job"
    and "find (\<lambda>a. at_member a = job_member job) (d_attempts (k_pr db1)) = Some a" "at_status a = ''complete''"
    and "aw_parse w' = aw_parse w" "aw_enc w' = aw_enc w" "aw_hash w' = aw_hash w"
  shows "analysis_process w' id job t db1 = (None, db1)"
  using assms(1)
proof (cases rule: analysis_process_None)
  case (build msg)
  from attempt_Inr(4) [OF this] assms(3,4) show ?thesis by auto
next
  case (current request)
  with assms(2,5-7) show ?thesis by (simp add: analysis_process_def)
next
  case (asked request)
  note build = asked(1)
  from asked(2) assms(3,4) obtain n b response st msg where n: "n \<in> set (provider_names job)"
    and r: "record_sections w job request n b response st msg now db = Inr db1"
    unfolding recorded_answer_def using failed_attemptD(3) by (metis id_apply option.inject)
  from r show ?thesis
  proof (rule record_sections_Inr)
    fix i
    let ?row = "result_row_of job request (merged_result (last_result job (k_pr db)) response) n (fallback_from job n)
      (pa_Model b) now i"
    assume h: "only_health db db1"
      and u: "d_results (k_pr db1) = upsert rs_member (\<lambda>old new. new) ?row (d_results (k_pr db))"
      and "\<exists>x. find (\<lambda>x. at_member x = job_member job) (d_attempts (k_pr db1)) = Some x \<and> at_status x = st \<and>
        at_input_revision x = nr_InputRevision request \<and> at_provider x = n \<and>
        at_schema_version x = nr_SchemaVersion request"
    with assms(3) have a: "at_input_revision a = nr_InputRevision request" "at_provider a = n"
      "at_schema_version a = ''analysis.v2''" using Store_Build_schema [OF build] by auto
    have "find (\<lambda>x. rs_member x = job_member job) (d_results (k_pr db1)) = Some ?row"
      using find_upsert [of rs_member ?row] by (simp add: u result_row_of_def)
    then have "list_ex (\<lambda>x. rs_member x = job_member job \<and> sr_schema_version x = at_schema_version a) (d_results (k_pr db1))"
      using a(3) Store_Build_schema [OF build] by (auto simp: list_ex_iff result_row_of_def dest!: find_SomeD)
    with a n assms(3,4) have "AnalysisIsCurrent job (nr_InputRevision request) (k_pr db1)"
      by (auto simp: AnalysisIsCurrent_def provider_names_def split: if_splits)
    with assms(2,5-7) build show ?thesis by (simp add: analysis_process_def Store_Build_only_health [OF h])
  qed
qed

section \<open>No claimed job is lost\<close>

text \<open>A queued job for the member at a given head.\<close>

definition queued_for :: "member \<Rightarrow> string \<Rightarrow> pr_db \<Rightarrow> bool" where
  "queued_for m head db \<longleftrightarrow> list_ex (\<lambda>j. j_status j = Queued \<and> ap_member (j_payload j) = m \<and>
     ap_head_sha (j_payload j) = head) (q_jobs (d_analysis db))"

lemma find_Some_append: "find P xs = Some x \<Longrightarrow> find P (xs @ ys) = Some x"
  by (induction xs) auto

lemma status_enqueue_job:
  "job_status_of q i = Some s \<Longrightarrow> job_status_of (snd (enqueue_job key p t q)) i = Some s"
  by (auto simp: job_status_of_def enqueue_job_def dest: find_Some_append [where P = "\<lambda>r. j_id r = i"])

lemma status_update_same:
  assumes "\<And>j. P j \<Longrightarrow> j_id (F j) = j_id j \<and> j_status (F j) = j_status j"
  shows "job_status_of (q\<lparr>q_jobs := update_where P F (q_jobs q)\<rparr>) i = job_status_of q i"
  using assms by (cases "find (\<lambda>r. j_id r = i) (q_jobs q)") (auto simp: job_status_of_def find_update_where)

lemma enqueue_analysis_Inr:
  assumes "enqueueAnalysisForPRTx c r n f t db = Inr db'" "db' \<noteq> db"
  obtains p P F where "find (\<lambda>r'. pull_key r' = (r, n)) (d_pulls db) = Some p"
    "db' = db\<lparr>d_analysis := (snd (enqueue_job analysis_key \<lparr> ap_member = (c, r, n), ap_head_sha = pu_head_sha p,
        ap_forced = f \<rparr> t (d_analysis db)))\<lparr>q_jobs := update_where P F (q_jobs (snd (enqueue_job analysis_key
        \<lparr> ap_member = (c, r, n), ap_head_sha = pu_head_sha p, ap_forced = f \<rparr> t (d_analysis db))))\<rparr>\<rparr>"
    "\<And>j. P j \<longleftrightarrow> ap_member (j_payload j) = (c, r, n) \<and> j_status j = Queued"
    "\<And>j. j_id (F j) = j_id j \<and> j_status (F j) = j_status j \<and> ap_member (j_payload (F j)) = ap_member (j_payload j) \<and>
      ap_head_sha (j_payload (F j)) = pu_head_sha p"
proof -
  from assms obtain col where c: "find (\<lambda>c'. c_id c' = c) (d_collections db) = Some col" "c_model_provider col \<noteq> []"
    by (cases "find (\<lambda>c'. c_id c' = c) (d_collections db)") (auto simp: enqueueAnalysisForPRTx_def Let_def split: if_splits)
  with assms(1) obtain p where p: "find (\<lambda>r'. pull_key r' = (r, n)) (d_pulls db) = Some p"
    by (cases "find (\<lambda>r'. pull_key r' = (r, n)) (d_pulls db)") (simp_all add: enqueueAnalysisForPRTx_def Let_def)
  note e = assms(1) [unfolded enqueueAnalysisForPRTx_def Let_def c(1) p option.case if_not_P [OF c(2)] failIf_eq_Inr]
  show thesis
    by (rule that [OF p, of "\<lambda>j. ap_member (j_payload j) = (c, r, n) \<and> j_status j = Queued"
        "\<lambda>j. j\<lparr>j_payload := (j_payload j)\<lparr> ap_head_sha := pu_head_sha p, ap_forced := (f \<or> ap_forced (j_payload j)) \<rparr>,
           j_scheduled_for := min (j_scheduled_for j) (formatTime t)\<rparr>"]) (use e in simp_all)
qed

lemma enqueue_analysis_status:
  assumes "enqueueAnalysisForPRTx c r n f t db = Inr db'" "job_status_of (d_analysis db) i = Some s"
  shows "job_status_of (d_analysis db') i = Some s"
proof (cases "db' = db")
  case True
  with assms(2) show ?thesis by simp
next
  case False
  show ?thesis
  proof (rule enqueue_analysis_Inr [OF assms(1) False])
    fix p P F
    let ?q = "snd (enqueue_job analysis_key \<lparr> ap_member = (c, r, n), ap_head_sha = pu_head_sha p, ap_forced = f \<rparr> t
      (d_analysis db))"
    assume d: "db' = db\<lparr>d_analysis := ?q\<lparr>q_jobs := update_where P F (q_jobs ?q)\<rparr>\<rparr>"
      and F: "\<And>j. j_id (F j) = j_id j \<and> j_status (F j) = j_status j \<and>
        ap_member (j_payload (F j)) = ap_member (j_payload j) \<and> ap_head_sha (j_payload (F j)) = pu_head_sha p"
    have "job_status_of (?q\<lparr>q_jobs := update_where P F (q_jobs ?q)\<rparr>) i = job_status_of ?q i"
      by (rule status_update_same) (use F in simp)
    with status_enqueue_job [OF assms(2)] show "job_status_of (d_analysis db') i = Some s" by (simp add: d)
  qed
qed

lemma enqueue_analysis_queued:
  assumes "enqueueAnalysisForPRTx c r n f t db = Inr db'"
    and "find (\<lambda>x. c_id x = c) (d_collections db) = Some col" "c_model_provider col \<noteq> []"
    and "find (\<lambda>x. pull_key x = (r, n)) (d_pulls db) = Some p"
    and "\<not> list_ex (\<lambda>j. active j \<and> ap_member (j_payload j) = (c, r, n)) (q_jobs (d_analysis db))"
  shows "queued_for (c, r, n) (pu_head_sha p) db'"
  using assms
  by (auto simp: enqueueAnalysisForPRTx_def Let_def failIf_eq_Inr enqueue_job_def analysis_key_def queued_for_def
      update_where_def list_ex_iff active_def)

lemma sole_active:
  assumes "queue_ok key q" "j \<in> set (q_jobs q)" "active j"
  shows "\<not> list_ex (\<lambda>x. active x \<and> key (j_payload x) = key (j_payload j)) (q_jobs (finish_job (j_id j) t q))"
proof
  assume "list_ex (\<lambda>x. active x \<and> key (j_payload x) = key (j_payload j)) (q_jobs (finish_job (j_id j) t q))"
  then obtain x where x: "x \<in> set (q_jobs q)" "active x" "key (j_payload x) = key (j_payload j)" "j_id x \<noteq> j_id j"
    by (auto simp: finish_job_def finish_where_def list_ex_iff set_update_where active_def split: if_splits)
  from assms(1) have "inj_on (key \<circ> j_payload) (set (filter active (q_jobs q)))"
    by (simp add: queue_ok_def distinct_map)
  from inj_onD [OF this, of x j] x assms(2,3) have "x = j" by simp
  with x(4) show False by simp
qed

lemma process_only_health:
  assumes "analysis_process w env job now db = (e, db')"
  shows "only_health (env db) db'"
proof (cases e)
  case (Some f)
  with assms analysis_process_Some have "db' = env db" by blast
  then show ?thesis by (simp add: only_health_def)
next
  case None
  from assms [unfolded None] show ?thesis
  proof (cases rule: analysis_process_None)
    case (build msg)
    then show ?thesis by (rule attempt_Inr(1))
  next
    case (current request)
    then show ?thesis by (simp add: only_health_def)
  next
    case (asked request)
    then show ?thesis unfolding recorded_answer_def using failed_attemptD(1) record_sections_Inr by metis
  qed
qed

definition head_moved :: "analysis_job \<Rightarrow> pull_row \<Rightarrow> correlation_db \<Rightarrow> bool" where
  "head_moved job p db \<longleftrightarrow> find (\<lambda>r. pull_key r = (nj_Repository job, nj_Number job)) (d_pulls (k_pr db)) = Some p \<and>
     pu_head_sha p \<noteq> nj_HeadSHA job \<and>
     (pu_head_sha p = [] \<or> terminal_evidence (k_pr db) (nj_Repository job) (nj_Number job) (pu_head_sha p)) \<and>
     provider_of db (nj_CollectionID job) \<noteq> []"

lemma complete_settles:
  assumes "CompleteAnalysisJob (nj_ID job) t db = Inr db'" "queue_ok analysis_key (d_analysis (k_pr db))"
    and row: "find (\<lambda>j. j_id j = nj_ID job) (q_jobs (d_analysis (k_pr db))) = Some row" "j_status row = Running"
      "ap_member (j_payload row) = job_member job" "ap_head_sha (j_payload row) = nj_HeadSHA job"
  shows "job_status_of (d_analysis (k_pr db')) (nj_ID job) = Some Completed \<and>
    (\<forall>p. head_moved job p db \<longrightarrow> queued_for (job_member job) (pu_head_sha p) (k_pr db'))"
proof -
  let ?pr = "(k_pr db)\<lparr>d_analysis := finish_job (nj_ID job) t (d_analysis (k_pr db))\<rparr>"
  have fin: "job_status_of (d_analysis ?pr) (nj_ID job) = Some Completed"
    using row by (simp add: status_finish_job job_status_of_def)
  have sole: "\<not> list_ex (\<lambda>j. active j \<and> ap_member (j_payload j) = job_member job) (q_jobs (d_analysis ?pr))"
    using sole_active [OF assms(2), of row t] find_SomeD [OF row(1)] row(2,3) by (simp add: analysis_key_def active_def)
  show ?thesis
  proof (cases "\<exists>p. head_moved job p db")
    case False
    from assms(1) row have "db' = update_pr (\<lambda>_. ?pr) db \<or>
        (\<exists>p. enqueueAnalysisForPRTx (nj_CollectionID job) (nj_Repository job) (nj_Number job) False t ?pr = Inr p \<and> k_pr db' = p)"
      by (auto simp: CompleteAnalysisJob_def job_member_def Let_def split: option.splits if_splits sum.splits)
    with False fin show ?thesis using enqueue_analysis_status [OF _ fin] by auto
  next
    case True
    then obtain p where p: "head_moved job p db" ..
    then obtain col where col: "find (\<lambda>x. c_id x = nj_CollectionID job) (d_collections ?pr) = Some col" "c_model_provider col \<noteq> []"
      by (auto simp: head_moved_def provider_of_def split: option.splits)
    from p assms(1) row have e: "enqueueAnalysisForPRTx (nj_CollectionID job) (nj_Repository job) (nj_Number job) False t ?pr =
        Inr (k_pr db')"
      by (auto simp: CompleteAnalysisJob_def head_moved_def job_member_def Let_def split: sum.splits)
    from p have f: "find (\<lambda>r. pull_key r = (nj_Repository job, nj_Number job)) (d_pulls ?pr) = Some p"
      by (simp add: head_moved_def)
    from enqueue_analysis_queued [OF e col f] sole have "queued_for (job_member job) (pu_head_sha p) (k_pr db')"
      by (simp add: job_member_def)
    moreover have "q = p" if "head_moved job q db" for q using that p by (simp add: head_moved_def)
    ultimately show ?thesis using enqueue_analysis_status [OF e fin] by auto
  qed
qed

lemma count_unique:
  "distinct (map k t) \<Longrightarrow> r \<in> set t \<Longrightarrow> P r \<Longrightarrow> count_where (\<lambda>x. k x = k r \<and> P x) t = 1"
proof (induction t)
  case (Cons y t)
  then show ?case
    by (cases "y = r") (force simp: count_where_0 image_iff)+
qed simp

lemma requeue_settles:
  assumes "queue_ok key q" "find (\<lambda>j. j_id j = i) (q_jobs q) = Some row" "j_status row = Running"
  shows "job_status_of (snd (requeue_job i t q)) i = Some Queued"
proof -
  from find_SomeD [OF assms(2)] have row: "row \<in> set (q_jobs q)" "j_id row = i" by auto
  with count_unique [of j_id "q_jobs q" row "\<lambda>r. j_status r = Running"] assms(1,3)
  have c: "count_where (\<lambda>r. j_id r = i \<and> j_status r = Running) (q_jobs q) = 1" by (simp add: queue_ok_def)
  show ?thesis using assms(2,3) row(2) by (simp add: requeue_job_def c job_status_of_def find_update_where)
qed


section \<open>Instances\<close>

lemma recovered_sample: "RecoverAnalysisJobs sample_ndb = sample_ndb"
  by (simp add: RecoverAnalysisJobs_def recover_jobs_def update_pr_def update_where_def sample_ndb_def no_refreshes_def)

theorem analysis_published_current_witness:
  "let r = analysis_process sample_analysis_worker id sample_analysis_job 0 sample_ndb in
     d_results (k_pr (snd r)) \<noteq> d_results (k_pr sample_ndb) \<and> head_current sample_analysis_job sample_ndb"
proof -
  let ?r = "analysis_process sample_analysis_worker id sample_analysis_job 0 sample_ndb"
  have r: "?r = (None, snd ?r)" and n: "d_results (k_pr (snd ?r)) \<noteq> []"
    using sample_analysis by (auto simp: prod_eq_iff)
  have e: "d_results (k_pr sample_ndb) = []" by (simp add: sample_ndb_def no_refreshes_def sample_pr_db_def)
  with n have "d_results (k_pr (snd ?r)) \<noteq> d_results (k_pr (id sample_ndb))" by simp
  from analysis_published_current [OF r this] n e show ?thesis by (simp add: Let_def)
qed

theorem stored_results_valid_witness:
  "let r = AnalysisRun sample_analysis_worker [(0, 0, id)] sample_ndb in
     results_ok (snd r) \<and> length (d_results (k_pr (snd r))) = 1"
proof -
  let ?r = "AnalysisRun sample_analysis_worker [(0, 0, id)] sample_ndb"
  have ok: "results_ok sample_ndb" by (simp add: results_ok_def sample_ndb_def no_refreshes_def sample_pr_db_def)
  have "results_ok (snd ?r)"
    by (rule stored_results_valid [OF _ ok prod.collapse [symmetric]]) simp
  moreover have "length (d_results (k_pr (snd ?r))) = 1"
    using arg_cong [OF sample_round, of "\<lambda>x. length (snd (snd x))"] by simp
  ultimately show ?thesis by (simp add: Let_def)
qed

theorem analysis_not_repeated_witness:
  "analysis_process sample_analysis_worker id sample_analysis_job second analyzed = (None, analyzed)"
proof -
  have r: "analysis_process complete_analysis_worker id sample_analysis_job 0 sample_ndb = (None, analyzed)"
    using complete_analysis by (simp add: prod_eq_iff)
  from complete_analysis obtain a where
    "find (\<lambda>a. at_member a = job_member sample_analysis_job) (d_attempts (k_pr analyzed)) = Some a" "at_status a = ''complete''"
    by (auto simp: prod_eq_iff)
  from analysis_not_repeated [OF r _ this, of sample_analysis_worker] show ?thesis
    by (simp add: sample_analysis_job_def complete_analysis_worker_def)
qed


end
