(* ===== verification/Sessions.thy ===== *)
theory Sessions
  imports RefreshStore Routes
begin

text \<open>
  Accounts (\<open>internal/storage/auth.go\<close>): one-time OAuth flows, browser sessions, the audit trail
  and the removal of personal data, with the private marks of \<open>important.go\<close> and \<open>hidden.go\<close>.
  \<open>parse\<close> is \<open>time.Parse(time.RFC3339Nano, _)\<close>, \<open>L\<close> is Unicode lower-casing, \<open>valid8\<close> is
  \<open>utf8.ValidString\<close>; \<open>jd\<close> is SQLite's \<open>julianday\<close>. The JSON columns of a session hold the decoded
  lists.
\<close>

section \<open>State\<close>

record auth_flow =
  fl_ID :: string
  fl_State :: string
  fl_CodeVerifier :: string
  fl_ExpiresAt :: time

record flow_row =
  fw_id :: string
  fw_state :: string
  fw_verifier :: string
  fw_expires_at :: string

record session =
  sn_ID :: string
  sn_UserID :: int
  sn_Login :: string
  sn_AvatarURL :: string
  sn_Organizations :: "string list"
  sn_Teams :: "string list"
  sn_CSRFToken :: string
  sn_CreatedAt :: time
  sn_ExpiresAt :: time

record session_row =
  se_id :: string
  se_user :: int
  se_login :: string
  se_avatar :: string
  se_organizations :: "string list"
  se_teams :: "string list"
  se_csrf :: string
  se_created_at :: string
  se_expires_at :: string

record audit_row =
  ad_occurred_at :: string
  ad_event :: string
  ad_user :: "int option"
  ad_detail :: string

record account_db =
  acc_store :: refresh_db
  acc_flows :: "flow_row list"
  acc_sessions :: "session_row list"
  acc_audit :: "audit_row list"

datatype account_error =
    MissingFlowFields | MissingSessionFields | AccountConstraint string | AccountTime string
  | UnsupportedEvent string | DetailTooLong | SensitiveDetail
  | BadUserID | BadReason | SnoozeWithoutEnd | SnoozeInPast | BadKind
  | PullRequestNotFound | ImportantNotFound | HiddenNotFound

definition update_store :: "(refresh_db \<Rightarrow> refresh_db) \<Rightarrow> account_db \<Rightarrow> account_db" where
  "update_store f db = db\<lparr>acc_store := f (acc_store db)\<rparr>"

abbreviation acc_pr :: "account_db \<Rightarrow> pr_db" where
  "acc_pr db \<equiv> rf_pr (acc_store db)"

abbreviation acc_progress :: "account_db \<Rightarrow> progress_db" where
  "acc_progress db \<equiv> rf_progress (acc_store db)"

definition update_marks :: "(pr_db \<Rightarrow> pr_db) \<Rightarrow> account_db \<Rightarrow> account_db" where
  "update_marks f db = update_store (\<lambda>s. s\<lparr>rf_pr := f (rf_pr s)\<rparr>) db"

section \<open>OAuth flows\<close>

definition CreateAuthFlow :: "auth_flow \<Rightarrow> account_db \<Rightarrow> account_error + account_db" where
  "CreateAuthFlow f db =
     failIf (fl_ID f = [] \<or> fl_State f = [] \<or> fl_CodeVerifier f = [] \<or> IsZero (fl_ExpiresAt f)) MissingFlowFields
    (failIf (list_ex (\<lambda>r. fw_id r = fl_ID f) (acc_flows db)) (AccountConstraint ''auth_flows'')
     (Inr (db\<lparr>acc_flows := acc_flows db @ [\<lparr> fw_id = fl_ID f, fw_state = fl_State f,
        fw_verifier = fl_CodeVerifier f, fw_expires_at = formatTime (fl_ExpiresAt f) \<rparr>]\<rparr>)))"

text \<open>The deletion is rolled back when the stored expiry does not parse.\<close>

definition ConsumeAuthFlow ::
  "(string \<Rightarrow> time option) \<Rightarrow> string \<Rightarrow> string \<Rightarrow> time \<Rightarrow> account_db \<Rightarrow> (account_error + auth_flow option) \<times> account_db" where
  "ConsumeAuthFlow parse i state now db =
     (let p = (\<lambda>r. fw_id r = i \<and> fw_state r = state \<and> fw_expires_at r > formatTime now) in
      case find p (acc_flows db) of
        None \<Rightarrow> (Inr None, db)
      | Some r \<Rightarrow>
         (case parse (fw_expires_at r) of
            None \<Rightarrow> (Inl (AccountTime (fw_expires_at r)), db)
          | Some t \<Rightarrow> (Inr (Some \<lparr> fl_ID = fw_id r, fl_State = fw_state r, fl_CodeVerifier = fw_verifier r,
              fl_ExpiresAt = t \<rparr>), db\<lparr>acc_flows := delete_where p (acc_flows db)\<rparr>)))"

section \<open>Sessions\<close>

definition CreateSession :: "time \<Rightarrow> session \<Rightarrow> account_db \<Rightarrow> account_error + account_db" where
  "CreateSession now s db =
     failIf (sn_ID s = [] \<or> sn_UserID s \<le> 0 \<or> sn_Login s = [] \<or> sn_CSRFToken s = [] \<or> IsZero (sn_ExpiresAt s))
       MissingSessionFields
    (failIf (list_ex (\<lambda>r. se_id r = sn_ID s) (acc_sessions db)) (AccountConstraint ''sessions'')
     (Inr (db\<lparr>acc_sessions := acc_sessions db @ [\<lparr> se_id = sn_ID s, se_user = sn_UserID s, se_login = sn_Login s,
        se_avatar = sn_AvatarURL s, se_organizations = sn_Organizations s, se_teams = sn_Teams s,
        se_csrf = sn_CSRFToken s,
        se_created_at = formatTime (if IsZero (sn_CreatedAt s) then now else sn_CreatedAt s),
        se_expires_at = formatTime (sn_ExpiresAt s) \<rparr>]\<rparr>)))"

text \<open>A session that is unknown or expired is removed.\<close>

definition GetSession ::
  "(string \<Rightarrow> time option) \<Rightarrow> string \<Rightarrow> time \<Rightarrow> account_db \<Rightarrow> (account_error + session option) \<times> account_db" where
  "GetSession parse i now db =
     (if i = [] then (Inr None, db)
      else case find (\<lambda>r. se_id r = i \<and> se_expires_at r > formatTime now) (acc_sessions db) of
        None \<Rightarrow> (Inr None, db\<lparr>acc_sessions := delete_where (\<lambda>r. se_id r = i) (acc_sessions db)\<rparr>)
      | Some r \<Rightarrow>
         (case parse (se_created_at r) of
            None \<Rightarrow> (Inl (AccountTime (se_created_at r)), db)
          | Some created \<Rightarrow>
             (case parse (se_expires_at r) of
                None \<Rightarrow> (Inl (AccountTime (se_expires_at r)), db)
              | Some expires \<Rightarrow> (Inr (Some \<lparr> sn_ID = se_id r, sn_UserID = se_user r, sn_Login = se_login r,
                  sn_AvatarURL = se_avatar r, sn_Organizations = se_organizations r, sn_Teams = se_teams r,
                  sn_CSRFToken = se_csrf r, sn_CreatedAt = created, sn_ExpiresAt = expires \<rparr>), db))))"

definition DeleteSession :: "string \<Rightarrow> account_db \<Rightarrow> account_db" where
  "DeleteSession i db = db\<lparr>acc_sessions := delete_where (\<lambda>r. se_id r = i) (acc_sessions db)\<rparr>"

section \<open>Audit and personal data\<close>

definition audit_events :: "string list" where
  "audit_events = [''authentication_succeeded'', ''authentication_denied'', ''authorization_denied'', ''logout'',
     ''personal_data_deleted'', ''reload_succeeded'', ''reload_failed'', ''policy_changed'',
     ''model_payload_accessed'', ''admin_refresh_requested'']"

definition sensitive_words :: "string list" where
  "sensitive_words = [''token'', ''secret'', ''prompt'', ''request_json'', ''response_json'']"

definition audit_row_of :: "string \<Rightarrow> int option \<Rightarrow> string \<Rightarrow> time \<Rightarrow> audit_row" where
  "audit_row_of event user detail at =
     \<lparr> ad_occurred_at = formatTime at, ad_event = event, ad_user = user, ad_detail = detail \<rparr>"

definition RecordAudit ::
  "(string \<Rightarrow> string) \<Rightarrow> string \<Rightarrow> int option \<Rightarrow> string \<Rightarrow> time \<Rightarrow> account_db \<Rightarrow> account_error + account_db" where
  "RecordAudit L event user detail at db =
     failIf (event \<notin> set audit_events) (UnsupportedEvent event)
    (failIf (length detail > 100) DetailTooLong
    (failIf (list_ex (Contains (ToLower L detail)) sensitive_words) SensitiveDetail
     (Inr (db\<lparr>acc_audit := acc_audit db @ [audit_row_of event user detail at]\<rparr>))))"

definition DeletePersonalData :: "int \<Rightarrow> time \<Rightarrow> account_db \<Rightarrow> account_db" where
  "DeletePersonalData user now db =
     db\<lparr> acc_store := (acc_store db)\<lparr>
           rf_pr := (acc_pr db)\<lparr> d_important := delete_where (\<lambda>r. ps_user r = user) (d_important (acc_pr db)),
             d_hidden := delete_where (\<lambda>r. ps_user r = user) (d_hidden (acc_pr db)) \<rparr>,
           rf_progress := (acc_progress db)\<lparr>
             pg_goals := delete_where (\<lambda>r. go_user r = user) (pg_goals (acc_progress db)),
             pg_events := delete_where (\<lambda>r. er_actor r = user) (pg_events (acc_progress db)) \<rparr> \<rparr>,
         acc_sessions := delete_where (\<lambda>r. se_user r = user) (acc_sessions db),
         acc_audit := acc_audit db @ [audit_row_of ''personal_data_deleted'' (Some user) [] now] \<rparr>"

section \<open>Important pull requests\<close>

definition MarkPullRequestImportant :: "int \<Rightarrow> member \<Rightarrow> account_db \<Rightarrow> account_error + account_db" where
  "MarkPullRequestImportant user m db =
     failIf (user \<le> 0) BadUserID
      (let row = \<lparr> ps_user = user, ps_member = m \<rparr>; marked = list_ex (\<lambda>r. ps_user r = user \<and> ps_member r = m) (d_important (acc_pr db)) in
       if m \<in> set (d_members (acc_pr db)) \<and> \<not> marked
       then Inr (update_marks (\<lambda>p. p\<lparr>d_important := d_important p @ [row]\<rparr>) db)
       else failIf (\<not> marked) PullRequestNotFound (Inr db))"

definition UnmarkPullRequestImportant :: "int \<Rightarrow> member \<Rightarrow> account_db \<Rightarrow> account_error + account_db" where
  "UnmarkPullRequestImportant user m db =
     (let p = (\<lambda>r. ps_user r = user \<and> ps_member r = m) in
      failIf (count_where p (d_important (acc_pr db)) = 0) ImportantNotFound
       (Inr (update_marks (\<lambda>x. x\<lparr>d_important := delete_where p (d_important x)\<rparr>) db)))"

section \<open>Hidden pull requests\<close>

definition maxHiddenReasonRunes :: nat where "maxHiddenReasonRunes = 500"

record hidden_state =
  hs_Kind :: string
  hs_Reason :: string
  hs_SnoozedUntil :: "time option"
  hs_WakeOnActivity :: bool
  hs_NewActivity :: bool
  hs_CreatedAt :: time
  hs_UpdatedAt :: time

text \<open>The switch on the kind of the state.\<close>

definition check_kind :: "time \<Rightarrow> hidden_state \<Rightarrow> account_error + hidden_state" where
  "check_kind now s =
     (if hs_Kind s = ''snoozed'' then
        failIf (hs_SnoozedUntil s = None \<and> \<not> hs_WakeOnActivity s) SnoozeWithoutEnd
       (failIf (case hs_SnoozedUntil s of None \<Rightarrow> False | Some t \<Rightarrow> \<not> t > now) SnoozeInPast (Inr s))
      else if hs_Kind s = ''ignored'' then Inr (s\<lparr> hs_SnoozedUntil := None, hs_WakeOnActivity := False \<rparr>)
      else Inl BadKind)"

definition hidden_key :: "hidden_row \<Rightarrow> int \<times> member" where
  "hidden_key r = (ps_user r, ps_member r)"

definition hidden_row_of :: "int \<Rightarrow> member \<Rightarrow> hidden_state \<Rightarrow> string \<Rightarrow> time \<Rightarrow> hidden_row" where
  "hidden_row_of user m s updated_at now =
     \<lparr> ps_user = user, ps_member = m, hd_kind = hs_Kind s, hd_reason = hs_Reason s,
       hd_snoozed_until = map_option formatTime (hs_SnoozedUntil s), hd_wake_on_activity = hs_WakeOnActivity s,
       hd_hidden_at_updated_at = updated_at, hd_created_at = formatTime now, hd_updated_at = formatTime now \<rparr>"

definition parse_hidden :: "(string \<Rightarrow> time option) \<Rightarrow> bool \<Rightarrow> hidden_row \<Rightarrow> account_error + hidden_state" where
  "parse_hidden parse new_activity r =
     bindR (case hd_snoozed_until r of None \<Rightarrow> Inr None
       | Some u \<Rightarrow> (case parse u of None \<Rightarrow> Inl (AccountTime u) | Some t \<Rightarrow> Inr (Some t))) (\<lambda>until.
     case parse (hd_created_at r) of
       None \<Rightarrow> Inl (AccountTime (hd_created_at r))
     | Some created \<Rightarrow>
        (case parse (hd_updated_at r) of
           None \<Rightarrow> Inl (AccountTime (hd_updated_at r))
         | Some updated \<Rightarrow> Inr \<lparr> hs_Kind = hd_kind r, hs_Reason = hd_reason r, hs_SnoozedUntil = until,
             hs_WakeOnActivity = hd_wake_on_activity r, hs_NewActivity = new_activity, hs_CreatedAt = created,
             hs_UpdatedAt = updated \<rparr>))"

definition hiddenPullRequestState ::
  "(string \<Rightarrow> time option) \<Rightarrow> int \<Rightarrow> member \<Rightarrow> account_db \<Rightarrow> account_error + hidden_state" where
  "hiddenPullRequestState parse user m db =
     (case find (\<lambda>r. hidden_key r = (user, m)) (d_hidden (acc_pr db)) of
        None \<Rightarrow> Inl HiddenNotFound
      | Some r \<Rightarrow> parse_hidden parse False r)"

text \<open>
  The write is one statement of its own, so it stays when reading the state back fails; the
  first component is the answer, the second the new state.
\<close>

definition SetPullRequestHidden ::
  "(string \<Rightarrow> bool) \<Rightarrow> (string \<Rightarrow> time option) \<Rightarrow> int \<Rightarrow> member \<Rightarrow> hidden_state \<Rightarrow> time \<Rightarrow> account_db \<Rightarrow>
   (account_error + hidden_state) \<times> account_db" where
  "SetPullRequestHidden valid8 parse user m state now db =
     (let reason = TrimSpace (hs_Reason state);
          checked = failIf (user \<le> 0) BadUserID
            (failIf (\<not> valid8 reason \<or> RuneCount reason > maxHiddenReasonRunes) BadReason
            (check_kind now (state\<lparr>hs_Reason := reason\<rparr>)))
      in case checked of
           Inl e \<Rightarrow> (Inl e, db)
         | Inr s \<Rightarrow>
            (case (if m \<in> set (d_members (acc_pr db)) then find (\<lambda>r. pull_key r = snd m) (d_pulls (acc_pr db)) else None) of
               None \<Rightarrow> (Inl PullRequestNotFound, db)
             | Some r \<Rightarrow>
                (let db1 = update_marks (\<lambda>p. p\<lparr>d_hidden := upsert hidden_key
                       (\<lambda>old new. new\<lparr>hd_created_at := hd_created_at old\<rparr>)
                       (hidden_row_of user m s (pu_updated_at r) now) (d_hidden p)\<rparr>) db
                 in (hiddenPullRequestState parse user m db1, db1))))"

definition RestorePullRequest :: "int \<Rightarrow> member \<Rightarrow> account_db \<Rightarrow> account_error + account_db" where
  "RestorePullRequest user m db =
     (let p = (\<lambda>r. hidden_key r = (user, m)) in
      failIf (count_where p (d_hidden (acc_pr db)) = 0) HiddenNotFound
       (Inr (update_marks (\<lambda>x. x\<lparr>d_hidden := delete_where p (d_hidden x)\<rparr>) db)))"

text \<open>A snooze ends at its date or when the pull request is updated.\<close>

definition snooze_over :: "(string \<Rightarrow> 'j :: linorder) \<Rightarrow> time \<Rightarrow> pr_db \<Rightarrow> hidden_row \<Rightarrow> bool" where
  "snooze_over jd now db r \<longleftrightarrow>
     (case hd_snoozed_until r of None \<Rightarrow> False | Some u \<Rightarrow> jd u \<le> jd (formatTime now)) \<or>
     hd_wake_on_activity r \<and> list_ex (\<lambda>p. pull_key p = snd (ps_member r) \<and>
       jd (pu_updated_at p) > jd (hd_hidden_at_updated_at r)) (d_pulls db)"

definition wakeSnoozedPullRequests ::
  "(string \<Rightarrow> 'j :: linorder) \<Rightarrow> int \<Rightarrow> string \<Rightarrow> time \<Rightarrow> account_db \<Rightarrow> account_db" where
  "wakeSnoozedPullRequests jd user collection now db =
     update_marks (\<lambda>p. p\<lparr>d_hidden := delete_where (\<lambda>r. ps_user r = user \<and> fst (ps_member r) = collection \<and>
       hd_kind r = ''snoozed'' \<and> snooze_over jd now p r) (d_hidden p)\<rparr>) db"

section \<open>Marks on listed pull requests\<close>

text \<open>A listed pull request with its key and what is attached to it: importance and hidden state.\<close>

record listed_pull =
  lp_key :: pull_key
  lp_important :: bool
  lp_hidden :: "hidden_state option"

definition AttachImportantPullRequests ::
  "int \<Rightarrow> string \<Rightarrow> pr_db \<Rightarrow> 'a listed_pull_scheme list \<Rightarrow> 'a listed_pull_scheme list" where
  "AttachImportantPullRequests user collection db ps =
     map (\<lambda>p. if list_ex (\<lambda>r. ps_user r = user \<and> ps_member r = (collection, lp_key p)) (d_important db)
       then p\<lparr>lp_important := True\<rparr> else p) ps"

text \<open>The states of the user in the collection, by pull request; a later row wins.\<close>

definition hidden_states ::
  "(string \<Rightarrow> 'j :: linorder) \<Rightarrow> (string \<Rightarrow> time option) \<Rightarrow> int \<Rightarrow> string \<Rightarrow> pr_db \<Rightarrow>
   account_error + (pull_key \<times> hidden_state) list" where
  "hidden_states jd parse user collection db =
     collectR (\<lambda>(r, p). bindR (parse_hidden parse (jd (hd_hidden_at_updated_at r) < jd (pu_updated_at p)) r)
         (\<lambda>s. Inr (snd (ps_member r), s)))
       (concat (map (\<lambda>r. map (Pair r) (filter (\<lambda>p. pull_key p = snd (ps_member r)) (d_pulls db)))
         (filter (\<lambda>r. ps_user r = user \<and> fst (ps_member r) = collection) (d_hidden db))))"

definition attachHiddenPullRequests ::
  "(string \<Rightarrow> 'j :: linorder) \<Rightarrow> (string \<Rightarrow> time option) \<Rightarrow> int \<Rightarrow> string \<Rightarrow> pr_db \<Rightarrow> listed_pull list \<Rightarrow>
   account_error + listed_pull list" where
  "attachHiddenPullRequests jd parse user collection db ps =
     bindR (hidden_states jd parse user collection db) (\<lambda>states.
     Inr (map (\<lambda>p. case find (\<lambda>x. fst x = lp_key p) (rev states) of
         None \<Rightarrow> p | Some x \<Rightarrow> p\<lparr>lp_hidden := Some (snd x)\<rparr>) ps))"

definition AttachHiddenPullRequests ::
  "(string \<Rightarrow> 'j :: linorder) \<Rightarrow> (string \<Rightarrow> time option) \<Rightarrow> int \<Rightarrow> string \<Rightarrow> time \<Rightarrow> listed_pull list \<Rightarrow> account_db \<Rightarrow>
   (account_error + listed_pull list) \<times> account_db" where
  "AttachHiddenPullRequests jd parse user collection now ps db =
     (let db1 = wakeSnoozedPullRequests jd user collection now db in
      (attachHiddenPullRequests jd parse user collection (acc_pr db1) ps, db1))"

end
