(* ===== verification/Access.thy ===== *)
theory Access
  imports Setup Sessions
begin

text \<open>
  Sign-in and access control: \<open>internal/auth/auth.go\<close> and the handlers of
  \<open>internal/application/application.go\<close> that sign users in and out, guard private state and run
  administrative actions. A handler maps a request, the time and the state to the status it sends,
  the cookies it sets (a cleared cookie has the empty value) and the new state; a failed audit write is
  ignored where the code ignores it. The time is read once per request. HTTP, the URL parser, the JSON
  decoder and the random source are parameters; a request carries its decoded body.
\<close>

section \<open>Verifying an identity\<close>

record identity =
  id_ID :: int
  id_Login :: string
  id_AvatarURL :: string

record membership_evidence =
  ev_Organizations :: "string list"
  ev_Teams :: "string list"

record requirements =
  rm_Organizations :: "string list"
  rm_Teams :: "string list"

text \<open>
  An answer of the API: \<open>None\<close> when the call fails, otherwise the status and the decoded body
  (\<open>None\<close> when it does not decode).
\<close>

type_synonym 'a api_answer = "(nat \<times> 'a option) option"

record github_api =
  ga_token :: "string \<Rightarrow> string \<Rightarrow> (string \<times> string) api_answer"
  ga_user :: "string \<Rightarrow> identity api_answer"
  ga_membership :: "string \<Rightarrow> string \<Rightarrow> string api_answer"
  ga_escape :: "string \<Rightarrow> string"
  ga_lower :: "string \<Rightarrow> string"
  ga_avatar :: "string \<Rightarrow> (string \<times> string \<times> bool \<times> string) option"
  ga_fold :: "string \<Rightarrow> string \<Rightarrow> bool"

datatype auth_error =
    NoCode | Transport | BadStatus nat | BadBody | Rejected | NotFoundAnswer | BadIdentity
  | VerifyOrganization string auth_error | VerifyTeam string auth_error

definition ok_status :: "nat \<Rightarrow> bool" where
  "ok_status s \<longleftrightarrow> 200 \<le> s \<and> s < 300"

definition exchange :: "github_api \<Rightarrow> string \<Rightarrow> string \<Rightarrow> auth_error + string" where
  "exchange A code verifier =
     failIf (code = [] \<or> verifier = []) NoCode
      (case ga_token A code verifier of
         None \<Rightarrow> Inl Transport
       | Some (s, body) \<Rightarrow>
           failIf (\<not> ok_status s) (BadStatus s)
            (case body of
               None \<Rightarrow> Inl BadBody
             | Some (token, err) \<Rightarrow> failIf (err \<noteq> [] \<or> token = []) Rejected (Inr token)))"

definition getOptional :: "'a api_answer \<Rightarrow> auth_error + 'a option" where
  "getOptional a =
     (case a of
        None \<Rightarrow> Inl Transport
      | Some (s, body) \<Rightarrow>
          if s = 404 then Inr None
          else failIf (\<not> ok_status s) (BadStatus s)
            (case body of None \<Rightarrow> Inl BadBody | Some v \<Rightarrow> Inr (Some v)))"

definition get :: "'a api_answer \<Rightarrow> auth_error + 'a" where
  "get a = bindR (getOptional a) (\<lambda>v. case v of None \<Rightarrow> Inl NotFoundAnswer | Some x \<Rightarrow> Inr x)"

definition deduplicate :: "(string \<Rightarrow> string) \<Rightarrow> string list \<Rightarrow> string list" where
  "deduplicate L values = dedup_on (ToLower L) [] values"

text \<open>\<open>ga_avatar\<close> parses an URL into scheme, host name, whether it has user information, and its text.\<close>

definition validatedAvatarURL :: "github_api \<Rightarrow> string \<Rightarrow> string" where
  "validatedAvatarURL A raw =
     (case ga_avatar A raw of
        None \<Rightarrow> []
      | Some (scheme, host, user, text) \<Rightarrow>
          if scheme \<noteq> ''https'' \<or> \<not> EqualFold (ga_fold A) host ''avatars.githubusercontent.com'' \<or> user then []
          else text)"

definition organization_path :: "github_api \<Rightarrow> string \<Rightarrow> string" where
  "organization_path A organization = ''/user/memberships/orgs/'' @ ga_escape A organization"

definition team_path :: "github_api \<Rightarrow> string \<Rightarrow> string \<Rightarrow> string" where
  "team_path A team login =
     (let (organization, slug, _) = Cut team (CHR ''/'') in
      ''/orgs/'' @ ga_escape A organization @ ''/teams/'' @ ga_escape A slug @ ''/memberships/'' @ ga_escape A login)"

text \<open>The required names whose membership is active, in lower case.\<close>

fun verify_memberships ::
  "github_api \<Rightarrow> string \<Rightarrow> (string \<Rightarrow> string) \<Rightarrow> (string \<Rightarrow> auth_error \<Rightarrow> auth_error) \<Rightarrow> string list \<Rightarrow>
   auth_error + string list" where
  "verify_memberships A token request wrap [] = Inr []"
| "verify_memberships A token request wrap (n # ns) =
     (case getOptional (ga_membership A token (request n)) of
        Inl e \<Rightarrow> Inl (wrap n e)
      | Inr state \<Rightarrow> bindR (verify_memberships A token request wrap ns) (\<lambda>vs.
          Inr (if state = Some ''active'' then ToLower (ga_lower A) n # vs else vs)))"

definition Authenticate ::
  "github_api \<Rightarrow> string \<Rightarrow> string \<Rightarrow> requirements \<Rightarrow> auth_error + identity \<times> membership_evidence" where
  "Authenticate A code verifier req =
     bindR (exchange A code verifier) (\<lambda>token.
     bindR (get (ga_user A token)) (\<lambda>i.
     failIf (id_ID i \<le> 0 \<or> id_Login i = []) BadIdentity
    (bindR (verify_memberships A token (organization_path A) VerifyOrganization
       (deduplicate (ga_lower A) (rm_Organizations req))) (\<lambda>organizations.
     bindR (verify_memberships A token (\<lambda>t. team_path A t (id_Login i)) VerifyTeam
       (deduplicate (ga_lower A) (rm_Teams req))) (\<lambda>teams.
     Inr (i\<lparr>id_AvatarURL := validatedAvatarURL A (id_AvatarURL i)\<rparr>,
       \<lparr> ev_Organizations = organizations, ev_Teams = teams \<rparr>))))))"

section \<open>Authorization\<close>

definition authorizationRequirements :: "config \<Rightarrow> requirements" where
  "authorizationRequirements c =
     (let as = List.map_filter cl_Authorization (Collections c) in
      \<lparr> rm_Organizations = concat (map az_Organizations as), rm_Teams = concat (map az_Teams as) \<rparr>)"

definition collectionAuthorized :: "(string \<Rightarrow> string \<Rightarrow> bool) \<Rightarrow> collection \<Rightarrow> session \<Rightarrow> bool" where
  "collectionAuthorized fd cl s =
     (case cl_Authorization cl of
        None \<Rightarrow> False
      | Some a \<Rightarrow>
          sn_UserID s \<in> set (az_Users a) \<or>
          list_ex (\<lambda>x. list_ex (EqualFold fd x) (sn_Organizations s)) (az_Organizations a) \<or>
          list_ex (\<lambda>x. list_ex (EqualFold fd x) (sn_Teams s)) (az_Teams a))"

definition authorizedCollections :: "(string \<Rightarrow> string \<Rightarrow> bool) \<Rightarrow> config \<Rightarrow> session \<Rightarrow> string list" where
  "authorizedCollections fd c s = map cl_ID (filter (\<lambda>cl. collectionAuthorized fd cl s) (Collections c))"

definition isDeploymentAdmin :: "config \<Rightarrow> int \<Rightarrow> bool" where
  "isDeploymentAdmin c user \<longleftrightarrow> user \<in> set (DeploymentAdmins c)"

definition validOrigin :: "(string \<Rightarrow> string \<Rightarrow> bool) \<Rightarrow> (string \<Rightarrow> url option) \<Rightarrow> string \<Rightarrow> string \<Rightarrow> bool" where
  "validOrigin fd parse_url origin expected =
     (case parse_url origin of
        None \<Rightarrow> False
      | Some u \<Rightarrow>
          \<not> (url_Scheme u = [] \<or> url_Host u = [] \<or> url_User u \<or> url_Path u \<noteq> [] \<or> url_RawQuery u \<noteq> [] \<or> url_Fragment u \<noteq> []) \<and>
          (case parse_url expected of
             None \<Rightarrow> False
           | Some e \<Rightarrow> EqualFold fd (url_Scheme u) (url_Scheme e) \<and> EqualFold fd (url_Host u) (url_Host e)))"

section \<open>Requests\<close>

record http_request =
  hr_Method :: string
  hr_SessionCookie :: "string option"
  hr_FlowCookie :: "string option"
  hr_Origin :: string
  hr_CSRFToken :: string
  hr_Authorization :: string
  hr_State :: string
  hr_Code :: string

text \<open>The library functions the handlers use; \<open>ax_unescape\<close> is \<open>url.PathUnescape\<close>.\<close>

record access_env =
  ax_lower :: "string \<Rightarrow> string"
  ax_fold :: "string \<Rightarrow> string \<Rightarrow> bool"
  ax_valid8 :: "string \<Rightarrow> bool"
  ax_parse :: "string \<Rightarrow> time option"
  ax_url :: "string \<Rightarrow> url option"
  ax_unescape :: "string \<Rightarrow> string option"
  ax_zone :: "string \<Rightarrow> bool"

record reply =
  re_Status :: nat
  re_Cookies :: "(string \<times> string) list"

definition status :: "nat \<Rightarrow> reply" where
  "status n = \<lparr> re_Status = n, re_Cookies = [] \<rparr>"

definition sessionCookieName :: string where "sessionCookieName = ''__Host-maintainer-cockpit''"
definition flowCookieName :: string where "flowCookieName = ''__Host-maintainer-cockpit-flow''"

text \<open>\<open>_ = store.RecordAudit(...)\<close>.\<close>

definition audit :: "access_env \<Rightarrow> string \<Rightarrow> int option \<Rightarrow> string \<Rightarrow> time \<Rightarrow> account_db \<Rightarrow> account_db" where
  "audit X event user detail now db =
     (case RecordAudit (ax_lower X) event user detail now db of Inl _ \<Rightarrow> db | Inr db1 \<Rightarrow> db1)"

definition load_session ::
  "access_env \<Rightarrow> http_request \<Rightarrow> time \<Rightarrow> account_db \<Rightarrow> (account_error + session option) \<times> account_db" where
  "load_session X r now db =
     (case hr_SessionCookie r of None \<Rightarrow> (Inr None, db) | Some i \<Rightarrow> GetSession (ax_parse X) i now db)"

text \<open>A guard answers \<open>Inl\<close> with the status it has sent, or \<open>Inr\<close> with the session.\<close>

definition requireMutation ::
  "access_env \<Rightarrow> config \<Rightarrow> http_request \<Rightarrow> time \<Rightarrow> account_db \<Rightarrow> (nat + session) \<times> account_db" where
  "requireMutation X c r now db =
     (case load_session X r now db of
        (Inl _, db1) \<Rightarrow> (Inl 500, db1)
      | (Inr None, db1) \<Rightarrow> (Inl 401, audit X ''authorization_denied'' None ''mutation'' now db1)
      | (Inr (Some s), db1) \<Rightarrow>
          if \<not> validOrigin (ax_fold X) (ax_url X) (hr_Origin r) (ExternalBaseURL c) \<or> hr_CSRFToken r \<noteq> sn_CSRFToken s
          then (Inl 403, audit X ''authorization_denied'' (Some (sn_UserID s)) ''mutation'' now db1)
          else (Inr s, db1))"

definition requireDeploymentAdmin ::
  "access_env \<Rightarrow> config \<Rightarrow> http_request \<Rightarrow> time \<Rightarrow> account_db \<Rightarrow> (nat + session) \<times> account_db" where
  "requireDeploymentAdmin X c r now db =
     (case load_session X r now db of
        (Inl _, db1) \<Rightarrow> (Inl 500, db1)
      | (Inr None, db1) \<Rightarrow> (Inl 401, audit X ''authorization_denied'' None ''admin_status'' now db1)
      | (Inr (Some s), db1) \<Rightarrow>
          if \<not> isDeploymentAdmin c (sn_UserID s)
          then (Inl 403, audit X ''authorization_denied'' (Some (sn_UserID s)) ''admin_status'' now db1)
          else (Inr s, db1))"

definition requireCollectionMutation ::
  "access_env \<Rightarrow> config \<Rightarrow> http_request \<Rightarrow> string \<Rightarrow> time \<Rightarrow> account_db \<Rightarrow> (nat + session) \<times> account_db" where
  "requireCollectionMutation X c r collection now db =
     (case requireMutation X c r now db of
        (Inl n, db1) \<Rightarrow> (Inl n, db1)
      | (Inr s, db1) \<Rightarrow>
          if list_ex (\<lambda>cl. cl_ID cl = collection \<and> collectionAuthorized (ax_fold X) cl s) (Collections c) then (Inr s, db1)
          else (Inl 403, audit X ''authorization_denied'' (Some (sn_UserID s)) ''collection'' now db1))"

definition authorizedSessionForCollection ::
  "access_env \<Rightarrow> config \<Rightarrow> http_request \<Rightarrow> string \<Rightarrow> time \<Rightarrow> account_db \<Rightarrow> (account_error + session option) \<times> account_db" where
  "authorizedSessionForCollection X c r collection now db =
     (case load_session X r now db of
        (Inr (Some s), db1) \<Rightarrow>
          (Inr (case find (\<lambda>cl. cl_ID cl = collection) (Collections c) of
             None \<Rightarrow> None
           | Some cl \<Rightarrow> if collectionAuthorized (ax_fold X) cl s then Some s else None), db1)
      | other \<Rightarrow> other)"

definition requireCollectionRead ::
  "access_env \<Rightarrow> config \<Rightarrow> http_request \<Rightarrow> string \<Rightarrow> time \<Rightarrow> account_db \<Rightarrow> (nat + session) \<times> account_db" where
  "requireCollectionRead X c r collection now db =
     (case authorizedSessionForCollection X c r collection now db of
        (Inl _, db1) \<Rightarrow> (Inl 500, db1)
      | (Inr (Some s), db1) \<Rightarrow> (Inr s, db1)
      | (Inr None, db1) \<Rightarrow>
         (case load_session X r now db1 of
            (Inr None, db2) \<Rightarrow> (Inl 401, audit X ''authorization_denied'' None ''collection'' now db2)
          | (Inr (Some raw), db2) \<Rightarrow> (Inl 403, audit X ''authorization_denied'' (Some (sn_UserID raw)) ''collection'' now db2)
          | (Inl _, db2) \<Rightarrow> (Inl 403, db2)))"

section \<open>Signing in and out\<close>

text \<open>\<open>ts\<close> are the random tokens; \<open>None\<close> is a failure of the random source. Answers the URL parts too.\<close>

definition serveLogin ::
  "config \<Rightarrow> bool \<Rightarrow> string option \<times> string option \<times> string option \<Rightarrow> http_request \<Rightarrow> time \<Rightarrow> account_db \<Rightarrow>
   reply \<times> account_db" where
  "serveLogin c provider ts r now db =
     (if hr_Method r \<noteq> ''GET'' then (status 405, db)
      else if \<not> provider \<or> (case GitHub c of None \<Rightarrow> True | Some g \<Rightarrow> gh_UserAuth g = None) then (status 404, db)
      else case ts of
        (Some flowID, Some state, Some verifier) \<Rightarrow>
          (case CreateAuthFlow \<lparr> fl_ID = flowID, fl_State = state, fl_CodeVerifier = verifier,
              fl_ExpiresAt = now + 10 * minute \<rparr> db of
             Inl _ \<Rightarrow> (status 500, db)
           | Inr db1 \<Rightarrow> (\<lparr> re_Status = 302, re_Cookies = [(flowCookieName, flowID)] \<rparr>, db1))
      | _ \<Rightarrow> (status 500, db))"

definition serveAuthCallback ::
  "access_env \<Rightarrow> config \<Rightarrow> github_api option \<Rightarrow> string option \<times> string option \<Rightarrow> http_request \<Rightarrow> time \<Rightarrow> account_db \<Rightarrow>
   reply \<times> account_db" where
  "serveAuthCallback X c provider ts r now db =
     (if hr_Method r \<noteq> ''GET'' then (status 405, db)
      else case provider of
        None \<Rightarrow> (status 404, db)
      | Some A \<Rightarrow>
         (case hr_FlowCookie r of
            None \<Rightarrow> (status 400, db)
          | Some [] \<Rightarrow> (status 400, db)
          | Some (k # ks) \<Rightarrow>
             (let reply = (\<lambda>n. \<lparr> re_Status = n, re_Cookies = [(flowCookieName, [])] \<rparr>) in
              case ConsumeAuthFlow (ax_parse X) (k # ks) (hr_State r) now db of
                (Inl _, db1) \<Rightarrow> (reply 500, db1)
              | (Inr None, db1) \<Rightarrow> (reply 400, db1)
              | (Inr (Some flow), db1) \<Rightarrow>
                  if hr_Code r = [] then (reply 400, db1)
                  else (case Authenticate A (hr_Code r) (fl_CodeVerifier flow) (authorizationRequirements c) of
                      Inl _ \<Rightarrow> (reply 502, audit X ''authentication_denied'' None ''verification_failed'' now db1)
                    | Inr (i, e) \<Rightarrow>
                       (case ts of
                          (Some sessionID, Some csrf) \<Rightarrow>
                            (case CreateSession now \<lparr> sn_ID = sessionID, sn_UserID = id_ID i, sn_Login = id_Login i,
                                sn_AvatarURL = id_AvatarURL i, sn_Organizations = ev_Organizations e, sn_Teams = ev_Teams e,
                                sn_CSRFToken = csrf, sn_CreatedAt = now, sn_ExpiresAt = now + 24 * hour \<rparr> db1 of
                               Inl _ \<Rightarrow> (reply 500, db1)
                             | Inr db2 \<Rightarrow>
                                (case RecordAudit (ax_lower X) ''authentication_succeeded'' (Some (id_ID i)) [] now db2 of
                                   Inl _ \<Rightarrow> (reply 500, DeleteSession sessionID db2)
                                 | Inr db3 \<Rightarrow> (\<lparr> re_Status = 303,
                                     re_Cookies = [(flowCookieName, []), (sessionCookieName, sessionID)] \<rparr>, db3)))
                        | _ \<Rightarrow> (reply 500, db1))))))"

definition serveLogout :: "access_env \<Rightarrow> config \<Rightarrow> http_request \<Rightarrow> time \<Rightarrow> account_db \<Rightarrow> reply \<times> account_db" where
  "serveLogout X c r now db =
     (if hr_Method r \<noteq> ''POST'' then (status 405, db)
      else case requireMutation X c r now db of
        (Inl n, db1) \<Rightarrow> (status n, db1)
      | (Inr s, db1) \<Rightarrow> (\<lparr> re_Status = 204, re_Cookies = [(sessionCookieName, [])] \<rparr>,
          audit X ''logout'' (Some (sn_UserID s)) [] now (DeleteSession (sn_ID s) db1)))"

definition serveDeletePersonalData ::
  "access_env \<Rightarrow> config \<Rightarrow> http_request \<Rightarrow> time \<Rightarrow> account_db \<Rightarrow> reply \<times> account_db" where
  "serveDeletePersonalData X c r now db =
     (if hr_Method r \<noteq> ''DELETE'' then (status 405, db)
      else case requireMutation X c r now db of
        (Inl n, db1) \<Rightarrow> (status n, db1)
      | (Inr s, db1) \<Rightarrow> (\<lparr> re_Status = 204, re_Cookies = [(sessionCookieName, [])] \<rparr>,
          DeletePersonalData (sn_UserID s) now db1))"

section \<open>Private state\<close>

text \<open>The decoded owner, repository and number of a path.\<close>

definition pull_identity :: "access_env \<Rightarrow> string \<Rightarrow> string \<Rightarrow> string \<Rightarrow> pull_key option" where
  "pull_identity X rawOwner rawRepository rawNumber =
     (case (ax_unescape X rawOwner, ax_unescape X rawRepository, Atoi rawNumber) of
        (Some owner, Some name, Some number) \<Rightarrow>
          if owner = [] \<or> name = [] \<or> CHR ''/'' \<in> set owner \<or> CHR ''/'' \<in> set name \<or> number \<le> 0 then None
          else Some (owner @ ''/'' @ name, number)
      | _ \<Rightarrow> None)"

definition serveImportantPullRequest ::
  "access_env \<Rightarrow> config \<Rightarrow> http_request \<Rightarrow> string \<Rightarrow> string \<Rightarrow> string \<Rightarrow> string \<Rightarrow> time \<Rightarrow> account_db \<Rightarrow> reply \<times> account_db" where
  "serveImportantPullRequest X c r collection rawOwner rawRepository rawNumber now db =
     (if hr_Method r \<noteq> ''PUT'' \<and> hr_Method r \<noteq> ''DELETE'' then (status 405, db)
      else case pull_identity X rawOwner rawRepository rawNumber of
        None \<Rightarrow> (status 400, db)
      | Some k \<Rightarrow>
         (case requireCollectionMutation X c r collection now db of
            (Inl n, db1) \<Rightarrow> (status n, db1)
          | (Inr s, db1) \<Rightarrow>
              if hr_Method r = ''DELETE''
              then (case UnmarkPullRequestImportant (sn_UserID s) (collection, k) db1 of
                      Inl e \<Rightarrow> (status (if e = ImportantNotFound then 404 else 500), db1)
                    | Inr db2 \<Rightarrow> (status 204, db2))
              else (case MarkPullRequestImportant (sn_UserID s) (collection, k) db1 of
                      Inl e \<Rightarrow> (status (if e = PullRequestNotFound then 404 else 500), db1)
                    | Inr db2 \<Rightarrow> (status 200, db2))))"

text \<open>\<open>body\<close> is the decoded state, \<open>None\<close> when it does not decode.\<close>

definition serveHiddenPullRequest ::
  "access_env \<Rightarrow> config \<Rightarrow> http_request \<Rightarrow> string \<Rightarrow> string \<Rightarrow> string \<Rightarrow> string \<Rightarrow> hidden_state option \<Rightarrow> time \<Rightarrow> account_db \<Rightarrow>
   reply \<times> account_db" where
  "serveHiddenPullRequest X c r collection rawOwner rawRepository rawNumber body now db =
     (if hr_Method r \<noteq> ''PUT'' \<and> hr_Method r \<noteq> ''DELETE'' then (status 405, db)
      else case pull_identity X rawOwner rawRepository rawNumber of
        None \<Rightarrow> (status 400, db)
      | Some k \<Rightarrow>
         (case requireCollectionMutation X c r collection now db of
            (Inl n, db1) \<Rightarrow> (status n, db1)
          | (Inr s, db1) \<Rightarrow>
              if hr_Method r = ''DELETE''
              then (case RestorePullRequest (sn_UserID s) (collection, k) db1 of
                      Inl e \<Rightarrow> (status (if e = HiddenNotFound then 404 else 500), db1)
                    | Inr db2 \<Rightarrow> (status 204, db2))
              else (case body of
                      None \<Rightarrow> (status 400, db1)
                    | Some state \<Rightarrow>
                       (case SetPullRequestHidden (ax_valid8 X) (ax_parse X) (sn_UserID s) (collection, k) state now db1 of
                          (Inl e, db2) \<Rightarrow> (status (if e = PullRequestNotFound then 404 else 400), db2)
                        | (Inr _, db2) \<Rightarrow> (status 200, db2)))))"

text \<open>The \<open>PUT\<close> case of \<open>serveProgress\<close>, up to the report it then sends.\<close>

definition serveProgress_put ::
  "access_env \<Rightarrow> config \<Rightarrow> http_request \<Rightarrow> string \<Rightarrow> goal_preferences option \<Rightarrow> time \<Rightarrow> account_db \<Rightarrow> (nat + session) \<times> account_db" where
  "serveProgress_put X c r collection body now db =
     (case requireCollectionMutation X c r collection now db of
        (Inl n, db1) \<Rightarrow> (Inl n, db1)
      | (Inr s, db1) \<Rightarrow>
         (case body of
            None \<Rightarrow> (Inl 400, db1)
          | Some preferences \<Rightarrow>
             (case SetGoalPreferences (ax_zone X) (map c_id (d_collections (acc_pr db1))) (sn_UserID s)
                 collection preferences (acc_progress db1) of
                Inl e \<Rightarrow> (Inl (if e = GoalCollectionNotFound then 404 else 400), db1)
              | Inr p \<Rightarrow> (Inr s, update_store (\<lambda>x. x\<lparr>rf_progress := p\<rparr>) db1))))"

section \<open>Administration\<close>

definition configured_repositories :: "config \<Rightarrow> string list" where
  "configured_repositories c = dedup_on id [] (concat (map cl_Repositories (Collections c)))"

fun enqueue_forced :: "string list \<Rightarrow> time \<Rightarrow> nat \<Rightarrow> refresh_db \<Rightarrow> (nat \<times> bool) \<times> refresh_db" where
  "enqueue_forced [] now n db = ((n, True), db)"
| "enqueue_forced (x # xs) now n db =
     (case EnqueueRefreshWithForce x now True db of
        Inl _ \<Rightarrow> ((n, False), db)
      | Inr (added, db1) \<Rightarrow> enqueue_forced xs now (if added then n + 1 else n) db1)"

text \<open>Each repository is enqueued in a transaction of its own.\<close>

definition serveAdminRefresh :: "access_env \<Rightarrow> config \<Rightarrow> http_request \<Rightarrow> time \<Rightarrow> account_db \<Rightarrow> reply \<times> account_db" where
  "serveAdminRefresh X c r now db =
     (if hr_Method r \<noteq> ''POST'' then (status 405, db)
      else case requireMutation X c r now db of
        (Inl n, db1) \<Rightarrow> (status n, db1)
      | (Inr s, db1) \<Rightarrow>
          if \<not> isDeploymentAdmin c (sn_UserID s)
          then (status 403, audit X ''authorization_denied'' (Some (sn_UserID s)) ''admin_refresh'' now db1)
          else (let ((n, ok), store) = enqueue_forced (configured_repositories c) now 0 (acc_store db1);
                    db2 = update_store (\<lambda>_. store) db1
                in if \<not> ok then (status 500, db2)
                   else (status 200, audit X ''admin_refresh_requested'' (Some (sn_UserID s)) ''all_repositories'' now db2)))"

text \<open>
  \<open>lookup\<close> and \<open>readFile\<close> read the environment and files, \<open>reload\<close> applies the configuration and
  answers \<open>None\<close> on an error.
\<close>

definition serveReload ::
  "access_env \<Rightarrow> (string \<Rightarrow> string option) \<Rightarrow> (string \<Rightarrow> string option) \<Rightarrow> (account_db \<Rightarrow> (config \<times> account_db) option) \<Rightarrow>
   config \<Rightarrow> http_request \<Rightarrow> time \<Rightarrow> account_db \<Rightarrow> reply \<times> config \<times> account_db" where
  "serveReload X lookup readFile reload c r now db =
     (if hr_Method r \<noteq> ''POST'' then (status 405, c, db)
      else case Operations c of
        None \<Rightarrow> (status 404, c, db)
      | Some reference \<Rightarrow>
         (case ResolveSecret lookup readFile reference of
            Inl _ \<Rightarrow> (status 503, c, audit X ''reload_failed'' None ''credential_unavailable'' now db)
          | Inr secret \<Rightarrow>
             (let token = TrimPrefix (hr_Authorization r) ''Bearer '' in
              if token = hr_Authorization r \<or> token \<noteq> TrimSpace secret
              then (status 401, c, audit X ''authorization_denied'' None ''reload'' now db)
              else (case reload db of
                      None \<Rightarrow> (status 400, c, audit X ''reload_failed'' None ''invalid_configuration'' now db)
                    | Some (c1, db1) \<Rightarrow> (status 204, c1, audit X ''reload_succeeded'' None ''configuration_changed'' now db1)))))"

section \<open>Dispatch\<close>

text \<open>The requests that change the store on behalf of a user, and every other outcome of the dispatch.\<close>

datatype mutation =
    Logout | DeleteData | AdminRefresh | Goals string
  | Important string string string string | Hidden string string string string

datatype route = Mutates mutation | Reloads | SignsIn | CallsBack | Reads | Fails nat

definition allowRead :: "http_request \<Rightarrow> bool" where
  "allowRead r \<longleftrightarrow> hr_Method r = ''GET'' \<or> hr_Method r = ''HEAD''"

definition collection_prefix :: string where "collection_prefix = ''/api/collections/''"

definition collection_of :: "access_env \<Rightarrow> string \<Rightarrow> string option" where
  "collection_of X raw =
     (case ax_unescape X raw of None \<Rightarrow> None | Some k \<Rightarrow> if collectionIDRE k then Some k else None)"

definition serveCollectionPullRequests :: "access_env \<Rightarrow> http_request \<Rightarrow> string \<Rightarrow> route" where
  "serveCollectionPullRequests X r path =
     (let relative = TrimPrefix path collection_prefix; parts = Split relative (CHR ''/'') in
      if relative = path \<or> length parts < 2 \<or> parts ! 1 \<noteq> ''pull-requests'' then Fails 404
      else case collection_of X (parts ! 0) of
        None \<Rightarrow> Fails 400
      | Some k \<Rightarrow>
          if length parts = 5 then (if allowRead r then Reads else Fails 405)
          else if length parts = 6 \<and> parts ! 5 = ''important'' then Mutates (Important k (parts ! 2) (parts ! 3) (parts ! 4))
          else if length parts = 6 \<and> parts ! 5 = ''hidden'' then Mutates (Hidden k (parts ! 2) (parts ! 3) (parts ! 4))
          else if length parts \<noteq> 2 then Fails 404
          else if allowRead r then Reads else Fails 405)"

definition serveCollectionResource :: "access_env \<Rightarrow> http_request \<Rightarrow> string \<Rightarrow> route" where
  "serveCollectionResource X r path =
     (let parts = Split (TrimPrefix path collection_prefix) (CHR ''/'') in
      if length parts \<ge> 2 \<and> parts ! 1 = ''groups'' then (if allowRead r then Reads else Fails 405)
      else if length parts = 2 \<and> parts ! 1 = ''progress'' then
        (case collection_of X (parts ! 0) of
           None \<Rightarrow> Fails 400
         | Some k \<Rightarrow> if hr_Method r = ''PUT'' then Mutates (Goals k) else if hr_Method r = ''GET'' then Reads else Fails 405)
      else if length parts = 3 \<and> parts ! 1 = ''authors'' then (if allowRead r then Reads else Fails 405)
      else serveCollectionPullRequests X r path)"

definition serveHTTP :: "access_env \<Rightarrow> http_request \<Rightarrow> string \<Rightarrow> route" where
  "serveHTTP X r path =
     (if path = ''/-/healthy'' \<or> path = ''/-/ready'' then (if allowRead r then Reads else Fails 405)
      else if path = ''/-/reload'' then Reloads
      else if path = ''/auth/login'' then SignsIn
      else if path = ''/auth/callback'' then CallsBack
      else if path = ''/auth/logout'' then Mutates Logout
      else if path = ''/api/viewer'' then (if allowRead r then Reads else Fails 405)
      else if path = ''/api/me/data'' then Mutates DeleteData
      else if path = ''/api/collections'' \<or> path = ''/api/analysis/status'' \<or> path = ''/api/admin/status''
        then (if allowRead r then Reads else Fails 405)
      else if path = ''/api/admin/refresh'' then Mutates AdminRefresh
      else if HasPrefix path ''/api/admin/model-payloads/'' then (if allowRead r then Reads else Fails 405)
      else if HasPrefix path collection_prefix then serveCollectionResource X r path
      else if allowRead r then Reads else Fails 405)"

text \<open>The store after a mutation; \<open>goals\<close> and \<open>hidden\<close> are the decoded body.\<close>

fun serve ::
  "access_env \<Rightarrow> config \<Rightarrow> http_request \<Rightarrow> goal_preferences option \<Rightarrow> hidden_state option \<Rightarrow> time \<Rightarrow> mutation \<Rightarrow>
   account_db \<Rightarrow> account_db" where
  "serve X c r goals hidden now Logout db = snd (serveLogout X c r now db)"
| "serve X c r goals hidden now DeleteData db = snd (serveDeletePersonalData X c r now db)"
| "serve X c r goals hidden now AdminRefresh db = snd (serveAdminRefresh X c r now db)"
| "serve X c r goals hidden now (Goals k) db = snd (serveProgress_put X c r k goals now db)"
| "serve X c r goals hidden now (Important k p q n) db = snd (serveImportantPullRequest X c r k p q n now db)"
| "serve X c r goals hidden now (Hidden k p q n) db = snd (serveHiddenPullRequest X c r k p q n hidden now db)"

section \<open>The viewer\<close>

record viewer =
  vw_ID :: int
  vw_Login :: string
  vw_AvatarURL :: string
  vw_CSRFToken :: string
  vw_ExpiresAt :: time
  vw_DeploymentAdmin :: bool
  vw_AuthorizedCollections :: "string list"

text \<open>The status with the viewer of the session, if any.\<close>

definition serveViewer ::
  "access_env \<Rightarrow> config \<Rightarrow> http_request \<Rightarrow> time \<Rightarrow> account_db \<Rightarrow> (nat \<times> viewer option) \<times> account_db" where
  "serveViewer X c r now db =
     (if \<not> allowRead r then ((405, None), db)
      else case load_session X r now db of
        (Inl _, db1) \<Rightarrow> ((500, None), db1)
      | (Inr None, db1) \<Rightarrow> ((200, None), db1)
      | (Inr (Some s), db1) \<Rightarrow>
          ((200, Some \<lparr> vw_ID = sn_UserID s, vw_Login = sn_Login s, vw_AvatarURL = sn_AvatarURL s,
             vw_CSRFToken = sn_CSRFToken s, vw_ExpiresAt = sn_ExpiresAt s,
             vw_DeploymentAdmin = isDeploymentAdmin c (sn_UserID s),
             vw_AuthorizedCollections = authorizedCollections (ax_fold X) c s \<rparr>), db1))"

end
