(* ===== verification/AccessProps.thy ===== *)
theory AccessProps
  imports Access RefreshProps
begin

text \<open>
  What signing in and access control guarantee: the store changes on behalf of a request only
  through a live session of the right user, logins are one-time and bounded in time, and the
  removal of personal data is complete and exact. The guards of the handlers share one contract,
  the locale \<open>session_guard\<close>.
\<close>

section \<open>Guards\<close>

text \<open>A session that a request presents: an unexpired row under the identifier of its cookie.\<close>

definition live_session :: "http_request \<Rightarrow> time \<Rightarrow> account_db \<Rightarrow> session \<Rightarrow> bool" where
  "live_session r now db s \<longleftrightarrow> hr_SessionCookie r = Some (sn_ID s) \<and>
     (\<exists>row\<in>set (acc_sessions db). se_id row = sn_ID s \<and> formatTime now < se_expires_at row \<and> se_user row = sn_UserID s \<and>
        se_organizations row = sn_Organizations s \<and> se_teams row = sn_Teams s \<and> se_csrf row = sn_CSRFToken s)"

definition csrf_checked :: "access_env \<Rightarrow> config \<Rightarrow> http_request \<Rightarrow> session \<Rightarrow> bool" where
  "csrf_checked X c r s \<longleftrightarrow> hr_CSRFToken r = sn_CSRFToken s \<and>
     validOrigin (ax_fold X) (ax_url X) (hr_Origin r) (ExternalBaseURL c)"

definition may_use :: "access_env \<Rightarrow> config \<Rightarrow> string \<Rightarrow> session \<Rightarrow> bool" where
  "may_use X c collection s \<longleftrightarrow> (\<exists>cl\<in>set (Collections c). cl_ID cl = collection \<and> collectionAuthorized (ax_fold X) cl s)"

locale session_guard =
  fixes guard :: "http_request \<Rightarrow> time \<Rightarrow> account_db \<Rightarrow> (nat + session) \<times> account_db"
    and allowed :: "http_request \<Rightarrow> session \<Rightarrow> bool"
  assumes passed: "guard r now db = (Inr s, db') \<Longrightarrow> db' = db \<and> live_session r now db s \<and> allowed r s"
    and refused: "guard r now db = (Inl n, db') \<Longrightarrow> acc_store db' = acc_store db"
begin

lemma guard_cases:
  obtains (pass) s where "guard r now db = (Inr s, db)" "live_session r now db s" "allowed r s"
  | (refuse) n db' where "guard r now db = (Inl n, db')" "acc_store db' = acc_store db"
proof (cases "guard r now db")
  case (Pair a db')
  show thesis
  proof (cases a)
    case (Inl n)
    with Pair refused refuse show thesis by blast
  next
    case (Inr s)
    with Pair passed pass show thesis by blast
  qed
qed

text \<open>A handler behind the guard changes the store only on behalf of an allowed live session.\<close>

lemma guarded_change:
  assumes "acc_store (snd (case guard r now db of (Inl n, d) \<Rightarrow> (refusal n, d) | (Inr s, d) \<Rightarrow> answer s d)) \<noteq> acc_store db"
    and "\<And>s. live_session r now db s \<Longrightarrow> allowed r s \<Longrightarrow> Q s (snd (answer s db))"
  shows "\<exists>s. live_session r now db s \<and> allowed r s \<and>
    Q s (snd (case guard r now db of (Inl n, d) \<Rightarrow> (refusal n, d) | (Inr s, d) \<Rightarrow> answer s d))"
proof (rule guard_cases [of r now db])
  fix s assume s: "guard r now db = (Inr s, db)" "live_session r now db s" "allowed r s"
  with assms(2) show ?thesis by (intro exI [of _ s]) simp
next
  fix n db' assume "guard r now db = (Inl n, db')" "acc_store db' = acc_store db"
  with assms(1) show ?thesis by simp
qed

end

lemma audit_store [simp]: "acc_store (audit X event user detail now db) = acc_store db"
  by (auto simp: audit_def RecordAudit_def failIf_def Let_def split: sum.splits)

lemma GetSession_Some:
  assumes "GetSession parse i now db = (Inr (Some s), db')" "hr_SessionCookie r = Some i"
  shows "db' = db \<and> live_session r now db s"
proof -
  from assms(1) have i: "i \<noteq> []" by (auto simp: GetSession_def)
  from assms(1) i obtain row where f: "find (\<lambda>r. se_id r = i \<and> se_expires_at r > formatTime now) (acc_sessions db) = Some row"
    by (auto simp: GetSession_def split: option.splits)
  from assms(1) i f have "db' = db" "sn_ID s = se_id row" "sn_UserID s = se_user row" "sn_Organizations s = se_organizations row"
    "sn_Teams s = se_teams row" "sn_CSRFToken s = se_csrf row"
    by (auto simp: GetSession_def split: option.splits)
  moreover from find_SomeD [OF f] have "row \<in> set (acc_sessions db)" "se_id row = i" "formatTime now < se_expires_at row" by auto
  ultimately show ?thesis using assms(2) unfolding live_session_def by auto
qed

lemma load_session_Some: "load_session X r now db = (Inr (Some s), db') \<Longrightarrow> db' = db \<and> live_session r now db s"
  using GetSession_Some by (fastforce simp: load_session_def split: option.splits)

lemma GetSession_store: "acc_store (snd (GetSession parse i now db)) = acc_store db"
  by (simp add: GetSession_def split: option.split)

lemma load_session_store: "load_session X r now db = (a, db') \<Longrightarrow> acc_store db' = acc_store db"
  using GetSession_store [of "ax_parse X"] by (auto simp: load_session_def split: option.splits) (metis snd_conv)

text \<open>Every guard of the handlers keeps the contract.\<close>

interpretation mutation: session_guard "requireMutation X c" "csrf_checked X c" for X c
proof
  fix r now db s db'
  assume "requireMutation X c r now db = (Inr s, db')"
  then show "db' = db \<and> live_session r now db s \<and> csrf_checked X c r s"
    by (auto simp: requireMutation_def csrf_checked_def split: prod.splits sum.splits option.splits if_splits
        dest!: load_session_Some)
next
  fix r now db n db'
  assume "requireMutation X c r now db = (Inl n, db')"
  then show "acc_store db' = acc_store db"
    by (auto simp: requireMutation_def split: prod.splits sum.splits option.splits if_splits dest!: load_session_store)
qed

interpretation admin: session_guard "requireDeploymentAdmin X c" "\<lambda>_ s. isDeploymentAdmin c (sn_UserID s)" for X c
proof
  fix r now db s db'
  assume "requireDeploymentAdmin X c r now db = (Inr s, db')"
  then show "db' = db \<and> live_session r now db s \<and> isDeploymentAdmin c (sn_UserID s)"
    by (auto simp: requireDeploymentAdmin_def split: prod.splits sum.splits option.splits if_splits
        dest!: load_session_Some)
next
  fix r now db n db'
  assume "requireDeploymentAdmin X c r now db = (Inl n, db')"
  then show "acc_store db' = acc_store db"
    by (auto simp: requireDeploymentAdmin_def split: prod.splits sum.splits option.splits if_splits dest!: load_session_store)
qed

interpretation member: session_guard "\<lambda>r. requireCollectionMutation X c r k"
  "\<lambda>r s. csrf_checked X c r s \<and> may_use X c k s" for X c k
proof
  fix r now db s db'
  assume "requireCollectionMutation X c r k now db = (Inr s, db')"
  then show "db' = db \<and> live_session r now db s \<and> csrf_checked X c r s \<and> may_use X c k s"
    by (auto simp: requireCollectionMutation_def may_use_def list_ex_iff split: prod.splits sum.splits if_splits
        dest!: mutation.passed)
next
  fix r now db n db'
  assume "requireCollectionMutation X c r k now db = (Inl n, db')"
  then show "acc_store db' = acc_store db"
    by (auto simp: requireCollectionMutation_def split: prod.splits sum.splits if_splits
        dest!: mutation.refused mutation.passed)
qed

lemma authorizedSession_Some:
  "authorizedSessionForCollection X c r k now db = (Inr (Some s), db') \<Longrightarrow>
     db' = db \<and> live_session r now db s \<and> may_use X c k s"
  by (auto simp: authorizedSessionForCollection_def may_use_def split: prod.splits sum.splits option.splits if_splits
      dest!: load_session_Some find_SomeD)

lemma authorizedSession_store:
  "authorizedSessionForCollection X c r k now db = (a, db') \<Longrightarrow> acc_store db' = acc_store db"
  by (auto simp: authorizedSessionForCollection_def split: prod.splits sum.splits option.splits if_splits
      dest!: load_session_store)

interpretation reader: session_guard "\<lambda>r. requireCollectionRead X c r k" "\<lambda>_ s. may_use X c k s" for X c k
proof
  fix r now db s db'
  assume "requireCollectionRead X c r k now db = (Inr s, db')"
  then show "db' = db \<and> live_session r now db s \<and> may_use X c k s"
    by (auto simp: requireCollectionRead_def split: prod.splits sum.splits option.splits dest!: authorizedSession_Some)
next
  fix r now db n db'
  assume "requireCollectionRead X c r k now db = (Inl n, db')"
  then show "acc_store db' = acc_store db"
    by (auto simp: requireCollectionRead_def split: prod.splits sum.splits option.splits
        dest!: authorizedSession_store load_session_store)
qed

section \<open>Whose rows a request touches\<close>

text \<open>The private rows of a user in a collection, and the store without any private row.\<close>

definition private_of :: "int \<times> string \<Rightarrow> refresh_db \<Rightarrow> personal_row list \<times> hidden_row list \<times> goal_row list \<times> event_row list" where
  "private_of x db =
     (filter (\<lambda>r. (ps_user r, fst (ps_member r)) = x) (d_important (rf_pr db)),
      filter (\<lambda>r. (ps_user r, fst (ps_member r)) = x) (d_hidden (rf_pr db)),
      filter (\<lambda>r. (go_user r, go_collection r) = x) (pg_goals (rf_progress db)),
      filter (\<lambda>r. (er_actor r, er_collection r) = x) (pg_events (rf_progress db)))"

definition public_part :: "refresh_db \<Rightarrow> refresh_db" where
  "public_part db = db\<lparr> rf_pr := (rf_pr db)\<lparr> d_important := [], d_hidden := [] \<rparr>,
     rf_progress := (rf_progress db)\<lparr> pg_goals := [], pg_events := [] \<rparr> \<rparr>"

text \<open>Only private rows within \<open>S\<close> differ.\<close>

definition within :: "(int \<times> string) set \<Rightarrow> refresh_db \<Rightarrow> refresh_db \<Rightarrow> bool" where
  "within S db db' \<longleftrightarrow> public_part db' = public_part db \<and> (\<forall>x. x \<notin> S \<longrightarrow> private_of x db' = private_of x db)"

lemma within_refl: "within S db db"
  by (simp add: within_def)

lemma filter_delete_other: "(\<And>r. Q r \<Longrightarrow> \<not> P r) \<Longrightarrow> filter Q (delete_where P t) = filter Q t"
  by (auto simp: delete_where_def filter_filter intro!: filter_cong)

lemma filter_upsert_other:
  assumes "\<And>x y. k x = k y \<Longrightarrow> Q x = Q y" "\<And>old. k old = k r \<Longrightarrow> k (m old r) = k r" "\<not> Q r"
  shows "filter Q (upsert k m r t) = filter Q t"
proof -
  have "filter Q (update_where (\<lambda>x. k x = k r) (\<lambda>x. m x r) t) = filter Q t"
  proof (induction t)
    case (Cons a t)
    have "\<not> Q a \<and> \<not> Q (m a r)" if "k a = k r" using assms that by metis
    with Cons show ?case by (simp add: update_where_def)
  qed (simp add: update_where_def)
  with assms(3) show ?thesis by (simp add: upsert_def)
qed

lemma Mark_within:
  "MarkPullRequestImportant u m db = Inr db' \<Longrightarrow> within {(u, fst m)} (acc_store db) (acc_store db')"
  by (auto simp: MarkPullRequestImportant_def failIf_eq_Inr Let_def within_def private_of_def public_part_def
      update_marks_def update_store_def split: if_splits)

lemma Unmark_within:
  "UnmarkPullRequestImportant u m db = Inr db' \<Longrightarrow> within {(u, fst m)} (acc_store db) (acc_store db')"
  by (auto simp: UnmarkPullRequestImportant_def failIf_eq_Inr Let_def within_def private_of_def public_part_def
      update_marks_def update_store_def intro!: filter_delete_other)

lemma Restore_within:
  "RestorePullRequest u m db = Inr db' \<Longrightarrow> within {(u, fst m)} (acc_store db) (acc_store db')"
  by (auto simp: RestorePullRequest_def failIf_eq_Inr Let_def within_def private_of_def public_part_def
      update_marks_def update_store_def hidden_key_def intro!: filter_delete_other)

lemma Hide_upsert_within:
  "within {(u, fst m)} (acc_store db) (acc_store (update_marks (\<lambda>p. p\<lparr>d_hidden := upsert hidden_key
     (\<lambda>old new. new\<lparr>hd_created_at := hd_created_at old\<rparr>) (hidden_row_of u m s t now) (d_hidden p)\<rparr>) db))"
proof -
  have "filter (\<lambda>r. (ps_user r, fst (ps_member r)) = x) (upsert hidden_key
     (\<lambda>old new. new\<lparr>hd_created_at := hd_created_at old\<rparr>) (hidden_row_of u m s t now) h) =
     filter (\<lambda>r. (ps_user r, fst (ps_member r)) = x) h" if "x \<noteq> (u, fst m)" for x h
    using that by (intro filter_upsert_other) (auto simp: hidden_key_def hidden_row_of_def)
  then show ?thesis by (simp add: within_def private_of_def public_part_def update_marks_def update_store_def)
qed

lemma Hide_within:
  "within {(u, fst m)} (acc_store db) (acc_store (snd (SetPullRequestHidden valid8 parse u m state now db)))"
  by (simp add: SetPullRequestHidden_def Let_def Hide_upsert_within within_refl split: sum.split option.split)

lemma Goal_within:
  assumes "SetGoalPreferences zone collections u k p (acc_progress db) = Inr g"
  shows "within {(u, k)} (acc_store db) (acc_store (update_store (\<lambda>x. x\<lparr>rf_progress := g\<rparr>) db))"
proof -
  from assms obtain as where g: "g = (acc_progress db)\<lparr>pg_goals := upsert (\<lambda>r. (go_user r, go_collection r)) (\<lambda>old new. new)
      \<lparr> go_user = u, go_collection = k, go_goal = p\<lparr>gp_EnabledActivities := as\<rparr> \<rparr> (pg_goals (acc_progress db))\<rparr>"
    unfolding SetGoalPreferences_def failIf_eq_Inr bindR_eq_Inr sum.inject by (elim exE conjE) (erule that [OF sym])
  have "filter (\<lambda>r. (go_user r, go_collection r) = x) (pg_goals g) =
      filter (\<lambda>r. (go_user r, go_collection r) = x) (pg_goals (acc_progress db))" if "x \<noteq> (u, k)" for x
    using that unfolding g by (simp, intro filter_upsert_other) auto
  then show ?thesis by (simp add: within_def private_of_def public_part_def update_store_def g)
qed

lemma Delete_within: "within ({u} \<times> UNIV) (acc_store db) (acc_store (DeletePersonalData u now db))"
  by (auto simp: within_def private_of_def public_part_def DeletePersonalData_def intro!: filter_delete_other)

lemma Refresh_within:
  "enqueue_forced xs now n db = (r, db') \<Longrightarrow> rf_pr db' = rf_pr db \<and> rf_progress db' = rf_progress db"
proof (induction xs arbitrary: n db)
  case (Cons x xs)
  show ?case
  proof (cases "EnqueueRefreshWithForce x now True db")
    case (Inl e)
    with Cons.prems show ?thesis by simp
  next
    case (Inr y)
    obtain added db1 where y: "y = (added, db1)" by (cases y)
    from Inr y have "rf_pr db1 = rf_pr db \<and> rf_progress db1 = rf_progress db"
      by (auto simp: EnqueueRefreshWithForce_def failIf_eq_Inr Let_def split: prod.splits)
    with Cons Inr y show ?thesis by (simp add: Let_def)
  qed
qed simp

text \<open>The rows a mutation may touch for a user, and what authorizes it.\<close>

fun target :: "mutation \<Rightarrow> int \<Rightarrow> (int \<times> string) set" where
  "target Logout u = {}"
| "target DeleteData u = {u} \<times> UNIV"
| "target AdminRefresh u = {}"
| "target (Goals k) u = {(u, k)}"
| "target (Important k p q n) u = {(u, k)}"
| "target (Hidden k p q n) u = {(u, k)}"

fun authorized :: "access_env \<Rightarrow> config \<Rightarrow> mutation \<Rightarrow> session \<Rightarrow> bool" where
  "authorized X c Logout s = True"
| "authorized X c DeleteData s = True"
| "authorized X c AdminRefresh s = isDeploymentAdmin c (sn_UserID s)"
| "authorized X c (Goals k) s = may_use X c k s"
| "authorized X c (Important k p q n) s = may_use X c k s"
| "authorized X c (Hidden k p q n) s = may_use X c k s"

text \<open>A change of the store by a mutation, and who made it.\<close>

definition acted :: "access_env \<Rightarrow> config \<Rightarrow> http_request \<Rightarrow> time \<Rightarrow> mutation \<Rightarrow> account_db \<Rightarrow> account_db \<Rightarrow> bool" where
  "acted X c r now m db db' \<longleftrightarrow> (\<exists>s. live_session r now db s \<and> csrf_checked X c r s \<and> authorized X c m s \<and>
     (if m = AdminRefresh then rf_pr (acc_store db') = rf_pr (acc_store db) \<and> rf_progress (acc_store db') = rf_progress (acc_store db)
      else within (target m (sn_UserID s)) (acc_store db) (acc_store db')))"

lemma acted_Important:
  assumes "acc_store (serve X c r g h now (Important k p q n) db) \<noteq> acc_store db"
  shows "acted X c r now (Important k p q n) db (serve X c r g h now (Important k p q n) db)"
proof -
  from assms obtain i where i: "pull_identity X p q n = Some i" and m: "\<not> (hr_Method r \<noteq> ''PUT'' \<and> hr_Method r \<noteq> ''DELETE'')"
    by (auto simp: serveImportantPullRequest_def split: if_splits option.splits)
  note e = serveImportantPullRequest_def [of X c r k p q n now db, unfolded i option.case if_not_P [OF m]]
  have "\<exists>s. live_session r now db s \<and> (csrf_checked X c r s \<and> may_use X c k s) \<and>
      within {(sn_UserID s, k)} (acc_store db) (acc_store (serve X c r g h now (Important k p q n) db))"
    using assms unfolding serve.simps e
    by (rule member.guarded_change [where Q = "\<lambda>s d. within {(sn_UserID s, k)} (acc_store db) (acc_store d)"])
      (use Unmark_within [of _ "(k, i)" db] Mark_within [of _ "(k, i)" db] within_refl in \<open>simp split: sum.split\<close>)
  then show ?thesis unfolding acted_def by simp
qed

lemma acted_Hidden:
  assumes "acc_store (serve X c r g h now (Hidden k p q n) db) \<noteq> acc_store db"
  shows "acted X c r now (Hidden k p q n) db (serve X c r g h now (Hidden k p q n) db)"
proof -
  from assms obtain i where i: "pull_identity X p q n = Some i" and m: "\<not> (hr_Method r \<noteq> ''PUT'' \<and> hr_Method r \<noteq> ''DELETE'')"
    by (auto simp: serveHiddenPullRequest_def split: if_splits option.splits)
  note e = serveHiddenPullRequest_def [of X c r k p q n _ now db, unfolded i option.case if_not_P [OF m]]
  have hide: "within {(u, k)} (acc_store db) (acc_store (snd (case SetPullRequestHidden (ax_valid8 X) (ax_parse X) u (k, i) s now db of
        (Inl e, db2) \<Rightarrow> (status (if e = PullRequestNotFound then 404 else 400), db2)
      | (Inr _, db2) \<Rightarrow> (status 200, db2))))" for u s
    using Hide_within [of u "(k, i)" db "ax_valid8 X" "ax_parse X" s now] by (auto split: prod.split sum.split)
  have "\<exists>s. live_session r now db s \<and> (csrf_checked X c r s \<and> may_use X c k s) \<and>
      within {(sn_UserID s, k)} (acc_store db) (acc_store (serve X c r g h now (Hidden k p q n) db))"
    using assms unfolding serve.simps e
    by (rule member.guarded_change [where Q = "\<lambda>s d. within {(sn_UserID s, k)} (acc_store db) (acc_store d)"])
      (use Restore_within [of _ "(k, i)" db] hide within_refl in \<open>simp split: sum.split option.split\<close>)
  then show ?thesis unfolding acted_def by simp
qed

lemma acted_Delete:
  assumes "acc_store (serve X c r g h now DeleteData db) \<noteq> acc_store db"
  shows "acted X c r now DeleteData db (serve X c r g h now DeleteData db)"
proof -
  from assms have m: "\<not> hr_Method r \<noteq> ''DELETE''" by (auto simp: serveDeletePersonalData_def split: if_splits)
  note e = serveDeletePersonalData_def [of X c r now db, unfolded if_not_P [OF m]]
  have "\<exists>s. live_session r now db s \<and> csrf_checked X c r s \<and>
      within ({sn_UserID s} \<times> UNIV) (acc_store db) (acc_store (serve X c r g h now DeleteData db))"
    using assms unfolding serve.simps e
    by (rule mutation.guarded_change [where Q = "\<lambda>s d. within ({sn_UserID s} \<times> UNIV) (acc_store db) (acc_store d)"])
      (use Delete_within [of _ db now] in simp)
  then show ?thesis unfolding acted_def by simp
qed

lemma Logout_keeps_store: "acc_store (serve X c r g h now Logout db) = acc_store db"
proof (rule ccontr)
  assume a: "acc_store (serve X c r g h now Logout db) \<noteq> acc_store db"
  then have m: "\<not> hr_Method r \<noteq> ''POST''" by (auto simp: serveLogout_def split: if_splits)
  note e = serveLogout_def [of X c r now db, unfolded if_not_P [OF m]]
  have "\<exists>s. live_session r now db s \<and> csrf_checked X c r s \<and> acc_store (serve X c r g h now Logout db) = acc_store db"
    using a unfolding serve.simps e
    by (rule mutation.guarded_change [where Q = "\<lambda>s d. acc_store d = acc_store db"]) (simp add: DeleteSession_def)
  with a show False by simp
qed

lemma acted_Goals:
  assumes "acc_store (serve X c r g h now (Goals k) db) \<noteq> acc_store db"
  shows "acted X c r now (Goals k) db (serve X c r g h now (Goals k) db)"
proof -
  have w: "within {(u, k)} (acc_store db) (acc_store (snd (case g of
            None \<Rightarrow> (Inl 400, db)
          | Some preferences \<Rightarrow>
             (case SetGoalPreferences (ax_zone X) (map c_id (d_collections (acc_pr db))) u k preferences (acc_progress db) of
                Inl e \<Rightarrow> (Inl (if e = GoalCollectionNotFound then 404 else 400), db)
              | Inr p \<Rightarrow> (Inr s, update_store (\<lambda>x. x\<lparr>rf_progress := p\<rparr>) db)))))" for u s
    using Goal_within [of "ax_zone X" "map c_id (d_collections (acc_pr db))" u k _ db]
    by (simp add: within_refl split: option.split sum.split)
  have "\<exists>s. live_session r now db s \<and> (csrf_checked X c r s \<and> may_use X c k s) \<and>
      within {(sn_UserID s, k)} (acc_store db) (acc_store (serve X c r g h now (Goals k) db))"
    using assms unfolding serve.simps serveProgress_put_def
    by (rule member.guarded_change [where Q = "\<lambda>s d. within {(sn_UserID s, k)} (acc_store db) (acc_store d)"]) (rule w)
  then show ?thesis unfolding acted_def by simp
qed

lemma acted_AdminRefresh:
  assumes "acc_store (serve X c r g h now AdminRefresh db) \<noteq> acc_store db"
  shows "acted X c r now AdminRefresh db (serve X c r g h now AdminRefresh db)"
proof -
  from assms have m: "\<not> hr_Method r \<noteq> ''POST''" by (auto simp: serveAdminRefresh_def split: if_splits)
  note e = serveAdminRefresh_def [of X c r now db, unfolded if_not_P [OF m]]
  let ?Q = "\<lambda>s d. acc_store d \<noteq> acc_store db \<longrightarrow> isDeploymentAdmin c (sn_UserID s) \<and>
      rf_pr (acc_store d) = rf_pr (acc_store db) \<and> rf_progress (acc_store d) = rf_progress (acc_store db)"
  obtain n ok store where f: "enqueue_forced (configured_repositories c) now 0 (acc_store db) = ((n, ok), store)"
    by (metis surj_pair)
  have "\<exists>s. live_session r now db s \<and> csrf_checked X c r s \<and> ?Q s (serve X c r g h now AdminRefresh db)"
    using assms unfolding serve.simps e
    by (rule mutation.guarded_change [where Q = ?Q])
      (use Refresh_within [OF f] in \<open>simp add: f update_store_def Let_def\<close>)
  with assms show ?thesis unfolding acted_def by auto
qed

text \<open>The collection a mutation names.\<close>

fun collection_named :: "mutation \<Rightarrow> string option" where
  "collection_named (Goals k) = Some k"
| "collection_named (Important k p q n) = Some k"
| "collection_named (Hidden k p q n) = Some k"
| "collection_named m = None"

lemma collection_of_ok: "collection_of X raw = Some k \<Longrightarrow> collectionIDRE k"
  by (auto simp: collection_of_def split: option.splits if_splits)

lemma pulls_route_named:
  "serveCollectionPullRequests X r path = Mutates m \<Longrightarrow> collection_named m = Some k \<Longrightarrow> collectionIDRE k"
  by (auto simp: serveCollectionPullRequests_def Let_def split: if_splits option.splits dest: collection_of_ok)

lemma resource_route_named:
  "serveCollectionResource X r path = Mutates m \<Longrightarrow> collection_named m = Some k \<Longrightarrow> collectionIDRE k"
  by (auto simp: serveCollectionResource_def Let_def split: if_splits option.splits dest: collection_of_ok pulls_route_named)

lemma route_named:
  assumes "serveHTTP X r path = Mutates m" "collection_named m = Some k"
  shows "collectionIDRE k"
proof -
  from assms(1) have "serveCollectionResource X r path = Mutates m \<or> collection_named m = None"
    unfolding serveHTTP_def by (simp split: if_splits)
  with assms(2) show ?thesis using resource_route_named by fastforce
qed


section \<open>Signing in\<close>

lemma RecordAudit_rest: "RecordAudit L event user [] at db = Inr db' \<Longrightarrow> acc_sessions db' = acc_sessions db \<and> acc_flows db' = acc_flows db"
  by (auto simp: RecordAudit_def failIf_eq_Inr)

lemma audit_rest [simp]:
  "acc_sessions (audit X event user detail now db) = acc_sessions db" "acc_flows (audit X event user detail now db) = acc_flows db"
  by (auto simp: audit_def RecordAudit_def failIf_def Let_def split: sum.splits)

text \<open>The one flow a callback takes.\<close>

definition takes_flow :: "http_request \<Rightarrow> time \<Rightarrow> account_db \<Rightarrow> account_db \<Rightarrow> flow_row \<Rightarrow> bool" where
  "takes_flow r now db db' f \<longleftrightarrow> f \<in> set (acc_flows db) \<and> hr_FlowCookie r = Some (fw_id f) \<and> fw_state f = hr_State r \<and>
     formatTime now < fw_expires_at f \<and> f \<notin> set (acc_flows db') \<and> set (acc_flows db') \<subseteq> set (acc_flows db)"

lemma ConsumeAuthFlow_Some:
  assumes "ConsumeAuthFlow parse i state now db = (Inr (Some flow), db')"
  obtains f where "f \<in> set (acc_flows db)" "fw_id f = i" "fw_state f = state" "formatTime now < fw_expires_at f"
    "fl_CodeVerifier flow = fw_verifier f" "db' = db\<lparr>acc_flows := acc_flows db'\<rparr>"
    "f \<notin> set (acc_flows db')" "set (acc_flows db') \<subseteq> set (acc_flows db)"
    "\<And>x. x \<in> set (acc_flows db') \<Longrightarrow> \<not> (fw_id x = i \<and> fw_state x = state \<and> formatTime now < fw_expires_at x)"
proof -
  from assms obtain f where f: "find (\<lambda>r. fw_id r = i \<and> fw_state r = state \<and> formatTime now < fw_expires_at r) (acc_flows db) = Some f"
    by (auto simp: ConsumeAuthFlow_def Let_def split: option.splits)
  from find_SomeD [OF f] have in_f: "f \<in> set (acc_flows db)" "fw_id f = i" "fw_state f = state" "formatTime now < fw_expires_at f"
    by auto
  from assms f have "fl_CodeVerifier flow = fw_verifier f" and d: "db' = db\<lparr>acc_flows := delete_where
      (\<lambda>r. fw_id r = i \<and> fw_state r = state \<and> formatTime now < fw_expires_at r) (acc_flows db)\<rparr>"
    by (auto simp: ConsumeAuthFlow_def Let_def split: option.splits)
  with in_f show thesis by (intro that [of f]) (auto simp: set_delete_where)
qed

text \<open>A name the requirements list for which the API reports an active membership, in lower case.\<close>

definition verified :: "github_api \<Rightarrow> string \<Rightarrow> (string \<Rightarrow> string) \<Rightarrow> string list \<Rightarrow> string \<Rightarrow> bool" where
  "verified A token path required v \<longleftrightarrow> (\<exists>n\<in>set required. v = ToLower (ga_lower A) n \<and>
     getOptional (ga_membership A token (path n)) = Inr (Some ''active''))"

lemma verify_memberships_verified:
  "verify_memberships A token path wrap ns = Inr vs \<Longrightarrow> v \<in> set vs \<Longrightarrow> verified A token path ns v"
proof (induction ns arbitrary: vs)
  case (Cons n ns)
  from Cons.prems obtain state vs' where n: "getOptional (ga_membership A token (path n)) = Inr state"
    and vs': "verify_memberships A token path wrap ns = Inr vs'"
    and vs: "vs = (if state = Some ''active'' then ToLower (ga_lower A) n # vs' else vs')"
    by (auto simp: bindR_eq_Inr split: sum.splits)
  from Cons.prems(2) vs consider "v = ToLower (ga_lower A) n" "state = Some ''active''" | "v \<in> set vs'"
    by (auto split: if_splits)
  then show ?case
  proof cases
    case 1
    with n show ?thesis by (auto simp: verified_def)
  next
    case 2
    from Cons.IH [OF vs' this] show ?thesis by (auto simp: verified_def)
  qed
qed simp

lemma verified_mono: "verified A token path ns v \<Longrightarrow> set ns \<subseteq> set ms \<Longrightarrow> verified A token path ms v"
  unfolding verified_def by blast

text \<open>What a verified identity says: the token is the answer to this code and verifier, the identity is
  that token's user, the evidence is active membership in required names.\<close>

definition authentic :: "github_api \<Rightarrow> string \<Rightarrow> string \<Rightarrow> requirements \<Rightarrow> identity \<Rightarrow> membership_evidence \<Rightarrow> bool" where
  "authentic A code verifier req i e \<longleftrightarrow> (\<exists>token j. exchange A code verifier = Inr token \<and> get (ga_user A token) = Inr j \<and>
     id_ID i = id_ID j \<and> id_Login i = id_Login j \<and> 0 < id_ID i \<and>
     (\<forall>v\<in>set (ev_Organizations e). verified A token (organization_path A) (rm_Organizations req) v) \<and>
     (\<forall>v\<in>set (ev_Teams e). verified A token (\<lambda>t. team_path A t (id_Login j)) (rm_Teams req) v))"

lemma Authenticate_authentic:
  assumes "Authenticate A code verifier req = Inr (i, e)"
  shows "authentic A code verifier req i e"
proof -
  from assms obtain token j orgs teams where t: "exchange A code verifier = Inr token" "get (ga_user A token) = Inr j"
    and j: "\<not> (id_ID j \<le> 0 \<or> id_Login j = [])"
    and o: "verify_memberships A token (organization_path A) VerifyOrganization
       (deduplicate (ga_lower A) (rm_Organizations req)) = Inr orgs"
    and m: "verify_memberships A token (\<lambda>t. team_path A t (id_Login j)) VerifyTeam
       (deduplicate (ga_lower A) (rm_Teams req)) = Inr teams"
    and i: "i = j\<lparr>id_AvatarURL := validatedAvatarURL A (id_AvatarURL j)\<rparr>"
    and e: "e = \<lparr> ev_Organizations = orgs, ev_Teams = teams \<rparr>"
    unfolding Authenticate_def bindR_eq_Inr failIf_eq_Inr by auto
  have "verified A token (organization_path A) (rm_Organizations req) v" if "v \<in> set orgs" for v
    using verify_memberships_verified [OF o that] set_dedup_on_subset verified_mono unfolding deduplicate_def by metis
  moreover have "verified A token (\<lambda>t. team_path A t (id_Login j)) (rm_Teams req) v" if "v \<in> set teams" for v
    using verify_memberships_verified [OF m that] set_dedup_on_subset verified_mono unfolding deduplicate_def by metis
  ultimately show ?thesis unfolding authentic_def by (intro exI [of _ token] exI [of _ j]) (use t j in \<open>simp add: i e\<close>)
qed

text \<open>The row a login leaves.\<close>

definition session_of_login :: "identity \<Rightarrow> membership_evidence \<Rightarrow> string \<Rightarrow> string \<Rightarrow> time \<Rightarrow> session_row" where
  "session_of_login i e sid csrf now = \<lparr> se_id = sid, se_user = id_ID i, se_login = id_Login i, se_avatar = id_AvatarURL i,
     se_organizations = ev_Organizations e, se_teams = ev_Teams e, se_csrf = csrf,
     se_created_at = formatTime now, se_expires_at = formatTime (now + 24 * hour) \<rparr>"

lemma CreateSession_Inr:
  assumes "CreateSession t \<lparr> sn_ID = sid, sn_UserID = id_ID i, sn_Login = id_Login i,
      sn_AvatarURL = id_AvatarURL i, sn_Organizations = ev_Organizations e, sn_Teams = ev_Teams e,
      sn_CSRFToken = csrf, sn_CreatedAt = now, sn_ExpiresAt = now + 24 * hour \<rparr> db = Inr db'" "\<not> IsZero now"
  shows "db' = db\<lparr>acc_sessions := acc_sessions db @ [session_of_login i e sid csrf now]\<rparr>"
  using assms by (simp add: CreateSession_def failIf_eq_Inr session_of_login_def)

lemma callback_session:
  assumes "serveAuthCallback X c provider (ts, csrf) r now db = (p, db')" "re_Status p = 303" "\<not> IsZero now"
  shows "\<exists>A f i e sid token. provider = Some A \<and> ts = Some sid \<and> csrf = Some token \<and> takes_flow r now db db' f \<and>
    authentic A (hr_Code r) (fw_verifier f) (authorizationRequirements c) i e \<and>
    re_Cookies p = [(flowCookieName, []), (sessionCookieName, sid)] \<and>
    acc_sessions db' = acc_sessions db @ [session_of_login i e sid token now]"
proof -
  from assms(1,2) obtain A k flow db1 i e sid token db2 where P: "provider = Some A" "ts = Some sid" "csrf = Some token"
    and k: "hr_FlowCookie r = Some k"
    and flow: "ConsumeAuthFlow (ax_parse X) k (hr_State r) now db = (Inr (Some flow), db1)"
    and auth: "Authenticate A (hr_Code r) (fl_CodeVerifier flow) (authorizationRequirements c) = Inr (i, e)"
    and created: "CreateSession now \<lparr> sn_ID = sid, sn_UserID = id_ID i, sn_Login = id_Login i,
      sn_AvatarURL = id_AvatarURL i, sn_Organizations = ev_Organizations e, sn_Teams = ev_Teams e,
      sn_CSRFToken = token, sn_CreatedAt = now, sn_ExpiresAt = now + 24 * hour \<rparr> db1 = Inr db2"
    and audited: "RecordAudit (ax_lower X) ''authentication_succeeded'' (Some (id_ID i)) [] now db2 = Inr db'"
    and cookies: "re_Cookies p = [(flowCookieName, []), (sessionCookieName, sid)]"
    by (auto simp: serveAuthCallback_def status_def Let_def split: if_splits option.splits list.splits prod.splits sum.splits)
  note db2 = CreateSession_Inr [OF created assms(3)]
  from flow show ?thesis
  proof (rule ConsumeAuthFlow_Some)
    fix f
    assume f: "f \<in> set (acc_flows db)" "fw_id f = k" "fw_state f = hr_State r" "formatTime now < fw_expires_at f"
      "fl_CodeVerifier flow = fw_verifier f" and db1: "db1 = db\<lparr>acc_flows := acc_flows db1\<rparr>"
      and gone: "f \<notin> set (acc_flows db1)" "set (acc_flows db1) \<subseteq> set (acc_flows db)"
    have flows: "acc_flows db' = acc_flows db1" "acc_sessions db' = acc_sessions db1 @ [session_of_login i e sid token now]"
      using RecordAudit_rest [OF audited] by (simp_all add: db2)
    moreover have "acc_sessions db1 = acc_sessions db" by (subst db1) simp
    moreover have "takes_flow r now db db' f" using f k gone by (simp add: takes_flow_def flows)
    ultimately show ?thesis using P Authenticate_authentic [OF auth] f(5) cookies by auto
  qed
qed

lemma flow_gone:
  assumes "takes_flow r now db db' f" "distinct (map fw_id (acc_flows db))" "hr_FlowCookie r' = hr_FlowCookie r"
  shows "\<not> takes_flow r' now' db' db'' f'"
proof
  assume t: "takes_flow r' now' db' db'' f'"
  with assms(1,3) have "f' \<in> set (acc_flows db)" "f \<in> set (acc_flows db)" "fw_id f' = fw_id f" "f' \<noteq> f"
    by (auto simp: takes_flow_def)
  with assms(2) show False by (auto simp: distinct_map inj_on_def)
qed

text \<open>C31. A login is what it claims: the callback answers with a session only for an unexpired flow that
  the same browser started (its cookie names it) with the same state, and the flow is gone
  afterwards. The session is of the user whom the GitHub API reports for the token issued for
  this code and the flow's own PKCE verifier; the organizations and teams it carries are required
  by some collection, with an active membership of that user, and it is stored to expire
  24 hours later. No other session is added or changed. The login cannot be replayed: as long as
  no new flow of the same random identifier is created, no callback with that cookie, whatever
  else it sends and whenever it comes, opens another session.\<close>

theorem login_verified:
  assumes "serveAuthCallback X c provider (ts, csrf) r now db = (p, db')" "re_Status p = 303" "\<not> IsZero now"
    and "distinct (map fw_id (acc_flows db))"
  shows "(\<exists>A f i e sid token. provider = Some A \<and> ts = Some sid \<and> csrf = Some token \<and> takes_flow r now db db' f \<and>
    authentic A (hr_Code r) (fw_verifier f) (authorizationRequirements c) i e \<and>
    re_Cookies p = [(flowCookieName, []), (sessionCookieName, sid)] \<and>
    acc_sessions db' = acc_sessions db @ [session_of_login i e sid token now]) \<and>
    (\<forall>X' c' provider' ts' r' now'. hr_FlowCookie r' = hr_FlowCookie r \<and> \<not> IsZero now' \<longrightarrow>
       re_Status (fst (serveAuthCallback X' c' provider' ts' r' now' db')) \<noteq> 303)"
proof (rule conjI [OF callback_session [OF assms(1-3)]], intro allI impI notI)
  fix X' c' provider' ts' and r' :: http_request and now'
  assume r': "hr_FlowCookie r' = hr_FlowCookie r \<and> \<not> IsZero now'"
    and s: "re_Status (fst (serveAuthCallback X' c' provider' ts' r' now' db')) = 303"
  obtain a b where ts': "ts' = (a, b)" by (cases ts')
  obtain q db'' where e: "serveAuthCallback X' c' provider' (a, b) r' now' db' = (q, db'')" by (metis surj_pair)
  from callback_session [OF e] s r' ts' e obtain f' where "takes_flow r' now' db' db'' f'" by auto
  moreover from callback_session [OF assms(1-3)] obtain f where "takes_flow r now db db' f" by blast
  ultimately show False using flow_gone [OF _ assms(4)] r' by blast
qed

lemma find_only: "r \<in> set t \<Longrightarrow> P r \<Longrightarrow> (\<And>x. x \<in> set t \<Longrightarrow> P x \<Longrightarrow> x = r) \<Longrightarrow> find P t = Some r"
  by (cases "find P t") (metis find_None_iff, metis find_SomeD)

lemma session_of_login_simps [simp]:
  "se_id (session_of_login i e sid token now) = sid"
  "se_expires_at (session_of_login i e sid token now) = formatTime (now + 24 * hour)"
  by (simp_all add: session_of_login_def)

lemma session_unique:
  assumes "distinct (map se_id t)" "r \<in> set t" "x \<in> set t" "se_id x = se_id r"
  shows "x = r"
  using assms(1) unfolding distinct_map by (metis inj_onD assms(2-4))

text \<open>A session lives 24 hours, give or take the fraction of a second that the textual times do not
  order: until the second of its expiry a request with its cookie is served as that user
  with that evidence, and from the next second on the session is refused and removed.\<close>

theorem session_lifetime:
  assumes "distinct (map se_id (acc_sessions db))" "session_of_login i e sid token now \<in> set (acc_sessions db)" "sid \<noteq> []"
    and "storable t" "storable (now + 24 * hour)"
    and "parse (formatTime now) = Some now" "parse (formatTime (now + 24 * hour)) = Some (now + 24 * hour)"
  shows "(t div second < (now + 24 * hour) div second \<longrightarrow>
      (\<exists>s. GetSession parse sid t db = (Inr (Some s), db) \<and> sn_UserID s = id_ID i \<and> sn_Organizations s = ev_Organizations e \<and>
         sn_Teams s = ev_Teams e \<and> sn_CSRFToken s = token \<and> sn_ExpiresAt s = now + 24 * hour)) \<and>
    ((now + 24 * hour) div second < t div second \<longrightarrow>
      (\<exists>db'. GetSession parse sid t db = (Inr None, db') \<and> sid \<notin> se_id ` set (acc_sessions db')))"
proof (intro conjI impI)
  let ?row = "session_of_login i e sid token now"
  assume "t div second < (now + 24 * hour) div second"
  from formatTime_less [OF assms(4,5) this] have "find (\<lambda>r. se_id r = sid \<and> se_expires_at r > formatTime t) (acc_sessions db) = Some ?row"
    using session_unique [OF assms(1,2)] by (intro find_only [OF assms(2)]) simp_all
  then show "\<exists>s. GetSession parse sid t db = (Inr (Some s), db) \<and> sn_UserID s = id_ID i \<and> sn_Organizations s = ev_Organizations e \<and>
         sn_Teams s = ev_Teams e \<and> sn_CSRFToken s = token \<and> sn_ExpiresAt s = now + 24 * hour"
    using assms(3,5-7) by (simp add: GetSession_def session_of_login_def)
next
  assume "(now + 24 * hour) div second < t div second"
  from formatTime_less [OF assms(5,4) this] have "\<not> formatTime t < formatTime (now + 24 * hour)" by simp
  then have "\<not> (se_id x = sid \<and> formatTime t < se_expires_at x)" if "x \<in> set (acc_sessions db)" for x
    using session_unique [OF assms(1,2) that] by (metis session_of_login_simps)
  then have "find (\<lambda>r. se_id r = sid \<and> se_expires_at r > formatTime t) (acc_sessions db) = None"
    unfolding find_None_iff by blast
  with assms(3) show "\<exists>db'. GetSession parse sid t db = (Inr None, db') \<and> sid \<notin> se_id ` set (acc_sessions db')"
    by (auto simp: GetSession_def set_delete_where)
qed

section \<open>Personal data\<close>

text \<open>Deleting personal data is complete and exact: afterwards the user has no mark, hidden state,
  goal or progress event in any collection, and no session, so no request acts as this user before a new
  login; every private row and session of the others, all published data and the pending logins
  stay as they were, and the audit trail records the deletion.\<close>

theorem personal_data_removed:
  "let db' = DeletePersonalData u now db in
     (\<forall>k. private_of (u, k) (acc_store db') = ([], [], [], [])) \<and> (\<forall>r t s. live_session r t db' s \<longrightarrow> sn_UserID s \<noteq> u) \<and>
     within ({u} \<times> UNIV) (acc_store db) (acc_store db') \<and>
     (\<forall>r t s. sn_UserID s \<noteq> u \<longrightarrow> live_session r t db' s = live_session r t db s) \<and>
     acc_flows db' = acc_flows db \<and>
     acc_audit db' = acc_audit db @ [audit_row_of ''personal_data_deleted'' (Some u) [] now]"
proof -
  let ?db = "DeletePersonalData u now db"
  have s: "set (acc_sessions ?db) = {r \<in> set (acc_sessions db). se_user r \<noteq> u}"
    by (simp add: DeletePersonalData_def set_delete_where)
  have "private_of (u, k) (acc_store ?db) = ([], [], [], [])" for k
    by (auto simp: private_of_def DeletePersonalData_def delete_where_def filter_empty_conv)
  moreover have "sn_UserID x \<noteq> u" if "live_session r t ?db x" for r t x
    using that s unfolding live_session_def by auto
  moreover have "live_session r t ?db x = live_session r t db x" if "sn_UserID x \<noteq> u" for r t x
    using that s unfolding live_session_def by auto
  moreover have "acc_flows ?db = acc_flows db"
    "acc_audit ?db = acc_audit db @ [audit_row_of ''personal_data_deleted'' (Some u) [] now]"
    by (simp_all add: DeletePersonalData_def)
  ultimately show ?thesis using Delete_within [of u db now] unfolding Let_def by blast
qed

section \<open>Hidden pull requests\<close>

lemma in_upsert:
  assumes "x \<in> set (upsert k f r t)" "k x = k r" "\<And>old. k old = k r \<Longrightarrow> k (f old r) = k r"
  shows "x = r \<or> (\<exists>old\<in>set t. k old = k r \<and> x = f old r)"
  using assms by (auto simp: upsert_def set_update_where list_ex_iff split: if_splits)

lemma upsert_has_key:
  assumes "\<And>old. k old = k r \<Longrightarrow> k (f old r) = k r"
  shows "\<exists>x\<in>set (upsert k f r t). k x = k r"
  using assms by (auto simp: upsert_def set_update_where list_ex_iff)

definition is_hidden :: "int \<Rightarrow> member \<Rightarrow> account_db \<Rightarrow> bool" where
  "is_hidden u m db \<longleftrightarrow> (\<exists>r\<in>set (d_hidden (acc_pr db)). hidden_key r = (u, m))"

lemma SetPullRequestHidden_Inr:
  assumes "SetPullRequestHidden valid8 parse u m state now db = (Inr s, db')"
  obtains st p where "check_kind now (state\<lparr>hs_Reason := TrimSpace (hs_Reason state)\<rparr>) = Inr st"
    "m \<in> set (d_members (acc_pr db))" "find (\<lambda>r. pull_key r = snd m) (d_pulls (acc_pr db)) = Some p"
    "d_hidden (acc_pr db') = upsert hidden_key (\<lambda>old new. new\<lparr>hd_created_at := hd_created_at old\<rparr>)
       (hidden_row_of u m st (pu_updated_at p) now) (d_hidden (acc_pr db))"
    "hiddenPullRequestState parse u m db' = Inr s" "d_pulls (acc_pr db') = d_pulls (acc_pr db)"
  using assms
  by (auto simp: SetPullRequestHidden_def Let_def failIf_eq_Inr update_marks_def update_store_def
      split: sum.splits option.splits if_splits)

lemma check_kind_Inr:
  "check_kind now s = Inr st \<Longrightarrow> hs_Kind st = hs_Kind s \<and> hs_Reason st = hs_Reason s \<and>
     (hs_Kind s = ''ignored'' \<and> hs_SnoozedUntil st = None \<and> \<not> hs_WakeOnActivity st \<or>
      hs_Kind s = ''snoozed'' \<and> st = s \<and> (\<forall>t. hs_SnoozedUntil s = Some t \<longrightarrow> now < t) \<and>
        (hs_SnoozedUntil s = None \<longrightarrow> hs_WakeOnActivity s))"
  by (auto simp: check_kind_def failIf_eq_Inr split: if_splits option.splits)

text \<open>All rows under the key agree with what was set, but for their creation time.\<close>

lemma hidden_rows_agree:
  assumes "x \<in> set (upsert hidden_key (\<lambda>old new. new\<lparr>hd_created_at := hd_created_at old\<rparr>) (hidden_row_of u m st at now) h)"
    "hidden_key x = (u, m)"
  shows "\<exists>c. x = (hidden_row_of u m st at now)\<lparr>hd_created_at := c\<rparr>"
proof -
  let ?r = "hidden_row_of u m st at now"
  have r: "hidden_key ?r = (u, m)" by (simp add: hidden_key_def hidden_row_of_def)
  have c: "hidden_key (z\<lparr>hd_created_at := d\<rparr>) = hidden_key z" for z :: hidden_row and d by (simp add: hidden_key_def)
  have "x = ?r \<or> (\<exists>old\<in>set h. hidden_key old = hidden_key ?r \<and> x = ?r\<lparr>hd_created_at := hd_created_at old\<rparr>)"
    by (rule in_upsert [OF assms(1)]) (simp_all only: r c assms(2))
  then show ?thesis
  proof
    assume "x = ?r"
    then have "x = ?r\<lparr>hd_created_at := hd_created_at ?r\<rparr>" by simp
    then show ?thesis ..
  qed blast
qed

lemma count_hidden: "count_where (\<lambda>r. hidden_key r = (u, m)) (d_hidden (acc_pr db)) = 0 \<longleftrightarrow> \<not> is_hidden u m db"
  by (auto simp: count_where_def filter_empty_conv is_hidden_def)

lemma restore_once:
  assumes "is_hidden u m db"
  shows "\<exists>db'. RestorePullRequest u m db = Inr db' \<and> \<not> is_hidden u m db' \<and> RestorePullRequest u m db' = Inl HiddenNotFound"
proof -
  let ?db = "update_marks (\<lambda>x. x\<lparr>d_hidden := delete_where (\<lambda>r. hidden_key r = (u, m)) (d_hidden x)\<rparr>) db"
  have "RestorePullRequest u m db = Inr ?db"
    using assms by (simp add: RestorePullRequest_def Let_def count_hidden failIf_def)
  moreover have gone: "\<not> is_hidden u m ?db" by (simp add: is_hidden_def update_marks_def update_store_def set_delete_where)
  moreover have "RestorePullRequest u m ?db = Inl HiddenNotFound"
    using gone unfolding RestorePullRequest_def Let_def failIf_def count_hidden by simp
  ultimately show ?thesis by blast
qed

lemma find_upsert_row:
  assumes "\<And>old. k old = k r \<Longrightarrow> k (f old r) = k r"
  shows "find (\<lambda>x. k x = k r) (upsert k f r t) = Some (case find (\<lambda>x. k x = k r) t of None \<Rightarrow> r | Some old \<Rightarrow> f old r)"
proof (cases "list_ex (\<lambda>x. k x = k r) t")
  case True
  then have "find (\<lambda>x. k x = k r) (update_where (\<lambda>x. k x = k r) (\<lambda>x. f x r) t) =
      Some (case find (\<lambda>x. k x = k r) t of None \<Rightarrow> r | Some old \<Rightarrow> f old r)"
    using assms by (induction t) (auto simp: update_where_def)
  with True show ?thesis by (simp add: upsert_def)
next
  case False
  then have "find (\<lambda>x. k x = k r) (t @ [r]) = Some r" "find (\<lambda>x. k x = k r) t = None" by (induction t) auto
  with False show ?thesis by (simp add: upsert_def)
qed

definition hidden_before :: "int \<Rightarrow> member \<Rightarrow> account_db \<Rightarrow> hidden_row option" where
  "hidden_before u m db = find (\<lambda>r. hidden_key r = (u, m)) (d_hidden (acc_pr db))"

text \<open>The row that is read back after hiding, and the listing at time \<open>t\<close> when the pull requests are \<open>ps\<close>.\<close>

definition hidden_created :: "int \<Rightarrow> member \<Rightarrow> time \<Rightarrow> account_db \<Rightarrow> string" where
  "hidden_created u m now db =
     (case hidden_before u m db of None \<Rightarrow> formatTime now | Some r \<Rightarrow> hd_created_at r)"

definition hiding :: "int \<Rightarrow> member \<Rightarrow> hidden_state \<Rightarrow> string \<Rightarrow> time \<Rightarrow> account_db \<Rightarrow> account_db \<Rightarrow> bool" where
  "hiding u m st at now db db' \<longleftrightarrow> d_hidden (acc_pr db') = upsert hidden_key
     (\<lambda>old new. new\<lparr>hd_created_at := hd_created_at old\<rparr>) (hidden_row_of u m st at now) (d_hidden (acc_pr db))"

lemma hidden_row_key: "hidden_key (hidden_row_of u m st at now) = (u, m)"
  "hidden_key (z\<lparr>hd_created_at := d\<rparr>) = hidden_key (z :: hidden_row)"
  by (simp_all add: hidden_key_def hidden_row_of_def)

lemma hiding_found:
  assumes "hiding u m st at now db db'"
  shows "find (\<lambda>x. hidden_key x = (u, m)) (d_hidden (acc_pr db')) =
    Some ((hidden_row_of u m st at now)\<lparr>hd_created_at := hidden_created u m now db\<rparr>)"
proof -
  let ?row = "hidden_row_of u m st at now"
  have "find (\<lambda>x. hidden_key x = hidden_key ?row) (d_hidden (acc_pr db')) = Some (case find (\<lambda>x. hidden_key x = hidden_key ?row)
      (d_hidden (acc_pr db)) of None \<Rightarrow> ?row | Some old \<Rightarrow> ?row\<lparr>hd_created_at := hd_created_at old\<rparr>)"
    unfolding assms [unfolded hiding_def] by (rule find_upsert_row) (simp only: hidden_row_key)
  moreover have "(case hidden_before u m db of None \<Rightarrow> ?row | Some old \<Rightarrow> ?row\<lparr>hd_created_at := hd_created_at old\<rparr>) =
      ?row\<lparr>hd_created_at := hidden_created u m now db\<rparr>"
    by (cases "hidden_before u m db") (simp_all add: hidden_row_of_def hidden_created_def)
  ultimately show ?thesis by (simp only: hidden_row_key hidden_before_def)
qed

lemma hiding_read:
  assumes "hiding u m st at now db db'" "hiddenPullRequestState parse u m db' = Inr s"
    and "parse (formatTime now) = Some now" "\<And>d. hs_SnoozedUntil st = Some d \<Longrightarrow> parse (formatTime d) = Some d"
  shows "hs_Kind s = hs_Kind st \<and> hs_Reason s = hs_Reason st \<and> hs_SnoozedUntil s = hs_SnoozedUntil st \<and>
      hs_WakeOnActivity s = hs_WakeOnActivity st \<and> hs_UpdatedAt s = now \<and>
      parse (hidden_created u m now db) = Some (hs_CreatedAt s)"
proof -
  from assms(2) have "parse_hidden parse False ((hidden_row_of u m st at now)\<lparr>hd_created_at := hidden_created u m now db\<rparr>) = Inr s"
    by (simp add: hiddenPullRequestState_def hiding_found [OF assms(1)])
  then show ?thesis using assms(3,4)
    by (cases "hs_SnoozedUntil st") (auto simp: parse_hidden_def hidden_row_of_def bindR_eq_Inr split: option.splits)
qed

text \<open>Whether a listing finds the snooze \<open>st\<close> over.\<close>

definition over_at :: "(string \<Rightarrow> 'j :: linorder) \<Rightarrow> hidden_state \<Rightarrow> pull_key \<Rightarrow> string \<Rightarrow> time \<Rightarrow> pull_row list \<Rightarrow> bool" where
  "over_at jd st k at t ps \<longleftrightarrow> hs_Kind st = ''snoozed'' \<and>
     ((\<exists>d. hs_SnoozedUntil st = Some d \<and> jd (formatTime d) \<le> jd (formatTime t)) \<or>
      hs_WakeOnActivity st \<and> (\<exists>q\<in>set ps. pull_key q = k \<and> jd at < jd (pu_updated_at q)))"

lemma hiding_woken:
  assumes "hiding u m st at now db db'"
  shows "is_hidden u m (wakeSnoozedPullRequests jd u (fst m) t (update_marks (\<lambda>x. x\<lparr>d_pulls := ps\<rparr>) db')) \<longleftrightarrow>
    \<not> over_at jd st (snd m) at t ps"
proof -
  let ?row = "(hidden_row_of u m st at now)\<lparr>hd_created_at := hidden_created u m now db\<rparr>"
  let ?w = "wakeSnoozedPullRequests jd u (fst m) t (update_marks (\<lambda>x. x\<lparr>d_pulls := ps\<rparr>) db')"
  let ?p = "(acc_pr db')\<lparr>d_pulls := ps\<rparr>"
  have over: "(hd_kind y = ''snoozed'' \<and> snooze_over jd t ?p y) = over_at jd st (snd m) at t ps"
    if "y \<in> set (d_hidden (acc_pr db'))" "hidden_key y = (u, m)" for y
  proof -
    from that have "\<exists>c. y = (hidden_row_of u m st at now)\<lparr>hd_created_at := c\<rparr>"
      unfolding assms [unfolded hiding_def] by (rule hidden_rows_agree)
    then show ?thesis by (auto simp: snooze_over_def over_at_def hidden_row_of_def list_ex_iff split: option.splits)
  qed
  have rows: "y \<in> set (d_hidden (acc_pr ?w)) \<longleftrightarrow> y \<in> set (d_hidden (acc_pr db')) \<and> \<not> (ps_user y = u \<and>
      fst (ps_member y) = fst m \<and> hd_kind y = ''snoozed'' \<and> snooze_over jd t ?p y)" for y
    by (simp add: wakeSnoozedPullRequests_def update_marks_def update_store_def set_delete_where)
  have mine: "ps_user y = u \<and> fst (ps_member y) = fst m" if "hidden_key y = (u, m)" for y :: hidden_row
    using that by (simp add: hidden_key_def)
  from find_SomeD [OF hiding_found [OF assms]] have x: "?row \<in> set (d_hidden (acc_pr db'))" "hidden_key ?row = (u, m)"
    by blast+
  show ?thesis unfolding is_hidden_def
  proof
    assume "\<exists>y\<in>set (d_hidden (acc_pr ?w)). hidden_key y = (u, m)"
    then obtain y where "y \<in> set (d_hidden (acc_pr ?w))" "hidden_key y = (u, m)" by blast
    with rows over mine show "\<not> over_at jd st (snd m) at t ps" by blast
  next
    assume "\<not> over_at jd st (snd m) at t ps"
    with x over have "?row \<in> set (d_hidden (acc_pr ?w))" unfolding rows by blast
    with x show "\<exists>y\<in>set (d_hidden (acc_pr ?w)). hidden_key y = (u, m)" by blast
  qed
qed

text \<open>C32. Hiding does what it says. A state that is accepted reads back with the kind and the trimmed
  reason; an ignored pull request keeps no date and never returns by itself, a snoozed one returns at the first
  listing at or after its date, or, if asked for, after the pull request was updated since it was
  hidden, and not before; hiding again keeps the time it was first hidden; restoring brings it back, once.
  \<open>ps\<close> are the pull requests as published at the time \<open>t\<close> of the listing.\<close>

theorem hidden_lifecycle:
  assumes "SetPullRequestHidden valid8 parse u m state now db = (Inr s, db')"
    and "parse (formatTime now) = Some now" "\<And>t. hs_SnoozedUntil state = Some t \<Longrightarrow> parse (formatTime t) = Some t"
  shows "hs_Kind s = hs_Kind state \<and> hs_Reason s = TrimSpace (hs_Reason state) \<and> hs_UpdatedAt s = now \<and>
    (hs_Kind state = ''ignored'' \<and> hs_SnoozedUntil s = None \<and> \<not> hs_WakeOnActivity s \<or>
     hs_Kind state = ''snoozed'' \<and> hs_SnoozedUntil s = hs_SnoozedUntil state \<and> hs_WakeOnActivity s = hs_WakeOnActivity state) \<and>
    (case hidden_before u m db of None \<Rightarrow> hs_CreatedAt s = now | Some r \<Rightarrow> parse (hd_created_at r) = Some (hs_CreatedAt s)) \<and>
    (\<exists>p. find (\<lambda>r. pull_key r = snd m) (d_pulls (acc_pr db)) = Some p \<and>
      is_hidden u m (wakeSnoozedPullRequests jd u (fst m) t (update_marks (\<lambda>x. x\<lparr>d_pulls := ps\<rparr>) db')) =
        (\<not> over_at jd state (snd m) (pu_updated_at p) t ps)) \<and>
    (\<exists>db''. RestorePullRequest u m db' = Inr db'' \<and> \<not> is_hidden u m db'' \<and> RestorePullRequest u m db'' = Inl HiddenNotFound)"
proof (rule SetPullRequestHidden_Inr [OF assms(1)])
  fix st and p :: pull_row
  assume "check_kind now (state\<lparr>hs_Reason := TrimSpace (hs_Reason state)\<rparr>) = Inr st"
    and p: "find (\<lambda>r. pull_key r = snd m) (d_pulls (acc_pr db)) = Some p"
    and "d_hidden (acc_pr db') = upsert hidden_key (\<lambda>old new. new\<lparr>hd_created_at := hd_created_at old\<rparr>)
      (hidden_row_of u m st (pu_updated_at p) now) (d_hidden (acc_pr db))"
    and read: "hiddenPullRequestState parse u m db' = Inr s"
  then have st: "check_kind now (state\<lparr>hs_Reason := TrimSpace (hs_Reason state)\<rparr>) = Inr st"
    and h: "hiding u m st (pu_updated_at p) now db db'" by (simp_all add: hiding_def)
  note st = check_kind_Inr [OF st]
  have fields: "hs_Kind s = hs_Kind st \<and> hs_Reason s = hs_Reason st \<and> hs_SnoozedUntil s = hs_SnoozedUntil st \<and>
      hs_WakeOnActivity s = hs_WakeOnActivity st \<and> hs_UpdatedAt s = now \<and>
      parse (hidden_created u m now db) = Some (hs_CreatedAt s)"
    by (rule hiding_read [OF h read assms(2)]) (use st assms(3) in auto)
  then have created: "case hidden_before u m db of None \<Rightarrow> hs_CreatedAt s = now
      | Some r \<Rightarrow> parse (hd_created_at r) = Some (hs_CreatedAt s)"
    using assms(2) by (cases "hidden_before u m db") (auto simp: hidden_created_def)
  have "over_at jd st (snd m) (pu_updated_at p) t ps = over_at jd state (snd m) (pu_updated_at p) t ps"
    using st by (auto simp: over_at_def)
  with hiding_woken [OF h, of jd t ps] have woken: "is_hidden u m (wakeSnoozedPullRequests jd u (fst m) t
      (update_marks (\<lambda>x. x\<lparr>d_pulls := ps\<rparr>) db')) = (\<not> over_at jd state (snd m) (pu_updated_at p) t ps)" by simp
  have "is_hidden u m db'" unfolding is_hidden_def using find_SomeD [OF hiding_found [OF h]] by blast
  note restored = restore_once [OF this]
  from st fields have "hs_Kind s = hs_Kind state \<and> hs_Reason s = TrimSpace (hs_Reason state) \<and> hs_UpdatedAt s = now \<and>
    (hs_Kind state = ''ignored'' \<and> hs_SnoozedUntil s = None \<and> \<not> hs_WakeOnActivity s \<or>
     hs_Kind state = ''snoozed'' \<and> hs_SnoozedUntil s = hs_SnoozedUntil state \<and> hs_WakeOnActivity s = hs_WakeOnActivity state)"
    by auto
  with created p woken restored show ?thesis by blast
qed

section \<open>Instances\<close>

definition sample_access :: access_env where
  "sample_access = \<lparr> ax_lower = id, ax_fold = (=), ax_valid8 = (\<lambda>_. True), ax_parse = (\<lambda>_. Some 1),
     ax_url = (\<lambda>s. Some \<lparr> url_Scheme = ''https'', url_Host = ''h'', url_User = False, url_RawQuery = [], url_Fragment = [],
       url_Path = [] \<rparr>), ax_unescape = Some, ax_zone = (\<lambda>_. True) \<rparr>"

definition sample_access_config :: config where
  "sample_access_config = sample_config\<lparr>Collections := [sample_collection\<lparr>cl_ID := ''c'',
     cl_Authorization := Some \<lparr> az_Organizations = [], az_Teams = [], az_Users = [5] \<rparr>\<rparr>]\<rparr>"

definition sample_request :: http_request where
  "sample_request = \<lparr> hr_Method = ''PUT'', hr_SessionCookie = Some ''s'', hr_FlowCookie = Some ''f'', hr_Origin = ''o'',
     hr_CSRFToken = ''t'', hr_Authorization = [], hr_State = ''x'', hr_Code = ''y'' \<rparr>"

definition sample_accounts :: account_db where
  "sample_accounts = \<lparr> acc_store = no_refreshes sample_pr_db no_progress,
     acc_flows = [\<lparr> fw_id = ''f'', fw_state = ''x'', fw_verifier = ''v'', fw_expires_at = ''9'' \<rparr>],
     acc_sessions = [\<lparr> se_id = ''s'', se_user = 5, se_login = ''l'', se_avatar = [], se_organizations = [], se_teams = [],
       se_csrf = ''t'', se_created_at = ''0'', se_expires_at = ''9'' \<rparr>], acc_audit = [] \<rparr>"

definition sample_hiding :: hidden_state where
  "sample_hiding = \<lparr> hs_Kind = ''ignored'', hs_Reason = '' later '', hs_SnoozedUntil = None, hs_WakeOnActivity = False,
     hs_NewActivity = False, hs_CreatedAt = 0, hs_UpdatedAt = 0 \<rparr>"

definition sample_path :: string where
  "sample_path = ''/api/collections/c/pull-requests/o/r/9/hidden''"

lemma sample_route: "serveHTTP sample_access sample_request sample_path = Mutates (Hidden ''c'' ''o'' ''r'' ''9'')"
  by code_simp

lemma sample_hidden:
  "map (hd_reason) (d_hidden (acc_pr (serve sample_access sample_access_config sample_request None (Some sample_hiding) 1
     (Hidden ''c'' ''o'' ''r'' ''9'') sample_accounts))) = [''later'']"
  by code_simp


definition sample_github :: github_api where
  "sample_github = \<lparr> ga_token = (\<lambda>code verifier. Some (200, Some (code @ verifier, []))),
     ga_user = (\<lambda>_. Some (200, Some \<lparr> id_ID = 7, id_Login = ''me'', id_AvatarURL = [] \<rparr>)),
     ga_membership = (\<lambda>_ _. Some (404, None)), ga_escape = id, ga_lower = id, ga_avatar = (\<lambda>_. None), ga_fold = (=) \<rparr>"

abbreviation sample_callback :: "reply \<times> account_db" where
  "sample_callback \<equiv> serveAuthCallback sample_access sample_access_config (Some sample_github) (Some ''n'', Some ''u'')
     (sample_request\<lparr>hr_Method := ''GET''\<rparr>) 1 sample_accounts"

lemma sample_logged_in: "re_Status (fst sample_callback) = 303" "map se_user (acc_sessions (snd sample_callback)) = [5, 7]"
  by code_simp+

theorem login_verified_witness:
  "re_Status (fst sample_callback) = 303 \<and>
   re_Status (fst (serveAuthCallback sample_access sample_access_config (Some sample_github)
      (Some ''m'', Some ''u'') sample_request 2 (snd sample_callback))) \<noteq> 303"
proof -
  have "distinct (map fw_id (acc_flows sample_accounts))" "\<not> IsZero 1" "\<not> IsZero 2" by code_simp+
  with login_verified [OF prod.collapse [symmetric] sample_logged_in(1)] sample_logged_in(1) show ?thesis
    by (simp add: sample_request_def)
qed

theorem session_lifetime_witness:
  "let e = \<lparr> ev_Organizations = [''g''], ev_Teams = [] \<rparr>; i = \<lparr> id_ID = 7, id_Login = ''me'', id_AvatarURL = [] \<rparr>;
       parse = (\<lambda>s. if s = formatTime 1 then Some 1 else Some (1 + 24 * hour));
       db = sample_accounts\<lparr>acc_sessions := [session_of_login i e ''n'' ''u'' 1]\<rparr> in
   (\<exists>s. GetSession parse ''n'' (23 * hour) db = (Inr (Some s), db) \<and> sn_UserID s = 7) \<and>
   fst (GetSession parse ''n'' (25 * hour) db) = Inr None"
proof -
  let ?e = "\<lparr> ev_Organizations = [''g''], ev_Teams = [] \<rparr>"
  let ?i = "\<lparr> id_ID = 7, id_Login = ''me'', id_AvatarURL = [] \<rparr>"
  let ?parse = "\<lambda>s. if s = formatTime 1 then Some 1 else Some (1 + 24 * hour)"
  let ?db = "sample_accounts\<lparr>acc_sessions := [session_of_login ?i ?e ''n'' ''u'' 1]\<rparr>"
  have st: "storable (23 * hour)" "storable (25 * hour)" "storable (1 + 24 * hour)" and ne: "formatTime (1 + 24 * hour) \<noteq> formatTime 1"
    by code_simp+
  have p: "?parse (formatTime 1) = Some 1" "?parse (formatTime (1 + 24 * hour)) = Some (1 + 24 * hour)" using ne by simp_all
  have d: "distinct (map se_id (acc_sessions ?db))" "session_of_login ?i ?e ''n'' ''u'' 1 \<in> set (acc_sessions ?db)" "''n'' \<noteq> []"
    by simp_all
  have o: "(23 * hour) div second < (1 + 24 * hour) div second" "(1 + 24 * hour) div second < (25 * hour) div second"
    by code_simp+
  from session_lifetime [OF d st(1,3) p] o(1) have "\<exists>s. GetSession ?parse ''n'' (23 * hour) ?db = (Inr (Some s), ?db) \<and> sn_UserID s = 7"
    by auto
  moreover from session_lifetime [OF d st(2,3) p] o(2) have "fst (GetSession ?parse ''n'' (25 * hour) ?db) = Inr None"
    by auto
  ultimately show ?thesis unfolding Let_def by blast
qed

theorem personal_data_removed_witness:
  "\<not> live_session sample_request t (DeletePersonalData 5 1 sample_accounts) \<lparr> sn_ID = ''s'', sn_UserID = 5, sn_Login = ''l'',
     sn_AvatarURL = [], sn_Organizations = [], sn_Teams = [], sn_CSRFToken = ''t'', sn_CreatedAt = 0, sn_ExpiresAt = 0 \<rparr>"
  using personal_data_removed [of 5 1 sample_accounts] unfolding Let_def by fastforce

theorem hidden_lifecycle_witness:
  "\<exists>s db'. SetPullRequestHidden (\<lambda>_. True) (\<lambda>_. Some 1) 5 (''c'', ''o/r'', 9) sample_hiding 1 sample_accounts = (Inr s, db') \<and>
     hs_Reason s = ''later'' \<and> is_hidden 5 (''c'', ''o/r'', 9) (wakeSnoozedPullRequests length 5 ''c'' 2
       (update_marks (\<lambda>x. x\<lparr>d_pulls := []\<rparr>) db'))"
proof -
  let ?r = "SetPullRequestHidden (\<lambda>_. True) (\<lambda>_. Some 1) 5 (''c'', ''o/r'', 9) sample_hiding 1 sample_accounts"
  have k: "map_sum id hs_Kind (fst ?r) = Inr ''ignored''" by code_simp
  then obtain s where "fst ?r = Inr s" by (cases "fst ?r") auto
  then have r: "?r = (Inr s, snd ?r)" by (simp add: prod_eq_iff)
  have "TrimSpace (hs_Reason sample_hiding) = ''later''" by code_simp
  moreover have "hs_Kind sample_hiding = ''ignored''" by (simp add: sample_hiding_def)
  ultimately show ?thesis
    using hidden_lifecycle [OF r, of length 2 "[]"] r by (auto simp: sample_hiding_def over_at_def)
qed

end
