(* ===== verification/Mine.thy ===== *)
theory Mine
  imports Sessions ListQuery
begin

text \<open>
  The Mine view of \<open>internal/storage/important.go\<close>: the pull requests of a collection that a
  user authored or marked important, filtered by the validated options of \<open>ListQuery\<close>, sorted, and cut into
  pages whose cursors continue the list. \<open>L\<close> is Unicode lower-casing; the published pull requests
  are given as the list of the read model. Numbers and counts are far below the 64 bits of Go's
  \<open>int\<close>, so differences do not wrap.
\<close>

record mine_pull = listed_pull +
  mp_Title :: string
  mp_Author :: string
  mp_AuthorID :: int
  mp_Additions :: int
  mp_Deletions :: int
  mp_UpdatedAt :: time
  mp_ReviewState :: string
  mp_QualityLevel :: string
  mp_Load :: "review_load option"
  mp_AnalysisStatus :: string
  mp_WaitingOn :: "waiting_state list"

abbreviation mp_Repository :: "mine_pull \<Rightarrow> string" where "mp_Repository p \<equiv> fst (lp_key p)"
abbreviation mp_Number :: "mine_pull \<Rightarrow> int" where "mp_Number p \<equiv> snd (lp_key p)"

section \<open>Filters\<close>

definition mineWaitingMatches :: "waiting_state list \<Rightarrow> options \<Rightarrow> bool" where
  "mineWaitingMatches waiting x =
     (let matches = length (filter (\<lambda>p. p \<in> wt_Party ` set waiting) (o_WaitingOn x)) in
      if o_WaitingMode x = ''all'' then matches = length (o_WaitingOn x) else matches > 0)"

definition minePullRequestMatches :: "(string \<Rightarrow> string) \<Rightarrow> mine_pull \<Rightarrow> options \<Rightarrow> bool" where
  "minePullRequestMatches L p x =
     (if o_Repository x \<noteq> [] \<and> mp_Repository p \<noteq> o_Repository x then False
      else if o_Review x \<noteq> [] \<and> mp_ReviewState p \<noteq> o_Review x then False
      else if o_Quality x \<noteq> [] \<and> mp_QualityLevel p \<noteq> o_Quality x then False
      else if o_ReviewLoad x \<noteq> [] \<and> (case mp_Load p of None \<Rightarrow> True | Some l \<Rightarrow> rl_Overall l \<noteq> o_ReviewLoad x) then False
      else if o_AnalysisStatus x \<noteq> [] \<and> mp_AnalysisStatus p \<noteq> o_AnalysisStatus x then False
      else if o_WaitingOn x \<noteq> [] \<and> \<not> mineWaitingMatches (mp_WaitingOn p) x then False
      else if o_Query x = [] then True
      else let query = ToLower L (o_Query x); number = TrimPrefix query ''#'' in
        Contains (ToLower L (mp_Title p)) query \<or> Contains (ToLower L (mp_Author p)) query \<or>
        Contains (ToLower L (mp_Repository p)) query \<or> Itoa (mp_Number p) = number)"

section \<open>The order\<close>

definition Compare :: "'a :: linorder \<Rightarrow> 'a \<Rightarrow> int" where
  "Compare a b = (if a < b then -1 else if a = b then 0 else 1)"

definition pullRequestChurn :: "mine_pull \<Rightarrow> int" where
  "pullRequestChurn p = mp_Additions p + mp_Deletions p"

definition mineQualityRank :: "string \<Rightarrow> int" where
  "mineQualityRank level =
     (if level = ''review_suggested'' then 1 else if level = ''strong_concerns'' then 2 else 0)"

definition mineReviewLoadAvailable :: "review_load option \<Rightarrow> bool" where
  "mineReviewLoadAvailable l = (case l of None \<Rightarrow> False | Some x \<Rightarrow> rl_Overall x \<in> {''low'', ''medium'', ''high''})"

definition mineReviewLoadRank :: "review_load option \<Rightarrow> int" where
  "mineReviewLoadRank l =
     (case l of
        None \<Rightarrow> 0
      | Some x \<Rightarrow> if rl_Overall x = ''low'' then 1 else if rl_Overall x = ''medium'' then 2
          else if rl_Overall x = ''high'' then 3 else 0)"

definition compareMinePullRequests :: "(string \<Rightarrow> string) \<Rightarrow> mine_pull \<Rightarrow> mine_pull \<Rightarrow> string \<Rightarrow> int" where
  "compareMinePullRequests L a b key =
     (if key = ''updated'' then Compare (mp_UpdatedAt a) (mp_UpdatedAt b)
      else if key = ''number'' then mp_Number a - mp_Number b
      else if key = ''repository'' then Compare (mp_Repository a) (mp_Repository b)
      else if key = ''title'' then Compare (ToLower L (mp_Title a)) (ToLower L (mp_Title b))
      else if key = ''author'' then Compare (ToLower L (mp_Author a)) (ToLower L (mp_Author b))
      else if key = ''churn'' then pullRequestChurn a - pullRequestChurn b
      else if key = ''review'' then Compare (mp_ReviewState a) (mp_ReviewState b)
      else if key = ''quality'' then mineQualityRank (mp_QualityLevel a) - mineQualityRank (mp_QualityLevel b)
      else if key = ''review_load'' then mineReviewLoadRank (mp_Load a) - mineReviewLoadRank (mp_Load b)
      else 0)"

text \<open>The comparison function of the sort, over the remaining keys and orders.\<close>

fun mine_before :: "(string \<Rightarrow> string) \<Rightarrow> string list \<Rightarrow> string list \<Rightarrow> mine_pull \<Rightarrow> mine_pull \<Rightarrow> bool" where
  "mine_before L [] os a b =
     (if mp_Repository a \<noteq> mp_Repository b then mp_Repository a < mp_Repository b else mp_Number a < mp_Number b)"
| "mine_before L (k # ks) os a b =
     (if k = ''review_load'' \<and> mineReviewLoadAvailable (mp_Load a) \<noteq> mineReviewLoadAvailable (mp_Load b)
      then mineReviewLoadAvailable (mp_Load a)
      else let c = compareMinePullRequests L a b k in
        if c = 0 then mine_before L ks (tl os) a b
        else if os \<noteq> [] \<and> hd os = ''desc'' then c > 0 else c < 0)"

text \<open>\<open>sort.SliceStable\<close>: elements that neither precedes keep their order.\<close>

fun insert_by :: "('a \<Rightarrow> 'a \<Rightarrow> bool) \<Rightarrow> 'a \<Rightarrow> 'a list \<Rightarrow> 'a list" where
  "insert_by lt x [] = [x]"
| "insert_by lt x (y # ys) = (if lt y x then y # insert_by lt x ys else x # y # ys)"

definition SliceStable :: "('a \<Rightarrow> 'a \<Rightarrow> bool) \<Rightarrow> 'a list \<Rightarrow> 'a list" where
  "SliceStable lt xs = foldr (insert_by lt) xs []"

definition sortMinePullRequests :: "(string \<Rightarrow> string) \<Rightarrow> mine_pull list \<Rightarrow> options \<Rightarrow> mine_pull list" where
  "sortMinePullRequests L ps x =
     SliceStable (mine_before L (Split (o_Sort x) (CHR '','')) (Split (o_Order x) (CHR '',''))) ps"

section \<open>Pages\<close>

record pull_page =
  pp_PullRequests :: "mine_pull list"
  pp_Total :: int
  pp_Matched :: int
  pp_NextCursor :: string

definition mine_of :: "int \<Rightarrow> string \<Rightarrow> pr_db \<Rightarrow> mine_pull list \<Rightarrow> mine_pull list" where
  "mine_of user collection db ps =
     filter (\<lambda>p. mp_AuthorID p = user \<or> lp_important p) (AttachImportantPullRequests user collection db ps)"

text \<open>The part of the list from the offset, at most a page of it, with the cursor when there is more.\<close>

definition page_of :: "codec \<Rightarrow> options \<Rightarrow> mine_pull list \<Rightarrow> query_error + mine_pull list \<times> string" where
  "page_of K x matched =
     (let rest = (if o_Offset x > int (length matched) then [] else drop (nat (o_Offset x)) matched) in
      if int (length rest) > o_Limit x
      then let shown = take (nat (o_Limit x)) rest in
        bindR (NextCursor K x (o_Offset x + int (length shown))) (\<lambda>c. Inr (shown, c))
      else Inr (rest, []))"

definition ListMinePullRequestsPage ::
  "codec \<Rightarrow> (string \<Rightarrow> string) \<Rightarrow> string \<Rightarrow> int \<Rightarrow> options \<Rightarrow> pr_db \<Rightarrow> mine_pull list \<Rightarrow> query_error + pull_page" where
  "ListMinePullRequestsPage K L collection user x db ps =
     (let mine = mine_of user collection db ps;
          matched = sortMinePullRequests L (filter (\<lambda>p. minePullRequestMatches L p x) mine) x
      in bindR (page_of K x matched) (\<lambda>(shown, next).
           Inr \<lparr> pp_PullRequests = shown, pp_Total = int (length mine), pp_Matched = int (length matched),
             pp_NextCursor = next \<rparr>))"

section \<open>The sort\<close>

lemma mset_insert_by [simp]: "mset (insert_by lt x ys) = add_mset x (mset ys)"
  by (induction ys) auto

lemma mset_SliceStable [simp]: "mset (SliceStable lt xs) = mset xs"
  by (induction xs) (simp_all add: SliceStable_def)

text \<open>A strict order, as \<open>sort\<close> asks for, that is total on the elements of \<open>A\<close>.\<close>

definition strict_order :: "('a \<Rightarrow> 'a \<Rightarrow> bool) \<Rightarrow> bool" where
  "strict_order lt \<longleftrightarrow> (\<forall>a b. lt a b \<longrightarrow> \<not> lt b a) \<and> (\<forall>a b c. lt a b \<longrightarrow> lt b c \<longrightarrow> lt a c)"

definition total_on_set :: "('a \<Rightarrow> 'a \<Rightarrow> bool) \<Rightarrow> 'a set \<Rightarrow> bool" where
  "total_on_set lt A \<longleftrightarrow> (\<forall>a\<in>A. \<forall>b\<in>A. a \<noteq> b \<longrightarrow> lt a b \<or> lt b a)"

lemma strict_orderD:
  assumes "strict_order lt"
  shows "lt a b \<Longrightarrow> \<not> lt b a" "lt a b \<Longrightarrow> lt b c \<Longrightarrow> lt a c"
  using assms unfolding strict_order_def by blast+

lemma insert_by_sorted:
  assumes "strict_order lt" "total_on_set lt (insert x (set ys))" "sorted_wrt lt ys" "x \<notin> set ys"
  shows "sorted_wrt lt (insert_by lt x ys)"
  using assms(2-4)
proof (induction ys)
  case (Cons y ys)
  have tail: "sorted_wrt lt (insert_by lt x ys)"
    by (rule Cons.IH) (use Cons.prems in \<open>auto simp: total_on_set_def\<close>)
  have set: "set (insert_by lt x ys) = insert x (set ys)"
    by (metis mset_insert_by set_mset_add_mset_insert set_mset_mset)
  show ?case
  proof (cases "lt y x")
    case True
    with tail set Cons.prems(2) show ?thesis by auto
  next
    case False
    with Cons.prems have xy: "lt x y" by (auto simp: total_on_set_def)
    have "lt x z" if "z \<in> set ys" for z
    proof -
      from Cons.prems(2) that have "lt y z" by simp
      with xy assms(1) show ?thesis unfolding strict_order_def by blast
    qed
    with False xy Cons.prems(2) show ?thesis by simp
  qed
qed simp

lemma SliceStable_sorted:
  assumes "strict_order lt" "total_on_set lt (set xs)" "distinct xs"
  shows "sorted_wrt lt (SliceStable lt xs)"
  using assms(2,3)
proof (induction xs)
  case (Cons x xs)
  have set: "set (SliceStable lt xs) = set xs" using mset_eq_setD [OF mset_SliceStable] .
  have "sorted_wrt lt (SliceStable lt xs)"
    by (rule Cons.IH) (use Cons.prems in \<open>auto simp: total_on_set_def\<close>)
  then have "sorted_wrt lt (insert_by lt x (SliceStable lt xs))"
    by (intro insert_by_sorted) (use assms(1) Cons.prems set in auto)
  then show ?case by (simp add: SliceStable_def)
qed (simp add: SliceStable_def)

lemma sorted_wrt_unique:
  assumes "strict_order lt" "sorted_wrt lt xs" "sorted_wrt lt ys" "set xs = set ys"
  shows "xs = ys"
  using assms(2-4)
proof (induction xs arbitrary: ys)
  case (Cons x xs)
  then obtain y ys' where ys: "ys = y # ys'" by (cases ys) auto
  have irr: "\<not> lt a a" for a using assms(1) unfolding strict_order_def by blast
  have "x = y"
  proof (rule ccontr)
    assume "x \<noteq> y"
    with Cons.prems ys have "lt x y" "lt y x" by auto
    with assms(1) show False unfolding strict_order_def by blast
  qed
  moreover have "y \<notin> set xs" "y \<notin> set ys'" using Cons.prems(1,2) irr unfolding ys \<open>x = y\<close> by auto
  with Cons.prems(3) have "set xs = set ys'" unfolding ys \<open>x = y\<close> by (simp add: insert_ident)
  ultimately show ?case using Cons ys by auto
qed simp

section \<open>The comparison is a strict order\<close>

text \<open>A three-way comparison of a weak order.\<close>

definition weak_comparison :: "('a \<Rightarrow> 'a \<Rightarrow> int) \<Rightarrow> bool" where
  "weak_comparison c \<longleftrightarrow> (\<forall>a b. (c a b < 0) = (c b a > 0)) \<and> (\<forall>a b d. c a b \<le> 0 \<longrightarrow> c b d \<le> 0 \<longrightarrow> c a d \<le> 0)"

lemma weak_comparison_by:
  assumes "\<And>a b. (c a b < 0) = (g a < (g b :: 'b :: linorder))" "\<And>a b. (c a b > 0) = (g b < g a)"
  shows "weak_comparison c"
proof -
  have "(c a b \<le> 0) = (g a \<le> g b)" for a b using assms(2) [of a b] by (simp add: not_less [symmetric])
  with assms show ?thesis unfolding weak_comparison_def by auto
qed

lemma weak_comparisonD:
  assumes "weak_comparison c"
  shows "(c a b < 0) = (c b a > 0)" "c a b \<le> 0 \<Longrightarrow> c b d \<le> 0 \<Longrightarrow> c a d \<le> 0"
  using assms unfolding weak_comparison_def by blast+

lemma weak_comparison_minus:
  assumes "weak_comparison c"
  shows "weak_comparison (\<lambda>a b. - c a b)"
proof -
  have le: "(- c a b \<le> 0) = (c b a \<le> 0)" and lt: "(- c a b < 0) = (c b a < 0)" for a b
    using weak_comparisonD(1) [OF assms, of a b] weak_comparisonD(1) [OF assms, of b a] by linarith+
  have "c b a \<le> 0 \<Longrightarrow> c d b \<le> 0 \<Longrightarrow> c d a \<le> 0" for a b d using weak_comparisonD(2) [OF assms] by blast
  moreover have "(c b a < 0) = (0 < - c b a)" for a b by linarith
  ultimately show ?thesis unfolding weak_comparison_def le lt by blast
qed

lemma weak_comparison_Compare: "weak_comparison (\<lambda>a b. Compare (f a) (f b))"
  by (rule weak_comparison_by [of _ f]) (auto simp: Compare_def)

lemma weak_comparison_diff: "weak_comparison (\<lambda>a b. (f a :: int) - f b)"
  by (rule weak_comparison_by [of _ f]) auto

lemma weak_comparison_if:
  "weak_comparison f \<Longrightarrow> weak_comparison g \<Longrightarrow> weak_comparison (\<lambda>a b. if P then f a b else g a b)"
  by (cases P) simp_all

lemma weak_comparison_const: "weak_comparison (\<lambda>_ _. 0)"
  by (simp add: weak_comparison_def)

lemma weak_comparison_key: "weak_comparison (\<lambda>a b. compareMinePullRequests L a b k)"
  unfolding compareMinePullRequests_def
  by (intro weak_comparison_if weak_comparison_Compare weak_comparison_diff weak_comparison_const)

text \<open>One key with its direction; a missing review load comes last in both directions.\<close>

definition step :: "(string \<Rightarrow> string) \<Rightarrow> string \<Rightarrow> bool \<Rightarrow> mine_pull \<Rightarrow> mine_pull \<Rightarrow> int" where
  "step L k descending a b =
     (if k = ''review_load'' \<and> mineReviewLoadAvailable (mp_Load a) \<noteq> mineReviewLoadAvailable (mp_Load b)
      then (if mineReviewLoadAvailable (mp_Load a) then -1 else 1)
      else if descending then - compareMinePullRequests L a b k else compareMinePullRequests L a b k)"

lemma mine_before_step:
  "mine_before L (k # ks) os a b =
     (let c = step L k (os \<noteq> [] \<and> hd os = ''desc'') a b in if c = 0 then mine_before L ks (tl os) a b else c < 0)"
  unfolding mine_before.simps step_def Let_def by auto

lemma rank_bounds: "0 \<le> mineReviewLoadRank l" "mineReviewLoadRank l \<le> 3"
  by (auto simp: mineReviewLoadRank_def split: option.split)

lemma step_weak: "weak_comparison (step L k descending)"
proof (cases "k = ''review_load''")
  case False
  then show ?thesis
    using weak_comparison_key [of L k] weak_comparison_minus [OF weak_comparison_key [of L k]]
    unfolding step_def by (cases descending) simp_all
next
  case True
  let ?g = "\<lambda>p. if mineReviewLoadAvailable (mp_Load p)
    then (if descending then - mineReviewLoadRank (mp_Load p) else mineReviewLoadRank (mp_Load p)) else 10"
  have e: "step L k descending a b = (if mineReviewLoadAvailable (mp_Load a) \<noteq> mineReviewLoadAvailable (mp_Load b)
      then (if mineReviewLoadAvailable (mp_Load a) then -1 else 1)
      else if descending then mineReviewLoadRank (mp_Load b) - mineReviewLoadRank (mp_Load a)
      else mineReviewLoadRank (mp_Load a) - mineReviewLoadRank (mp_Load b))" for a b
    unfolding step_def compareMinePullRequests_def True by simp
  have zero: "\<not> mineReviewLoadAvailable l \<Longrightarrow> mineReviewLoadRank l = 0" for l
    by (auto simp: mineReviewLoadAvailable_def mineReviewLoadRank_def split: option.splits)
  show ?thesis
  proof (rule weak_comparison_by [of _ ?g])
    fix a b
    show "(step L k descending a b < 0) = (?g a < ?g b)" "(step L k descending a b > 0) = (?g b < ?g a)"
      unfolding e using zero rank_bounds [of "mp_Load a"] rank_bounds [of "mp_Load b"]
      by (cases "mineReviewLoadAvailable (mp_Load a)"; cases "mineReviewLoadAvailable (mp_Load b)"; cases descending; simp)+
  qed
qed

lemma strict_order_lex:
  assumes "weak_comparison c" "strict_order lt"
  shows "strict_order (\<lambda>a b. if c a b = 0 then lt a b else c a b < (0 :: int))"
proof -
  have w: "(c a b < 0) = (c b a > 0)" "c a b \<le> 0 \<Longrightarrow> c b d \<le> 0 \<Longrightarrow> c a d \<le> 0" for a b d
    using weak_comparisonD [OF assms(1)] by blast+
  have asym: "\<not> (if c b a = 0 then lt b a else c b a < 0)" if "if c a b = 0 then lt a b else c a b < 0" for a b
  proof (cases "c a b = 0")
    case True
    with w(1) [of a b] w(1) [of b a] have "c b a = 0" by linarith
    with True that strict_orderD(1) [OF assms(2), of a b] show ?thesis by simp
  next
    case False
    with that w(1) [of a b] show ?thesis by simp
  qed
  have strict: "c a d < 0" if "c a b \<le> 0" "c b d \<le> 0" "c a b < 0 \<or> c b d < 0" for a b d
  proof (rule ccontr)
    assume "\<not> c a d < 0"
    with w(2) [OF that(1,2)] have "c a d = 0" by simp
    with w(1) [of a d] have "c d a \<le> 0" by linarith
    from w(2) [OF that(2) this] w(2) [OF this that(1)] w(1) [of a b] w(1) [of b d] that(3) show False by linarith
  qed
  have trans: "if c a d = 0 then lt a d else c a d < 0"
    if "if c a b = 0 then lt a b else c a b < 0" "if c b d = 0 then lt b d else c b d < 0" for a b d
  proof (cases "c a b = 0 \<and> c b d = 0")
    case True
    then have "c b a \<le> 0" "c d b \<le> 0" using w(1) [of a b] w(1) [of b d] w(1) [of b a] w(1) [of d b] by linarith+
    with w(2) [of d b a] w(1) [of a d] w(2) [of a b d] True have "c a d = 0" by linarith
    with True that strict_orderD(2) [OF assms(2), of a b d] show ?thesis by simp
  next
    case False
    with that have "c a b \<le> 0" "c b d \<le> 0" "c a b < 0 \<or> c b d < 0" by (auto split: if_splits)
    from strict [OF this] show ?thesis by simp
  qed
  show ?thesis unfolding strict_order_def using asym trans by blast
qed

lemma mine_before_strict: "strict_order (mine_before L ks os)"
proof (induction ks arbitrary: os)
  case Nil
  show ?case unfolding strict_order_def by (auto split: if_splits)
next
  case (Cons k ks)
  from strict_order_lex [OF step_weak Cons.IH] show ?case
    unfolding mine_before_step Let_def .
qed

lemma mine_before_total:
  "lp_key a \<noteq> lp_key b \<Longrightarrow> mine_before L ks os a b \<or> mine_before L ks os b a"
proof (induction ks arbitrary: os)
  case Nil
  then show ?case by (cases "lp_key a"; cases "lp_key b") auto
next
  case (Cons k ks)
  let ?c = "step L k (os \<noteq> [] \<and> hd os = ''desc'')"
  from step_weak [of L k "os \<noteq> [] \<and> hd os = ''desc''"] have w: "(?c a b < 0) = (?c b a > 0)" "(?c b a < 0) = (?c a b > 0)"
    unfolding weak_comparison_def by blast+
  show ?case
  proof (cases "?c a b = 0")
    case True
    with w have "?c b a = 0" by linarith
    with True Cons.IH [OF Cons.prems] show ?thesis unfolding mine_before_step Let_def by simp
  next
    case False
    with w have "?c a b < 0 \<or> ?c b a < 0" by linarith
    with w False show ?thesis unfolding mine_before_step Let_def by auto
  qed
qed

lemma sortMine_sorted:
  assumes "distinct (map lp_key ps)"
  shows "sorted_wrt (mine_before L (Split (o_Sort x) (CHR '','')) (Split (o_Order x) (CHR '',''))) (sortMinePullRequests L ps x)"
proof -
  have "total_on_set (mine_before L ks os) (set ps)" for ks os
    unfolding total_on_set_def
  proof (intro ballI impI)
    fix a b assume "a \<in> set ps" "b \<in> set ps" "a \<noteq> b"
    with assms have "lp_key a \<noteq> lp_key b" by (metis distinct_map inj_onD)
    then show "mine_before L ks os a b \<or> mine_before L ks os b a" by (rule mine_before_total)
  qed
  moreover from assms have "distinct ps" by (simp add: distinct_map)
  ultimately show ?thesis unfolding sortMinePullRequests_def by (intro SliceStable_sorted mine_before_strict)
qed

lemma set_sortMine [simp]: "set (sortMinePullRequests L ps x) = set ps"
  unfolding sortMinePullRequests_def by (rule mset_eq_setD [OF mset_SliceStable])

lemma sortMine_order_free:
  assumes "distinct (map lp_key ps)" "distinct (map lp_key qs)" "set ps = set qs"
  shows "sortMinePullRequests L ps x = sortMinePullRequests L qs x"
  by (rule sorted_wrt_unique [OF mine_before_strict sortMine_sorted [OF assms(1)] sortMine_sorted [OF assms(2)]])
    (simp add: assms(3))

end
