(* ===== verification/MinePages.thy ===== *)
theory MinePages
  imports Mine
begin

text \<open>
  A client of the Mine view that follows the cursors: the pages it gets, and that together they are the whole
  sorted and filtered list. \<open>K\<close> is the JSON and base64 encoding of cursors.
\<close>

section \<open>Following the cursors\<close>

text \<open>The pages a client gets that sends each cursor back with the same parameters, at most \<open>n\<close> of them.\<close>

fun all_pages ::
  "codec \<Rightarrow> (string \<Rightarrow> string) \<Rightarrow> string \<Rightarrow> int \<Rightarrow> pr_db \<Rightarrow> mine_pull list \<Rightarrow> nat \<Rightarrow> (string \<Rightarrow> string) \<Rightarrow>
   mine_pull list list option" where
  "all_pages K L c u db ps 0 v = None"
| "all_pages K L c u db ps (Suc n) v =
     (case Parse K v of
        Inl _ \<Rightarrow> None
      | Inr x \<Rightarrow>
         (case ListMinePullRequestsPage K L c u x db ps of
            Inl _ \<Rightarrow> None
          | Inr p \<Rightarrow>
              if pp_NextCursor p = [] then Some [pp_PullRequests p]
              else map_option (Cons (pp_PullRequests p)) (all_pages K L c u db ps n (v(''cursor'' := pp_NextCursor p)))))"

definition mine_matched :: "(string \<Rightarrow> string) \<Rightarrow> string \<Rightarrow> int \<Rightarrow> options \<Rightarrow> pr_db \<Rightarrow> mine_pull list \<Rightarrow> mine_pull list" where
  "mine_matched L c u x db ps = sortMinePullRequests L (filter (\<lambda>p. minePullRequestMatches L p x) (mine_of u c db ps)) x"

lemma offset_free [simp]:
  "minePullRequestMatches L p (x\<lparr>o_Offset := i\<rparr>) = minePullRequestMatches L p x"
  "sortMinePullRequests L ps (x\<lparr>o_Offset := i\<rparr>) = sortMinePullRequests L ps x"
  "mine_matched L c u (x\<lparr>o_Offset := i\<rparr>) db ps = mine_matched L c u x db ps"
proof -
  have f: "o_Repository (x\<lparr>o_Offset := i\<rparr>) = o_Repository x" "o_Review (x\<lparr>o_Offset := i\<rparr>) = o_Review x"
    "o_Quality (x\<lparr>o_Offset := i\<rparr>) = o_Quality x" "o_ReviewLoad (x\<lparr>o_Offset := i\<rparr>) = o_ReviewLoad x"
    "o_AnalysisStatus (x\<lparr>o_Offset := i\<rparr>) = o_AnalysisStatus x" "o_WaitingOn (x\<lparr>o_Offset := i\<rparr>) = o_WaitingOn x"
    "o_WaitingMode (x\<lparr>o_Offset := i\<rparr>) = o_WaitingMode x" "o_Query (x\<lparr>o_Offset := i\<rparr>) = o_Query x"
    "o_Sort (x\<lparr>o_Offset := i\<rparr>) = o_Sort x" "o_Order (x\<lparr>o_Offset := i\<rparr>) = o_Order x"
    by simp_all
  show m: "minePullRequestMatches L p (x\<lparr>o_Offset := i\<rparr>) = minePullRequestMatches L p x" for p
    unfolding minePullRequestMatches_def mineWaitingMatches_def f ..
  show s: "sortMinePullRequests L ps (x\<lparr>o_Offset := i\<rparr>) = sortMinePullRequests L ps x" for ps
    unfolding sortMinePullRequests_def f ..
  show "mine_matched L c u (x\<lparr>o_Offset := i\<rparr>) db ps = mine_matched L c u x db ps"
    unfolding mine_matched_def m s ..
qed

text \<open>
  What the encoding of cursors has to satisfy for the options \<open>x\<close> and offsets up to \<open>n\<close>: it decodes, and is
  short enough to be accepted.
\<close>

definition cursors_ok :: "codec \<Rightarrow> options \<Rightarrow> nat \<Rightarrow> bool" where
  "cursors_ok K x n \<longleftrightarrow> list_all (\<lambda>i. case json_marshal K (cursorFromOptions x (int i)) of
       None \<Rightarrow> False
     | Some b \<Rightarrow> json_decode K b = Some (cursorFromOptions x (int i)) \<and> b64_decode K (b64_encode K b) = Some b \<and>
         b64_encode K b \<noteq> [] \<and> length (b64_encode K b) \<le> 2048) [1..<n]"

lemma cursors_okD:
  assumes "cursors_ok K x n" "1 \<le> i" "i < n"
  obtains b where "json_marshal K (cursorFromOptions x (int i)) = Some b"
    "json_decode K b = Some (cursorFromOptions x (int i))" "b64_decode K (b64_encode K b) = Some b"
    "b64_encode K b \<noteq> []" "length (b64_encode K b) \<le> 2048"
proof -
  from assms(2,3) have "i \<in> set [1..<n]" by simp
  with assms(1) have "case json_marshal K (cursorFromOptions x (int i)) of
       None \<Rightarrow> False
     | Some b \<Rightarrow> json_decode K b = Some (cursorFromOptions x (int i)) \<and> b64_decode K (b64_encode K b) = Some b \<and>
         b64_encode K b \<noteq> [] \<and> length (b64_encode K b) \<le> 2048"
    unfolding cursors_ok_def list_all_iff by (rule bspec)
  then show thesis by (cases "json_marshal K (cursorFromOptions x (int i))") (auto intro: that)
qed

lemma page_cases:
  assumes "Parse K v = Inr (x\<lparr>o_Offset := int i\<rparr>)" "cursors_ok K x n" "i \<le> length m" "length m \<le> n" "n \<le> 10000000" "1 \<le> o_Limit x"
  obtains (last_page) "page_of K (x\<lparr>o_Offset := int i\<rparr>) m = Inr (drop i m, [])" "int (length m - i) \<le> o_Limit x"
  | (more) raw where "page_of K (x\<lparr>o_Offset := int i\<rparr>) m = Inr (take (nat (o_Limit x)) (drop i m), raw)" "raw \<noteq> []"
      "Parse K (v(''cursor'' := raw)) = Inr (x\<lparr>o_Offset := int (i + nat (o_Limit x))\<rparr>)" "i + nat (o_Limit x) < length m"
proof (cases "int (length m - i) \<le> o_Limit x")
  case True
  with assms(3) show thesis by (intro last_page) (auto simp: page_of_def Let_def)
next
  case False
  let ?l = "nat (o_Limit x)"
  from False assms(3,6) have l: "i + ?l < length m" "length (take ?l (drop i m)) = ?l" by auto
  with assms(4,6) have "1 \<le> i + ?l" "i + ?l < n" by simp_all
  from cursors_okD [OF assms(2) this] obtain b where b: "json_marshal K (cursorFromOptions x (int (i + ?l))) = Some b"
      "json_decode K b = Some (cursorFromOptions x (int (i + ?l)))" "b64_decode K (b64_encode K b) = Some b"
      "b64_encode K b \<noteq> []" "length (b64_encode K b) \<le> 2048" by blast
  have "NextCursor K (x\<lparr>o_Offset := int i\<rparr>) (int i + int ?l) = Inr (b64_encode K b)"
    using b(1) by (simp add: NextCursor_def)
  with False l have p: "page_of K (x\<lparr>o_Offset := int i\<rparr>) m = Inr (take ?l (drop i m), b64_encode K b)"
    by (simp add: page_of_def Let_def)
  have "Parse K (v(''cursor'' := b64_encode K b)) = Inr ((x\<lparr>o_Offset := int i\<rparr>)\<lparr>o_Offset := int (i + ?l)\<rparr>)"
    by (rule cursor_accepted [OF assms(1)]) (use b l assms(4,5) in auto)
  then have "Parse K (v(''cursor'' := b64_encode K b)) = Inr (x\<lparr>o_Offset := int (i + ?l)\<rparr>)" by simp
  from more [OF p b(4) this l(1)] show thesis .
qed

lemma ListMine_page:
  "ListMinePullRequestsPage K L c u x db ps = bindR (page_of K x (mine_matched L c u x db ps)) (\<lambda>(shown, next).
     Inr \<lparr> pp_PullRequests = shown, pp_Total = int (length (mine_of u c db ps)),
       pp_Matched = int (length (mine_matched L c u x db ps)), pp_NextCursor = next \<rparr>)"
  unfolding ListMinePullRequestsPage_def mine_matched_def Let_def ..

lemma all_pages_step:
  assumes "Parse K v = Inr x" "page_of K x (mine_matched L c u x db ps) = Inr (shown, raw)"
  shows "raw = [] \<Longrightarrow> all_pages K L c u db ps (Suc n) v = Some [shown]"
    "raw \<noteq> [] \<Longrightarrow> all_pages K L c u db ps (Suc n) v =
       map_option (Cons shown) (all_pages K L c u db ps n (v(''cursor'' := raw)))"
  using assms by (simp_all add: ListMine_page del: all_pages.simps(2)) (simp_all add: ListMine_page)

lemma pages_from:
  assumes "cursors_ok K x k" "length m \<le> k" "k \<le> 10000000" "1 \<le> o_Limit x" "m = mine_matched L c u x db ps"
    and "Parse K v = Inr (x\<lparr>o_Offset := int i\<rparr>)" "i \<le> length m" "length m - i \<le> n"
  shows "\<exists>pages. all_pages K L c u db ps (Suc n) v = Some pages \<and> pages \<noteq> [] \<and> concat pages = drop i m \<and>
    (\<forall>p\<in>set pages. int (length p) \<le> o_Limit x) \<and> (\<forall>p\<in>set (butlast pages). int (length p) = o_Limit x)"
  using assms(6-8)
proof (induction n arbitrary: v i rule: less_induct)
  case (less n v i)
  let ?y = "x\<lparr>o_Offset := int i\<rparr>" and ?l = "nat (o_Limit x)"
  have my: "mine_matched L c u ?y db ps = m" unfolding offset_free using assms(5) by simp
  show ?case
  proof (rule page_cases [OF less.prems(1) assms(1) less.prems(2) assms(2-4)])
    assume p: "page_of K ?y m = Inr (drop i m, [])" "int (length m - i) \<le> o_Limit x"
    have "all_pages K L c u db ps (Suc n) v = Some [drop i m]"
      by (rule all_pages_step(1) [OF less.prems(1) _ refl]) (simp only: my p(1))
    with p(2) show ?thesis by simp
  next
    fix raw assume p: "page_of K ?y m = Inr (take ?l (drop i m), raw)" "raw \<noteq> []"
      and v: "Parse K (v(''cursor'' := raw)) = Inr (x\<lparr>o_Offset := int (i + ?l)\<rparr>)" and l: "i + ?l < length m"
    from l assms(4) less.prems(3) obtain n' where n: "n = Suc n'" "i + ?l \<le> length m" "length m - (i + ?l) \<le> n'"
      by (cases n) auto
    from less.IH [OF _ v n(2,3)] n(1) obtain pages where q:
      "all_pages K L c u db ps n (v(''cursor'' := raw)) = Some pages" "pages \<noteq> []" "concat pages = drop (i + ?l) m"
      "\<forall>p\<in>set pages. int (length p) \<le> o_Limit x" "\<forall>p\<in>set (butlast pages). int (length p) = o_Limit x" by blast
    have a: "all_pages K L c u db ps (Suc n) v = Some (take ?l (drop i m) # pages)"
      by (subst all_pages_step(2) [OF less.prems(1) _ p(2)]) (simp_all only: my p(1) q(1) option.map)
    have t: "int (length (take ?l (drop i m))) = o_Limit x" using l assms(4) by simp
    have "concat (take ?l (drop i m) # pages) = drop i m"
      using q(3) append_take_drop_id [of ?l "drop i m"] by (simp add: add.commute)
    with a q(2,4,5) t show ?thesis by simp
  qed
qed

lemma Attach_map: "AttachImportantPullRequests u c db ps =
  map (\<lambda>p. if list_ex (\<lambda>r. ps_user r = u \<and> ps_member r = (c, lp_key p)) (d_important db)
       then p\<lparr>lp_important := True\<rparr> else p) ps"
  by (simp add: AttachImportantPullRequests_def)

lemma mine_of_distinct: "distinct (map lp_key ps) \<Longrightarrow> distinct (map lp_key (mine_of u c db ps))"
  unfolding mine_of_def by (rule distinct_map_filter) (simp add: Attach_map comp_def if_distrib cong: if_cong)

lemma mine_matched_mset [simp]:
  "mset (mine_matched L c u x db ps) = mset (filter (\<lambda>p. minePullRequestMatches L p x) (mine_of u c db ps))"
  by (simp add: mine_matched_def sortMinePullRequests_def)

lemma mine_matched_length: "length (mine_matched L c u x db ps) \<le> length ps"
proof -
  have "length (mine_matched L c u x db ps) = length (filter (\<lambda>p. minePullRequestMatches L p x) (mine_of u c db ps))"
    by (rule mset_eq_length [OF mine_matched_mset])
  also have "\<dots> \<le> length (mine_of u c db ps)" by (rule length_filter_le)
  also have "\<dots> \<le> length ps" unfolding mine_of_def Attach_map by (rule order.trans [OF length_filter_le]) simp
  finally show ?thesis .
qed

lemma mine_matched_sorted:
  "distinct (map lp_key ps) \<Longrightarrow>
   sorted_wrt (mine_before L (Split (o_Sort x) (CHR '','')) (Split (o_Order x) (CHR '',''))) (mine_matched L c u x db ps)"
  unfolding mine_matched_def by (intro sortMine_sorted distinct_map_filter mine_of_distinct)

section \<open>Properties\<close>


text \<open>
  The Mine view does not depend on the order in which the database returns the pull requests: the same rows in
  another order give the same page, the same counts and the same cursor.
\<close>

theorem mine_order_independent:
  assumes "distinct (map lp_key ps)" "distinct (map lp_key qs)" "set ps = set qs"
  shows "ListMinePullRequestsPage K L c u x db ps = ListMinePullRequestsPage K L c u x db qs"
proof -
  have m: "set (mine_of u c db ps) = set (mine_of u c db qs)" by (simp add: mine_of_def Attach_map assms(3))
  from assms have d: "distinct (map lp_key (mine_of u c db ps))" "distinct (map lp_key (mine_of u c db qs))"
    by (simp_all add: mine_of_distinct)
  then have "length (mine_of u c db ps) = length (mine_of u c db qs)"
    using m by (metis distinct_card distinct_map)
  moreover have "mine_matched L c u x db ps = mine_matched L c u x db qs"
    unfolding mine_matched_def by (rule sortMine_order_free) (use d m in \<open>simp_all add: distinct_map_filter\<close>)
  ultimately show ?thesis unfolding ListMine_page by simp
qed

text \<open>Two pull requests of the user in pages of one.\<close>

definition mine_values :: "string \<Rightarrow> string" where
  "mine_values = (\<lambda>_. [])(''sort'' := ''number'', ''order'' := ''desc'', ''limit'' := ''1'')"

definition mine_options :: options where
  "mine_options = \<lparr> o_View = [], o_Query = [], o_Repository = [], o_Review = [], o_Quality = [], o_ReviewLoad = [],
     o_AnalysisStatus = [], o_WaitingOn = [], o_WaitingMode = [], o_Sort = ''number'', o_Order = ''desc'',
     o_Limit = 1, o_Offset = 0 \<rparr>"

definition mine_codec :: codec where
  "mine_codec = \<lparr> json_marshal = (\<lambda>c. Some ''x''), json_decode = (\<lambda>b. Some (cursorFromOptions mine_options 1)),
     b64_encode = (\<lambda>b. b), b64_decode = Some \<rparr>"

definition sample_mine :: "int \<Rightarrow> mine_pull" where
  "sample_mine n = \<lparr> lp_key = (''o/r'', n), lp_important = False, lp_hidden = None, mp_Title = ''t'', mp_Author = ''a'',
     mp_AuthorID = 7, mp_Additions = 1, mp_Deletions = 1, mp_UpdatedAt = 1, mp_ReviewState = ''none'',
     mp_QualityLevel = [], mp_Load = None, mp_AnalysisStatus = ''pending'', mp_WaitingOn = [] \<rparr>"

lemma mine_parse: "Parse mine_codec mine_values = Inr mine_options"
  by code_simp

lemma mine_sample_of: "mset (filter (\<lambda>p. minePullRequestMatches (\<lambda>s. s) p mine_options)
    (mine_of 7 ''c'' db [sample_mine 3, sample_mine 9])) = {#sample_mine 3, sample_mine 9#}"
  if "d_important db = []"
  by (simp add: mine_of_def AttachImportantPullRequests_def that sample_mine_def minePullRequestMatches_def mine_options_def)


theorem mine_order_independent_witness:
  "ListMinePullRequestsPage mine_codec (\<lambda>s. s) ''c'' 7 mine_options sample_pr_db [sample_mine 3, sample_mine 9] =
   ListMinePullRequestsPage mine_codec (\<lambda>s. s) ''c'' 7 mine_options sample_pr_db [sample_mine 9, sample_mine 3]"
  by (rule mine_order_independent) (auto simp: sample_mine_def)

end
