(* ===== verification/Sync.thy ===== *)
theory Sync
  imports Sessions CorrelationStore Contribution Setup
begin

text \<open>
  The configured collections in the store, and its retention: \<open>SyncCollectionsAt\<close> with
  \<open>recomputeCollectionQuality\<close> of \<open>internal/storage/store.go\<close>, which makes the persisted configuration match
  a validated one, and \<open>RunRetention\<close> of \<open>internal/storage/operations.go\<close>. The database is the one of the
  correlation store with the remaining columns of \<open>collections\<close> and \<open>collection_repositories\<close>, the route
  diagnostics and the login tables. Cascades of foreign keys are part of each delete. \<open>U\<close> is upper-casing,
  \<open>fd\<close> is Unicode case folding, \<open>wall\<close> the wall clock that \<open>recomputeCollectionQuality\<close> reads.
\<close>

section \<open>State\<close>

record detail_row =
  cd_id :: string
  cd_name :: string
  cd_description :: string
  cd_contribution :: contribution_policy
  cd_removed_at :: "string option"

record service_db =
  sv_corr :: correlation_db
  sv_details :: "detail_row list"
  sv_discovery :: "((string \<times> string) \<times> repository_discovery) list"
  sv_operations :: "operation_row list"
  sv_attempts :: "attempt_row list"
  sv_flows :: "flow_row list"
  sv_sessions :: "session_row list"

datatype service_error =
  DuplicateCollection string | DuplicateRepository string string | QualityError pr_error

abbreviation sv_refresh :: "service_db \<Rightarrow> refresh_db" where "sv_refresh db \<equiv> k_refresh (sv_corr db)"
abbreviation sv_pr :: "service_db \<Rightarrow> pr_db" where "sv_pr db \<equiv> rf_pr (k_refresh (sv_corr db))"

definition on_corr :: "(correlation_db \<Rightarrow> correlation_db) \<Rightarrow> service_db \<Rightarrow> service_db" where
  "on_corr f db = db\<lparr>sv_corr := f (sv_corr db)\<rparr>"

definition on_refresh :: "(refresh_db \<Rightarrow> refresh_db) \<Rightarrow> service_db \<Rightarrow> service_db" where
  "on_refresh f = on_corr (\<lambda>k. k\<lparr>k_refresh := f (k_refresh k)\<rparr>)"

definition on_pr :: "(pr_db \<Rightarrow> pr_db) \<Rightarrow> service_db \<Rightarrow> service_db" where
  "on_pr f = on_refresh (\<lambda>r. r\<lparr>rf_pr := f (rf_pr r)\<rparr>)"

lemma on_simps [simp]:
  "sv_corr (on_corr f db) = f (sv_corr db)" "sv_corr (on_refresh g db) = (sv_corr db)\<lparr>k_refresh := g (sv_refresh db)\<rparr>"
  "sv_corr (on_pr h db) = (sv_corr db)\<lparr>k_refresh := (sv_refresh db)\<lparr>rf_pr := h (sv_pr db)\<rparr>\<rparr>"
  "sv_details (on_corr f db) = sv_details db" "sv_details (on_refresh g db) = sv_details db" "sv_details (on_pr h db) = sv_details db"
  "sv_discovery (on_corr f db) = sv_discovery db" "sv_discovery (on_refresh g db) = sv_discovery db"
  "sv_discovery (on_pr h db) = sv_discovery db"
  "sv_operations (on_corr f db) = sv_operations db" "sv_operations (on_refresh g db) = sv_operations db"
  "sv_operations (on_pr h db) = sv_operations db"
  "sv_attempts (on_corr f db) = sv_attempts db" "sv_attempts (on_refresh g db) = sv_attempts db" "sv_attempts (on_pr h db) = sv_attempts db"
  "sv_flows (on_corr f db) = sv_flows db" "sv_flows (on_refresh g db) = sv_flows db" "sv_flows (on_pr h db) = sv_flows db"
  "sv_sessions (on_corr f db) = sv_sessions db" "sv_sessions (on_refresh g db) = sv_sessions db" "sv_sessions (on_pr h db) = sv_sessions db"
  by (simp_all add: on_corr_def on_refresh_def on_pr_def)

section \<open>Reassessing a collection\<close>

text \<open>The pull request that the query reads: the other fields keep Go's zero values.\<close>

definition reassessed_pull :: "pr_db \<Rightarrow> pull_row \<Rightarrow> pull_request" where
  "reassessed_pull db r =
     \<lparr> pr_Repository = pu_repository r, pr_Number = pu_number r, pr_HeadSHA = [], pr_Title = pu_title r, pr_Author = [],
       pr_AuthorID = 0, pr_Additions = pu_additions r, pr_Deletions = pu_deletions r, pr_ChangedFiles = pu_changed_files r,
       pr_CreatedAt = 0, pr_UpdatedAt = 0, pr_URL = pu_url r, pr_ReviewState = [],
       pr_Readiness = \<lparr> rd_RequestedReviewers = [], rd_RequestedTeams = [], rd_Mergeable = None, rd_MergeableState = [],
         rd_ChecksTotal = 0, rd_Runs = [], rd_CollectedAt = 0 \<rparr>,
       pr_Body = pu_body r, pr_CollectionIDs = [], pr_Context = None,
       pr_Files = sort_key f_Path (map snd (filter (\<lambda>x. fst x = pull_key r) (d_files db))),
       pr_AuthorHistory = None, pr_FingerprintVersion = [], pr_Fingerprint = [], pr_CachePayload = [] \<rparr>"

definition collection_pulls :: "string \<Rightarrow> pr_db \<Rightarrow> pull_row list" where
  "collection_pulls collection db = filter (\<lambda>r. (collection, pull_key r) \<in> set (d_members db)) (d_pulls db)"

definition recomputeCollectionQuality ::
  "(string \<Rightarrow> string) \<Rightarrow> time \<Rightarrow> string \<Rightarrow> policy \<Rightarrow> pr_db \<Rightarrow> pr_error + pr_db" where
  "recomputeCollectionQuality U wall collection pol db =
     foldR (\<lambda>r d. writeQualityAssessment U collection (reassessed_pull d r) pol wall d) (collection_pulls collection db) db"

section \<open>One configured collection\<close>

definition contributionRefreshInterval :: int where
  "contributionRefreshInterval = 7 * 24 * hour div second"

definition discoveryFor :: "(string \<Rightarrow> string \<Rightarrow> bool) \<Rightarrow> collection \<Rightarrow> string \<Rightarrow> repository_discovery" where
  "discoveryFor fd c repository =
     (case find (\<lambda>(identity, d). EqualFold fd identity repository) (cl_Discovery c) of
        Some (i, d) \<Rightarrow> d | None \<Rightarrow> \<lparr> d_Mode = ''all_open'', d_Query = [] \<rparr>)"

definition upsert_collection :: "collection \<Rightarrow> service_db \<Rightarrow> service_db" where
  "upsert_collection c db =
     (let db1 = on_pr (\<lambda>p. p\<lparr>d_collections := upsert c_id (\<lambda>old new. new)
            \<lparr> c_id = cl_ID c, c_active = True, c_quality_policy = Some (PolicyFromConfig (cl_Quality c)),
              c_model_provider = cl_ModelProvider c, c_contribution_refresh_seconds = contributionRefreshInterval \<rparr>
            (d_collections p)\<rparr>) db;
          db2 = on_corr (\<lambda>k. k\<lparr>k_settings := upsert fst (\<lambda>old new. new)
            (cl_ID c, cl_FeatureCorrelation c \<noteq> None, cl_ModelFallbackProvider c) (k_settings k)\<rparr>) db1
      in db2\<lparr>sv_details := upsert cd_id (\<lambda>old new. new)
            \<lparr> cd_id = cl_ID c, cd_name = cl_Name c, cd_description = cl_Description c,
              cd_contribution = ContributionPolicyFromConfig (cl_Contribution c), cd_removed_at = None \<rparr>
            (sv_details db2)\<rparr>)"

definition previous_policy :: "service_db \<Rightarrow> string \<Rightarrow> policy option" where
  "previous_policy db i = (case find (\<lambda>r. c_id r = i) (d_collections (sv_pr db)) of None \<Rightarrow> None | Some r \<Rightarrow> c_quality_policy r)"

definition sync_policy :: "(string \<Rightarrow> string) \<Rightarrow> time \<Rightarrow> collection \<Rightarrow> service_db \<Rightarrow> service_error + service_db" where
  "sync_policy U wall c db =
     (let pol = PolicyFromConfig (cl_Quality c); db1 = upsert_collection c db in
      if previous_policy db (cl_ID c) = Some pol then Inr db1
      else case recomputeCollectionQuality U wall (cl_ID c) pol (sv_pr db1) of
             Inl e \<Rightarrow> Inl (QualityError e) | Inr p \<Rightarrow> Inr (on_pr (\<lambda>_. p) db1))"

text \<open>A repository row that has never been refreshed.\<close>

definition never_refreshed :: "string \<Rightarrow> repository_row" where
  "never_refreshed repository =
     \<lparr> rr_repository = repository, rr_state = ''never'', rr_last_attempt_at = None, rr_last_success_at = None,
       rr_error = [], rr_last_full_reconciliation_at = None, rr_last_reused = 0, rr_last_hydrated = 0,
       rr_last_forced = False \<rparr>"

definition sync_repository ::
  "(string \<Rightarrow> string \<Rightarrow> bool) \<Rightarrow> collection \<Rightarrow> string \<Rightarrow> service_db \<Rightarrow> service_db" where
  "sync_repository fd c repository db =
     on_pr (\<lambda>p. p\<lparr> d_repositories := insert_ignore id (cl_ID c, repository) (d_repositories p),
         d_refreshes := insert_ignore rr_repository (never_refreshed repository) (d_refreshes p) \<rparr>)
       (db\<lparr>sv_discovery := upsert fst (\<lambda>old new. new) ((cl_ID c, repository), discoveryFor fd c repository) (sv_discovery db)\<rparr>)"

fun sync_repositories ::
  "(string \<Rightarrow> string \<Rightarrow> bool) \<Rightarrow> collection \<Rightarrow> string list \<Rightarrow> string list \<Rightarrow> service_db \<Rightarrow> service_error + service_db" where
  "sync_repositories fd c seen [] db = Inr db"
| "sync_repositories fd c seen (r # rs) db =
     failIf (r \<in> set seen) (DuplicateRepository (cl_ID c) r) (sync_repositories fd c (r # seen) rs (sync_repository fd c r db))"

definition drop_repositories :: "collection \<Rightarrow> service_db \<Rightarrow> service_db" where
  "drop_repositories c db =
     (let gone = (\<lambda>x. fst x = cl_ID c \<and> snd x \<notin> set (cl_Repositories c));
          db1 = on_pr (\<lambda>p. (delete_members (\<lambda>m. gone (fst m, fst (snd m)) \<and> (fst m, fst (snd m)) \<in> set (d_repositories p)) p)
            \<lparr> d_repositories := delete_where gone (d_repositories p) \<rparr>) db
      in db1\<lparr>sv_discovery := delete_where (\<lambda>x. gone (fst x)) (sv_discovery db1)\<rparr>)"

text \<open>Analysis is queued for members without a head or with settled diff evidence of the current head.\<close>

definition ready_pull :: "pr_db \<Rightarrow> pull_row \<Rightarrow> bool" where
  "ready_pull db r \<longleftrightarrow> pu_head_sha r = [] \<or>
     list_ex (\<lambda>e. de_repository e = pu_repository r \<and> de_number e = pu_number r \<and> de_head_sha e = pu_head_sha r \<and>
       de_completeness e \<in> {''complete'', ''partial''}) (d_evidence db)"

definition enqueue_collection :: "string \<Rightarrow> time \<Rightarrow> pr_db \<Rightarrow> pr_db" where
  "enqueue_collection collection now db =
     db\<lparr>d_analysis := foldl (\<lambda>q r. snd (enqueue_job analysis_key
        \<lparr> ap_member = (collection, pull_key r), ap_head_sha = pu_head_sha r, ap_forced = False \<rparr> now q))
        (d_analysis db) (filter (ready_pull db) (collection_pulls collection db))\<rparr>"

definition sync_analysis :: "collection \<Rightarrow> time \<Rightarrow> pr_db \<Rightarrow> pr_db" where
  "sync_analysis c now db =
     (if cl_ModelProvider c \<noteq> [] then enqueue_collection (cl_ID c) now db
      else db\<lparr>d_analysis := finish_where (\<lambda>j. fst (ap_member (j_payload j)) = cl_ID c \<and> j_status j = Queued) now (d_analysis db)\<rparr>)"

definition never_correlated :: "string \<Rightarrow> corr_state_row" where
  "never_correlated i =
     \<lparr> kt_collection = i, kt_status = ''never'', kt_last_attempt_at = None, kt_last_success_at = None, kt_error = [],
       kt_provider = [], kt_model = [], kt_input_revision = [], kt_schema_version = [], kt_prompt_version = [], kt_payload_id = [] \<rparr>"

definition delete_groups :: "(string \<Rightarrow> bool) \<Rightarrow> correlation_db \<Rightarrow> correlation_db" where
  "delete_groups p k =
     k\<lparr> k_groups := delete_where (\<lambda>g. p (gw_collection g)) (k_groups k),
        k_members := delete_where (\<lambda>m. p (gm_collection m)) (k_members k) \<rparr>"

definition sync_correlation :: "collection \<Rightarrow> time \<Rightarrow> correlation_db \<Rightarrow> correlation_db" where
  "sync_correlation c now k =
     (if cl_FeatureCorrelation c \<noteq> None then k\<lparr>k_states := insert_ignore kt_collection (never_correlated (cl_ID c)) (k_states k)\<rparr>
      else delete_groups (\<lambda>i. i = cl_ID c)
        (k\<lparr>k_jobs := finish_where (\<lambda>j. cl_collection (j_payload j) = cl_ID c \<and> j_status j = Queued) now (k_jobs k)\<rparr>))"

definition sync_collection ::
  "(string \<Rightarrow> string) \<Rightarrow> (string \<Rightarrow> string \<Rightarrow> bool) \<Rightarrow> time \<Rightarrow> time \<Rightarrow> collection \<Rightarrow> service_db \<Rightarrow> service_error + service_db" where
  "sync_collection U fd now wall c db =
     bindR (sync_policy U wall c db) (\<lambda>db1.
     bindR (sync_repositories fd c [] (cl_Repositories c) db1) (\<lambda>db2.
       Inr (on_corr (sync_correlation c now) (on_pr (sync_analysis c now) (drop_repositories c db2)))))"

fun sync_all ::
  "(string \<Rightarrow> string) \<Rightarrow> (string \<Rightarrow> string \<Rightarrow> bool) \<Rightarrow> time \<Rightarrow> time \<Rightarrow> string list \<Rightarrow> collection list \<Rightarrow> service_db \<Rightarrow>
   service_error + service_db" where
  "sync_all U fd now wall seen [] db = Inr db"
| "sync_all U fd now wall seen (c # cs) db =
     failIf (cl_ID c \<in> set seen) (DuplicateCollection (cl_ID c))
       (bindR (sync_collection U fd now wall c db) (sync_all U fd now wall (cl_ID c # seen) cs))"

section \<open>What is no longer configured\<close>

definition retain_removed :: "string list \<Rightarrow> time \<Rightarrow> service_db \<Rightarrow> service_db" where
  "retain_removed ids now db =
     (let removed = (\<lambda>i. i \<notin> set ids \<and> list_ex (\<lambda>c. c_id c = i \<and> c_active c) (d_collections (sv_pr db)));
          db1 = db\<lparr>sv_details := update_where (\<lambda>r. removed (cd_id r)) (\<lambda>r. r\<lparr>cd_removed_at := Some (formatTime now)\<rparr>) (sv_details db)\<rparr>
      in on_pr (\<lambda>p. p\<lparr>d_collections := update_where (\<lambda>c. removed (c_id c)) (\<lambda>c. c\<lparr>c_active := False\<rparr>) (d_collections p)\<rparr>) db1)"

definition inactive :: "pr_db \<Rightarrow> string \<Rightarrow> bool" where
  "inactive db i \<longleftrightarrow> list_ex (\<lambda>c. c_id c = i \<and> \<not> c_active c) (d_collections db)"

definition cancel_inactive :: "time \<Rightarrow> service_db \<Rightarrow> service_db" where
  "cancel_inactive now db =
     on_corr (\<lambda>k. k\<lparr>k_jobs := finish_where (\<lambda>j. j_status j = Queued \<and> inactive (sv_pr db) (cl_collection (j_payload j))) now (k_jobs k)\<rparr>)
       (on_pr (\<lambda>p. p\<lparr>d_analysis := finish_where (\<lambda>j. j_status j = Queued \<and> inactive p (fst (ap_member (j_payload j)))) now
          (d_analysis p)\<rparr>) db)"

text \<open>Deleting a row of \<open>repository_refreshes\<close> deletes its route diagnostics, context limits and progress checkpoint.\<close>

definition delete_refreshes :: "service_db \<Rightarrow> service_db" where
  "delete_refreshes db =
     (let gone = (\<lambda>r. \<not> configured_repository (sv_pr db) r \<and> r \<in> rr_repository ` set (d_refreshes (sv_pr db)));
          db1 = db\<lparr> sv_operations := delete_where (\<lambda>x. gone (ro_repository x)) (sv_operations db),
            sv_attempts := delete_where (\<lambda>x. gone (rw_repository x)) (sv_attempts db) \<rparr>;
          db2 = on_pr (\<lambda>p. p\<lparr> d_refreshes := delete_where (\<lambda>x. gone (rr_repository x)) (d_refreshes p),
            d_limits := delete_where (\<lambda>x. gone (fst x)) (d_limits p) \<rparr>) db1
      in on_refresh (\<lambda>r. r\<lparr>rf_progress := (rf_progress r)\<lparr>pg_collected := delete_where (\<lambda>x. gone (fst x)) (pg_collected (rf_progress r))\<rparr>\<rparr>) db2)"

definition delete_personal :: "pr_db \<Rightarrow> pr_db" where
  "delete_personal p =
     p\<lparr> d_important := delete_where (\<lambda>r. ps_member r \<notin> set (d_members p)) (d_important p),
        d_hidden := delete_where (\<lambda>r. ps_member r \<notin> set (d_members p)) (d_hidden p) \<rparr>"

definition cleanup :: "string list \<Rightarrow> time \<Rightarrow> service_db \<Rightarrow> service_db" where
  "cleanup ids now db =
     on_pr delete_personal (delete_refreshes (on_refresh (cancel_unconfigured now) (cancel_inactive now (retain_removed ids now db))))"

definition SyncCollectionsAt ::
  "(string \<Rightarrow> string) \<Rightarrow> (string \<Rightarrow> string \<Rightarrow> bool) \<Rightarrow> time \<Rightarrow> time \<Rightarrow> collection list \<Rightarrow> service_db \<Rightarrow>
   service_error + service_db" where
  "SyncCollectionsAt U fd now wall cs db =
     bindR (sync_all U fd now wall [] cs db) (\<lambda>db1. Inr (cleanup (map cl_ID cs) now db1))"

section \<open>Retention\<close>

text \<open>\<open>time.Time.AddDate\<close> for months: the day of the month is kept and days beyond the end of the month run over.\<close>

definition AddMonths :: "int \<Rightarrow> time \<Rightarrow> time" where
  "AddMonths k t =
     (let d = t div day; y = year_of d; (m, dom) = month_day y (d - days_before_year y);
          total = 12 * y + (m - 1) + k; y' = total div 12; m' = total mod 12
      in (days_before_year y' + sum_list (take (nat m') (month_lengths y')) + (dom - 1)) * day + t mod day)"

definition removedCollectionRetention :: int where
  "removedCollectionRetention = 7 * 24 * hour"

record retention_result =
  rn_AnalysisJobs :: nat
  rn_CorrelationJobs :: nat
  rn_RefreshGenerations :: nat
  rn_AnalysisResults :: nat
  rn_ModelPayloads :: nat
  rn_Progress :: nat
  rn_Collections :: nat
  rn_Sessions :: nat

definition finished_before :: "string \<Rightarrow> 'p job_row \<Rightarrow> bool" where
  "finished_before cutoff j \<longleftrightarrow> j_status j = Completed \<and> (case j_finished_at j of None \<Rightarrow> False | Some t \<Rightarrow> t < cutoff)"

definition delete_jobs :: "('p job_row \<Rightarrow> bool) \<Rightarrow> 'p queue \<Rightarrow> 'p queue" where
  "delete_jobs p q = q\<lparr>q_jobs := delete_where p (q_jobs q)\<rparr>"

definition delete_generations :: "(generation_row \<Rightarrow> bool) \<Rightarrow> refresh_db \<Rightarrow> refresh_db" where
  "delete_generations p r =
     r\<lparr> rf_gens := delete_where p (rf_gens r),
        rf_items := delete_where (\<lambda>i. \<exists>g\<in>set (rf_gens r). p g \<and> g_id g = it_generation i) (rf_items r) \<rparr>"

definition old_generation :: "string \<Rightarrow> refresh_db \<Rightarrow> generation_row \<Rightarrow> bool" where
  "old_generation cutoff r g \<longleftrightarrow> list_ex (\<lambda>j. j_id j = g_job g \<and> finished_before cutoff j) (q_jobs (rf_jobs r))"

text \<open>The seven deletions of the loop; \<open>cutoff\<close> is three months ago.\<close>

definition expire_rows :: "string \<Rightarrow> string \<Rightarrow> service_db \<Rightarrow> service_db" where
  "expire_rows cutoff at db =
     (let db1 = on_pr (\<lambda>p. p\<lparr> d_analysis := delete_jobs (finished_before cutoff) (d_analysis p),
            d_retained := delete_where (\<lambda>r. rs_closed_at r < cutoff) (d_retained p) \<rparr>) db;
          db2 = on_refresh (\<lambda>r. (delete_generations (old_generation cutoff r) r)
            \<lparr> rf_progress := (rf_progress r)\<lparr>pg_events := delete_where (\<lambda>e. er_occurred_at e < cutoff) (pg_events (rf_progress r))\<rparr> \<rparr>) db1;
          db3 = on_corr (\<lambda>k. k\<lparr> k_jobs := delete_jobs (finished_before cutoff) (k_jobs k),
            k_payloads := delete_where (\<lambda>p. py_created_at p < cutoff) (k_payloads k) \<rparr>) db2
      in db3\<lparr>sv_sessions := delete_where (\<lambda>s. se_expires_at s \<le> at) (sv_sessions db3)\<rparr>)"

definition removal :: "service_db \<Rightarrow> string \<Rightarrow> string option" where
  "removal db i = (case find (\<lambda>r. cd_id r = i) (sv_details db) of None \<Rightarrow> None | Some r \<Rightarrow> cd_removed_at r)"

definition expired_collection :: "string \<Rightarrow> service_db \<Rightarrow> string \<Rightarrow> bool" where
  "expired_collection cutoff db i \<longleftrightarrow> inactive (sv_pr db) i \<and> (case removal db i of None \<Rightarrow> False | Some t \<Rightarrow> t \<le> cutoff)"

definition retain_analyses :: "(string \<Rightarrow> bool) \<Rightarrow> service_db \<Rightarrow> service_db" where
  "retain_analyses expired db =
     on_pr (\<lambda>p. p\<lparr>d_retained := foldl (\<lambda>t r. upsert rs_member (\<lambda>old new. new)
        (result_row.extend (result_row.truncate r)
           \<lparr>rs_closed_at = (case removal db (fst (rs_member r)) of None \<Rightarrow> [] | Some x \<Rightarrow> x)\<rparr>) t) (d_retained p)
        (filter (\<lambda>r. expired (fst (rs_member r))) (d_results p))\<rparr>) db"

text \<open>Deleting collections, with every table that references them.\<close>

definition delete_collections :: "(string \<Rightarrow> bool) \<Rightarrow> service_db \<Rightarrow> service_db" where
  "delete_collections gone db =
     (let db1 = on_pr (\<lambda>p. (delete_members (\<lambda>m. gone (fst m)) p)\<lparr>
            d_collections := delete_where (\<lambda>c. gone (c_id c)) (d_collections p),
            d_repositories := delete_where (\<lambda>x. gone (fst x)) (d_repositories p),
            d_important := delete_where (\<lambda>r. gone (fst (ps_member r))) (d_important p),
            d_hidden := delete_where (\<lambda>r. gone (fst (ps_member r))) (d_hidden p) \<rparr>) db;
          db2 = on_refresh (\<lambda>r. r\<lparr>rf_progress := (rf_progress r)\<lparr>
            pg_goals := delete_where (\<lambda>g. gone (go_collection g)) (pg_goals (rf_progress r)),
            pg_events := delete_where (\<lambda>e. gone (er_collection e)) (pg_events (rf_progress r)),
            pg_threads := delete_where (\<lambda>t. gone (tw_collection t)) (pg_threads (rf_progress r)) \<rparr>\<rparr>) db1;
          db3 = on_corr (\<lambda>k. (delete_groups gone k)\<lparr>
            k_settings := delete_where (\<lambda>x. gone (fst x)) (k_settings k),
            k_jobs := delete_jobs (\<lambda>j. gone (cl_collection (j_payload j))) (k_jobs k),
            k_states := delete_where (\<lambda>s. gone (kt_collection s)) (k_states k) \<rparr>) db2
      in db3\<lparr> sv_details := delete_where (\<lambda>d. gone (cd_id d)) (sv_details db3),
              sv_discovery := delete_where (\<lambda>x. gone (fst (fst x))) (sv_discovery db3) \<rparr>)"

definition RunRetention :: "time \<Rightarrow> service_db \<Rightarrow> retention_result \<times> service_db" where
  "RunRetention now db =
     (let cutoff = formatTime (AddMonths (-3) now); at = formatTime now;
          db1 = expire_rows cutoff at db;
          gone = expired_collection (formatTime (now - removedCollectionRetention)) db1;
          db2 = delete_collections gone (retain_analyses gone db1)
      in (\<lparr> rn_AnalysisJobs = count_where (finished_before cutoff) (q_jobs (d_analysis (sv_pr db))),
            rn_CorrelationJobs = count_where (finished_before cutoff) (q_jobs (k_jobs (sv_corr db))),
            rn_RefreshGenerations = count_where (old_generation cutoff (sv_refresh db)) (rf_gens (sv_refresh db)),
            rn_AnalysisResults = count_where (\<lambda>r. rs_closed_at r < cutoff) (d_retained (sv_pr db)),
            rn_ModelPayloads = count_where (\<lambda>p. py_created_at p < cutoff) (k_payloads (sv_corr db)),
            rn_Progress = count_where (\<lambda>e. er_occurred_at e < cutoff) (pg_events (rf_progress (sv_refresh db))),
            rn_Collections = count_where (\<lambda>c. gone (c_id c)) (d_collections (sv_pr db1)),
            rn_Sessions = count_where (\<lambda>s. se_expires_at s \<le> at) (sv_sessions db) \<rparr>,
          db2\<lparr>sv_flows := delete_where (\<lambda>f. fw_expires_at f \<le> at) (sv_flows db2)\<rparr>))"

end
