(* ===== verification/SyncFacts.thy ===== *)
theory SyncFacts
  imports Sync SnapshotFacts
begin

text \<open>
  What applying a configuration does to the store: each configured collection gets exactly its repositories
  and changes nothing of another collection, and everything a collection owns is a \<open>kept_data\<close> that is untouched
  while the collection is not configured.
\<close>

section \<open>Tables\<close>

lemma filter_upsert_key:
  assumes "\<not> Q r" "\<And>x. k x = k r \<Longrightarrow> \<not> Q x" "\<And>x. k x = k r \<Longrightarrow> \<not> Q (m x r)"
  shows "filter Q (upsert k m r t) = filter Q t"
proof -
  have "filter Q (update_where (\<lambda>x. k x = k r) (\<lambda>x. m x r) t) = filter Q t"
    using assms(2,3) by (induction t) (auto simp: update_where_def)
  with assms(1) show ?thesis by (simp add: upsert_def)
qed

lemma find_key_upsert_other:
  assumes "k r \<noteq> i" "\<And>x. k x = k r \<Longrightarrow> k (m x r) = k r"
  shows "find (\<lambda>x. k x = i) (upsert k m r t) = find (\<lambda>x. k x = i) t"
proof -
  have "find (\<lambda>x. k x = i) (update_where (\<lambda>x. k x = k r) (\<lambda>x. m x r) t) = find (\<lambda>x. k x = i) t"
    using assms by (induction t) (auto simp: update_where_def)
  moreover have "find (\<lambda>x. k x = i) (t @ [r]) = find (\<lambda>x. k x = i) t"
    using assms(1) by (induction t) auto
  ultimately show ?thesis by (simp add: upsert_def)
qed

lemma find_key_upsert_same: "find (\<lambda>x. k x = k r) (upsert k (\<lambda>old new. new) r t) = Some r"
proof (cases "list_ex (\<lambda>x. k x = k r) t")
  case True
  then have "find (\<lambda>x. k x = k r) (update_where (\<lambda>x. k x = k r) (\<lambda>x. r) t) = Some r"
    by (induction t) (auto simp: update_where_def)
  with True show ?thesis by (simp add: upsert_def)
next
  case False
  then have "find (\<lambda>x. k x = k r) (t @ [r]) = Some r" by (induction t) auto
  with False show ?thesis by (simp add: upsert_def)
qed

lemma set_upsert_fresh:
  "set (upsert k (\<lambda>old new. new) r t) = insert r {x \<in> set t. k x \<noteq> k r}"
  by (auto simp: upsert_def set_update_where list_ex_iff)

lemma set_insert_ignore_id: "set (insert_ignore id r t) = insert r (set t)"
  by (auto simp: insert_ignore_def list_ex_iff)

lemma filter_insert_ignore_other: "\<not> Q r \<Longrightarrow> filter Q (insert_ignore k r t) = filter Q t"
  by (simp add: insert_ignore_def)

lemma keys_insert_ignore: "k ` set (insert_ignore k r t) = insert (k r) (k ` set t)"
proof (cases "list_ex (\<lambda>x. k x = k r) t")
  case True
  then have "k r \<in> k ` set t" by (auto simp: list_ex_iff) (metis image_eqI)
  with True show ?thesis by (simp add: insert_ignore_def insert_absorb)
next
  case False
  then show ?thesis unfolding insert_ignore_def by (simp only: if_False) auto
qed

lemma filter_delete_where: "(\<And>x. x \<in> set t \<Longrightarrow> Q x \<Longrightarrow> \<not> p x) \<Longrightarrow> filter Q (delete_where p t) = filter Q t"
  by (induction t) (auto simp: delete_where_def)

section \<open>What a collection owns\<close>

record kept_data =
  kd_policy :: "policy option"
  kd_repositories :: "(string \<times> string) list"
  kd_members :: "member list"
  kd_quality :: "quality_row list"
  kd_results :: "stored_result list"
  kd_attempts :: "analysis_attempt_row list"
  kd_important :: "personal_row list"
  kd_hidden :: "hidden_row list"
  kd_goals :: "goal_row list"
  kd_threads :: "thread_row list"
  kd_groups :: "group_row list"
  kd_group_members :: "group_member_row list"

definition kept_pr :: "string \<Rightarrow> pr_db \<Rightarrow> goal_row list \<Rightarrow> thread_row list \<Rightarrow> group_row list \<Rightarrow> group_member_row list \<Rightarrow> kept_data" where
  "kept_pr i p goals threads groups gms =
     \<lparr> kd_policy = (case find (\<lambda>r. c_id r = i) (d_collections p) of None \<Rightarrow> None | Some r \<Rightarrow> c_quality_policy r),
       kd_repositories = filter (\<lambda>x. fst x = i) (d_repositories p),
       kd_members = filter (\<lambda>m. fst m = i) (d_members p),
       kd_quality = filter (\<lambda>q. fst (qr_member q) = i) (d_quality p),
       kd_results = filter (\<lambda>r. fst (rs_member r) = i) (d_results p),
       kd_attempts = filter (\<lambda>a. fst (at_member a) = i) (d_attempts p),
       kd_important = filter (\<lambda>r. fst (ps_member r) = i) (d_important p),
       kd_hidden = filter (\<lambda>r. fst (ps_member r) = i) (d_hidden p),
       kd_goals = filter (\<lambda>g. go_collection g = i) goals,
       kd_threads = filter (\<lambda>t. tw_collection t = i) threads,
       kd_groups = filter (\<lambda>g. gw_collection g = i) groups,
       kd_group_members = filter (\<lambda>m. gm_collection m = i) gms \<rparr>"

definition collection_data :: "string \<Rightarrow> service_db \<Rightarrow> kept_data" where
  "collection_data i db = kept_pr i (sv_pr db) (pg_goals (rf_progress (sv_refresh db)))
     (pg_threads (rf_progress (sv_refresh db))) (k_groups (sv_corr db)) (k_members (sv_corr db))"

lemma delete_members_data:
  assumes "\<And>m. fst m = i \<Longrightarrow> m \<in> set (d_members p) \<Longrightarrow> \<not> q m"
  shows "kept_pr i (delete_members q p) a b c d = kept_pr i p a b c d"
proof -
  have f: "filter (\<lambda>r. fst (k r) = i) (delete_where (\<lambda>r. q (k r) \<and> k r \<in> set (d_members p)) t) = filter (\<lambda>r. fst (k r) = i) t"
    for k and t :: "'b list"
    by (rule filter_delete_where) (use assms in blast)
  have m: "filter (\<lambda>m. fst m = i) (delete_where q (d_members p)) = filter (\<lambda>m. fst m = i) (d_members p)"
    by (rule filter_delete_where) (use assms in blast)
  show ?thesis unfolding kept_pr_def delete_members_def by (simp add: f m)
qed

section \<open>One collection\<close>

lemma recompute_frame:
  assumes "recomputeCollectionQuality U w c pol p = Inr p'"
  shows "p' = p\<lparr>d_quality := d_quality p'\<rparr>"
    "filter (\<lambda>q. fst (qr_member q) \<noteq> c) (d_quality p') = filter (\<lambda>q. fst (qr_member q) \<noteq> c) (d_quality p)"
proof -
  have step: "s' = s\<lparr>d_quality := d_quality s'\<rparr> \<and>
      filter (\<lambda>q. fst (qr_member q) \<noteq> c) (d_quality s') = filter (\<lambda>q. fst (qr_member q) \<noteq> c) (d_quality s)"
    if "writeQualityAssessment U c (reassessed_pull s r) pol w s = Inr s'" for r s s'
    using that by (auto simp: writeQualityAssessment_def Let_def failIf_eq_Inr intro!: filter_upsert_key)
  have "p' = p\<lparr>d_quality := d_quality p'\<rparr> \<and>
      filter (\<lambda>q. fst (qr_member q) \<noteq> c) (d_quality p') = filter (\<lambda>q. fst (qr_member q) \<noteq> c) (d_quality p)"
    using assms unfolding recomputeCollectionQuality_def
  proof (rule foldR_invariant [where P = "\<lambda>t. t = p\<lparr>d_quality := d_quality t\<rparr> \<and>
      filter (\<lambda>q. fst (qr_member q) \<noteq> c) (d_quality t) = filter (\<lambda>q. fst (qr_member q) \<noteq> c) (d_quality p)", rotated])
    fix r s s' assume "writeQualityAssessment U c (reassessed_pull s r) pol w s = Inr s'"
      and s: "s = p\<lparr>d_quality := d_quality s\<rparr> \<and>
        filter (\<lambda>q. fst (qr_member q) \<noteq> c) (d_quality s) = filter (\<lambda>q. fst (qr_member q) \<noteq> c) (d_quality p)"
    from step [OF this(1)] have "s' = s\<lparr>d_quality := d_quality s'\<rparr>"
      "filter (\<lambda>q. fst (qr_member q) \<noteq> c) (d_quality s') = filter (\<lambda>q. fst (qr_member q) \<noteq> c) (d_quality s)" by blast+
    moreover have "(p\<lparr>d_quality := d_quality s\<rparr>)\<lparr>d_quality := d_quality s'\<rparr> = p\<lparr>d_quality := d_quality s'\<rparr>" by simp
    ultimately show "s' = p\<lparr>d_quality := d_quality s'\<rparr> \<and>
        filter (\<lambda>q. fst (qr_member q) \<noteq> c) (d_quality s') = filter (\<lambda>q. fst (qr_member q) \<noteq> c) (d_quality p)"
      using s by metis
  qed simp
  then show "p' = p\<lparr>d_quality := d_quality p'\<rparr>"
    "filter (\<lambda>q. fst (qr_member q) \<noteq> c) (d_quality p') = filter (\<lambda>q. fst (qr_member q) \<noteq> c) (d_quality p)" by blast+
qed

text \<open>The configured collection \<open>c\<close> is the one that \<open>d\<close> was kept for.\<close>

definition fits :: "collection \<Rightarrow> kept_data \<Rightarrow> bool" where
  "fits c d \<longleftrightarrow>
     kd_policy d = Some (PolicyFromConfig (cl_Quality c)) \<and> snd ` set (kd_repositories d) = set (cl_Repositories c) \<and>
     (cl_FeatureCorrelation c = None \<longrightarrow> kd_groups d = [] \<and> kd_group_members d = [])"

lemma previous_policy_data: "previous_policy db i = kd_policy (collection_data i db)"
  by (simp add: previous_policy_def collection_data_def kept_pr_def)

lemma kd_repositories_data: "kd_repositories (collection_data i db) = filter (\<lambda>x. fst x = i) (d_repositories (sv_pr db))"
  by (simp add: collection_data_def kept_pr_def)

lemma upsert_collection_data:
  "collection_data i (upsert_collection c db) =
     (if i = cl_ID c then (collection_data i db)\<lparr>kd_policy := Some (PolicyFromConfig (cl_Quality c))\<rparr> else collection_data i db)"
proof -
  let ?r = "\<lparr> c_id = cl_ID c, c_active = True, c_quality_policy = Some (PolicyFromConfig (cl_Quality c)),
    c_model_provider = cl_ModelProvider c, c_contribution_refresh_seconds = contributionRefreshInterval \<rparr>"
  have "find (\<lambda>x. c_id x = i) (upsert c_id (\<lambda>old new. new) ?r t) = (if i = cl_ID c then Some ?r else find (\<lambda>x. c_id x = i) t)" for t
    using find_key_upsert_same [of c_id ?r t] find_key_upsert_other [of c_id ?r i "\<lambda>old new. new" t] by simp
  then show ?thesis by (simp add: collection_data_def kept_pr_def upsert_collection_def Let_def)
qed

lemma filter_sub:
  assumes "filter P xs = filter P ys" "\<And>x. Q x \<Longrightarrow> P x"
  shows "filter Q xs = filter Q ys"
proof -
  have "filter Q t = filter Q (filter P t)" for t using assms(2) by (induction t) auto
  with assms(1) show ?thesis by metis
qed

lemma sync_policy_data:
  assumes "sync_policy U w c db = Inr db'" "cl_ID c = i \<Longrightarrow> fits c (collection_data i db)"
  shows "collection_data i db' = collection_data i db"
proof -
  let ?pol = "PolicyFromConfig (cl_Quality c)" and ?db1 = "upsert_collection c db"
  have up: "collection_data i ?db1 = collection_data i db"
    using assms(2) unfolding upsert_collection_data fits_def by (cases "i = cl_ID c") simp_all
  show ?thesis
  proof (cases "previous_policy db (cl_ID c) = Some ?pol")
    case True
    with assms(1) up show ?thesis by (simp add: sync_policy_def Let_def)
  next
    case False
    with assms(2) have i: "cl_ID c \<noteq> i" unfolding previous_policy_data fits_def by blast
    from assms(1) False obtain p where p: "recomputeCollectionQuality U w (cl_ID c) ?pol (sv_pr ?db1) = Inr p"
      and db': "db' = on_pr (\<lambda>_. p) ?db1" by (auto simp: sync_policy_def Let_def split: sum.splits)
    have "filter (\<lambda>q. fst (qr_member q) = i) (d_quality p) =
        filter (\<lambda>q. fst (qr_member q) = i) (d_quality (sv_pr ?db1))"
      by (rule filter_sub [OF recompute_frame(2) [OF p]]) (use i in auto)
    moreover have "kept_pr i p a b d e = (kept_pr i (sv_pr ?db1) a b d e)\<lparr>kd_quality :=
        filter (\<lambda>q. fst (qr_member q) = i) (d_quality p)\<rparr>" for a b d e
      by (subst recompute_frame(1) [OF p]) (simp add: kept_pr_def)
    ultimately have "collection_data i db' = collection_data i ?db1"
      by (simp add: db' collection_data_def) (simp add: kept_pr_def)
    with up show ?thesis by simp
  qed
qed

lemma sync_repository_data:
  assumes "cl_ID c = i \<Longrightarrow> (i, r) \<in> set (d_repositories (sv_pr db))"
  shows "collection_data i (sync_repository fd c r db) = collection_data i db"
proof -
  have "filter (\<lambda>x. fst x = i) (insert_ignore id (cl_ID c, r) (d_repositories (sv_pr db))) =
      filter (\<lambda>x. fst x = i) (d_repositories (sv_pr db))"
    using assms by (cases "cl_ID c = i") (auto simp: insert_ignore_def list_ex_iff)
  then show ?thesis by (simp add: collection_data_def kept_pr_def sync_repository_def)
qed

lemma sync_repositories_data:
  assumes "sync_repositories fd c seen rs db = Inr db'"
    and "cl_ID c = i \<Longrightarrow> set rs \<subseteq> snd ` set (kd_repositories (collection_data i db))"
  shows "collection_data i db' = collection_data i db"
  using assms
proof (induction rs arbitrary: seen db)
  case (Cons r rs)
  have "cl_ID c = i \<Longrightarrow> (i, r) \<in> set (d_repositories (sv_pr db))"
    using Cons.prems(2) by (auto simp: kd_repositories_data)
  from sync_repository_data [OF this] have one: "collection_data i (sync_repository fd c r db) = collection_data i db" by simp
  from Cons.prems(1) have "sync_repositories fd c (r # seen) rs (sync_repository fd c r db) = Inr db'"
    by (simp add: failIf_eq_Inr)
  from Cons.IH [OF this] Cons.prems(2) one show ?case by simp
qed simp

lemma drop_repositories_data:
  assumes "cl_ID c = i \<Longrightarrow> snd ` set (kd_repositories (collection_data i db)) \<subseteq> set (cl_Repositories c)"
  shows "collection_data i (drop_repositories c db) = collection_data i db"
proof -
  let ?gone = "\<lambda>x. fst x = cl_ID c \<and> snd x \<notin> set (cl_Repositories c)" and ?p = "sv_pr db"
  have keep: "\<not> ?gone (i, r)" if "(i, r) \<in> set (d_repositories ?p)" for r
  proof
    assume g: "?gone (i, r)"
    then have "r \<in> snd ` set (kd_repositories (collection_data i db))"
      using that by (force simp: kd_repositories_data)
    with g assms show False by auto
  qed
  let ?q = "\<lambda>m. ?gone (fst m, fst (snd m)) \<and> (fst m, fst (snd m)) \<in> set (d_repositories ?p)"
  have "kept_pr i (delete_members ?q ?p) a b d e = kept_pr i ?p a b d e" for a b d e
    by (rule delete_members_data) (use keep in auto)
  moreover have "filter (\<lambda>x. fst x = i) (delete_where ?gone (d_repositories ?p)) = filter (\<lambda>x. fst x = i) (d_repositories ?p)"
    by (rule filter_delete_where) (use keep in force)
  moreover have "kept_pr i (q\<lparr>d_repositories := rs\<rparr>) a b d e = (kept_pr i q a b d e)\<lparr>kd_repositories := filter (\<lambda>x. fst x = i) rs\<rparr>" for q rs a b d e
    by (simp add: kept_pr_def)
  moreover have "kd_repositories (kept_pr i ?p a b d e) = filter (\<lambda>x. fst x = i) (d_repositories ?p)" for a b d e
    by (simp add: kept_pr_def)
  ultimately show ?thesis unfolding collection_data_def drop_repositories_def Let_def
    by (simp add: kept_data.update_convs)
qed

lemma sync_collection_data:
  assumes "sync_collection U fd now w c db = Inr db'" "cl_ID c = i \<Longrightarrow> fits c (collection_data i db)"
  shows "collection_data i db' = collection_data i db"
proof -
  from assms(1) obtain db1 db2 where p: "sync_policy U w c db = Inr db1"
    and r: "sync_repositories fd c [] (cl_Repositories c) db1 = Inr db2"
    and db': "db' = on_corr (sync_correlation c now) (on_pr (sync_analysis c now) (drop_repositories c db2))"
    by (auto simp: sync_collection_def bindR_eq_Inr)
  have d1: "collection_data i db1 = collection_data i db" by (rule sync_policy_data [OF p assms(2)])
  have d2: "collection_data i db2 = collection_data i db1"
    by (rule sync_repositories_data [OF r]) (use assms(2) d1 in \<open>auto simp: fits_def\<close>)
  have d3: "collection_data i (drop_repositories c db2) = collection_data i db2"
    by (rule drop_repositories_data) (use assms(2) d1 d2 in \<open>auto simp: fits_def\<close>)
  have d4: "collection_data i (on_pr (sync_analysis c now) x) = collection_data i x" for x
    by (simp add: collection_data_def kept_pr_def sync_analysis_def enqueue_collection_def)
  have empty: "cl_FeatureCorrelation c = None \<Longrightarrow> cl_ID c = i \<Longrightarrow>
      kd_groups (collection_data i x) = [] \<and> kd_group_members (collection_data i x) = []" if "collection_data i x = collection_data i db" for x
    using assms(2) that by (simp add: fits_def)
  have d5: "collection_data i (on_corr (sync_correlation c now) x) = collection_data i x"
    if x: "collection_data i x = collection_data i db" for x
  proof -
    have keep: "filter (\<lambda>g. gw_collection g = i) (delete_where (\<lambda>g. gw_collection g = cl_ID c) (k_groups (sv_corr x))) =
        filter (\<lambda>g. gw_collection g = i) (k_groups (sv_corr x))"
      "filter (\<lambda>g. gm_collection g = i) (delete_where (\<lambda>g. gm_collection g = cl_ID c) (k_members (sv_corr x))) =
        filter (\<lambda>g. gm_collection g = i) (k_members (sv_corr x))" if "cl_FeatureCorrelation c = None"
      using empty [OF x that]
      by (auto intro!: filter_delete_where simp: collection_data_def kept_pr_def filter_empty_conv)
    show ?thesis
    proof (cases "cl_FeatureCorrelation c")
      case None
      then show ?thesis using keep by (simp add: collection_data_def kept_pr_def sync_correlation_def delete_groups_def)
    next
      case (Some y)
      then show ?thesis by (simp add: collection_data_def kept_pr_def sync_correlation_def)
    qed
  qed
  show ?thesis unfolding db' using d1 d2 d3 by (simp add: d5 d4)
qed

lemma sync_all_data:
  assumes "sync_all U fd now w seen cs db = Inr db'" "\<And>c. c \<in> set cs \<Longrightarrow> cl_ID c = i \<Longrightarrow> fits c (collection_data i db)"
  shows "collection_data i db' = collection_data i db"
  using assms
proof (induction cs arbitrary: seen db)
  case (Cons c cs)
  from Cons.prems(1) obtain db1 where c: "sync_collection U fd now w c db = Inr db1"
    and rest: "sync_all U fd now w (cl_ID c # seen) cs db1 = Inr db'"
    by (auto simp: failIf_eq_Inr bindR_eq_Inr)
  have one: "collection_data i db1 = collection_data i db"
    by (rule sync_collection_data [OF c]) (use Cons.prems(2) in simp)
  from Cons.IH [OF rest] Cons.prems(2) show ?case unfolding one by simp
qed simp

text \<open>Every private mark of the collection is about one of its members.\<close>

definition marks_on_members :: "kept_data \<Rightarrow> bool" where
  "marks_on_members d \<longleftrightarrow> (\<forall>r\<in>set (kd_important d). ps_member r \<in> set (kd_members d)) \<and>
     (\<forall>r\<in>set (kd_hidden d). ps_member r \<in> set (kd_members d))"

lemma retain_removed_data: "collection_data i (retain_removed ids now db) = collection_data i db"
proof -
  have "(case find (\<lambda>r. c_id r = i) (update_where (\<lambda>c. p (c_id c)) (\<lambda>c. c\<lparr>c_active := False\<rparr>) t) of None \<Rightarrow> None | Some r \<Rightarrow> c_quality_policy r) =
      (case find (\<lambda>r. c_id r = i) t of None \<Rightarrow> None | Some r \<Rightarrow> c_quality_policy r)" for p t
    by (induction t) (auto simp: update_where_def)
  then show ?thesis by (simp add: collection_data_def kept_pr_def retain_removed_def Let_def)
qed

lemma cleanup_data:
  assumes "marks_on_members (collection_data i db)"
  shows "collection_data i (cleanup ids now db) = collection_data i db"
proof -
  have c: "collection_data i (cancel_inactive now x) = collection_data i x" for x
    by (simp add: collection_data_def kept_pr_def cancel_inactive_def)
  have u: "collection_data i (on_refresh (cancel_unconfigured now) x) = collection_data i x" for x
    by (simp add: collection_data_def kept_pr_def cancel_unconfigured_def)
  have d: "collection_data i (delete_refreshes x) = collection_data i x" for x
    by (simp add: collection_data_def kept_pr_def delete_refreshes_def Let_def)
  have p: "collection_data i (on_pr delete_personal x) = collection_data i x" if "marks_on_members (collection_data i x)" for x
  proof -
    have "filter (\<lambda>r. fst (ps_member r) = i) (delete_where (\<lambda>r. ps_member r \<notin> set (d_members (sv_pr x))) (d_important (sv_pr x))) =
        filter (\<lambda>r. fst (ps_member r) = i) (d_important (sv_pr x))"
      "filter (\<lambda>r. fst (ps_member r) = i) (delete_where (\<lambda>r. ps_member r \<notin> set (d_members (sv_pr x))) (d_hidden (sv_pr x))) =
        filter (\<lambda>r. fst (ps_member r) = i) (d_hidden (sv_pr x))"
      using that by (auto intro!: filter_delete_where simp: marks_on_members_def collection_data_def kept_pr_def)
    then show ?thesis by (simp add: collection_data_def kept_pr_def delete_personal_def)
  qed
  show ?thesis unfolding cleanup_def using assms by (simp add: p d u c retain_removed_data)
qed

lemma SyncCollectionsAt_data:
  assumes "SyncCollectionsAt U fd now w cs db = Inr db'" "marks_on_members (collection_data i db)"
    and "\<And>c. c \<in> set cs \<Longrightarrow> cl_ID c = i \<Longrightarrow> fits c (collection_data i db)"
  shows "collection_data i db' = collection_data i db"
proof -
  from assms(1) obtain db1 where s: "sync_all U fd now w [] cs db = Inr db1" and db': "db' = cleanup (map cl_ID cs) now db1"
    by (auto simp: SyncCollectionsAt_def bindR_eq_Inr)
  from sync_all_data [OF s assms(3)] have "collection_data i db1 = collection_data i db" by simp
  with assms(2) cleanup_data show ?thesis unfolding db' by metis
qed

end
