(* ===== verification/SyncProps.thy ===== *)
theory SyncProps
  imports SyncFacts
begin

text \<open>
  After a successful \<open>SyncCollectionsAt\<close> the store is the configured one; a collection that is removed by
  mistake comes back with everything it owned when it is restored before its retention ends, unless a refresh
  of a shared repository has published in between.
\<close>

section \<open>Frames\<close>

definition active_collection :: "pr_db \<Rightarrow> string \<Rightarrow> bool" where
  "active_collection db i \<longleftrightarrow> list_ex (\<lambda>c. c_id c = i \<and> c_active c) (d_collections db)"

lemma upsert_collection_frame:
  "d_repositories (sv_pr (upsert_collection c db)) = d_repositories (sv_pr db)"
  "d_refreshes (sv_pr (upsert_collection c db)) = d_refreshes (sv_pr db)"
  "active_collection (sv_pr (upsert_collection c db)) i \<longleftrightarrow> i = cl_ID c \<or> active_collection (sv_pr db) i"
  "i \<noteq> cl_ID c \<Longrightarrow> removal (upsert_collection c db) i = removal db i"
proof -
  show "active_collection (sv_pr (upsert_collection c db)) i \<longleftrightarrow> i = cl_ID c \<or> active_collection (sv_pr db) i"
    by (auto simp: active_collection_def upsert_collection_def Let_def list_ex_iff set_upsert_fresh)
  show "i \<noteq> cl_ID c \<Longrightarrow> removal (upsert_collection c db) i = removal db i"
    by (simp add: removal_def upsert_collection_def Let_def find_key_upsert_other)
qed (simp_all add: upsert_collection_def Let_def)

lemma sync_policy_frame:
  assumes "sync_policy U w c db = Inr db'"
  shows "d_repositories (sv_pr db') = d_repositories (sv_pr db)" "d_refreshes (sv_pr db') = d_refreshes (sv_pr db)"
    "active_collection (sv_pr db') i \<longleftrightarrow> i = cl_ID c \<or> active_collection (sv_pr db) i"
    "i \<noteq> cl_ID c \<Longrightarrow> removal db' i = removal db i"
proof -
  have *: "d_repositories (sv_pr db') = d_repositories (sv_pr (upsert_collection c db)) \<and>
    d_refreshes (sv_pr db') = d_refreshes (sv_pr (upsert_collection c db)) \<and>
    d_collections (sv_pr db') = d_collections (sv_pr (upsert_collection c db)) \<and>
    sv_details db' = sv_details (upsert_collection c db)"
  proof (cases "previous_policy db (cl_ID c) = Some (PolicyFromConfig (cl_Quality c))")
    case True
    with assms show ?thesis by (simp add: sync_policy_def Let_def)
  next
    case False
    with assms obtain p where p: "recomputeCollectionQuality U w (cl_ID c) (PolicyFromConfig (cl_Quality c))
        (sv_pr (upsert_collection c db)) = Inr p" and db': "db' = on_pr (\<lambda>_. p) (upsert_collection c db)"
      by (auto simp: sync_policy_def Let_def split: sum.splits)
    from recompute_frame(1) [OF p] obtain q where "p = (sv_pr (upsert_collection c db))\<lparr>d_quality := q\<rparr>" by blast
    then show ?thesis by (simp add: db')
  qed
  then show "d_repositories (sv_pr db') = d_repositories (sv_pr db)" "d_refreshes (sv_pr db') = d_refreshes (sv_pr db)"
    "active_collection (sv_pr db') i \<longleftrightarrow> i = cl_ID c \<or> active_collection (sv_pr db) i"
    "i \<noteq> cl_ID c \<Longrightarrow> removal db' i = removal db i"
    using upsert_collection_frame [where c = c and db = db] by (simp_all add: active_collection_def removal_def)
qed

lemma sync_repositories_frame:
  assumes "sync_repositories fd c seen rs db = Inr db'"
  shows "set (d_repositories (sv_pr db')) = set (d_repositories (sv_pr db)) \<union> {cl_ID c} \<times> set rs"
    "rr_repository ` set (d_refreshes (sv_pr db')) = rr_repository ` set (d_refreshes (sv_pr db)) \<union> set rs"
    "d_collections (sv_pr db') = d_collections (sv_pr db)" "sv_details db' = sv_details db"
proof -
  have "set (d_repositories (sv_pr db')) = set (d_repositories (sv_pr db)) \<union> {cl_ID c} \<times> set rs \<and>
    rr_repository ` set (d_refreshes (sv_pr db')) = rr_repository ` set (d_refreshes (sv_pr db)) \<union> set rs \<and>
    d_collections (sv_pr db') = d_collections (sv_pr db) \<and> sv_details db' = sv_details db"
    using assms
  proof (induction rs arbitrary: seen db)
    case (Cons r rs)
    have one: "set (d_repositories (sv_pr (sync_repository fd c r db))) = insert (cl_ID c, r) (set (d_repositories (sv_pr db)))"
      "rr_repository ` set (d_refreshes (sv_pr (sync_repository fd c r db))) = insert r (rr_repository ` set (d_refreshes (sv_pr db)))"
      "d_collections (sv_pr (sync_repository fd c r db)) = d_collections (sv_pr db)"
      "sv_details (sync_repository fd c r db) = sv_details db"
      by (simp_all add: sync_repository_def set_insert_ignore_id keys_insert_ignore never_refreshed_def)
    from Cons.prems have "sync_repositories fd c (r # seen) rs (sync_repository fd c r db) = Inr db'"
      by (simp add: failIf_eq_Inr)
    from Cons.IH [OF this] show ?case by (auto simp: one)
  qed simp
  then show "set (d_repositories (sv_pr db')) = set (d_repositories (sv_pr db)) \<union> {cl_ID c} \<times> set rs"
    "rr_repository ` set (d_refreshes (sv_pr db')) = rr_repository ` set (d_refreshes (sv_pr db)) \<union> set rs"
    "d_collections (sv_pr db') = d_collections (sv_pr db)" "sv_details db' = sv_details db" by blast+
qed

lemma sync_collection_frame:
  assumes "sync_collection U fd now w c db = Inr db'"
  shows "set (d_repositories (sv_pr db')) =
      {x \<in> set (d_repositories (sv_pr db)). fst x \<noteq> cl_ID c} \<union> {cl_ID c} \<times> set (cl_Repositories c)"
    "rr_repository ` set (d_refreshes (sv_pr db')) = rr_repository ` set (d_refreshes (sv_pr db)) \<union> set (cl_Repositories c)"
    "active_collection (sv_pr db') i \<longleftrightarrow> i = cl_ID c \<or> active_collection (sv_pr db) i"
    "i \<noteq> cl_ID c \<Longrightarrow> removal db' i = removal db i"
proof -
  from assms obtain db1 db2 where p: "sync_policy U w c db = Inr db1"
    and r: "sync_repositories fd c [] (cl_Repositories c) db1 = Inr db2"
    and db': "db' = on_corr (sync_correlation c now) (on_pr (sync_analysis c now) (drop_repositories c db2))"
    by (auto simp: sync_collection_def bindR_eq_Inr)
  let ?p = "sv_pr db'"
  have k: "k_refresh (sync_correlation c now k) = k_refresh k" for k
    by (simp add: sync_correlation_def delete_groups_def)
  have a: "d_repositories (sync_analysis c now q) = d_repositories q" "d_refreshes (sync_analysis c now q) = d_refreshes q"
    "d_collections (sync_analysis c now q) = d_collections q" for q
    by (simp_all add: sync_analysis_def enqueue_collection_def)
  have d: "set (d_repositories ?p) = {x \<in> set (d_repositories (sv_pr db2)). \<not> (fst x = cl_ID c \<and> snd x \<notin> set (cl_Repositories c))}"
    "d_refreshes ?p = d_refreshes (sv_pr db2)" "d_collections ?p = d_collections (sv_pr db2)" "sv_details db' = sv_details db2"
    by (simp_all add: db' k a drop_repositories_def Let_def set_delete_where delete_members_def)
  note P = sync_policy_frame [OF p] and R = sync_repositories_frame [OF r]
  show "set (d_repositories ?p) = {x \<in> set (d_repositories (sv_pr db)). fst x \<noteq> cl_ID c} \<union> {cl_ID c} \<times> set (cl_Repositories c)"
    unfolding d(1) R(1) P(1) by auto
  show "rr_repository ` set (d_refreshes ?p) = rr_repository ` set (d_refreshes (sv_pr db)) \<union> set (cl_Repositories c)"
    unfolding d(2) R(2) P(2) ..
  show "active_collection ?p i \<longleftrightarrow> i = cl_ID c \<or> active_collection (sv_pr db) i"
    using P(3) [of i] by (simp add: active_collection_def d(3) R(3))
  show "i \<noteq> cl_ID c \<Longrightarrow> removal db' i = removal db i"
    using P(4) [of i] by (simp add: removal_def d(4) R(4))
qed

lemma sync_all_frames:
  assumes "sync_all U fd now w seen cs db = Inr db'"
  shows "set (d_repositories (sv_pr db')) = {x \<in> set (d_repositories (sv_pr db)). fst x \<notin> cl_ID ` set cs} \<union>
      (\<Union>c\<in>set cs. {cl_ID c} \<times> set (cl_Repositories c)) \<and>
    rr_repository ` set (d_refreshes (sv_pr db')) = rr_repository ` set (d_refreshes (sv_pr db)) \<union> (\<Union>c\<in>set cs. set (cl_Repositories c)) \<and>
    (\<forall>i. active_collection (sv_pr db') i \<longleftrightarrow> i \<in> cl_ID ` set cs \<or> active_collection (sv_pr db) i) \<and>
    (\<forall>i. i \<notin> cl_ID ` set cs \<longrightarrow> removal db' i = removal db i) \<and> distinct (map cl_ID cs) \<and> set seen \<inter> cl_ID ` set cs = {}"
  using assms
proof (induction cs arbitrary: seen db)
  case (Cons c cs)
  from Cons.prems have n: "cl_ID c \<notin> set seen" and "bindR (sync_collection U fd now w c db) (sync_all U fd now w (cl_ID c # seen) cs) = Inr db'"
    by (simp_all add: failIf_eq_Inr)
  then obtain db1 where c: "sync_collection U fd now w c db = Inr db1"
    and rest: "sync_all U fd now w (cl_ID c # seen) cs db1 = Inr db'" unfolding bindR_eq_Inr by blast
  note F = sync_collection_frame [OF c] and IH = Cons.IH [OF rest]
  note R = IH [THEN conjunct1] and S = IH [THEN conjunct2, THEN conjunct1]
    and A = IH [THEN conjunct2, THEN conjunct2, THEN conjunct1, rule_format]
    and M = IH [THEN conjunct2, THEN conjunct2, THEN conjunct2, THEN conjunct1, rule_format]
    and D = IH [THEN conjunct2, THEN conjunct2, THEN conjunct2, THEN conjunct2]
  from D have new: "cl_ID c \<notin> cl_ID ` set cs" "set seen \<inter> cl_ID ` set cs = {}" by auto
  have 1: "set (d_repositories (sv_pr db')) = {x \<in> set (d_repositories (sv_pr db)). fst x \<notin> cl_ID ` set (c # cs)} \<union>
      (\<Union>c\<in>set (c # cs). {cl_ID c} \<times> set (cl_Repositories c))"
    unfolding R F(1) using new(1) by auto
  have 2: "rr_repository ` set (d_refreshes (sv_pr db')) =
      rr_repository ` set (d_refreshes (sv_pr db)) \<union> (\<Union>c\<in>set (c # cs). set (cl_Repositories c))"
    unfolding S F(2) by auto
  have 3: "active_collection (sv_pr db') i \<longleftrightarrow> i \<in> cl_ID ` set (c # cs) \<or> active_collection (sv_pr db) i" for i
    unfolding A F(3) by auto
  have 4: "i \<notin> cl_ID ` set (c # cs) \<longrightarrow> removal db' i = removal db i" for i using M [of i] F(4) [of i] by simp
  have 5: "distinct (map cl_ID (c # cs))" "set seen \<inter> cl_ID ` set (c # cs) = {}"
    using D [THEN conjunct1] new n by simp_all
  show ?case by (intro conjI allI 1 2 3 4 5)
qed simp

lemmas sync_all_frame =
  sync_all_frames [THEN conjunct1]
  sync_all_frames [THEN conjunct2, THEN conjunct1]
  sync_all_frames [THEN conjunct2, THEN conjunct2, THEN conjunct1, rule_format]
  sync_all_frames [THEN conjunct2, THEN conjunct2, THEN conjunct2, THEN conjunct1, rule_format]

section \<open>The configured store\<close>

lemma retain_removed_frame:
  "d_repositories (sv_pr (retain_removed ids now db)) = d_repositories (sv_pr db)"
  "d_refreshes (sv_pr (retain_removed ids now db)) = d_refreshes (sv_pr db)"
  "active_collection (sv_pr (retain_removed ids now db)) i \<longleftrightarrow> i \<in> set ids \<and> active_collection (sv_pr db) i"
  "active_collection (sv_pr db) i \<Longrightarrow> i \<notin> set ids \<Longrightarrow> removal (retain_removed ids now db) i \<in> {None, Some (formatTime now)}"
proof -
  show "active_collection (sv_pr (retain_removed ids now db)) i \<longleftrightarrow> i \<in> set ids \<and> active_collection (sv_pr db) i"
    by (auto simp: active_collection_def retain_removed_def Let_def list_ex_iff set_update_where)
  assume "active_collection (sv_pr db) i" "i \<notin> set ids"
  then have r: "i \<notin> set ids \<and> list_ex (\<lambda>c. c_id c = i \<and> c_active c) (d_collections (sv_pr db))" by (simp add: active_collection_def)
  have "(case find (\<lambda>r. cd_id r = i) (update_where (\<lambda>r. p (cd_id r)) (\<lambda>r. r\<lparr>cd_removed_at := Some t\<rparr>) ds) of
      None \<Rightarrow> None | Some r \<Rightarrow> cd_removed_at r) \<in> {None, Some t}" if "p i" for p t ds
    using that by (induction ds) (auto simp: update_where_def)
  from this [of "\<lambda>i. i \<notin> set ids \<and> list_ex (\<lambda>c. c_id c = i \<and> c_active c) (d_collections (sv_pr db))", OF r]
  show "removal (retain_removed ids now db) i \<in> {None, Some (formatTime now)}"
    by (simp add: removal_def retain_removed_def Let_def)
qed (simp_all add: retain_removed_def Let_def)

lemma configured_cong:
  "d_collections p = d_collections q \<Longrightarrow> d_repositories p = d_repositories q \<Longrightarrow>
   configured_repository p = configured_repository q"
  by (simp add: configured_repository_def active_repository_def fun_eq_iff)

lemma delete_refreshes_frame:
  "d_repositories (sv_pr (delete_refreshes db)) = d_repositories (sv_pr db)"
  "d_collections (sv_pr (delete_refreshes db)) = d_collections (sv_pr db)"
  "set (d_refreshes (sv_pr (delete_refreshes db))) = {r \<in> set (d_refreshes (sv_pr db)). configured_repository (sv_pr db) (rr_repository r)}"
  by (simp_all add: delete_refreshes_def Let_def set_delete_where) blast

lemma cleanup_frame:
  "d_repositories (sv_pr (cleanup ids now db)) = d_repositories (sv_pr db)"
  "d_collections (sv_pr (cleanup ids now db)) = d_collections (sv_pr (retain_removed ids now db))"
  "sv_details (cleanup ids now db) = sv_details (retain_removed ids now db)"
  "set (d_refreshes (sv_pr (cleanup ids now db))) =
     {r \<in> set (d_refreshes (sv_pr db)). configured_repository (sv_pr (cleanup ids now db)) (rr_repository r)}"
proof -
  let ?a = "retain_removed ids now db"
  have pr: "sv_pr (on_refresh (cancel_unconfigured now) (cancel_inactive now ?a)) = (sv_pr ?a)\<lparr>d_analysis :=
      finish_where (\<lambda>j. j_status j = Queued \<and> inactive (sv_pr ?a) (fst (ap_member (j_payload j)))) now (d_analysis (sv_pr ?a))\<rparr>"
    by (simp add: cancel_inactive_def cancel_unconfigured_def)
  show c: "d_repositories (sv_pr (cleanup ids now db)) = d_repositories (sv_pr db)"
    "d_collections (sv_pr (cleanup ids now db)) = d_collections (sv_pr ?a)"
    by (simp_all add: cleanup_def delete_refreshes_def delete_personal_def Let_def cancel_inactive_def cancel_unconfigured_def retain_removed_frame)
  show "sv_details (cleanup ids now db) = sv_details ?a"
    by (simp add: cleanup_def delete_refreshes_def Let_def cancel_inactive_def)
  have e: "configured_repository (sv_pr (cleanup ids now db)) = configured_repository (sv_pr ?a)"
    by (rule configured_cong) (simp_all add: c retain_removed_frame)
  have "configured_repository (sv_pr (on_refresh (cancel_unconfigured now) (cancel_inactive now ?a))) = configured_repository (sv_pr ?a)"
    unfolding pr by (rule configured_cong) simp_all
  then have "set (d_refreshes (sv_pr (delete_refreshes (on_refresh (cancel_unconfigured now) (cancel_inactive now ?a))))) =
     {r \<in> set (d_refreshes (sv_pr db)). configured_repository (sv_pr ?a) (rr_repository r)}"
    unfolding delete_refreshes_frame(3) pr by (simp add: retain_removed_frame)
  moreover have "d_refreshes (sv_pr (on_pr delete_personal x)) = d_refreshes (sv_pr x)" for x by (simp add: delete_personal_def)
  ultimately show "set (d_refreshes (sv_pr (cleanup ids now db))) =
     {r \<in> set (d_refreshes (sv_pr db)). configured_repository (sv_pr (cleanup ids now db)) (rr_repository r)}"
    unfolding e by (simp add: cleanup_def)
qed

lemma configured_iff:
  "configured_repository p r \<longleftrightarrow> (\<exists>i. active_collection p i \<and> (i, r) \<in> set (d_repositories p))"
  by (auto simp: configured_repository_def active_repository_def active_collection_def list_ex_iff)

lemma synced_collections:
  assumes "SyncCollectionsAt U fd now w cs db = Inr db'"
  shows "active_collection (sv_pr db') i \<longleftrightarrow> i \<in> cl_ID ` set cs"
    "c \<in> set cs \<Longrightarrow> (cl_ID c, r) \<in> set (d_repositories (sv_pr db')) \<longleftrightarrow> r \<in> set (cl_Repositories c)"
    "configured_repository (sv_pr db') r \<longleftrightarrow> r \<in> (\<Union>c\<in>set cs. set (cl_Repositories c))"
    "rr_repository ` set (d_refreshes (sv_pr db')) = (\<Union>c\<in>set cs. set (cl_Repositories c))"
    "distinct (map cl_ID cs)"
proof -
  from assms obtain db1 where s: "sync_all U fd now w [] cs db = Inr db1" and db': "db' = cleanup (map cl_ID cs) now db1"
    by (auto simp: SyncCollectionsAt_def bindR_eq_Inr)
  note F = sync_all_frame [OF s] and C = cleanup_frame [of "map cl_ID cs" now db1]
  from sync_all_frames [OF s] show d: "distinct (map cl_ID cs)" by blast
  have e: "active_collection (sv_pr db') i \<longleftrightarrow> active_collection (sv_pr (retain_removed (map cl_ID cs) now db1)) i" for i
    by (simp add: active_collection_def db' C(2))
  show a: "active_collection (sv_pr db') i \<longleftrightarrow> i \<in> cl_ID ` set cs" for i
    unfolding e retain_removed_frame(3) F(3) by auto
  have repos: "set (d_repositories (sv_pr db')) = {x \<in> set (d_repositories (sv_pr db)). fst x \<notin> cl_ID ` set cs} \<union>
      (\<Union>c\<in>set cs. {cl_ID c} \<times> set (cl_Repositories c))"
    unfolding db' C(1) F(1) ..
  show r: "(cl_ID c, r) \<in> set (d_repositories (sv_pr db')) \<longleftrightarrow> r \<in> set (cl_Repositories c)" if c: "c \<in> set cs" for c r
  proof -
    have inj: "x = c" if "x \<in> set cs" "cl_ID x = cl_ID c" for x
      using d that c by (metis distinct_map inj_onD)
    have "(cl_ID c, r) \<in> set (d_repositories (sv_pr db')) \<longleftrightarrow> (\<exists>x\<in>set cs. cl_ID c = cl_ID x \<and> r \<in> set (cl_Repositories x))"
      unfolding repos using c by simp
    also have "\<dots> \<longleftrightarrow> r \<in> set (cl_Repositories c)" using inj c by metis
    finally show ?thesis .
  qed
  show f: "configured_repository (sv_pr db') r \<longleftrightarrow> r \<in> (\<Union>c\<in>set cs. set (cl_Repositories c))" for r
  proof -
    have "configured_repository (sv_pr db') r \<longleftrightarrow> (\<exists>c\<in>set cs. (cl_ID c, r) \<in> set (d_repositories (sv_pr db')))"
      unfolding configured_iff a by blast
    also have "\<dots> \<longleftrightarrow> (\<exists>c\<in>set cs. r \<in> set (cl_Repositories c))" by (intro bex_cong refl r)
    finally show ?thesis by simp
  qed
  show "rr_repository ` set (d_refreshes (sv_pr db')) = (\<Union>c\<in>set cs. set (cl_Repositories c))"
  proof -
    have "rr_repository ` set (d_refreshes (sv_pr db')) =
        rr_repository ` set (d_refreshes (sv_pr db1)) \<inter> (\<Union>c\<in>set cs. set (cl_Repositories c))"
      unfolding db' C(4) unfolding db' [symmetric] f by auto
    then show ?thesis unfolding F(2) by blast
  qed
qed

lemma cleanup_jobs:
  "j \<in> set (q_jobs (rf_jobs (sv_refresh (cleanup ids now db)))) \<Longrightarrow> j_status j = Queued \<Longrightarrow>
     configured_repository (sv_pr (cleanup ids now db)) (rp_repository (j_payload j))"
  "g \<in> set (rf_gens (sv_refresh (cleanup ids now db))) \<Longrightarrow>
     configured_repository (sv_pr (cleanup ids now db)) (g_repository g)"
  "j' \<in> set (q_jobs (d_analysis (sv_pr (cleanup ids now db)))) \<Longrightarrow> j_status j' = Queued \<Longrightarrow>
     \<not> inactive (sv_pr (cleanup ids now db)) (fst (ap_member (j_payload j')))"
proof -
  let ?a = "retain_removed ids now db"
  let ?u = "on_refresh (cancel_unconfigured now) (cancel_inactive now ?a)"
  have e: "configured_repository (sv_pr (cleanup ids now db)) = configured_repository (sv_pr (cancel_inactive now ?a))"
    by (rule configured_cong) (simp_all add: cleanup_frame retain_removed_frame cancel_inactive_def)
  have r: "rf_jobs (sv_refresh (cleanup ids now db)) = rf_jobs (sv_refresh ?u)"
    "rf_gens (sv_refresh (cleanup ids now db)) = rf_gens (sv_refresh ?u)"
    by (simp_all add: cleanup_def delete_refreshes_def Let_def)
  show "configured_repository (sv_pr (cleanup ids now db)) (rp_repository (j_payload j))"
    if "j \<in> set (q_jobs (rf_jobs (sv_refresh (cleanup ids now db))))" "j_status j = Queued"
    using that unfolding r e by (auto simp: cancel_unconfigured_def finish_where_def set_update_where)
  show "configured_repository (sv_pr (cleanup ids now db)) (g_repository g)"
    if "g \<in> set (rf_gens (sv_refresh (cleanup ids now db)))"
    using that unfolding r e by (auto simp: cancel_unconfigured_def set_delete_where)
  have n: "d_analysis (sv_pr (cleanup ids now db)) = d_analysis (sv_pr (cancel_inactive now ?a))"
    by (simp add: cleanup_def delete_refreshes_def delete_personal_def cancel_unconfigured_def Let_def)
  have i: "inactive (sv_pr (cleanup ids now db)) = inactive (sv_pr ?a)" by (simp add: inactive_def cleanup_frame(2) fun_eq_iff)
  show "\<not> inactive (sv_pr (cleanup ids now db)) (fst (ap_member (j_payload j')))"
    if "j' \<in> set (q_jobs (d_analysis (sv_pr (cleanup ids now db))))" "j_status j' = Queued"
    using that unfolding n i by (auto simp: cancel_inactive_def finish_where_def set_update_where)
qed

lemma cleanup_marks:
  "r \<in> set (d_important (sv_pr (cleanup ids now db))) \<Longrightarrow> ps_member r \<in> set (d_members (sv_pr (cleanup ids now db)))"
  "h \<in> set (d_hidden (sv_pr (cleanup ids now db))) \<Longrightarrow> ps_member h \<in> set (d_members (sv_pr (cleanup ids now db)))"
  by (simp_all add: cleanup_def delete_personal_def set_delete_where)

text \<open>
  C34. A successful synchronisation makes the store match the configuration: exactly the configured collections are active,
  each has exactly its repositories, exactly the configured repositories have a refresh state, queued refreshes and
  staged generations are for configured repositories, queued analyses are not for removed collections, and private
  marks refer to published members.
\<close>

theorem sync_matches_configuration:
  assumes "SyncCollectionsAt U fd now w cs db = Inr db'"
  shows "(\<forall>i. active_collection (sv_pr db') i \<longleftrightarrow> i \<in> cl_ID ` set cs) \<and>
    (\<forall>c\<in>set cs. \<forall>r. (cl_ID c, r) \<in> set (d_repositories (sv_pr db')) \<longleftrightarrow> r \<in> set (cl_Repositories c)) \<and>
    rr_repository ` set (d_refreshes (sv_pr db')) = (\<Union>c\<in>set cs. set (cl_Repositories c)) \<and>
    (\<forall>j\<in>set (q_jobs (rf_jobs (sv_refresh db'))). j_status j = Queued \<longrightarrow>
       rp_repository (j_payload j) \<in> (\<Union>c\<in>set cs. set (cl_Repositories c))) \<and>
    (\<forall>g\<in>set (rf_gens (sv_refresh db')). g_repository g \<in> (\<Union>c\<in>set cs. set (cl_Repositories c))) \<and>
    (\<forall>j\<in>set (q_jobs (d_analysis (sv_pr db'))). j_status j = Queued \<longrightarrow> \<not> inactive (sv_pr db') (fst (ap_member (j_payload j)))) \<and>
    (\<forall>r\<in>set (d_important (sv_pr db')). ps_member r \<in> set (d_members (sv_pr db'))) \<and>
    (\<forall>r\<in>set (d_hidden (sv_pr db')). ps_member r \<in> set (d_members (sv_pr db')))"
proof -
  from assms obtain db1 where db': "db' = cleanup (map cl_ID cs) now db1" by (auto simp: SyncCollectionsAt_def bindR_eq_Inr)
  note S = synced_collections [OF assms]
  note J = cleanup_jobs [of _ "map cl_ID cs" now db1, folded db', unfolded S(3)]
    and M = cleanup_marks [of _ "map cl_ID cs" now db1, folded db']
  show ?thesis by (intro conjI allI ballI impI S(1) S(2) S(4) J M)
qed

lemma synced_removal:
  assumes "SyncCollectionsAt U fd now w cs db = Inr db'" "active_collection (sv_pr db) i" "i \<notin> cl_ID ` set cs"
  shows "removal db' i \<in> {None, Some (formatTime now)}"
proof -
  from assms(1) obtain db1 where s: "sync_all U fd now w [] cs db = Inr db1" and db': "db' = cleanup (map cl_ID cs) now db1"
    by (auto simp: SyncCollectionsAt_def bindR_eq_Inr)
  from sync_all_frame(3) [OF s] assms(2) have "active_collection (sv_pr db1) i" by blast
  moreover have "i \<notin> set (map cl_ID cs)" using assms(3) by simp
  ultimately have "removal (retain_removed (map cl_ID cs) now db1) i \<in> {None, Some (formatTime now)}"
    by (rule retain_removed_frame(4))
  then show ?thesis by (simp add: removal_def db' cleanup_frame(3))
qed

section \<open>Retention\<close>

lemma find_delete_key: "\<not> gone i \<Longrightarrow> find (\<lambda>r. k r = i) (delete_where (\<lambda>r. gone (k r)) t) = find (\<lambda>r. k r = i) t"
  by (induction t) (auto simp: delete_where_def)

lemma expire_rows_frame:
  "collection_data i (expire_rows cutoff at db) = collection_data i db" "removal (expire_rows cutoff at db) i = removal db i"
  "d_collections (sv_pr (expire_rows cutoff at db)) = d_collections (sv_pr db)"
  "d_results (sv_pr (expire_rows cutoff at db)) = d_results (sv_pr db)"
  by (simp_all add: expire_rows_def Let_def collection_data_def kept_pr_def removal_def delete_generations_def)

lemma retain_analyses_frame:
  "collection_data i (retain_analyses e db) = collection_data i db" "removal (retain_analyses e db) i = removal db i"
  "d_collections (sv_pr (retain_analyses e db)) = d_collections (sv_pr db)"
  by (simp_all add: retain_analyses_def collection_data_def kept_pr_def removal_def)

lemma delete_collections_kept:
  assumes "\<not> gone i"
  shows "collection_data i (delete_collections gone db) = collection_data i db"
    "removal (delete_collections gone db) i = removal db i"
    "inactive (sv_pr (delete_collections gone db)) i = inactive (sv_pr db) i"
    "active_collection (sv_pr (delete_collections gone db)) i = active_collection (sv_pr db) i"
proof -
  have m: "kept_pr i (delete_members (\<lambda>m. gone (fst m)) p) a b c d = kept_pr i p a b c d" for p a b c d
    by (rule delete_members_data) (use assms in auto)
  have f: "filter (\<lambda>x. k x = i) (delete_where (\<lambda>x. gone (k x)) t) = filter (\<lambda>x. k x = i) t" for k and t :: "'x list"
    by (rule filter_delete_where) (use assms in blast)
  show "collection_data i (delete_collections gone db) = collection_data i db"
  proof -
    let ?p = "sv_pr db" and ?g = "rf_progress (sv_refresh db)" and ?k = "sv_corr db"
    let ?m = "delete_members (\<lambda>m. gone (fst m)) ?p"
    have "collection_data i (delete_collections gone db) = kept_pr i (?m\<lparr>
          d_collections := delete_where (\<lambda>c. gone (c_id c)) (d_collections ?p),
          d_repositories := delete_where (\<lambda>x. gone (fst x)) (d_repositories ?p),
          d_important := delete_where (\<lambda>r. gone (fst (ps_member r))) (d_important ?p),
          d_hidden := delete_where (\<lambda>r. gone (fst (ps_member r))) (d_hidden ?p) \<rparr>)
        (delete_where (\<lambda>g. gone (go_collection g)) (pg_goals ?g)) (delete_where (\<lambda>g. gone (tw_collection g)) (pg_threads ?g))
        (delete_where (\<lambda>g. gone (gw_collection g)) (k_groups ?k)) (delete_where (\<lambda>g. gone (gm_collection g)) (k_members ?k))"
      by (simp add: collection_data_def delete_collections_def Let_def delete_groups_def)
    also have "\<dots> = kept_pr i ?m (pg_goals ?g) (pg_threads ?g) (k_groups ?k) (k_members ?k)"
      using assms by (simp add: kept_pr_def f find_delete_key)
    also have "\<dots> = collection_data i db" unfolding m collection_data_def ..
    finally show ?thesis .
  qed
  show "removal (delete_collections gone db) i = removal db i"
    using assms by (simp add: removal_def delete_collections_def Let_def find_delete_key)
  show "inactive (sv_pr (delete_collections gone db)) i = inactive (sv_pr db) i"
    "active_collection (sv_pr (delete_collections gone db)) i = active_collection (sv_pr db) i"
    using assms by (auto simp: inactive_def active_collection_def delete_collections_def delete_groups_def Let_def list_ex_iff set_delete_where)
qed

lemma RunRetention_parts:
  "snd (RunRetention now db) =
     (let db1 = expire_rows (formatTime (AddMonths (-3) now)) (formatTime now) db;
          gone = expired_collection (formatTime (now - removedCollectionRetention)) db;
          db2 = delete_collections gone (retain_analyses gone db1)
      in db2\<lparr>sv_flows := delete_where (\<lambda>f. fw_expires_at f \<le> formatTime now) (sv_flows db2)\<rparr>)"
proof -
  have "expired_collection c (expire_rows a b db) = expired_collection c db" for a b c
    by (simp add: expired_collection_def inactive_def expire_rows_frame fun_eq_iff)
  then show ?thesis by (simp add: RunRetention_def Let_def)
qed

lemma flows_frame:
  "collection_data i (db\<lparr>sv_flows := fs\<rparr>) = collection_data i db" "removal (db\<lparr>sv_flows := fs\<rparr>) i = removal db i"
  by (simp_all add: collection_data_def removal_def)

lemma RunRetention_kept:
  assumes "\<not> expired_collection (formatTime (now - removedCollectionRetention)) db i"
  shows "collection_data i (snd (RunRetention now db)) = collection_data i db"
    "removal (snd (RunRetention now db)) i = removal db i"
    "inactive (sv_pr (snd (RunRetention now db))) i = inactive (sv_pr db) i"
proof -
  note K = delete_collections_kept [where gone = "expired_collection (formatTime (now - removedCollectionRetention)) db", OF assms]
  show "collection_data i (snd (RunRetention now db)) = collection_data i db"
    by (simp only: RunRetention_parts Let_def flows_frame K retain_analyses_frame expire_rows_frame)
  show "removal (snd (RunRetention now db)) i = removal db i"
    by (simp only: RunRetention_parts Let_def flows_frame K retain_analyses_frame expire_rows_frame)
  show "inactive (sv_pr (snd (RunRetention now db))) i = inactive (sv_pr db) i"
    using K(3) [of "retain_analyses (expired_collection (formatTime (now - removedCollectionRetention)) db)
      (expire_rows (formatTime (AddMonths (-3) now)) (formatTime now) db)"]
    by (simp add: RunRetention_parts Let_def inactive_def retain_analyses_frame expire_rows_frame)
qed

text \<open>Retention runs before the window of a removal ends.\<close>

lemma RunRetention_early:
  assumes "removal db i \<in> {None, Some (formatTime t)}" "storable t"
    and "\<And>r. r \<in> set runs \<Longrightarrow> storable (r - removedCollectionRetention) \<and> (r - removedCollectionRetention) div second < t div second"
  shows "collection_data i (foldl (\<lambda>d r. snd (RunRetention r d)) db runs) = collection_data i db"
  using assms
proof (induction runs arbitrary: db)
  case (Cons r runs)
  have "formatTime (r - removedCollectionRetention) < formatTime t"
    using Cons.prems(2,3) by (intro formatTime_less) auto
  then have "\<not> expired_collection (formatTime (r - removedCollectionRetention)) db i"
    using Cons.prems(1) by (auto simp: expired_collection_def)
  note K = RunRetention_kept [OF this]
  from Cons.IH [of "snd (RunRetention r db)"] Cons.prems K show ?case by simp
qed simp


section \<open>What a shared repository does to a removed collection\<close>

lemma snapshot_active:
  assumes "replaceRepositorySnapshot U repository prs completedAt limits md db = Inr db'" "(i, repository, n) \<in> set (d_members db')"
  shows "active_repository db i repository"
proof -
  from assms(1) obtain ps db1 desired db2 where db1: "foldR write_pull ps db = Inr db1"
    and desired: "desired_members db1 repository ps = Inr desired"
    and db2: "foldR (release_pull U completedAt) ps
      (publish_members repository desired (retain_closed repository desired completedAt db1)) = Inr db2"
    and db': "db' = record_success repository completedAt limits md db2"
    by (rule snapshot_steps)
  let ?p = "publish_members repository desired (retain_closed repository desired completedAt db1)"
  have s1: "same_published db1 db" by (rule write_all_frame [OF db1])
  have all: "\<forall>m\<in>set desired. fst (snd m) = repository" using desired_members_Inr [OF desired] by auto
  have "d_members db' = d_members ?p"
    using record_success_frame [of repository completedAt limits md db2] foldR_frame [OF release_pull_frame db2]
    unfolding db' same_published_def by simp
  with assms(2) publish_members_published [OF all] have "(i, repository, n) \<in> set desired"
    by (auto simp: published_def publish_spec_def)
  with desired_members_Inr [OF desired] have "active_repository db1 i repository" by auto
  with s1 show ?thesis by (simp add: active_repository_def same_published_def)
qed

text \<open>
  C36. A removed collection does not keep what it shares: as soon as a refresh publishes a repository, no collection that is
  not active has a membership of that repository any more, so the seven days in which a removal is meant to be reversible
  end with the next refresh of a repository that another collection also configures.
\<close>

theorem shared_refresh_drops_retained:
  assumes "replaceRepositorySnapshot U repository prs completedAt limits md db = Inr db'" "\<not> active_collection db i"
  shows "(i, repository, n) \<notin> set (d_members db')"
proof
  assume "(i, repository, n) \<in> set (d_members db')"
  from snapshot_active [OF assms(1) this] assms(2) show False
    by (auto simp: active_repository_def active_collection_def)
qed

section \<open>A removal that is reversed\<close>

lemma sync_repositories_succeeds:
  "distinct rs \<Longrightarrow> set rs \<inter> set seen = {} \<Longrightarrow> \<exists>db'. sync_repositories fd c seen rs db = Inr db'"
proof (induction rs arbitrary: seen db)
  case (Cons r rs)
  from Cons.prems have "distinct rs" "set rs \<inter> set (r # seen) = {}" "r \<notin> set seen" by auto
  with Cons.IH [of "r # seen" "sync_repository fd c r db"] show ?case by simp
qed simp

lemma sync_one_succeeds:
  assumes "previous_policy db (cl_ID c) = Some (PolicyFromConfig (cl_Quality c))" "distinct (cl_Repositories c)"
  shows "\<exists>db'. SyncCollectionsAt U fd now w [c] db = Inr db'"
proof -
  have "sync_policy U w c db = Inr (upsert_collection c db)" using assms(1) by (simp add: sync_policy_def Let_def)
  moreover obtain x where "sync_repositories fd c [] (cl_Repositories c) (upsert_collection c db) = Inr x"
    using sync_repositories_succeeds [OF assms(2), of "[]" fd c] by fastforce
  ultimately show ?thesis by (simp add: SyncCollectionsAt_def sync_collection_def)
qed

definition restored_collection :: collection where
  "restored_collection = sample_collection\<lparr>cl_Repositories := [''o/r'', ''o/s'']\<rparr>"

definition sample_service :: service_db where
  "sample_service = \<lparr>
     sv_corr = \<lparr> k_refresh = \<lparr> rf_pr = sample_pr_db\<lparr>d_collections := [\<lparr> c_id = ''c'', c_active = True,
           c_quality_policy = Some (PolicyFromConfig None), c_model_provider = [], c_contribution_refresh_seconds = 604800 \<rparr>]\<rparr>,
         rf_jobs = empty_queue, rf_gens = [], rf_next_gen = 1, rf_items = [],
         rf_progress = \<lparr> pg_collected = [], pg_events = [], pg_threads = [], pg_goals = [] \<rparr> \<rparr>,
       k_settings = [(''c'', False, [])], k_jobs = empty_queue, k_groups = [], k_members = [], k_states = [], k_payloads = [] \<rparr>,
     sv_details = [\<lparr> cd_id = ''c'', cd_name = ''n'', cd_description = [],
       cd_contribution = ContributionPolicyFromConfig None, cd_removed_at = None \<rparr>],
     sv_discovery = [], sv_operations = [], sv_attempts = [], sv_flows = [], sv_sessions = [] \<rparr>"

lemma sample_service_facts:
  "active_collection (sv_pr sample_service) ''c''" "marks_on_members (collection_data ''c'' sample_service)"
  "fits restored_collection (collection_data ''c'' sample_service)" "cl_ID restored_collection = ''c''"
  "previous_policy sample_service ''c'' = Some (PolicyFromConfig None)" "distinct (cl_Repositories restored_collection)"
  "cl_Quality restored_collection = None"
  by (simp_all add: sample_service_def active_collection_def collection_data_def kept_pr_def marks_on_members_def fits_def
      restored_collection_def sample_collection_def sample_pr_db_def previous_policy_def)

lemma sample_times:
  "storable (10 * day)" "storable (12 * day - removedCollectionRetention)"
  "(12 * day - removedCollectionRetention) div second < 10 * day div second"
  by (simp_all add: storable_def max_seconds_def days_before_year_def removedCollectionRetention_def duration_defs)

theorem sync_matches_configuration_witness:
  "\<exists>db'. SyncCollectionsAt id (=) day day [restored_collection] sample_service = Inr db' \<and>
     rr_repository ` set (d_refreshes (sv_pr db')) = {''o/r'', ''o/s''}"
proof -
  obtain db' where s: "SyncCollectionsAt id (=) day day [restored_collection] sample_service = Inr db'"
    using sync_one_succeeds sample_service_facts(4-7) by metis
  from sync_matches_configuration [OF s] have "rr_repository ` set (d_refreshes (sv_pr db')) = set (cl_Repositories restored_collection)"
    by simp
  with s show ?thesis by (auto simp: restored_collection_def)
qed


text \<open>The same snapshot with a removed collection beside the active one.\<close>

definition shared_db :: pr_db where
  "shared_db = sample_pr_db\<lparr> d_collections := d_collections sample_pr_db @ [\<lparr> c_id = ''d'', c_active = False,
       c_quality_policy = None, c_model_provider = [], c_contribution_refresh_seconds = 604800 \<rparr>],
     d_repositories := (''d'', ''o/r'') # d_repositories sample_pr_db,
     d_members := (''d'', ''o/r'', 9) # d_members sample_pr_db \<rparr>"

lemma shared_snapshot_succeeds:
  "\<not> isl (replaceRepositorySnapshot (\<lambda>s. s) ''o/r'' [sample_pull 9 []] second [] sample_metadata shared_db)"
  by (simp add: replaceRepositorySnapshot_def normalizePullRequest_def write_pull_def
      upsertPullRequestRow_def replacePullRequestFiles_def replacePullRequestContext_def
      desired_members_def active_collections_def active_repository_def configured_repository_def
      retain_closed_def publish_members_def release_pull_def publishedCollections_def
      writeQualityAssessment_def enqueuePullRequestDiffTx_def diff_completeness_def
      delete_members_def delete_pulls_def delete_where_def insert_ignore_def upsert_def
      update_where_def pull_key_def key_of_def pull_row_of_def
      sample_pull_def sample_pr_db_def shared_db_def IsZero_def second_def Let_def)

theorem shared_refresh_drops_retained_witness:
  "(''d'', ''o/r'', 9) \<in> set (d_members shared_db) \<and>
   (''d'', ''o/r'', 9) \<notin> set (d_members (projr (replaceRepositorySnapshot (\<lambda>s. s) ''o/r'' [sample_pull 9 []] second []
     sample_metadata shared_db)))"
proof -
  let ?r = "replaceRepositorySnapshot (\<lambda>s. s) ''o/r'' [sample_pull 9 []] second [] sample_metadata shared_db"
  have "?r = Inr (projr ?r)" using shared_snapshot_succeeds by (cases ?r) simp_all
  moreover have "\<not> active_collection shared_db ''d''" by (simp add: active_collection_def shared_db_def sample_pr_db_def)
  ultimately have "(''d'', ''o/r'', 9) \<notin> set (d_members (projr ?r))" by (rule shared_refresh_drops_retained)
  then show ?thesis by (simp add: shared_db_def)
qed

end
