(* ===== verification/RetentionProps.thy ===== *)
theory RetentionProps
  imports SyncProps
begin

text \<open>
  What \<open>RunRetention\<close> removes and what it leaves.
\<close>

section \<open>What retention removes\<close>

definition no_data :: kept_data where
  "no_data = \<lparr> kd_policy = None, kd_repositories = [], kd_members = [], kd_quality = [], kd_results = [], kd_attempts = [],
     kd_important = [], kd_hidden = [], kd_goals = [], kd_threads = [], kd_groups = [], kd_group_members = [] \<rparr>"

text \<open>Rows about a member belong to an existing member, as the foreign keys demand.\<close>

definition references_ok :: "pr_db \<Rightarrow> bool" where
  "references_ok p \<longleftrightarrow> list_all (\<lambda>q. qr_member q \<in> set (d_members p)) (d_quality p) \<and>
     list_all (\<lambda>r. rs_member r \<in> set (d_members p)) (d_results p) \<and>
     list_all (\<lambda>a. at_member a \<in> set (d_members p)) (d_attempts p)"

lemma filter_delete_gone:
  assumes "gone i" "\<And>x. x \<in> set t \<Longrightarrow> P x"
  shows "filter (\<lambda>x. k x = i) (delete_where (\<lambda>x. gone (k x) \<and> P x) t) = []"
    "filter (\<lambda>x. k x = i) (delete_where (\<lambda>x. gone (k x)) t) = []" "find (\<lambda>x. k x = i) (delete_where (\<lambda>x. gone (k x)) t) = None"
proof -
  show "filter (\<lambda>x. k x = i) (delete_where (\<lambda>x. gone (k x) \<and> P x) t) = []"
    using assms by (auto simp: filter_empty_conv set_delete_where)
  show "filter (\<lambda>x. k x = i) (delete_where (\<lambda>x. gone (k x)) t) = []"
    using assms(1) by (auto simp: filter_empty_conv set_delete_where)
  show "find (\<lambda>x. k x = i) (delete_where (\<lambda>x. gone (k x)) t) = None"
    using assms(1) by (auto simp: find_None_iff set_delete_where)
qed

lemma delete_collections_gone:
  assumes "gone i" "references_ok (sv_pr db)"
  shows "collection_data i (delete_collections gone db) = no_data"
proof -
  let ?p = "sv_pr db"
  from assms(2) have r: "\<And>x. x \<in> set (d_quality ?p) \<Longrightarrow> qr_member x \<in> set (d_members ?p)"
    "\<And>x. x \<in> set (d_results ?p) \<Longrightarrow> rs_member x \<in> set (d_members ?p)"
    "\<And>x. x \<in> set (d_attempts ?p) \<Longrightarrow> at_member x \<in> set (d_members ?p)"
    unfolding references_ok_def list_all_iff by blast+
  note G = filter_delete_gone(2,3) [where gone = gone, OF assms(1), where P = "\<lambda>_. True", simplified]
    and Q = filter_delete_gone(1) [where gone = gone, OF assms(1) r(1)] filter_delete_gone(1) [where gone = gone, OF assms(1) r(2)]
      filter_delete_gone(1) [where gone = gone, OF assms(1) r(3)]
  show ?thesis
    by (simp add: collection_data_def kept_pr_def delete_collections_def Let_def delete_groups_def delete_members_def no_data_def G Q)
qed

lemma keys_fold_upsert:
  "(\<And>r. k (f r) = g r) \<Longrightarrow> k ` set (foldl (\<lambda>t r. upsert k (\<lambda>old new. new) (f r) t) t rs) = k ` set t \<union> g ` set rs"
proof (induction rs arbitrary: t)
  case (Cons r rs)
  have "k ` set (upsert k (\<lambda>old new. new) (f r) t) = insert (g r) (k ` set t)"
    using keys_upsert [of k "f r" "\<lambda>old new. new" t] Cons.prems by simp
  with Cons show ?case by simp
qed simp

lemma retain_analyses_keys:
  "r \<in> set (d_results (sv_pr db)) \<Longrightarrow> e (fst (rs_member r)) \<Longrightarrow>
   rs_member r \<in> rs_member ` set (d_retained (sv_pr (retain_analyses e db)))"
  by (simp add: retain_analyses_def keys_fold_upsert [where g = rs_member] result_row.defs)

lemma delete_collections_frame:
  "d_retained (sv_pr (delete_collections gone db)) = d_retained (sv_pr db)"
  "set (q_jobs (d_analysis (sv_pr (delete_collections gone db)))) \<subseteq> set (q_jobs (d_analysis (sv_pr db)))"
  "set (q_jobs (k_jobs (sv_corr (delete_collections gone db)))) \<subseteq> set (q_jobs (k_jobs (sv_corr db)))"
  "rf_gens (sv_refresh (delete_collections gone db)) = rf_gens (sv_refresh db)"
  "rf_jobs (sv_refresh (delete_collections gone db)) = rf_jobs (sv_refresh db)"
  "set (pg_events (rf_progress (sv_refresh (delete_collections gone db)))) \<subseteq> set (pg_events (rf_progress (sv_refresh db)))"
  "k_payloads (sv_corr (delete_collections gone db)) = k_payloads (sv_corr db)"
  "sv_sessions (delete_collections gone db) = sv_sessions db"
  by (auto simp: delete_collections_def Let_def delete_groups_def delete_members_def delete_jobs_def set_delete_where)

lemma expired_rows:
  assumes "db1 = retain_analyses e (expire_rows cutoff at db)"
  shows "j \<in> set (q_jobs (d_analysis (sv_pr db1))) \<Longrightarrow> \<not> finished_before cutoff j"
    "j' \<in> set (q_jobs (k_jobs (sv_corr db1))) \<Longrightarrow> \<not> finished_before cutoff j'"
    "g \<in> set (rf_gens (sv_refresh db1)) \<Longrightarrow> \<not> old_generation cutoff (sv_refresh db1) g"
    "ev \<in> set (pg_events (rf_progress (sv_refresh db1))) \<Longrightarrow> cutoff \<le> er_occurred_at ev"
    "p \<in> set (k_payloads (sv_corr db1)) \<Longrightarrow> cutoff \<le> py_created_at p"
    "s \<in> set (sv_sessions db1) \<Longrightarrow> at < se_expires_at s"
  unfolding assms
  by (auto simp: retain_analyses_def expire_rows_def Let_def delete_jobs_def delete_generations_def old_generation_def set_delete_where)

text \<open>Three months ago, and the collections whose removal is seven days old, as stored.\<close>

definition months_ago :: "time \<Rightarrow> string" where
  "months_ago now = formatTime (AddMonths (-3) now)"

definition overdue :: "time \<Rightarrow> service_db \<Rightarrow> string \<Rightarrow> bool" where
  "overdue now db = expired_collection (formatTime (now - removedCollectionRetention)) db"



end
