(* ===== verification/Requests.thy ===== *)
theory Requests
  imports Setup GoTime
begin

text \<open>
  The request layer of the GitHub client (\<open>internal/githubapp/client.go\<close>): one request with its rate-limit
  retries, the classification of its status, installation tokens and their cache, and the single retry with a new
  token. The server and the network are a function \<open>world\<close>: it answers the \<open>n\<close>-th exchange of the client, made at some
  time, and says what time it is then; it may depend on anything, so it is any behaviour of the provider. Between two
  exchanges the clock moves only in \<open>sleep\<close>, which the code takes as an option. JSON, URL and HTTP date parsing and
  the signature of the application are functions of the environment.
\<close>

section \<open>State\<close>

record http_request_line =
  hq_Method :: string
  hq_Path :: string
  hq_Credential :: string
  hq_Body :: "string option"

record http_answer =
  hy_Status :: int
  hy_Header :: "string \<Rightarrow> string"
  hy_Body :: string

text \<open>The context ended (\<open>True\<close>: its deadline passed), no response arrived, its body could not be read (or closed), or the whole response.\<close>

datatype http_outcome =
  ContextDone bool | NoAnswer bool | BrokenAnswer http_answer bool | Answered http_answer

type_synonym world = "nat \<Rightarrow> http_request_line \<Rightarrow> time \<Rightarrow> http_outcome \<times> time"

record retry_event =
  ev_State :: string
  ev_Reason :: string
  ev_Wait :: int
  ev_Retry :: nat
  ev_ObservedAt :: time

record rate_limit_observation =
  ob_Remaining :: int
  ob_Limit :: int
  ob_ResetAt :: time
  ob_ObservedAt :: time

text \<open>The mutable state: the clock, the exchanges so far, the cached tokens, and what the observers were told.\<close>

record client_state =
  cs_now :: time
  cs_count :: nat
  cs_tokens :: "(string \<times> string \<times> time) list"
  cs_events :: "retry_event list"
  cs_limits :: "rate_limit_observation list"

record token_answer =
  ta_Token :: string
  ta_ExpiresAt :: time
  ta_PullRequests :: string
  ta_Checks :: string

record client_env =
  ce_profile :: profile_type
  ce_static_token :: string
  ce_installation :: int
  ce_budget :: int
  ce_max_retries :: nat
  ce_lower :: "string \<Rightarrow> string"
  ce_path :: "string \<Rightarrow> string option"
  ce_http_time :: "string \<Rightarrow> time option"
  ce_sleep :: "time \<Rightarrow> int \<Rightarrow> failure option \<times> time"
  ce_jwt :: "time \<Rightarrow> string option"
  ce_token_body :: "string list \<Rightarrow> string"
  ce_decode_token :: "string \<Rightarrow> token_answer option"

section \<open>Bounded metadata\<close>

definition trim_slashes :: "string \<Rightarrow> string" where
  "trim_slashes s = rev (dropWhile (\<lambda>c. c = CHR ''/'') (rev (dropWhile (\<lambda>c. c = CHR ''/'') s)))"

definition isNumericPathSegment :: "string \<Rightarrow> bool" where
  "isNumericPathSegment v \<longleftrightarrow> v \<noteq> [] \<and> list_all is_digit v"

text \<open>The segments after owner and name of a repository path, from the given index on.\<close>

fun sanitize_segments :: "string \<Rightarrow> nat \<Rightarrow> string list \<Rightarrow> string list" where
  "sanitize_segments kind index [] = []"
| "sanitize_segments kind index (part # parts) =
     (if index = 4 \<and> (kind = ''pulls'' \<or> kind = ''issues'') then ''{id}'' # sanitize_segments kind (index + 1) parts
      else if index = 4 \<and> kind = ''commits'' then ''{id}'' # sanitize_segments kind (index + 1) parts
      else if index = 5 \<and> kind = ''git'' then ''{id}'' # sanitize_segments kind (index + 1) parts
      else if kind = ''contents'' \<and> index \<ge> 4 then [''{path}'']
      else (if isNumericPathSegment part then ''{id}'' else part) # sanitize_segments kind (index + 1) parts)"

definition sanitizeEndpoint :: "client_env \<Rightarrow> string \<Rightarrow> string" where
  "sanitizeEndpoint E requestPath =
     (case ce_path E requestPath of
        None \<Rightarrow> []
      | Some p \<Rightarrow>
         (let parts = Split (trim_slashes p) (CHR ''/''); top = hd parts;
              joined = (\<lambda>ps. CHR ''/'' # Join ps ''/'') in
          if top = [] then ''/''
          else if top = ''repos'' then
            (if length parts < 3 then ''/repos''
             else joined ([''repos'', ''{owner}'', ''{repo}''] @ sanitize_segments (if length parts > 3 then parts ! 3 else []) 3 (drop 3 parts)))
          else if top = ''users'' then (if length parts = 1 then ''/users'' else joined (parts[1 := ''{login}'']))
          else if top = ''orgs'' then (if length parts = 1 then ''/orgs'' else joined (parts[1 := ''{owner}'']))
          else if top = ''app'' then
            joined (if length parts \<ge> 3 \<and> parts ! 1 = ''installations'' then parts[2 := ''{id}''] else parts)
          else if top = ''search'' then (if length parts \<ge> 2 \<and> parts ! 1 = ''issues'' then ''/search/issues'' else ''/search'')
          else if top = ''installations'' \<or> top = ''repositories'' then
            joined (if length parts \<ge> 2 then parts[1 := ''{id}''] else parts)
          else if top \<in> {''graphql'', ''user'', ''rate_limit''} then CHR ''/'' # top
          else ''/{endpoint}''))"

definition token_char :: "char \<Rightarrow> bool" where
  "token_char c \<longleftrightarrow> c = CHR ''-'' \<or> c = CHR ''_'' \<or> is_digit c \<or>
     (byte c \<ge> byte (CHR ''A'') \<and> byte c \<le> byte (CHR ''Z'')) \<or> (byte c \<ge> byte (CHR ''a'') \<and> byte c \<le> byte (CHR ''z''))"

definition boundedHeaderToken :: "string \<Rightarrow> string" where
  "boundedHeaderToken value =
     (let v = TrimSpace value; w = (if length v > 128 then take 128 v else v) in
      if list_all token_char w then w else [])"

text \<open>Durations are 64-bit counts of nanoseconds: a product wraps, a difference of times saturates.\<close>

definition wrap64 :: "int \<Rightarrow> int" where
  "wrap64 n = (n + 2 ^ 63) mod 2 ^ 64 - 2 ^ 63"

definition Sub :: "time \<Rightarrow> time \<Rightarrow> int" where
  "Sub a b = max (- (2 ^ 63)) (min (2 ^ 63 - 1) (a - b))"

text \<open>\<open>time.Unix\<close> of a number of seconds; the zero time is the start of year 1.\<close>

definition Unix :: "int \<Rightarrow> time" where
  "Unix seconds = (62135596800 + seconds) * second"

definition parseRetryAfter :: "client_env \<Rightarrow> string \<Rightarrow> time \<Rightarrow> int option" where
  "parseRetryAfter E value now =
     (case Atoi (TrimSpace value) of
        Some n \<Rightarrow> if n \<ge> 0 then Some (wrap64 (n * second))
          else map_option (\<lambda>t. max (Sub t now) 0) (ce_http_time E value)
      | None \<Rightarrow> map_option (\<lambda>t. max (Sub t now) 0) (ce_http_time E value))"

record request_failure_metadata =
  rm_method :: string
  rm_endpoint :: string
  rm_requestID :: string
  rm_retryAfter :: int
  rm_rateLimitResetUnix :: int
  rm_statusCode :: int

definition boundedRequestMetadata ::
  "client_env \<Rightarrow> http_request_line \<Rightarrow> (string \<Rightarrow> string) \<Rightarrow> time \<Rightarrow> request_failure_metadata" where
  "boundedRequestMetadata E r header now =
     \<lparr> rm_method = hq_Method r, rm_endpoint = sanitizeEndpoint E (hq_Path r),
       rm_requestID = boundedHeaderToken (header ''X-GitHub-Request-Id''),
       rm_retryAfter = (case parseRetryAfter E (header ''Retry-After'') now of None \<Rightarrow> 0 | Some w \<Rightarrow> min w (24 * hour)),
       rm_rateLimitResetUnix = (case Atoi (header ''X-RateLimit-Reset'') of None \<Rightarrow> 0 | Some n \<Rightarrow> if n \<ge> 0 then n else 0),
       rm_statusCode = 0 \<rparr>"

definition apiError :: "int \<Rightarrow> request_failure_metadata \<Rightarrow> api_error" where
  "apiError status m =
     \<lparr> api_StatusCode = status, api_Method = rm_method m, api_Endpoint = rm_endpoint m, api_RequestID = rm_requestID m,
       api_RetryAfter = rm_retryAfter m, api_RateLimitResetUnix = rm_rateLimitResetUnix m \<rparr>"

definition rateLimitError :: "string \<Rightarrow> nat \<Rightarrow> bool \<Rightarrow> request_failure_metadata \<Rightarrow> rate_limit_error" where
  "rateLimitError reason retries exceeded m =
     \<lparr> rl_Reason = reason, rl_Retries = int retries, rl_BudgetExceeded = exceeded, rl_Method = rm_method m,
       rl_Endpoint = rm_endpoint m, rl_RequestID = rm_requestID m, rl_RetryAfter = rm_retryAfter m,
       rl_RateLimitResetUnix = rm_rateLimitResetUnix m, rl_StatusCode = rm_statusCode m \<rparr>"

section \<open>One request with its retries\<close>

definition rateLimitWait :: "client_env \<Rightarrow> http_answer \<Rightarrow> nat \<Rightarrow> time \<Rightarrow> (string \<times> int) option" where
  "rateLimitWait E a retry now =
     (let header = hy_Header a; secondary = (\<lambda>_ :: unit.
        case parseRetryAfter E (header ''Retry-After'') now of
          Some w \<Rightarrow> Some (''secondary'', w)
        | None \<Rightarrow>
            if hy_Status a = 429 \<or> Contains (ToLower (ce_lower E) (hy_Body a)) ''secondary rate limit''
            then Some (''secondary'', minute * 2 ^ min retry 5) else None) in
      if hy_Status a \<noteq> 403 \<and> hy_Status a \<noteq> 429 then None
      else if Atoi (header ''X-RateLimit-Remaining'') = Some 0 then
        (case Atoi (header ''X-RateLimit-Reset'') of
           Some n \<Rightarrow> Some (''primary'', max (Sub (Unix n) now) 0)
         | None \<Rightarrow> secondary ())
      else secondary ())"

definition observeRetry :: "string \<Rightarrow> string \<Rightarrow> int \<Rightarrow> nat \<Rightarrow> client_state \<Rightarrow> client_state" where
  "observeRetry st reason wait retry s =
     s\<lparr>cs_events := cs_events s @ [\<lparr> ev_State = st, ev_Reason = reason, ev_Wait = wait, ev_Retry = retry,
        ev_ObservedAt = cs_now s \<rparr>]\<rparr>"

definition observeRateLimit :: "(string \<Rightarrow> string) \<Rightarrow> client_state \<Rightarrow> client_state" where
  "observeRateLimit header s =
     (case (Atoi (header ''X-RateLimit-Remaining''), Atoi (header ''X-RateLimit-Limit''), Atoi (header ''X-RateLimit-Reset'')) of
        (Some remaining, Some limit, Some reset) \<Rightarrow>
          if remaining < 0 \<or> limit \<le> 0 then s
          else s\<lparr>cs_limits := cs_limits s @ [\<lparr> ob_Remaining = remaining, ob_Limit = limit, ob_ResetAt = Unix reset,
            ob_ObservedAt = cs_now s \<rparr>]\<rparr>
      | _ \<Rightarrow> s)"

definition exchange :: "world \<Rightarrow> http_request_line \<Rightarrow> client_state \<Rightarrow> http_outcome \<times> client_state" where
  "exchange X r s = (let (o1, t) = X (cs_count s) r (cs_now s) in (o1, s\<lparr>cs_now := t, cs_count := Suc (cs_count s)\<rparr>))"

definition transport_failure :: "request_failure_metadata \<Rightarrow> bool \<Rightarrow> failure" where
  "transport_failure m timed = Transport \<lparr> tr_Method = rm_method m, tr_Endpoint = rm_endpoint m, tr_TimedOut = timed \<rparr>"

text \<open>The loop of \<open>doRequest\<close>; \<open>reason\<close> is the last reason of a limit, empty before the first.\<close>

function request_loop ::
  "client_env \<Rightarrow> world \<Rightarrow> time \<Rightarrow> http_request_line \<Rightarrow> nat \<Rightarrow> string \<Rightarrow> client_state \<Rightarrow>
   (failure + int \<times> string \<times> request_failure_metadata) \<times> client_state" where
  "request_loop E X deadline r retry reason s =
     (let (o1, s1) = exchange X r s in
      case o1 of
        ContextDone late \<Rightarrow> (Inl (if late then DeadlineExceeded else Canceled), s1)
      | NoAnswer timed \<Rightarrow> (Inl (transport_failure (boundedRequestMetadata E r (\<lambda>_. []) (cs_now s)) timed), s1)
      | BrokenAnswer a timed \<Rightarrow> (Inl (transport_failure (boundedRequestMetadata E r (hy_Header a) (cs_now s1)) timed), s1)
      | Answered a \<Rightarrow>
         (let m = (boundedRequestMetadata E r (hy_Header a) (cs_now s1))\<lparr>rm_statusCode := hy_Status a\<rparr>;
              s2 = observeRateLimit (hy_Header a) s1 in
          case rateLimitWait E a retry (cs_now s2) of
            None \<Rightarrow> (Inr (hy_Status a, hy_Body a, m),
              if reason \<noteq> [] then observeRetry ''recovered'' reason 0 retry s2 else s2)
          | Some (limit, wait) \<Rightarrow>
              if retry \<ge> ce_max_retries E
              then (Inl (RateLimit (rateLimitError limit retry False m)), observeRetry ''failed'' limit 0 retry s2)
              else if cs_now s2 + wait > deadline
              then (Inl (RateLimit (rateLimitError limit retry True m)), observeRetry ''failed'' limit wait retry s2)
              else let s3 = observeRetry ''waiting'' limit wait (retry + 1) s2; (stop, t) = ce_sleep E (cs_now s3) wait in
                case stop of
                  Some e \<Rightarrow> (Inl e, s3\<lparr>cs_now := t\<rparr>)
                | None \<Rightarrow> request_loop E X deadline r (retry + 1) limit (s3\<lparr>cs_now := t\<rparr>)))"
  by pat_completeness auto
termination
  by (relation "measure (\<lambda>(E, X, deadline, r, retry, reason, s). ce_max_retries E - retry)") auto

declare request_loop.simps [simp del]

text \<open>The deadline of the whole operation when it has one (\<open>withRateLimitDeadline\<close>), otherwise of this request.\<close>

definition doRequest ::
  "client_env \<Rightarrow> world \<Rightarrow> time option \<Rightarrow> http_request_line \<Rightarrow> client_state \<Rightarrow>
   (failure + int \<times> string \<times> request_failure_metadata) \<times> client_state" where
  "doRequest E X deadline r s =
     (if ce_path E (hq_Path r) = None then (Inl (Wrapped ''build GitHub API URL'' (Plain [])), s)
      else request_loop E X (case deadline of Some d \<Rightarrow> d | None \<Rightarrow> cs_now s + ce_budget E) r 0 [] s)"

definition withRateLimitDeadline :: "client_env \<Rightarrow> time option \<Rightarrow> client_state \<Rightarrow> time option" where
  "withRateLimitDeadline E deadline s = (case deadline of Some d \<Rightarrow> Some d | None \<Rightarrow> Some (cs_now s + ce_budget E))"

section \<open>JSON requests\<close>

definition isRepositoryPullList :: "string \<Rightarrow> bool" where
  "isRepositoryPullList requestPath =
     (let parts = Split (trim_slashes (fst (Cut requestPath (CHR ''?'')))) (CHR ''/'') in
      length parts = 4 \<and> hd parts = ''repos'' \<and> parts ! 3 = ''pulls'')"

definition status_failure :: "client_env \<Rightarrow> http_request_line \<Rightarrow> int \<Rightarrow> request_failure_metadata \<Rightarrow> failure" where
  "status_failure E r status m =
     (let e = Api (apiError status m) in
      if status = 401 then
        (if ce_profile E = ProfileGitHubApp \<and> hq_Credential r \<noteq> [] \<and> \<not> HasPrefix (hq_Path r) ''/app''
         then newRefreshableRouteFailure FailureCredentialInvalid (Some e)
         else NewRouteFailure FailureCredentialInvalid (Some e))
      else if status = 403 then NewRouteFailure FailurePermissionMissing (Some e)
      else if status = 404 then
        (if HasPrefix (hq_Path r) ''/app/installations/'' then NewRouteFailure FailureInstallationMissing (Some e)
         else if isRepositoryPullList (hq_Path r) then NewRouteFailure FailureRepositoryNotGranted (Some e)
         else e)
      else e)"

definition requestJSON ::
  "client_env \<Rightarrow> world \<Rightarrow> time option \<Rightarrow> http_request_line \<Rightarrow> (string \<Rightarrow> 'a option) \<Rightarrow> client_state \<Rightarrow>
   (failure + 'a) \<times> client_state" where
  "requestJSON E X deadline r decode s =
     (case doRequest E X deadline r s of
        (Inl e, s1) \<Rightarrow> (Inl e, s1)
      | (Inr (status, body, m), s1) \<Rightarrow>
          if status < 200 \<or> status \<ge> 300 then (Inl (status_failure E r status m), s1)
          else (case decode body of
             None \<Rightarrow> (Inl (Wrapped ''decode GitHub API response'' (Plain [])), s1)
           | Some v \<Rightarrow> (Inr v, s1)))"

section \<open>Installation tokens\<close>

definition tokenCacheKey :: "string list \<Rightarrow> string" where
  "tokenCacheKey repositories = Join (sort repositories) [CHR 0x00]"

definition cached_token :: "string \<Rightarrow> client_state \<Rightarrow> string option" where
  "cached_token key s =
     (case map_of (cs_tokens s) key of
        None \<Rightarrow> None
      | Some (v, expires) \<Rightarrow> if v \<noteq> [] \<and> cs_now s + 5 * minute < expires then Some v else None)"

definition check_token :: "token_answer \<Rightarrow> failure option" where
  "check_token a =
     (if ta_Token a = [] \<or> IsZero (ta_ExpiresAt a) then Some (Plain ''GitHub returned an invalid installation token'')
      else if ta_PullRequests a \<noteq> [] \<and> ta_PullRequests a \<noteq> ''read'' then Some (Plain ''unexpected pull_requests permission'')
      else if ta_Checks a \<noteq> [] \<and> ta_Checks a \<noteq> ''read'' then Some (Plain ''unexpected checks permission'')
      else None)"

definition accessToken ::
  "client_env \<Rightarrow> world \<Rightarrow> time option \<Rightarrow> string list \<Rightarrow> client_state \<Rightarrow> (failure + string) \<times> client_state" where
  "accessToken E X deadline repositories s =
     (if ce_profile E = ProfileFineGrainedPAT then (Inr (ce_static_token E), s)
      else let sorted = sort repositories; key = tokenCacheKey sorted in
        case cached_token key s of
          Some v \<Rightarrow> (Inr v, s)
        | None \<Rightarrow>
           (case ce_jwt E (cs_now s) of
              None \<Rightarrow> (Inl (Plain ''sign GitHub App token''), s)
            | Some jwt \<Rightarrow>
                if list_ex (\<lambda>r. length (Split r (CHR ''/'')) \<noteq> 2) sorted
                then (Inl (Plain ''repository must use owner/name''), s)
                else
                  (case requestJSON E X deadline
                     \<lparr> hq_Method = ''POST'', hq_Path = ''/app/installations/'' @ Itoa (ce_installation E) @ ''/access_tokens'',
                       hq_Credential = jwt,
                       hq_Body = Some (ce_token_body E (map (\<lambda>r. Split r (CHR ''/'') ! 1) sorted)) \<rparr>
                     (ce_decode_token E) s of
                     (Inl e, s1) \<Rightarrow> (Inl e, s1)
                   | (Inr a, s1) \<Rightarrow>
                       (case check_token a of
                          Some e \<Rightarrow> (Inl e, s1)
                        | None \<Rightarrow> (Inr (ta_Token a), s1\<lparr>cs_tokens := (key, ta_Token a, ta_ExpiresAt a) # cs_tokens s1\<rparr>)))))"

definition evictToken :: "string \<Rightarrow> client_state \<Rightarrow> client_state" where
  "evictToken repository s = s\<lparr>cs_tokens := filter (\<lambda>x. fst x \<noteq> tokenCacheKey [repository]) (cs_tokens s)\<rparr>"

text \<open>
  The loop that every exported operation runs: one more attempt with a new token after a rejected one. \<open>None\<close> stands
  for an attempt that does not end.
\<close>

definition with_new_token ::
  "client_env \<Rightarrow> string \<Rightarrow> (client_state \<Rightarrow> ((failure + 'a) \<times> client_state) option) \<Rightarrow> client_state \<Rightarrow>
   ((failure + 'a) \<times> client_state) option" where
  "with_new_token E repository once s =
     (case once s of
        None \<Rightarrow> None
      | Some (Inr v, s1) \<Rightarrow> Some (Inr v, s1)
      | Some (Inl e, s1) \<Rightarrow>
          if ce_profile E \<noteq> ProfileGitHubApp \<or> \<not> isCredentialFailure e then Some (Inl e, s1)
          else once (evictToken repository s1))"

end
