(* ===== verification/Collect.thy ===== *)
theory Collect
  imports Requests Diffs Scheduler
begin

text \<open>
  Two collectors of the GitHub client: the discovery of the open pull requests of a repository with the collections
  they belong to, and the bounded patches of one head. URL building and JSON decoding are functions of the environment.
  The list of open pull requests is paged until a short page, so that loop takes the number of pages it may read
  (\<open>None\<close> when they do not suffice).
\<close>

record collect_env =
  co_client :: client_env
  co_plans :: "(string \<times> discovery_target list) list"
  co_escape :: "string \<Rightarrow> string"
  co_search :: "string \<Rightarrow> nat \<Rightarrow> string"
  co_pulls :: "string \<Rightarrow> int list option"
  co_found :: "string \<Rightarrow> (int \<times> bool \<times> int list) option"
  co_files :: "string \<Rightarrow> (string \<times> string) list option"
  co_head :: "string \<Rightarrow> string option"

definition get_request :: "string \<Rightarrow> string \<Rightarrow> http_request_line" where
  "get_request path token = \<lparr> hq_Method = ''GET'', hq_Path = path, hq_Credential = token, hq_Body = None \<rparr>"

section \<open>Discovery\<close>

definition list_path :: "collect_env \<Rightarrow> string \<Rightarrow> string \<Rightarrow> nat \<Rightarrow> string" where
  "list_path C owner name page =
     ''/repos/'' @ co_escape C owner @ ''/'' @ co_escape C name @ ''/pulls?state=open&per_page=100&page='' @ Itoa (int page)"

definition page_failure :: "string \<Rightarrow> nat \<Rightarrow> failure \<Rightarrow> failure" where
  "page_failure what page e = (if page > 1 then Incomplete (Wrapped what e) else Wrapped what e)"

fun discoverAllOpen ::
  "collect_env \<Rightarrow> world \<Rightarrow> time option \<Rightarrow> string \<Rightarrow> string \<Rightarrow> string \<Rightarrow> nat \<Rightarrow> nat \<Rightarrow> int list \<Rightarrow> client_state \<Rightarrow>
   ((failure + int list) \<times> client_state) option" where
  "discoverAllOpen C X deadline token owner name 0 page numbers s = None"
| "discoverAllOpen C X deadline token owner name (Suc n) page numbers s =
     (case requestJSON (co_client C) X deadline (get_request (list_path C owner name page) token) (co_pulls C) s of
        (Inl e, s1) \<Rightarrow> Some (Inl (page_failure ''list open pull requests'' page e), s1)
      | (Inr batch, s1) \<Rightarrow>
          if length batch < 100 then Some (Inr (numbers @ batch), s1)
          else discoverAllOpen C X deadline token owner name n (page + 1) (numbers @ batch) s1)"

text \<open>At most ten pages of search results: numbers so far, the last total, and whether any page was incomplete.\<close>

fun search_pages ::
  "collect_env \<Rightarrow> world \<Rightarrow> time option \<Rightarrow> string \<Rightarrow> string \<Rightarrow> nat \<Rightarrow> nat \<Rightarrow> int list \<times> int \<times> bool \<Rightarrow> client_state \<Rightarrow>
   (failure + int list \<times> int \<times> bool) \<times> client_state" where
  "search_pages C X deadline token terms 0 page acc s = (Inr acc, s)"
| "search_pages C X deadline token terms (Suc n) page (numbers, available, incomplete) s =
     (case requestJSON (co_client C) X deadline (get_request (''/search/issues?'' @ co_search C terms page) token) (co_found C) s of
        (Inl e, s1) \<Rightarrow> (Inl (page_failure ''search pull requests'' page e), s1)
      | (Inr (found, part, items), s1) \<Rightarrow>
          (let acc = (numbers @ items, found, incomplete \<or> part) in
           if length items < 100 then (Inr acc, s1)
           else search_pages C X deadline token terms n (page + 1) acc s1))"

definition deduplicateInts :: "int list \<Rightarrow> int list" where
  "deduplicateInts values = dedup_on id [] values"

definition discoverSearch ::
  "collect_env \<Rightarrow> world \<Rightarrow> time option \<Rightarrow> string \<Rightarrow> string \<Rightarrow> string \<Rightarrow> client_state \<Rightarrow>
   (failure + int list \<times> gh_limit option) \<times> client_state" where
  "discoverSearch C X deadline token repository configuredQuery s =
     (case search_pages C X deadline token (''repo:'' @ repository @ '' is:pr is:open '' @ configuredQuery) 10 1 ([], 0, False) s of
        (Inl e, s1) \<Rightarrow> (Inl e, s1)
      | (Inr (numbers, available, incomplete), s1) \<Rightarrow>
          (let found = deduplicateInts numbers in
           (Inr (found, if incomplete \<or> available > int (length found)
              then Some \<lparr> gl_Scope = ''discovery_search'', gl_Reason = ''provider_limit'',
                gl_Collected = int (length found), gl_Total = available \<rparr> else None), s1)))"

text \<open>
  The strategies of a repository, each once with the collections that use it. Go ranges over them in an arbitrary order;
  here it is the order of their first plan.
\<close>

definition plan_mode :: "discovery_target \<Rightarrow> string" where
  "plan_mode p = (if dt_Mode p = [] then ''all_open'' else dt_Mode p)"

definition plans_of :: "collect_env \<Rightarrow> string \<Rightarrow> discovery_target list" where
  "plans_of C repository =
     (let plans = (case map_of (co_plans C) repository of None \<Rightarrow> [] | Some ps \<Rightarrow> ps) in
      if plans = [] then [\<lparr> dt_CollectionID = [], dt_Mode = ''all_open'', dt_Query = [] \<rparr>] else plans)"

definition strategies :: "discovery_target list \<Rightarrow> ((string \<times> string) \<times> string list) list" where
  "strategies plans =
     map (\<lambda>k. (k, map dt_CollectionID (filter (\<lambda>p. (plan_mode p, dt_Query p) = k) plans)))
       (dedup_on id [] (map (\<lambda>p. (plan_mode p, dt_Query p)) plans))"

text \<open>The set of collections of each number, as a list of pairs; the empty identifier of the default plan is left out.\<close>

definition add_match :: "string list \<Rightarrow> int \<Rightarrow> (int \<times> string list) list \<Rightarrow> (int \<times> string list) list" where
  "add_match ids number matches =
     upsert fst (\<lambda>old new. (fst old, snd old @ snd new)) (number, filter (\<lambda>i. i \<noteq> []) ids) matches"

fun run_strategies ::
  "collect_env \<Rightarrow> world \<Rightarrow> time option \<Rightarrow> nat \<Rightarrow> string \<Rightarrow> string \<Rightarrow> string \<Rightarrow> string \<Rightarrow> ((string \<times> string) \<times> string list) list \<Rightarrow>
   (int \<times> string list) list \<Rightarrow> gh_limit list \<Rightarrow> client_state \<Rightarrow>
   ((failure + (int \<times> string list) list \<times> gh_limit list) \<times> client_state) option" where
  "run_strategies C X deadline fuel token repository owner name [] matches limits s = Some (Inr (matches, limits), s)"
| "run_strategies C X deadline fuel token repository owner name (((mode, terms), ids) # rest) matches limits s =
     (let continue = (\<lambda>numbers more s1. run_strategies C X deadline fuel token repository owner name rest
        (foldl (\<lambda>m n. add_match ids n m) matches numbers) (limits @ more) s1) in
      if mode = ''all_open'' then
        (case discoverAllOpen C X deadline token owner name fuel 1 [] s of
           None \<Rightarrow> None
         | Some (Inl e, s1) \<Rightarrow> Some (Inl e, s1)
         | Some (Inr numbers, s1) \<Rightarrow> continue numbers [] s1)
      else if mode = ''search'' then
        (case discoverSearch C X deadline token repository terms s of
           (Inl e, s1) \<Rightarrow> Some (Inl e, s1)
         | (Inr (numbers, limit), s1) \<Rightarrow> continue numbers (case limit of None \<Rightarrow> [] | Some l \<Rightarrow> [l]) s1)
      else Some (Inl (Plain ''unsupported discovery mode''), s))"

definition sortedSet :: "string list \<Rightarrow> string list" where
  "sortedSet values = sort (remdups values)"

definition discovered :: "string \<Rightarrow> (int \<times> string list) list \<Rightarrow> gh_limit list \<Rightarrow> discovery_result" where
  "discovered repository matches limits =
     \<lparr> dr_Repository = repository,
       dr_PullRequests = map (\<lambda>(n, ids). \<lparr> dq_Number = n, dq_CollectionIDs = sortedSet ids, dq_ContextLimits = limits \<rparr>)
         (sort_key fst matches),
       dr_Limits = limits \<rparr>"

definition discoverOnce ::
  "collect_env \<Rightarrow> world \<Rightarrow> time option \<Rightarrow> nat \<Rightarrow> string \<Rightarrow> client_state \<Rightarrow>
   ((failure + discovery_result) \<times> client_state) option" where
  "discoverOnce C X deadline fuel repository s =
     (let d = withRateLimitDeadline (co_client C) deadline s in
      case splitRepository repository of
        Inl e \<Rightarrow> Some (Inl e, s)
      | Inr (owner, name) \<Rightarrow>
         (case accessToken (co_client C) X d [repository] s of
            (Inl e, s1) \<Rightarrow> Some (Inl (Wrapped ''authenticate GitHub App installation'' e), s1)
          | (Inr token, s1) \<Rightarrow>
             (case run_strategies C X d fuel token repository owner name (strategies (plans_of C repository)) [] [] s1 of
                None \<Rightarrow> None
              | Some (Inl e, s2) \<Rightarrow> Some (Inl e, s2)
              | Some (Inr (matches, limits), s2) \<Rightarrow> Some (Inr (discovered repository matches limits), s2))))"

definition Discover ::
  "collect_env \<Rightarrow> world \<Rightarrow> time option \<Rightarrow> nat \<Rightarrow> string \<Rightarrow> client_state \<Rightarrow>
   ((failure + discovery_result) \<times> client_state) option" where
  "Discover C X deadline fuel repository =
     with_new_token (co_client C) repository (discoverOnce C X deadline fuel repository)"

section \<open>The patches of a head\<close>

datatype diff_failure = HeadChanged string string | DiffRequest failure | DiffIdentity

definition verifyPullRequestHead ::
  "collect_env \<Rightarrow> world \<Rightarrow> time option \<Rightarrow> string \<Rightarrow> string \<Rightarrow> string \<Rightarrow> client_state \<Rightarrow> (diff_failure + unit) \<times> client_state" where
  "verifyPullRequestHead C X deadline pullPath token expected s =
     (case requestJSON (co_client C) X deadline (get_request pullPath token) (co_head C) s of
        (Inl e, s1) \<Rightarrow> (Inl (DiffRequest (Wrapped ''verify pull request head'' e)), s1)
      | (Inr sha, s1) \<Rightarrow> (if sha \<noteq> expected then Inl (HeadChanged expected sha) else Inr (), s1))"

definition files_path :: "string \<Rightarrow> nat \<Rightarrow> nat \<Rightarrow> string" where
  "files_path pullPath perPage page = pullPath @ ''/files?per_page='' @ Itoa (int perPage) @ ''&page='' @ Itoa (int page)"

definition maxDiffFiles :: nat where "maxDiffFiles = 100"

function diff_files ::
  "collect_env \<Rightarrow> world \<Rightarrow> time option \<Rightarrow> string \<Rightarrow> string \<Rightarrow> nat \<Rightarrow> (string \<times> string) list \<Rightarrow> client_state \<Rightarrow>
   (diff_failure + (string \<times> string) list) \<times> client_state" where
  "diff_files C X deadline pullPath token page files s =
     (if length files \<ge> maxDiffFiles then (Inr files, s)
      else let perPage = min 100 (maxDiffFiles - length files) in
        case requestJSON (co_client C) X deadline
          (get_request (files_path pullPath perPage page) token) (co_files C) s of
          (Inl e, s1) \<Rightarrow> (Inl (DiffRequest (Wrapped ''collect pull request diff'' e)), s1)
        | (Inr batch, s1) \<Rightarrow>
            (let files1 = files @ take (min (length batch) (maxDiffFiles - length files)) batch in
             if length batch < perPage then (Inr files1, s1)
             else diff_files C X deadline pullPath token (page + 1) files1 s1))"
  by pat_completeness auto
termination
  by (relation "measure (\<lambda>(C, X, deadline, pullPath, token, page, files, s). maxDiffFiles - length files)") (auto simp: maxDiffFiles_def)

declare diff_files.simps [simp del]

definition truncateBytes :: "string \<Rightarrow> nat \<Rightarrow> string" where
  "truncateBytes value limit = (if length value \<le> limit then value else chop_invalid (take limit value))"

text \<open>The sources that fit, in order, with the bytes that remain; the flag is set by a patch of which nothing fits.\<close>

fun sent_sources :: "(string \<times> string) list \<Rightarrow> nat \<Rightarrow> diff_source list \<times> bool" where
  "sent_sources [] remaining = ([], False)"
| "sent_sources ((filename, patch) # files) remaining =
     (if filename = [] \<or> patch = [] \<or> remaining = 0 then sent_sources files remaining
      else let sent = truncateBytes patch (min (8 * 1024) remaining) in
        if sent = [] then (fst (sent_sources files remaining), True)
        else let (sources, truncated) = sent_sources files (remaining - length sent);
                 source = \<lparr> src_Path = filename, src_Patch = sent, src_OriginalBytes = int (length patch),
                   src_SentBytes = int (length sent), src_Truncated = (length sent \<noteq> length patch) \<rparr>
          in (source # sources, truncated \<or> src_Truncated source))"

definition diff_evidence_of :: "(string \<times> string) list \<Rightarrow> int \<Rightarrow> diff_evidence" where
  "diff_evidence_of files changedFiles =
     (let original = max changedFiles (int (length files)); (sources, cut) = sent_sources files (128 * 1024);
          sent = int (length sources); omitted = max (original - sent) 0; truncated = (cut \<or> omitted > 0) in
      \<lparr> dv_Completeness = (if truncated then ''partial'' else ''complete''), dv_OriginalFiles = original, dv_SentFiles = sent,
        dv_OmittedFiles = omitted, dv_OriginalBytes = (\<Sum>f\<leftarrow>files. int (length (snd f))),
        dv_SentBytes = (\<Sum>x\<leftarrow>sources. int (length (src_Patch x))), dv_Truncated = truncated, dv_Sources = sources \<rparr>)"

definition collectPullRequestDiffOnce ::
  "collect_env \<Rightarrow> world \<Rightarrow> time option \<Rightarrow> string \<Rightarrow> int \<Rightarrow> string \<Rightarrow> int \<Rightarrow> client_state \<Rightarrow> (diff_failure + diff_evidence) \<times> client_state" where
  "collectPullRequestDiffOnce C X deadline repository number headSHA changedFiles s =
     (let (owner, name, ok) = Cut repository (CHR ''/'') in
      if \<not> ok \<or> owner = [] \<or> name = [] \<or> number \<le> 0 \<or> headSHA = [] then (Inl DiffIdentity, s)
      else case accessToken (co_client C) X deadline [repository] s of
        (Inl e, s1) \<Rightarrow> (Inl (DiffRequest (Wrapped ''authenticate pull request diff'' e)), s1)
      | (Inr token, s1) \<Rightarrow>
         (let pullPath = ''/repos/'' @ co_escape C owner @ ''/'' @ co_escape C name @ ''/pulls/'' @ Itoa number in
          case verifyPullRequestHead C X deadline pullPath token headSHA s1 of
            (Inl e, s2) \<Rightarrow> (Inl e, s2)
          | (Inr _, s2) \<Rightarrow>
             (case diff_files C X deadline pullPath token 1 [] s2 of
                (Inl e, s3) \<Rightarrow> (Inl e, s3)
              | (Inr files, s3) \<Rightarrow>
                 (case verifyPullRequestHead C X deadline pullPath token headSHA s3 of
                    (Inl e, s4) \<Rightarrow> (Inl e, s4)
                  | (Inr _, s4) \<Rightarrow> (Inr (diff_evidence_of files changedFiles), s4)))))"

definition diff_credential :: "diff_failure \<Rightarrow> bool" where
  "diff_credential f = (case f of DiffRequest e \<Rightarrow> isCredentialFailure e | _ \<Rightarrow> False)"

definition CollectPullRequestDiff ::
  "collect_env \<Rightarrow> world \<Rightarrow> time option \<Rightarrow> string \<Rightarrow> int \<Rightarrow> string \<Rightarrow> int \<Rightarrow> client_state \<Rightarrow> (diff_failure + diff_evidence) \<times> client_state" where
  "CollectPullRequestDiff C X deadline repository number headSHA changedFiles s =
     (case collectPullRequestDiffOnce C X deadline repository number headSHA changedFiles s of
        (Inr e, s1) \<Rightarrow> (Inr e, s1)
      | (Inl f, s1) \<Rightarrow>
          if ce_profile (co_client C) \<noteq> ProfileGitHubApp \<or> \<not> diff_credential f then (Inl f, s1)
          else collectPullRequestDiffOnce C X deadline repository number headSHA changedFiles (evictToken repository s1))"

end
