(* ===== verification/CollectProps.thy ===== *)
theory CollectProps
  imports Collect "HOL-Library.Sublist"
begin

text \<open>
  What the request layer promises whatever the provider answers: bounded retries within the deadline, and a token that
  is valid for five minutes or new; and that the store accepts every evidence of patches the client collects.
\<close>

section \<open>A stub of the provider\<close>

definition stub_answer :: "int \<Rightarrow> http_answer" where
  "stub_answer status = \<lparr> hy_Status = status, hy_Header = (\<lambda>_. []), hy_Body = ''{}'' \<rparr>"

text \<open>The first exchange is limited, the others succeed.\<close>

definition limited_once :: world where
  "limited_once n r t = (Answered (stub_answer (if n = 0 then 429 else 200)), t)"

definition stub_client :: "profile_type \<Rightarrow> client_env" where
  "stub_client p =
     \<lparr> ce_profile = p, ce_static_token = ''pat'', ce_installation = 1, ce_budget = hour, ce_max_retries = 2,
       ce_lower = (\<lambda>s. s), ce_path = Some, ce_http_time = (\<lambda>_. None), ce_sleep = (\<lambda>t w. (None, t + w)),
       ce_jwt = (\<lambda>_. None), ce_token_body = (\<lambda>_. []), ce_decode_token = (\<lambda>_. None) \<rparr>"

definition stub_collect :: collect_env where
  "stub_collect =
     \<lparr> co_client = stub_client ProfileFineGrainedPAT, co_plans = [(''o/r'', [\<lparr> dt_CollectionID = ''b'', dt_Mode = ''all_open'', dt_Query = [] \<rparr>,
       \<lparr> dt_CollectionID = ''a'', dt_Mode = [], dt_Query = [] \<rparr>])], co_escape = (\<lambda>s. s), co_search = (\<lambda>s n. s),
       co_pulls = (\<lambda>_. Some [7, 3, 7]), co_found = (\<lambda>_. None), co_files = (\<lambda>_. Some [(''a.go'', ''+1''), (''b.go'', [])]),
       co_head = (\<lambda>_. Some ''abc'') \<rparr>"

definition stub_start :: client_state where
  "stub_start = \<lparr> cs_now = day, cs_count = 0, cs_tokens = [], cs_events = [], cs_limits = [] \<rparr>"

text \<open>An attempt that makes one exchange and is always refused.\<close>

definition always_rejected :: "client_state \<Rightarrow> ((failure + int) \<times> client_state) option" where
  "always_rejected s = Some (Inl (newRefreshableRouteFailure FailureCredentialInvalid None), s\<lparr>cs_count := Suc (cs_count s)\<rparr>)"

lemmas stub_simps = stub_answer_def limited_once_def stub_client_def stub_collect_def stub_start_def

section \<open>Retries\<close>

lemma observeRetry_simps [simp]:
  "cs_events (observeRetry st reason w k s) = cs_events s @ [\<lparr> ev_State = st, ev_Reason = reason, ev_Wait = w, ev_Retry = k, ev_ObservedAt = cs_now s \<rparr>]"
  "cs_count (observeRetry st reason w k s) = cs_count s" "cs_tokens (observeRetry st reason w k s) = cs_tokens s"
  "cs_now (observeRetry st reason w k s) = cs_now s"
  by (simp_all add: observeRetry_def)

lemma observeRateLimit_simps [simp]:
  "cs_events (observeRateLimit h s) = cs_events s" "cs_count (observeRateLimit h s) = cs_count s"
  "cs_tokens (observeRateLimit h s) = cs_tokens s" "cs_now (observeRateLimit h s) = cs_now s"
  by (simp_all add: observeRateLimit_def split: option.split)

lemma exchange_simps:
  assumes "exchange X r s = (o1, s1)"
  shows "cs_events s1 = cs_events s" "cs_count s1 = Suc (cs_count s)" "cs_tokens s1 = cs_tokens s"
  using assms by (auto simp: exchange_def split: prod.splits)

lemma limited_429: "hy_Status a = 429 \<Longrightarrow> rateLimitWait E a retry now \<noteq> None"
  by (auto simp: rateLimitWait_def Let_def split: option.splits)

text \<open>The events of waiting: numbered from \<open>k\<close>, each wait ends before the deadline.\<close>

fun waits :: "time \<Rightarrow> nat \<Rightarrow> retry_event list \<Rightarrow> bool" where
  "waits deadline k [] = True"
| "waits deadline k (e # es) \<longleftrightarrow>
     ev_State e = ''waiting'' \<and> ev_Retry e = k \<and> ev_ObservedAt e + ev_Wait e \<le> deadline \<and> waits deadline (Suc k) es"

definition outcome_events :: "(failure + 'a) \<Rightarrow> retry_event list \<Rightarrow> bool" where
  "outcome_events res es \<longleftrightarrow>
     es = [] \<or> (\<exists>e. es = [e] \<and> ev_State e = (case res of Inl _ \<Rightarrow> ''failed'' | Inr _ \<Rightarrow> ''recovered''))"

lemma request_loop_bounds:
  assumes "request_loop E X d r retry reason s = (res, s')" "retry \<le> ce_max_retries E"
  shows "\<exists>ws fin. cs_events s' = cs_events s @ ws @ fin \<and> waits d (Suc retry) ws \<and> outcome_events res fin \<and>
    length ws \<le> ce_max_retries E - retry \<and> cs_count s' \<le> cs_count s + Suc (length ws) \<and> cs_count s < cs_count s' \<and>
    cs_tokens s' = cs_tokens s \<and> (\<forall>st b m. res = Inr (st, b, m) \<longrightarrow> st \<noteq> 429)"
  using assms
proof (induction "ce_max_retries E - retry" arbitrary: retry reason s rule: less_induct)
  case (less retry reason s)
  obtain o1 s1 where x: "exchange X r s = (o1, s1)" by (cases "exchange X r s")
  note S = exchange_simps [OF x]
  have stop: ?case if "cs_events s' = cs_events s @ fin" "outcome_events res fin" "cs_count s' = Suc (cs_count s)"
    "cs_tokens s' = cs_tokens s" "\<forall>st b m. res = Inr (st, b, m) \<longrightarrow> st \<noteq> 429" for fin
    by (rule exI [of _ "[]"], rule exI [of _ fin]) (use that in simp)
  have fail: ?case if "\<exists>e. res = Inl e \<and> s' = s1"
    using that S by (intro stop [of "[]"]) (auto simp: outcome_events_def)
  note start = less.prems(1) [unfolded request_loop.simps [of E X d r retry reason s]]
  show ?case
  proof (cases o1)
    case (Answered a)
    let ?s2 = "observeRateLimit (hy_Header a) s1"
    let ?m = "(boundedRequestMetadata E r (hy_Header a) (cs_now s1))\<lparr>rm_statusCode := hy_Status a\<rparr>"
    show ?thesis
    proof (cases "rateLimitWait E a retry (cs_now s1)")
      case None
      have "res = Inr (hy_Status a, hy_Body a, ?m)" "s' = (if reason \<noteq> [] then observeRetry ''recovered'' reason 0 retry ?s2 else ?s2)"
        using less.prems(1) unfolding request_loop.simps [of E X d r retry reason s] by (simp_all add: x Answered None Let_def)
      moreover have "hy_Status a \<noteq> 429" using limited_429 None by blast
      ultimately show ?thesis
        by (intro stop [of "if reason \<noteq> [] then [\<lparr> ev_State = ''recovered'', ev_Reason = reason, ev_Wait = 0, ev_Retry = retry,
          ev_ObservedAt = cs_now ?s2 \<rparr>] else []"]) (simp_all add: S outcome_events_def)
    next
      case (Some lw)
      obtain limit wait where lw: "lw = (limit, wait)" by (cases lw)
      note step = less.prems(1) [unfolded request_loop.simps [of E X d r retry reason s]]
      show ?thesis
      proof (cases "retry \<ge> ce_max_retries E")
        case True
        then have "res = Inl (RateLimit (rateLimitError limit retry False ?m))" "s' = observeRetry ''failed'' limit 0 retry ?s2"
          using step by (simp_all add: x Answered Some lw Let_def)
        then show ?thesis
          by (intro stop [of "[\<lparr> ev_State = ''failed'', ev_Reason = limit, ev_Wait = 0, ev_Retry = retry, ev_ObservedAt = cs_now ?s2 \<rparr>]"])
            (simp_all add: S outcome_events_def)
      next
        case less_max: False
        show ?thesis
        proof (cases "cs_now s1 + wait > d")
          case True
          then have "res = Inl (RateLimit (rateLimitError limit retry True ?m))" "s' = observeRetry ''failed'' limit wait retry ?s2"
            using step less_max by (simp_all add: x Answered Some lw Let_def)
          then show ?thesis
            by (intro stop [of "[\<lparr> ev_State = ''failed'', ev_Reason = limit, ev_Wait = wait, ev_Retry = retry, ev_ObservedAt = cs_now ?s2 \<rparr>]"])
              (simp_all add: S outcome_events_def)
        next
          case False
          let ?s3 = "observeRetry ''waiting'' limit wait (retry + 1) ?s2"
          let ?e = "\<lparr> ev_State = ''waiting'', ev_Reason = limit, ev_Wait = wait, ev_Retry = retry + 1, ev_ObservedAt = cs_now ?s2 \<rparr>"
          obtain st t where sl: "ce_sleep E (cs_now s1) wait = (st, t)" by (cases "ce_sleep E (cs_now s1) wait")
          show ?thesis
          proof (cases st)
            case (Some e)
            then have "res = Inl e" "s' = ?s3\<lparr>cs_now := t\<rparr>"
              using step less_max False sl by (simp_all add: x Answered \<open>rateLimitWait E a retry (cs_now s1) = Some lw\<close> lw Let_def)
            with False less_max show ?thesis
              by (intro exI [of _ "[?e]"] exI [of _ "[]"]) (simp add: S outcome_events_def)
          next
            case None
            have next_loop: "request_loop E X d r (retry + 1) limit (?s3\<lparr>cs_now := t\<rparr>) = (res, s')"
              using step less_max False sl None by (simp add: x Answered \<open>rateLimitWait E a retry (cs_now s1) = Some lw\<close> lw Let_def)
            have "ce_max_retries E - (retry + 1) < ce_max_retries E - retry" "retry + 1 \<le> ce_max_retries E" using less_max by simp_all
            from less.hyps [OF this(1) next_loop this(2)] obtain ws fin where I:
              "cs_events s' = cs_events (?s3\<lparr>cs_now := t\<rparr>) @ ws @ fin" "waits d (Suc (retry + 1)) ws" "outcome_events res fin"
              "length ws \<le> ce_max_retries E - (retry + 1)" "cs_count s' \<le> cs_count (?s3\<lparr>cs_now := t\<rparr>) + Suc (length ws)"
              "cs_count (?s3\<lparr>cs_now := t\<rparr>) < cs_count s'"
              "cs_tokens s' = cs_tokens (?s3\<lparr>cs_now := t\<rparr>)" "\<forall>st b m. res = Inr (st, b, m) \<longrightarrow> st \<noteq> 429" by blast
            show ?thesis
              by (rule exI [of _ "?e # ws"], rule exI [of _ fin]) (use I False less_max in \<open>simp add: S\<close>)
          qed
        qed
      qed
    qed
  next
    case (ContextDone late)
    show ?thesis by (rule fail) (use start in \<open>auto simp: x ContextDone\<close>)
  next
    case (NoAnswer timed)
    show ?thesis by (rule fail) (use start in \<open>auto simp: x NoAnswer\<close>)
  next
    case (BrokenAnswer a timed)
    show ?thesis by (rule fail) (use start in \<open>auto simp: x BrokenAnswer\<close>)
  qed
qed

text \<open>The deadline of a request.\<close>

definition deadline_of :: "client_env \<Rightarrow> time option \<Rightarrow> client_state \<Rightarrow> time" where
  "deadline_of E deadline s = (case deadline of Some d \<Rightarrow> d | None \<Rightarrow> cs_now s + ce_budget E)"

lemma doRequest_bounds:
  assumes "doRequest E X deadline r s = (res, s')"
  shows "\<exists>ws fin. cs_events s' = cs_events s @ ws @ fin \<and> waits (deadline_of E deadline s) 1 ws \<and> outcome_events res fin \<and>
    length ws \<le> ce_max_retries E \<and> cs_count s' \<le> cs_count s + Suc (length ws) \<and> cs_tokens s' = cs_tokens s \<and>
    cs_count s \<le> cs_count s' \<and> (\<forall>st b m. res = Inr (st, b, m) \<longrightarrow> st \<noteq> 429 \<and> cs_count s < cs_count s')"
proof (cases "ce_path E (hq_Path r) = None")
  case True
  with assms have "s' = s" "\<exists>e. res = Inl e" by (auto simp: doRequest_def)
  then show ?thesis by (intro exI [of _ "[]"]) (auto simp: outcome_events_def)
next
  case False
  with assms have "request_loop E X (deadline_of E deadline s) r 0 [] s = (res, s')"
    by (simp add: doRequest_def deadline_of_def)
  from request_loop_bounds [OF this] obtain ws fin where
    "cs_events s' = cs_events s @ ws @ fin" "waits (deadline_of E deadline s) (Suc 0) ws" "outcome_events res fin"
    "length ws \<le> ce_max_retries E - 0" "cs_count s' \<le> cs_count s + Suc (length ws)" "cs_count s < cs_count s'"
    "cs_tokens s' = cs_tokens s" "\<forall>st b m. res = Inr (st, b, m) \<longrightarrow> st \<noteq> 429" by blast
  then show ?thesis by (intro exI [of _ ws] exI [of _ fin]) simp
qed


lemma stub_request_run:
  defines "D \<equiv> doRequest (stub_client ProfileGitHubApp) limited_once None (get_request ''/user'' ''t'') stub_start"
  shows "cs_count (snd D) = 2 \<and> map ev_State (cs_events (snd D)) = [''waiting'', ''recovered'']"
  unfolding D_def by code_simp


section \<open>Tokens\<close>

lemma requestJSON_frame:
  assumes "requestJSON E X deadline r decode s = (res, s')"
  shows "cs_tokens s' = cs_tokens s" "cs_count s \<le> cs_count s'" "res = Inr v \<Longrightarrow> cs_count s < cs_count s'"
proof -
  obtain q s1 where d: "doRequest E X deadline r s = (q, s1)" by (cases "doRequest E X deadline r s")
  from doRequest_bounds [OF d] have b: "cs_tokens s1 = cs_tokens s" "cs_count s \<le> cs_count s1"
    "\<forall>st b m. q = Inr (st, b, m) \<longrightarrow> cs_count s < cs_count s1" by blast+
  from assms d have "s' = s1" by (auto simp: requestJSON_def split: sum.splits prod.splits if_splits option.splits)
  with b show "cs_tokens s' = cs_tokens s" "cs_count s \<le> cs_count s'" by simp_all
  show "res = Inr v \<Longrightarrow> cs_count s < cs_count s'"
    using assms d b(3) by (cases q) (auto simp: requestJSON_def split: prod.splits if_splits option.splits)
qed

text \<open>An application token is in the cache afterwards, and is either new or valid for five more minutes.\<close>

lemma accessToken_valid:
  assumes "accessToken E X deadline repositories s = (Inr v, s')" "ce_profile E \<noteq> ProfileFineGrainedPAT"
  shows "v \<noteq> []" "\<exists>expires. map_of (cs_tokens s') (tokenCacheKey (sort repositories)) = Some (v, expires) \<and>
      (cs_count s < cs_count s' \<or> s' = s \<and> cs_now s + 5 * minute < expires)"
proof -
  let ?key = "tokenCacheKey (sort repositories)"
  have both: "v \<noteq> [] \<and> (\<exists>expires. map_of (cs_tokens s') ?key = Some (v, expires) \<and>
      (cs_count s < cs_count s' \<or> s' = s \<and> cs_now s + 5 * minute < expires))"
  proof (cases "cached_token ?key s")
    case (Some w)
    with assms have "v = w" "s' = s" by (simp_all add: accessToken_def Let_def)
    with Some show ?thesis by (auto simp: cached_token_def split: option.splits if_splits)
  next
    case None
    from assms None obtain jwt where jwt: "ce_jwt E (cs_now s) = Some jwt"
      by (auto simp: accessToken_def Let_def split: option.splits)
    let ?r = "\<lparr> hq_Method = ''POST'', hq_Path = ''/app/installations/'' @ Itoa (ce_installation E) @ ''/access_tokens'',
      hq_Credential = jwt, hq_Body = Some (ce_token_body E (map (\<lambda>r. Split r (CHR ''/'') ! 1) (sort repositories))) \<rparr>"
    obtain q s1 where q: "requestJSON E X deadline ?r (ce_decode_token E) s = (q, s1)"
      by (cases "requestJSON E X deadline ?r (ce_decode_token E) s")
    from assms None jwt q obtain a where a: "q = Inr a" "check_token a = None" "v = ta_Token a"
      "s' = s1\<lparr>cs_tokens := (?key, ta_Token a, ta_ExpiresAt a) # cs_tokens s1\<rparr>"
      by (auto simp: accessToken_def Let_def split: if_splits sum.splits option.splits)
    from a(2) have "ta_Token a \<noteq> []" by (auto simp: check_token_def split: if_splits)
    with a requestJSON_frame(3) [OF q a(1)] show ?thesis by simp
  qed
  then show "v \<noteq> []" "\<exists>expires. map_of (cs_tokens s') ?key = Some (v, expires) \<and>
      (cs_count s < cs_count s' \<or> s' = s \<and> cs_now s + 5 * minute < expires)" by blast+
qed

lemma evicted_uncached: "cached_token (tokenCacheKey (sort [repository])) (evictToken repository s) = None"
proof -
  have "map_of (filter (\<lambda>x. fst x \<noteq> k) xs) k = None" for k and xs :: "(string \<times> string \<times> time) list"
    by (induction xs) auto
  then show ?thesis by (simp add: cached_token_def evictToken_def)
qed

lemma evicted_mints:
  assumes "accessToken E X deadline [repository] (evictToken repository s) = (Inr v, s')" "ce_profile E \<noteq> ProfileFineGrainedPAT"
  shows "cs_count s < cs_count s'"
proof -
  from accessToken_valid(2) [OF assms] obtain expires where
    m: "map_of (cs_tokens s') (tokenCacheKey (sort [repository])) = Some (v, expires)"
    and "cs_count (evictToken repository s) < cs_count s' \<or> s' = evictToken repository s \<and> cs_now (evictToken repository s) + 5 * minute < expires"
    by blast
  moreover have "cs_count (evictToken repository s) = cs_count s" by (simp add: evictToken_def)
  ultimately show ?thesis
    using evicted_uncached [of repository s] accessToken_valid(1) [OF assms] by (auto simp: cached_token_def)
qed

text \<open>
  A rejected token is replaced once: an operation runs again only when it failed with a refreshable credential failure of
  an application, then exactly once more, and in that attempt the token of the repository comes from a new request to
  GitHub, not from the cache.
\<close>

theorem rejected_token_replaced:
  assumes "with_new_token E repository once s = Some (res, s')"
  shows "once s = Some (res, s') \<or>
    (\<exists>e s1. once s = Some (Inl e, s1) \<and> isCredentialFailure e \<and> ce_profile E = ProfileGitHubApp \<and>
       once (evictToken repository s1) = Some (res, s') \<and>
       (\<forall>X deadline v s2. accessToken E X deadline [repository] (evictToken repository s1) = (Inr v, s2) \<longrightarrow>
          cs_count s1 < cs_count s2))"
proof -
  from assms obtain q s1 where o1: "once s = Some (q, s1)"
    by (auto simp: with_new_token_def split: option.splits)
  show ?thesis
  proof (cases "\<exists>e. q = Inl e \<and> isCredentialFailure e \<and> ce_profile E = ProfileGitHubApp")
    case True
    then obtain e where e: "q = Inl e" "isCredentialFailure e" "ce_profile E = ProfileGitHubApp" by blast
    then have "once (evictToken repository s1) = Some (res, s')" using assms o1 by (simp add: with_new_token_def)
    moreover have "cs_count s1 < cs_count s2"
      if "accessToken E X deadline [repository] (evictToken repository s1) = (Inr v, s2)" for X deadline v s2
      by (rule evicted_mints [OF that]) (simp add: e(3))
    ultimately show ?thesis using o1 e by blast
  next
    case False
    then have "once s = Some (res, s')" using assms o1 by (cases q) (auto simp: with_new_token_def split: if_splits)
    then show ?thesis ..
  qed
qed

theorem rejected_token_replaced_witness:
  "\<exists>e s1 s2. with_new_token (stub_client ProfileGitHubApp) ''o/r'' always_rejected stub_start = Some (Inl e, s2) \<and>
     cs_count s2 = 2 \<and> always_rejected stub_start = Some (Inl e, s1) \<and> isCredentialFailure e \<and>
     always_rejected (evictToken ''o/r'' s1) = Some (Inl e, s2)"
proof -
  let ?s2 = "stub_start\<lparr>cs_count := 2\<rparr>"
  have run: "with_new_token (stub_client ProfileGitHubApp) ''o/r'' always_rejected stub_start =
    Some (Inl (newRefreshableRouteFailure FailureCredentialInvalid None), ?s2)"
    by code_simp
  moreover have "always_rejected stub_start \<noteq> Some (Inl (newRefreshableRouteFailure FailureCredentialInvalid None), ?s2)"
    by (simp add: always_rejected_def stub_simps)
  ultimately show ?thesis using rejected_token_replaced [OF run] by (auto simp: always_rejected_def)
qed

lemma requestJSON_decoded:
  "requestJSON E X deadline r decode s = (Inr v, s') \<Longrightarrow> \<exists>body. decode body = Some v"
  by (auto simp: requestJSON_def split: sum.splits prod.splits if_splits option.splits)

section \<open>Discovered pull requests\<close>

definition matches_ok :: "string set \<Rightarrow> (int \<times> string list) list \<Rightarrow> bool" where
  "matches_ok I matches \<longleftrightarrow> distinct (map fst matches) \<and> (\<forall>m \<in> set matches. set (snd m) \<subseteq> I - {[]})"

lemma add_match_ok:
  assumes "matches_ok I matches" "set ids \<subseteq> I"
  shows "matches_ok I (add_match ids n matches)"
proof -
  have "distinct (map fst (add_match ids n matches))"
    unfolding add_match_def using assms(1) by (intro distinct_upsert) (simp_all add: matches_ok_def)
  moreover have "set (snd m) \<subseteq> I - {[]}" if "m \<in> set (add_match ids n matches)" for m
    using that assms by (auto simp: add_match_def upsert_def set_update_where matches_ok_def split: if_splits; fastforce)
  ultimately show ?thesis by (simp add: matches_ok_def)
qed

lemma add_matches_ok:
  "matches_ok I matches \<Longrightarrow> set ids \<subseteq> I \<Longrightarrow> matches_ok I (foldl (\<lambda>m n. add_match ids n m) matches numbers)"
  by (induction numbers arbitrary: matches) (simp_all add: add_match_ok)

lemma run_strategies_ok:
  assumes "run_strategies C X d fuel token repository owner name ss matches limits s = Some (Inr (out, ls), s')"
    "matches_ok I matches" "\<forall>x \<in> set ss. set (snd x) \<subseteq> I"
  shows "matches_ok I out"
  using assms
proof (induction ss arbitrary: matches limits s)
  case (Cons x ss)
  obtain mode terms ids where x: "x = ((mode, terms), ids)" by (cases x) auto
  then have ids: "set ids \<subseteq> I" and rest: "\<forall>x \<in> set ss. set (snd x) \<subseteq> I" using Cons.prems(3) by simp_all
  have step: ?case if "run_strategies C X d fuel token repository owner name ss
      (foldl (\<lambda>m n. add_match ids n m) matches numbers) more s1 = Some (Inr (out, ls), s')" for numbers more s1
    by (rule Cons.IH [OF that add_matches_ok [OF Cons.prems(2) ids] rest])
  show ?case
    using Cons.prems(1) step by (auto simp: x Let_def split: if_splits option.splits sum.splits prod.splits)
qed simp

lemma strategies_ids: "x \<in> set (strategies plans) \<Longrightarrow> set (snd x) \<subseteq> dt_CollectionID ` set plans"
  by (auto simp: strategies_def)

lemma discovered_ok:
  assumes "matches_ok I matches"
  shows "sorted_wrt (<) (map dq_Number (dr_PullRequests (discovered repository matches limits)))"
    "p \<in> set (dr_PullRequests (discovered repository matches limits)) \<Longrightarrow>
       sorted_wrt (<) (dq_CollectionIDs p) \<and> set (dq_CollectionIDs p) \<subseteq> I - {[]} \<and> dq_ContextLimits p = limits"
proof -
  have "map dq_Number (dr_PullRequests (discovered repository matches limits)) = map fst (sort_key fst matches)"
    by (simp add: discovered_def comp_def split_def)
  moreover have "distinct (map fst (sort_key fst matches))"
    using assms by (simp add: matches_ok_def distinct_map)
  ultimately show "sorted_wrt (<) (map dq_Number (dr_PullRequests (discovered repository matches limits)))"
    by (simp add: strict_sorted_iff)
  show "sorted_wrt (<) (dq_CollectionIDs p) \<and> set (dq_CollectionIDs p) \<subseteq> I - {[]} \<and> dq_ContextLimits p = limits"
    if "p \<in> set (dr_PullRequests (discovered repository matches limits))"
    using that assms by (auto simp: discovered_def sortedSet_def matches_ok_def strict_sorted_iff; fastforce)
qed

text \<open>Pages are read until a short one, and nothing of them is lost.\<close>

lemma discoverAllOpen_pages:
  assumes "discoverAllOpen C X d token owner name fuel page numbers s = Some (Inr out, s')"
  shows "\<exists>full short. out = numbers @ concat full @ short \<and> list_all (\<lambda>b. 100 \<le> length b) full \<and> length short < 100 \<and>
    length full < fuel \<and> (\<forall>b \<in> set (short # full). \<exists>body. co_pulls C body = Some b)"
  using assms
proof (induction fuel arbitrary: page numbers s)
  case (Suc fuel)
  obtain q s1 where q: "requestJSON (co_client C) X d (get_request (list_path C owner name page) token) (co_pulls C) s = (q, s1)"
    by (rule prod.exhaust)
  show ?case
  proof (cases q)
    case (Inr batch)
    obtain body where body: "co_pulls C body = Some batch" using requestJSON_decoded [OF q [unfolded Inr]] by (rule exE)
    show ?thesis
    proof (cases "length batch < 100")
      case True
      then have "out = numbers @ batch" using Suc.prems q Inr by simp
      with True body show ?thesis by (intro exI [of _ "[]"] exI [of _ batch]) auto
    next
      case False
      with Suc.prems q Inr have "discoverAllOpen C X d token owner name fuel (page + 1) (numbers @ batch) s1 = Some (Inr out, s')"
        by simp
      from Suc.IH [OF this] obtain full short where I: "out = (numbers @ batch) @ concat full @ short"
        "list_all (\<lambda>b. 100 \<le> length b) full" "length short < 100" "length full < fuel"
        "\<forall>b \<in> set (short # full). \<exists>body. co_pulls C body = Some b" by blast
      have "out = numbers @ concat (batch # full) @ short" "list_all (\<lambda>b. 100 \<le> length b) (batch # full)" "length (batch # full) < Suc fuel"
        using I(1,2,4) False by simp_all
      moreover have "\<forall>b \<in> set (short # batch # full). \<exists>body. co_pulls C body = Some b" using I(5) body by auto
      ultimately show ?thesis using I(3) by (intro exI [of _ "batch # full"] exI [of _ short] conjI)
    qed
  qed (use Suc.prems q in simp)
qed simp



section \<open>Collected patches\<close>

lemma truncateBytes_length: "length (truncateBytes v n) \<le> n" "length (truncateBytes v n) \<le> length v"
proof -
  obtain q where "take n v = chop_invalid (take n v) @ q" using chop_invalid_prefix by blast
  then have "length (chop_invalid (take n v)) \<le> length (take n v)" by (metis length_append le_add1)
  then show "length (truncateBytes v n) \<le> n" "length (truncateBytes v n) \<le> length v"
    by (auto simp: truncateBytes_def)
qed

lemma truncateBytes_valid: "ValidString v \<Longrightarrow> ValidString (truncateBytes v n)"
  by (simp add: truncateBytes_def ValidString_chop_invalid)

definition sent_bytes :: "diff_source list \<Rightarrow> int" where
  "sent_bytes ss = (\<Sum>x\<leftarrow>ss. int (length (src_Patch x)))"

lemma sent_sources_ok:
  assumes "sent_sources files remaining = (ss, trunc)" "\<forall>x \<in> set files. ValidString (snd x)"
  shows "list_all (\<lambda>s. \<not> invalid_source ValidString s) ss" "sent_bytes ss \<le> int remaining"
    "sent_bytes ss \<le> (\<Sum>f\<leftarrow>files. int (length (snd f)))" "length ss \<le> length files"
    "subseq (map src_Path ss) (map fst files)"
    "trunc \<Longrightarrow> length ss < length files \<or> list_ex src_Truncated ss"
    "list_ex src_Truncated ss \<Longrightarrow> trunc"
proof -
  have "list_all (\<lambda>s. \<not> invalid_source ValidString s) ss \<and> sent_bytes ss \<le> int remaining \<and>
    sent_bytes ss \<le> (\<Sum>f\<leftarrow>files. int (length (snd f))) \<and> length ss \<le> length files \<and> subseq (map src_Path ss) (map fst files) \<and>
    (trunc \<longrightarrow> length ss < length files \<or> list_ex src_Truncated ss) \<and> (list_ex src_Truncated ss \<longrightarrow> trunc)"
    using assms
  proof (induction files arbitrary: remaining ss trunc)
    case Nil
    then show ?case by (simp add: sent_bytes_def)
  next
    case (Cons f files)
    obtain name patch where f: "f = (name, patch)" by (cases f)
    let ?sent = "truncateBytes patch (min (8 * 1024) remaining)"
    have valid: "\<forall>x \<in> set files. ValidString (snd x)" "ValidString patch" using Cons.prems(2) f by auto
    have pos: "0 \<le> (\<Sum>f\<leftarrow>files. int (length (snd f)))" by (rule sum_list_nonneg) auto
    show ?case
    proof (cases "name = [] \<or> patch = [] \<or> remaining = 0")
      case True
      then have "sent_sources files remaining = (ss, trunc)" using Cons.prems(1) f by simp
      from Cons.IH [OF this valid(1)] show ?thesis by (auto simp: f)
    next
      case False
      show ?thesis
      proof (cases "?sent = []")
        case True
        with False Cons.prems(1) f have s: "ss = fst (sent_sources files remaining)" "trunc" by (simp_all add: Let_def)
        obtain c where "sent_sources files remaining = (ss, c)" using s(1) by (cases "sent_sources files remaining") simp
        from Cons.IH [OF this valid(1)] s(2) show ?thesis by (auto simp: f)
      next
        case sent: False
        obtain rest c where r: "sent_sources files (remaining - length ?sent) = (rest, c)"
          by (cases "sent_sources files (remaining - length ?sent)")
        let ?x = "\<lparr> src_Path = name, src_Patch = ?sent, src_OriginalBytes = int (length patch),
          src_SentBytes = int (length ?sent), src_Truncated = (length ?sent \<noteq> length patch) \<rparr>"
        from False sent r Cons.prems(1) f have s: "ss = ?x # rest" "trunc = (c \<or> src_Truncated ?x)" by (auto simp: Let_def)
        note I = Cons.IH [OF r valid(1)]
        have len: "length ?sent \<le> 8 * 1024" "length ?sent \<le> remaining" "length ?sent \<le> length patch"
          using truncateBytes_length [of patch "min (8 * 1024) remaining"] by simp_all
        have x: "\<not> invalid_source ValidString ?x"
          using False sent len truncateBytes_valid [OF valid(2)] by (simp add: invalid_source_def)
        have b: "sent_bytes ss = int (length ?sent) + sent_bytes rest" by (simp add: s sent_bytes_def)
        have "sent_bytes ss \<le> int remaining" using I len(2) unfolding b by linarith
        moreover have "sent_bytes ss \<le> (\<Sum>f\<leftarrow>f # files. int (length (snd f)))" using I len(3) unfolding b by (simp add: f)
        ultimately show ?thesis using I x s by (auto simp: f)
      qed
    qed
  qed
  then show "list_all (\<lambda>s. \<not> invalid_source ValidString s) ss" "sent_bytes ss \<le> int remaining"
    "sent_bytes ss \<le> (\<Sum>f\<leftarrow>files. int (length (snd f)))" "length ss \<le> length files"
    "subseq (map src_Path ss) (map fst files)"
    "trunc \<Longrightarrow> length ss < length files \<or> list_ex src_Truncated ss" "list_ex src_Truncated ss \<Longrightarrow> trunc" by blast+
qed

text \<open>A source shows the start of the patch of its file, and says so when it is not the whole.\<close>

definition shows_patch :: "string \<times> string \<Rightarrow> diff_source \<Rightarrow> bool" where
  "shows_patch f s \<longleftrightarrow> src_Path s = fst f \<and> prefix (src_Patch s) (snd f) \<and>
     src_OriginalBytes s = int (length (snd f)) \<and> (src_Truncated s \<longleftrightarrow> src_Patch s \<noteq> snd f)"

lemma truncateBytes_prefix: "prefix (truncateBytes v n) v"
proof -
  obtain q where "take n v = chop_invalid (take n v) @ q" using chop_invalid_prefix by blast
  then have "prefix (chop_invalid (take n v)) (take n v)" by (metis prefixI)
  then show ?thesis by (auto simp: truncateBytes_def intro: prefix_order.trans [OF _ take_is_prefix])
qed

lemma prefix_length_eq: "prefix xs ys \<Longrightarrow> length xs = length ys \<longleftrightarrow> xs = ys"
  by (auto simp: prefix_def)

lemma sent_sources_show:
  "s \<in> set (fst (sent_sources files remaining)) \<Longrightarrow> \<exists>f \<in> set files. shows_patch f s"
proof (induction files remaining rule: sent_sources.induct)
  case (2 name patch files remaining)
  let ?sent = "truncateBytes patch (min (8 * 1024) remaining)"
  show ?case
  proof (cases "name = [] \<or> patch = [] \<or> remaining = 0")
    case True
    with 2 show ?thesis by simp
  next
    case False
    show ?thesis
    proof (cases "?sent = []")
      case True
      with False 2 show ?thesis by (simp add: Let_def)
    next
      case sent: False
      have "shows_patch (name, patch) \<lparr> src_Path = name, src_Patch = ?sent, src_OriginalBytes = int (length patch),
          src_SentBytes = int (length ?sent), src_Truncated = (length ?sent \<noteq> length patch) \<rparr>"
        using truncateBytes_prefix [of patch "min (8 * 1024) remaining"] by (simp add: shows_patch_def prefix_length_eq)
      with 2 False sent show ?thesis by (auto simp: Let_def split: prod.splits)
    qed
  qed
qed simp

lemma check_sources_valid:
  "list_all (\<lambda>s. \<not> invalid_source ValidString s) ss \<Longrightarrow>
   check_sources ValidString ss sent t = Inr (sent + sent_bytes ss, t \<or> list_ex src_Truncated ss)"
proof (induction ss arbitrary: sent t)
  case (Cons s ss)
  then have "src_SentBytes s = int (length (src_Patch s))" by (simp add: invalid_source_def)
  with Cons show ?case by (simp add: failIf_def sent_bytes_def)
qed (simp add: sent_bytes_def)

lemma diff_evidence_valid:
  assumes "\<forall>x \<in> set files. ValidString (snd x)" "length files \<le> 100"
  shows "validatePullRequestDiffEvidence ValidString (diff_evidence_of files n) = None"
proof -
  obtain ss trunc where d: "sent_sources files (128 * 1024) = (ss, trunc)" by (cases "sent_sources files (128 * 1024)")
  note I = sent_sources_ok [OF d assms(1)]
  define omitted where "omitted = max n (int (length files)) - int (length ss)"
  have o: "0 \<le> omitted" "length ss < length files \<Longrightarrow> 0 < omitted" using I(4) by (auto simp: omitted_def)
  then have t: "(trunc \<or> 0 < omitted) = (0 < omitted \<or> list_ex src_Truncated ss)" using I(6,7) by blast
  have e: "diff_evidence_of files n =
      \<lparr> dv_Completeness = (if trunc \<or> 0 < omitted then ''partial'' else ''complete''), dv_OriginalFiles = max n (int (length files)),
        dv_SentFiles = int (length ss), dv_OmittedFiles = omitted, dv_OriginalBytes = (\<Sum>f\<leftarrow>files. int (length (snd f))),
        dv_SentBytes = sent_bytes ss, dv_Truncated = (trunc \<or> 0 < omitted), dv_Sources = ss \<rparr>"
    using o(1) by (simp add: diff_evidence_of_def d [simplified] omitted_def [symmetric] sent_bytes_def Let_def)
  have "int (length ss) \<le> max n (int (length files))" "length ss \<le> 100" using I(4) assms(2) by auto
  then show ?thesis
    using I(2,3,4) unfolding e validatePullRequestDiffEvidence_def
    by (simp add: check_sources_valid [OF I(1)] t omitted_def [symmetric])
qed

text \<open>One page holds all the files a collection may read.\<close>

lemma diff_files_once:
  assumes "diff_files C X deadline path token page [] s = (Inr files, s')"
  shows "\<exists>body batch. co_files C body = Some batch \<and> files = take 100 batch"
proof -
  obtain q s1 where q: "requestJSON (co_client C) X deadline (get_request (files_path path 100 page) token) (co_files C) s = (q, s1)"
    by (rule prod.exhaust)
  obtain batch where b: "q = Inr batch"
    using assms q by (cases q) (simp_all add: diff_files.simps [of _ _ _ _ _ _ "[]"] maxDiffFiles_def)
  obtain body where "co_files C body = Some batch" using requestJSON_decoded [OF q [unfolded b]] by (rule exE)
  moreover have "files = take 100 batch"
  proof (cases "length batch < 100")
    case True
    with assms q b show ?thesis by (simp add: diff_files.simps [of _ _ _ _ _ _ "[]"] maxDiffFiles_def Let_def)
  next
    case False
    then have "min (length batch) 100 = 100" by simp
    with False assms q b show ?thesis
      by (simp add: diff_files.simps [of _ _ _ _ _ _ "[]"] diff_files.simps [of _ _ _ _ _ _ "take 100 batch"] maxDiffFiles_def Let_def)
  qed
  ultimately show ?thesis by blast
qed

lemma verified_head:
  "verifyPullRequestHead C X deadline path token expected s = (Inr u, s') \<Longrightarrow> \<exists>body. co_head C body = Some expected"
  using requestJSON_decoded [of "co_client C" X deadline "get_request path token" "co_head C" s]
  by (auto simp: verifyPullRequestHead_def split: sum.splits prod.splits if_splits)

text \<open>
  C40. The store accepts every evidence of patches that the client collects, because the bounds of the two sides agree: at most
  100 files, 8 KiB for a patch and 128 KiB in total, cut at a character, with counts that add up and the flags and the
  completeness that follow from them. Each source is the start of the patch of one file GitHub listed, and is marked when it
  is not the whole patch; the head GitHub reported was the requested one.
\<close>

theorem collected_diff_accepted:
  assumes "collectPullRequestDiffOnce C X deadline repository number headSHA changedFiles s = (Inr e, s')"
    and "\<And>body files f p. co_files C body = Some files \<Longrightarrow> (f, p) \<in> set files \<Longrightarrow> ValidString p"
  shows "validatePullRequestDiffEvidence ValidString e = None \<and> dv_Completeness e \<in> {''complete'', ''partial''} \<and>
    (\<exists>body. co_head C body = Some headSHA) \<and>
    (\<exists>body files. co_files C body = Some files \<and> subseq (map src_Path (dv_Sources e)) (map fst files) \<and>
       (\<forall>x \<in> set (dv_Sources e). \<exists>f \<in> set files. shows_patch f x))"
proof -
  have "\<exists>files body batch. e = diff_evidence_of files changedFiles \<and> co_files C body = Some batch \<and> files = take 100 batch \<and>
    (\<exists>body. co_head C body = Some headSHA)"
    using assms(1) diff_files_once verified_head
    by (fastforce simp: collectPullRequestDiffOnce_def Let_def split: prod.splits sum.splits if_splits)
  then obtain files body batch where e: "e = diff_evidence_of files changedFiles" and f: "co_files C body = Some batch"
    "files = take 100 batch" and head: "\<exists>body. co_head C body = Some headSHA" by blast
  have valid: "\<forall>x \<in> set files. ValidString (snd x)" using assms(2) [OF f(1)] by (auto simp: f(2) dest!: in_set_takeD)
  have "validatePullRequestDiffEvidence ValidString e = None"
    unfolding e by (rule diff_evidence_valid [OF valid]) (simp_all add: f(2))
  obtain ss trunc where d: "sent_sources files (128 * 1024) = (ss, trunc)" by (cases "sent_sources files (128 * 1024)")
  then have ss: "dv_Sources e = ss" and "dv_Completeness e \<in> {''complete'', ''partial''}"
    by (simp_all add: e diff_evidence_of_def Let_def)
  have "subseq (map fst files) (map fst batch)" unfolding f(2) take_map [symmetric]
    by (rule prefix_imp_subseq [OF take_is_prefix])
  then have "subseq (map src_Path ss) (map fst batch)"
    using sent_sources_ok(5) [OF d valid] by (metis subseq_order.trans)
  moreover have "\<exists>f \<in> set batch. shows_patch f x" if "x \<in> set ss" for x
  proof -
    from sent_sources_show [of x files "128 * 1024"] that obtain f0 where "f0 \<in> set files" "shows_patch f0 x"
      by (auto simp: d [simplified])
    then show ?thesis unfolding f(2) by (blast dest: in_set_takeD)
  qed
  ultimately have "\<exists>body files. co_files C body = Some files \<and> subseq (map src_Path (dv_Sources e)) (map fst files) \<and>
       (\<forall>x \<in> set (dv_Sources e). \<exists>f \<in> set files. shows_patch f x)"
    unfolding ss using f(1) by blast
  with \<open>validatePullRequestDiffEvidence ValidString e = None\<close> \<open>dv_Completeness e \<in> {''complete'', ''partial''}\<close> head
  show ?thesis by blast
qed

lemma stub_answers:
  assumes "0 < cs_count s"
  shows "requestJSON (stub_client p) limited_once d r decode s =
    ((case decode ''{}'' of None \<Rightarrow> Inl (Wrapped ''decode GitHub API response'' (Plain [])) | Some v \<Rightarrow> Inr v), s\<lparr>cs_count := Suc (cs_count s)\<rparr>)"
  using assms by (simp add: requestJSON_def doRequest_def request_loop.simps [of _ _ _ _ 0] exchange_def stub_simps rateLimitWait_def
      observeRateLimit_def Atoi_def Let_def split: option.split)

lemma stub_diff_run:
  "\<exists>e s'. collectPullRequestDiffOnce stub_collect limited_once None ''o/r'' 7 ''abc'' 2 (stub_start\<lparr>cs_count := 1\<rparr>) = (Inr e, s') \<and>
     map src_Patch (dv_Sources e) = [''+1''] \<and> dv_OmittedFiles e = 1"
proof -
  have client: "co_client stub_collect = stub_client ProfileFineGrainedPAT" "ce_profile (stub_client ProfileFineGrainedPAT) = ProfileFineGrainedPAT"
    "co_head stub_collect b = Some ''abc''" "co_files stub_collect b = Some [(''a.go'', ''+1''), (''b.go'', [])]" for b
    by (simp_all add: stub_collect_def stub_client_def)
  have start: "cs_count (stub_start\<lparr>cs_count := n\<rparr>) = n" "stub_start\<lparr>cs_count := n, cs_count := m\<rparr> = stub_start\<lparr>cs_count := m\<rparr>" for n m
    by simp_all
  have cut: "Cut ''o/r'' (CHR ''/'') = (''o'', ''r'', True)" by code_simp
  have files: "diff_files stub_collect limited_once None path t (Suc 0) [] (stub_start\<lparr>cs_count := Suc (Suc 0)\<rparr>) =
      (Inr [(''a.go'', ''+1''), (''b.go'', [])], stub_start\<lparr>cs_count := Suc (Suc (Suc 0))\<rparr>)" for path t
    by (simp add: diff_files.simps [of _ _ _ _ _ _ "[]"] maxDiffFiles_def client stub_answers Let_def)
  have "collectPullRequestDiffOnce stub_collect limited_once None ''o/r'' 7 ''abc'' 2 (stub_start\<lparr>cs_count := 1\<rparr>) =
    (Inr (diff_evidence_of [(''a.go'', ''+1''), (''b.go'', [])] 2), stub_start\<lparr>cs_count := Suc (Suc (Suc (Suc 0)))\<rparr>)"
    by (simp add: collectPullRequestDiffOnce_def cut accessToken_def client verifyPullRequestHead_def stub_answers files Let_def)
  moreover have "map src_Patch (dv_Sources (diff_evidence_of [(''a.go'', ''+1''), (''b.go'', [])] 2)) = [''+1'']"
    "dv_OmittedFiles (diff_evidence_of [(''a.go'', ''+1''), (''b.go'', [])] 2) = 1"
    by (simp_all add: diff_evidence_of_def truncateBytes_def Let_def)
  ultimately show ?thesis by (intro exI conjI)
qed

theorem collected_diff_accepted_witness:
  "\<exists>e s'. collectPullRequestDiffOnce stub_collect limited_once None ''o/r'' 7 ''abc'' 2 (stub_start\<lparr>cs_count := 1\<rparr>) = (Inr e, s') \<and>
     map src_Patch (dv_Sources e) = [''+1''] \<and> dv_OmittedFiles e = 1 \<and> validatePullRequestDiffEvidence ValidString e = None"
proof -
  have "ValidString ''+1''" "ValidString []" by code_simp+
  then have valid: "\<And>body files f p. co_files stub_collect body = Some files \<Longrightarrow> (f, p) \<in> set files \<Longrightarrow> ValidString p"
    by (auto simp: stub_collect_def)
  show ?thesis using stub_diff_run
  proof (elim exE conjE)
    fix e s' assume D: "collectPullRequestDiffOnce stub_collect limited_once None ''o/r'' 7 ''abc'' 2 (stub_start\<lparr>cs_count := 1\<rparr>) = (Inr e, s')"
      "map src_Patch (dv_Sources e) = [''+1'']" "dv_OmittedFiles e = 1"
    from collected_diff_accepted [OF D(1) valid] have "validatePullRequestDiffEvidence ValidString e = None" by (rule conjunct1)
    with D show ?thesis by (intro exI conjI)
  qed
qed

end
