(* ===== verification/Spec2Isabelle.thy ===== *)
theory Spec2Isabelle
  imports ListQuery GoTime Routes ConfigFacts Setup Coordinator Queue QualityFacts SchedulerProps
    Contribution Diffs EvidenceFacts CorrelationProps AnalysisProps AccessProps MinePages RetentionProps CollectProps
begin

text \<open>
  \<^bold>\<open>Maintainer cockpit: a verification library.\<close>

  The service collects the open pull requests of configured GitHub repositories, keeps them in a
  relational store, assesses and analyses them, and serves prioritised lists. This library models
  its Go code; \<open>src/\<close> is the repository, packages are named by their directory under
  \<open>src/internal\<close>.

  \<^bold>\<open>How the parts interact.\<close> A configuration (\<open>Config\<close>) that passes validation gives the
  credential profiles of each owner and the clients made from them (\<open>Setup\<close>); every start and reload of the service
  applies it to the store, and retention runs remove what fell out of it (\<open>Sync\<close>). The coordinator
  (\<open>Coordinator\<close>) dispatches scheduled work by enqueueing rows of durable job tables
  (\<open>Queue\<close>). The refresh worker (\<open>Scheduler\<close>) claims a refresh job and moves its staged
  generation (\<open>RefreshStore\<close>) one step on: discovery, hydration in batches, progress, publishing.
  It asks GitHub through the router (\<open>Router\<close>) and a client with rate-limit retries and installation tokens
  (\<open>Requests\<close>, \<open>Collect\<close>), records the route attempts (\<open>Routes\<close>),
  publishes pull requests with their quality (\<open>Snapshot\<close>, \<open>Quality\<close>) and activity
  (\<open>Progress\<close>). A published snapshot enqueues follow-up jobs in the same transaction: the evidence
  worker (\<open>EvidenceWorker\<close>) collects author histories, public facts and diffs (\<open>Evidence\<close>,
  \<open>Diffs\<close>), settled diffs release analysis jobs for the analysis worker (\<open>AnalysisWorker\<close>), and the
  correlation worker (\<open>CorrelationWorker\<close>) groups the pull requests of a collection; its groups
  are sources of later analyses. Clients of the service page through the published pull
  requests with the queries and cursors of \<open>ListQuery\<close>; signed-in users (\<open>Sessions\<close>,
  \<open>Access\<close>) keep private marks, hidden states and goals beside them, which the cascades of a
  snapshot remove with the pull request, and page through their own marks (\<open>Mine\<close>).

  \<^bold>\<open>Theories and the code they model.\<close>
  \<^item> \<open>Prelude\<close>: results of fallible functions, first-error loops, tables as row lists.
  \<^item> \<open>GoStrings\<close>, \<open>GoTime\<close>, \<open>GoRegexp\<close>: the parts of Go's \<open>strings\<close>, \<open>strconv\<close>,
    \<open>time\<close> and \<open>regexp\<close> that the code uses; \<open>formatTime\<close> of \<open>storage/store.go\<close>.
  \<^item> \<open>ListQuery\<close>: \<open>query/query.go\<close>, the query parameters and cursors of the lists.
  \<^item> \<open>Failures\<close>, \<open>Router\<close>: \<open>githubapp/failure.go\<close>, \<open>githubapp/router.go\<close>, the ordered
    credential profiles of an owner and the classification of failures.
  \<^item> \<open>Routes\<close>: the recorded route attempts of \<open>storage/store.go\<close>.
  \<^item> \<open>Config\<close>, \<open>ConfigFacts\<close>: \<open>config/config.go\<close>, validation of the configuration.
  \<^item> \<open>Setup\<close>: \<open>cmd/maintainer-cockpit\<close>, the clients, plans and identities made from it.
  \<^item> \<open>Coordinator\<close>: \<open>periodic/coordinator.go\<close>, \<open>storage/periodic.go\<close>, scheduled dispatch.
  \<^item> \<open>Queue\<close>: the statements the six durable job tables of the store share, and the interface
    \<open>job_queue\<close> of the workers.
  \<^item> \<open>Quality\<close>, \<open>QualityFacts\<close>: \<open>quality/quality.go\<close>, the deterministic quality rules.
  \<^item> \<open>Tables\<close>, \<open>Snapshot\<close>, \<open>SnapshotFacts\<close>: the tables of published pull requests in
    \<open>storage/store.go\<close> with their cascades, and \<open>replaceRepositorySnapshot\<close>.
  \<^item> \<open>Progress\<close>: \<open>storage/progress.go\<close>, activity events, review threads and goals.
  \<^item> \<open>RefreshStore\<close>, \<open>RefreshFacts\<close>, \<open>RefreshProps\<close>: \<open>storage/refresh_generation.go\<close> and
    the refresh jobs of \<open>storage/store.go\<close>, as a state machine with its invariant.
  \<^item> \<open>Scheduler\<close>, \<open>SchedulerFacts\<close>, \<open>SchedulerProps\<close>: \<open>refresh/scheduler.go\<close>, the worker.
  \<^item> \<open>Contribution\<close>: \<open>contribution/contribution.go\<close>, the level and unusual activity of an author.
  \<^item> \<open>Evidence\<close>, \<open>Diffs\<close>, \<open>EvidenceWorker\<close>, \<open>EvidenceFacts\<close>: the author evidence of
    \<open>storage/store.go\<close>, \<open>storage/author_evidence.go\<close>, \<open>storage/periodic.go\<close>, the diff evidence of
    \<open>storage/diff.go\<close> and \<open>evidenceworker/worker.go\<close>.
  \<^item> \<open>Correlation\<close>, \<open>CorrelationFacts\<close>: \<open>correlation/correlation.go\<close>, requests and the validation
    of answers; \<open>CorrelationStore\<close>, \<open>CorrelationWorker\<close>, \<open>CorrelationProps\<close>:
    \<open>storage/correlation.go\<close> and \<open>correlationworker/worker.go\<close>.
  \<^item> \<open>AnalysisTypes\<close>, \<open>Analysis\<close>, \<open>AnalysisFacts\<close>: \<open>analysis/analysis.go\<close>, requests, the
    validation of the sections of an answer and their merging; \<open>AnalysisStore\<close>,
    \<open>AnalysisWorker\<close>, \<open>AnalysisSamples\<close>, \<open>AnalysisProps\<close>: \<open>storage/analysis.go\<close> and
    \<open>analysisworker/worker.go\<close>.
  \<^item> \<open>Sessions\<close>, \<open>Access\<close>, \<open>AccessProps\<close>: \<open>storage/auth.go\<close>, \<open>storage/important.go\<close>,
    \<open>storage/hidden.go\<close>, \<open>auth/auth.go\<close>, and the guards, state-changing handlers and dispatch of
    \<open>application/application.go\<close>.

  \<^item> \<open>Mine\<close>, \<open>MinePages\<close>: the Mine view of \<open>storage/important.go\<close> and following its cursors.
  \<^item> \<open>Sync\<close>, \<open>SyncFacts\<close>, \<open>SyncProps\<close>, \<open>RetentionProps\<close>: \<open>SyncCollectionsAt\<close> of
    \<open>storage/store.go\<close> and \<open>RunRetention\<close> of \<open>storage/operations.go\<close>.
  \<^item> \<open>Requests\<close>, \<open>Collect\<close>, \<open>CollectProps\<close>: the request layer of \<open>githubapp/client.go\<close> with its
    retries and tokens, the discovery of open pull requests and the patches of a head.

  \<^bold>\<open>State and operations.\<close> The store is a record of tables, a table the list of its rows in
  rowid order; an operation that runs in one transaction is a function from the tables to an
  error or the new tables, so an error leaves them unchanged. The worker runs several
  transactions: its steps are functions from a world to an error or a value, and the world that
  the committed transactions left. Times are integers, nanoseconds since year 1, in memory and
  text in rows. A JSON column holds the decoded value where only this code reads and writes it.

  \<^bold>\<open>What the lemmas show.\<close> For each component: the accepted inputs and every error branch, an
  invariant that each operation preserves (\<open>route_db_ok\<close>, \<open>queue_ok\<close>, \<open>refresh_ok\<close>), and
  its contract. The refresh worker refines the step relation \<open>refresh_step\<close>, so its runs keep
  \<open>refresh_ok\<close> (\<open>safe\<close> and the lemmas on it); \<open>items_advance\<close> and \<open>steps_left\<close> measure its
  progress; \<open>publish_spec\<close> is the abstract effect of a snapshot. The evidence, correlation and analysis
  workers share the queue lemmas of \<open>Queue\<close>; for each: what is accepted from a model or from
  GitHub is valid (\<open>result_ok\<close>, the grounding of groups in known sources), it is only published
  for inputs that are still current, and a round settles the job it claimed. The guards of the
  handlers are instances of the locale \<open>session_guard\<close>, from which access control follows for
  every mutating route (\<open>within\<close> bounds the private rows that change). A synchronisation establishes the
  agreement of store and configuration (\<open>sync_matches_configuration\<close>), and a removed collection can be
  restored within its seven days unless a refresh of a repository it shares ran meanwhile
  (\<open>shared_refresh_drops_retained\<close>). The provider of the client is an arbitrary function of the exchange,
  so the bounds on retries and the facts about collected patches hold whatever it answers; the
  evidence the client builds satisfies the validation of \<open>Diffs\<close>.

  \<^bold>\<open>Recursion and fuel.\<close> Loops over data are structural recursions. The backtracking matcher of
  \<open>GoRegexp\<close> takes the length of the subject as fuel for a repetition, which is enough because
  an iteration must consume a byte. The routing loop answers \<open>None\<close> where the code would panic;
  \<open>routeRepositoryPhase_trace\<close> shows that it never does. The round loop of the worker runs
  over the given instants. The retry loop of a request and the loop over files end by a measure; the list
  of open pull requests has as many pages as the provider says, so it takes their number and is \<open>None\<close> below it.

  \<^bold>\<open>Not modelled.\<close> The bodies of the read handlers and pages of \<open>application\<close> and the list
  statements of the store behind them (each is one large SQL query), the daily report, the collectors of the
  GitHub client other than discovery and patches (hydration, progress, contributions: they
  assemble many JSON answers), the HTTP model providers, the schema of the database and its migration, telemetry and logging, the commands,
  and the web interface. The parsers of YAML, JSON, base64, URLs, time zones and cron expressions,
  Unicode tables, SHA-256 and random numbers are parameters. Failures of the database itself
  (I/O, cancellation of a statement) are not modelled, nor is the interleaving of the jobs of one
  round of a worker: they belong to different rows and are processed one after the other; what
  the rest of the service does to the store while a model is asked is a parameter of the analysis
  and correlation workers.
\<close>

end
